(* ===== verification/Prelude.thy ===== *)
theory Prelude
  imports Main "HOL-Library.Word" "HOL-Library.Monad_Syntax"
begin

unbundle bit_operations_syntax

text \<open>
  What every component of the development shares: the C integer types as words, the
  byte-order helpers, reads of a byte buffer that fail outside it, the polling loop of the
  port layer (one body, run until it returns) with its rules, and the locale that states
  when such a loop is sure to return.
\<close>

section \<open>Machine integers and bytes\<close>

type_synonym u8 = "8 word"
type_synonym u16 = "16 word"
type_synonym u32 = "32 word"
type_synonym bytes = "u8 list"

named_theorems frame_simps "what an operation leaves unchanged"
named_theorems eval_defs "definitions unfolded to evaluate a closed term"

definition be16_of :: "u8 \<Rightarrow> u8 \<Rightarrow> u16" where
  "be16_of a b = (push_bit 8 (ucast a)) OR ucast b"

definition be32_of :: "u8 \<Rightarrow> u8 \<Rightarrow> u8 \<Rightarrow> u8 \<Rightarrow> u32" where
  "be32_of a b c d =
     (push_bit 24 (ucast a)) OR (push_bit 16 (ucast b)) OR (push_bit 8 (ucast c)) OR ucast d"

definition hi8 :: "u16 \<Rightarrow> u8" where "hi8 w = ucast (drop_bit 8 w)"
definition lo8 :: "u16 \<Rightarrow> u8" where "lo8 w = ucast w"

definition bswap16 :: "u16 \<Rightarrow> u16" where
  "bswap16 w = (push_bit 8 w) OR (drop_bit 8 w)"

lemma be16_of_split [simp]: "be16_of (hi8 w) (lo8 w) = w"
  unfolding be16_of_def hi8_def lo8_def
  by (rule bit_eqI) (auto simp: bit_simps)

lemma hi8_be16_of [simp]: "hi8 (be16_of a b) = a"
  unfolding be16_of_def hi8_def
  by (rule bit_eqI) (auto simp: bit_simps bit_imp_le_length dest: bit_imp_le_length)

lemma lo8_be16_of [simp]: "lo8 (be16_of a b) = b"
  unfolding be16_of_def lo8_def
  by (rule bit_eqI) (auto simp: bit_simps)

lemma be32_of_split:
  "be32_of (ucast (drop_bit 24 w)) (ucast (drop_bit 16 w)) (ucast (drop_bit 8 w)) (ucast w) = (w :: u32)"
proof (rule bit_eqI)
  fix n assume "possible_bit TYPE(32 word) n"
  then have "n < 32" by simp
  then consider "n < 8" | "8 \<le> n" "n < 16" | "16 \<le> n" "n < 24" | "24 \<le> n" "n < 32"
    by linarith
  then show "bit (be32_of (ucast (drop_bit 24 w)) (ucast (drop_bit 16 w))
      (ucast (drop_bit 8 w)) (ucast w)) n = bit w n"
    by cases (auto simp: be32_of_def bit_simps)
qed

lemma bswap16_bswap16 [simp]: "bswap16 (bswap16 w) = w"
  unfolding bswap16_def
  by (rule bit_eqI) (auto simp: bit_simps dest: bit_imp_le_length)

section \<open>Buffers\<close>

text \<open>
  A read at an index outside the buffer is a value of the model (\<open>None\<close>), so that
  "the parser never reads outside what was received" is a statement about the code.
\<close>

definition rd :: "'a list \<Rightarrow> nat \<Rightarrow> 'a option" where
  "rd p i = (if i < length p then Some (p ! i) else None)"

lemma rd_Some [simp]: "i < length p \<Longrightarrow> rd p i = Some (p ! i)"
  by (simp add: rd_def)

lemma rd_None [simp]: "length p \<le> i \<Longrightarrow> rd p i = None"
  by (simp add: rd_def)

definition rd_n :: "'a list \<Rightarrow> nat \<Rightarrow> nat \<Rightarrow> 'a list option" where
  "rd_n p i n = (if i + n \<le> length p then Some (take n (drop i p)) else None)"

lemma rd_n_Some [simp]: "i + n \<le> length p \<Longrightarrow> rd_n p i n = Some (take n (drop i p))"
  by (simp add: rd_n_def)

lemma nth_upd: "xs[i := x] ! j = (if i = j \<and> j < length xs then x else xs ! j)"
  by (cases "i < length xs") (auto simp: nth_list_update not_less list_update_beyond)

lemma nth_update_same:
  "(\<And>d. g (f d) = g d) \<Longrightarrow> g (xs[n := f (xs ! n)] ! i) = g (xs ! i)"
  by (simp add: nth_upd)

definition rd16 :: "bytes \<Rightarrow> nat \<Rightarrow> u16 option" where
  "rd16 p i = do { a \<leftarrow> rd p i; b \<leftarrow> rd p (i + 1); Some (be16_of a b) }"

lemma rd16_Some [simp]: "i + 1 < length p \<Longrightarrow> rd16 p i = Some (be16_of (p ! i) (p ! (i + 1)))"
  by (simp add: rd16_def)

section \<open>Polling loops\<close>

text \<open>
  The C waits are \<open>for (;;) { ... return ...; ... yield(); }\<close>. The body is a function that
  either returns a value (\<open>Some r\<close>) or asks for another turn (\<open>None\<close>); the loop runs the
  body until it returns. Fuel bounds the number of turns: \<open>None\<close> as the result of the loop
  means that the loop had not returned after that many turns.
\<close>

fun poll_loop :: "nat \<Rightarrow> ('s \<Rightarrow> 'r option \<times> 's) \<Rightarrow> 's \<Rightarrow> ('r \<times> 's) option" where
  "poll_loop 0 body s = None"
| "poll_loop (Suc n) body s =
     (case body s of (Some r, s') \<Rightarrow> Some (r, s') | (None, s') \<Rightarrow> poll_loop n body s')"

lemma poll_loop_numeral:
  "poll_loop (numeral k) body s =
     (case body s of (Some r, s') \<Rightarrow> Some (r, s') | (None, s') \<Rightarrow> poll_loop (pred_numeral k) body s')"
  by (simp add: numeral_eq_Suc)

lemma poll_loop_mono:
  "poll_loop n body s = Some x \<Longrightarrow> n \<le> m \<Longrightarrow> poll_loop m body s = Some x"
proof (induction n arbitrary: s m)
  case 0
  then show ?case by simp
next
  case (Suc n)
  then obtain k where "m = Suc k" "n \<le> k" by (cases m) auto
  with Suc show ?case by (auto split: prod.splits option.splits)
qed

lemma poll_loop_rule:
  assumes "poll_loop n body s = Some (r, s')" and "I s"
    and "\<And>t t'. I t \<Longrightarrow> body t = (None, t') \<Longrightarrow> I t'"
    and "\<And>t q t'. I t \<Longrightarrow> body t = (Some q, t') \<Longrightarrow> Q q t'"
  shows "Q r s'"
  using assms(1,2)
proof (induction n arbitrary: s)
  case 0
  then show ?case by simp
next
  case (Suc n)
  then show ?case
    using assms(3,4) by (auto split: prod.splits option.splits)
qed

lemma poll_loop_first:
  "body s = (Some r, s') \<Longrightarrow> 0 < n \<Longrightarrow> poll_loop n body s = Some (r, s')"
  by (cases n) auto

text \<open>A loop whose body never returns from an invariant set of states runs out of any fuel.\<close>

lemma poll_loop_stuck:
  assumes "I s" and "\<And>t. I t \<Longrightarrow> \<exists>t'. body t = (None, t') \<and> I t'"
  shows "poll_loop n body s = None"
  using assms(1)
proof (induction n arbitrary: s)
  case 0
  then show ?case by simp
next
  case (Suc n)
  then obtain t where "body s = (None, t)" "I t" using assms(2) by blast
  with Suc.IH show ?case by simp
qed

text \<open>
  The interface between a wait and the clock that bounds it: as long as the body asks for
  another turn, the invariant is kept and a measure gets smaller. Then the loop returns
  within a number of turns that the measure bounds.
\<close>

locale wait_loop =
  fixes body :: "'s \<Rightarrow> 'r option \<times> 's"
    and inv :: "'s \<Rightarrow> bool"
    and mu :: "'s \<Rightarrow> nat"
  assumes turn: "inv s \<Longrightarrow> body s = (None, s') \<Longrightarrow> inv s' \<and> mu s' < mu s"
begin

lemma returns: "inv s \<Longrightarrow> mu s < n \<Longrightarrow> \<exists>r s'. poll_loop n body s = Some (r, s')"
proof (induction n arbitrary: s)
  case 0
  then show ?case by simp
next
  case (Suc n)
  show ?case
  proof (cases "body s")
    case (Pair q t)
    show ?thesis
    proof (cases q)
      case None
      with Pair Suc.prems turn have "inv t" "mu t < n" by fastforce+
      with Suc.IH None Pair show ?thesis by simp
    next
      case (Some r)
      with Pair show ?thesis by simp
    qed
  qed
qed

end

end
