(* ===== verification/IoLib.thy ===== *)
theory IoLib
  imports Prelude
begin

text \<open>
  The WIZnet ioLibrary (a git submodule, not part of the repository) and the FreeRTOS clock
  as a parameter of the model. The world the library acts on (the chip, the network, the
  clock) is a type variable \<open>'c\<close>; the record holds one field per library function or
  register accessor that \<open>wiznet_toe.c\<close> calls, each taking the world and returning what the C
  call returns together with the next world. Nothing is assumed about the fields here; a
  statement that relies on documented behaviour of the library names it as a hypothesis.
  The socket-status register is read as a value of \<open>sock_status\<close>: the constants the source
  compares with, and \<open>SOCK_STATE n\<close> for any other register value.
\<close>

datatype sock_status =
    SOCK_CLOSED | SOCK_INIT | SOCK_LISTEN | SOCK_SYNRECV | SOCK_ESTABLISHED
  | SOCK_CLOSE_WAIT | SOCK_UDP | SOCK_STATE u8

datatype sn_mode = Sn_MR_TCP | Sn_MR_UDP

datatype netmode = NETINFO_STATIC | NETINFO_DHCP

text \<open>The part of \<open>wiz_NetInfo\<close> the code writes by name; \<open>ni_ipmode\<close> stands for the W6300
  fields the code only carries along.\<close>

record wiz_NetInfo =
  ni_mac :: bytes
  ni_ip :: bytes
  ni_sn :: bytes
  ni_gw :: bytes
  ni_dns :: bytes
  ni_dhcp :: netmode
  ni_ipmode :: u8

record 'c iolib =
  io_socket :: "u8 \<Rightarrow> sn_mode \<Rightarrow> u16 \<Rightarrow> u8 \<Rightarrow> 'c \<Rightarrow> int \<times> 'c"
  io_listen :: "u8 \<Rightarrow> 'c \<Rightarrow> int \<times> 'c"
  io_close :: "u8 \<Rightarrow> 'c \<Rightarrow> 'c"
  io_connect :: "u8 \<Rightarrow> bytes \<Rightarrow> u16 \<Rightarrow> 'c \<Rightarrow> int \<times> 'c"
  io_send :: "u8 \<Rightarrow> bytes \<Rightarrow> 'c \<Rightarrow> int \<times> 'c"
  io_recv :: "u8 \<Rightarrow> u16 \<Rightarrow> 'c \<Rightarrow> (int \<times> bytes) \<times> 'c"
  io_sendto :: "u8 \<Rightarrow> bytes \<Rightarrow> bytes \<Rightarrow> u16 \<Rightarrow> 'c \<Rightarrow> int \<times> 'c"
  io_recvfrom :: "u8 \<Rightarrow> u16 \<Rightarrow> 'c \<Rightarrow> (int \<times> bytes \<times> bytes \<times> u16) \<times> 'c"
  io_getSn_SR :: "u8 \<Rightarrow> 'c \<Rightarrow> sock_status \<times> 'c"
  io_getSn_CR :: "u8 \<Rightarrow> 'c \<Rightarrow> u8 \<times> 'c"
  io_setSn_CR_DISCON :: "u8 \<Rightarrow> 'c \<Rightarrow> 'c"
  io_Sn_IR_TIMEOUT :: "u8 \<Rightarrow> 'c \<Rightarrow> bool \<times> 'c"
  io_getSn_RX_RSR :: "u8 \<Rightarrow> 'c \<Rightarrow> u16 \<times> 'c"
  io_getSn_TX_FSR :: "u8 \<Rightarrow> 'c \<Rightarrow> u16 \<times> 'c"
  io_getSn_RxMAX :: "u8 \<Rightarrow> 'c \<Rightarrow> u16 \<times> 'c"
  io_getSn_TxMAX :: "u8 \<Rightarrow> 'c \<Rightarrow> u16 \<times> 'c"
  io_getSn_DIPR :: "u8 \<Rightarrow> 'c \<Rightarrow> bytes \<times> 'c"
  io_getSn_DPORT :: "u8 \<Rightarrow> 'c \<Rightarrow> u16 \<times> 'c"
  io_setSn_KPALVTR :: "u8 \<Rightarrow> u8 \<Rightarrow> 'c \<Rightarrow> 'c"
  io_setSn_TTL :: "u8 \<Rightarrow> u8 \<Rightarrow> 'c \<Rightarrow> 'c"
  io_setSn_TOS :: "u8 \<Rightarrow> u8 \<Rightarrow> 'c \<Rightarrow> 'c"
  io_getSn_TTL :: "u8 \<Rightarrow> 'c \<Rightarrow> u8 \<times> 'c"
  io_getSn_TOS :: "u8 \<Rightarrow> 'c \<Rightarrow> u8 \<times> 'c"
  io_getSIPR :: "'c \<Rightarrow> u32 \<times> 'c"
  io_CW_SYS_UNLOCK :: "'c \<Rightarrow> 'c"
  io_CN_SET_NETINFO :: "wiz_NetInfo \<Rightarrow> 'c \<Rightarrow> 'c"
  io_CN_GET_NETINFO :: "'c \<Rightarrow> wiz_NetInfo \<times> 'c"
  io_CW_GET_PHYLINK :: "'c \<Rightarrow> (int \<times> u8) \<times> 'c"
  io_time_us :: "'c \<Rightarrow> u32 \<times> 'c"
  io_yield_1ms :: "'c \<Rightarrow> 'c"
  io_SOCK_OK :: int
  io_SOCKERR_SOCKSTATUS :: int
  io_SOCKERR_SOCKCLOSED :: int
  io_SF_TCP_NODELAY :: u8
  io_PHY_LINK_ON :: u8
  io_newer_than_W5500 :: bool

end
