(* ===== verification/Toe_Desc.thy ===== *)
theory Toe_Desc
  imports IoLib
begin

text \<open>
  The descriptor and hardware-socket tables of \<open>wiznet_toe.c\<close>: \<open>g_desc\<close>, \<open>g_sn_owner\<close> and
  \<open>g_tables_init\<close>, their lazy initialisation, the allocators and releases, and the operations
  that touch the tables only. The chip is the last field of the state.
\<close>

section \<open>State\<close>

definition WIZTOE_MAX_SOCK :: nat where "WIZTOE_MAX_SOCK = 8"
definition WIZTOE_MAX_DESC :: nat where "WIZTOE_MAX_DESC = WIZTOE_MAX_SOCK"
definition TOE_SN_FREE :: int where "TOE_SN_FREE = -1"
definition TOE_SN_RAW :: int where "TOE_SN_RAW = -2"

definition WIZTOE_ERR_TIMEOUT :: int where "WIZTOE_ERR_TIMEOUT = -2"
definition WIZTOE_ERR_WOULDBLOCK :: int where "WIZTOE_ERR_WOULDBLOCK = -3"
definition WIZTOE_DEFER :: int where "WIZTOE_DEFER = 1"

lemmas toe_consts [eval_defs] =
  WIZTOE_MAX_SOCK_def WIZTOE_MAX_DESC_def TOE_SN_FREE_def TOE_SN_RAW_def
  WIZTOE_ERR_TIMEOUT_def WIZTOE_ERR_WOULDBLOCK_def WIZTOE_DEFER_def

text \<open>\<open>toe_desc_t\<close>; the \<open>uint8_t\<close> members that hold 0 or 1 are booleans.\<close>

record toe_desc_t =
  d_used :: bool
  d_sn :: int
  d_is_udp :: bool
  d_opened :: bool
  d_listening :: bool
  d_nodelay :: bool
  d_nonblocking :: bool
  d_rd_shutdown :: bool
  d_port :: u16
  d_rcv_timeout_ms :: u32
  d_snd_timeout_ms :: u32
  d_dst_ip :: bytes
  d_dst_port :: u16
  d_connected :: bool

definition desc_zero :: toe_desc_t where
  "desc_zero = \<lparr>d_used = False, d_sn = 0, d_is_udp = False, d_opened = False,
     d_listening = False, d_nodelay = False, d_nonblocking = False, d_rd_shutdown = False,
     d_port = 0, d_rcv_timeout_ms = 0, d_snd_timeout_ms = 0, d_dst_ip = [0, 0, 0, 0],
     d_dst_port = 0, d_connected = False\<rparr>"

record 'c toe =
  g_desc :: "toe_desc_t list"
  g_sn_owner :: "int list"
  g_tables_init :: bool
  chip :: 'c

text \<open>The statics at start-up: all zero.\<close>

definition toe_boot :: "'c \<Rightarrow> 'c toe" where
  "toe_boot c = \<lparr>g_desc = replicate WIZTOE_MAX_DESC desc_zero,
     g_sn_owner = replicate WIZTOE_MAX_SOCK 0, g_tables_init = False, chip = c\<rparr>"

abbreviation desc :: "'c toe \<Rightarrow> int \<Rightarrow> toe_desc_t" where
  "desc s fd \<equiv> g_desc s ! nat fd"

definition upd_desc :: "int \<Rightarrow> (toe_desc_t \<Rightarrow> toe_desc_t) \<Rightarrow> 'c toe \<Rightarrow> 'c toe" where
  "upd_desc fd f s = s\<lparr>g_desc := (g_desc s)[nat fd := f (desc s fd)]\<rparr>"

definition set_owner :: "int \<Rightarrow> int \<Rightarrow> 'c toe \<Rightarrow> 'c toe" where
  "set_owner k v s = s\<lparr>g_sn_owner := (g_sn_owner s)[nat k := v]\<rparr>"

text \<open>A library call that returns a value, and one whose value the code ignores.\<close>

definition on_chip :: "('c \<Rightarrow> 'r \<times> 'c) \<Rightarrow> 'c toe \<Rightarrow> 'r \<times> 'c toe" where
  "on_chip f s = (fst (f (chip s)), s\<lparr>chip := snd (f (chip s))\<rparr>)"

definition chip_do :: "('c \<Rightarrow> 'c) \<Rightarrow> 'c toe \<Rightarrow> 'c toe" where
  "chip_do f s = s\<lparr>chip := f (chip s)\<rparr>"

lemma g_desc_upd_desc [simp]: "g_desc (upd_desc fd f s) = (g_desc s)[nat fd := f (desc s fd)]"
  and g_sn_owner_upd_desc [simp]: "g_sn_owner (upd_desc fd f s) = g_sn_owner s"
  and g_tables_init_upd_desc [simp]: "g_tables_init (upd_desc fd f s) = g_tables_init s"
  and chip_upd_desc [simp]: "chip (upd_desc fd f s) = chip s"
  by (simp_all add: upd_desc_def)

lemma g_desc_set_owner [simp]: "g_desc (set_owner k v s) = g_desc s"
  and g_sn_owner_set_owner [simp]: "g_sn_owner (set_owner k v s) = (g_sn_owner s)[nat k := v]"
  and g_tables_init_set_owner [simp]: "g_tables_init (set_owner k v s) = g_tables_init s"
  and chip_set_owner [simp]: "chip (set_owner k v s) = chip s"
  by (simp_all add: set_owner_def)

lemma g_desc_chip_do [simp]: "g_desc (chip_do f s) = g_desc s"
  and g_sn_owner_chip_do [simp]: "g_sn_owner (chip_do f s) = g_sn_owner s"
  and g_tables_init_chip_do [simp]: "g_tables_init (chip_do f s) = g_tables_init s"
  and chip_chip_do [simp]: "chip (chip_do f s) = f (chip s)"
  by (simp_all add: chip_do_def)

section \<open>Helpers and allocators\<close>

definition toe_deadline_passed :: "'c iolib \<Rightarrow> u32 \<Rightarrow> u32 \<Rightarrow> 'c toe \<Rightarrow> bool \<times> 'c toe" where
  "toe_deadline_passed io started timeout_ms s =
     (if timeout_ms = 0 then (False, s)
      else let (now, s1) = on_chip (io_time_us io) s
           in (timeout_ms * 1000 \<le> now - started, s1))"

definition toe_tables_init :: "'c toe \<Rightarrow> 'c toe" where
  "toe_tables_init s =
     (if g_tables_init s then s
      else s\<lparr>g_sn_owner := map (\<lambda>_. TOE_SN_FREE) (g_sn_owner s),
             g_desc := map (\<lambda>d. d\<lparr>d_sn := -1\<rparr>) (g_desc s),
             g_tables_init := True\<rparr>)"

definition desc_cleared :: toe_desc_t where
  "desc_cleared = desc_zero\<lparr>d_sn := -1\<rparr>"

definition toe_desc_clear :: "int \<Rightarrow> 'c toe \<Rightarrow> 'c toe" where
  "toe_desc_clear fd s = upd_desc fd (\<lambda>_. desc_cleared) s"

definition toe_fd_valid :: "'c toe \<Rightarrow> int \<Rightarrow> bool" where
  "toe_fd_valid s fd \<longleftrightarrow> 0 \<le> fd \<and> fd < int WIZTOE_MAX_DESC \<and> d_used (desc s fd)"

definition toe_fd_ready :: "'c toe \<Rightarrow> int \<Rightarrow> bool" where
  "toe_fd_ready s fd \<longleftrightarrow> toe_fd_valid s fd \<and> 0 \<le> d_sn (desc s fd)"

definition toe_sn :: "'c toe \<Rightarrow> int \<Rightarrow> u8" where
  "toe_sn s fd = word_of_int (d_sn (desc s fd))"

definition toe_desc_alloc :: "'c toe \<Rightarrow> int \<times> 'c toe" where
  "toe_desc_alloc s =
     (case find (\<lambda>fd. \<not> d_used (g_desc s ! fd)) [0..<WIZTOE_MAX_DESC] of
        Some fd \<Rightarrow> (int fd, upd_desc (int fd) (\<lambda>d. d\<lparr>d_used := True\<rparr>) (toe_desc_clear (int fd) s))
      | None \<Rightarrow> (-1, s))"

definition toe_sn_alloc :: "int \<Rightarrow> 'c toe \<Rightarrow> int \<times> 'c toe" where
  "toe_sn_alloc fd s =
     (case find (\<lambda>k. g_sn_owner s ! k = TOE_SN_FREE) [0..<WIZTOE_MAX_SOCK] of
        Some k \<Rightarrow> (int k, set_owner (int k) fd s)
      | None \<Rightarrow> (-1, s))"

definition toe_sn_release :: "int \<Rightarrow> 'c toe \<Rightarrow> 'c toe" where
  "toe_sn_release k s =
     (if 0 \<le> k \<and> k < int WIZTOE_MAX_SOCK then set_owner k TOE_SN_FREE s else s)"

definition toe_open_flag :: "'c iolib \<Rightarrow> 'c toe \<Rightarrow> int \<Rightarrow> u8" where
  "toe_open_flag io s fd = (if d_nodelay (desc s fd) then io_SF_TCP_NODELAY io else 0)"

definition toe_open_udp :: "'c iolib \<Rightarrow> int \<Rightarrow> 'c toe \<Rightarrow> int \<times> 'c toe" where
  "toe_open_udp io fd s =
     (let sn = toe_sn s fd;
          (r, s1) = on_chip (io_socket io sn Sn_MR_UDP (d_port (desc s fd)) 0) s
      in if r \<noteq> uint sn then (-1, s1)
         else (0, upd_desc fd (\<lambda>d. d\<lparr>d_opened := True\<rparr>) s1))"

section \<open>Operations on the tables\<close>

definition wiztoe_network_init ::
  "'c iolib \<Rightarrow> bytes \<Rightarrow> bytes \<Rightarrow> bytes \<Rightarrow> bytes \<Rightarrow> 'c toe \<Rightarrow> 'c toe" where
  "wiztoe_network_init io ip nmask gw mac s =
     (let s1 = toe_tables_init s;
          ni = \<lparr>ni_mac = take 6 mac, ni_ip = take 4 ip, ni_sn = take 4 nmask, ni_gw = take 4 gw,
                ni_dns = [0, 0, 0, 0], ni_dhcp = NETINFO_STATIC, ni_ipmode = 0\<rparr>;
          s2 = (if io_newer_than_W5500 io then chip_do (io_CW_SYS_UNLOCK io) s1 else s1)
      in chip_do (io_CN_SET_NETINFO io ni) s2)"

definition wiztoe_socket :: "int \<Rightarrow> int \<Rightarrow> int \<Rightarrow> 'c toe \<Rightarrow> int \<times> 'c toe" where
  "wiztoe_socket domain ty protocol s =
     (let s1 = toe_tables_init s in
      if ty \<noteq> 1 \<and> ty \<noteq> 2 then (-1, s1)
      else let (fd, s2) = toe_desc_alloc s1 in
        if fd < 0 then (-1, s2)
        else let (sn, s3) = toe_sn_alloc fd s2 in
          if sn < 0 then (-1, toe_desc_clear fd s3)
          else (fd, upd_desc fd (\<lambda>d. d\<lparr>d_sn := sn, d_is_udp := (ty = 2)\<rparr>) s3))"

definition wiztoe_is_udp :: "'c toe \<Rightarrow> int \<Rightarrow> bool" where
  "wiztoe_is_udp s fd \<longleftrightarrow> toe_fd_valid s fd \<and> d_is_udp (desc s fd)"

definition wiztoe_sn_of_fd :: "'c toe \<Rightarrow> int \<Rightarrow> int" where
  "wiztoe_sn_of_fd s fd = (if \<not> toe_fd_valid s fd then -1 else d_sn (desc s fd))"

definition wiztoe_set_nonblocking :: "int \<Rightarrow> int \<Rightarrow> 'c toe \<Rightarrow> int \<times> 'c toe" where
  "wiztoe_set_nonblocking fd enable s =
     (if \<not> toe_fd_valid s fd then (-1, s)
      else (0, upd_desc fd (\<lambda>d. d\<lparr>d_nonblocking := (enable \<noteq> 0)\<rparr>) s))"

definition wiztoe_get_nonblocking :: "'c toe \<Rightarrow> int \<Rightarrow> int" where
  "wiztoe_get_nonblocking s fd =
     (if \<not> toe_fd_valid s fd then -1 else if d_nonblocking (desc s fd) then 1 else 0)"

definition wiztoe_available :: "'c iolib \<Rightarrow> int \<Rightarrow> 'c toe \<Rightarrow> int \<times> 'c toe" where
  "wiztoe_available io fd s =
     (if \<not> toe_fd_valid s fd then (-1, s)
      else if \<not> toe_fd_ready s fd \<or> \<not> d_opened (desc s fd) then (0, s)
      else let (n, s1) = on_chip (io_getSn_RX_RSR io (toe_sn s fd)) s in (uint n, s1))"

definition wiztoe_bind :: "'c iolib \<Rightarrow> int \<Rightarrow> u16 \<Rightarrow> 'c toe \<Rightarrow> int \<times> 'c toe" where
  "wiztoe_bind io fd port s =
     (if \<not> toe_fd_ready s fd then (-1, s)
      else let s1 = upd_desc fd (\<lambda>d. d\<lparr>d_port := port\<rparr>) s in
        if d_is_udp (desc s1 fd) then
          let (r, s2) = toe_open_udp io fd s1 in if r < 0 then (-1, s2) else (0, s2)
        else (0, s1))"

definition wiztoe_socket_reserve :: "'c toe \<Rightarrow> int \<times> 'c toe" where
  "wiztoe_socket_reserve s =
     (let s1 = toe_tables_init s in
      case find (\<lambda>k. g_sn_owner s1 ! k = TOE_SN_FREE) [0..<WIZTOE_MAX_SOCK] of
        Some k \<Rightarrow> (int k, set_owner (int k) TOE_SN_RAW s1)
      | None \<Rightarrow> (-1, s1))"

end
