(* ===== verification/Toe_Listen.thy ===== *)
theory Toe_Listen
  imports Toe_Desc
begin

text \<open>
  The part of \<open>wiznet_toe.c\<close> that moves hardware sockets between descriptors: listeners, the
  hand-over of an established socket in \<open>accept()\<close>, the bounded TCP disconnect, \<open>shutdown()\<close>
  and \<open>close()\<close>, and the raw reservation. Calls that wait take the number of polling turns as
  fuel; \<open>None\<close> means that the call has not returned within them.
\<close>

section \<open>Listeners\<close>

definition toe_chip_has_ip :: "'c iolib \<Rightarrow> 'c toe \<Rightarrow> bool \<times> 'c toe" where
  "toe_chip_has_ip io s = (let (sipr, s1) = on_chip (io_getSIPR io) s in (sipr \<noteq> 0, s1))"

definition toe_listener_reopen :: "'c iolib \<Rightarrow> int \<Rightarrow> 'c toe \<Rightarrow> int \<times> 'c toe" where
  "toe_listener_reopen io fd s =
     (let sn = toe_sn s fd;
          (ip, s1) = toe_chip_has_ip io s
      in if \<not> ip then (WIZTOE_DEFER, upd_desc fd (\<lambda>d. d\<lparr>d_opened := False\<rparr>) s1)
         else let (r, s2) = on_chip (io_socket io sn Sn_MR_TCP (d_port (desc s1 fd))
                                       (toe_open_flag io s1 fd)) s1 in
           if r \<noteq> uint sn then (-1, s2)
           else let s3 = upd_desc fd (\<lambda>d. d\<lparr>d_opened := True\<rparr>) s2;
                    (l, s4) = on_chip (io_listen io sn) s3
                in if l \<noteq> io_SOCK_OK io then (-1, s4) else (0, s4))"

definition toe_listener_disarm :: "int \<Rightarrow> 'c toe \<Rightarrow> 'c toe" where
  "toe_listener_disarm fd s =
     (let s1 = (if 0 \<le> d_sn (desc s fd) then toe_sn_release (d_sn (desc s fd)) s else s)
      in upd_desc fd (\<lambda>d. d\<lparr>d_sn := -1, d_opened := False\<rparr>) s1)"

definition toe_listener_rearm :: "'c iolib \<Rightarrow> int \<Rightarrow> 'c toe \<Rightarrow> int \<times> 'c toe" where
  "toe_listener_rearm io fd s =
     (if 0 \<le> d_sn (desc s fd) then (0, s)
      else let (sn, s1) = toe_sn_alloc fd s in
        if sn < 0 then (-1, s1)
        else let s2 = upd_desc fd (\<lambda>d. d\<lparr>d_sn := sn\<rparr>) s1;
                 (r, s3) = toe_listener_reopen io fd s2
             in if r < 0 then (-1, toe_listener_disarm fd s3) else (0, s3))"

definition rearm_if_pending :: "'c iolib \<Rightarrow> 'c toe \<Rightarrow> nat \<Rightarrow> 'c toe" where
  "rearm_if_pending io s fd =
     (if d_used (g_desc s ! fd) \<and> d_listening (g_desc s ! fd) \<and> d_sn (g_desc s ! fd) < 0
      then snd (toe_listener_rearm io (int fd) s) else s)"

definition toe_rearm_pending_listeners :: "'c iolib \<Rightarrow> 'c toe \<Rightarrow> 'c toe" where
  "toe_rearm_pending_listeners io s = foldl (rearm_if_pending io) s [0..<WIZTOE_MAX_DESC]"

definition wiztoe_listen :: "'c iolib \<Rightarrow> int \<Rightarrow> int \<Rightarrow> 'c toe \<Rightarrow> int \<times> 'c toe" where
  "wiztoe_listen io fd backlog s =
     (if \<not> toe_fd_ready s fd \<or> d_is_udp (desc s fd) then (-1, s)
      else let s1 = upd_desc fd (\<lambda>d. d\<lparr>d_listening := True\<rparr>) s;
               (r, s2) = toe_listener_reopen io fd s1
           in if r < 0 then (-1, upd_desc fd (\<lambda>d. d\<lparr>d_listening := False\<rparr>) s2)
              else (0, s2))"

section \<open>accept\<close>

definition toe_accept_established :: "'c iolib \<Rightarrow> int \<Rightarrow> 'c toe \<Rightarrow> int \<times> 'c toe" where
  "toe_accept_established io listen_fd s =
     (let sn = toe_sn s listen_fd;
          (cfd, s1) = toe_desc_alloc s
      in if cfd < 0 then (WIZTOE_ERR_WOULDBLOCK, s1)
         else let l = desc s1 listen_fd;
                  s2 = upd_desc cfd (\<lambda>d. d\<lparr>d_sn := uint sn, d_opened := True, d_connected := True,
                         d_port := d_port l, d_nodelay := d_nodelay l,
                         d_rcv_timeout_ms := d_rcv_timeout_ms l,
                         d_snd_timeout_ms := d_snd_timeout_ms l\<rparr>) s1;
                  s3 = set_owner (uint sn) cfd s2;
                  s4 = upd_desc listen_fd (\<lambda>d. d\<lparr>d_sn := -1, d_opened := False\<rparr>) s3
              in (cfd, snd (toe_listener_rearm io listen_fd s4)))"

text \<open>The body of the accept loop before the waiting: one look at the listener.\<close>

definition accept_poll :: "'c iolib \<Rightarrow> int \<Rightarrow> 'c toe \<Rightarrow> int option \<times> 'c toe" where
  "accept_poll io fd s =
     (if d_sn (desc s fd) < 0 then (None, snd (toe_listener_rearm io fd s))
      else let (sr, s1) = on_chip (io_getSn_SR io (toe_sn s fd)) s in
        case sr of
          SOCK_ESTABLISHED \<Rightarrow> (let (r, s2) = toe_accept_established io fd s1 in (Some r, s2))
        | SOCK_CLOSE_WAIT \<Rightarrow> (let (r, s2) = toe_accept_established io fd s1 in (Some r, s2))
        | SOCK_LISTEN \<Rightarrow> (None, s1)
        | SOCK_SYNRECV \<Rightarrow> (None, s1)
        | SOCK_INIT \<Rightarrow>
            (let (l, s2) = on_chip (io_listen io (toe_sn s1 fd)) s1
             in (None, if l \<noteq> io_SOCK_OK io then toe_listener_disarm fd s2 else s2))
        | _ \<Rightarrow>
            (let (r, s2) = toe_listener_reopen io fd s1
             in (None, if r < 0 then toe_listener_disarm fd s2 else s2)))"

definition accept_turn :: "'c iolib \<Rightarrow> int \<Rightarrow> u32 \<Rightarrow> 'c toe \<Rightarrow> int option \<times> 'c toe" where
  "accept_turn io fd started s =
     (case accept_poll io fd s of
        (Some r, s1) \<Rightarrow> (Some r, s1)
      | (None, s1) \<Rightarrow>
          if d_nonblocking (desc s1 fd) then (Some WIZTOE_ERR_WOULDBLOCK, s1)
          else let (late, s2) = toe_deadline_passed io started (d_rcv_timeout_ms (desc s1 fd)) s1
               in if late then (Some WIZTOE_ERR_TIMEOUT, s2)
                  else (None, chip_do (io_yield_1ms io) s2))"

definition wiztoe_accept :: "'c iolib \<Rightarrow> nat \<Rightarrow> int \<Rightarrow> 'c toe \<Rightarrow> (int \<times> 'c toe) option" where
  "wiztoe_accept io fuel fd s =
     (if \<not> toe_fd_valid s fd \<or> \<not> d_listening (desc s fd) then Some (-1, s)
      else let (started, s1) = on_chip (io_time_us io) s
           in poll_loop fuel (accept_turn io fd started) s1)"

section \<open>Reservation, disconnect, shutdown, close\<close>

definition wiztoe_socket_release :: "'c iolib \<Rightarrow> int \<Rightarrow> 'c toe \<Rightarrow> 'c toe" where
  "wiztoe_socket_release io sn s =
     (if 0 \<le> sn \<and> sn < int WIZTOE_MAX_SOCK
      then toe_rearm_pending_listeners io
             (toe_sn_release sn (chip_do (io_close io (word_of_int sn)) s))
      else s)"

definition toe_link_is_up :: "'c iolib \<Rightarrow> 'c toe \<Rightarrow> bool \<times> 'c toe" where
  "toe_link_is_up io s =
     (let ((rc, link), s1) = on_chip (io_CW_GET_PHYLINK io) s
      in if rc < 0 then (False, s1) else (link = io_PHY_LINK_ON io, s1))"

definition WIZTOE_DISCONNECT_TIMEOUT_MS :: u32 where "WIZTOE_DISCONNECT_TIMEOUT_MS = 250"

definition command_latch_turn :: "'c iolib \<Rightarrow> u8 \<Rightarrow> 'c toe \<Rightarrow> unit option \<times> 'c toe" where
  "command_latch_turn io sn s =
     (let (cr, s1) = on_chip (io_getSn_CR io sn) s in (if cr = 0 then Some () else None, s1))"

definition disconnect_turn :: "'c iolib \<Rightarrow> u8 \<Rightarrow> u32 \<Rightarrow> 'c toe \<Rightarrow> unit option \<times> 'c toe" where
  "disconnect_turn io sn started s =
     (let limit_us = WIZTOE_DISCONNECT_TIMEOUT_MS * 1000;
          (sr, s1) = on_chip (io_getSn_SR io sn) s
      in if sr = SOCK_CLOSED then (Some (), s1)
         else let (gave_up, s2) = on_chip (io_Sn_IR_TIMEOUT io sn) s1 in
           if gave_up then (Some (), s2)
           else let (now, s3) = on_chip (io_time_us io) s2 in
             if limit_us \<le> now - started then (Some (), s3)
             else let (up, s4) = toe_link_is_up io s3 in
               if \<not> up then (Some (), s4)
               else (None, chip_do (io_yield_1ms io) s4))"

definition toe_tcp_disconnect_bounded :: "'c iolib \<Rightarrow> nat \<Rightarrow> int \<Rightarrow> 'c toe \<Rightarrow> 'c toe option" where
  "toe_tcp_disconnect_bounded io fuel fd s =
     (let sn = toe_sn s fd;
          (sr, s1) = on_chip (io_getSn_SR io sn) s
      in if sr \<noteq> SOCK_ESTABLISHED \<and> sr \<noteq> SOCK_CLOSE_WAIT then Some s1
         else let (up, s2) = toe_link_is_up io s1 in
           if \<not> up then Some s2
           else case poll_loop fuel (command_latch_turn io sn)
                       (chip_do (io_setSn_CR_DISCON io sn) s2) of
                  None \<Rightarrow> None
                | Some (_, s3) \<Rightarrow>
                    let (started, s4) = on_chip (io_time_us io) s3
                    in map_option snd (poll_loop fuel (disconnect_turn io sn started) s4))"

definition wiztoe_shutdown ::
  "'c iolib \<Rightarrow> nat \<Rightarrow> int \<Rightarrow> bool \<Rightarrow> bool \<Rightarrow> 'c toe \<Rightarrow> (int \<times> 'c toe) option" where
  "wiztoe_shutdown io fuel fd shut_rd shut_wr s =
     (if \<not> toe_fd_valid s fd then Some (-1, s)
      else let s1 = (if shut_rd then upd_desc fd (\<lambda>d. d\<lparr>d_rd_shutdown := True\<rparr>) s else s) in
        if shut_wr \<and> \<not> d_is_udp (desc s1 fd) \<and> toe_fd_ready s1 fd
        then map_option (\<lambda>s2. (0, s2)) (toe_tcp_disconnect_bounded io fuel fd s1)
        else Some (0, s1))"

definition close_socket :: "'c iolib \<Rightarrow> nat \<Rightarrow> int \<Rightarrow> 'c toe \<Rightarrow> 'c toe option" where
  "close_socket io fuel fd s =
     (let sn = toe_sn s fd in
      case (if \<not> d_is_udp (desc s fd) then toe_tcp_disconnect_bounded io fuel fd s
            else Some s) of
        None \<Rightarrow> None
      | Some s1 \<Rightarrow>
          Some (toe_sn_release (uint sn)
            (if d_opened (desc s1 fd) then chip_do (io_close io sn) s1 else s1)))"

definition wiztoe_close :: "'c iolib \<Rightarrow> nat \<Rightarrow> int \<Rightarrow> 'c toe \<Rightarrow> (int \<times> 'c toe) option" where
  "wiztoe_close io fuel fd s =
     (if \<not> toe_fd_valid s fd then Some (-1, s)
      else case (if 0 \<le> d_sn (desc s fd) then close_socket io fuel fd s else Some s) of
             None \<Rightarrow> None
           | Some s1 \<Rightarrow>
               Some (0, toe_rearm_pending_listeners io (toe_desc_clear fd s1)))"

end
