(* ===== verification/Toe_Data.thy ===== *)
theory Toe_Data
  imports Toe_Listen
begin

text \<open>
  The data path of \<open>wiznet_toe.c\<close>: connect, send, recv, sendto, recvfrom, the address
  queries and the socket options. Buffers are byte lists; a receive returns the bytes it
  stored beside its return value.
\<close>

section \<open>connect\<close>

definition wiztoe_connect ::
  "'c iolib \<Rightarrow> int \<Rightarrow> bytes \<Rightarrow> u16 \<Rightarrow> 'c toe \<Rightarrow> int \<times> 'c toe" where
  "wiztoe_connect io fd ip port s =
     (if \<not> toe_fd_ready s fd then (-1, s)
      else if d_is_udp (desc s fd) then
        (0, upd_desc fd (\<lambda>d. d\<lparr>d_dst_ip := take 4 ip, d_dst_port := port, d_connected := True\<rparr>) s)
      else
        let lport0 = d_port (desc s fd);
            (lport, s1) =
              (if lport0 = 0 then
                 let (t, sa) = on_chip (io_time_us io) s;
                     lp = ucast (0xC000 + (t mod 0x3FF0))
                 in (lp, upd_desc fd (\<lambda>d. d\<lparr>d_port := lp\<rparr>) sa)
               else (lport0, s));
            sn = toe_sn s1 fd;
            (r, s2) = on_chip (io_socket io sn Sn_MR_TCP lport (toe_open_flag io s1 fd)) s1
        in if r \<noteq> uint sn then (-1, s2)
           else let s3 = upd_desc fd (\<lambda>d. d\<lparr>d_opened := True\<rparr>) s2;
                    (c, s4) = on_chip (io_connect io sn ip port) s3
                in (if c = io_SOCK_OK io then 0 else -1, s4))"

section \<open>send and recv\<close>

text \<open>The waits leave their loop either with a return value of the call (\<open>Inl\<close>) or by
  \<open>break\<close> (\<open>Inr\<close>).\<close>

definition send_turn :: "'c iolib \<Rightarrow> int \<Rightarrow> u8 \<Rightarrow> u32 \<Rightarrow> 'c toe \<Rightarrow> (int + u16) option \<times> 'c toe" where
  "send_turn io fd sn started s =
     (let (sr, s1) = on_chip (io_getSn_SR io sn) s in
      if sr \<noteq> SOCK_ESTABLISHED \<and> sr \<noteq> SOCK_CLOSE_WAIT then (Some (Inl (-1)), s1)
      else let (freesize, s2) = on_chip (io_getSn_TX_FSR io sn) s1 in
        if 0 < freesize then (Some (Inr freesize), s2)
        else if d_nonblocking (desc s2 fd) then (Some (Inl WIZTOE_ERR_WOULDBLOCK), s2)
        else let (late, s3) = toe_deadline_passed io started (d_snd_timeout_ms (desc s2 fd)) s2 in
          if late then (Some (Inl WIZTOE_ERR_WOULDBLOCK), s3)
          else (None, chip_do (io_yield_1ms io) s3))"

definition wiztoe_send :: "'c iolib \<Rightarrow> nat \<Rightarrow> int \<Rightarrow> bytes \<Rightarrow> 'c toe \<Rightarrow> (int \<times> 'c toe) option" where
  "wiztoe_send io fuel fd buf s =
     (if \<not> toe_fd_ready s fd \<or> d_is_udp (desc s fd) then Some (-1, s)
      else let buf1 = take 0xFFFF buf;
               sn = toe_sn s fd;
               (started, s1) = on_chip (io_time_us io) s
           in case poll_loop fuel (send_turn io fd sn started) s1 of
                None \<Rightarrow> None
              | Some (Inl rc, s2) \<Rightarrow> Some (rc, s2)
              | Some (Inr freesize, s2) \<Rightarrow>
                  let (n, s3) = on_chip (io_send io sn (take (unat freesize) buf1)) s2
                  in Some (if n = 0 then WIZTOE_ERR_WOULDBLOCK
                           else if n < 0 then -1 else n, s3))"

definition recv_turn :: "'c iolib \<Rightarrow> int \<Rightarrow> u8 \<Rightarrow> u32 \<Rightarrow> 'c toe \<Rightarrow> (int + unit) option \<times> 'c toe" where
  "recv_turn io fd sn started s =
     (let (rsr, s1) = on_chip (io_getSn_RX_RSR io sn) s in
      if 0 < rsr then (Some (Inr ()), s1)
      else let (sr, s2) = on_chip (io_getSn_SR io sn) s1 in
        if sr \<noteq> SOCK_ESTABLISHED then (Some (Inl 0), s2)
        else if d_nonblocking (desc s2 fd) then (Some (Inl WIZTOE_ERR_WOULDBLOCK), s2)
        else let (late, s3) = toe_deadline_passed io started (d_rcv_timeout_ms (desc s2 fd)) s2 in
          if late then (Some (Inl WIZTOE_ERR_TIMEOUT), s3)
          else (None, chip_do (io_yield_1ms io) s3))"

definition wiztoe_recv ::
  "'c iolib \<Rightarrow> nat \<Rightarrow> int \<Rightarrow> nat \<Rightarrow> 'c toe \<Rightarrow> ((int \<times> bytes) \<times> 'c toe) option" where
  "wiztoe_recv io fuel fd len s =
     (if \<not> toe_fd_ready s fd \<or> d_is_udp (desc s fd) then Some ((-1, []), s)
      else let len1 = min len 0xFFFF in
        if d_rd_shutdown (desc s fd) then Some ((0, []), s)
        else let sn = toe_sn s fd;
                 (started, s1) = on_chip (io_time_us io) s
             in case poll_loop fuel (recv_turn io fd sn started) s1 of
                  None \<Rightarrow> None
                | Some (Inl rc, s2) \<Rightarrow> Some ((rc, []), s2)
                | Some (Inr _, s2) \<Rightarrow>
                    let ((n, data), s3) = on_chip (io_recv io sn (of_nat len1)) s2
                    in if n = io_SOCKERR_SOCKSTATUS io \<or> n = io_SOCKERR_SOCKCLOSED io
                       then Some ((0, data), s3)
                       else Some ((if n < 0 then -1 else n, data), s3))"

section \<open>sendto and recvfrom\<close>

definition wiztoe_sendto ::
  "'c iolib \<Rightarrow> int \<Rightarrow> bytes \<Rightarrow> bytes \<Rightarrow> u16 \<Rightarrow> 'c toe \<Rightarrow> int \<times> 'c toe" where
  "wiztoe_sendto io fd buf ip port s =
     (if \<not> toe_fd_ready s fd \<or> \<not> d_is_udp (desc s fd) then (-1, s)
      else let buf1 = take 0xFFFF buf;
               sn = toe_sn s fd;
               (r, s1) = (if \<not> d_opened (desc s fd)
                          then on_chip (io_socket io sn Sn_MR_UDP (d_port (desc s fd)) 0) s
                          else (uint sn, s))
           in if r \<noteq> uint sn then (-1, s1)
              else let s2 = (if \<not> d_opened (desc s fd)
                             then upd_desc fd (\<lambda>d. d\<lparr>d_opened := True\<rparr>) s1 else s1);
                       (n, s3) = on_chip (io_sendto io sn buf1 ip port) s2
                   in (if n < 0 then -1 else n, s3))"

definition recvfrom_turn ::
  "'c iolib \<Rightarrow> int \<Rightarrow> u8 \<Rightarrow> u32 \<Rightarrow> 'c toe \<Rightarrow> (int + unit) option \<times> 'c toe" where
  "recvfrom_turn io fd sn started s =
     (let (rsr, s1) = on_chip (io_getSn_RX_RSR io sn) s in
      if 0 < rsr then (Some (Inr ()), s1)
      else let (sr, s2) = on_chip (io_getSn_SR io sn) s1 in
        if sr \<noteq> SOCK_UDP then (Some (Inl (-1)), s2)
        else if d_nonblocking (desc s2 fd) then (Some (Inl WIZTOE_ERR_WOULDBLOCK), s2)
        else let (late, s3) = toe_deadline_passed io started (d_rcv_timeout_ms (desc s2 fd)) s2 in
          if late then (Some (Inl WIZTOE_ERR_TIMEOUT), s3)
          else (None, chip_do (io_yield_1ms io) s3))"

text \<open>The address of the sender is stored only when the library call is reached.\<close>

definition wiztoe_recvfrom ::
  "'c iolib \<Rightarrow> nat \<Rightarrow> int \<Rightarrow> nat \<Rightarrow> 'c toe \<Rightarrow>
     ((int \<times> bytes \<times> (bytes \<times> u16) option) \<times> 'c toe) option" where
  "wiztoe_recvfrom io fuel fd len s =
     (if \<not> toe_fd_ready s fd \<or> \<not> d_is_udp (desc s fd) \<or> \<not> d_opened (desc s fd)
      then Some ((-1, [], None), s)
      else let len1 = min len 0xFFFF;
               sn = toe_sn s fd;
               (started, s1) = on_chip (io_time_us io) s
           in case poll_loop fuel (recvfrom_turn io fd sn started) s1 of
                None \<Rightarrow> None
              | Some (Inl rc, s2) \<Rightarrow> Some ((rc, [], None), s2)
              | Some (Inr _, s2) \<Rightarrow>
                  let ((n, data, ip, port), s3) = on_chip (io_recvfrom io sn (of_nat len1)) s2
                  in Some ((if n < 0 then -1 else n, data, Some (ip, port)), s3))"

section \<open>Addresses\<close>

definition wiztoe_peer :: "'c iolib \<Rightarrow> int \<Rightarrow> 'c toe \<Rightarrow> (bytes \<times> u16) \<times> 'c toe" where
  "wiztoe_peer io fd s =
     (if \<not> toe_fd_valid s fd then (([0, 0, 0, 0], 0), s)
      else if d_is_udp (desc s fd) then ((d_dst_ip (desc s fd), d_dst_port (desc s fd)), s)
      else if \<not> toe_fd_ready s fd then (([0, 0, 0, 0], 0), s)
      else let (ip, s1) = on_chip (io_getSn_DIPR io (toe_sn s fd)) s;
               (port, s2) = on_chip (io_getSn_DPORT io (toe_sn s1 fd)) s1
           in ((ip, port), s2))"

definition wiztoe_getsockname :: "'c iolib \<Rightarrow> int \<Rightarrow> 'c toe \<Rightarrow> (bytes \<times> u16) \<times> 'c toe" where
  "wiztoe_getsockname io fd s =
     (if \<not> toe_fd_valid s fd then (([0, 0, 0, 0], 0), s)
      else let (ni, s1) = on_chip (io_CN_GET_NETINFO io) s
           in ((ni_ip ni, d_port (desc s1 fd)), s1))"

definition wiztoe_local_ip :: "'c iolib \<Rightarrow> 'c toe \<Rightarrow> bytes \<times> 'c toe" where
  "wiztoe_local_ip io s = (let (ni, s1) = on_chip (io_CN_GET_NETINFO io) s in (ni_ip ni, s1))"

definition wiztoe_local_mac :: "'c iolib \<Rightarrow> 'c toe \<Rightarrow> bytes \<times> 'c toe" where
  "wiztoe_local_mac io s = (let (ni, s1) = on_chip (io_CN_GET_NETINFO io) s in (ni_mac ni, s1))"

section \<open>Socket options\<close>

datatype wiztoe_opt_t =
    WIZTOE_OPT_KEEPALIVE | WIZTOE_OPT_KEEPIDLE | WIZTOE_OPT_NODELAY | WIZTOE_OPT_TTL
  | WIZTOE_OPT_TOS | WIZTOE_OPT_RCVTIMEO_MS | WIZTOE_OPT_SNDTIMEO_MS | WIZTOE_OPT_RCVBUF
  | WIZTOE_OPT_SNDBUF | WIZTOE_OPT_ERROR | WIZTOE_OPT_TYPE

text \<open>An object of the caller seen through a pointer: its little-endian bytes.\<close>

definition le32 :: "bytes \<Rightarrow> u32" where
  "le32 b = be32_of (b ! 3) (b ! 2) (b ! 1) (b ! 0)"

definition le32_bytes :: "u32 \<Rightarrow> bytes" where
  "le32_bytes w = [ucast w, ucast (drop_bit 8 w), ucast (drop_bit 16 w), ucast (drop_bit 24 w)]"

lemma le32_le32_bytes [simp]: "le32 (le32_bytes w) = w"
  by (simp add: le32_def le32_bytes_def be32_of_split)

lemma length_le32_bytes [simp]: "length (le32_bytes w) = 4"
  by (simp add: le32_bytes_def)

definition wiztoe_setsockopt ::
  "'c iolib \<Rightarrow> int \<Rightarrow> wiztoe_opt_t \<Rightarrow> bytes option \<Rightarrow> 'c toe \<Rightarrow> int \<times> 'c toe" where
  "wiztoe_setsockopt io fd opt val s =
     (case val of None \<Rightarrow> (-1, s)
      | Some b \<Rightarrow>
        let len = length b in
        if \<not> toe_fd_valid s fd \<or> len = 0 then (-1, s)
        else
          let v = (if 4 \<le> len then sint (le32 b) else uint (b ! 0)) in
          if opt = WIZTOE_OPT_NODELAY then (0, upd_desc fd (\<lambda>d. d\<lparr>d_nodelay := (v \<noteq> 0)\<rparr>) s)
          else if opt = WIZTOE_OPT_RCVTIMEO_MS then
            (if len < 4 then (-1, s)
             else (0, upd_desc fd (\<lambda>d. d\<lparr>d_rcv_timeout_ms := le32 b\<rparr>) s))
          else if opt = WIZTOE_OPT_SNDTIMEO_MS then
            (if len < 4 then (-1, s)
             else (0, upd_desc fd (\<lambda>d. d\<lparr>d_snd_timeout_ms := le32 b\<rparr>) s))
          else if \<not> toe_fd_ready s fd then (-1, s)
          else case opt of
            WIZTOE_OPT_KEEPALIVE \<Rightarrow>
              (0, chip_do (io_setSn_KPALVTR io (toe_sn s fd) (if v \<noteq> 0 then 12 else 0)) s)
          | WIZTOE_OPT_KEEPIDLE \<Rightarrow>
              (let v1 = (if v < 5 then 5 else v);
                   v2 = (if 5 * 255 < v1 then 5 * 255 else v1)
               in (0, chip_do (io_setSn_KPALVTR io (toe_sn s fd) (word_of_int (v2 div 5))) s))
          | WIZTOE_OPT_TTL \<Rightarrow> (0, chip_do (io_setSn_TTL io (toe_sn s fd) (word_of_int v)) s)
          | WIZTOE_OPT_TOS \<Rightarrow> (0, chip_do (io_setSn_TOS io (toe_sn s fd) (word_of_int v)) s)
          | _ \<Rightarrow> (-1, s))"

text \<open>On success the call stores one 32-bit object and sets \<open>*len\<close> to 4: the result carries the
  word stored. \<open>len\<close> is \<open>None\<close> for a null pointer.\<close>

definition wiztoe_getsockopt ::
  "'c iolib \<Rightarrow> int \<Rightarrow> wiztoe_opt_t \<Rightarrow> bool \<Rightarrow> nat option \<Rightarrow> 'c toe \<Rightarrow> (int \<times> u32 option) \<times> 'c toe" where
  "wiztoe_getsockopt io fd opt val_null len s =
     (case len of None \<Rightarrow> ((-1, None), s)
      | Some l \<Rightarrow>
        if \<not> toe_fd_valid s fd \<or> val_null \<or> l < 4 then ((-1, None), s)
        else case opt of
          WIZTOE_OPT_ERROR \<Rightarrow> ((0, Some 0), s)
        | WIZTOE_OPT_TYPE \<Rightarrow> ((0, Some (if d_is_udp (desc s fd) then 2 else 1)), s)
        | WIZTOE_OPT_RCVTIMEO_MS \<Rightarrow> ((0, Some (d_rcv_timeout_ms (desc s fd))), s)
        | WIZTOE_OPT_SNDTIMEO_MS \<Rightarrow> ((0, Some (d_snd_timeout_ms (desc s fd))), s)
        | WIZTOE_OPT_RCVBUF \<Rightarrow>
            (if \<not> toe_fd_ready s fd then ((-1, None), s)
             else let (n, s1) = on_chip (io_getSn_RxMAX io (toe_sn s fd)) s in ((0, Some (ucast n)), s1))
        | WIZTOE_OPT_SNDBUF \<Rightarrow>
            (if \<not> toe_fd_ready s fd then ((-1, None), s)
             else let (n, s1) = on_chip (io_getSn_TxMAX io (toe_sn s fd)) s in ((0, Some (ucast n)), s1))
        | WIZTOE_OPT_TTL \<Rightarrow>
            (if \<not> toe_fd_ready s fd then ((-1, None), s)
             else let (n, s1) = on_chip (io_getSn_TTL io (toe_sn s fd)) s in ((0, Some (ucast n)), s1))
        | WIZTOE_OPT_TOS \<Rightarrow>
            (if \<not> toe_fd_ready s fd then ((-1, None), s)
             else let (n, s1) = on_chip (io_getSn_TOS io (toe_sn s fd)) s in ((0, Some (ucast n)), s1))
        | _ \<Rightarrow> ((-1, None), s))"

end
