(* ===== verification/Toe_Inv.thy ===== *)
theory Toe_Inv
  imports Toe_Data
begin

text \<open>
  The invariant of the descriptor and hardware-socket tables, and its preservation by every
  operation of the TOE layer: the two tables are inverse to each other wherever a hardware
  socket is bound, and only a listener can be without one.
\<close>

section \<open>The invariant\<close>

definition sizes_ok :: "'c toe \<Rightarrow> bool" where
  "sizes_ok s \<longleftrightarrow> length (g_desc s) = WIZTOE_MAX_DESC \<and> length (g_sn_owner s) = WIZTOE_MAX_SOCK"

definition desc_linked :: "'c toe \<Rightarrow> nat \<Rightarrow> bool" where
  "desc_linked s fd \<longleftrightarrow>
     d_sn (g_desc s ! fd) = -1 \<or>
     0 \<le> d_sn (g_desc s ! fd) \<and> d_sn (g_desc s ! fd) < int WIZTOE_MAX_SOCK \<and>
     d_used (g_desc s ! fd) \<and> g_sn_owner s ! nat (d_sn (g_desc s ! fd)) = int fd"

definition owner_linked :: "'c toe \<Rightarrow> nat \<Rightarrow> bool" where
  "owner_linked s k \<longleftrightarrow>
     g_sn_owner s ! k = TOE_SN_FREE \<or> g_sn_owner s ! k = TOE_SN_RAW \<or>
     0 \<le> g_sn_owner s ! k \<and> g_sn_owner s ! k < int WIZTOE_MAX_DESC \<and>
     d_sn (g_desc s ! nat (g_sn_owner s ! k)) = int k"

definition armed_or_listener :: "'c toe \<Rightarrow> nat \<Rightarrow> bool" where
  "armed_or_listener s fd \<longleftrightarrow>
     (d_used (g_desc s ! fd) \<and> d_sn (g_desc s ! fd) = -1 \<longrightarrow> d_listening (g_desc s ! fd)) \<and>
     (d_listening (g_desc s ! fd) \<longrightarrow> d_used (g_desc s ! fd) \<and> \<not> d_is_udp (g_desc s ! fd))"

definition link_ok :: "'c toe \<Rightarrow> bool" where
  "link_ok s \<longleftrightarrow> sizes_ok s \<and> g_tables_init s \<and>
     (\<forall>fd<WIZTOE_MAX_DESC. desc_linked s fd) \<and> (\<forall>k<WIZTOE_MAX_SOCK. owner_linked s k)"

definition toe_ok :: "'c toe \<Rightarrow> bool" where
  "toe_ok s \<longleftrightarrow> link_ok s \<and> (\<forall>fd<WIZTOE_MAX_DESC. armed_or_listener s fd)"

definition toe_fresh :: "'c toe \<Rightarrow> bool" where
  "toe_fresh s \<longleftrightarrow> sizes_ok s \<and> \<not> g_tables_init s \<and>
     (\<forall>fd<WIZTOE_MAX_DESC. g_desc s ! fd = desc_zero) \<and>
     (\<forall>k<WIZTOE_MAX_SOCK. g_sn_owner s ! k = 0)"

definition toe_inv :: "'c toe \<Rightarrow> bool" where
  "toe_inv s \<longleftrightarrow> toe_ok s \<or> toe_fresh s"

lemmas link_defs = link_ok_def sizes_ok_def desc_linked_def owner_linked_def
lemmas ok_defs = toe_ok_def link_defs armed_or_listener_def

lemma toe_inv_boot: "toe_inv (toe_boot c)"
  by (simp add: toe_inv_def toe_fresh_def toe_boot_def sizes_ok_def)

lemma toe_ok_inv [intro]: "toe_ok s \<Longrightarrow> toe_inv s"
  by (simp add: toe_inv_def)

lemma toe_ok_link: "toe_ok s \<Longrightarrow> link_ok s"
  by (simp add: toe_ok_def)

lemma toe_inv_valid:
  assumes "toe_inv s" and "toe_fd_valid s fd"
  shows "toe_ok s" and "0 \<le> fd" and "fd < int WIZTOE_MAX_DESC" and "d_used (desc s fd)"
  using assms by (auto simp: toe_inv_def toe_fresh_def toe_fd_valid_def desc_zero_def nat_less_iff)

text \<open>Nothing in the invariant reads the chip.\<close>

lemma link_ok_chip [simp]: "link_ok (s\<lparr>chip := c\<rparr>) = link_ok s"
  and toe_ok_chip [simp]: "toe_ok (s\<lparr>chip := c\<rparr>) = toe_ok s"
  and toe_inv_chip [simp]: "toe_inv (s\<lparr>chip := c\<rparr>) = toe_inv s"
  by (simp_all add: ok_defs toe_inv_def toe_fresh_def)

lemma link_ok_chip_do [simp]: "link_ok (chip_do f s) = link_ok s"
  and toe_ok_chip_do [simp]: "toe_ok (chip_do f s) = toe_ok s"
  and toe_inv_chip_do [simp]: "toe_inv (chip_do f s) = toe_inv s"
  by (simp_all add: chip_do_def)

lemma link_okI:
  assumes "sizes_ok s" and "g_tables_init s"
    and "\<And>fd. fd < WIZTOE_MAX_DESC \<Longrightarrow> desc_linked s fd"
    and "\<And>k. k < WIZTOE_MAX_SOCK \<Longrightarrow> owner_linked s k"
  shows "link_ok s"
  using assms by (simp add: link_ok_def)

lemma link_ok_descD: "link_ok s \<Longrightarrow> fd < WIZTOE_MAX_DESC \<Longrightarrow> desc_linked s fd"
  and link_ok_ownerD: "link_ok s \<Longrightarrow> k < WIZTOE_MAX_SOCK \<Longrightarrow> owner_linked s k"
  and link_ok_sizes: "link_ok s \<Longrightarrow> sizes_ok s"
  and link_ok_init: "link_ok s \<Longrightarrow> g_tables_init s"
  by (simp_all add: link_ok_def)

lemma link_okD:
  assumes "link_ok s" and "fd < WIZTOE_MAX_DESC" and "0 \<le> d_sn (g_desc s ! fd)"
  shows "d_sn (g_desc s ! fd) < int WIZTOE_MAX_SOCK" and "d_used (g_desc s ! fd)"
    and "g_sn_owner s ! nat (d_sn (g_desc s ! fd)) = int fd"
  using link_ok_descD [OF assms(1,2)] assms(3) by (simp_all add: desc_linked_def)

lemma link_ok_sn_range:
  assumes "link_ok s" and "fd < WIZTOE_MAX_DESC"
  shows "d_sn (g_desc s ! fd) = -1 \<or> 0 \<le> d_sn (g_desc s ! fd) \<and> d_sn (g_desc s ! fd) < int WIZTOE_MAX_SOCK"
  using link_ok_descD [OF assms] by (auto simp: desc_linked_def)

lemma link_ok_lengths:
  assumes "link_ok s"
  shows "length (g_desc s) = WIZTOE_MAX_DESC" and "length (g_sn_owner s) = WIZTOE_MAX_SOCK"
  using link_ok_sizes [OF assms] by (simp_all add: sizes_ok_def)

text \<open>The hardware socket number survives its conversion to \<open>uint8_t\<close>.\<close>

lemma uint_toe_sn:
  assumes "link_ok s" and "0 \<le> fd" and "fd < int WIZTOE_MAX_DESC" and "0 \<le> d_sn (desc s fd)"
  shows "uint (toe_sn s fd) = d_sn (desc s fd)"
proof -
  have "d_sn (desc s fd) < 8"
    using link_okD(1) [OF assms(1) _ assms(4)] assms(2,3) by (simp add: WIZTOE_MAX_SOCK_def nat_less_iff)
  with assms(4) show ?thesis
    by (simp add: toe_sn_def uint_word_of_int take_bit_int_eq_self)
qed

text \<open>Two descriptors never hold the same hardware socket.\<close>

lemma link_ok_exclusive:
  assumes "link_ok s" and "fd1 < WIZTOE_MAX_DESC" and "fd2 < WIZTOE_MAX_DESC"
    and "0 \<le> d_sn (g_desc s ! fd1)" and "d_sn (g_desc s ! fd1) = d_sn (g_desc s ! fd2)"
  shows "fd1 = fd2"
proof -
  have "0 \<le> d_sn (g_desc s ! fd2)" using assms(4,5) by linarith
  from link_okD(3) [OF assms(1,3) this] link_okD(3) [OF assms(1,2,4)]
  have "int fd1 = int fd2" unfolding assms(5) by metis
  then show ?thesis by simp
qed

section \<open>Updates that keep the invariant\<close>

definition keeps_link :: "(toe_desc_t \<Rightarrow> toe_desc_t) \<Rightarrow> bool" where
  "keeps_link f \<longleftrightarrow> (\<forall>d. d_used (f d) = d_used d \<and> d_sn (f d) = d_sn d)"

definition keeps_role :: "(toe_desc_t \<Rightarrow> toe_desc_t) \<Rightarrow> bool" where
  "keeps_role f \<longleftrightarrow> (\<forall>d. d_used (f d) = d_used d \<and> d_sn (f d) = d_sn d \<and>
     d_is_udp (f d) = d_is_udp d \<and> d_listening (f d) = d_listening d)"

lemma link_ok_upd_desc: "keeps_link f \<Longrightarrow> link_ok (upd_desc fd f s) = link_ok s"
  by (simp add: link_defs keeps_link_def nth_update_same [of d_used f]
      nth_update_same [of d_sn f])

lemma toe_ok_upd_desc: "keeps_role f \<Longrightarrow> toe_ok (upd_desc fd f s) = toe_ok s"
  by (simp add: ok_defs keeps_role_def nth_update_same [of d_used f] nth_update_same [of d_sn f]
      nth_update_same [of d_is_udp f] nth_update_same [of d_listening f])

lemma keeps_role_intros [simp]:
  "keeps_role (\<lambda>d. d\<lparr>d_opened := b\<rparr>)" "keeps_role (\<lambda>d. d\<lparr>d_nonblocking := b\<rparr>)"
  "keeps_role (\<lambda>d. d\<lparr>d_rd_shutdown := b\<rparr>)" "keeps_role (\<lambda>d. d\<lparr>d_nodelay := b\<rparr>)"
  "keeps_role (\<lambda>d. d\<lparr>d_port := p\<rparr>)" "keeps_role (\<lambda>d. d\<lparr>d_rcv_timeout_ms := t\<rparr>)"
  "keeps_role (\<lambda>d. d\<lparr>d_snd_timeout_ms := t\<rparr>)"
  "keeps_role (\<lambda>d. d\<lparr>d_dst_ip := ip, d_dst_port := p, d_connected := b\<rparr>)"
  by (simp_all add: keeps_role_def)

text \<open>A free hardware socket is claimed for a descriptor that has none.\<close>

lemma toe_sn_alloc_cases:
  assumes "toe_sn_alloc fd s = (k, s1)"
  obtains (none) "k = -1" "s1 = s" "\<And>j. j < WIZTOE_MAX_SOCK \<Longrightarrow> g_sn_owner s ! j \<noteq> TOE_SN_FREE"
    | (some) "0 \<le> k" "k < int WIZTOE_MAX_SOCK" "g_sn_owner s ! nat k = TOE_SN_FREE"
        "s1 = set_owner k fd s"
proof (cases "find (\<lambda>k. g_sn_owner s ! k = TOE_SN_FREE) [0..<WIZTOE_MAX_SOCK]")
  case None
  with assms have "k = -1" "s1 = s" by (simp_all add: toe_sn_alloc_def)
  moreover from None have "\<And>j. j < WIZTOE_MAX_SOCK \<Longrightarrow> g_sn_owner s ! j \<noteq> TOE_SN_FREE"
    by (auto simp: find_None_iff)
  ultimately show ?thesis by (rule none)
next
  case (Some j)
  with assms have "k = int j" "s1 = set_owner (int j) fd s" by (clarsimp simp: toe_sn_alloc_def)+
  moreover from Some have "j < WIZTOE_MAX_SOCK" "g_sn_owner s ! j = TOE_SN_FREE"
    by (auto simp: find_Some_iff)
  ultimately show ?thesis by (intro some) auto
qed

lemma free_not_bound:
  assumes "link_ok s" and "j < WIZTOE_MAX_DESC" and "0 \<le> k" and "g_sn_owner s ! nat k < 0"
  shows "d_sn (g_desc s ! j) \<noteq> k"
  using link_okD(3) [OF assms(1,2)] assms(3,4) by auto

text \<open>One lemma for every way a hardware socket \<open>k\<close> comes to be bound to a descriptor that holds
  none: it is free, reserved, or just being taken from the descriptor \<open>old\<close>.\<close>

lemma link_ok_claim:
  assumes "link_ok s" and "0 \<le> fd" and "fd < int WIZTOE_MAX_DESC"
    and "d_sn (desc s fd) = -1"
    and "0 \<le> k" and "k < int WIZTOE_MAX_SOCK" and "g_sn_owner s ! nat k = TOE_SN_FREE"
    and "d_sn (f (desc s fd)) = k" and "d_used (f (desc s fd))"
  shows "link_ok (upd_desc fd f (set_owner k fd s))"
proof (rule link_okI)
  let ?s = "upd_desc fd f (set_owner k fd s)"
  have k: "nat k < WIZTOE_MAX_SOCK" "nat fd < WIZTOE_MAX_DESC" using assms(2,3,5,6) by auto
  note len = link_ok_lengths [OF assms(1)]
  show "sizes_ok ?s" using len by (simp add: sizes_ok_def)
  show "g_tables_init ?s" using link_ok_init [OF assms(1)] by simp
  show "desc_linked ?s j" if j: "j < WIZTOE_MAX_DESC" for j
  proof (cases "j = nat fd")
    case True
    with assms k len show ?thesis by (simp add: desc_linked_def)
  next
    case False
    moreover have "d_sn (g_desc s ! j) \<noteq> k"
      using free_not_bound [OF assms(1) j assms(5)] assms(7) by (simp add: TOE_SN_FREE_def)
    ultimately show ?thesis
      using link_ok_descD [OF assms(1) j] assms(5) by (auto simp: desc_linked_def nth_upd)
  qed
  show "owner_linked ?s j" if j: "j < WIZTOE_MAX_SOCK" for j
  proof (cases "j = nat k")
    case True
    with assms k len show ?thesis by (simp add: owner_linked_def)
  next
    case False
    with link_ok_ownerD [OF assms(1) j] assms(2,4) k len show ?thesis
      by (auto simp: owner_linked_def nth_upd)
  qed
qed

text \<open>A descriptor gives its hardware socket back.\<close>

lemma link_ok_give_back:
  assumes "link_ok s" and "0 \<le> fd" and "fd < int WIZTOE_MAX_DESC"
    and "0 \<le> d_sn (desc s fd)" and "d_sn (f (desc s fd)) = -1"
  shows "link_ok (upd_desc fd f (set_owner (d_sn (desc s fd)) TOE_SN_FREE s))"
    (is "link_ok ?s")
proof (rule link_okI)
  have fd: "nat fd < WIZTOE_MAX_DESC" using assms(2,3) by auto
  note own = link_okD [OF assms(1) fd assms(4)]
  note len = link_ok_lengths [OF assms(1)]
  show "sizes_ok ?s" using len by (simp add: sizes_ok_def)
  show "g_tables_init ?s" using link_ok_init [OF assms(1)] by simp
  show "desc_linked ?s j" if j: "j < WIZTOE_MAX_DESC" for j
  proof (cases "j = nat fd")
    case True
    with assms fd len show ?thesis by (simp add: desc_linked_def)
  next
    case False
    then have "d_sn (g_desc s ! j) \<noteq> d_sn (desc s fd)"
      using link_ok_exclusive [OF assms(1) fd j assms(4)] by auto
    with False link_ok_descD [OF assms(1) j] assms(4) show ?thesis
      by (auto simp: desc_linked_def nth_upd)
  qed
  show "owner_linked ?s j" if j: "j < WIZTOE_MAX_SOCK" for j
  proof (cases "j = nat (d_sn (desc s fd))")
    case True
    with j len show ?thesis by (simp add: owner_linked_def)
  next
    case False
    with link_ok_ownerD [OF assms(1) j] assms(2) fd len show ?thesis
      by (auto simp: owner_linked_def nth_upd)
  qed
qed

lemma link_ok_no_sn:
  assumes "link_ok s" and "d_sn (desc s fd) = -1" and "d_sn (f (desc s fd)) = -1"
  shows "link_ok (upd_desc fd f s)"
proof (rule link_okI)
  note len = link_ok_lengths [OF assms(1)]
  show "sizes_ok (upd_desc fd f s)" using len by (simp add: sizes_ok_def)
  show "g_tables_init (upd_desc fd f s)" using link_ok_init [OF assms(1)] by simp
  show "desc_linked (upd_desc fd f s) j" if j: "j < WIZTOE_MAX_DESC" for j
    using link_ok_descD [OF assms(1) j] assms(2,3) len j
    by (auto simp: desc_linked_def nth_upd)
  show "owner_linked (upd_desc fd f s) j" if j: "j < WIZTOE_MAX_SOCK" for j
    using link_ok_ownerD [OF assms(1) j] assms(2,3) len
    by (auto simp: owner_linked_def nth_upd)
qed

text \<open>An owner that is no descriptor may change between free and reserved.\<close>

lemma link_ok_raw:
  assumes "link_ok s" and "0 \<le> k" and "g_sn_owner s ! nat k < 0"
    and "v = TOE_SN_FREE \<or> v = TOE_SN_RAW"
  shows "link_ok (set_owner k v s)"
proof (rule link_okI)
  note len = link_ok_lengths [OF assms(1)]
  show "sizes_ok (set_owner k v s)" using len by (simp add: sizes_ok_def)
  show "g_tables_init (set_owner k v s)" using link_ok_init [OF assms(1)] by simp
  show "desc_linked (set_owner k v s) j" if j: "j < WIZTOE_MAX_DESC" for j
    using link_ok_descD [OF assms(1) j] free_not_bound [OF assms(1) j assms(2,3)] assms(2)
    by (auto simp: desc_linked_def nth_upd)
  show "owner_linked (set_owner k v s) j" if j: "j < WIZTOE_MAX_SOCK" for j
    using link_ok_ownerD [OF assms(1) j] assms(4) len j
    by (auto simp: owner_linked_def nth_upd)
qed

lemma toe_okI:
  assumes "link_ok s" and "\<And>j. j < WIZTOE_MAX_DESC \<Longrightarrow> armed_or_listener s j"
  shows "toe_ok s"
  using assms by (simp add: toe_ok_def)

lemma toe_ok_armedD: "toe_ok s \<Longrightarrow> j < WIZTOE_MAX_DESC \<Longrightarrow> armed_or_listener s j"
  by (simp add: toe_ok_def)

lemma armed_set_owner [simp]: "armed_or_listener (set_owner k v s) j = armed_or_listener s j"
  and armed_chip [simp]: "armed_or_listener (s\<lparr>chip := c\<rparr>) j = armed_or_listener s j"
  by (simp_all add: armed_or_listener_def)

lemma armed_upd_other [simp]: "j \<noteq> nat fd \<Longrightarrow> armed_or_listener (upd_desc fd f s) j = armed_or_listener s j"
  by (simp add: armed_or_listener_def nth_upd)

lemma desc_upd_same [simp]:
  "link_ok s \<Longrightarrow> 0 \<le> fd \<Longrightarrow> fd < int WIZTOE_MAX_DESC \<Longrightarrow> (g_desc s)[nat fd := x] ! nat fd = x"
  by (simp add: nth_upd link_ok_lengths nat_less_iff)

lemma desc_upd_other: "j \<noteq> nat fd \<Longrightarrow> (g_desc s)[nat fd := x] ! j = g_desc s ! j"
  by (simp add: nth_upd)

lemma unused_no_sn:
  assumes "link_ok s" and "0 \<le> fd" and "fd < int WIZTOE_MAX_DESC" and "\<not> d_used (desc s fd)"
  shows "d_sn (desc s fd) = -1"
  using link_okD(2) [OF assms(1), of "nat fd"] link_ok_sn_range [OF assms(1), of "nat fd"] assms(2-)
  by (auto simp: nat_less_iff)

section \<open>The operations keep the invariant\<close>

lemma toe_ok_tables_init: "toe_inv s \<Longrightarrow> toe_ok (toe_tables_init s)"
proof (cases "g_tables_init s")
  case True
  then show "toe_inv s \<Longrightarrow> ?thesis" by (auto simp: toe_inv_def toe_fresh_def toe_tables_init_def)
next
  case False
  assume "toe_inv s"
  with False have f: "toe_fresh s" by (auto simp: toe_inv_def toe_ok_def link_ok_def)
  then have len: "length (g_desc s) = WIZTOE_MAX_DESC" "length (g_sn_owner s) = WIZTOE_MAX_SOCK"
    and z: "\<And>fd. fd < WIZTOE_MAX_DESC \<Longrightarrow> g_desc s ! fd = desc_zero"
    by (simp_all add: toe_fresh_def sizes_ok_def)
  show ?thesis
  proof (rule toe_okI)
    show "link_ok (toe_tables_init s)"
      using False len by (intro link_okI) (simp_all add: toe_tables_init_def sizes_ok_def
        desc_linked_def owner_linked_def)
    show "armed_or_listener (toe_tables_init s) j" if "j < WIZTOE_MAX_DESC" for j
      using False len z [OF that] that
      by (simp add: toe_tables_init_def armed_or_listener_def desc_zero_def)
  qed
qed

lemma upd_desc_twice:
  "nat fd < length (g_desc s) \<Longrightarrow> upd_desc fd f (upd_desc fd g s) = upd_desc fd (\<lambda>d. f (g d)) s"
  by (simp add: upd_desc_def)

lemma toe_desc_alloc_cases:
  assumes "toe_desc_alloc s = (fd, s1)" and "length (g_desc s) = WIZTOE_MAX_DESC"
  obtains (none) "fd = -1" "s1 = s" "\<And>j. j < WIZTOE_MAX_DESC \<Longrightarrow> d_used (g_desc s ! j)"
    | (some) "0 \<le> fd" "fd < int WIZTOE_MAX_DESC" "\<not> d_used (desc s fd)"
        "s1 = upd_desc fd (\<lambda>_. desc_cleared\<lparr>d_used := True\<rparr>) s"
proof (cases "find (\<lambda>fd. \<not> d_used (g_desc s ! fd)) [0..<WIZTOE_MAX_DESC]")
  case None
  with assms(1) have "fd = -1" "s1 = s" by (simp_all add: toe_desc_alloc_def)
  moreover from None have "\<And>j. j < WIZTOE_MAX_DESC \<Longrightarrow> d_used (g_desc s ! j)"
    by (auto simp: find_None_iff)
  ultimately show ?thesis by (rule none)
next
  case (Some j)
  then have j: "j < WIZTOE_MAX_DESC" "\<not> d_used (g_desc s ! j)" by (auto simp: find_Some_iff)
  with assms Some have "fd = int j"
    "s1 = upd_desc (int j) (\<lambda>_. desc_cleared\<lparr>d_used := True\<rparr>) s"
    by (clarsimp simp: toe_desc_alloc_def toe_desc_clear_def upd_desc_twice)+
  with j show ?thesis by (intro some) auto
qed

lemma toe_ok_socket: "toe_inv s \<Longrightarrow> toe_ok (snd (wiztoe_socket dm ty pr s))"
proof -
  assume "toe_inv s"
  then have ok: "toe_ok (toe_tables_init s)" by (rule toe_ok_tables_init)
  let ?s1 = "toe_tables_init s"
  have lk: "link_ok ?s1" using ok by (rule toe_ok_link)
  obtain fd s2 where al: "toe_desc_alloc ?s1 = (fd, s2)" by (cases "toe_desc_alloc ?s1")
  obtain k s3 where sl: "toe_sn_alloc fd s2 = (k, s3)" by (cases "toe_sn_alloc fd s2")
  note len = link_ok_lengths(1) [OF lk]
  from al len show ?thesis
  proof (cases rule: toe_desc_alloc_cases)
    case none
    with ok al show ?thesis by (simp add: wiztoe_socket_def Let_def)
  next
    case some
    note sm = some
    have n1: "d_sn (desc ?s1 fd) = -1" using unused_no_sn [OF lk some(1,2,3)] .
    have l2: "link_ok s2"
      unfolding some(4) by (rule link_ok_no_sn [OF lk n1]) (simp add: desc_cleared_def)
    have d2: "desc s2 fd = desc_cleared\<lparr>d_used := True\<rparr>"
      unfolding some(4) using lk some(1,2) by simp
    have a2: "armed_or_listener s2 j" if "j < WIZTOE_MAX_DESC" "j \<noteq> nat fd" for j
      unfolding some(4) using toe_ok_armedD [OF ok that(1)] that(2) by simp
    from sl show ?thesis
    proof (cases rule: toe_sn_alloc_cases)
      case none
      have "toe_ok (toe_desc_clear fd s2)"
      proof (rule toe_okI)
        show "link_ok (toe_desc_clear fd s2)"
          unfolding toe_desc_clear_def
          by (rule link_ok_no_sn [OF l2]) (simp_all add: d2 desc_cleared_def)
        show "armed_or_listener (toe_desc_clear fd s2) j" if "j < WIZTOE_MAX_DESC" for j
          using a2 that l2 sm(1,2)
          by (cases "j = nat fd")
             (simp_all add: toe_desc_clear_def armed_or_listener_def [of _ "nat fd"]
               desc_cleared_def desc_zero_def)
      qed
      with ok al sl none sm show ?thesis by (simp add: wiztoe_socket_def Let_def)
    next
      case some
      let ?f = "\<lambda>d. d\<lparr>d_sn := k, d_is_udp := (ty = 2)\<rparr>"
      have "toe_ok (upd_desc fd ?f (set_owner k fd s2))"
      proof (rule toe_okI)
        show "link_ok (upd_desc fd ?f (set_owner k fd s2))"
          using l2 sm(1,2) some by (intro link_ok_claim) (simp_all add: d2 desc_cleared_def)
        show "armed_or_listener (upd_desc fd ?f (set_owner k fd s2)) j"
          if "j < WIZTOE_MAX_DESC" for j
          using a2 that l2 sm(1,2) some(1)
          by (cases "j = nat fd")
             (simp_all add: armed_or_listener_def [of _ "nat fd"] d2 desc_cleared_def desc_zero_def)
      qed
      with ok al sl some sm show ?thesis by (simp add: wiztoe_socket_def Let_def)
    qed
  qed
qed

end
