(* ===== verification/Toe_Inv_Listen.thy ===== *)
theory Toe_Inv_Listen
  imports Toe_Inv
begin

text \<open>
  Preservation of the table invariant by the operations that move hardware sockets:
  re-opening, disarming and re-arming a listener, the hand-over in accept, reservation and
  release, close.
\<close>

lemma on_chip_pair: "on_chip f s = (fst (f (chip s)), s\<lparr>chip := snd (f (chip s))\<rparr>)"
  by (simp add: on_chip_def)

lemma upd_desc_id: "upd_desc fd (\<lambda>d. d\<lparr>d_opened := d_opened (desc s fd)\<rparr>) s = s"
  by (simp add: upd_desc_def)

lemma upd_desc_chip: "upd_desc fd f (s\<lparr>chip := c\<rparr>) = (upd_desc fd f s)\<lparr>chip := c\<rparr>"
  by (simp add: upd_desc_def)

lemma keeps_role_opened: "keeps_role (\<lambda>d. d\<lparr>d_opened := b\<rparr>)"
  by simp

text \<open>All that re-opening does to the tables is to write \<open>opened\<close>.\<close>

lemma listener_reopen_shape:
  "\<exists>b c. snd (toe_listener_reopen io fd s) = (upd_desc fd (\<lambda>d. d\<lparr>d_opened := b\<rparr>) s)\<lparr>chip := c\<rparr>"
proof -
  have "\<exists>b c. s\<lparr>chip := x\<rparr> = (upd_desc fd (\<lambda>d. d\<lparr>d_opened := b\<rparr>) s)\<lparr>chip := c\<rparr>" for x
    using upd_desc_id [of fd s] by metis
  then show ?thesis
    by (simp add: toe_listener_reopen_def toe_chip_has_ip_def on_chip_pair Let_def upd_desc_chip)
       (metis toe.update_convs(4))
qed

lemma toe_ok_reopen: "toe_ok s \<Longrightarrow> toe_ok (snd (toe_listener_reopen io fd s))"
  using listener_reopen_shape [of io fd s] by (auto simp: toe_ok_upd_desc)

lemma reopen_desc:
  "d_sn (desc (snd (toe_listener_reopen io fd s)) j) = d_sn (desc s j)"
  "d_used (desc (snd (toe_listener_reopen io fd s)) j) = d_used (desc s j)"
  "d_listening (desc (snd (toe_listener_reopen io fd s)) j) = d_listening (desc s j)"
  using listener_reopen_shape [of io fd s] by (auto simp: nth_upd split: if_splits)

lemma toe_sn_release_sn:
  assumes "link_ok s" and "0 \<le> fd" and "fd < int WIZTOE_MAX_DESC" and "0 \<le> d_sn (desc s fd)"
  shows "toe_sn_release (d_sn (desc s fd)) s = set_owner (d_sn (desc s fd)) TOE_SN_FREE s"
  using link_okD(1) [OF assms(1), of "nat fd"] assms(2-) by (simp add: toe_sn_release_def nat_less_iff)

lemma listening_facts:
  assumes "toe_ok s" and "0 \<le> fd" and "fd < int WIZTOE_MAX_DESC" and "d_listening (desc s fd)"
  shows "d_used (desc s fd)" and "\<not> d_is_udp (desc s fd)"
  using toe_ok_armedD [OF assms(1), of "nat fd"] assms(2-)
  by (auto simp: armed_or_listener_def nat_less_iff)

lemma toe_ok_disarm:
  assumes "toe_ok s" and "0 \<le> fd" and "fd < int WIZTOE_MAX_DESC" and "d_listening (desc s fd)"
  shows "toe_ok (toe_listener_disarm fd s)"
proof (rule toe_okI)
  note lk = toe_ok_link [OF assms(1)]
  show "link_ok (toe_listener_disarm fd s)"
  proof (cases "0 \<le> d_sn (desc s fd)")
    case True
    with lk assms show ?thesis
      by (simp add: toe_listener_disarm_def toe_sn_release_sn link_ok_give_back)
  next
    case False
    with link_ok_sn_range [OF lk, of "nat fd"] assms have "d_sn (desc s fd) = -1" by auto
    with lk show ?thesis by (simp add: toe_listener_disarm_def link_ok_no_sn)
  qed
  show "armed_or_listener (toe_listener_disarm fd s) j" if "j < WIZTOE_MAX_DESC" for j
    using toe_ok_armedD [OF assms(1) that] listening_facts [OF assms] assms lk
    by (cases "j = nat fd")
       (simp_all add: toe_listener_disarm_def toe_sn_release_def armed_or_listener_def [of _ "nat fd"])
qed

lemma toe_ok_bind_sn:
  assumes "toe_ok s" and "0 \<le> fd" and "fd < int WIZTOE_MAX_DESC" and "d_used (desc s fd)"
    and "d_sn (desc s fd) = -1" and "0 \<le> k" and "k < int WIZTOE_MAX_SOCK"
    and "g_sn_owner s ! nat k = TOE_SN_FREE"
  shows "toe_ok (upd_desc fd (\<lambda>d. d\<lparr>d_sn := k\<rparr>) (set_owner k fd s))"
proof (rule toe_okI)
  note lk = toe_ok_link [OF assms(1)]
  show "link_ok (upd_desc fd (\<lambda>d. d\<lparr>d_sn := k\<rparr>) (set_owner k fd s))"
    using assms lk by (intro link_ok_claim) simp_all
  show "armed_or_listener (upd_desc fd (\<lambda>d. d\<lparr>d_sn := k\<rparr>) (set_owner k fd s)) j"
    if "j < WIZTOE_MAX_DESC" for j
    using toe_ok_armedD [OF assms(1) that] assms lk
    by (cases "j = nat fd") (simp_all add: armed_or_listener_def [of _ "nat fd"])
qed

lemma toe_ok_rearm:
  assumes "toe_ok s" and "0 \<le> fd" and "fd < int WIZTOE_MAX_DESC" and "d_listening (desc s fd)"
  shows "toe_ok (snd (toe_listener_rearm io fd s))"
proof (cases "0 \<le> d_sn (desc s fd)")
  case True
  with assms show ?thesis by (simp add: toe_listener_rearm_def)
next
  case False
  note lk = toe_ok_link [OF assms(1)]
  note lf = listening_facts [OF assms]
  from False link_ok_sn_range [OF lk, of "nat fd"] assms(2,3) have n1: "d_sn (desc s fd) = -1" by auto
  obtain k s1 where al: "toe_sn_alloc fd s = (k, s1)" by (cases "toe_sn_alloc fd s")
  from al show ?thesis
  proof (cases rule: toe_sn_alloc_cases)
    case none
    with assms al False show ?thesis by (simp add: toe_listener_rearm_def)
  next
    case some
    let ?s2 = "upd_desc fd (\<lambda>d. d\<lparr>d_sn := k\<rparr>) s1"
    have ok2: "toe_ok ?s2"
      unfolding some(4) by (rule toe_ok_bind_sn [OF assms(1-3) lf(1) n1 some(1-3)])
    have "d_listening (desc ?s2 fd)" using some assms lk by simp
    then have "toe_ok (toe_listener_disarm fd (snd (toe_listener_reopen io fd ?s2)))"
      using toe_ok_reopen [OF ok2] assms(2,3) by (intro toe_ok_disarm) (simp_all add: reopen_desc)
    with toe_ok_reopen [OF ok2] al False some show ?thesis
      by (simp add: toe_listener_rearm_def Let_def split: prod.splits)
         (metis snd_conv)
  qed
qed

lemma rearm_if_pending_ok: "toe_ok s \<Longrightarrow> fd < WIZTOE_MAX_DESC \<Longrightarrow> toe_ok (rearm_if_pending io s fd)"
  by (simp add: rearm_if_pending_def toe_ok_rearm)

lemma foldl_rearm_ok:
  "toe_ok s \<Longrightarrow> set fds \<subseteq> {..<WIZTOE_MAX_DESC} \<Longrightarrow> toe_ok (foldl (rearm_if_pending io) s fds)"
  by (induction fds arbitrary: s) (simp_all add: rearm_if_pending_ok)

lemma toe_ok_rearm_pending: "toe_ok s \<Longrightarrow> toe_ok (toe_rearm_pending_listeners io s)"
  unfolding toe_rearm_pending_listeners_def by (rule foldl_rearm_ok) auto

lemma toe_ok_listening:
  assumes "toe_ok s" and "toe_fd_ready s fd" and "\<not> d_is_udp (desc s fd)"
  shows "toe_ok (upd_desc fd (\<lambda>d. d\<lparr>d_listening := b\<rparr>) s)"
proof (rule toe_okI)
  note lk = toe_ok_link [OF assms(1)]
  have r: "0 \<le> fd" "fd < int WIZTOE_MAX_DESC" "d_used (desc s fd)" "0 \<le> d_sn (desc s fd)"
    using assms(2) by (auto simp: toe_fd_ready_def toe_fd_valid_def)
  show "link_ok (upd_desc fd (\<lambda>d. d\<lparr>d_listening := b\<rparr>) s)"
    using lk by (simp add: link_ok_upd_desc keeps_link_def)
  show "armed_or_listener (upd_desc fd (\<lambda>d. d\<lparr>d_listening := b\<rparr>) s) j" if "j < WIZTOE_MAX_DESC" for j
    using toe_ok_armedD [OF assms(1) that] r lk assms(3)
    by (cases "j = nat fd") (simp_all add: armed_or_listener_def [of _ "nat fd"])
qed

lemma toe_ok_listen:
  assumes "toe_ok s"
  shows "toe_ok (snd (wiztoe_listen io fd bl s))"
proof (cases "\<not> toe_fd_ready s fd \<or> d_is_udp (desc s fd)")
  case True
  with assms show ?thesis by (simp add: wiztoe_listen_def)
next
  case False
  note lk = toe_ok_link [OF assms]
  from False have r: "0 \<le> fd" "fd < int WIZTOE_MAX_DESC" "d_used (desc s fd)" "0 \<le> d_sn (desc s fd)"
    by (auto simp: toe_fd_ready_def toe_fd_valid_def)
  let ?s1 = "upd_desc fd (\<lambda>d. d\<lparr>d_listening := True\<rparr>) s"
  have ok1: "toe_ok ?s1" using assms False by (intro toe_ok_listening) auto
  note ok2 = toe_ok_reopen [OF ok1, of io fd]
  have "toe_ok (upd_desc fd (\<lambda>d. d\<lparr>d_listening := False\<rparr>) (snd (toe_listener_reopen io fd ?s1)))"
    using ok2 r lk listening_facts [OF ok2 r(1,2)]
    by (intro toe_ok_listening) (simp_all add: reopen_desc toe_fd_ready_def toe_fd_valid_def)
  with ok2 False show ?thesis
    by (auto simp: wiztoe_listen_def Let_def split: prod.splits)
qed

section \<open>accept\<close>

text \<open>What the hand-over does before the listener looks for another socket.\<close>

definition handed_over :: "'c toe \<Rightarrow> int \<Rightarrow> int \<Rightarrow> 'c toe" where
  "handed_over s lfd cfd =
     (let k = d_sn (desc s lfd); l = desc s lfd
      in upd_desc lfd (\<lambda>d. d\<lparr>d_sn := -1, d_opened := False\<rparr>)
          (set_owner k cfd
            (upd_desc cfd (\<lambda>_. desc_cleared\<lparr>d_used := True, d_sn := k, d_opened := True,
               d_connected := True, d_port := d_port l, d_nodelay := d_nodelay l,
               d_rcv_timeout_ms := d_rcv_timeout_ms l,
               d_snd_timeout_ms := d_snd_timeout_ms l\<rparr>) s)))"

lemma toe_ok_handed_over:
  assumes "toe_ok s" and "0 \<le> lfd" and "lfd < int WIZTOE_MAX_DESC"
    and "d_listening (desc s lfd)" and "0 \<le> d_sn (desc s lfd)"
    and "0 \<le> cfd" and "cfd < int WIZTOE_MAX_DESC" and "\<not> d_used (desc s cfd)"
  shows "toe_ok (handed_over s lfd cfd)"
proof (rule toe_okI)
  note lk = toe_ok_link [OF assms(1)]
  note lf = listening_facts [OF assms(1-4)]
  let ?k = "d_sn (desc s lfd)"
  define g where "g = (\<lambda>d::toe_desc_t. d\<lparr>d_sn := -1, d_opened := False\<rparr>)"
  define f where "f = (\<lambda>_::toe_desc_t. desc_cleared\<lparr>d_used := True, d_sn := ?k, d_opened := True,
     d_connected := True, d_port := d_port (desc s lfd), d_nodelay := d_nodelay (desc s lfd),
     d_rcv_timeout_ms := d_rcv_timeout_ms (desc s lfd),
     d_snd_timeout_ms := d_snd_timeout_ms (desc s lfd)\<rparr>)"
  have neq: "cfd \<noteq> lfd" "nat cfd \<noteq> nat lfd" using assms lf by auto
  have k: "?k < int WIZTOE_MAX_SOCK" using link_okD(1) [OF lk _ assms(5)] assms(2,3) by (simp add: nat_less_iff)
  let ?s1 = "upd_desc lfd g (set_owner ?k TOE_SN_FREE s)"
  have l1: "link_ok ?s1"
    using link_ok_give_back [OF lk assms(2,3,5)] by (simp add: g_def)
  have c1: "desc ?s1 cfd = desc s cfd" using neq by (simp add: nth_upd)
  have eq: "handed_over s lfd cfd = upd_desc cfd f (set_owner ?k cfd ?s1)"
    using neq by (simp add: handed_over_def Let_def upd_desc_def set_owner_def f_def g_def
        list_update_swap)
  have "d_sn (desc ?s1 cfd) = -1"
    using unused_no_sn [OF lk assms(6,7,8)] c1 by simp
  moreover have "g_sn_owner ?s1 ! nat ?k = TOE_SN_FREE"
    using k assms(5) by (simp add: link_ok_lengths [OF lk] nat_less_iff)
  ultimately show "link_ok (handed_over s lfd cfd)"
    unfolding eq using l1 assms(5-7) k by (intro link_ok_claim) (simp_all add: f_def)
  show "armed_or_listener (handed_over s lfd cfd) j" if j: "j < WIZTOE_MAX_DESC" for j
  proof -
    consider "j = nat cfd" | "j = nat lfd" | "j \<noteq> nat cfd" "j \<noteq> nat lfd" by blast
    then show ?thesis
    proof cases
      case 1
      with assms(5-7) show ?thesis
        by (simp add: eq armed_or_listener_def f_def desc_cleared_def desc_zero_def nth_upd
            link_ok_lengths [OF lk] nat_less_iff)
    next
      case 2
      with neq assms(2-4) lk lf show ?thesis
        by (simp add: eq armed_or_listener_def g_def nth_upd)
    next
      case 3
      with toe_ok_armedD [OF assms(1) j] show ?thesis by (simp add: eq)
    qed
  qed
qed

lemma accept_established_cases:
  assumes "toe_ok s" and "0 \<le> lfd" and "lfd < int WIZTOE_MAX_DESC"
    and "d_listening (desc s lfd)" and "0 \<le> d_sn (desc s lfd)"
    and "toe_accept_established io lfd s = (r, s')"
  obtains (full) "r = WIZTOE_ERR_WOULDBLOCK" "s' = s" "\<And>j. j < WIZTOE_MAX_DESC \<Longrightarrow> d_used (g_desc s ! j)"
    | (conn) "0 \<le> r" "r < int WIZTOE_MAX_DESC" "\<not> d_used (desc s r)"
        "s' = snd (toe_listener_rearm io lfd (handed_over s lfd r))"
proof -
  note lk = toe_ok_link [OF assms(1)]
  note lf = listening_facts [OF assms(1-4)]
  note u = uint_toe_sn [OF lk assms(2,3,5)]
  obtain c s1 where al: "toe_desc_alloc s = (c, s1)" by (cases "toe_desc_alloc s")
  from al link_ok_lengths(1) [OF lk] show thesis
  proof (cases rule: toe_desc_alloc_cases)
    case none
    with assms(6) al show thesis by (intro full) (simp_all add: toe_accept_established_def Let_def)
  next
    case some
    have neq: "nat c \<noteq> nat lfd" using some lf assms(2) by auto
    have "nat c < length (g_desc s)" using some(1,2) by (simp add: link_ok_lengths [OF lk] nat_less_iff)
    moreover have "desc s1 lfd = desc s lfd" using some(4) neq by (simp add: nth_upd)
    ultimately have "r = c \<and> s' = snd (toe_listener_rearm io lfd (handed_over s lfd c))"
      using assms(6) al some u
      by (auto simp: toe_accept_established_def Let_def handed_over_def upd_desc_twice)
    with some show thesis by (intro conn) auto
  qed
qed

lemma toe_ok_accept_established:
  assumes "toe_ok s" and "0 \<le> lfd" and "lfd < int WIZTOE_MAX_DESC"
    and "d_listening (desc s lfd)" and "0 \<le> d_sn (desc s lfd)"
  shows "toe_ok (snd (toe_accept_established io lfd s))"
proof -
  obtain r s' where e: "toe_accept_established io lfd s = (r, s')"
    by (cases "toe_accept_established io lfd s")
  from assms e show ?thesis
  proof (cases rule: accept_established_cases)
    case full
    with assms e show ?thesis by simp
  next
    case conn
    note lf = listening_facts [OF assms(1-4)]
    have "nat r \<noteq> nat lfd" using conn lf assms(2) by auto
    then have "d_listening (desc (handed_over s lfd r) lfd)"
      using assms(2-4) toe_ok_link [OF assms(1)]
      by (simp add: handed_over_def Let_def nth_upd link_ok_lengths nat_less_iff)
    with conn assms e toe_ok_handed_over [OF assms conn(1-3)] show ?thesis
      by (simp add: toe_ok_rearm)
  qed
qed

end
