(* ===== verification/Toe_Reach.thy ===== *)
theory Toe_Reach
  imports Toe_Inv_Listen
begin

text \<open>
  Every call of the TOE layer as a step of one transition relation, and the invariant of the
  tables in every reachable state. The chip moves on its own between calls.
\<close>

section \<open>Calls that leave the tables alone\<close>

definition same_tables :: "'c toe \<Rightarrow> 'c toe \<Rightarrow> bool" where
  "same_tables s t \<longleftrightarrow> (\<exists>c. t = s\<lparr>chip := c\<rparr>)"

lemma same_tables_refl [simp]: "same_tables s s"
  unfolding same_tables_def by (metis toe.surjective toe.update_convs(4))

lemma same_tables_chip [simp]: "same_tables s (s\<lparr>chip := c\<rparr>)"
  by (auto simp: same_tables_def)

lemma same_tables_chip_eq [simp]: "same_tables s (t\<lparr>chip := c\<rparr>) = same_tables s t"
  unfolding same_tables_def
  by (metis (no_types, lifting) toe.surjective toe.update_convs(4) toe.unfold_congs(4))

lemma same_tables_chip_do [simp]: "same_tables s (chip_do f t) = same_tables s t"
  by (simp add: chip_do_def)

lemma same_tablesD:
  assumes "same_tables s t"
  shows "g_desc t = g_desc s" and "g_sn_owner t = g_sn_owner s" and "g_tables_init t = g_tables_init s"
    and "toe_ok t = toe_ok s" and "toe_inv t = toe_inv s"
  using assms by (auto simp: same_tables_def)

text \<open>The two helpers that read the chip, as functions of the chip alone.\<close>

definition deadline_c :: "'c iolib \<Rightarrow> u32 \<Rightarrow> u32 \<Rightarrow> 'c \<Rightarrow> bool \<times> 'c" where
  "deadline_c io started timeout_ms c =
     (if timeout_ms = 0 then (False, c)
      else (timeout_ms * 1000 \<le> fst (io_time_us io c) - started, snd (io_time_us io c)))"

definition link_c :: "'c iolib \<Rightarrow> 'c \<Rightarrow> bool \<times> 'c" where
  "link_c io c =
     (let ((rc, link), c1) = io_CW_GET_PHYLINK io c
      in (if rc < 0 then False else link = io_PHY_LINK_ON io, c1))"

lemma toe_chip_id: "s\<lparr>chip := chip s\<rparr> = s"
  by simp

lemma deadline_pair:
  "toe_deadline_passed io st tm s =
     (fst (deadline_c io st tm (chip s)), s\<lparr>chip := snd (deadline_c io st tm (chip s))\<rparr>)"
  by (simp add: toe_deadline_passed_def deadline_c_def on_chip_pair)

lemma link_pair:
  "toe_link_is_up io s = (fst (link_c io (chip s)), s\<lparr>chip := snd (link_c io (chip s))\<rparr>)"
  by (simp add: toe_link_is_up_def link_c_def on_chip_pair split: prod.splits)

lemmas chip_pairs = on_chip_pair deadline_pair link_pair chip_do_def

text \<open>A wait whose body touches the chip only.\<close>

lemma poll_loop_same_tables:
  assumes "poll_loop n body s = Some (r, s')" and "same_tables s0 s"
    and "\<And>t. same_tables s0 t \<Longrightarrow> same_tables s0 (snd (body t))"
  shows "same_tables s0 s'"
  using assms(1,2)
  by (rule poll_loop_rule [where I = "same_tables s0" and Q = "\<lambda>_. same_tables s0"])
     (use assms(3) in \<open>metis snd_conv\<close>)+

lemma command_latch_same: "same_tables s t \<Longrightarrow> same_tables s (snd (command_latch_turn io sn t))"
  by (simp add: command_latch_turn_def chip_pairs Let_def)

lemma disconnect_turn_same: "same_tables s t \<Longrightarrow> same_tables s (snd (disconnect_turn io sn st t))"
  by (simp add: disconnect_turn_def chip_pairs Let_def)

lemma send_turn_same: "same_tables s t \<Longrightarrow> same_tables s (snd (send_turn io fd sn st t))"
  by (simp add: send_turn_def chip_pairs Let_def)

lemma recv_turn_same: "same_tables s t \<Longrightarrow> same_tables s (snd (recv_turn io fd sn st t))"
  by (simp add: recv_turn_def chip_pairs Let_def)

lemma recvfrom_turn_same: "same_tables s t \<Longrightarrow> same_tables s (snd (recvfrom_turn io fd sn st t))"
  by (simp add: recvfrom_turn_def chip_pairs Let_def)

lemma disconnect_same:
  assumes "toe_tcp_disconnect_bounded io n fd s = Some s'"
  shows "same_tables s s'"
  using assms command_latch_same disconnect_turn_same
  by (auto simp: toe_tcp_disconnect_bounded_def chip_pairs Let_def
      split: if_splits option.splits elim!: poll_loop_same_tables)

lemma send_same: "wiztoe_send io n fd b s = Some (r, s') \<Longrightarrow> same_tables s s'"
  by (auto simp: wiztoe_send_def chip_pairs Let_def send_turn_same
      split: if_splits option.splits prod.splits sum.splits elim!: poll_loop_same_tables)

lemma recv_same: "wiztoe_recv io n fd l s = Some (r, s') \<Longrightarrow> same_tables s s'"
  by (auto simp: wiztoe_recv_def chip_pairs Let_def recv_turn_same
      split: if_splits option.splits prod.splits sum.splits elim!: poll_loop_same_tables)

lemma recvfrom_same: "wiztoe_recvfrom io n fd l s = Some (r, s') \<Longrightarrow> same_tables s s'"
  by (auto simp: wiztoe_recvfrom_def chip_pairs Let_def recvfrom_turn_same
      split: if_splits option.splits prod.splits sum.splits elim!: poll_loop_same_tables)

section \<open>The remaining calls keep the invariant\<close>

lemma toe_ok_accept_poll:
  assumes "toe_ok s" and "0 \<le> fd" and "fd < int WIZTOE_MAX_DESC" and "d_listening (desc s fd)"
  shows "toe_ok (snd (accept_poll io fd s))"
proof (cases "d_sn (desc s fd) < 0")
  case True
  with assms show ?thesis by (simp add: accept_poll_def toe_ok_rearm)
next
  case False
  have re: "toe_ok (toe_listener_disarm fd (snd (toe_listener_reopen io fd t)))"
    if "toe_ok t" "g_desc t = g_desc s" for t
    using toe_ok_reopen [OF that(1)] that(2) assms(2-4)
    by (intro toe_ok_disarm) (simp_all add: reopen_desc)
  have "toe_ok (snd (toe_accept_established io fd (s\<lparr>chip := c\<rparr>)))" for c
    using assms False by (intro toe_ok_accept_established) simp_all
  moreover have "toe_ok (toe_listener_disarm fd (s\<lparr>chip := c\<rparr>))" for c
    using assms by (intro toe_ok_disarm) simp_all
  ultimately show ?thesis
    using False assms(1) re toe_ok_reopen [of "s\<lparr>chip := c\<rparr>" io fd for c]
    by (simp add: accept_poll_def chip_pairs Let_def split_beta split: sock_status.split)
qed

lemma disarm_listening:
  "d_listening (desc (toe_listener_disarm fd s) j) = d_listening (desc s j)"
  by (simp add: toe_listener_disarm_def Let_def toe_sn_release_def nth_upd)

lemma sn_alloc_desc: "g_desc (snd (toe_sn_alloc fd s)) = g_desc s"
  by (cases "toe_sn_alloc fd s") (auto elim!: toe_sn_alloc_cases)

lemma rearm_listening:
  "d_listening (desc (snd (toe_listener_rearm io fd s)) j) = d_listening (desc s j)"
  by (simp add: toe_listener_rearm_def Let_def split_beta disarm_listening reopen_desc
      sn_alloc_desc nth_upd)

lemma accept_poll_listening:
  "fst (accept_poll io fd s) = None \<Longrightarrow>
     d_listening (desc (snd (accept_poll io fd s)) fd) = d_listening (desc s fd)"
  by (simp add: accept_poll_def chip_pairs Let_def split_beta rearm_listening disarm_listening
      reopen_desc split: sock_status.split_asm sock_status.split if_splits)

lemma accept_turn_None:
  assumes "accept_turn io fd st s = (None, s')"
  obtains c where "s' = (snd (accept_poll io fd s))\<lparr>chip := c\<rparr>" "fst (accept_poll io fd s) = None"
  using assms
  by (auto simp: accept_turn_def chip_pairs Let_def split: prod.splits option.splits if_splits)

lemma accept_turn_Some:
  assumes "accept_turn io fd st s = (Some r, s')"
  obtains c where "s' = (snd (accept_poll io fd s))\<lparr>chip := c\<rparr>"
  using assms toe_chip_id
  by (auto simp: accept_turn_def chip_pairs Let_def split: prod.splits option.splits if_splits)
     (metis toe.surjective toe.update_convs(4))+

lemma toe_ok_accept:
  assumes "toe_ok s" and "wiztoe_accept io n fd s = Some (r, s')"
  shows "toe_ok s'"
proof (cases "\<not> toe_fd_valid s fd \<or> \<not> d_listening (desc s fd)")
  case True
  with assms show ?thesis by (auto simp: wiztoe_accept_def)
next
  case False
  then have r: "0 \<le> fd" "fd < int WIZTOE_MAX_DESC" "d_listening (desc s fd)"
    by (auto simp: toe_fd_valid_def)
  let ?I = "\<lambda>t. toe_ok t \<and> d_listening (desc t fd)"
  obtain st c where pl: "poll_loop n (accept_turn io fd st) (s\<lparr>chip := c\<rparr>) = Some (r, s')"
    using assms(2) False by (auto simp: wiztoe_accept_def chip_pairs Let_def)
  from pl show ?thesis
  proof (rule poll_loop_rule [where I = ?I and Q = "\<lambda>_. toe_ok"])
    show "?I (s\<lparr>chip := c\<rparr>)" using assms(1) r by simp
  next
    fix t t' assume "?I t" "accept_turn io fd st t = (None, t')"
    then show "?I t'" using toe_ok_accept_poll [of t fd io] r
      by (auto elim!: accept_turn_None simp: accept_poll_listening)
  next
    fix t q t' assume "?I t" "accept_turn io fd st t = (Some q, t')"
    then show "toe_ok t'" using toe_ok_accept_poll [of t fd io] r
      by (auto elim!: accept_turn_Some)
  qed
qed

lemma toe_ok_cleared:
  assumes "toe_ok s" and "toe_fd_valid s fd" and "same_tables s s1"
  shows "toe_ok (toe_desc_clear fd
           (if 0 \<le> d_sn (desc s fd) then toe_sn_release (d_sn (desc s fd)) s1 else s1))"
    (is "toe_ok ?t")
proof (rule toe_okI)
  have ok1: "toe_ok s1" using assms by (simp add: same_tablesD)
  note lk = toe_ok_link [OF ok1]
  have v: "0 \<le> fd" "fd < int WIZTOE_MAX_DESC" using assms(2) by (auto simp: toe_fd_valid_def)
  have d: "desc s fd = desc s1 fd" using assms(3) by (simp add: same_tablesD)
  show "link_ok ?t"
  proof (cases "0 \<le> d_sn (desc s fd)")
    case True
    then show ?thesis
      using lk v by (simp add: d toe_desc_clear_def toe_sn_release_sn link_ok_give_back desc_cleared_def)
  next
    case False
    with link_ok_sn_range [OF lk, of "nat fd"] v have "d_sn (desc s1 fd) = -1" by (auto simp: d)
    with False lk show ?thesis by (simp add: d toe_desc_clear_def link_ok_no_sn desc_cleared_def)
  qed
  show "armed_or_listener ?t j" if j: "j < WIZTOE_MAX_DESC" for j
    using toe_ok_armedD [OF ok1 j] v lk
    by (cases "j = nat fd")
       (auto simp: toe_desc_clear_def toe_sn_release_def armed_or_listener_def [of _ "nat fd"]
         desc_cleared_def desc_zero_def nth_upd link_ok_lengths)
qed

lemma close_socket_shape:
  assumes "link_ok s" and "toe_fd_valid s fd" and "0 \<le> d_sn (desc s fd)"
    and "close_socket io n fd s = Some s1"
  obtains s0 where "same_tables s s0" "s1 = toe_sn_release (d_sn (desc s fd)) s0"
proof -
  have u: "uint (toe_sn s fd) = d_sn (desc s fd)"
    using assms by (intro uint_toe_sn) (auto simp: toe_fd_valid_def)
  let ?e = "\<lambda>m. if d_opened (desc m fd) then chip_do (io_close io (toe_sn s fd)) m else m"
  obtain m where m: "(if \<not> d_is_udp (desc s fd) then toe_tcp_disconnect_bounded io n fd s
       else Some s) = Some m" and s1: "s1 = toe_sn_release (d_sn (desc s fd)) (?e m)"
    using assms(4) unfolding close_socket_def Let_def u by (auto split: option.splits)
  from m have "same_tables s m" by (auto dest: disconnect_same split: if_splits)
  then have "same_tables s (?e m)" by simp
  then show thesis using s1 by (rule that)
qed

lemma toe_ok_close:
  assumes "toe_ok s" and "wiztoe_close io n fd s = Some (r, s')"
  shows "toe_ok s'"
proof (cases "toe_fd_valid s fd")
  case False
  with assms show ?thesis by (auto simp: wiztoe_close_def)
next
  case True
  show ?thesis
  proof (cases "0 \<le> d_sn (desc s fd)")
    case sn: True
    with assms(2) True obtain s1 where c: "close_socket io n fd s = Some s1"
      and s': "s' = toe_rearm_pending_listeners io (toe_desc_clear fd s1)"
      by (auto simp: wiztoe_close_def split: option.splits)
    from toe_ok_link [OF assms(1)] True sn c show ?thesis
    proof (cases rule: close_socket_shape)
      case (1 s0)
      with toe_ok_cleared [OF assms(1) True 1(1)] sn s' show ?thesis
        by (simp add: toe_ok_rearm_pending)
    qed
  next
    case False
    with assms(2) True toe_ok_cleared [OF assms(1) True same_tables_refl] show ?thesis
      by (auto simp: wiztoe_close_def toe_ok_rearm_pending)
  qed
qed

lemma toe_ok_shutdown:
  assumes "toe_ok s" and "wiztoe_shutdown io n fd srd swr s = Some (r, s')"
  shows "toe_ok s'"
  using assms
  by (auto simp: wiztoe_shutdown_def Let_def toe_ok_upd_desc split: if_splits
      dest!: disconnect_same simp: same_tablesD)

lemma toe_ok_socket_reserve:
  assumes "toe_inv s"
  shows "toe_ok (snd (wiztoe_socket_reserve s))"
proof -
  let ?s = "toe_tables_init s"
  have ok: "toe_ok ?s" using assms by (rule toe_ok_tables_init)
  show ?thesis
  proof (cases "find (\<lambda>k. g_sn_owner ?s ! k = TOE_SN_FREE) [0..<WIZTOE_MAX_SOCK]")
    case None
    with ok show ?thesis by (simp add: wiztoe_socket_reserve_def Let_def)
  next
    case (Some k)
    then have "g_sn_owner ?s ! k = TOE_SN_FREE" by (auto simp: find_Some_iff)
    then have "link_ok (set_owner (int k) TOE_SN_RAW ?s)"
      using toe_ok_link [OF ok] by (intro link_ok_raw) (simp_all add: TOE_SN_FREE_def)
    with ok Some show ?thesis
      by (auto simp: wiztoe_socket_reserve_def Let_def intro!: toe_okI dest: toe_ok_armedD)
  qed
qed

lemma toe_ok_socket_release:
  assumes "toe_ok s" and "g_sn_owner s ! nat sn = TOE_SN_RAW"
  shows "toe_ok (wiztoe_socket_release io sn s)"
proof (cases "0 \<le> sn \<and> sn < int WIZTOE_MAX_SOCK")
  case True
  let ?s = "chip_do (io_close io (word_of_int sn)) s"
  have "link_ok (set_owner sn TOE_SN_FREE ?s)"
    using True assms toe_ok_link [OF assms(1)] by (intro link_ok_raw) (simp_all add: TOE_SN_RAW_def)
  then have "toe_ok (toe_sn_release sn ?s)"
    using True assms(1) by (auto simp: toe_sn_release_def armed_or_listener_def
        intro!: toe_okI dest: toe_ok_armedD)
  with True show ?thesis by (simp add: wiztoe_socket_release_def toe_ok_rearm_pending)
next
  case False
  from assms(1) show ?thesis unfolding wiztoe_socket_release_def if_not_P [OF False] .
qed

lemma toe_ok_bind: "toe_ok s \<Longrightarrow> toe_ok (snd (wiztoe_bind io fd p s))"
  by (simp add: wiztoe_bind_def toe_open_udp_def chip_pairs Let_def split_beta toe_ok_upd_desc)

lemma toe_ok_connect: "toe_ok s \<Longrightarrow> toe_ok (snd (wiztoe_connect io fd ip p s))"
  by (simp add: wiztoe_connect_def chip_pairs Let_def split_beta toe_ok_upd_desc)

lemma toe_ok_sendto: "toe_ok s \<Longrightarrow> toe_ok (snd (wiztoe_sendto io fd b ip p s))"
  by (simp add: wiztoe_sendto_def chip_pairs Let_def split_beta toe_ok_upd_desc)

lemma toe_ok_set_nonblocking: "toe_ok s \<Longrightarrow> toe_ok (snd (wiztoe_set_nonblocking fd e s))"
  by (simp add: wiztoe_set_nonblocking_def toe_ok_upd_desc)

lemma toe_ok_setsockopt: "toe_ok s \<Longrightarrow> toe_ok (snd (wiztoe_setsockopt io fd opt v s))"
  by (simp add: wiztoe_setsockopt_def Let_def chip_do_def toe_ok_upd_desc
      split: option.split wiztoe_opt_t.split)

section \<open>The transition relation of the TOE layer\<close>

text \<open>
  One rule per entry point of \<open>wiznet_toe.h\<close> that can change the tables or the chip, and one for
  the chip moving by itself. The number given to \<open>wiztoe_socket_release()\<close> is one that
  \<open>wiztoe_socket_reserve()\<close> handed out: the header asks for that and the code does not check it.
\<close>

inductive toe_call :: "'c iolib \<Rightarrow> 'c toe \<Rightarrow> 'c toe \<Rightarrow> bool" for io where
  chip_moves: "toe_call io s (s\<lparr>chip := c\<rparr>)"
| network_init: "toe_call io s (wiztoe_network_init io ip msk gw mac s)"
| call_socket: "toe_call io s (snd (wiztoe_socket dm ty pr s))"
| call_set_nonblocking: "toe_call io s (snd (wiztoe_set_nonblocking fd e s))"
| call_available: "toe_call io s (snd (wiztoe_available io fd s))"
| call_shutdown: "wiztoe_shutdown io n fd srd swr s = Some (r, s') \<Longrightarrow> toe_call io s s'"
| call_bind: "toe_call io s (snd (wiztoe_bind io fd p s))"
| call_listen: "toe_call io s (snd (wiztoe_listen io fd bl s))"
| call_accept: "wiztoe_accept io n fd s = Some (r, s') \<Longrightarrow> toe_call io s s'"
| call_connect: "toe_call io s (snd (wiztoe_connect io fd ip p s))"
| call_send: "wiztoe_send io n fd b s = Some (r, s') \<Longrightarrow> toe_call io s s'"
| call_recv: "wiztoe_recv io n fd l s = Some (q, s') \<Longrightarrow> toe_call io s s'"
| call_sendto: "toe_call io s (snd (wiztoe_sendto io fd b ip p s))"
| call_recvfrom: "wiztoe_recvfrom io n fd l s = Some (q', s') \<Longrightarrow> toe_call io s s'"
| call_setsockopt: "toe_call io s (snd (wiztoe_setsockopt io fd opt v s))"
| call_close: "wiztoe_close io n fd s = Some (r, s') \<Longrightarrow> toe_call io s s'"
| call_reserve: "toe_call io s (snd (wiztoe_socket_reserve s))"
| call_release: "g_sn_owner s ! nat sn = TOE_SN_RAW \<Longrightarrow> 0 \<le> sn \<Longrightarrow> sn < int WIZTOE_MAX_SOCK \<Longrightarrow>
    toe_call io s (wiztoe_socket_release io sn s)"

inductive toe_reach :: "'c iolib \<Rightarrow> 'c toe \<Rightarrow> bool" for io where
  reach_boot: "toe_reach io (toe_boot c)"
| reach_call: "toe_reach io s \<Longrightarrow> toe_call io s s' \<Longrightarrow> toe_reach io s'"

lemma fresh_not_valid: "toe_fresh s \<Longrightarrow> \<not> toe_fd_valid s fd"
  by (auto simp: toe_fresh_def toe_fd_valid_def desc_zero_def nat_less_iff)

lemma fresh_not_ready: "toe_fresh s \<Longrightarrow> \<not> toe_fd_ready s fd"
  by (simp add: toe_fd_ready_def fresh_not_valid)

lemma toe_call_ok: "toe_call io s s' \<Longrightarrow> toe_ok s \<Longrightarrow> toe_ok s'"
proof (induction rule: toe_call.induct)
  case (network_init s ip msk gw mac)
  then show ?case
    using toe_ok_tables_init [of s] by (simp add: wiztoe_network_init_def Let_def toe_ok_inv)
next
  case (call_available s fd)
  then show ?case by (simp add: wiztoe_available_def chip_pairs Let_def)
next
  case (call_send n fd b s r s')
  from same_tablesD(4) [OF send_same [OF call_send(1)]] call_send(2) show ?case by simp
next
  case (call_recv n fd l s q s')
  then show ?case using same_tablesD(4) [OF recv_same] by (metis surj_pair)
next
  case (call_recvfrom n fd l s q' s')
  then show ?case using same_tablesD(4) [OF recvfrom_same] by (metis surj_pair)
next
  case (call_shutdown n fd srd swr s r s')
  then show ?case by (blast intro: toe_ok_shutdown)
next
  case (call_accept n fd s r s')
  then show ?case by (blast intro: toe_ok_accept)
next
  case (call_close n fd s r s')
  then show ?case by (blast intro: toe_ok_close)
qed (simp_all add: toe_ok_set_nonblocking toe_ok_bind toe_ok_listen
  toe_ok_connect toe_ok_sendto toe_ok_setsockopt toe_ok_socket_reserve
  toe_ok_socket_release toe_ok_socket toe_ok_inv)

lemma toe_call_fresh: "toe_call io s s' \<Longrightarrow> toe_fresh s \<Longrightarrow> toe_inv s'"
proof (induction rule: toe_call.induct)
  case (network_init s ip msk gw mac)
  then show ?case
    using toe_ok_tables_init [of s] by (simp add: wiztoe_network_init_def Let_def toe_inv_def)
next
  case (call_release s sn)
  then show ?case by (auto simp: toe_fresh_def TOE_SN_RAW_def nat_less_iff)
next
  case (call_setsockopt s fd opt v)
  then show ?case
    by (cases v) (simp_all add: wiztoe_setsockopt_def Let_def fresh_not_valid toe_inv_def)
next
  case (call_socket s dm ty pr)
  then show ?case by (simp add: toe_inv_def toe_ok_socket)
next
  case (call_reserve s)
  then show ?case by (simp add: toe_inv_def toe_ok_socket_reserve)
next
  case (chip_moves s c)
  then show ?case by (simp add: toe_inv_def toe_fresh_def sizes_ok_def)
qed (simp_all add: fresh_not_valid fresh_not_ready toe_inv_def
  wiztoe_set_nonblocking_def wiztoe_available_def wiztoe_shutdown_def wiztoe_bind_def
  wiztoe_listen_def wiztoe_accept_def wiztoe_connect_def wiztoe_send_def wiztoe_recv_def
  wiztoe_sendto_def wiztoe_recvfrom_def wiztoe_close_def)

lemma toe_call_inv: "toe_call io s s' \<Longrightarrow> toe_inv s \<Longrightarrow> toe_inv s'"
  using toe_call_ok [of io s s'] toe_call_fresh [of io s s'] by (auto simp: toe_inv_def)

lemma reach_toe_inv: "toe_reach io s \<Longrightarrow> toe_inv s"
  by (induction rule: toe_reach.induct) (auto intro: toe_inv_boot toe_call_inv)

end
