(* ===== verification/Sim_Chip.thy ===== *)
theory Sim_Chip
  imports Toe_Reach
begin

text \<open>
  A concrete instance of the ioLibrary parameter, used by the witnesses only: eight sockets
  with a status, a receive count and a transmit space each, a source address and a microsecond
  clock. It follows the documented behaviour of the library (socket() leaves SOCK_INIT or
  SOCK_UDP, listen() takes SOCK_INIT to SOCK_LISTEN, close() ends in SOCK_CLOSED, a yield takes
  a millisecond).
\<close>

record sim =
  sim_now :: nat
  sim_sr :: "u8 \<Rightarrow> sock_status"
  sim_rx :: "bytes list"
  sim_fsr :: "u16 list"
  sim_sipr :: u32
  sim_link :: u8
  sim_cr :: u8
  sim_kpalv :: "u8 list"
  sim_netinfo :: wiz_NetInfo

definition sim_boot :: sim where
  "sim_boot = \<lparr>sim_now = 0, sim_sr = (\<lambda>_. SOCK_CLOSED), sim_rx = replicate 8 [],
     sim_fsr = replicate 8 2048, sim_sipr = 0xC0A80B02, sim_link = 1, sim_cr = 0,
     sim_kpalv = replicate 8 0,
     sim_netinfo = \<lparr>ni_mac = [0, 8, 220, 1, 2, 3], ni_ip = [192, 168, 11, 2],
       ni_sn = [255, 255, 255, 0], ni_gw = [192, 168, 11, 1], ni_dns = [8, 8, 8, 8],
       ni_dhcp = NETINFO_STATIC, ni_ipmode = 0\<rparr>\<rparr>"

definition sim_set_sr :: "u8 \<Rightarrow> sock_status \<Rightarrow> sim \<Rightarrow> sim" where
  "sim_set_sr sn st c = c\<lparr>sim_sr := (sim_sr c)(sn := st)\<rparr>"

definition sim_io :: "sim iolib" where
  "sim_io = \<lparr>
     io_socket = (\<lambda>sn m p f c. if m = Sn_MR_TCP \<and> sim_sipr c = 0 then (-12, c)
        else (uint sn, sim_set_sr sn (if m = Sn_MR_TCP then SOCK_INIT else SOCK_UDP) c)),
     io_listen = (\<lambda>sn c. if sim_sr c sn = SOCK_INIT then (1, sim_set_sr sn SOCK_LISTEN c)
        else (-3, c)),
     io_close = (\<lambda>sn c. sim_set_sr sn SOCK_CLOSED c),
     io_connect = (\<lambda>sn ip p c. (1, sim_set_sr sn SOCK_ESTABLISHED c)),
     io_send = (\<lambda>sn b c. (int (length b), c)),
     io_recv = (\<lambda>sn n c. ((int (length (take (unat n) (sim_rx c ! unat sn))),
        take (unat n) (sim_rx c ! unat sn)),
        c\<lparr>sim_rx := (sim_rx c)[unat sn := drop (unat n) (sim_rx c ! unat sn)]\<rparr>)),
     io_sendto = (\<lambda>sn b ip p c. (int (length b), c)),
     io_recvfrom = (\<lambda>sn n c. ((int (length (take (unat n) (sim_rx c ! unat sn))),
        take (unat n) (sim_rx c ! unat sn), [10, 0, 0, 1], 67),
        c\<lparr>sim_rx := (sim_rx c)[unat sn := drop (unat n) (sim_rx c ! unat sn)]\<rparr>)),
     io_getSn_SR = (\<lambda>sn c. (sim_sr c sn, c)),
     io_getSn_CR = (\<lambda>sn c. (sim_cr c, c\<lparr>sim_cr := 0\<rparr>)),
     io_setSn_CR_DISCON = (\<lambda>sn c. sim_set_sr sn (SOCK_STATE 0x18) c),
     io_Sn_IR_TIMEOUT = (\<lambda>sn c. (False, c)),
     io_getSn_RX_RSR = (\<lambda>sn c. (of_nat (length (sim_rx c ! unat sn)), c)),
     io_getSn_TX_FSR = (\<lambda>sn c. (sim_fsr c ! unat sn, c)),
     io_getSn_RxMAX = (\<lambda>sn c. (2048, c)),
     io_getSn_TxMAX = (\<lambda>sn c. (2048, c)),
     io_getSn_DIPR = (\<lambda>sn c. ([10, 0, 0, 1], c)),
     io_getSn_DPORT = (\<lambda>sn c. (4242, c)),
     io_setSn_KPALVTR = (\<lambda>sn v c. c\<lparr>sim_kpalv := (sim_kpalv c)[unat sn := v]\<rparr>),
     io_setSn_TTL = (\<lambda>sn v c. c),
     io_setSn_TOS = (\<lambda>sn v c. c),
     io_getSn_TTL = (\<lambda>sn c. (128, c)),
     io_getSn_TOS = (\<lambda>sn c. (0, c)),
     io_getSIPR = (\<lambda>c. (sim_sipr c, c)),
     io_CW_SYS_UNLOCK = (\<lambda>c. c),
     io_CN_SET_NETINFO = (\<lambda>ni c. c\<lparr>sim_netinfo := ni\<rparr>),
     io_CN_GET_NETINFO = (\<lambda>c. (sim_netinfo c, c)),
     io_CW_GET_PHYLINK = (\<lambda>c. ((0, sim_link c), c)),
     io_time_us = (\<lambda>c. (of_nat (sim_now c), c)),
     io_yield_1ms = (\<lambda>c. c\<lparr>sim_now := sim_now c + 1000\<rparr>),
     io_SOCK_OK = 1, io_SOCKERR_SOCKSTATUS = -7, io_SOCKERR_SOCKCLOSED = -4,
     io_SF_TCP_NODELAY = 0x20, io_PHY_LINK_ON = 1, io_newer_than_W5500 = False\<rparr>"

lemmas sim_defs [eval_defs] = sim_io_def sim_boot_def sim_set_sr_def

text \<open>Two states the witnesses start from: a listener on port 5000 (descriptor 0) whose socket
  the chip has just established, and a connected TCP descriptor.\<close>

definition sim_listening :: "sim toe" where
  "sim_listening = snd (wiztoe_listen sim_io 0 1
     (snd (wiztoe_bind sim_io 0 5000 (snd (wiztoe_socket 2 1 0 (toe_boot sim_boot))))))"

definition sim_pending :: "sim toe" where
  "sim_pending = sim_listening\<lparr>chip := sim_set_sr 0 SOCK_ESTABLISHED (chip sim_listening)\<rparr>"

definition sim_connected :: "sim toe" where
  "sim_connected = snd (wiztoe_connect sim_io 0 [10, 0, 0, 1] 80
     (snd (wiztoe_socket 2 1 0 (toe_boot sim_boot))))"

lemma sim_reach_listening: "toe_reach sim_io sim_listening"
  unfolding sim_listening_def
  by (rule reach_call [OF reach_call [OF reach_call [OF reach_boot call_socket] call_bind] call_listen])

lemma sim_reach_pending: "toe_reach sim_io sim_pending"
  unfolding sim_pending_def by (rule reach_call [OF sim_reach_listening]) (rule chip_moves)

lemma sim_reach_connected: "toe_reach sim_io sim_connected"
  unfolding sim_connected_def
  by (rule reach_call [OF reach_call [OF reach_boot call_socket] call_connect])

end
