(* ===== verification/Toe_Props.thy ===== *)
theory Toe_Props
  imports Sim_Chip
begin

text \<open>
  The properties of the descriptor layer: ownership of the hardware sockets, the abstract
  allocator it refines, the hand-over in accept, the recovery of a listener, and close.
\<close>

section \<open>Ownership\<close>

text \<open>C1. In every state the TOE layer can reach, whatever calls were made and whatever the chip
  did in between, the descriptor table and the hardware-socket table agree: each bound
  hardware socket names its descriptor and back, and a live descriptor without a hardware
  socket is a TCP listener.\<close>

theorem toe_tables_consistent: "toe_reach io s \<Longrightarrow> toe_inv s"
  by (rule reach_toe_inv)

theorem toe_tables_consistent_witness:
  "toe_reach sim_io sim_pending \<and> toe_inv sim_pending"
  using sim_reach_pending toe_tables_consistent [OF sim_reach_pending] by simp

text \<open>C2. Two live descriptors never hold the same hardware socket, and a reserved socket is
  held by none.\<close>

theorem hardware_socket_exclusive:
  assumes "toe_reach io s" and "toe_fd_ready s fd1" and "toe_fd_ready s fd2" and "fd1 \<noteq> fd2"
  shows "wiztoe_sn_of_fd s fd1 \<noteq> wiztoe_sn_of_fd s fd2 \<and>
         g_sn_owner s ! nat (wiztoe_sn_of_fd s fd1) = fd1"
proof -
  have ok: "toe_ok s" using assms(1,2) toe_inv_valid(1) reach_toe_inv
    by (auto simp: toe_fd_ready_def)
  have r: "0 \<le> fd1" "0 \<le> fd2" "nat fd1 < WIZTOE_MAX_DESC" "nat fd2 < WIZTOE_MAX_DESC"
    "0 \<le> d_sn (desc s fd1)" using assms(2,3) by (auto simp: toe_fd_ready_def toe_fd_valid_def)
  have "nat fd1 \<noteq> nat fd2" using assms(4) r by auto
  then have "d_sn (desc s fd1) \<noteq> d_sn (desc s fd2)"
    using link_ok_exclusive [OF toe_ok_link [OF ok] r(3,4,5)] by blast
  with link_okD(3) [OF toe_ok_link [OF ok] r(3,5)] assms(2,3) r show ?thesis
    by (simp add: wiztoe_sn_of_fd_def toe_fd_ready_def)
qed

definition sim_two :: "sim toe" where
  "sim_two = snd (wiztoe_socket 2 2 0 sim_pending)"

theorem hardware_socket_exclusive_witness:
  "wiztoe_sn_of_fd sim_two 0 \<noteq> wiztoe_sn_of_fd sim_two 1 \<and>
   g_sn_owner sim_two ! nat (wiztoe_sn_of_fd sim_two 0) = 0"
proof -
  have "toe_reach sim_io sim_two"
    unfolding sim_two_def by (rule reach_call [OF sim_reach_pending call_socket])
  moreover have "toe_fd_ready sim_two 0" "toe_fd_ready sim_two 1" by code_simp+
  ultimately show ?thesis using hardware_socket_exclusive [of sim_io sim_two 0 1] by simp
qed

section \<open>The abstract allocator\<close>

text \<open>
  What the tables stand for: which descriptors are live, and who holds each hardware socket.
  The specification of socket() and of the raw reservation over that view.
\<close>

datatype holder = Descriptor int | Raw

definition live :: "'c toe \<Rightarrow> int \<Rightarrow> bool" where
  "live s = toe_fd_valid s"

definition holders :: "'c toe \<Rightarrow> nat \<Rightarrow> holder option" where
  "holders s k =
     (if \<not> g_tables_init s \<or> WIZTOE_MAX_SOCK \<le> k \<or> g_sn_owner s ! k = TOE_SN_FREE then None
      else if g_sn_owner s ! k = TOE_SN_RAW then Some Raw
      else Some (Descriptor (g_sn_owner s ! k)))"

definition alloc_spec ::
  "(int \<Rightarrow> bool) \<Rightarrow> (nat \<Rightarrow> holder option) \<Rightarrow> int \<times> (int \<Rightarrow> bool) \<times> (nat \<Rightarrow> holder option)" where
  "alloc_spec l h =
     (case (find (\<lambda>fd. \<not> l (int fd)) [0..<WIZTOE_MAX_DESC], find (\<lambda>k. h k = None) [0..<WIZTOE_MAX_SOCK]) of
        (Some fd, Some k) \<Rightarrow> (int fd, l(int fd := True), h(k \<mapsto> Descriptor (int fd)))
      | _ \<Rightarrow> (-1, l, h))"

definition reserve_spec :: "(nat \<Rightarrow> holder option) \<Rightarrow> int \<times> (nat \<Rightarrow> holder option)" where
  "reserve_spec h =
     (case find (\<lambda>k. h k = None) [0..<WIZTOE_MAX_SOCK] of
        Some k \<Rightarrow> (int k, h(k \<mapsto> Raw)) | None \<Rightarrow> (-1, h))"

lemma find_cong_upt: "(\<And>i. i < n \<Longrightarrow> P i = Q i) \<Longrightarrow> find P [0..<n] = find Q [0..<n]"
  by (rule find_cong) auto

lemma abs_tables_init:
  assumes "toe_inv s"
  shows "live (toe_tables_init s) = live s" and "holders (toe_tables_init s) = holders s"
proof -
  have len: "length (g_desc s) = WIZTOE_MAX_DESC" "length (g_sn_owner s) = WIZTOE_MAX_SOCK"
    using assms link_ok_lengths toe_ok_link by (auto simp: toe_inv_def toe_fresh_def sizes_ok_def)
  show "live (toe_tables_init s) = live s"
    using len by (auto simp: live_def toe_fd_valid_def toe_tables_init_def nat_less_iff fun_eq_iff)
  have "holders (toe_tables_init s) k = holders s k" for k
    using len by (cases "k < WIZTOE_MAX_SOCK") (simp_all add: holders_def toe_tables_init_def)
  then show "holders (toe_tables_init s) = holders s" by blast
qed

lemma find_free_holders:
  "g_tables_init s \<Longrightarrow>
     find (\<lambda>k. g_sn_owner s ! k = TOE_SN_FREE) [0..<WIZTOE_MAX_SOCK] =
     find (\<lambda>k. holders s k = None) [0..<WIZTOE_MAX_SOCK]"
  by (rule find_cong_upt) (simp add: holders_def)

lemma find_unused_live:
  "find (\<lambda>fd. \<not> d_used (g_desc s ! fd)) [0..<WIZTOE_MAX_DESC] =
   find (\<lambda>fd. \<not> live s (int fd)) [0..<WIZTOE_MAX_DESC]"
  by (rule find_cong_upt) (simp add: live_def toe_fd_valid_def)

lemma live_upd_same:
  "(\<And>d. d_used (f d) = d_used d) \<Longrightarrow> live (upd_desc fd f s) = live s"
  by (simp add: live_def toe_fd_valid_def fun_eq_iff nth_update_same [of d_used])

lemma live_set:
  assumes "length (g_desc s) = WIZTOE_MAX_DESC" and "0 \<le> fd" and "fd < int WIZTOE_MAX_DESC"
    and "d_used (f (desc s fd)) = b"
  shows "live (upd_desc fd f s) = (live s)(fd := b)"
  using assms by (auto simp: live_def toe_fd_valid_def fun_eq_iff nth_upd nat_less_iff eq_nat_nat_iff)

lemma live_set_owner [simp]: "live (set_owner k v s) = live s"
  and holders_upd_desc [simp]: "holders (upd_desc fd f s) = holders s"
  and live_chip [simp]: "live (s\<lparr>chip := c\<rparr>) = live s"
  and holders_chip [simp]: "holders (s\<lparr>chip := c\<rparr>) = holders s"
  by (simp_all add: live_def holders_def toe_fd_valid_def fun_eq_iff)

lemma holders_set_owner:
  assumes "link_ok s" and "0 \<le> k" and "k < int WIZTOE_MAX_SOCK"
  shows "holders (set_owner k v s) = (holders s)(nat k :=
     (if v = TOE_SN_FREE then None else if v = TOE_SN_RAW then Some Raw else Some (Descriptor v)))"
  using assms link_ok_init [OF assms(1)]
  by (auto simp: holders_def fun_eq_iff nth_upd link_ok_lengths nat_less_iff)

lemma socket_alloc:
  assumes inv: "toe_inv s" and "ty = 1 \<or> ty = 2"
  shows "(fst (wiztoe_socket dm ty pr s), live (snd (wiztoe_socket dm ty pr s)),
          holders (snd (wiztoe_socket dm ty pr s))) = alloc_spec (live s) (holders s)"
proof -
  let ?s1 = "toe_tables_init s"
  have lk: "link_ok ?s1" using toe_ok_tables_init [OF inv] by (rule toe_ok_link)
  note len = link_ok_lengths(1) [OF lk] and i1 = link_ok_init [OF lk]
  note ab = abs_tables_init [OF inv]
  show ?thesis
  proof (cases "find (\<lambda>fd. \<not> live s (int fd)) [0..<WIZTOE_MAX_DESC]")
    case None
    then have "toe_desc_alloc ?s1 = (-1, ?s1)"
      by (simp add: toe_desc_alloc_def find_unused_live ab)
    with None assms(2) show ?thesis by (auto simp: wiztoe_socket_def Let_def alloc_spec_def ab)
  next
    case (Some fd)
    then have fd: "fd < WIZTOE_MAX_DESC" "\<not> live s (int fd)" by (auto simp: find_Some_iff)
    let ?s2 = "upd_desc (int fd) (\<lambda>_. desc_cleared\<lparr>d_used := True\<rparr>) ?s1"
    have al: "toe_desc_alloc ?s1 = (int fd, ?s2)"
      using Some fd len by (simp add: toe_desc_alloc_def find_unused_live ab toe_desc_clear_def upd_desc_twice)
    have n1: "d_sn (desc ?s1 (int fd)) = -1"
    proof (rule unused_no_sn [OF lk])
      have "\<not> live ?s1 (int fd)" using fd(2) ab(1) by simp
      then show "\<not> d_used (desc ?s1 (int fd))" using fd(1) by (simp add: live_def toe_fd_valid_def)
    qed (use fd in simp_all)
    have l2: "link_ok ?s2" by (rule link_ok_no_sn [OF lk n1]) (simp add: desc_cleared_def)
    have lv: "live ?s2 = (live s)(int fd := True)"
      using live_set [OF len, of "int fd"] fd(1) ab(1) by simp
    have f2: "find (\<lambda>k. g_sn_owner ?s2 ! k = TOE_SN_FREE) [0..<WIZTOE_MAX_SOCK] =
              find (\<lambda>k. holders s k = None) [0..<WIZTOE_MAX_SOCK]"
      using find_free_holders [OF i1] ab(2) by simp
    show ?thesis
    proof (cases "find (\<lambda>k. holders s k = None) [0..<WIZTOE_MAX_SOCK]")
      case None
      then have "toe_sn_alloc (int fd) ?s2 = (-1, ?s2)" using f2 by (simp add: toe_sn_alloc_def)
      moreover have "live (toe_desc_clear (int fd) ?s2) = live s"
        using live_set [of ?s2 "int fd" "\<lambda>_. desc_cleared" False] len fd lv
        by (simp add: toe_desc_clear_def desc_cleared_def desc_zero_def fun_upd_idem)
      ultimately show ?thesis
        using al assms(2) Some None ab
        by (auto simp: wiztoe_socket_def Let_def alloc_spec_def toe_desc_clear_def)
    next
      case k: (Some k)
      then have "k < WIZTOE_MAX_SOCK" by (auto simp: find_Some_iff)
      then have "holders (set_owner (int k) (int fd) ?s2) = (holders s)(k \<mapsto> Descriptor (int fd))"
        using holders_set_owner [OF l2, of "int k" "int fd"] ab by (simp add: TOE_SN_FREE_def TOE_SN_RAW_def)
      moreover have "toe_sn_alloc (int fd) ?s2 = (int k, set_owner (int k) (int fd) ?s2)"
        using f2 k by (simp add: toe_sn_alloc_def)
      ultimately show ?thesis
        using al assms(2) Some k lv
        by (auto simp: wiztoe_socket_def Let_def alloc_spec_def live_upd_same)
    qed
  qed
qed

text \<open>C3. \<open>wiztoe_socket()\<close> implements the abstract allocator: for SOCK_STREAM and SOCK_DGRAM it
  returns the lowest free descriptor bound to the lowest free hardware socket and changes
  nothing else, and it fails, with nothing allocated, exactly when either table is full.\<close>

theorem wiztoe_socket_refines:
  assumes "toe_reach io s" and "ty = 1 \<or> ty = 2"
  shows "(fst (wiztoe_socket dm ty pr s), live (snd (wiztoe_socket dm ty pr s)),
          holders (snd (wiztoe_socket dm ty pr s))) = alloc_spec (live s) (holders s)"
  by (rule socket_alloc [OF reach_toe_inv [OF assms(1)] assms(2)])

theorem wiztoe_socket_refines_witness:
  "(fst (wiztoe_socket 2 2 0 sim_pending), live (snd (wiztoe_socket 2 2 0 sim_pending)),
    holders (snd (wiztoe_socket 2 2 0 sim_pending)))
   = alloc_spec (live sim_pending) (holders sim_pending) \<and> fst (wiztoe_socket 2 2 0 sim_pending) = 1"
proof
  show "fst (wiztoe_socket 2 2 0 sim_pending) = 1" by code_simp
qed (rule wiztoe_socket_refines [OF sim_reach_pending], simp)


section \<open>The hand-over in accept\<close>

lemma rearm_desc_other:
  assumes "nat j \<noteq> nat fd"
  shows "desc (snd (toe_listener_rearm io fd s)) j = desc s j"
proof -
  have re: "desc (snd (toe_listener_reopen io fd t)) j = desc t j" for t
    using listener_reopen_shape [of io fd t] assms by (auto simp: nth_upd)
  have dis: "desc (toe_listener_disarm fd t) j = desc t j" for t
    using assms by (simp add: toe_listener_disarm_def Let_def toe_sn_release_def nth_upd)
  show ?thesis
    using assms by (simp add: toe_listener_rearm_def Let_def split_beta re dis sn_alloc_desc nth_upd)
qed

lemma reopen_owner: "g_sn_owner (snd (toe_listener_reopen io fd s)) = g_sn_owner s"
  using listener_reopen_shape [of io fd s] by auto

text \<open>Re-arming takes a socket nobody holds, or takes none: what is held stays held.\<close>

lemma rearm_owner:
  assumes "toe_ok s" and "0 \<le> fd" and "fd < int WIZTOE_MAX_DESC" and "d_listening (desc s fd)"
    and "k < WIZTOE_MAX_SOCK" and "g_sn_owner s ! k \<noteq> TOE_SN_FREE"
  shows "g_sn_owner (snd (toe_listener_rearm io fd s)) ! k = g_sn_owner s ! k"
proof (cases "0 \<le> d_sn (desc s fd)")
  case True
  then show ?thesis by (simp add: toe_listener_rearm_def)
next
  case False
  obtain j s1 where al: "toe_sn_alloc fd s = (j, s1)" by (cases "toe_sn_alloc fd s")
  from al show ?thesis
  proof (cases rule: toe_sn_alloc_cases)
    case none
    with al False show ?thesis by (simp add: toe_listener_rearm_def)
  next
    case some
    note len = link_ok_lengths [OF toe_ok_link [OF assms(1)]]
    let ?t = "snd (toe_listener_reopen io fd (upd_desc fd (\<lambda>d. d\<lparr>d_sn := j\<rparr>) s1))"
    have neq: "nat j \<noteq> k" using some assms(6) by auto
    have sn: "d_sn (desc ?t fd) = j"
      using some(4) len assms(2,3) by (simp add: reopen_desc nth_upd nat_less_iff)
    have ow: "g_sn_owner ?t ! k = g_sn_owner s ! k"
      using some(4) neq by (simp add: reopen_owner)
    then have "g_sn_owner (toe_listener_disarm fd ?t) ! k = g_sn_owner s ! k"
      using some(1,2) neq by (simp add: toe_listener_disarm_def Let_def sn toe_sn_release_def)
    with al False some(1) ow show ?thesis
      by (simp add: toe_listener_rearm_def Let_def split_beta)
  qed
qed

lemma rearm_used: "d_used (desc (snd (toe_listener_rearm io fd s)) j) = d_used (desc s j)"
proof -
  have dis: "d_used (desc (toe_listener_disarm fd t) j) = d_used (desc t j)" for t
    by (simp add: toe_listener_disarm_def Let_def toe_sn_release_def nth_upd)
  show ?thesis
    by (simp add: toe_listener_rearm_def Let_def split_beta dis reopen_desc sn_alloc_desc nth_upd)
qed

lemma live_rearm: "live (snd (toe_listener_rearm io fd s)) = live s"
  by (simp add: live_def toe_fd_valid_def fun_eq_iff rearm_used)

lemma handed_over_facts:
  assumes "toe_ok s" and "0 \<le> lfd" and "lfd < int WIZTOE_MAX_DESC"
    and "d_listening (desc s lfd)" and "0 \<le> d_sn (desc s lfd)"
    and "0 \<le> c" and "c < int WIZTOE_MAX_DESC" and "\<not> d_used (desc s c)"
  shows "desc (handed_over s lfd c) c = desc_cleared\<lparr>d_used := True, d_sn := d_sn (desc s lfd),
           d_opened := True, d_connected := True, d_port := d_port (desc s lfd),
           d_nodelay := d_nodelay (desc s lfd), d_rcv_timeout_ms := d_rcv_timeout_ms (desc s lfd),
           d_snd_timeout_ms := d_snd_timeout_ms (desc s lfd)\<rparr>"
    and "d_listening (desc (handed_over s lfd c) lfd)"
    and "g_sn_owner (handed_over s lfd c) ! nat (d_sn (desc s lfd)) = c"
    and "live (handed_over s lfd c) = (live s)(c := True)"
proof -
  note lk = toe_ok_link [OF assms(1)]
  note lf = listening_facts [OF assms(1-4)]
  note len = link_ok_lengths [OF lk]
  have neq: "nat c \<noteq> nat lfd" "c \<noteq> lfd" using lf assms(2,6,8) by auto
  have k: "d_sn (desc s lfd) < int WIZTOE_MAX_SOCK"
    using link_okD(1) [OF lk _ assms(5)] assms(2,3) by (simp add: nat_less_iff)
  show "desc (handed_over s lfd c) c = desc_cleared\<lparr>d_used := True, d_sn := d_sn (desc s lfd),
           d_opened := True, d_connected := True, d_port := d_port (desc s lfd),
           d_nodelay := d_nodelay (desc s lfd), d_rcv_timeout_ms := d_rcv_timeout_ms (desc s lfd),
           d_snd_timeout_ms := d_snd_timeout_ms (desc s lfd)\<rparr>"
    using neq assms len by (simp add: handed_over_def Let_def nth_upd nat_less_iff)
  show "d_listening (desc (handed_over s lfd c) lfd)"
    using neq assms len by (simp add: handed_over_def Let_def nth_upd nat_less_iff)
  show "g_sn_owner (handed_over s lfd c) ! nat (d_sn (desc s lfd)) = c"
    using assms(5) k len by (simp add: handed_over_def Let_def nat_less_iff)
  have "d_used (desc (handed_over s lfd c) j) = (nat j = nat c \<or> d_used (desc s j))" for j
    using neq lf assms len by (auto simp: handed_over_def Let_def nth_upd nat_less_iff)
  then show "live (handed_over s lfd c) = (live s)(c := True)"
    using assms(6,7) by (auto simp: live_def toe_fd_valid_def fun_eq_iff eq_nat_nat_iff)
qed



end
