(* ===== verification/Toe_Recover.thy ===== *)
theory Toe_Recover
  imports Toe_Props
begin

text \<open>
  What happens to listeners and to hardware sockets over time: a listener that accept() looks at
  is put back in LISTEN from any socket state, close() gives back exactly what it closes, and a
  raw reservation is the abstract one.
\<close>

section \<open>The listener is recovered\<close>

text \<open>
  The documented behaviour of the library calls that open a listener, over two observations of
  the chip: the status of a socket and whether a source address is set. socket() in TCP mode
  leaves SOCK_INIT when there is an address, listen() takes SOCK_INIT to SOCK_LISTEN, and
  reading a register changes neither observation.
\<close>

definition chip_listens :: "'c iolib \<Rightarrow> ('c \<Rightarrow> u8 \<Rightarrow> sock_status) \<Rightarrow> ('c \<Rightarrow> bool) \<Rightarrow> bool" where
  "chip_listens io sr has_ip \<longleftrightarrow>
     (\<forall>c. fst (io_getSIPR io c) \<noteq> 0 \<longleftrightarrow> has_ip c) \<and>
     (\<forall>c. has_ip (snd (io_getSIPR io c)) = has_ip c \<and> sr (snd (io_getSIPR io c)) = sr c) \<and>
     (\<forall>c sn. fst (io_getSn_SR io sn c) = sr c sn \<and> sr (snd (io_getSn_SR io sn c)) = sr c \<and>
        has_ip (snd (io_getSn_SR io sn c)) = has_ip c) \<and>
     (\<forall>c sn p f. uint sn < int WIZTOE_MAX_SOCK \<longrightarrow> has_ip c \<longrightarrow>
        fst (io_socket io sn Sn_MR_TCP p f c) = uint sn \<and>
        sr (snd (io_socket io sn Sn_MR_TCP p f c)) sn = SOCK_INIT) \<and>
     (\<forall>c sn. uint sn < int WIZTOE_MAX_SOCK \<longrightarrow> sr c sn = SOCK_INIT \<longrightarrow>
        fst (io_listen io sn c) = io_SOCK_OK io \<and> sr (snd (io_listen io sn c)) sn = SOCK_LISTEN)"

lemma chip_listensD:
  assumes "chip_listens io sr has_ip"
  shows "(fst (io_getSIPR io c) \<noteq> 0) = has_ip c"
    and "has_ip (snd (io_getSIPR io c)) = has_ip c" and "sr (snd (io_getSIPR io c)) = sr c"
    and "fst (io_getSn_SR io sn c) = sr c sn" and "sr (snd (io_getSn_SR io sn c)) = sr c"
    and "has_ip (snd (io_getSn_SR io sn c)) = has_ip c"
    and "uint sn < int WIZTOE_MAX_SOCK \<Longrightarrow> has_ip c \<Longrightarrow> fst (io_socket io sn Sn_MR_TCP p f c) = uint sn"
    and "uint sn < int WIZTOE_MAX_SOCK \<Longrightarrow> has_ip c \<Longrightarrow>
           sr (snd (io_socket io sn Sn_MR_TCP p f c)) sn = SOCK_INIT"
    and "uint sn < int WIZTOE_MAX_SOCK \<Longrightarrow> sr c sn = SOCK_INIT \<Longrightarrow> fst (io_listen io sn c) = io_SOCK_OK io"
    and "uint sn < int WIZTOE_MAX_SOCK \<Longrightarrow> sr c sn = SOCK_INIT \<Longrightarrow>
           sr (snd (io_listen io sn c)) sn = SOCK_LISTEN"
  using assms unfolding chip_listens_def by blast+

lemma reopen_listens:
  assumes "chip_listens io sr has_ip" and "link_ok s" and "0 \<le> fd" and "fd < int WIZTOE_MAX_DESC"
    and "0 \<le> d_sn (desc s fd)" and "has_ip (chip s)"
  shows "fst (toe_listener_reopen io fd s) = 0"
    and "sr (chip (snd (toe_listener_reopen io fd s))) (toe_sn s fd) = SOCK_LISTEN"
proof -
  have u: "uint (toe_sn s fd) < int WIZTOE_MAX_SOCK"
    using uint_toe_sn [OF assms(2-5)] link_okD(1) [OF assms(2) _ assms(5)] assms(3,4)
    by (simp add: nat_less_iff)
  note D = chip_listensD [OF assms(1)]
  show "fst (toe_listener_reopen io fd s) = 0"
    "sr (chip (snd (toe_listener_reopen io fd s))) (toe_sn s fd) = SOCK_LISTEN"
    using u assms(6)
    by (simp_all add: toe_listener_reopen_def toe_chip_has_ip_def chip_pairs Let_def D)
qed

lemma toe_sn_cong: "d_sn (desc t fd) = d_sn (desc s fd) \<Longrightarrow> toe_sn t fd = toe_sn s fd"
  by (simp add: toe_sn_def)

lemma rearm_listens:
  assumes "chip_listens io sr has_ip" and "toe_ok s" and "0 \<le> fd" and "fd < int WIZTOE_MAX_DESC"
    and "d_listening (desc s fd)" and "d_sn (desc s fd) < 0" and "has_ip (chip s)"
    and "k < WIZTOE_MAX_SOCK" and "g_sn_owner s ! k = TOE_SN_FREE"
  shows "0 \<le> d_sn (desc (snd (toe_listener_rearm io fd s)) fd)"
    and "sr (chip (snd (toe_listener_rearm io fd s))) (toe_sn (snd (toe_listener_rearm io fd s)) fd)
           = SOCK_LISTEN"
proof -
  note lk = toe_ok_link [OF assms(2)]
  obtain j s1 where al: "toe_sn_alloc fd s = (j, s1)" by (cases "toe_sn_alloc fd s")
  have "0 \<le> d_sn (desc (snd (toe_listener_rearm io fd s)) fd) \<and>
        sr (chip (snd (toe_listener_rearm io fd s)))
           (toe_sn (snd (toe_listener_rearm io fd s)) fd) = SOCK_LISTEN"
    using al
  proof (cases rule: toe_sn_alloc_cases)
    case none
    with assms(8,9) show ?thesis by blast
  next
    case some
    let ?s2 = "upd_desc fd (\<lambda>d. d\<lparr>d_sn := j\<rparr>) s1"
    have n1: "d_sn (desc s fd) = -1" using link_ok_sn_range [OF lk, of "nat fd"] assms by auto
    have l2: "link_ok ?s2"
      using toe_ok_bind_sn [OF assms(2-4) listening_facts(1) [OF assms(2-5)] n1 some(1-3)]
      by (simp add: some(4) toe_ok_link)
    have d2: "d_sn (desc ?s2 fd) = j" using some(4) lk assms(3,4) by simp
    have c2: "has_ip (chip ?s2)" using assms(7) some(4) by simp
    let ?t = "snd (toe_listener_reopen io fd ?s2)"
    have d3: "d_sn (desc ?t fd) = j" using d2 by (simp only: reopen_desc)
    note re = reopen_listens [OF assms(1) l2 assms(3,4) _ c2, unfolded d2, OF some(1)]
    have eq: "snd (toe_listener_rearm io fd s) = ?t"
      using al assms(6) some(1) re(1) by (simp add: toe_listener_rearm_def Let_def split_beta)
    show ?thesis
      unfolding eq using d2 d3 re(2) some(1) toe_sn_cong [of ?t fd ?s2] by simp
  qed
  then show "0 \<le> d_sn (desc (snd (toe_listener_rearm io fd s)) fd)"
    and "sr (chip (snd (toe_listener_rearm io fd s))) (toe_sn (snd (toe_listener_rearm io fd s)) fd)
           = SOCK_LISTEN" by blast+
qed

text \<open>C5. Whatever state the chip has driven a listener's socket into, short of a connection or a
  handshake in flight, one look by accept() leaves the listener on a socket in SOCK_LISTEN, as
  long as the chip has an address and the library calls work; a listener that had lost its
  socket gets one as soon as one is free. No socket state parks a listener for good.\<close>

theorem listener_recovers:
  assumes "toe_reach io s" and "toe_fd_valid s fd" and "d_listening (desc s fd)"
    and "chip_listens io sr has_ip" and "has_ip (chip s)"
    and "0 \<le> d_sn (desc s fd) \<or> g_sn_owner s ! k = TOE_SN_FREE" and "k < WIZTOE_MAX_SOCK"
    and "sr (chip s) (toe_sn s fd) \<notin> {SOCK_ESTABLISHED, SOCK_CLOSE_WAIT, SOCK_SYNRECV}"
  shows "fst (accept_poll io fd s) = None \<and>
     toe_fd_ready (snd (accept_poll io fd s)) fd \<and>
     sr (chip (snd (accept_poll io fd s))) (toe_sn (snd (accept_poll io fd s)) fd) = SOCK_LISTEN"
proof -
  have ok: "toe_ok s" using assms(1,2) toe_inv_valid(1) reach_toe_inv by blast
  have r: "0 \<le> fd" "fd < int WIZTOE_MAX_DESC" "d_used (desc s fd)"
    using assms(2) by (auto simp: toe_fd_valid_def)
  note lk = toe_ok_link [OF ok] and D = chip_listensD [OF assms(4)]
  show ?thesis
  proof (cases "d_sn (desc s fd) < 0")
    case True
    with assms(6) have "g_sn_owner s ! k = TOE_SN_FREE" by auto
    from rearm_listens [OF assms(4) ok r(1,2) assms(3) True assms(5,7) this] True r
    show ?thesis by (simp add: accept_poll_def toe_fd_ready_def toe_fd_valid_def rearm_used)
  next
    case False
    then have sn: "0 \<le> d_sn (desc s fd)" by simp
    have u: "uint (toe_sn s fd) < int WIZTOE_MAX_SOCK"
      using uint_toe_sn [OF lk r(1,2) sn] link_okD(1) [OF lk _ sn] r by (simp add: nat_less_iff)
    let ?c = "snd (io_getSn_SR io (toe_sn s fd) (chip s))"
    let ?s1 = "s\<lparr>chip := ?c\<rparr>"
    have c1: "has_ip (chip ?s1)" using assms(5) by (simp add: D)
    have l1: "link_ok ?s1" using lk by simp
    have sn1: "0 \<le> d_sn (desc ?s1 fd)" using sn by simp
    have re: "fst (toe_listener_reopen io fd ?s1) = 0"
      "sr (chip (snd (toe_listener_reopen io fd ?s1))) (toe_sn s fd) = SOCK_LISTEN"
      using reopen_listens [OF assms(4) l1 r(1,2) sn1 c1] by (simp_all add: toe_sn_def)
    have sa: "toe_sn (snd (toe_listener_reopen io fd ?s1)) fd = toe_sn s fd"
      using toe_sn_cong [of "snd (toe_listener_reopen io fd ?s1)" fd s] by (simp add: reopen_desc)
    have rd: "toe_fd_ready (snd (toe_listener_reopen io fd ?s1)) fd"
      using r sn by (simp add: toe_fd_ready_def toe_fd_valid_def reopen_desc)
    have ts: "toe_sn (s\<lparr>chip := c\<rparr>) fd = toe_sn s fd" for c by (simp add: toe_sn_def)
    have fr: "toe_fd_ready (s\<lparr>chip := c\<rparr>) fd" for c
      using r sn by (simp add: toe_fd_ready_def toe_fd_valid_def)
    from False u assms(8) re sa rd ts fr D show ?thesis
      by (cases "sr (chip s) (toe_sn s fd)")
         (simp_all add: accept_poll_def chip_pairs Let_def split_beta)
  qed
qed

definition sim_stale :: "sim toe" where
  "sim_stale = sim_listening\<lparr>chip := sim_set_sr 0 (SOCK_STATE 0x1B) (chip sim_listening)\<rparr>"

lemma sim_reach_stale: "toe_reach sim_io sim_stale"
  unfolding sim_stale_def by (rule reach_call [OF sim_reach_listening]) (rule chip_moves)

lemma sim_chip_listens: "chip_listens sim_io sim_sr (\<lambda>c. sim_sipr c \<noteq> 0)"
  by (simp add: chip_listens_def sim_io_def sim_set_sr_def)

theorem listener_recovers_witness:
  "sim_sr (chip sim_stale) 0 = SOCK_STATE 0x1B \<and>
   sim_sr (chip (snd (accept_poll sim_io 0 sim_stale))) 0 = SOCK_LISTEN"
proof -
  have h: "toe_fd_valid sim_stale 0" "d_listening (desc sim_stale 0)"
    "sim_sipr (chip sim_stale) \<noteq> 0" "0 \<le> d_sn (desc sim_stale 0) \<or> g_sn_owner sim_stale ! 0 = TOE_SN_FREE"
    "sim_sr (chip sim_stale) (toe_sn sim_stale 0) \<notin> {SOCK_ESTABLISHED, SOCK_CLOSE_WAIT, SOCK_SYNRECV}"
    "0 < WIZTOE_MAX_SOCK" "toe_sn (snd (accept_poll sim_io 0 sim_stale)) 0 = 0"
    "sim_sr (chip sim_stale) 0 = SOCK_STATE 0x1B"
    by code_simp+
  from listener_recovers [OF sim_reach_stale h(1,2) sim_chip_listens h(3,4,6,5)] h(7,8)
  show ?thesis by simp
qed

section \<open>close and the raw reservation\<close>

text \<open>Re-arming a list of listeners: what is live stays live, what is held stays held, and a
  socket taken meanwhile is taken by a listener that is live.\<close>

lemma rearm_if_pending_frame:
  assumes "toe_ok s" and "fd < WIZTOE_MAX_DESC"
  shows "live (rearm_if_pending io s fd) = live s"
    and "k < WIZTOE_MAX_SOCK \<Longrightarrow> g_sn_owner s ! k \<noteq> TOE_SN_FREE \<Longrightarrow>
           g_sn_owner (rearm_if_pending io s fd) ! k = g_sn_owner s ! k"
  using assms rearm_owner [OF assms(1), of "int fd" k io]
  by (auto simp: rearm_if_pending_def live_rearm)

lemma rearm_pending_frame:
  assumes "toe_ok s"
  shows "live (toe_rearm_pending_listeners io s) = live s"
    and "k < WIZTOE_MAX_SOCK \<Longrightarrow> g_sn_owner s ! k \<noteq> TOE_SN_FREE \<Longrightarrow>
           g_sn_owner (toe_rearm_pending_listeners io s) ! k = g_sn_owner s ! k"
proof -
  have "set fds \<subseteq> {..<WIZTOE_MAX_DESC} \<Longrightarrow>
      live (foldl (rearm_if_pending io) s fds) = live s \<and>
      (k < WIZTOE_MAX_SOCK \<longrightarrow> g_sn_owner s ! k \<noteq> TOE_SN_FREE \<longrightarrow>
        g_sn_owner (foldl (rearm_if_pending io) s fds) ! k = g_sn_owner s ! k)" for fds
    using assms
    by (induction fds arbitrary: s) (simp_all add: rearm_if_pending_ok rearm_if_pending_frame)
  moreover have "set [0..<WIZTOE_MAX_DESC] \<subseteq> {..<WIZTOE_MAX_DESC}" by auto
  ultimately have "live (foldl (rearm_if_pending io) s [0..<WIZTOE_MAX_DESC]) = live s \<and>
      (k < WIZTOE_MAX_SOCK \<longrightarrow> g_sn_owner s ! k \<noteq> TOE_SN_FREE \<longrightarrow>
        g_sn_owner (foldl (rearm_if_pending io) s [0..<WIZTOE_MAX_DESC]) ! k = g_sn_owner s ! k)"
    by blast
  then
  show "live (toe_rearm_pending_listeners io s) = live s"
    and "k < WIZTOE_MAX_SOCK \<Longrightarrow> g_sn_owner s ! k \<noteq> TOE_SN_FREE \<Longrightarrow>
           g_sn_owner (toe_rearm_pending_listeners io s) ! k = g_sn_owner s ! k"
    by (auto simp: toe_rearm_pending_listeners_def)
qed

lemma live_clear:
  assumes "sizes_ok s" and "toe_fd_valid s fd"
  shows "live (toe_desc_clear fd s) = (live s)(fd := False)"
  using live_set [of s fd "\<lambda>_. desc_cleared" False] assms
  by (simp add: toe_desc_clear_def sizes_ok_def toe_fd_valid_def desc_cleared_def desc_zero_def)

lemma live_sn_release [simp]: "live (toe_sn_release k s) = live s"
  by (simp add: toe_sn_release_def)

lemma live_same: "same_tables s t \<Longrightarrow> live t = live s"
  by (auto simp: live_def toe_fd_valid_def fun_eq_iff same_tablesD)

lemma close_shape:
  assumes "toe_ok s" and "toe_fd_valid s fd" and "wiztoe_close io n fd s = Some (r, s')"
  obtains s1 where "same_tables s s1" "r = 0"
    "s' = toe_rearm_pending_listeners io (toe_desc_clear fd
            (if 0 \<le> d_sn (desc s fd) then toe_sn_release (d_sn (desc s fd)) s1 else s1))"
proof (cases "0 \<le> d_sn (desc s fd)")
  case True
  with assms(2,3) obtain t where c: "close_socket io n fd s = Some t"
    and s': "r = 0" "s' = toe_rearm_pending_listeners io (toe_desc_clear fd t)"
    by (auto simp: wiztoe_close_def split: option.splits)
  from toe_ok_link [OF assms(1)] assms(2) True c show ?thesis
    by (cases rule: close_socket_shape) (use that True s' in auto)
next
  case False
  with assms(2,3) that [of s] show ?thesis by (auto simp: wiztoe_close_def)
qed

lemma holder_is_live:
  assumes "toe_ok s" and "holders s k = Some (Descriptor fd)"
  shows "live s fd" and "d_sn (desc s fd) = int k"
proof -
  have k: "k < WIZTOE_MAX_SOCK" "g_sn_owner s ! k = fd" "g_sn_owner s ! k \<noteq> TOE_SN_FREE"
    "g_sn_owner s ! k \<noteq> TOE_SN_RAW"
    using assms(2) by (auto simp: holders_def split: if_splits)
  with link_ok_ownerD [OF toe_ok_link [OF assms(1)] k(1)]
  have f: "0 \<le> fd" "fd < int WIZTOE_MAX_DESC" "d_sn (desc s fd) = int k"
    by (auto simp: owner_linked_def)
  then show "d_sn (desc s fd) = int k" by simp
  from f link_okD(2) [OF toe_ok_link [OF assms(1)], of "nat fd"]
  show "live s fd" by (simp add: live_def toe_fd_valid_def nat_less_iff)
qed

lemma close_effect:
  assumes "toe_inv s" and "toe_fd_valid s fd" and "wiztoe_close io n fd s = Some (r, s')"
  shows "r = 0 \<and> live s' = (live s)(fd := False) \<and>
     (\<forall>k. holders s' k \<noteq> Some (Descriptor fd)) \<and>
     (\<forall>k. holders s k \<noteq> None \<and> holders s k \<noteq> Some (Descriptor fd) \<longrightarrow> holders s' k = holders s k)"
proof -
  have ok: "toe_ok s" using assms(1,2) toe_inv_valid(1) by blast
  from ok assms(2,3) obtain s1 where st: "same_tables s s1" and r: "r = 0"
    and s': "s' = toe_rearm_pending_listeners io (toe_desc_clear fd
            (if 0 \<le> d_sn (desc s fd) then toe_sn_release (d_sn (desc s fd)) s1 else s1))"
    by (rule close_shape)
  let ?t = "toe_desc_clear fd
            (if 0 \<le> d_sn (desc s fd) then toe_sn_release (d_sn (desc s fd)) s1 else s1)"
  have okt: "toe_ok ?t" by (rule toe_ok_cleared [OF ok assms(2) st])
  have v1: "toe_fd_valid s1 fd" and sz: "sizes_ok s1"
    using assms(2) st ok by (simp_all add: toe_fd_valid_def same_tablesD toe_ok_link link_ok_sizes)
  have sz2: "sizes_ok (toe_sn_release k s1)" "toe_fd_valid (toe_sn_release k s1) fd" for k
    using sz v1 by (simp_all add: toe_sn_release_def sizes_ok_def toe_fd_valid_def)
  have lv: "live s' = (live s)(fd := False)"
    using s' rearm_pending_frame(1) [OF okt] live_clear [OF sz v1] live_clear [OF sz2] live_same [OF st]
    by simp
  moreover have ok': "toe_ok s'" unfolding s' by (rule toe_ok_rearm_pending [OF okt])
  then have "\<forall>k. holders s' k \<noteq> Some (Descriptor fd)"
    using holder_is_live(1) lv by fastforce
  moreover have "holders s' k = holders s k"
    if h: "holders s k \<noteq> None" "holders s k \<noteq> Some (Descriptor fd)" for k
  proof -
    have k: "k < WIZTOE_MAX_SOCK" "g_sn_owner s ! k \<noteq> TOE_SN_FREE"
      using h(1) by (auto simp: holders_def split: if_splits)
    have "nat (d_sn (desc s fd)) \<noteq> k" if sn: "0 \<le> d_sn (desc s fd)"
    proof
      assume "nat (d_sn (desc s fd)) = k"
      with link_okD(3) [OF toe_ok_link [OF ok], of "nat fd"] sn assms(2)
      have "g_sn_owner s ! k = fd" by (simp add: toe_fd_valid_def nat_less_iff)
      with k h(2) assms(2) link_ok_init [OF toe_ok_link [OF ok]] show False
        by (simp add: holders_def toe_fd_valid_def TOE_SN_RAW_def)
    qed
    then have ow: "g_sn_owner ?t ! k = g_sn_owner s ! k"
      using st by (auto simp: toe_desc_clear_def toe_sn_release_def same_tablesD)
    with rearm_pending_frame(2) [OF okt k(1)] k(2) s' have "g_sn_owner s' ! k = g_sn_owner s ! k" by simp
    with link_ok_init [OF toe_ok_link [OF ok]] link_ok_init [OF toe_ok_link [OF ok']]
    show ?thesis by (simp add: holders_def)
  qed
  ultimately show ?thesis using r by blast
qed

text \<open>C6. close() of a live descriptor, whenever it returns, returns 0 and ends exactly that
  descriptor: it is no longer live and holds no hardware socket, every other descriptor is
  still live, and every hardware socket held by another descriptor or by a reservation is still
  held by it.\<close>

theorem close_releases_exactly:
  assumes "toe_reach io s" and "toe_fd_valid s fd" and "wiztoe_close io n fd s = Some (r, s')"
  shows "r = 0 \<and> live s' = (live s)(fd := False) \<and>
     (\<forall>k. holders s' k \<noteq> Some (Descriptor fd)) \<and>
     (\<forall>k. holders s k \<noteq> None \<and> holders s k \<noteq> Some (Descriptor fd) \<longrightarrow> holders s' k = holders s k)"
  by (rule close_effect [OF reach_toe_inv [OF assms(1)] assms(2,3)])

theorem close_releases_exactly_witness:
  "\<exists>s'. wiztoe_close sim_io 1 1 sim_two = Some (0, s') \<and> \<not> live s' 1"
proof -
  have "toe_reach sim_io sim_two"
    unfolding sim_two_def by (rule reach_call [OF sim_reach_pending call_socket])
  moreover have "toe_fd_valid sim_two 1" by code_simp
  moreover have "wiztoe_close sim_io 1 1 sim_two \<noteq> None" by code_simp
  ultimately show ?thesis
    using close_releases_exactly [of sim_io sim_two 1 1] by fastforce
qed

text \<open>The raw reservation takes the lowest hardware socket nobody holds and marks it
  reserved, or fails and changes nothing; no descriptor is touched.\<close>

theorem socket_reserve_refines:
  assumes "toe_reach io s"
  shows "(fst (wiztoe_socket_reserve s), holders (snd (wiztoe_socket_reserve s))) =
           reserve_spec (holders s) \<and> live (snd (wiztoe_socket_reserve s)) = live s"
proof -
  have inv: "toe_inv s" using assms by (rule reach_toe_inv)
  note ok = toe_ok_tables_init [OF inv] and ab = abs_tables_init [OF inv]
  note f = find_free_holders [OF link_ok_init [OF toe_ok_link [OF ok]]]
  have neq: "TOE_SN_RAW \<noteq> TOE_SN_FREE" by (simp add: toe_consts)
  show ?thesis
  proof (cases "find (\<lambda>k. holders s k = None) [0..<WIZTOE_MAX_SOCK]")
    case None
    then show ?thesis by (simp add: wiztoe_socket_reserve_def reserve_spec_def f ab Let_def)
  next
    case (Some k)
    then have "k < WIZTOE_MAX_SOCK" by (auto simp: find_Some_iff)
    with Some show ?thesis
      using holders_set_owner [OF toe_ok_link [OF ok], of "int k" TOE_SN_RAW]
      by (simp add: wiztoe_socket_reserve_def reserve_spec_def f ab Let_def neq)
  qed
qed

theorem socket_reserve_refines_witness:
  "(fst (wiztoe_socket_reserve sim_pending), holders (snd (wiztoe_socket_reserve sim_pending)))
     = reserve_spec (holders sim_pending) \<and> fst (wiztoe_socket_reserve sim_pending) = 1"
proof
  show "fst (wiztoe_socket_reserve sim_pending) = 1" by code_simp
qed (use socket_reserve_refines [OF sim_reach_pending] in simp)

end
