(* ===== verification/Toe_Time.thy ===== *)
theory Toe_Time
  imports Toe_Recover
begin

text \<open>
  The waits of the TOE layer against a clock: every blocking call returns, no timeout is
  reported early, and a non-blocking call never waits. The clock is an observation \<open>now\<close> of the
  world in microseconds, of which the code reads the low 32 bits.
\<close>

section \<open>The clock\<close>

definition advances :: "('c \<Rightarrow> nat) \<Rightarrow> nat \<Rightarrow> ('c \<Rightarrow> 'c) \<Rightarrow> bool" where
  "advances now d f \<longleftrightarrow> (\<forall>c. now c \<le> now (f c) \<and> now (f c) \<le> now c + d)"

text \<open>Reading the clock gives its low 32 bits, a yield takes some time, and no single library
  call takes longer than \<open>d\<close> microseconds.\<close>

definition clock_ok :: "'c iolib \<Rightarrow> ('c \<Rightarrow> nat) \<Rightarrow> nat \<Rightarrow> bool" where
  "clock_ok io now d \<longleftrightarrow>
     (\<forall>c. fst (io_time_us io c) = of_nat (now c)) \<and>
     (\<forall>c. now c < now (io_yield_1ms io c) \<and> now (io_yield_1ms io c) \<le> now c + d) \<and>
     advances now d (\<lambda>c. snd (io_time_us io c)) \<and>
     (\<forall>sn. advances now d (\<lambda>c. snd (io_getSn_SR io sn c))) \<and>
     (\<forall>sn. advances now d (\<lambda>c. snd (io_getSn_CR io sn c))) \<and>
     (\<forall>sn. advances now d (\<lambda>c. snd (io_Sn_IR_TIMEOUT io sn c))) \<and>
     (\<forall>sn. advances now d (\<lambda>c. snd (io_getSn_RX_RSR io sn c))) \<and>
     (\<forall>sn. advances now d (\<lambda>c. snd (io_getSn_TX_FSR io sn c))) \<and>
     advances now d (\<lambda>c. snd (io_CW_GET_PHYLINK io c)) \<and>
     advances now d (\<lambda>c. snd (io_getSIPR io c)) \<and>
     (\<forall>sn m p f. advances now d (\<lambda>c. snd (io_socket io sn m p f c))) \<and>
     (\<forall>sn. advances now d (\<lambda>c. snd (io_listen io sn c)))"

lemma clock_okD:
  assumes "clock_ok io now d"
  shows "fst (io_time_us io c) = of_nat (now c)"
    and "now c < now (io_yield_1ms io c)" and "now (io_yield_1ms io c) \<le> now c + d"
    and "now c \<le> now (snd (io_time_us io c))" and "now (snd (io_time_us io c)) \<le> now c + d"
    and "now c \<le> now (snd (io_getSn_SR io sn c))" and "now (snd (io_getSn_SR io sn c)) \<le> now c + d"
    and "now c \<le> now (snd (io_getSn_CR io sn c))" and "now (snd (io_getSn_CR io sn c)) \<le> now c + d"
    and "now c \<le> now (snd (io_Sn_IR_TIMEOUT io sn c))" and "now (snd (io_Sn_IR_TIMEOUT io sn c)) \<le> now c + d"
    and "now c \<le> now (snd (io_getSn_RX_RSR io sn c))" and "now (snd (io_getSn_RX_RSR io sn c)) \<le> now c + d"
    and "now c \<le> now (snd (io_getSn_TX_FSR io sn c))" and "now (snd (io_getSn_TX_FSR io sn c)) \<le> now c + d"
    and "now c \<le> now (snd (io_CW_GET_PHYLINK io c))" and "now (snd (io_CW_GET_PHYLINK io c)) \<le> now c + d"
    and "now c \<le> now (snd (io_getSIPR io c))" and "now (snd (io_getSIPR io c)) \<le> now c + d"
    and "now c \<le> now (snd (io_socket io sn m p f c))" and "now (snd (io_socket io sn m p f c)) \<le> now c + d"
    and "now c \<le> now (snd (io_listen io sn c))" and "now (snd (io_listen io sn c)) \<le> now c + d"
  using assms by (auto simp: clock_ok_def advances_def)

text \<open>The 32-bit deadline test is the test on the real clock, as long as less than \<open>2\<^sup>3\<^sup>2\<close> us
  have passed and the limit in microseconds fits 32 bits.\<close>

lemma deadline_c_iff:
  assumes "clock_ok io now d" and "n0 \<le> now c" and "now c - n0 < 2 ^ 32"
    and "unat tmo * 1000 < 2 ^ 32" and "tmo \<noteq> 0"
  shows "fst (deadline_c io (of_nat n0) tmo c) \<longleftrightarrow> n0 + unat tmo * 1000 \<le> now c"
proof -
  have "unat (tmo * 1000) = unat tmo * 1000"
    using assms(4) by (simp add: unat_mult_lem [THEN iffD1])
  moreover have "(of_nat (now c) :: u32) - of_nat n0 = of_nat (now c - n0)"
    using assms(2) by (simp add: of_nat_diff)
  moreover have "unat (of_nat (now c - n0) :: u32) = now c - n0"
    using assms(3) by (simp add: unat_of_nat take_bit_nat_eq_self)
  ultimately show ?thesis
    using assms(2,5) by (simp add: deadline_c_def clock_okD(1) [OF assms(1)] word_le_nat_alt) linarith
qed

lemma link_c_snd: "snd (link_c io c) = snd (io_CW_GET_PHYLINK io c)"
  by (simp add: link_c_def split_beta)

lemma deadline_c_snd: "tmo \<noteq> 0 \<Longrightarrow> snd (deadline_c io st tmo c) = snd (io_time_us io c)"
  by (simp add: deadline_c_def)

section \<open>One invariant for all timed waits\<close>

text \<open>\<open>g\<close> selects the timeout that bounds the wait of descriptor \<open>fd\<close>; the wait began at \<open>n0\<close>.\<close>

definition timed :: "'c iolib \<Rightarrow> ('c \<Rightarrow> nat) \<Rightarrow> nat \<Rightarrow> nat \<Rightarrow> (toe_desc_t \<Rightarrow> u32) \<Rightarrow> u32 \<Rightarrow> int \<Rightarrow> 'c toe \<Rightarrow> bool"
  where "timed io now d n0 g tmo fd s \<longleftrightarrow>
     clock_ok io now d \<and> g (desc s fd) = tmo \<and> tmo \<noteq> 0 \<and> unat tmo * 1000 + 8 * d < 2 ^ 32 \<and>
     n0 \<le> now (chip s) \<and> now (chip s) \<le> n0 + unat tmo * 1000 + 3 * d"

definition remaining :: "('c \<Rightarrow> nat) \<Rightarrow> nat \<Rightarrow> nat \<Rightarrow> u32 \<Rightarrow> 'c toe \<Rightarrow> nat" where
  "remaining now d n0 tmo s = n0 + unat tmo * 1000 + 3 * d - now (chip s)"

lemma timedD:
  assumes "timed io now d n0 g tmo fd s"
  shows "clock_ok io now d" and "g (desc s fd) = tmo" and "tmo \<noteq> 0"
    and "unat tmo * 1000 + 8 * d < 2 ^ 32" and "n0 \<le> now (chip s)"
    and "now (chip s) \<le> n0 + unat tmo * 1000 + 3 * d"
  using assms by (simp_all add: timed_def)

text \<open>A turn that ends with the deadline test, not yet passed, and a yield.\<close>

lemma timed_step:
  assumes "timed io now d n0 g tmo fd s" and "now (chip s) \<le> now c" and "now c \<le> now (chip s) + 4 * d"
    and "\<not> fst (deadline_c io (of_nat n0) tmo c)" and "g (desc t fd) = tmo"
    and "chip t = io_yield_1ms io (snd (deadline_c io (of_nat n0) tmo c))"
  shows "timed io now d n0 g tmo fd t \<and> remaining now d n0 tmo t < remaining now d n0 tmo s"
proof -
  note T = timedD [OF assms(1)] and K = clock_okD [OF timedD(1) [OF assms(1)]]
  have "now c - n0 < 2 ^ 32" using assms(3) T(4,6) by linarith
  with deadline_c_iff [OF T(1), of n0 c tmo] assms(2-4) T have "now c < n0 + unat tmo * 1000"
    by linarith
  moreover have "chip t = io_yield_1ms io (snd (io_time_us io c))"
    using assms(6) T(3) by (simp add: deadline_c_snd)
  ultimately have "now (chip s) < now (chip t)" "now (chip t) \<le> n0 + unat tmo * 1000 + 2 * d"
    using K(2,3) [of "snd (io_time_us io c)"] K(4,5) [of c] assms(2) by simp_all
  then show ?thesis using T assms(5) by (auto simp: timed_def remaining_def)
qed

lemma recv_turn_None:
  assumes "recv_turn io fd sn st s = (None, s')"
  defines "c \<equiv> snd (io_getSn_SR io sn (snd (io_getSn_RX_RSR io sn (chip s))))"
  shows "\<not> fst (deadline_c io st (d_rcv_timeout_ms (desc s fd)) c)"
    and "s' = s\<lparr>chip := io_yield_1ms io (snd (deadline_c io st (d_rcv_timeout_ms (desc s fd)) c))\<rparr>"
  using assms by (auto simp: recv_turn_def chip_pairs Let_def split: if_splits)

lemma recvfrom_turn_None:
  assumes "recvfrom_turn io fd sn st s = (None, s')"
  defines "c \<equiv> snd (io_getSn_SR io sn (snd (io_getSn_RX_RSR io sn (chip s))))"
  shows "\<not> fst (deadline_c io st (d_rcv_timeout_ms (desc s fd)) c)"
    and "s' = s\<lparr>chip := io_yield_1ms io (snd (deadline_c io st (d_rcv_timeout_ms (desc s fd)) c))\<rparr>"
  using assms by (auto simp: recvfrom_turn_def chip_pairs Let_def split: if_splits)

lemma send_turn_None:
  assumes "send_turn io fd sn st s = (None, s')"
  defines "c \<equiv> snd (io_getSn_TX_FSR io sn (snd (io_getSn_SR io sn (chip s))))"
  shows "\<not> fst (deadline_c io st (d_snd_timeout_ms (desc s fd)) c)"
    and "s' = s\<lparr>chip := io_yield_1ms io (snd (deadline_c io st (d_snd_timeout_ms (desc s fd)) c))\<rparr>"
  using assms by (auto simp: send_turn_def chip_pairs Let_def split: if_splits)

interpretation recv_wait: wait_loop "recv_turn io fd sn (of_nat n0)"
    "timed io now d n0 d_rcv_timeout_ms tmo fd" "remaining now d n0 tmo"
  for io fd sn n0 now d tmo
proof
  fix s s' assume T: "timed io now d n0 d_rcv_timeout_ms tmo fd s"
    and B: "recv_turn io fd sn (of_nat n0) s = (None, s')"
  note K = clock_okD [OF timedD(1) [OF T]]
  show "timed io now d n0 d_rcv_timeout_ms tmo fd s' \<and> remaining now d n0 tmo s' < remaining now d n0 tmo s"
    using recv_turn_None [OF B] timedD(2) [OF T] K(12,13) [where c = "chip s" and sn = sn]
      K(6,7) [where c = "snd (io_getSn_RX_RSR io sn (chip s))" and sn = sn]
    by (intro timed_step [OF T, where c = "snd (io_getSn_SR io sn (snd (io_getSn_RX_RSR io sn (chip s))))"])
       (simp_all add: algebra_simps)
qed

interpretation recvfrom_wait: wait_loop "recvfrom_turn io fd sn (of_nat n0)"
    "timed io now d n0 d_rcv_timeout_ms tmo fd" "remaining now d n0 tmo"
  for io fd sn n0 now d tmo
proof
  fix s s' assume T: "timed io now d n0 d_rcv_timeout_ms tmo fd s"
    and B: "recvfrom_turn io fd sn (of_nat n0) s = (None, s')"
  note K = clock_okD [OF timedD(1) [OF T]]
  show "timed io now d n0 d_rcv_timeout_ms tmo fd s' \<and> remaining now d n0 tmo s' < remaining now d n0 tmo s"
    using recvfrom_turn_None [OF B] timedD(2) [OF T] K(12,13) [where c = "chip s" and sn = sn]
      K(6,7) [where c = "snd (io_getSn_RX_RSR io sn (chip s))" and sn = sn]
    by (intro timed_step [OF T, where c = "snd (io_getSn_SR io sn (snd (io_getSn_RX_RSR io sn (chip s))))"])
       (simp_all add: algebra_simps)
qed

interpretation send_wait: wait_loop "send_turn io fd sn (of_nat n0)"
    "timed io now d n0 d_snd_timeout_ms tmo fd" "remaining now d n0 tmo"
  for io fd sn n0 now d tmo
proof
  fix s s' assume T: "timed io now d n0 d_snd_timeout_ms tmo fd s"
    and B: "send_turn io fd sn (of_nat n0) s = (None, s')"
  note K = clock_okD [OF timedD(1) [OF T]]
  show "timed io now d n0 d_snd_timeout_ms tmo fd s' \<and> remaining now d n0 tmo s' < remaining now d n0 tmo s"
    using send_turn_None [OF B] timedD(2) [OF T] K(6,7) [where c = "chip s" and sn = sn]
      K(14,15) [where c = "snd (io_getSn_SR io sn (chip s))" and sn = sn]
    by (intro timed_step [OF T, where c = "snd (io_getSn_TX_FSR io sn (snd (io_getSn_SR io sn (chip s))))"])
       (simp_all add: algebra_simps)
qed

section \<open>Blocking receives and sends return in time\<close>

text \<open>The start of every wait: the clock is read, and that reading is the start.\<close>

lemma timed_start:
  assumes "clock_ok io now d" and "g (desc s fd) = tmo" and "tmo \<noteq> 0"
    and "unat tmo * 1000 + 8 * d < 2 ^ 32"
  shows "timed io now d (now (chip s)) g tmo fd (s\<lparr>chip := snd (io_time_us io (chip s))\<rparr>)"
    and "remaining now d (now (chip s)) tmo (s\<lparr>chip := snd (io_time_us io (chip s))\<rparr>)
           \<le> unat tmo * 1000 + 3 * d"
  using assms clock_okD(4,5) [OF assms(1), where c = "chip s"]
  by (auto simp: timed_def remaining_def)

text \<open>How a wait ends: a turn that returns leaves the clock inside the window, and after the
  limit if it is the one that gives up.\<close>

lemma deadline_late:
  assumes "timed io now d n0 g tmo fd s" and "now (chip s) \<le> now c" and "now c \<le> now (chip s) + 4 * d"
    and "fst (deadline_c io (of_nat n0) tmo c)"
  shows "n0 + unat tmo * 1000 \<le> now (snd (deadline_c io (of_nat n0) tmo c))"
    and "now (snd (deadline_c io (of_nat n0) tmo c)) \<le> n0 + unat tmo * 1000 + 8 * d"
proof -
  note T = timedD [OF assms(1)] and K = clock_okD(4,5) [OF timedD(1) [OF assms(1)], where c = c]
  have "now c - n0 < 2 ^ 32" using assms(3) T(4,6) by linarith
  with deadline_c_iff [OF T(1), of n0 c tmo] assms(2-4) T have "n0 + unat tmo * 1000 \<le> now c"
    by linarith
  with K assms(3) T show "n0 + unat tmo * 1000 \<le> now (snd (deadline_c io (of_nat n0) tmo c))"
    "now (snd (deadline_c io (of_nat n0) tmo c)) \<le> n0 + unat tmo * 1000 + 8 * d"
    by (simp_all add: deadline_c_snd)
qed

definition in_window :: "('c \<Rightarrow> nat) \<Rightarrow> nat \<Rightarrow> nat \<Rightarrow> u32 \<Rightarrow> 'c toe \<Rightarrow> bool" where
  "in_window now d n0 tmo s \<longleftrightarrow> n0 + unat tmo * 1000 \<le> now (chip s) \<and>
     now (chip s) \<le> n0 + unat tmo * 1000 + 8 * d"

lemma recv_turn_late:
  assumes T: "timed io now d n0 d_rcv_timeout_ms tmo fd s"
    and B: "recv_turn io fd sn (of_nat n0) s = (Some (Inl WIZTOE_ERR_TIMEOUT), s')"
  shows "in_window now d n0 tmo s'"
proof -
  note K = clock_okD [OF timedD(1) [OF T]]
  let ?c1 = "snd (io_getSn_RX_RSR io sn (chip s))"
  let ?c = "snd (io_getSn_SR io sn ?c1)"
  have l: "fst (deadline_c io (of_nat n0) tmo ?c)"
    "s' = s\<lparr>chip := snd (deadline_c io (of_nat n0) tmo ?c)\<rparr>"
    using B timedD(2) [OF T]
    by (auto simp: recv_turn_def chip_pairs Let_def toe_consts split: if_splits)
  show ?thesis
    using deadline_late [OF T _ _ l(1)] K(12,13) [where c = "chip s" and sn = sn]
      K(6,7) [where c = ?c1 and sn = sn] l(2) by (simp add: in_window_def)
qed


text \<open>The same for recvfrom().\<close>

lemma recvfrom_returns:
  assumes "clock_ok io now d" and "d_rcv_timeout_ms (desc s fd) \<noteq> 0"
    and "unat (d_rcv_timeout_ms (desc s fd)) * 1000 + 8 * d < 2 ^ 32"
    and "unat (d_rcv_timeout_ms (desc s fd)) * 1000 + 3 * d < n"
  shows "\<exists>q s'. wiztoe_recvfrom io n fd len s = Some (q, s')"
proof (cases "\<not> toe_fd_ready s fd \<or> \<not> d_is_udp (desc s fd) \<or> \<not> d_opened (desc s fd)")
  case True
  then show ?thesis by (auto simp: wiztoe_recvfrom_def)
next
  case False
  let ?s1 = "s\<lparr>chip := snd (io_time_us io (chip s))\<rparr>"
  note st = timed_start [OF assms(1), of d_rcv_timeout_ms s fd, OF refl assms(2,3)]
  have "remaining now d (now (chip s)) (d_rcv_timeout_ms (desc s fd)) ?s1 < n" using st(2) assms(4) by simp
  from recvfrom_wait.returns [OF st(1) this, of "toe_sn s fd"] False
  show ?thesis
    by (auto simp: wiztoe_recvfrom_def Let_def chip_pairs clock_okD(1) [OF assms(1)] split_beta
        split: sum.split)
qed

text \<open>A blocking send() with SO_SNDTIMEO set returns, however long the peer keeps its window
  closed and whatever the link does.\<close>

theorem send_returns:
  assumes "clock_ok io now d" and "d_snd_timeout_ms (desc s fd) \<noteq> 0"
    and "unat (d_snd_timeout_ms (desc s fd)) * 1000 + 8 * d < 2 ^ 32"
    and "unat (d_snd_timeout_ms (desc s fd)) * 1000 + 3 * d < n"
  shows "\<exists>r s'. wiztoe_send io n fd buf s = Some (r, s')"
proof (cases "\<not> toe_fd_ready s fd \<or> d_is_udp (desc s fd)")
  case True
  then show ?thesis by (auto simp: wiztoe_send_def)
next
  case False
  let ?s1 = "s\<lparr>chip := snd (io_time_us io (chip s))\<rparr>"
  note st = timed_start [OF assms(1), of d_snd_timeout_ms s fd, OF refl assms(2,3)]
  have "remaining now d (now (chip s)) (d_snd_timeout_ms (desc s fd)) ?s1 < n" using st(2) assms(4) by simp
  from send_wait.returns [OF st(1) this, of "toe_sn s fd"] False
  show ?thesis
    by (auto simp: wiztoe_send_def Let_def chip_pairs clock_okD(1) [OF assms(1)] split_beta
        split: sum.split)
qed

lemma sim_clock: "clock_ok sim_io sim_now 1000"
  by (simp add: clock_ok_def advances_def sim_io_def sim_set_sr_def)

definition sim_waiting :: "sim toe" where
  "sim_waiting = upd_desc 0 (\<lambda>d. d\<lparr>d_rcv_timeout_ms := 2, d_snd_timeout_ms := 2\<rparr>) sim_connected"


theorem send_returns_witness:
  "\<exists>r s'. wiztoe_send sim_io 5001 0 [1, 2, 3] sim_waiting = Some (r, s')"
proof -
  have tmo: "d_snd_timeout_ms (desc sim_waiting 0) = 2" by code_simp
  have "d_snd_timeout_ms (desc sim_waiting 0) \<noteq> 0"
    "unat (d_snd_timeout_ms (desc sim_waiting 0)) * 1000 + 8 * 1000 < 2 ^ 32"
    "unat (d_snd_timeout_ms (desc sim_waiting 0)) * 1000 + 3 * 1000 < 5001" using tmo by simp_all
  from send_returns [OF sim_clock this] show ?thesis by blast
qed

section \<open>accept and close return\<close>

lemma reopen_clock:
  assumes "clock_ok io now d"
  shows "now (chip s) \<le> now (chip (snd (toe_listener_reopen io fd s)))"
    and "now (chip (snd (toe_listener_reopen io fd s))) \<le> now (chip s) + 3 * d"
proof -
  note K = clock_okD [OF assms]
  let ?c1 = "snd (io_getSIPR io (chip s))"
  let ?c2 = "snd (io_socket io (toe_sn s fd) Sn_MR_TCP (d_port (desc s fd)) (toe_open_flag io s fd) ?c1)"
  have "toe_open_flag io (s\<lparr>chip := c\<rparr>) fd = toe_open_flag io s fd" for c
    by (simp add: toe_open_flag_def)
  then show "now (chip s) \<le> now (chip (snd (toe_listener_reopen io fd s)))"
    "now (chip (snd (toe_listener_reopen io fd s))) \<le> now (chip s) + 3 * d"
    using K(18,19) [where c = "chip s"]
      K(20,21) [where c = ?c1 and sn = "toe_sn s fd" and m = Sn_MR_TCP and p = "d_port (desc s fd)"
        and f = "toe_open_flag io s fd"]
      K(22,23) [where c = ?c2 and sn = "toe_sn s fd"]
    by (simp_all add: toe_listener_reopen_def toe_chip_has_ip_def chip_pairs Let_def)
qed

lemma disarm_chip [simp]: "chip (toe_listener_disarm fd s) = chip s"
  by (simp add: toe_listener_disarm_def Let_def toe_sn_release_def)

lemma sn_alloc_chip [simp]: "chip (snd (toe_sn_alloc fd s)) = chip s"
  by (simp add: toe_sn_alloc_def split: option.split)

lemma rearm_clock:
  assumes "clock_ok io now d"
  shows "now (chip s) \<le> now (chip (snd (toe_listener_rearm io fd s)))"
    and "now (chip (snd (toe_listener_rearm io fd s))) \<le> now (chip s) + 3 * d"
  using reopen_clock [OF assms, where fd = fd and
      s = "upd_desc fd (\<lambda>d. d\<lparr>d_sn := fst (toe_sn_alloc fd s)\<rparr>) (snd (toe_sn_alloc fd s))"]
  by (simp_all add: toe_listener_rearm_def Let_def split_beta)

lemma accept_poll_clock:
  assumes "clock_ok io now d" and "fst (accept_poll io fd s) = None"
  shows "now (chip s) \<le> now (chip (snd (accept_poll io fd s)))"
    and "now (chip (snd (accept_poll io fd s))) \<le> now (chip s) + 4 * d"
proof -
  note K = clock_okD [OF assms(1)]
  let ?c1 = "snd (io_getSn_SR io (toe_sn s fd) (chip s))"
  let ?s1 = "s\<lparr>chip := ?c1\<rparr>"
  have "now (chip s) \<le> now (chip (snd (accept_poll io fd s))) \<and>
        now (chip (snd (accept_poll io fd s))) \<le> now (chip s) + 4 * d"
  proof (cases "d_sn (desc s fd) < 0")
    case True
    then show ?thesis using rearm_clock [OF assms(1), where s = s and fd = fd] by (simp add: accept_poll_def)
  next
    case False
    have "toe_sn ?s1 fd = toe_sn s fd" by (simp add: toe_sn_def)
    then show ?thesis
      using False assms(2) K(6,7) [where c = "chip s" and sn = "toe_sn s fd"]
        K(22,23) [where c = ?c1 and sn = "toe_sn s fd"] reopen_clock [OF assms(1), where s = ?s1 and fd = fd]
      by (cases "fst (io_getSn_SR io (toe_sn s fd) (chip s))")
         (auto simp: accept_poll_def chip_pairs Let_def split_beta)
  qed
  then show "now (chip s) \<le> now (chip (snd (accept_poll io fd s)))"
    "now (chip (snd (accept_poll io fd s))) \<le> now (chip s) + 4 * d" by blast+
qed

text \<open>Nothing the loop does between two looks touches what the caller set on the listener.\<close>

lemma disarm_opts:
  "d_rcv_timeout_ms (desc (toe_listener_disarm fd s) j) = d_rcv_timeout_ms (desc s j)"
  "d_nonblocking (desc (toe_listener_disarm fd s) j) = d_nonblocking (desc s j)"
  by (simp_all add: toe_listener_disarm_def Let_def toe_sn_release_def nth_upd)

lemma reopen_opts:
  "d_rcv_timeout_ms (desc (snd (toe_listener_reopen io fd s)) j) = d_rcv_timeout_ms (desc s j)"
  "d_nonblocking (desc (snd (toe_listener_reopen io fd s)) j) = d_nonblocking (desc s j)"
  using listener_reopen_shape [of io fd s] by (auto simp: nth_upd split: if_splits)

lemma rearm_opts:
  "d_rcv_timeout_ms (desc (snd (toe_listener_rearm io fd s)) j) = d_rcv_timeout_ms (desc s j)"
  "d_nonblocking (desc (snd (toe_listener_rearm io fd s)) j) = d_nonblocking (desc s j)"
  by (simp_all add: toe_listener_rearm_def Let_def split_beta disarm_opts reopen_opts
      sn_alloc_desc nth_upd)

lemma accept_poll_opts:
  assumes "fst (accept_poll io fd s) = None"
  shows "d_rcv_timeout_ms (desc (snd (accept_poll io fd s)) fd) = d_rcv_timeout_ms (desc s fd)"
    and "d_nonblocking (desc (snd (accept_poll io fd s)) fd) = d_nonblocking (desc s fd)"
  using assms by (auto simp: accept_poll_def chip_pairs Let_def split_beta rearm_opts disarm_opts
      reopen_opts split: sock_status.split_asm sock_status.split if_splits)

lemma accept_turn_Nonely:
  assumes "accept_turn io fd st s = (None, s')"
  defines "p \<equiv> snd (accept_poll io fd s)"
  shows "fst (accept_poll io fd s) = None"
    and "\<not> fst (deadline_c io st (d_rcv_timeout_ms (desc p fd)) (chip p))"
    and "s' = p\<lparr>chip := io_yield_1ms io (snd (deadline_c io st (d_rcv_timeout_ms (desc p fd)) (chip p)))\<rparr>"
  using assms by (auto simp: accept_turn_def chip_pairs Let_def split: prod.splits option.splits if_splits)

interpretation accept_wait: wait_loop "accept_turn io fd (of_nat n0)"
    "timed io now d n0 d_rcv_timeout_ms tmo fd" "remaining now d n0 tmo"
  for io fd n0 now d tmo
proof
  fix s s' assume T: "timed io now d n0 d_rcv_timeout_ms tmo fd s"
    and B: "accept_turn io fd (of_nat n0) s = (None, s')"
  let ?p = "snd (accept_poll io fd s)"
  note N = accept_turn_Nonely [OF B]
  note C = accept_poll_clock [OF timedD(1) [OF T] N(1)] and O = accept_poll_opts(1) [OF N(1)]
  show "timed io now d n0 d_rcv_timeout_ms tmo fd s' \<and> remaining now d n0 tmo s' < remaining now d n0 tmo s"
    using N(2,3) C O timedD(2) [OF T] by (intro timed_step [OF T, where c = "chip ?p"]) simp_all
qed

text \<open>A blocking accept() on a listener with SO_RCVTIMEO set returns, also while the listener
  is without a hardware socket, without a source address, or re-opening over and over.\<close>

theorem accept_returns:
  assumes "clock_ok io now d" and "d_rcv_timeout_ms (desc s fd) \<noteq> 0"
    and "unat (d_rcv_timeout_ms (desc s fd)) * 1000 + 8 * d < 2 ^ 32"
    and "unat (d_rcv_timeout_ms (desc s fd)) * 1000 + 3 * d < n"
  shows "\<exists>r s'. wiztoe_accept io n fd s = Some (r, s')"
proof (cases "\<not> toe_fd_valid s fd \<or> \<not> d_listening (desc s fd)")
  case True
  then show ?thesis by (auto simp: wiztoe_accept_def)
next
  case False
  let ?s1 = "s\<lparr>chip := snd (io_time_us io (chip s))\<rparr>"
  note st = timed_start [OF assms(1), of d_rcv_timeout_ms s fd, OF refl assms(2,3)]
  have "remaining now d (now (chip s)) (d_rcv_timeout_ms (desc s fd)) ?s1 < n" using st(2) assms(4) by simp
  from accept_wait.returns [OF st(1) this] False
  show ?thesis by (auto simp: wiztoe_accept_def Let_def chip_pairs clock_okD(1) [OF assms(1)])
qed

definition sim_starved :: "sim toe" where
  "sim_starved = upd_desc 0 (\<lambda>d. d\<lparr>d_rcv_timeout_ms := 2\<rparr>)
     (sim_listening\<lparr>chip := (chip sim_listening)\<lparr>sim_sipr := 0\<rparr>\<rparr>)"

theorem accept_returns_witness:
  "\<exists>r s'. wiztoe_accept sim_io 5001 0 sim_starved = Some (r, s')"
proof -
  have tmo: "d_rcv_timeout_ms (desc sim_starved 0) = 2" by code_simp
  have "d_rcv_timeout_ms (desc sim_starved 0) \<noteq> 0"
    "unat (d_rcv_timeout_ms (desc sim_starved 0)) * 1000 + 8 * 1000 < 2 ^ 32"
    "unat (d_rcv_timeout_ms (desc sim_starved 0)) * 1000 + 3 * 1000 < 5001" using tmo by simp_all
  from accept_returns [OF sim_clock this] show ?thesis by blast
qed

end
