(* ===== verification/Toe_Bounds.thy ===== *)
theory Toe_Bounds
  imports Toe_Time
begin

text \<open>
  close() and the chip's command latch, the non-blocking mode, the range of what send() returns,
  and two places where the waits do not do what they mean to: a timeout of more than 71 minutes,
  and data that arrives together with the FIN between two register reads.
\<close>

section \<open>close and shutdown return\<close>

text \<open>The command register reads zero within \<open>L\<close> reads.\<close>

fun latch_cleared :: "'c iolib \<Rightarrow> u8 \<Rightarrow> nat \<Rightarrow> 'c \<Rightarrow> bool" where
  "latch_cleared io sn 0 c = False"
| "latch_cleared io sn (Suc L) c =
     (let (v, c1) = io_getSn_CR io sn c in v = 0 \<or> latch_cleared io sn L c1)"

lemma latch_loop:
  "latch_cleared io sn L (chip s) \<Longrightarrow> \<exists>s'. poll_loop L (command_latch_turn io sn) s = Some ((), s')"
proof (induction L arbitrary: s)
  case 0
  then show ?case by simp
next
  case (Suc L)
  then show ?case
    by (cases "fst (io_getSn_CR io sn (chip s)) = 0")
       (auto simp: command_latch_turn_def chip_pairs Let_def split_beta)
qed

interpretation disconnect_wait: wait_loop "disconnect_turn io sn (of_nat n0)"
    "timed io now d n0 (\<lambda>_. WIZTOE_DISCONNECT_TIMEOUT_MS) WIZTOE_DISCONNECT_TIMEOUT_MS fd"
    "remaining now d n0 WIZTOE_DISCONNECT_TIMEOUT_MS"
  for io sn n0 now d fd
proof
  fix s s'
  let ?T = "WIZTOE_DISCONNECT_TIMEOUT_MS"
  assume T: "timed io now d n0 (\<lambda>_. ?T) ?T fd s"
    and B: "disconnect_turn io sn (of_nat n0) s = (None, s')"
  note K = clock_okD [OF timedD(1) [OF T]] and TD = timedD [OF T]
  let ?c1 = "snd (io_getSn_SR io sn (chip s))"
  let ?c2 = "snd (io_Sn_IR_TIMEOUT io sn ?c1)"
  let ?c3 = "snd (io_time_us io ?c2)"
  let ?c4 = "snd (io_CW_GET_PHYLINK io ?c3)"
  have nz: "?T \<noteq> 0" by (simp add: WIZTOE_DISCONNECT_TIMEOUT_MS_def)
  have l: "\<not> fst (deadline_c io (of_nat n0) ?T ?c2)" and s': "chip s' = io_yield_1ms io ?c4"
    using B nz by (auto simp: disconnect_turn_def chip_pairs Let_def link_c_snd deadline_c_def split: if_splits)
  note grow = K(6,7) [where c = "chip s" and sn = sn] K(10,11) [where c = ?c1 and sn = sn]
    K(4,5) [where c = ?c2] K(16,17) [where c = ?c3] K(2,3) [where c = ?c4]
  have "now ?c2 < n0 + unat ?T * 1000"
    using deadline_c_iff [OF TD(1), of n0 ?c2 ?T] l grow TD nz by linarith
  with grow s' TD show "timed io now d n0 (\<lambda>_. ?T) ?T fd s' \<and> remaining now d n0 ?T s' < remaining now d n0 ?T s"
    by (auto simp: timed_def remaining_def)
qed

lemma disconnect_returns:
  assumes "clock_ok io now d" and "250000 + 8 * d < 2 ^ 32" and "250000 + 3 * d < n"
    and "\<And>c. latch_cleared io (toe_sn s fd) L c" and "L \<le> n"
  shows "\<exists>s'. toe_tcp_disconnect_bounded io n fd s = Some s'"
proof -
  let ?T = "WIZTOE_DISCONNECT_TIMEOUT_MS"
  have T: "unat ?T * 1000 = 250000" "?T \<noteq> 0" by (simp_all add: WIZTOE_DISCONNECT_TIMEOUT_MS_def)
  have latch: "\<exists>t. poll_loop n (command_latch_turn io (toe_sn s fd)) u = Some ((), t)" for u
  proof -
    obtain t where "poll_loop L (command_latch_turn io (toe_sn s fd)) u = Some ((), t)"
      using latch_loop [where s = u] assms(4) by blast
    from poll_loop_mono [OF this assms(5)] show ?thesis by blast
  qed
  have wait: "\<exists>r t. poll_loop n (disconnect_turn io (toe_sn s fd) (of_nat (now (chip u))))
      (u\<lparr>chip := snd (io_time_us io (chip u))\<rparr>) = Some (r, t)" for u
  proof (rule disconnect_wait.returns [where now = now and d = d and fd = fd])
    show "timed io now d (now (chip u)) (\<lambda>_. ?T) ?T fd (u\<lparr>chip := snd (io_time_us io (chip u))\<rparr>)"
      using timed_start(1) [OF assms(1), where g = "\<lambda>_. ?T"] T assms(2) by simp
    show "remaining now d (now (chip u)) ?T (u\<lparr>chip := snd (io_time_us io (chip u))\<rparr>) < n"
      using timed_start(2) [OF assms(1), where g = "\<lambda>_. ?T" and s = u] T assms(2,3) by fastforce
  qed
  let ?c1 = "snd (io_getSn_SR io (toe_sn s fd) (chip s))"
  let ?s2 = "s\<lparr>chip := io_setSn_CR_DISCON io (toe_sn s fd) (snd (link_c io ?c1))\<rparr>"
  obtain t where lt: "poll_loop n (command_latch_turn io (toe_sn s fd)) ?s2 = Some ((), t)"
    using latch by blast
  obtain r t' where "poll_loop n (disconnect_turn io (toe_sn s fd) (of_nat (now (chip t))))
      (t\<lparr>chip := snd (io_time_us io (chip t))\<rparr>) = Some (r, t')"
    using wait by blast
  with lt show ?thesis
    by (simp add: toe_tcp_disconnect_bounded_def chip_pairs Let_def clock_okD(1) [OF assms(1)])
qed

text \<open>close() and shutdown() return whatever state the peer and the cable are in: provided
  the chip takes the DISCON command, they wait at most 250 ms (plus the library calls of the last
  turns) for the peer.\<close>

theorem close_returns:
  assumes "clock_ok io now d" and "250000 + 8 * d < 2 ^ 32" and "250000 + 3 * d < n"
    and "\<And>c. latch_cleared io (toe_sn s fd) L c" and "L \<le> n"
  shows "(\<exists>r s'. wiztoe_close io n fd s = Some (r, s')) \<and>
         (\<exists>r s'. wiztoe_shutdown io n fd srd swr s = Some (r, s'))"
proof -
  obtain t where "toe_tcp_disconnect_bounded io n fd s = Some t"
    using disconnect_returns [OF assms] by blast
  moreover have "toe_sn (upd_desc fd (\<lambda>d. d\<lparr>d_rd_shutdown := True\<rparr>) s) fd = toe_sn s fd"
    by (simp add: toe_sn_def nth_upd)
  then obtain u where "toe_tcp_disconnect_bounded io n fd
      (upd_desc fd (\<lambda>d. d\<lparr>d_rd_shutdown := True\<rparr>) s) = Some u"
    using disconnect_returns [OF assms(1-3) _ assms(5)] assms(4) by metis
  ultimately show ?thesis
    by (simp add: wiztoe_close_def close_socket_def wiztoe_shutdown_def Let_def)
qed

theorem close_returns_witness:
  "\<exists>r s'. wiztoe_close sim_io 253001 0 sim_connected = Some (r, s')"
proof -
  have "250000 + 8 * 1000 < (2 ^ 32 :: nat)" "250000 + 3 * 1000 < (253001 :: nat)" "2 \<le> (253001 :: nat)"
    by simp_all
  moreover have "latch_cleared sim_io (toe_sn sim_connected 0) 2 c" for c
    by (simp add: numeral_2_eq_2 sim_io_def)
  ultimately show ?thesis using close_returns [OF sim_clock] by blast
qed

text \<open>The bound rests on the command latch: the wait for it has no bound of its own, so with a
  chip whose command register never reads zero, close() of an established connection does not
  return, after any number of turns.\<close>

theorem close_stuck_without_latch:
  assumes "toe_fd_ready s fd" and "\<not> d_is_udp (desc s fd)"
    and "fst (io_getSn_SR io (toe_sn s fd) (chip s)) = SOCK_ESTABLISHED"
    and "fst (link_c io (snd (io_getSn_SR io (toe_sn s fd) (chip s))))"
    and "\<And>c. fst (io_getSn_CR io (toe_sn s fd) c) \<noteq> 0"
  shows "wiztoe_close io n fd s = None"
proof -
  have "poll_loop n (command_latch_turn io (toe_sn s fd)) u = None" for u
    by (rule poll_loop_stuck [where I = "\<lambda>_. True"])
       (simp_all add: command_latch_turn_def chip_pairs Let_def assms(5))
  with assms(1-4) show ?thesis
    by (simp add: wiztoe_close_def close_socket_def toe_tcp_disconnect_bounded_def chip_pairs
        Let_def toe_fd_ready_def)
qed

definition sim_stuck_io :: "sim iolib" where
  "sim_stuck_io = sim_io\<lparr>io_getSn_CR := (\<lambda>sn c. (8, c))\<rparr>"

theorem close_stuck_without_latch_witness: "wiztoe_close sim_stuck_io 100 0 sim_connected = None"
proof (rule close_stuck_without_latch)
  show "toe_fd_ready sim_connected 0" "\<not> d_is_udp (desc sim_connected 0)"
    "fst (io_getSn_SR sim_stuck_io (toe_sn sim_connected 0) (chip sim_connected)) = SOCK_ESTABLISHED"
    "fst (link_c sim_stuck_io (snd (io_getSn_SR sim_stuck_io (toe_sn sim_connected 0) (chip sim_connected))))"
    by code_simp+
qed (simp add: sim_stuck_io_def)

text \<open>The connected descriptor of the simulated chip, for the witnesses.\<close>

lemma sim_connected_facts:
  "toe_fd_valid sim_connected 0" "toe_fd_ready sim_connected 0" "\<not> d_is_udp (desc sim_connected 0)"
  "\<not> d_rd_shutdown (desc sim_connected 0)" "\<not> d_nonblocking (desc sim_connected 0)"
  "toe_sn sim_connected 0 = 0" "d_rcv_timeout_ms (desc sim_connected 0) = 0"
  "sim_sr (chip sim_connected) 0 = SOCK_ESTABLISHED" "sim_rx (chip sim_connected) = replicate 8 []"
  "sim_fsr (chip sim_connected) = replicate 8 2048" "sim_now (chip sim_connected) = 0"
  "length (g_desc sim_connected) = WIZTOE_MAX_DESC"
  by code_simp+

section \<open>Non-blocking descriptors\<close>

text \<open>On a descriptor with O_NONBLOCK set, accept(), send(), recv() and recvfrom() return on
  their first turn: the model reaches no yield.\<close>

theorem nonblocking_first_turn:
  assumes "d_nonblocking (desc s fd)"
  shows "wiztoe_accept io 1 fd s \<noteq> None \<and> wiztoe_send io 1 fd buf s \<noteq> None \<and>
         wiztoe_recv io 1 fd len s \<noteq> None \<and> wiztoe_recvfrom io 1 fd len s \<noteq> None"
proof (intro conjI)
  have "fst (accept_turn io fd st (s\<lparr>chip := c\<rparr>)) \<noteq> None" for st c
    using accept_poll_opts(2) [of io fd "s\<lparr>chip := c\<rparr>"] assms
    by (auto simp: accept_turn_def chip_pairs Let_def split: prod.split option.split)
  then have "accept_turn io fd st (s\<lparr>chip := c\<rparr>) \<noteq> (None, t)" for st c t
    by (metis fst_conv)
  then show "wiztoe_accept io 1 fd s \<noteq> None"
    by (auto simp: wiztoe_accept_def Let_def chip_pairs split: prod.split option.split)
  show "wiztoe_send io 1 fd buf s \<noteq> None"
    using assms by (auto simp: wiztoe_send_def send_turn_def Let_def chip_pairs split_beta)
  show "wiztoe_recv io 1 fd len s \<noteq> None"
    using assms by (auto simp: wiztoe_recv_def recv_turn_def Let_def chip_pairs split_beta)
  show "wiztoe_recvfrom io 1 fd len s \<noteq> None"
    using assms by (auto simp: wiztoe_recvfrom_def recvfrom_turn_def Let_def chip_pairs split_beta)
qed

definition sim_nonblock :: "sim toe" where
  "sim_nonblock = snd (wiztoe_set_nonblocking 0 1 sim_connected)"

theorem nonblocking_first_turn_witness: "wiztoe_recv sim_io 1 0 10 sim_nonblock \<noteq> None"
proof -
  have "d_nonblocking (desc sim_nonblock 0)" by code_simp
  from nonblocking_first_turn [OF this] show ?thesis by blast
qed

section \<open>What send reports\<close>

text \<open>send() never reports zero and never more than it was given: the result is -1,
  "would block", or the number of bytes queued, at most the length asked for and at most what one
  call can carry, provided the library's send() takes no more than it is handed.\<close>

theorem send_result_range:
  assumes "wiztoe_send io n fd buf s = Some (r, s')"
    and "\<And>sn b c. fst (io_send io sn b c) \<le> int (length b)"
  shows "r = -1 \<or> r = WIZTOE_ERR_WOULDBLOCK \<or> 0 < r \<and> r \<le> int (length buf) \<and> r \<le> 0xFFFF"
proof (cases "\<not> toe_fd_ready s fd \<or> d_is_udp (desc s fd)")
  case True
  with assms(1) show ?thesis by (auto simp: wiztoe_send_def)
next
  case False
  let ?body = "send_turn io fd (toe_sn s fd) (fst (io_time_us io (chip s)))"
  from assms(1) False obtain q t where pl:
    "poll_loop n ?body (s\<lparr>chip := snd (io_time_us io (chip s))\<rparr>) = Some (q, t)"
    by (auto simp: wiztoe_send_def chip_pairs Let_def split: option.splits)
  have q: "\<forall>rc. q = Inl rc \<longrightarrow> rc = -1 \<or> rc = WIZTOE_ERR_WOULDBLOCK"
    using pl by (rule poll_loop_rule [where I = "\<lambda>_. True"])
      (auto simp: send_turn_def chip_pairs Let_def split: if_splits)
  show ?thesis
  proof (cases q)
    case (Inl rc)
    with assms(1) False pl q show ?thesis by (auto simp: wiztoe_send_def chip_pairs Let_def)
  next
    case (Inr fs)
    let ?m = "fst (io_send io (toe_sn s fd) (take (unat fs) (take 0xFFFF buf)) (chip t))"
    have "?m \<le> int (length (take (unat fs) (take 0xFFFF buf)))" by (rule assms(2))
    then have "?m \<le> int (length buf)" "?m \<le> 0xFFFF" by auto
    moreover have "r = (if ?m = 0 then WIZTOE_ERR_WOULDBLOCK else if ?m < 0 then -1 else ?m)"
      using assms(1) False pl Inr by (auto simp: wiztoe_send_def chip_pairs Let_def split_beta)
    ultimately show ?thesis by auto
  qed
qed

theorem send_result_range_witness:
  "\<exists>r s'. wiztoe_send sim_io 1 0 [1, 2, 3] sim_connected = Some (r, s') \<and>
     (r = -1 \<or> r = WIZTOE_ERR_WOULDBLOCK \<or> 0 < r \<and> r \<le> 3)"
proof -
  have "wiztoe_send sim_io 1 0 [1, 2, 3] sim_connected \<noteq> None"
    using sim_connected_facts by (simp add: wiztoe_send_def send_turn_def chip_pairs Let_def sim_io_def)
  then obtain r s' where w: "wiztoe_send sim_io 1 0 [1, 2, 3] sim_connected = Some (r, s')" by auto
  have "fst (io_send sim_io sn b c) \<le> int (length b)" for sn b c by (simp add: sim_io_def)
  from send_result_range [OF w this] w show ?thesis by auto
qed

section \<open>Where the waits go wrong\<close>

definition sim_long_timeout :: "sim toe" where
  "sim_long_timeout = upd_desc 0 (\<lambda>d. d\<lparr>d_rcv_timeout_ms := 4294968\<rparr>) sim_connected"

lemma sim_long_timeout_facts:
  "toe_fd_ready sim_long_timeout 0" "\<not> d_is_udp (desc sim_long_timeout 0)"
  "\<not> d_rd_shutdown (desc sim_long_timeout 0)" "\<not> d_nonblocking (desc sim_long_timeout 0)"
  "toe_sn sim_long_timeout 0 = 0" "d_rcv_timeout_ms (desc sim_long_timeout 0) = 4294968"
  "chip sim_long_timeout = chip sim_connected"
  using sim_connected_facts
  by (simp_all add: sim_long_timeout_def toe_fd_ready_def toe_fd_valid_def toe_sn_def WIZTOE_MAX_DESC_def
      WIZTOE_MAX_SOCK_def)

text \<open>A receive timeout of 4294968 ms or more is not the time that was asked for: the limit in
  microseconds wraps at 32 bits, so an idle blocking recv() with a timeout of over 71 minutes
  reports the timeout after one millisecond.\<close>

theorem long_timeout_expires_early:
  "\<exists>s'. wiztoe_recv sim_io 2 0 10 sim_long_timeout = Some ((WIZTOE_ERR_TIMEOUT, []), s') \<and>
     sim_now (chip s') - sim_now (chip sim_long_timeout) = 1000"
  using sim_connected_facts sim_long_timeout_facts
  by (simp add: wiztoe_recv_def recv_turn_def chip_pairs Let_def sim_io_def deadline_c_def poll_loop_numeral)

definition sim_race_io :: "sim iolib" where
  "sim_race_io = sim_io\<lparr>io_getSn_RX_RSR := (\<lambda>sn c.
     (of_nat (length (sim_rx c ! unat sn)),
      if sim_sr c sn = SOCK_ESTABLISHED
      then sim_set_sr sn SOCK_CLOSE_WAIT (c\<lparr>sim_rx := (sim_rx c)[unat sn := [7, 8, 9]]\<rparr>) else c))\<rparr>"

text \<open>recv() reads the byte count before the state. When the peer's last bytes and its FIN
  arrive between the two reads, it reports end of file (0) while the bytes are in the buffer: the
  next call returns them.\<close>

theorem recv_eof_before_data:
  "\<exists>s1 s2. wiztoe_recv sim_race_io 1 0 10 sim_connected = Some ((0, []), s1) \<and>
     wiztoe_recv sim_race_io 1 0 10 s1 = Some ((3, [7, 8, 9]), s2)"
  using sim_connected_facts
  by (simp add: wiztoe_recv_def recv_turn_def chip_pairs Let_def sim_race_io_def sim_io_def
      sim_set_sr_def toe_fd_ready_def toe_fd_valid_def toe_sn_def)

section \<open>Socket options\<close>

lemma keepidle_value:
  fixes i :: int
  defines "q \<equiv> (if 1275 < (if i < 5 then 5 else i) then 1275 else if i < 5 then 5 else i) div 5"
  shows "q = min 255 (max 1 (i div 5))" and "uint (word_of_int q :: u8) = q"
proof -
  consider "i < 5" | "5 \<le> i" "i \<le> 1275" | "1275 < i" by linarith
  then have "q = min 255 (max 1 (i div 5)) \<and> 0 \<le> q \<and> q \<le> 255"
    by cases (simp_all add: q_def min_def max_def, linarith+)
  then show "q = min 255 (max 1 (i div 5))" and "uint (word_of_int q :: u8) = q"
    by (simp_all add: uint_word_of_int take_bit_int_eq_self)
qed

text \<open>What setsockopt() stores as a receive timeout is what getsockopt() reports, on any live
  descriptor, a listener without a socket included; and SO_KEEPIDLE writes the keep-alive register
  with the requested seconds divided by five, never zero (which would switch the probes off) and
  never a wrapped value.\<close>

theorem sockopt_contract:
  assumes "toe_fd_valid s fd" and "length (g_desc s) = WIZTOE_MAX_DESC"
  shows "fst (wiztoe_getsockopt io fd WIZTOE_OPT_RCVTIMEO_MS False (Some 4)
             (snd (wiztoe_setsockopt io fd WIZTOE_OPT_RCVTIMEO_MS (Some (le32_bytes w)) s))) = (0, Some w) \<and>
         (0 \<le> d_sn (desc s fd) \<longrightarrow>
            (\<exists>v. wiztoe_setsockopt io fd WIZTOE_OPT_KEEPIDLE (Some (le32_bytes w)) s =
                   (0, chip_do (io_setSn_KPALVTR io (toe_sn s fd) v) s) \<and>
                 uint v = min 255 (max 1 (sint w div 5))))"
proof
  have v: "0 \<le> fd" "nat fd < length (g_desc s)" "d_used (desc s fd)"
    using assms by (auto simp: toe_fd_valid_def)
  have nz: "le32_bytes w \<noteq> []" by (simp add: le32_bytes_def)
  show "fst (wiztoe_getsockopt io fd WIZTOE_OPT_RCVTIMEO_MS False (Some 4)
             (snd (wiztoe_setsockopt io fd WIZTOE_OPT_RCVTIMEO_MS (Some (le32_bytes w)) s))) = (0, Some w)"
    using assms v nz by (simp add: wiztoe_getsockopt_def wiztoe_setsockopt_def Let_def toe_fd_valid_def)
  show "0 \<le> d_sn (desc s fd) \<longrightarrow>
            (\<exists>v. wiztoe_setsockopt io fd WIZTOE_OPT_KEEPIDLE (Some (le32_bytes w)) s =
                   (0, chip_do (io_setSn_KPALVTR io (toe_sn s fd) v) s) \<and>
                 uint v = min 255 (max 1 (sint w div 5)))"
  proof
    assume "0 \<le> d_sn (desc s fd)"
    let ?i = "sint w"
    let ?q = "(if 1275 < (if ?i < 5 then 5 else ?i) then 1275 else if ?i < 5 then 5 else ?i) div 5"
    have "wiztoe_setsockopt io fd WIZTOE_OPT_KEEPIDLE (Some (le32_bytes w)) s =
            (0, chip_do (io_setSn_KPALVTR io (toe_sn s fd) (word_of_int ?q)) s)"
      using assms(1) \<open>0 \<le> d_sn (desc s fd)\<close> nz
      by (simp only: wiztoe_setsockopt_def toe_fd_ready_def Let_def option.case le32_le32_bytes
          length_le32_bytes wiztoe_opt_t.case wiztoe_opt_t.distinct if_True if_False simp_thms
          order_refl) simp
    with keepidle_value [of ?i]
    show "\<exists>v. wiztoe_setsockopt io fd WIZTOE_OPT_KEEPIDLE (Some (le32_bytes w)) s =
                   (0, chip_do (io_setSn_KPALVTR io (toe_sn s fd) v) s) \<and>
                 uint v = min 255 (max 1 (?i div 5))" by metis
  qed
qed

theorem sockopt_contract_witness:
  "fst (wiztoe_getsockopt sim_io 0 WIZTOE_OPT_RCVTIMEO_MS False (Some 4)
     (snd (wiztoe_setsockopt sim_io 0 WIZTOE_OPT_RCVTIMEO_MS (Some (le32_bytes 2000)) sim_connected)))
   = (0, Some 2000)"
proof -
  from sockopt_contract [OF sim_connected_facts(1,12)] show ?thesis by blast
qed

end
