(* ===== verification/Wrap.thy ===== *)
theory Wrap
  imports Toe_Bounds
begin

text \<open>
  The socket glue of \<open>wiztoe_wrap.c\<close>: the lwIP entry points the linker redirects to the TOE
  layer. A call returns its value and the \<open>errno\<close> it leaves; every path of the file sets
  \<open>errno\<close>. \<open>LWIP_SOCKET_OFFSET\<close> belongs to lwIP and is the parameter \<open>off\<close>.
\<close>

section \<open>errno, socket addresses, options\<close>

datatype errno = E_OK | ENFILE | EADDRINUSE | EOPNOTSUPP | EWOULDBLOCK | EINVAL | ECONNREFUSED
  | EIO | EBADF | EFAULT | ENOPROTOOPT | ENOTCONN

record sockaddr_in =
  sin_family_inet :: bool
  sin_port :: u16
  sin_addr :: u32

definition bswap32 :: "u32 \<Rightarrow> u32" where
  "bswap32 w = be32_of (ucast w) (ucast (drop_bit 8 w)) (ucast (drop_bit 16 w)) (ucast (drop_bit 24 w))"

lemma be32_of_parts [simp]:
  "ucast (be32_of a b c d) = d" "ucast (drop_bit 8 (be32_of a b c d)) = c"
  "ucast (drop_bit 16 (be32_of a b c d)) = b" "ucast (drop_bit 24 (be32_of a b c d)) = a"
  by (rule bit_eqI; auto simp: be32_of_def bit_simps dest: bit_imp_le_length)+

lemma bswap32_bswap32 [simp]: "bswap32 (bswap32 w) = w"
  unfolding bswap32_def [of "bswap32 w"] by (simp add: bswap32_def be32_of_split)

text \<open>The target is little-endian, so the network conversions swap.\<close>

definition lwip_htons :: "u16 \<Rightarrow> u16" where "lwip_htons = bswap16"
definition lwip_htonl :: "u32 \<Rightarrow> u32" where "lwip_htonl = bswap32"

definition toe_is_wouldblock :: "int \<Rightarrow> bool" where
  "toe_is_wouldblock rc \<longleftrightarrow> rc = WIZTOE_ERR_TIMEOUT \<or> rc = WIZTOE_ERR_WOULDBLOCK"

text \<open>\<open>addr\<close> says whether the pointer is given, \<open>addrlen\<close> what \<open>*addrlen\<close> holds (None for a
  null pointer). The result is the address written; \<open>*addrlen\<close> then becomes 16.\<close>

definition toe_fill_sockaddr :: "bool \<Rightarrow> nat option \<Rightarrow> bytes \<Rightarrow> u16 \<Rightarrow> sockaddr_in option" where
  "toe_fill_sockaddr addr addrlen ip port =
     (case addrlen of None \<Rightarrow> None
      | Some l \<Rightarrow>
        if \<not> addr \<or> l < 16 then None
        else Some \<lparr>sin_family_inet = True, sin_port = lwip_htons port,
               sin_addr = lwip_htonl (be32_of (ip ! 0) (ip ! 1) (ip ! 2) (ip ! 3))\<rparr>)"

definition toe_ip_from_sockaddr :: "sockaddr_in \<Rightarrow> bytes \<times> u16" where
  "toe_ip_from_sockaddr sin =
     (let a = lwip_htonl (sin_addr sin)
      in ([ucast (drop_bit 24 a), ucast (drop_bit 16 a), ucast (drop_bit 8 a), ucast a],
          lwip_htons (sin_port sin)))"

section \<open>Life cycle of a socket\<close>

definition wrap_lwip_socket ::
  "int \<Rightarrow> int \<Rightarrow> int \<Rightarrow> int \<Rightarrow> 'c toe \<Rightarrow> (int \<times> errno) \<times> 'c toe" where
  "wrap_lwip_socket off domain ty protocol s =
     (let (fd, s1) = wiztoe_socket domain ty protocol s
      in (if fd < 0 then (-1, ENFILE) else (fd + off, E_OK), s1))"

definition wrap_lwip_bind ::
  "'c iolib \<Rightarrow> int \<Rightarrow> int \<Rightarrow> sockaddr_in \<Rightarrow> 'c toe \<Rightarrow> (int \<times> errno) \<times> 'c toe" where
  "wrap_lwip_bind io off sk sin s =
     (let (r, s1) = wiztoe_bind io (sk - off) (lwip_htons (sin_port sin)) s
      in (if r < 0 then (-1, EADDRINUSE) else (0, E_OK), s1))"

definition wrap_lwip_listen ::
  "'c iolib \<Rightarrow> int \<Rightarrow> int \<Rightarrow> int \<Rightarrow> 'c toe \<Rightarrow> (int \<times> errno) \<times> 'c toe" where
  "wrap_lwip_listen io off sk backlog s =
     (let (r, s1) = wiztoe_listen io (sk - off) backlog s
      in (if r < 0 then (-1, EOPNOTSUPP) else (0, E_OK), s1))"

definition wrap_lwip_accept ::
  "'c iolib \<Rightarrow> nat \<Rightarrow> int \<Rightarrow> int \<Rightarrow> bool \<Rightarrow> nat option \<Rightarrow> 'c toe \<Rightarrow>
     ((int \<times> errno \<times> sockaddr_in option) \<times> 'c toe) option" where
  "wrap_lwip_accept io fuel off sk addr addrlen s =
     (case wiztoe_accept io fuel (sk - off) s of None \<Rightarrow> None
      | Some (fd, s1) \<Rightarrow>
        Some (if toe_is_wouldblock fd then ((-1, EWOULDBLOCK, None), s1)
              else if fd < 0 then ((-1, EINVAL, None), s1)
              else let ((ip, port), s2) = wiztoe_peer io fd s1
                   in ((fd + off, E_OK, toe_fill_sockaddr addr addrlen ip port), s2)))"

definition wrap_lwip_connect ::
  "'c iolib \<Rightarrow> int \<Rightarrow> int \<Rightarrow> sockaddr_in \<Rightarrow> 'c toe \<Rightarrow> (int \<times> errno) \<times> 'c toe" where
  "wrap_lwip_connect io off sk name s =
     (let (ip, port) = toe_ip_from_sockaddr name;
          (r, s1) = wiztoe_connect io (sk - off) ip port s
      in (if r < 0 then (-1, ECONNREFUSED) else (0, E_OK), s1))"

definition wrap_lwip_close ::
  "'c iolib \<Rightarrow> nat \<Rightarrow> int \<Rightarrow> int \<Rightarrow> 'c toe \<Rightarrow> ((int \<times> errno) \<times> 'c toe) option" where
  "wrap_lwip_close io fuel off sk s =
     (case wiztoe_close io fuel (sk - off) s of None \<Rightarrow> None
      | Some (r, s1) \<Rightarrow> Some (if r < 0 then (-1, EBADF) else (0, E_OK), s1))"

definition wrap_lwip_shutdown ::
  "'c iolib \<Rightarrow> nat \<Rightarrow> int \<Rightarrow> int \<Rightarrow> int \<Rightarrow> 'c toe \<Rightarrow> ((int \<times> errno) \<times> 'c toe) option" where
  "wrap_lwip_shutdown io fuel off sk how s =
     (let shut_rd = (how = 0 \<or> how = 2); shut_wr = (how = 1 \<or> how = 2) in
      if \<not> shut_rd \<and> \<not> shut_wr then Some ((-1, EINVAL), s)
      else case wiztoe_shutdown io fuel (sk - off) shut_rd shut_wr s of None \<Rightarrow> None
           | Some (r, s1) \<Rightarrow> Some (if r < 0 then (-1, ENOTCONN) else (0, E_OK), s1))"

datatype fcntl_cmd = F_GETFL | F_SETFL | F_OTHER

definition wrap_lwip_fcntl ::
  "u32 \<Rightarrow> int \<Rightarrow> int \<Rightarrow> fcntl_cmd \<Rightarrow> u32 \<Rightarrow> 'c toe \<Rightarrow> (int \<times> errno) \<times> 'c toe" where
  "wrap_lwip_fcntl o_nonblock off sk cmd val s =
     (case cmd of
        F_GETFL \<Rightarrow> (let nb = wiztoe_get_nonblocking s (sk - off)
                    in (if nb < 0 then (-1, EBADF) else (if nb \<noteq> 0 then sint o_nonblock else 0, E_OK), s))
      | F_SETFL \<Rightarrow> (let (r, s1) = wiztoe_set_nonblocking (sk - off) (if val AND o_nonblock \<noteq> 0 then 1 else 0) s
                    in (if r < 0 then (-1, EBADF) else (0, E_OK), s1))
      | F_OTHER \<Rightarrow> ((-1, EINVAL), s))"

definition wrap_lwip_getsockname ::
  "'c iolib \<Rightarrow> int \<Rightarrow> int \<Rightarrow> bool \<Rightarrow> nat option \<Rightarrow> 'c toe \<Rightarrow> (int \<times> errno \<times> sockaddr_in option) \<times> 'c toe" where
  "wrap_lwip_getsockname io off sk name namelen s =
     (let ((ip, port), s1) = wiztoe_getsockname io (sk - off) s
      in ((0, E_OK, toe_fill_sockaddr name namelen ip port), s1))"

definition wrap_lwip_getpeername ::
  "'c iolib \<Rightarrow> int \<Rightarrow> int \<Rightarrow> bool \<Rightarrow> nat option \<Rightarrow> 'c toe \<Rightarrow> (int \<times> errno \<times> sockaddr_in option) \<times> 'c toe" where
  "wrap_lwip_getpeername io off sk name namelen s =
     (let ((ip, port), s1) = wiztoe_peer io (sk - off) s
      in ((0, E_OK, toe_fill_sockaddr name namelen ip port), s1))"

section \<open>Data\<close>

definition wrap_lwip_send ::
  "'c iolib \<Rightarrow> nat \<Rightarrow> int \<Rightarrow> int \<Rightarrow> bytes \<Rightarrow> 'c toe \<Rightarrow> ((int \<times> errno) \<times> 'c toe) option" where
  "wrap_lwip_send io fuel off sk data s =
     (case wiztoe_send io fuel (sk - off) data s of None \<Rightarrow> None
      | Some (n, s1) \<Rightarrow>
        Some (if toe_is_wouldblock n then (-1, EWOULDBLOCK)
              else if n < 0 then (-1, EIO) else (n, E_OK), s1))"

definition wrap_lwip_recv ::
  "'c iolib \<Rightarrow> nat \<Rightarrow> int \<Rightarrow> int \<Rightarrow> nat \<Rightarrow> 'c toe \<Rightarrow> ((int \<times> errno \<times> bytes) \<times> 'c toe) option" where
  "wrap_lwip_recv io fuel off sk len s =
     (case wiztoe_recv io fuel (sk - off) len s of None \<Rightarrow> None
      | Some ((n, data), s1) \<Rightarrow>
        Some (if toe_is_wouldblock n then (-1, EWOULDBLOCK, data)
              else if n < 0 then (-1, EIO, data) else (n, E_OK, data), s1))"

definition wrap_lwip_read ::
  "'c iolib \<Rightarrow> nat \<Rightarrow> int \<Rightarrow> int \<Rightarrow> nat \<Rightarrow> 'c toe \<Rightarrow> ((int \<times> errno \<times> bytes) \<times> 'c toe) option" where
  "wrap_lwip_read io fuel off sk len s = wrap_lwip_recv io fuel off sk len s"

definition wrap_lwip_write ::
  "'c iolib \<Rightarrow> nat \<Rightarrow> int \<Rightarrow> int \<Rightarrow> bytes \<Rightarrow> 'c toe \<Rightarrow> ((int \<times> errno) \<times> 'c toe) option" where
  "wrap_lwip_write io fuel off sk data s = wrap_lwip_send io fuel off sk data s"

text \<open>When the UDP call has stored no sender address its value is negative, and the address is not
  used; the zero address stands for the uninitialised array there.\<close>

definition wrap_lwip_recvfrom ::
  "'c iolib \<Rightarrow> nat \<Rightarrow> int \<Rightarrow> int \<Rightarrow> nat \<Rightarrow> bool \<Rightarrow> nat option \<Rightarrow> 'c toe \<Rightarrow>
     ((int \<times> errno \<times> bytes \<times> sockaddr_in option) \<times> 'c toe) option" where
  "wrap_lwip_recvfrom io fuel off sk len from fromlen s =
     (let fd = sk - off;
          res = (if wiztoe_is_udp s fd then
                   (case wiztoe_recvfrom io fuel fd len s of None \<Rightarrow> None
                    | Some ((n, data, sender), s1) \<Rightarrow>
                        Some (n, data, (case sender of Some a \<Rightarrow> a | None \<Rightarrow> ([0, 0, 0, 0], 0)), s1))
                 else
                   (case wiztoe_recv io fuel fd len s of None \<Rightarrow> None
                    | Some ((n, data), s1) \<Rightarrow>
                        let (peer, s2) = wiztoe_peer io fd s1 in Some (n, data, peer, s2)))
      in case res of None \<Rightarrow> None
         | Some (n, data, (ip, port), s3) \<Rightarrow>
             Some (if toe_is_wouldblock n then (-1, EWOULDBLOCK, data, None)
                   else if n < 0 then (-1, EIO, data, None)
                   else (n, E_OK, data, toe_fill_sockaddr from fromlen ip port), s3))"

definition wrap_lwip_sendto ::
  "'c iolib \<Rightarrow> nat \<Rightarrow> int \<Rightarrow> int \<Rightarrow> bytes \<Rightarrow> sockaddr_in option \<Rightarrow> 'c toe \<Rightarrow>
     ((int \<times> errno) \<times> 'c toe) option" where
  "wrap_lwip_sendto io fuel off sk data dest s =
     (let fd = sk - off;
          res = (case dest of
                   None \<Rightarrow> wiztoe_send io fuel fd data s
                 | Some a \<Rightarrow>
                     if \<not> wiztoe_is_udp s fd then wiztoe_send io fuel fd data s
                     else let (ip, port) = toe_ip_from_sockaddr a
                          in Some (wiztoe_sendto io fd data ip port s))
      in case res of None \<Rightarrow> None
         | Some (n, s1) \<Rightarrow>
             Some (if toe_is_wouldblock n then (-1, EWOULDBLOCK)
                   else if n < 0 then (-1, EIO) else (n, E_OK), s1))"

text \<open>The scatter and gather loops. The accumulators are the total and, for the reader, the bytes
  each buffer got; \<open>lens\<close> are the lengths of the buffers still to come.\<close>

fun readv_loop ::
  "'c iolib \<Rightarrow> nat \<Rightarrow> int \<Rightarrow> int \<Rightarrow> bytes list \<Rightarrow> nat list \<Rightarrow> 'c toe \<Rightarrow>
     ((int \<times> errno \<times> bytes list) \<times> 'c toe) option" where
  "readv_loop io fuel fd tot acc [] s = Some ((tot, E_OK, acc), s)"
| "readv_loop io fuel fd tot acc (len # lens) s =
     (if len = 0 then readv_loop io fuel fd tot acc lens s
      else
        let (avail, s1) = (if 0 < tot then wiztoe_available io fd s else (1, s)) in
        if 0 < tot \<and> avail \<le> 0 then Some ((tot, E_OK, acc), s1)
        else case wiztoe_recv io fuel fd len s1 of None \<Rightarrow> None
             | Some ((n, data), s2) \<Rightarrow>
               if toe_is_wouldblock n then
                 Some (if 0 < tot then (tot, E_OK, acc) else (-1, EWOULDBLOCK, acc), s2)
               else if n < 0 then
                 Some (if 0 < tot then (tot, E_OK, acc) else (-1, EIO, acc), s2)
               else if n < int len then Some ((tot + n, E_OK, acc @ [data]), s2)
               else readv_loop io fuel fd (tot + n) (acc @ [data]) lens s2)"

definition wrap_lwip_readv ::
  "'c iolib \<Rightarrow> nat \<Rightarrow> int \<Rightarrow> int \<Rightarrow> nat list option \<Rightarrow> 'c toe \<Rightarrow>
     ((int \<times> errno \<times> bytes list) \<times> 'c toe) option" where
  "wrap_lwip_readv io fuel off sk iov s =
     (case iov of None \<Rightarrow> Some ((-1, EINVAL, []), s)
      | Some lens \<Rightarrow> if lens = [] then Some ((-1, EINVAL, []), s)
                     else readv_loop io fuel (sk - off) 0 [] lens s)"

fun writev_loop ::
  "'c iolib \<Rightarrow> nat \<Rightarrow> int \<Rightarrow> int \<Rightarrow> bytes list \<Rightarrow> 'c toe \<Rightarrow> ((int \<times> errno) \<times> 'c toe) option" where
  "writev_loop io fuel fd tot [] s = Some ((tot, E_OK), s)"
| "writev_loop io fuel fd tot (b # bs) s =
     (if b = [] then writev_loop io fuel fd tot bs s
      else case wiztoe_send io fuel fd b s of None \<Rightarrow> None
           | Some (n, s1) \<Rightarrow>
             if toe_is_wouldblock n then
               Some (if 0 < tot then (tot, E_OK) else (-1, EWOULDBLOCK), s1)
             else if n < 0 then Some (if 0 < tot then (tot, E_OK) else (-1, EIO), s1)
             else if n < int (length b) then Some ((tot + n, E_OK), s1)
             else writev_loop io fuel fd (tot + n) bs s1)"

definition wrap_lwip_writev ::
  "'c iolib \<Rightarrow> nat \<Rightarrow> int \<Rightarrow> int \<Rightarrow> bytes list option \<Rightarrow> 'c toe \<Rightarrow> ((int \<times> errno) \<times> 'c toe) option" where
  "wrap_lwip_writev io fuel off sk iov s =
     (case iov of None \<Rightarrow> Some ((-1, EINVAL), s)
      | Some bs \<Rightarrow> if bs = [] then Some ((-1, EINVAL), s)
                   else writev_loop io fuel (sk - off) 0 bs s)"

section \<open>Socket options\<close>

datatype sol_level = SOL_SOCKET | IPPROTO_TCP | IPPROTO_IP | SOL_OTHER

datatype so_name = SO_REUSEADDR | SO_BROADCAST | SO_BINDTODEVICE | SO_KEEPALIVE | SO_RCVTIMEO
  | SO_SNDTIMEO | SO_ERROR | SO_TYPE | SO_RCVBUF | SO_SNDBUF | TCP_NODELAY | TCP_KEEPIDLE
  | IP_ADD_MEMBERSHIP | IP_DROP_MEMBERSHIP | IP_MULTICAST_TTL | IP_MULTICAST_IF
  | IP_MULTICAST_LOOP | IP_TTL | IP_TOS | SO_NAME_OTHER

text \<open>\<open>struct timeval\<close>: a 64-bit \<open>tv_sec\<close>, a 32-bit \<open>tv_usec\<close> and padding, 16 bytes,
  little-endian. C division truncates towards zero.\<close>

definition SIZEOF_TIMEVAL :: nat where "SIZEOF_TIMEVAL = 16"

definition c_div :: "int \<Rightarrow> int \<Rightarrow> int" where
  "c_div a b = (if a < 0 then - ((- a) div b) else a div b)"

definition le64 :: "bytes \<Rightarrow> 64 word" where
  "le64 b = (push_bit 32 (ucast (le32 (drop 4 b)))) OR ucast (le32 b)"

definition tv_sec :: "bytes \<Rightarrow> int" where "tv_sec b = sint (le64 b)"
definition tv_usec :: "bytes \<Rightarrow> int" where "tv_usec b = sint (le32 (drop 8 b))"

definition timeval_ms :: "bytes \<Rightarrow> u32" where
  "timeval_ms b = word_of_int (tv_sec b * 1000 + c_div (tv_usec b) 1000)"

definition timeval_bytes :: "u32 \<Rightarrow> bytes" where
  "timeval_bytes ms = le32_bytes (ms div 1000) @ [0, 0, 0, 0] @ le32_bytes ((ms mod 1000) * 1000) @ [0, 0, 0, 0]"

definition set_opt ::
  "'c iolib \<Rightarrow> int \<Rightarrow> wiztoe_opt_t \<Rightarrow> bytes \<Rightarrow> 'c toe \<Rightarrow> (int \<times> errno) \<times> 'c toe" where
  "set_opt io fd opt b s =
     (let (r, s1) = wiztoe_setsockopt io fd opt (Some b) s
      in (if r < 0 then (-1, EINVAL) else (0, E_OK), s1))"

definition wrap_lwip_setsockopt ::
  "'c iolib \<Rightarrow> int \<Rightarrow> int \<Rightarrow> sol_level \<Rightarrow> so_name \<Rightarrow> bytes option \<Rightarrow> 'c toe \<Rightarrow> (int \<times> errno) \<times> 'c toe" where
  "wrap_lwip_setsockopt io off sk level name optval s =
     (let fd = sk - off in
      case optval of None \<Rightarrow> ((-1, EFAULT), s)
      | Some b \<Rightarrow>
        (case level of
           SOL_SOCKET \<Rightarrow>
             (if name = SO_REUSEADDR \<or> name = SO_BROADCAST \<or> name = SO_BINDTODEVICE then ((0, E_OK), s)
              else if name = SO_KEEPALIVE then set_opt io fd WIZTOE_OPT_KEEPALIVE b s
              else if name = SO_RCVTIMEO \<or> name = SO_SNDTIMEO then
                let opt = (if name = SO_RCVTIMEO then WIZTOE_OPT_RCVTIMEO_MS else WIZTOE_OPT_SNDTIMEO_MS)
                in if length b < SIZEOF_TIMEVAL then ((-1, EINVAL), s)
                   else set_opt io fd opt (le32_bytes (timeval_ms b)) s
              else ((-1, ENOPROTOOPT), s))
         | IPPROTO_TCP \<Rightarrow>
             (if name = TCP_NODELAY then set_opt io fd WIZTOE_OPT_NODELAY b s
              else if name = TCP_KEEPIDLE then set_opt io fd WIZTOE_OPT_KEEPIDLE b s
              else ((-1, ENOPROTOOPT), s))
         | IPPROTO_IP \<Rightarrow>
             (if name = IP_ADD_MEMBERSHIP \<or> name = IP_DROP_MEMBERSHIP then ((-1, ENOPROTOOPT), s)
              else if name = IP_MULTICAST_TTL \<or> name = IP_MULTICAST_IF \<or> name = IP_MULTICAST_LOOP
                then ((0, E_OK), s)
              else if name = IP_TTL then set_opt io fd WIZTOE_OPT_TTL b s
              else if name = IP_TOS then set_opt io fd WIZTOE_OPT_TOS b s
              else ((-1, ENOPROTOOPT), s))
         | SOL_OTHER \<Rightarrow> ((-1, ENOPROTOOPT), s)))"

text \<open>\<open>optlen\<close> is what \<open>*optlen\<close> holds; the result carries the bytes stored, whose number is the new
  \<open>*optlen\<close>.\<close>

definition get_int_opt ::
  "'c iolib \<Rightarrow> int \<Rightarrow> wiztoe_opt_t \<Rightarrow> nat \<Rightarrow> 'c toe \<Rightarrow> (int \<times> errno \<times> bytes option) \<times> 'c toe" where
  "get_int_opt io fd opt l s =
     (if l < 4 then ((-1, EINVAL, None), s)
      else let ((r, w), s1) = wiztoe_getsockopt io fd opt False (Some l) s
           in (if r < 0 then (-1, EINVAL, None) else (0, E_OK, map_option le32_bytes w), s1))"

definition wrap_lwip_getsockopt ::
  "'c iolib \<Rightarrow> int \<Rightarrow> int \<Rightarrow> sol_level \<Rightarrow> so_name \<Rightarrow> bool \<Rightarrow> nat option \<Rightarrow> 'c toe \<Rightarrow>
     (int \<times> errno \<times> bytes option) \<times> 'c toe" where
  "wrap_lwip_getsockopt io off sk level name optval_null optlen s =
     (let fd = sk - off in
      case optlen of None \<Rightarrow> ((-1, EFAULT, None), s)
      | Some l \<Rightarrow>
        if optval_null then ((-1, EFAULT, None), s)
        else (case level of
           SOL_SOCKET \<Rightarrow>
             (if name = SO_ERROR then get_int_opt io fd WIZTOE_OPT_ERROR l s
              else if name = SO_TYPE then get_int_opt io fd WIZTOE_OPT_TYPE l s
              else if name = SO_RCVBUF then get_int_opt io fd WIZTOE_OPT_RCVBUF l s
              else if name = SO_SNDBUF then get_int_opt io fd WIZTOE_OPT_SNDBUF l s
              else if name = SO_RCVTIMEO \<or> name = SO_SNDTIMEO then
                if l < SIZEOF_TIMEVAL then ((-1, EINVAL, None), s)
                else let opt = (if name = SO_RCVTIMEO then WIZTOE_OPT_RCVTIMEO_MS else WIZTOE_OPT_SNDTIMEO_MS);
                         ((r, w), s1) = wiztoe_getsockopt io fd opt False (Some 4) s
                     in (if r < 0 then (-1, EINVAL, None) else (0, E_OK, map_option timeval_bytes w), s1)
              else ((-1, ENOPROTOOPT, None), s))
         | IPPROTO_IP \<Rightarrow>
             (if name = IP_TTL then get_int_opt io fd WIZTOE_OPT_TTL l s
              else if name = IP_TOS then get_int_opt io fd WIZTOE_OPT_TOS l s
              else ((-1, ENOPROTOOPT, None), s))
         | _ \<Rightarrow> ((-1, ENOPROTOOPT, None), s)))"

end
