(* ===== verification/Wrap_Props.thy ===== *)
theory Wrap_Props
  imports Wrap
begin

text \<open>
  Properties of the socket glue: the return-value and \<open>errno\<close> contract, the scatter and gather
  loops, socket addresses and timeouts as the POSIX caller sees them.
\<close>

section \<open>Return values and errno\<close>

definition posix_ok :: "int \<Rightarrow> errno \<Rightarrow> bool" where
  "posix_ok r e \<longleftrightarrow> (e = E_OK \<and> 0 \<le> r) \<or> (e \<noteq> E_OK \<and> r = -1)"

lemma readv_posix:
  "readv_loop io fuel fd t acc lens s = Some ((r, e, bs), s') \<Longrightarrow> 0 \<le> t \<Longrightarrow> posix_ok r e"
proof (induction io fuel fd t acc lens s rule: readv_loop.induct)
  case (1 io fuel fd t acc s)
  then show ?case by (auto simp: posix_ok_def)
next
  case (2 io fuel fd t acc len lens s)
  then show ?case
    by (fastforce simp: posix_ok_def Let_def split: if_splits option.splits prod.splits)
qed

lemma writev_posix:
  "writev_loop io fuel fd t bs s = Some ((r, e), s') \<Longrightarrow> 0 \<le> t \<Longrightarrow> posix_ok r e"
proof (induction io fuel fd t bs s rule: writev_loop.induct)
  case (1 io fuel fd t s)
  then show ?case by (auto simp: posix_ok_def)
next
  case (2 io fuel fd t b bs s)
  then show ?case
    by (fastforce simp: posix_ok_def split: if_splits option.splits prod.splits)
qed

lemma send_posix: "wrap_lwip_send io n off sk buf s = Some ((r, e), s') \<Longrightarrow> posix_ok r e"
  by (auto simp: wrap_lwip_send_def posix_ok_def split: option.splits if_splits)

lemma recv_posix: "wrap_lwip_recv io n off sk len s = Some ((r, e, b), s') \<Longrightarrow> posix_ok r e"
  by (auto simp: wrap_lwip_recv_def posix_ok_def split: option.splits prod.splits if_splits)

lemma recvfrom_posix:
  "wrap_lwip_recvfrom io n off sk len fr fl s = Some ((r, e, b, a), s') \<Longrightarrow> posix_ok r e"
  unfolding wrap_lwip_recvfrom_def Let_def posix_ok_def
  by (auto split: option.splits prod.splits if_splits)

lemma sendto_posix: "wrap_lwip_sendto io n off sk buf dst s = Some ((r, e), s') \<Longrightarrow> posix_ok r e"
  unfolding wrap_lwip_sendto_def Let_def posix_ok_def
  by (auto split: option.splits prod.splits if_splits)

lemma accept_posix:
  "0 \<le> off \<Longrightarrow> wrap_lwip_accept io n off sk ad al s = Some ((r, e, a), s') \<Longrightarrow> posix_ok r e"
  by (auto simp: wrap_lwip_accept_def posix_ok_def Let_def split_beta split: option.splits if_splits)

lemma close_posix: "wrap_lwip_close io n off sk s = Some ((r, e), s') \<Longrightarrow> posix_ok r e"
  by (auto simp: wrap_lwip_close_def posix_ok_def split: option.splits if_splits)

lemma shutdown_posix: "wrap_lwip_shutdown io n off sk how s = Some ((r, e), s') \<Longrightarrow> posix_ok r e"
  by (auto simp: wrap_lwip_shutdown_def posix_ok_def Let_def split: option.splits if_splits)

lemma wrap_readv_posix: "wrap_lwip_readv io n off sk iov s = Some ((r, e, bs), s') \<Longrightarrow> posix_ok r e"
  by (auto simp: wrap_lwip_readv_def posix_ok_def split: option.splits if_splits dest: readv_posix [unfolded posix_ok_def])

lemma wrap_writev_posix: "wrap_lwip_writev io n off sk iov s = Some ((r, e), s') \<Longrightarrow> posix_ok r e"
  by (auto simp: wrap_lwip_writev_def posix_ok_def split: option.splits if_splits dest: writev_posix [unfolded posix_ok_def])

text \<open>C8. The POSIX contract of the glue: a data, accept, close, shutdown or vector call that returns
  either returns a non-negative value with \<open>errno\<close> cleared, or -1 with \<open>errno\<close> set; none of the
  TOE layer's internal codes (-2 for a timeout, -3 for would-block) reaches the caller.\<close>

theorem wrap_posix_results:
  assumes "0 \<le> off"
  shows "(\<forall>r e s'. wrap_lwip_send io n off sk buf s = Some ((r, e), s') \<longrightarrow> posix_ok r e) \<and>
    (\<forall>r e b s'. wrap_lwip_recv io n off sk len s = Some ((r, e, b), s') \<longrightarrow> posix_ok r e) \<and>
    (\<forall>r e b a s'. wrap_lwip_recvfrom io n off sk len fr fl s = Some ((r, e, b, a), s') \<longrightarrow> posix_ok r e) \<and>
    (\<forall>r e s'. wrap_lwip_sendto io n off sk buf dst s = Some ((r, e), s') \<longrightarrow> posix_ok r e) \<and>
    (\<forall>r e a s'. wrap_lwip_accept io n off sk ad al s = Some ((r, e, a), s') \<longrightarrow> posix_ok r e) \<and>
    (\<forall>r e s'. wrap_lwip_close io n off sk s = Some ((r, e), s') \<longrightarrow> posix_ok r e) \<and>
    (\<forall>r e s'. wrap_lwip_shutdown io n off sk how s = Some ((r, e), s') \<longrightarrow> posix_ok r e) \<and>
    (\<forall>r e bs s'. wrap_lwip_readv io n off sk iov s = Some ((r, e, bs), s') \<longrightarrow> posix_ok r e) \<and>
    (\<forall>r e s'. wrap_lwip_writev io n off sk wiov s = Some ((r, e), s') \<longrightarrow> posix_ok r e)"
  by (intro conjI allI impI)
    (erule send_posix recv_posix recvfrom_posix sendto_posix accept_posix [OF assms] close_posix
      shutdown_posix wrap_readv_posix wrap_writev_posix)+

theorem wrap_posix_results_witness:
  "\<exists>r e a s'. wrap_lwip_accept sim_io 1 54 54 True (Some 16) sim_pending = Some ((r, e, a), s') \<and>
     posix_ok r e"
proof -
  have "wrap_lwip_accept sim_io 1 54 54 True (Some 16) sim_pending \<noteq> None" by code_simp
  then obtain r e a s' where w: "wrap_lwip_accept sim_io 1 54 54 True (Some 16) sim_pending = Some ((r, e, a), s')"
    by auto
  have "(0::int) \<le> 54" by simp
  note p = wrap_posix_results [OF this, where io = sim_io and n = 1 and sk = 54 and s = sim_pending
      and ad = True and al = "Some 16"]
  have "posix_ok r e"
    using p [THEN conjunct2, THEN conjunct2, THEN conjunct2, THEN conjunct2, THEN conjunct1] w by blast
  with w show ?thesis by blast
qed

section \<open>Scatter reads and gather writes\<close>

text \<open>What the library's recv() promises: a count that is not negative is the number of bytes
  stored, at most the number asked for; its error codes are negative, and it stores nothing when
  it fails.\<close>

definition recv_exact :: "'c iolib \<Rightarrow> bool" where
  "recv_exact io \<longleftrightarrow> io_SOCKERR_SOCKSTATUS io < 0 \<and> io_SOCKERR_SOCKCLOSED io < 0 \<and>
     (\<forall>sn l c. (if 0 \<le> fst (fst (io_recv io sn l c))
        then fst (fst (io_recv io sn l c)) = int (length (snd (fst (io_recv io sn l c)))) \<and>
          fst (fst (io_recv io sn l c)) \<le> int (unat l)
        else snd (fst (io_recv io sn l c)) = []))"

lemma recv_result:
  assumes "wiztoe_recv io n fd len s = Some ((r, data), s')" and "recv_exact io" and "0 \<le> r"
  shows "r = int (length data)" and "r \<le> int len"
proof -
  have u: "int (unat (of_nat (min len 0xFFFF) :: u16)) \<le> int len"
    by (simp add: unat_of_nat take_bit_nat_eq_self)
  have "r = int (length data) \<and> r \<le> int len"
  proof (cases "\<not> toe_fd_ready s fd \<or> d_is_udp (desc s fd) \<or> d_rd_shutdown (desc s fd)")
    case True
    with assms(1,3) show ?thesis by (auto simp: wiztoe_recv_def Let_def split: if_splits)
  next
    case r: False
    let ?body = "recv_turn io fd (toe_sn s fd) (fst (io_time_us io (chip s)))"
    from assms(1) r obtain q t where pl:
      "poll_loop n ?body (s\<lparr>chip := snd (io_time_us io (chip s))\<rparr>) = Some (q, t)"
      by (auto simp: wiztoe_recv_def chip_pairs Let_def split: option.splits)
    have q: "\<forall>rc. q = Inl rc \<longrightarrow> rc \<le> 0"
      using pl by (rule poll_loop_rule [where I = "\<lambda>_. True"])
        (auto simp: recv_turn_def chip_pairs Let_def toe_consts split: if_splits)
    show ?thesis
    proof (cases q)
      case (Inl rc)
      with assms(1,3) r pl q show ?thesis by (auto simp: wiztoe_recv_def chip_pairs Let_def)
    next
      case (Inr v)
      let ?x = "fst (io_recv io (toe_sn s fd) (of_nat (min len 0xFFFF)) (chip t))"
      have x: "data = snd ?x" "if 0 \<le> fst ?x then r = fst ?x else r = 0"
        using assms(1,2,3) r pl Inr
        by (auto simp: wiztoe_recv_def chip_pairs Let_def split_beta recv_exact_def split: if_splits)
      from assms(2) have "if 0 \<le> fst ?x then fst ?x = int (length (snd ?x)) \<and>
          fst ?x \<le> int (unat (of_nat (min len 0xFFFF) :: u16)) else snd ?x = []"
        unfolding recv_exact_def by blast
      with x u show ?thesis by (auto split: if_splits)
    qed
  qed
  then show "r = int (length data)" and "r \<le> int len" by blast+
qed

lemma readv_counts:
  assumes "recv_exact io"
  shows "readv_loop io fuel fd t acc lens s = Some ((r, E_OK, bs), s') \<Longrightarrow>
     t = int (sum_list (map length acc)) \<Longrightarrow>
     r = int (sum_list (map length bs)) \<and> r \<le> t + int (sum_list lens)"
proof (induction lens arbitrary: t acc s)
  case Nil
  then show ?case by auto
next
  case (Cons len lens)
  show ?case
  proof (cases "len = 0")
    case True
    with Cons show ?thesis by simp
  next
    case False
    obtain av s1 where av: "(if 0 < t then wiztoe_available io fd s else (1, s)) = (av, s1)"
      by (cases "if 0 < t then wiztoe_available io fd s else (1, s)") auto
    show ?thesis
    proof (cases "0 < t \<and> av \<le> 0")
      case True
      with Cons.prems False av show ?thesis by (auto simp: Let_def)
    next
      case go: False
      with Cons.prems(1) False av obtain n data s2 where
        rv: "wiztoe_recv io fuel fd len s1 = Some ((n, data), s2)"
        by (auto simp: Let_def split: option.splits)
      note step = Cons.prems(1) [simplified readv_loop.simps if_not_P [OF False] av Let_def prod.case
          if_not_P [OF go] rv option.case]
      consider (stop) "toe_is_wouldblock n \<or> n < 0" | (short) "\<not> toe_is_wouldblock n" "0 \<le> n" "n < int len"
        | (full) "\<not> toe_is_wouldblock n" "int len \<le> n" by linarith
      then show ?thesis
      proof cases
        case stop
        with step Cons.prems(2) show ?thesis by (auto split: if_splits)
      next
        case short
        with recv_result [OF rv assms short(2)] step Cons.prems(2) show ?thesis by auto
      next
        case full
        then have "0 \<le> n" using False by simp
        note R = recv_result [OF rv assms this]
        from full \<open>0 \<le> n\<close> step have "readv_loop io fuel fd (t + n) (acc @ [data]) lens s2 = Some ((r, E_OK, bs), s')"
          by auto
        from Cons.IH [OF this] Cons.prems(2) R full show ?thesis by simp
      qed
    qed
  qed
qed

text \<open>A scatter read that succeeds reports exactly the number of bytes it has put into the
  caller's buffers, never more than they hold.\<close>

theorem readv_reports_bytes:
  assumes "recv_exact io" and "wrap_lwip_readv io n off sk (Some lens) s = Some ((r, E_OK, bs), s')"
  shows "r = int (sum_list (map length bs)) \<and> r \<le> int (sum_list lens)"
  using readv_counts [OF assms(1), of n "sk - off" 0 "[]" lens s r bs s'] assms(2)
  by (auto simp: wrap_lwip_readv_def split: if_splits)

lemma sim_recv_exact: "recv_exact sim_io"
proof -
  have "int (min a (unat l)) \<le> uint l" for a and l :: u16
    using of_nat_mono [of "min a (unat l)" "unat l"] by simp
  then show ?thesis by (auto simp: recv_exact_def sim_io_def)
qed

definition sim_with_data :: "sim toe" where
  "sim_with_data = sim_connected\<lparr>chip := (chip sim_connected)\<lparr>sim_rx := [[1, 2, 3, 4, 5], [], [], [], [], [], [], []]\<rparr>\<rparr>"

lemma sim_with_data_facts:
  "toe_fd_valid sim_with_data 0" "toe_fd_ready sim_with_data 0" "\<not> d_is_udp (desc sim_with_data 0)"
  "\<not> d_rd_shutdown (desc sim_with_data 0)" "d_opened (desc sim_with_data 0)" "toe_sn sim_with_data 0 = 0"
  "sim_rx (chip sim_with_data) = [[1, 2, 3, 4, 5], [], [], [], [], [], [], []]"
  by code_simp+

lemma toe_fd_chip [simp]: "toe_fd_ready (s\<lparr>chip := c\<rparr>) fd = toe_fd_ready s fd"
  "toe_fd_valid (s\<lparr>chip := c\<rparr>) fd = toe_fd_valid s fd" "toe_sn (s\<lparr>chip := c\<rparr>) fd = toe_sn s fd"
  by (simp_all add: toe_fd_ready_def toe_fd_valid_def toe_sn_def)

theorem readv_reports_bytes_witness:
  "\<exists>s'. wrap_lwip_readv sim_io 1 54 54 (Some [2, 0, 8]) sim_with_data = Some ((5, E_OK, [[1, 2], [3, 4, 5]]), s') \<and>
     5 \<le> int (sum_list [2, 0, 8])"
proof -
  have "\<exists>s'. wrap_lwip_readv sim_io 1 54 54 (Some [2, 0, 8]) sim_with_data =
      Some ((5, E_OK, [[1, 2], [3, 4, 5]]), s')"
    using sim_with_data_facts
    by (simp add: wrap_lwip_readv_def wiztoe_recv_def recv_turn_def chip_pairs Let_def sim_io_def
        toe_is_wouldblock_def toe_consts wiztoe_available_def)
  then obtain s' where w: "wrap_lwip_readv sim_io 1 54 54 (Some [2, 0, 8]) sim_with_data =
      Some ((5, E_OK, [[1, 2], [3, 4, 5]]), s')" ..
  from readv_reports_bytes [OF sim_recv_exact w] w show ?thesis by auto
qed

text \<open>Once a scatter read has data it cannot wait: the later buffers are only filled from what the
  chip reports as received. Reading the clock must not make received bytes disappear.\<close>

definition rx_stays :: "'c iolib \<Rightarrow> bool" where
  "rx_stays io \<longleftrightarrow> (\<forall>sn c. 0 < fst (io_getSn_RX_RSR io sn c) \<longrightarrow>
     0 < fst (io_getSn_RX_RSR io sn (snd (io_time_us io (snd (io_getSn_RX_RSR io sn c))))))"

lemma recv_after_available:
  assumes "rx_stays io" and "wiztoe_available io fd s = (av, s1)" and "0 < av" and "0 < n"
  shows "wiztoe_recv io n fd len s1 \<noteq> None"
proof -
  have r: "toe_fd_ready s fd" "toe_fd_valid s fd" "d_opened (desc s fd)"
    using assms(2,3) by (auto simp: wiztoe_available_def split: if_splits)
  let ?sn = "toe_sn s fd"
  have s1: "s1 = s\<lparr>chip := snd (io_getSn_RX_RSR io ?sn (chip s))\<rparr>"
    and av: "av = uint (fst (io_getSn_RX_RSR io ?sn (chip s)))"
    using assms(2) r by (auto simp: wiztoe_available_def chip_pairs Let_def)
  have "0 < fst (io_getSn_RX_RSR io ?sn (chip s))" using assms(3) av by (simp add: word_less_def)
  then have "0 < fst (io_getSn_RX_RSR io ?sn (snd (io_time_us io (chip s1))))"
    using assms(1) s1 by (simp add: rx_stays_def)
  moreover have "toe_sn s1 fd = ?sn" "toe_fd_ready s1 fd" using s1 r by simp_all
  ultimately show ?thesis
    using assms(4) by (cases n) (auto simp: wiztoe_recv_def recv_turn_def chip_pairs Let_def split_beta)
qed

lemma readv_no_wait:
  assumes "rx_stays io" and "0 < n"
  shows "0 < t \<Longrightarrow> readv_loop io n fd t acc lens s \<noteq> None"
proof (induction lens arbitrary: t acc s)
  case Nil
  then show ?case by simp
next
  case (Cons len lens)
  obtain av s1 where av: "wiztoe_available io fd s = (av, s1)" by (cases "wiztoe_available io fd s")
  show ?case
  proof (cases "len = 0 \<or> av \<le> 0")
    case True
    with Cons av show ?thesis by (auto simp: Let_def)
  next
    case False
    with recv_after_available [OF assms(1) av _ assms(2), of len]
    obtain m data s2 where "wiztoe_recv io n fd len s1 = Some ((m, data), s2)" by auto
    with Cons av False show ?thesis by (auto simp: Let_def)
  qed
qed

text \<open>A scatter read never blocks once it has data in hand: if the receive for the first
  non-empty buffer returns, the whole call returns, whatever arrives or not for the others.\<close>

theorem readv_waits_once:
  assumes "rx_stays io" and "0 < n" and "0 < len"
    and "wiztoe_recv io n (sk - off) len s \<noteq> None"
  shows "wrap_lwip_readv io n off sk (Some (len # lens)) s \<noteq> None"
proof -
  obtain m data s1 where rv: "wiztoe_recv io n (sk - off) len s = Some ((m, data), s1)"
    using assms(4) by auto
  show ?thesis
  proof (cases "int len \<le> m")
    case True
    then have "0 < m" using assms(3) by simp
    from readv_no_wait [OF assms(1,2) this] rv assms(3) True show ?thesis
      by (auto simp: wrap_lwip_readv_def)
  next
    case False
    with rv assms(3) show ?thesis by (auto simp: wrap_lwip_readv_def)
  qed
qed

theorem readv_waits_once_witness:
  "wrap_lwip_readv sim_io 1 54 54 (Some [5, 7]) sim_with_data \<noteq> None"
proof (rule readv_waits_once)
  show "rx_stays sim_io" by (simp add: rx_stays_def sim_io_def)
  show "wiztoe_recv sim_io 1 (54 - 54) 5 sim_with_data \<noteq> None"
    using sim_with_data_facts by (simp add: wiztoe_recv_def recv_turn_def chip_pairs Let_def sim_io_def)
qed simp_all

section \<open>Addresses and timeouts\<close>

text \<open>The address a caller reads from a peer query is the address it can hand to connect() or
  sendto() to reach that peer: writing a socket address and reading it back is the identity.\<close>

theorem sockaddr_round_trip:
  assumes "length ip = 4"
  shows "\<exists>a. toe_fill_sockaddr True (Some 16) ip port = Some a \<and> toe_ip_from_sockaddr a = (ip, port)"
proof -
  obtain a b c d where "ip = [a, b, c, d]"
    using assms by (auto simp: numeral_eq_Suc length_Suc_conv)
  then show ?thesis
    by (simp add: toe_fill_sockaddr_def toe_ip_from_sockaddr_def lwip_htonl_def lwip_htons_def)
qed

theorem sockaddr_round_trip_witness:
  "\<exists>a. toe_fill_sockaddr True (Some 16) [192, 168, 11, 2] 5000 = Some a \<and>
     toe_ip_from_sockaddr a = ([192, 168, 11, 2], 5000)"
  by (rule sockaddr_round_trip) simp

lemma le32_append [simp]: "le32 (le32_bytes w @ x) = w"
  by (simp add: le32_def le32_bytes_def be32_of_split)

lemma sint_small:
  fixes w :: "'a::len word"
  assumes "uint w < 2 ^ (LENGTH('a) - 1)"
  shows "sint w = uint w"
proof -
  have "- (2 ^ (LENGTH('a) - 1)) \<le> uint w"
    by (rule order_trans [OF _ uint_ge_0]) simp
  with assms show ?thesis by (simp add: sint_uint signed_take_bit_int_eq_self)
qed

lemma timeval_parts:
  "uint (ms div 1000 :: u32) = uint ms div 1000"
  "uint ((ms mod 1000) * 1000 :: u32) = (uint ms mod 1000) * 1000"
proof -
  show "uint (ms div 1000 :: u32) = uint ms div 1000" by (simp add: uint_div_distrib)
  have m: "uint (ms mod 1000 :: u32) = uint ms mod 1000" by (simp add: uint_mod_distrib)
  then have "uint (ms mod 1000) * uint (1000 :: u32) < 2 ^ 32" by simp
  then show "uint ((ms mod 1000) * 1000 :: u32) = (uint ms mod 1000) * 1000"
    using uint_mult_lem [THEN iffD1, of "ms mod 1000" "1000 :: u32"] m by simp
qed

lemma timeval_split:
  "tv_sec (timeval_bytes ms) = uint ms div 1000"
  "tv_usec (timeval_bytes ms) = (uint ms mod 1000) * 1000"
  "length (timeval_bytes ms) = SIZEOF_TIMEVAL"
proof -
  have z: "le32 ([0, 0, 0, 0] @ x) = 0" for x
    by (simp add: le32_def be32_of_def)
  have d4: "drop 4 (timeval_bytes ms) = [0, 0, 0, 0] @ le32_bytes ((ms mod 1000) * 1000) @ [0, 0, 0, 0]"
    and d8: "drop 8 (timeval_bytes ms) = le32_bytes ((ms mod 1000) * 1000) @ [0, 0, 0, 0]"
    by (simp_all add: timeval_bytes_def)
  have "le64 (timeval_bytes ms) = ucast (ms div 1000)"
    unfolding le64_def d4 z by (simp add: timeval_bytes_def)
  moreover have "uint (ucast (ms div 1000 :: u32) :: 64 word) = uint ms div 1000"
    using uint_up_ucast [of "ms div 1000 :: u32", where ?'b = 64] by (simp add: is_up timeval_parts)
  moreover have "uint ms div 1000 < 2 ^ 63"
    using uint_lt2p [of ms] uint_ge_0 [of ms] by simp
  ultimately show "tv_sec (timeval_bytes ms) = uint ms div 1000"
    unfolding tv_sec_def by (simp add: sint_small)
  show "tv_usec (timeval_bytes ms) = (uint ms mod 1000) * 1000"
  proof -
    have "(uint ms mod 1000) * 1000 < 2 ^ 31" by simp
    then show ?thesis unfolding tv_usec_def d8 by (simp add: sint_small timeval_parts)
  qed
  show "length (timeval_bytes ms) = SIZEOF_TIMEVAL" by (simp add: timeval_bytes_def SIZEOF_TIMEVAL_def)
qed

lemma timeval_ms_bytes [simp]: "timeval_ms (timeval_bytes ms) = ms"
proof -
  have "0 \<le> (uint ms mod 1000) * 1000" by simp
  then have "c_div (tv_usec (timeval_bytes ms)) 1000 = uint ms mod 1000"
    by (simp add: timeval_split c_div_def)
  then have "timeval_ms (timeval_bytes ms) = word_of_int (uint ms div 1000 * 1000 + uint ms mod 1000)"
    by (simp add: timeval_ms_def timeval_split)
  then show ?thesis by simp
qed

text \<open>A receive timeout of any whole number of milliseconds set through SO_RCVTIMEO is the one
  the TOE layer waits for and the one getsockopt() reports.\<close>

theorem rcvtimeo_round_trip:
  assumes "toe_fd_valid s (sk - off)" and "length (g_desc s) = WIZTOE_MAX_DESC"
  shows "\<exists>s'. wrap_lwip_setsockopt io off sk SOL_SOCKET SO_RCVTIMEO (Some (timeval_bytes ms)) s = ((0, E_OK), s') \<and>
     d_rcv_timeout_ms (desc s' (sk - off)) = ms \<and>
     wrap_lwip_getsockopt io off sk SOL_SOCKET SO_RCVTIMEO False (Some 16) s' =
       ((0, E_OK, Some (timeval_bytes ms)), s')"
proof -
  have v: "nat (sk - off) < length (g_desc s)" "d_used (desc s (sk - off))" "0 \<le> sk - off"
    using assms by (auto simp: toe_fd_valid_def)
  have nz: "le32_bytes ms \<noteq> []" by (simp add: le32_bytes_def)
  let ?s' = "upd_desc (sk - off) (\<lambda>d. d\<lparr>d_rcv_timeout_ms := ms\<rparr>) s"
  have "wrap_lwip_setsockopt io off sk SOL_SOCKET SO_RCVTIMEO (Some (timeval_bytes ms)) s = ((0, E_OK), ?s')"
    using assms(1) nz
    by (simp add: wrap_lwip_setsockopt_def set_opt_def wiztoe_setsockopt_def Let_def timeval_split)
  moreover have "toe_fd_valid ?s' (sk - off)" using assms v by (simp add: toe_fd_valid_def)
  ultimately show ?thesis
    using v by (intro exI [of _ ?s'])
      (simp add: wrap_lwip_getsockopt_def wiztoe_getsockopt_def Let_def SIZEOF_TIMEVAL_def)
qed

theorem rcvtimeo_round_trip_witness:
  "\<exists>s'. wrap_lwip_setsockopt sim_io 54 54 SOL_SOCKET SO_RCVTIMEO (Some (timeval_bytes 2500)) sim_connected
     = ((0, E_OK), s') \<and> d_rcv_timeout_ms (desc s' 0) = 2500"
proof -
  have "toe_fd_valid sim_connected (54 - 54)" "length (g_desc sim_connected) = WIZTOE_MAX_DESC"
    using sim_connected_facts by simp_all
  from rcvtimeo_round_trip [OF this, of sim_io 2500] show ?thesis by auto
qed

text \<open>A timeout below one millisecond is stored as zero, which means no timeout: setsockopt()
  with 500 us succeeds, and an idle recv() then never returns.\<close>

theorem submillisecond_timeout_waits_forever:
  "\<exists>s'. wrap_lwip_setsockopt sim_io 54 54 SOL_SOCKET SO_RCVTIMEO
          (Some [0, 0, 0, 0, 0, 0, 0, 0, 0xF4, 1, 0, 0, 0, 0, 0, 0]) sim_long_timeout = ((0, E_OK), s') \<and>
     (\<forall>n. wrap_lwip_recv sim_io n 54 54 10 s' = None)"
proof -
  let ?b = "[0, 0, 0, 0, 0, 0, 0, 0, 0xF4, 1, 0, 0, 0, 0, 0, 0] :: bytes"
  have z: "timeval_ms ?b = 0" by code_simp
  let ?s = "upd_desc 0 (\<lambda>d. d\<lparr>d_rcv_timeout_ms := 0\<rparr>) sim_long_timeout"
  have v: "toe_fd_valid sim_long_timeout 0" using sim_long_timeout_facts by (simp add: toe_fd_ready_def)
  have nz: "le32_bytes 0 \<noteq> []" by (simp add: le32_bytes_def)
  have set: "wrap_lwip_setsockopt sim_io 54 54 SOL_SOCKET SO_RCVTIMEO (Some ?b) sim_long_timeout = ((0, E_OK), ?s)"
    using v nz by (simp add: wrap_lwip_setsockopt_def set_opt_def wiztoe_setsockopt_def Let_def
        SIZEOF_TIMEVAL_def z)
  have len: "length (g_desc sim_long_timeout) = 8"
    using sim_connected_facts by (simp add: sim_long_timeout_def toe_consts)
  note F = sim_long_timeout_facts sim_connected_facts(8-10)
  have st: "poll_loop n (recv_turn sim_io 0 0 t0) (?s\<lparr>chip := c\<rparr>) = None"
    if "sim_sr c 0 = SOCK_ESTABLISHED" "sim_rx c ! 0 = []" for n t0 c
    by (rule poll_loop_stuck [where I = "\<lambda>u. \<exists>c. u = ?s\<lparr>chip := c\<rparr> \<and> sim_sr c 0 = SOCK_ESTABLISHED \<and> sim_rx c ! 0 = []"])
       (use that F len in \<open>auto simp: recv_turn_def chip_pairs Let_def sim_io_def deadline_c_def\<close>)
  have r: "toe_fd_ready ?s 0" "\<not> d_is_udp (desc ?s 0)" "\<not> d_rd_shutdown (desc ?s 0)" "toe_sn ?s 0 = 0"
    using F len by (simp_all add: toe_fd_ready_def toe_fd_valid_def toe_sn_def)
  have "wrap_lwip_recv sim_io n 54 54 10 ?s = None" for n
    using r F st [of "snd (io_time_us sim_io (chip ?s))"]
    by (simp add: wrap_lwip_recv_def wiztoe_recv_def chip_pairs Let_def sim_io_def)
  with set show ?thesis by blast
qed

end
