(* ===== verification/Net_Ops.thy ===== *)
theory Net_Ops
  imports Wrap_Props
begin

text \<open>
  The socket vtable \<open>net_sock_ops_t\<close>: the operations the DHCP client and the DNS resolver call,
  the laws they rely on as a locale, and the vtable \<open>net_eth_ops\<close> of the TOE build, whose entries
  the linker sends to the glue of \<open>wiztoe_wrap.c\<close>, as its provider.
\<close>

section \<open>The interface\<close>

text \<open>A call that can wait returns \<open>None\<close> when it has not returned within its fuel. Where every
  caller ignores the result, and for the flags, which the glue ignores, nothing is kept. accept()
  is given an address buffer of 16 bytes, recvfrom() one of the size named, or a null pointer. \<open>fcntl\<close> may be a null pointer.\<close>

record 'w net_sock_ops =
  ops_socket :: "int \<Rightarrow> int \<Rightarrow> int \<Rightarrow> 'w \<Rightarrow> int \<times> 'w"
  ops_bind :: "int \<Rightarrow> sockaddr_in \<Rightarrow> 'w \<Rightarrow> int \<times> 'w"
  ops_listen :: "int \<Rightarrow> int \<Rightarrow> 'w \<Rightarrow> int \<times> 'w"
  ops_accept :: "int \<Rightarrow> 'w \<Rightarrow> ((int \<times> sockaddr_in option) \<times> 'w) option"
  ops_connect :: "int \<Rightarrow> sockaddr_in \<Rightarrow> 'w \<Rightarrow> int \<times> 'w"
  ops_recv :: "int \<Rightarrow> nat \<Rightarrow> 'w \<Rightarrow> ((int \<times> bytes) \<times> 'w) option"
  ops_send :: "int \<Rightarrow> bytes \<Rightarrow> 'w \<Rightarrow> (int \<times> 'w) option"
  ops_recvfrom :: "int \<Rightarrow> nat \<Rightarrow> nat option \<Rightarrow> 'w \<Rightarrow>
    ((int \<times> bytes \<times> sockaddr_in option) \<times> 'w) option"
  ops_sendto :: "int \<Rightarrow> bytes \<Rightarrow> sockaddr_in \<Rightarrow> 'w \<Rightarrow> (int \<times> 'w) option"
  ops_setsockopt :: "int \<Rightarrow> sol_level \<Rightarrow> so_name \<Rightarrow> bytes \<Rightarrow> 'w \<Rightarrow> 'w"
  ops_close :: "int \<Rightarrow> 'w \<Rightarrow> 'w option"
  ops_fcntl :: "(int \<Rightarrow> fcntl_cmd \<Rightarrow> u32 \<Rightarrow> 'w \<Rightarrow> 'w) option"

text \<open>
  What a client of the vtable may rely on: \<open>fds\<close> is the set of sockets open in a world. Only
  socket() adds one, and it is new; only close() takes one away, and it is the one named.
\<close>

locale net_sock =
  fixes ops :: "'w net_sock_ops" and inv :: "'w \<Rightarrow> bool" and fds :: "'w \<Rightarrow> int set"
  assumes socket_law: "inv w \<Longrightarrow> ops_socket ops dm ty pr w = (fd, w') \<Longrightarrow>
      inv w' \<and> (if 0 \<le> fd then fd \<notin> fds w \<and> fds w' = insert fd (fds w) else fds w' = fds w)"
    and bind_law: "inv w \<Longrightarrow> ops_bind ops fd a w = (r, w') \<Longrightarrow> inv w' \<and> fds w' = fds w"
    and recvfrom_law: "inv w \<Longrightarrow> ops_recvfrom ops fd n fl w = Some (q, w') \<Longrightarrow> inv w' \<and> fds w' = fds w"
    and sendto_law: "inv w \<Longrightarrow> ops_sendto ops fd b a w = Some (r, w') \<Longrightarrow> inv w' \<and> fds w' = fds w"
    and setsockopt_law: "inv w \<Longrightarrow> inv (ops_setsockopt ops fd l nm b w) \<and>
      fds (ops_setsockopt ops fd l nm b w) = fds w"
    and close_law: "inv w \<Longrightarrow> fd \<in> fds w \<Longrightarrow> ops_close ops fd w = Some w' \<Longrightarrow>
      inv w' \<and> fds w' = fds w - {fd}"
    and fcntl_law: "inv w \<Longrightarrow> ops_fcntl ops = Some f \<Longrightarrow> inv (f fd cmd v w) \<and> fds (f fd cmd v w) = fds w"

section \<open>The TOE provider\<close>

text \<open>\<open>off\<close> is \<open>LWIP_SOCKET_OFFSET\<close>, \<open>nb\<close> the value of \<open>O_NONBLOCK\<close>, \<open>fuel\<close> the turns a waiting
  call may take.\<close>

definition net_eth_ops :: "'c iolib \<Rightarrow> nat \<Rightarrow> nat \<Rightarrow> u32 \<Rightarrow> 'c toe net_sock_ops" where
  "net_eth_ops io fuel off nb = \<lparr>
     ops_socket = (\<lambda>dm ty pr s. let ((r, _), s1) = wrap_lwip_socket (int off) dm ty pr s in (r, s1)),
     ops_bind = (\<lambda>fd a s. let ((r, _), s1) = wrap_lwip_bind io (int off) fd a s in (r, s1)),
     ops_listen = (\<lambda>fd bl s. let ((r, _), s1) = wrap_lwip_listen io (int off) fd bl s in (r, s1)),
     ops_accept = (\<lambda>fd s. map_option (\<lambda>((r, _, a), s1). ((r, a), s1))
        (wrap_lwip_accept io fuel (int off) fd True (Some 16) s)),
     ops_connect = (\<lambda>fd a s. let ((r, _), s1) = wrap_lwip_connect io (int off) fd a s in (r, s1)),
     ops_recv = (\<lambda>fd n s. map_option (\<lambda>((r, _, b), s1). ((r, b), s1))
        (wrap_lwip_recv io fuel (int off) fd n s)),
     ops_send = (\<lambda>fd b s. map_option (\<lambda>((r, _), s1). (r, s1))
        (wrap_lwip_send io fuel (int off) fd b s)),
     ops_recvfrom = (\<lambda>fd n fl s. map_option (\<lambda>((r, _, b, a), s1). ((r, b, a), s1))
        (wrap_lwip_recvfrom io fuel (int off) fd n (fl \<noteq> None) fl s)),
     ops_sendto = (\<lambda>fd b a s. map_option (\<lambda>((r, _), s1). (r, s1))
        (wrap_lwip_sendto io fuel (int off) fd b (Some a) s)),
     ops_setsockopt = (\<lambda>fd l nm b s. snd (wrap_lwip_setsockopt io (int off) fd l nm (Some b) s)),
     ops_close = (\<lambda>fd s. map_option snd (wrap_lwip_close io fuel (int off) fd s)),
     ops_fcntl = Some (\<lambda>fd cmd v s. snd (wrap_lwip_fcntl nb (int off) fd cmd v s))\<rparr>"

definition toe_fds :: "nat \<Rightarrow> 'c toe \<Rightarrow> int set" where
  "toe_fds off s = {sk. live s (sk - int off)}"

text \<open>Which descriptors are live after each call.\<close>

lemma live_upd_role: "keeps_role f \<Longrightarrow> live (upd_desc fd f s) = live s"
  by (rule live_upd_same) (simp add: keeps_role_def)

lemma live_bind: "live (snd (wiztoe_bind io fd p s)) = live s"
  by (simp add: wiztoe_bind_def toe_open_udp_def chip_pairs Let_def split_beta live_upd_role)

lemma live_sendto: "live (snd (wiztoe_sendto io fd b ip p s)) = live s"
  by (simp add: wiztoe_sendto_def chip_pairs Let_def split_beta live_upd_role)

lemma live_setsockopt: "live (snd (wiztoe_setsockopt io fd opt v s)) = live s"
  by (simp add: wiztoe_setsockopt_def Let_def chip_do_def live_upd_role
      split: option.split wiztoe_opt_t.split)

lemma live_set_nonblocking: "live (snd (wiztoe_set_nonblocking fd e s)) = live s"
  by (simp add: wiztoe_set_nonblocking_def live_upd_role)

lemma peer_chip: "\<exists>c. snd (wiztoe_peer io fd s) = s\<lparr>chip := c\<rparr>"
  using toe_chip_id [of s] by (auto simp: wiztoe_peer_def chip_pairs Let_def intro: exI [of _ "chip s"])

lemma socket_live:
  assumes "toe_inv s" and "wiztoe_socket dm ty pr s = (fd, s')"
  shows "if 0 \<le> fd then \<not> live s fd \<and> live s' = (live s)(fd := True) else fd = -1 \<and> live s' = live s"
proof (cases "ty = 1 \<or> ty = 2")
  case True
  from socket_alloc [OF assms(1) this, of dm pr] assms(2)
  show ?thesis by (auto simp: alloc_spec_def find_Some_iff split: option.splits)
next
  case False
  with assms(2) abs_tables_init(1) [OF assms(1)] show ?thesis
    by (auto simp: wiztoe_socket_def Let_def)
qed

lemma setsockopt_wrap_shape:
  "\<exists>fd opt v. snd (wrap_lwip_setsockopt io off sk l nm b s) = snd (wiztoe_setsockopt io fd opt v s)"
proof -
  have same: "\<exists>fd opt v. s = snd (wiztoe_setsockopt io fd opt v s)"
    by (intro exI [of _ 0] exI [of _ WIZTOE_OPT_ERROR] exI [of _ None]) (simp add: wiztoe_setsockopt_def)
  show ?thesis
    using same by (auto simp: wrap_lwip_setsockopt_def set_opt_def Let_def split_beta
        split: option.split sol_level.split)
qed

lemma fcntl_wrap_shape:
  "snd (wrap_lwip_fcntl nb off sk cmd v s) = s \<or>
   (\<exists>fd e. snd (wrap_lwip_fcntl nb off sk cmd v s) = snd (wiztoe_set_nonblocking fd e s))"
  by (auto simp: wrap_lwip_fcntl_def Let_def split_beta split: fcntl_cmd.split)

lemma recvfrom_wrap_same:
  "wrap_lwip_recvfrom io n off sk l fr fl s = Some (q, s') \<Longrightarrow> same_tables s s'"
proof -
  assume a: "wrap_lwip_recvfrom io n off sk l fr fl s = Some (q, s')"
  show ?thesis
  proof (cases "wiztoe_is_udp s (sk - off)")
    case True
    with a show ?thesis
      by (auto simp: wrap_lwip_recvfrom_def Let_def dest!: recvfrom_same
          split: option.splits prod.splits if_splits)
  next
    case False
    with a obtain p s1 where "wiztoe_recv io n (sk - off) l s = Some (p, s1)"
      and "s' = snd (wiztoe_peer io (sk - off) s1)"
      by (auto simp: wrap_lwip_recvfrom_def Let_def split: option.splits prod.splits if_splits)
    with recv_same [of io n "sk - off" l s p s1] peer_chip [of io "sk - off" s1] show ?thesis
      by auto
  qed
qed

text \<open>The laws, one per entry.\<close>

lemma toe_fds_cong: "live s' = live s \<Longrightarrow> toe_fds off s' = toe_fds off s"
  by (simp add: toe_fds_def)

lemma net_socket_law:
  assumes "toe_inv s" and "ops_socket (net_eth_ops io fuel off nb) dm ty pr s = (fd, s')"
  shows "toe_inv s' \<and> (if 0 \<le> fd then fd \<notin> toe_fds off s \<and> toe_fds off s' = insert fd (toe_fds off s)
     else toe_fds off s' = toe_fds off s)"
proof -
  obtain f t where ws: "wiztoe_socket dm ty pr s = (f, t)" by (cases "wiztoe_socket dm ty pr s")
  have s': "s' = t" and fd: "fd = (if f < 0 then -1 else f + int off)"
    using assms(2) ws by (auto simp: net_eth_ops_def wrap_lwip_socket_def split: if_splits)
  have inv: "toe_inv t" using toe_call_inv [OF call_socket assms(1), of dm ty pr] ws by simp
  note L = socket_live [OF assms(1) ws]
  show ?thesis
  proof (cases "0 \<le> f")
    case True
    with L have "\<not> live s f" "live t = (live s)(f := True)" by simp_all
    with True inv s' fd show ?thesis by (auto simp: toe_fds_def)
  next
    case False
    with L inv s' fd show ?thesis by (simp add: toe_fds_def)
  qed
qed

lemma net_bind_law:
  "toe_inv s \<Longrightarrow> ops_bind (net_eth_ops io fuel off nb) fd a s = (r, s') \<Longrightarrow>
     toe_inv s' \<and> toe_fds off s' = toe_fds off s"
  using toe_call_inv [OF call_bind, of s io "fd - int off" "lwip_htons (sin_port a)"]
    toe_fds_cong [OF live_bind, of off io "fd - int off" "lwip_htons (sin_port a)" s]
  by (auto simp: net_eth_ops_def wrap_lwip_bind_def split_beta)

lemma net_recvfrom_law:
  assumes "toe_inv s" and "ops_recvfrom (net_eth_ops io fuel off nb) fd n fl s = Some (q, s')"
  shows "toe_inv s' \<and> toe_fds off s' = toe_fds off s"
proof -
  from assms(2) obtain p where "wrap_lwip_recvfrom io fuel (int off) fd n (fl \<noteq> None) fl s = Some (p, s')"
    by (auto simp: net_eth_ops_def)
  then have "same_tables s s'" by (rule recvfrom_wrap_same)
  with assms(1) show ?thesis by (simp add: same_tablesD toe_fds_def live_same)
qed

lemma net_sendto_law:
  assumes "toe_inv s" and "ops_sendto (net_eth_ops io fuel off nb) fd b a s = Some (r, s')"
  shows "toe_inv s' \<and> toe_fds off s' = toe_fds off s"
proof (cases "wiztoe_is_udp s (fd - int off)")
  case True
  let ?x = "wiztoe_sendto io (fd - int off) b (fst (toe_ip_from_sockaddr a)) (snd (toe_ip_from_sockaddr a)) s"
  have "s' = snd ?x"
    using assms(2) True by (auto simp: net_eth_ops_def wrap_lwip_sendto_def Let_def split_beta)
  then show ?thesis
    using toe_call_inv [OF call_sendto assms(1)] by (simp add: toe_fds_def live_sendto)
next
  case False
  with assms(2) obtain n where "wiztoe_send io fuel (fd - int off) b s = Some (n, s')"
    by (auto simp: net_eth_ops_def wrap_lwip_sendto_def Let_def split_beta split: option.splits)
  then have "same_tables s s'" by (rule send_same)
  with assms(1) show ?thesis by (simp add: same_tablesD toe_fds_def live_same)
qed

lemma net_setsockopt_law:
  assumes "toe_inv s"
  shows "toe_inv (ops_setsockopt (net_eth_ops io fuel off nb) fd l nm b s) \<and>
    toe_fds off (ops_setsockopt (net_eth_ops io fuel off nb) fd l nm b s) = toe_fds off s"
proof -
  from setsockopt_wrap_shape [of io "int off" fd l nm "Some b" s] obtain d opt v
    where "ops_setsockopt (net_eth_ops io fuel off nb) fd l nm b s = snd (wiztoe_setsockopt io d opt v s)"
    by (auto simp: net_eth_ops_def)
  then show ?thesis
    using toe_call_inv [OF call_setsockopt assms, of io d opt v]
      toe_fds_cong [OF live_setsockopt, of off io d opt v s] by simp
qed

lemma net_fcntl_law:
  assumes "toe_inv s" and "ops_fcntl (net_eth_ops io fuel off nb) = Some f"
  shows "toe_inv (f fd cmd v s) \<and> toe_fds off (f fd cmd v s) = toe_fds off s"
proof -
  have f: "f fd cmd v s = snd (wrap_lwip_fcntl nb (int off) fd cmd v s)"
    using assms(2) by (auto simp: net_eth_ops_def)
  show ?thesis
    using fcntl_wrap_shape [of nb "int off" fd cmd v s] assms(1) f
      toe_call_inv [OF call_set_nonblocking assms(1)] by (auto simp: toe_fds_def live_set_nonblocking)
qed

lemma net_close_law:
  assumes "toe_inv s" and "fd \<in> toe_fds off s"
    and "ops_close (net_eth_ops io fuel off nb) fd s = Some s'"
  shows "toe_inv s' \<and> toe_fds off s' = toe_fds off s - {fd}"
proof -
  from assms(3) obtain r where c: "wiztoe_close io fuel (fd - int off) s = Some (r, s')"
    by (auto simp: net_eth_ops_def wrap_lwip_close_def split: option.splits prod.splits)
  have v: "toe_fd_valid s (fd - int off)" using assms(2) by (simp add: toe_fds_def live_def)
  from close_effect [OF assms(1) v c] have "live s' = (live s)(fd - int off := False)" by blast
  moreover have "toe_inv s'" by (rule toe_call_inv [OF call_close [OF c] assms(1)])
  ultimately show ?thesis by (auto simp: toe_fds_def)
qed

interpretation toe_sock: net_sock "net_eth_ops io fuel off nb" toe_inv "toe_fds off"
  for io fuel off nb
  by unfold_locales
    (fact net_socket_law net_bind_law net_recvfrom_law net_sendto_law net_setsockopt_law
      net_close_law net_fcntl_law | erule (1) net_bind_law net_recvfrom_law net_sendto_law
      net_fcntl_law net_setsockopt_law | erule (2) net_close_law)+

end
