(* ===== verification/Esp.thy ===== *)
theory Esp
  imports Prelude
begin

text \<open>The ESP-IDF error codes the sources return. Codes that come out of a driver of ESP-IDF
  itself are \<open>ESP_ERR_OTHER\<close>.\<close>

datatype esp_err_t = ESP_OK | ESP_FAIL | ESP_ERR_INVALID_ARG | ESP_ERR_INVALID_STATE | ESP_ERR_NO_MEM
  | ESP_ERR_NOT_FOUND | ESP_ERR_TIMEOUT | ESP_ERR_INVALID_VERSION | ESP_ERR_NOT_SUPPORTED
  | ESP_ERR_INVALID_RESPONSE | ESP_ERR_INVALID_SIZE | ESP_ERR_OTHER int

end
