(* ===== verification/Dhcp.thy ===== *)
theory Dhcp
  imports Net_Ops Esp
begin

text \<open>
  The DHCP client of \<open>wsm_dhcp.c\<close>: the RFC 2131 messages it builds and parses, the client state,
  one poll of the engine, and the public calls. The world \<open>'w\<close> is whatever the socket vtable, the
  timer and the random source act on. Logging is left out.
\<close>

section \<open>Constants and state\<close>

definition DHCP_CLIENT_PORT :: u16 where "DHCP_CLIENT_PORT = 68"
definition DHCP_SERVER_PORT :: u16 where "DHCP_SERVER_PORT = 67"
definition DHCPDISCOVER :: u8 where "DHCPDISCOVER = 1"
definition DHCPOFFER :: u8 where "DHCPOFFER = 2"
definition DHCPREQUEST :: u8 where "DHCPREQUEST = 3"
definition DHCPACK :: u8 where "DHCPACK = 5"
definition DHCPNAK :: u8 where "DHCPNAK = 6"
definition OPT_PAD :: u8 where "OPT_PAD = 0"
definition OPT_SUBNET :: u8 where "OPT_SUBNET = 1"
definition OPT_ROUTER :: u8 where "OPT_ROUTER = 3"
definition OPT_DNS :: u8 where "OPT_DNS = 6"
definition OPT_REQUESTED_IP :: u8 where "OPT_REQUESTED_IP = 50"
definition OPT_LEASE_TIME :: u8 where "OPT_LEASE_TIME = 51"
definition OPT_MSG_TYPE :: u8 where "OPT_MSG_TYPE = 53"
definition OPT_SERVER_ID :: u8 where "OPT_SERVER_ID = 54"
definition OPT_PARAM_REQ :: u8 where "OPT_PARAM_REQ = 55"
definition OPT_CLIENT_ID :: u8 where "OPT_CLIENT_ID = 61"
definition OPT_END :: u8 where "OPT_END = 255"
definition DHCP_FIXED_LEN :: nat where "DHCP_FIXED_LEN = 240"
definition DHCP_MIN_LEN :: nat where "DHCP_MIN_LEN = 300"
definition WSM_DHCP_BUF_SIZE :: nat where "WSM_DHCP_BUF_SIZE = 2048"
definition WSM_DHCP_DEFAULT_RENEW_S :: u32 where "WSM_DHCP_DEFAULT_RENEW_S = 1800"

lemmas dhcp_msgs [eval_defs] = DHCPDISCOVER_def DHCPOFFER_def DHCPREQUEST_def DHCPACK_def DHCPNAK_def
lemmas dhcp_opts [eval_defs] = OPT_PAD_def OPT_SUBNET_def OPT_ROUTER_def OPT_DNS_def OPT_REQUESTED_IP_def
  OPT_LEASE_TIME_def OPT_MSG_TYPE_def OPT_SERVER_ID_def OPT_PARAM_REQ_def OPT_CLIENT_ID_def OPT_END_def

datatype wsm_dhcp_status_t = WSM_DHCP_PENDING | WSM_DHCP_LEASED | WSM_DHCP_FAILED | WSM_DHCP_CONFLICT

datatype dhcp_state_t = ST_SELECTING | ST_REQUESTING | ST_BOUND

record wsm_dhcp_netinfo_t =
  n_ip :: bytes
  n_sn :: bytes
  n_gw :: bytes
  n_dns :: bytes
  n_lease_s :: u32

definition netinfo_zero :: wsm_dhcp_netinfo_t where
  "netinfo_zero = \<lparr>n_ip = [0, 0, 0, 0], n_sn = [0, 0, 0, 0], n_gw = [0, 0, 0, 0],
     n_dns = [0, 0, 0, 0], n_lease_s = 0\<rparr>"

text \<open>\<open>struct wsm_dhcp_client\<close> without its operations (the record below) and without the scratch
  buffer \<open>buf\<close>, whose contents never outlive a call.\<close>

record wsm_dhcp_client =
  c_fd :: int
  c_state :: dhcp_state_t
  c_xid :: u32
  c_mac :: bytes
  c_ifname :: bytes
  c_server_id :: bytes
  c_offered :: bytes
  c_tries :: nat
  c_next_tx_us :: int
  c_renew_at_us :: int
  c_lease :: wsm_dhcp_netinfo_t
  c_bound :: bool
  c_recv_timeout_ms :: u32
  c_step_packets :: u8
  c_xmit_tries :: u8
  c_xmit_interval_ms :: u32

text \<open>\<open>wsm_dhcp_ops_t\<close>, the timer, the random source, and two constants of the platform.\<close>

record 'w dhcp_env =
  e_sock :: "'w net_sock_ops"
  e_prepare :: "'w \<Rightarrow> (bytes \<times> bytes) \<times> 'w"
  e_apply_lease :: "wsm_dhcp_netinfo_t \<Rightarrow> 'w \<Rightarrow> 'w"
  e_timer :: "'w \<Rightarrow> int \<times> 'w"
  e_random :: "'w \<Rightarrow> u32 \<times> 'w"
  e_O_NONBLOCK :: u32
  e_IFNAMSIZ :: nat

section \<open>The chip as the interface\<close>

text \<open>The operations of the TOE build: identity and lease live in the chip. The library's
  \<open>wizchip_getnetinfo\<close> and \<open>wizchip_setnetinfo\<close> are the two network-information calls.\<close>

definition eth_prepare :: "'c iolib \<Rightarrow> 'c toe \<Rightarrow> (bytes \<times> bytes) \<times> 'c toe" where
  "eth_prepare io s =
     (let (ni, s1) = on_chip (io_CN_GET_NETINFO io) s;
          ni1 = ni\<lparr>ni_ip := [0, 0, 0, 0], ni_sn := [0, 0, 0, 0], ni_gw := [0, 0, 0, 0],
                   ni_dhcp := NETINFO_DHCP\<rparr>
      in ((take 6 (ni_mac ni), []), chip_do (io_CN_SET_NETINFO io ni1) s1))"

definition eth_apply_lease :: "'c iolib \<Rightarrow> wsm_dhcp_netinfo_t \<Rightarrow> 'c toe \<Rightarrow> 'c toe" where
  "eth_apply_lease io info s =
     (let (ni, s1) = on_chip (io_CN_GET_NETINFO io) s
      in chip_do (io_CN_SET_NETINFO io
           (ni\<lparr>ni_ip := n_ip info, ni_sn := n_sn info, ni_gw := n_gw info, ni_dns := n_dns info,
               ni_dhcp := NETINFO_DHCP\<rparr>)) s1)"

definition wsm_dhcp_eth_env ::
  "'c iolib \<Rightarrow> ('c \<Rightarrow> int \<times> 'c) \<Rightarrow> ('c \<Rightarrow> u32 \<times> 'c) \<Rightarrow> nat \<Rightarrow> nat \<Rightarrow> u32 \<Rightarrow> nat \<Rightarrow> 'c toe dhcp_env" where
  "wsm_dhcp_eth_env io timer rnd fuel off nb ifn =
     \<lparr>e_sock = net_eth_ops io fuel off nb, e_prepare = eth_prepare io,
      e_apply_lease = eth_apply_lease io, e_timer = on_chip timer, e_random = on_chip rnd,
      e_O_NONBLOCK = nb, e_IFNAMSIZ = ifn\<rparr>"

section \<open>Sockets\<close>

text \<open>The name is null-terminated and padded in \<open>struct ifreq\<close>.\<close>

definition sock_bind_iface :: "'w dhcp_env \<Rightarrow> int \<Rightarrow> bytes \<Rightarrow> 'w \<Rightarrow> 'w" where
  "sock_bind_iface e fd ifname w =
     (if ifname = [] then w
      else let n = min (length ifname) (e_IFNAMSIZ e - 1);
               ifr = take n ifname @ replicate (e_IFNAMSIZ e - n) 0
           in ops_setsockopt (e_sock e) fd SOL_SOCKET SO_BINDTODEVICE ifr w)"

definition sock_set_recv_mode :: "'w net_sock_ops \<Rightarrow> u32 \<Rightarrow> int \<Rightarrow> u32 \<Rightarrow> 'w \<Rightarrow> 'w" where
  "sock_set_recv_mode sk nb fd ms w =
     (if ms = 0 then (case ops_fcntl sk of None \<Rightarrow> w | Some f \<Rightarrow> f fd F_SETFL nb w)
      else ops_setsockopt sk fd SOL_SOCKET SO_RCVTIMEO (timeval_bytes ms) w)"

definition dhcp_enter_selecting :: "'w dhcp_env \<Rightarrow> wsm_dhcp_client \<Rightarrow> 'w \<Rightarrow> wsm_dhcp_client \<times> 'w" where
  "dhcp_enter_selecting e c w =
     (let (x, w1) = e_random e w
      in (c\<lparr>c_state := ST_SELECTING, c_tries := 0, c_next_tx_us := 0, c_xid := x,
            c_server_id := [0, 0, 0, 0], c_offered := [0, 0, 0, 0]\<rparr>, w1))"

definition dhcp_open :: "'w dhcp_env \<Rightarrow> wsm_dhcp_client \<Rightarrow> 'w \<Rightarrow> ((bool \<times> wsm_dhcp_client) \<times> 'w) option" where
  "dhcp_open e c w =
     (let sk = e_sock e;
          (fd, w1) = ops_socket sk 2 2 17 w
      in if fd < 0 then Some ((False, c), w1)
         else let w2 = ops_setsockopt sk fd SOL_SOCKET SO_BROADCAST (le32_bytes 1) w1;
                  w3 = ops_setsockopt sk fd SOL_SOCKET SO_REUSEADDR (le32_bytes 1) w2;
                  w4 = sock_set_recv_mode sk (e_O_NONBLOCK e) fd (c_recv_timeout_ms c) w3;
                  w5 = sock_bind_iface e fd (c_ifname c) w4;
                  me = \<lparr>sin_family_inet = True, sin_port = lwip_htons DHCP_CLIENT_PORT, sin_addr = lwip_htonl 0\<rparr>;
                  (r, w6) = ops_bind sk fd me w5
              in if r < 0 then (case ops_close sk fd w6 of None \<Rightarrow> None | Some w7 \<Rightarrow> Some ((False, c), w7))
                 else Some ((True, c\<lparr>c_fd := fd\<rparr>), w6))"

section \<open>Messages\<close>

definition dhcp_fixed :: "wsm_dhcp_client \<Rightarrow> bytes" where
  "dhcp_fixed c =
     [1, 1, 6, 0,
      ucast (drop_bit 24 (c_xid c)), ucast (drop_bit 16 (c_xid c)), ucast (drop_bit 8 (c_xid c)), ucast (c_xid c),
      0, 0, 0x80, 0] @ replicate 16 0 @ take 6 (c_mac c) @ replicate (202) 0 @ [0x63, 0x82, 0x53, 0x63]"

definition dhcp_build :: "wsm_dhcp_client \<Rightarrow> u8 \<Rightarrow> bytes" where
  "dhcp_build c ty =
     (let p = dhcp_fixed c @ [OPT_MSG_TYPE, 1, ty] @ [OPT_CLIENT_ID, 7, 1] @ take 6 (c_mac c) @
            (if ty = DHCPREQUEST
             then [OPT_REQUESTED_IP, 4] @ take 4 (c_offered c) @ [OPT_SERVER_ID, 4] @ take 4 (c_server_id c)
             else []) @
            [OPT_PARAM_REQ, 4, OPT_SUBNET, OPT_ROUTER, OPT_DNS, OPT_LEASE_TIME, OPT_END]
      in p @ replicate (DHCP_MIN_LEN - length p) OPT_PAD)"

definition dhcp_send :: "'w dhcp_env \<Rightarrow> wsm_dhcp_client \<Rightarrow> u8 \<Rightarrow> 'w \<Rightarrow> 'w option" where
  "dhcp_send e c ty w =
     map_option snd (ops_sendto (e_sock e) (c_fd c) (dhcp_build c ty)
       \<lparr>sin_family_inet = True, sin_port = lwip_htons DHCP_SERVER_PORT, sin_addr = lwip_htonl (-1)\<rparr> w)"

text \<open>One option: its code, where its value starts and how long it is. The reads can fail.\<close>

definition dhcp_option ::
  "bytes \<Rightarrow> u8 \<Rightarrow> nat \<Rightarrow> nat \<Rightarrow> u8 \<times> wsm_dhcp_netinfo_t \<times> bytes \<Rightarrow>
     (u8 \<times> wsm_dhcp_netinfo_t \<times> bytes) option" where
  "dhcp_option p code i l acc =
     (case acc of (ty, out, sid) \<Rightarrow>
      if code = OPT_MSG_TYPE then
        (if 1 \<le> l then do { t \<leftarrow> rd p i; Some (t, out, sid) } else Some acc)
      else if code = OPT_SUBNET then
        (if 4 \<le> l then do { b \<leftarrow> rd_n p i 4; Some (ty, out\<lparr>n_sn := b\<rparr>, sid) } else Some acc)
      else if code = OPT_ROUTER then
        (if 4 \<le> l then do { b \<leftarrow> rd_n p i 4; Some (ty, out\<lparr>n_gw := b\<rparr>, sid) } else Some acc)
      else if code = OPT_DNS then
        (if 4 \<le> l then do { b \<leftarrow> rd_n p i 4; Some (ty, out\<lparr>n_dns := b\<rparr>, sid) } else Some acc)
      else if code = OPT_LEASE_TIME then
        (if 4 \<le> l then do { b \<leftarrow> rd_n p i 4;
            Some (ty, out\<lparr>n_lease_s := be32_of (b ! 0) (b ! 1) (b ! 2) (b ! 3)\<rparr>, sid) } else Some acc)
      else if code = OPT_SERVER_ID then
        (if 4 \<le> l then do { b \<leftarrow> rd_n p i 4; Some (ty, out, b) } else Some acc)
      else Some acc)"

function dhcp_options ::
  "bytes \<Rightarrow> nat \<Rightarrow> u8 \<times> wsm_dhcp_netinfo_t \<times> bytes \<Rightarrow> (u8 \<times> wsm_dhcp_netinfo_t \<times> bytes) option" where
  "dhcp_options p i acc =
     (if i < length p then
        (case rd p i of None \<Rightarrow> None
         | Some code \<Rightarrow>
           if code = OPT_PAD then dhcp_options p (i + 1) acc
           else if code = OPT_END \<or> length p \<le> i + 1 then Some acc
           else (case rd p (i + 1) of None \<Rightarrow> None
                 | Some l \<Rightarrow>
                   if length p < i + 2 + unat l then Some acc
                   else (case dhcp_option p code (i + 2) (unat l) acc of None \<Rightarrow> None
                         | Some acc1 \<Rightarrow> dhcp_options p (i + 2 + unat l) acc1)))
      else Some acc)"
  by pat_completeness auto
termination by (relation "measure (\<lambda>(p, i, _). length p - i)") auto

declare dhcp_options.simps [simp del]

text \<open>The result is the message type (0 for a datagram that is no reply to us), what was written to
  \<open>*out\<close> if it was touched, and the client's new \<open>server_id\<close>.\<close>

definition dhcp_parse ::
  "wsm_dhcp_client \<Rightarrow> bytes \<Rightarrow> (u8 \<times> wsm_dhcp_netinfo_t option \<times> bytes) option" where
  "dhcp_parse c p =
     (let ignored = Some (0, None, c_server_id c) in
      if length p < DHCP_FIXED_LEN then ignored
      else do {
        op \<leftarrow> rd p 0;
        if op \<noteq> 2 then ignored
        else do {
          x \<leftarrow> rd_n p 4 4;
          if be32_of (x ! 0) (x ! 1) (x ! 2) (x ! 3) \<noteq> c_xid c then ignored
          else do {
            ch \<leftarrow> rd_n p 28 6;
            if ch \<noteq> take 6 (c_mac c) then ignored
            else do {
              cookie \<leftarrow> rd_n p 236 4;
              if cookie \<noteq> [0x63, 0x82, 0x53, 0x63] then ignored
              else do {
                yi \<leftarrow> rd_n p 16 4;
                (ty, out, sid) \<leftarrow> dhcp_options p DHCP_FIXED_LEN (0, netinfo_zero\<lparr>n_ip := yi\<rparr>, c_server_id c);
                Some (ty, Some out, sid)
              }
            }
          }
        }
      })"

section \<open>One poll\<close>

definition dhcp_t1_s :: "wsm_dhcp_netinfo_t \<Rightarrow> u32" where
  "dhcp_t1_s l = (if n_lease_s l \<noteq> 0 then n_lease_s l div 2 else WSM_DHCP_DEFAULT_RENEW_S)"

text \<open>What a turn does with a parsed message: the type, the addresses, and the client after
  \<open>dhcp_parse\<close>. \<open>None\<close> as first component: the turn is over without a result.\<close>

definition dhcp_dispatch ::
  "'w dhcp_env \<Rightarrow> u8 \<Rightarrow> wsm_dhcp_netinfo_t \<Rightarrow> wsm_dhcp_client \<Rightarrow> 'w \<Rightarrow>
     (wsm_dhcp_status_t \<times> wsm_dhcp_netinfo_t) option \<times> wsm_dhcp_client \<times> 'w" where
  "dhcp_dispatch e ty got c w =
     (if ty = 0 then (None, c, w)
      else if ty = DHCPNAK then (let (c1, w1) = dhcp_enter_selecting e c w in (None, c1, w1))
      else if c_state c = ST_SELECTING \<and> ty = DHCPOFFER then
        (None, c\<lparr>c_offered := n_ip got, c_state := ST_REQUESTING, c_tries := 0, c_next_tx_us := 0\<rparr>, w)
      else if c_state c = ST_REQUESTING \<and> ty = DHCPACK then
        (let w1 = e_apply_lease e got w;
             (now, w2) = e_timer e w1
         in (Some (WSM_DHCP_LEASED, got),
             c\<lparr>c_lease := got, c_state := ST_BOUND, c_bound := True,
               c_renew_at_us := now + uint (dhcp_t1_s got) * 1000000\<rparr>, w2))
      else (None, c, w))"

text \<open>The transmission at the start of a turn: \<open>True\<close> when the retry budget is used up.\<close>

definition dhcp_transmit ::
  "'w dhcp_env \<Rightarrow> int \<Rightarrow> wsm_dhcp_client \<Rightarrow> 'w \<Rightarrow> (bool \<times> wsm_dhcp_client \<times> 'w) option" where
  "dhcp_transmit e now c w =
     (if now < c_next_tx_us c then Some (False, c, w)
      else if unat (c_xmit_tries c) \<le> c_tries c then
        (let (c1, w1) = dhcp_enter_selecting e c w in Some (True, c1, w1))
      else let c1 = c\<lparr>c_tries := c_tries c + 1\<rparr> in
        case dhcp_send e c1 (if c_state c1 = ST_SELECTING then DHCPDISCOVER else DHCPREQUEST) w of
          None \<Rightarrow> None
        | Some w1 \<Rightarrow>
            Some (False, c1\<lparr>c_next_tx_us := now + uint (c_xmit_interval_ms c1) * 1000 * int (c_tries c1)\<rparr>, w1))"

fun dhcp_turns ::
  "'w dhcp_env \<Rightarrow> nat \<Rightarrow> wsm_dhcp_client \<Rightarrow> 'w \<Rightarrow>
     ((wsm_dhcp_status_t \<times> wsm_dhcp_netinfo_t option) \<times> wsm_dhcp_client \<times> 'w) option" where
  "dhcp_turns e 0 c w = Some ((WSM_DHCP_PENDING, None), c, w)"
| "dhcp_turns e (Suc k) c w =
     (let (now, w1) = e_timer e w in
      if c_state c = ST_BOUND \<and> now < c_renew_at_us c
      then Some ((WSM_DHCP_LEASED, Some (c_lease c)), c, w1)
      else let (c2, w2) = (if c_state c = ST_BOUND then dhcp_enter_selecting e c w1 else (c, w1)) in
        case dhcp_transmit e now c2 w2 of None \<Rightarrow> None
        | Some (failed, c3, w3) \<Rightarrow>
          if failed then Some ((WSM_DHCP_FAILED, None), c3, w3)
          else case ops_recvfrom (e_sock e) (c_fd c3) WSM_DHCP_BUF_SIZE None w3 of None \<Rightarrow> None
               | Some ((n, buf, _), w4) \<Rightarrow>
                 if n \<le> 0 then Some ((WSM_DHCP_PENDING, None), c3, w4)
                 else case dhcp_parse c3 (take (nat n) buf) of None \<Rightarrow> None
                      | Some (ty, got, sid) \<Rightarrow>
                        let (res, c5, w5) = dhcp_dispatch e ty (case got of Some g \<Rightarrow> g | None \<Rightarrow> netinfo_zero)
                                              (c3\<lparr>c_server_id := sid\<rparr>) w4
                        in case res of
                             Some (st, info) \<Rightarrow> Some ((st, Some info), c5, w5)
                           | None \<Rightarrow> dhcp_turns e k c5 w5)"

definition dhcp_step ::
  "'w dhcp_env \<Rightarrow> wsm_dhcp_client \<Rightarrow> 'w \<Rightarrow>
     ((wsm_dhcp_status_t \<times> wsm_dhcp_netinfo_t option) \<times> wsm_dhcp_client \<times> 'w) option" where
  "dhcp_step e c w = dhcp_turns e (unat (c_step_packets c)) c w"

section \<open>Public calls\<close>

text \<open>A null client pointer is \<open>None\<close>. \<open>wsm_dhcp_client_create()\<close> is given whether \<open>calloc()\<close>
  succeeds; the checks of the operation pointers are on a record that always has them, so
  \<open>ops_ok\<close> says whether they are all set.\<close>

record wsm_dhcp_config_t =
  cfg_recv_timeout_ms :: u32
  cfg_step_packets :: u8
  cfg_xmit_tries :: u8
  cfg_xmit_interval_ms :: u32

definition wsm_dhcp_client_create ::
  "bool \<Rightarrow> bool \<Rightarrow> wsm_dhcp_config_t option \<Rightarrow> esp_err_t \<times> wsm_dhcp_client option" where
  "wsm_dhcp_client_create ops_ok mem_ok cfg =
     (if \<not> ops_ok then (ESP_ERR_INVALID_ARG, None)
      else if \<not> mem_ok then (ESP_ERR_NO_MEM, None)
      else (ESP_OK, Some
        \<lparr>c_fd = -1, c_state = ST_SELECTING, c_xid = 0, c_mac = replicate 6 0, c_ifname = [],
         c_server_id = [0, 0, 0, 0], c_offered = [0, 0, 0, 0], c_tries = 0, c_next_tx_us = 0,
         c_renew_at_us = 0, c_lease = netinfo_zero, c_bound = False,
         c_recv_timeout_ms = (case cfg of Some g \<Rightarrow> cfg_recv_timeout_ms g | None \<Rightarrow> 0),
         c_step_packets = (case cfg of Some g \<Rightarrow> if cfg_step_packets g \<noteq> 0 then cfg_step_packets g else 4 | None \<Rightarrow> 4),
         c_xmit_tries = (case cfg of Some g \<Rightarrow> if cfg_xmit_tries g \<noteq> 0 then cfg_xmit_tries g else 4 | None \<Rightarrow> 4),
         c_xmit_interval_ms =
           (case cfg of Some g \<Rightarrow> if cfg_xmit_interval_ms g \<noteq> 0 then cfg_xmit_interval_ms g else 2000 | None \<Rightarrow> 2000)\<rparr>))"

definition wsm_dhcp_start ::
  "'w dhcp_env \<Rightarrow> wsm_dhcp_client \<Rightarrow> 'w \<Rightarrow> ((esp_err_t \<times> wsm_dhcp_client) \<times> 'w) option" where
  "wsm_dhcp_start e c w =
     (if 0 \<le> c_fd c then Some ((ESP_OK, c), w)
      else let ((mac, ifn), w1) = e_prepare e w;
               (c1, w2) = dhcp_enter_selecting e (c\<lparr>c_mac := mac, c_ifname := ifn\<rparr>) w1;
               c2 = c1\<lparr>c_bound := False\<rparr>
           in case dhcp_open e c2 w2 of None \<Rightarrow> None
              | Some ((ok, c3), w3) \<Rightarrow> Some ((if ok then ESP_OK else ESP_FAIL, c3), w3))"

definition wsm_dhcp_poll ::
  "'w dhcp_env \<Rightarrow> wsm_dhcp_client \<Rightarrow> 'w \<Rightarrow>
     ((wsm_dhcp_status_t \<times> wsm_dhcp_netinfo_t option) \<times> wsm_dhcp_client \<times> 'w) option" where
  "wsm_dhcp_poll e c w =
     (if c_fd c < 0 then Some ((WSM_DHCP_PENDING, None), c, w) else dhcp_step e c w)"

definition wsm_dhcp_stop :: "'w dhcp_env \<Rightarrow> wsm_dhcp_client \<Rightarrow> 'w \<Rightarrow> (wsm_dhcp_client \<times> 'w) option" where
  "wsm_dhcp_stop e c w =
     (if c_fd c < 0 then Some (c, w)
      else case ops_close (e_sock e) (c_fd c) w of None \<Rightarrow> None
           | Some w1 \<Rightarrow> Some (c\<lparr>c_fd := -1, c_state := ST_SELECTING, c_bound := False,
                                c_lease := netinfo_zero\<rparr>, w1))"

definition wsm_dhcp_client_destroy :: "'w dhcp_env \<Rightarrow> wsm_dhcp_client option \<Rightarrow> 'w \<Rightarrow> 'w option" where
  "wsm_dhcp_client_destroy e c w =
     (case c of None \<Rightarrow> Some w | Some x \<Rightarrow> map_option snd (wsm_dhcp_stop e x w))"

definition wsm_dhcp_is_bound :: "wsm_dhcp_client option \<Rightarrow> bool" where
  "wsm_dhcp_is_bound c = (case c of None \<Rightarrow> False | Some x \<Rightarrow> c_bound x)"

definition wsm_dhcp_get_netinfo ::
  "wsm_dhcp_client option \<Rightarrow> bool \<Rightarrow> esp_err_t \<times> wsm_dhcp_netinfo_t option" where
  "wsm_dhcp_get_netinfo c out_null =
     (case c of None \<Rightarrow> (ESP_ERR_INVALID_ARG, None)
      | Some x \<Rightarrow> if out_null then (ESP_ERR_INVALID_ARG, None)
                  else if \<not> c_bound x then (ESP_ERR_INVALID_STATE, None)
                  else (ESP_OK, Some (c_lease x)))"

end
