(* ===== verification/Dns.thy ===== *)
theory Dns
  imports Dhcp
begin

text \<open>
  The DNS resolver of \<open>wsm_dhcp.c\<close>: encoding a name, skipping a name, finding the A record in a
  response, and the one-shot query. Reads of the response can fail in the model, as in the DHCP
  parser: the outer \<open>None\<close> is a read outside the datagram, the inner one is the C code's \<open>-1\<close> or
  \<open>false\<close>.
\<close>

definition DNS_SERVER_PORT :: u16 where "DNS_SERVER_PORT = 53"
definition DNS_TYPE_A :: u16 where "DNS_TYPE_A = 1"
definition DNS_CLASS_IN :: u16 where "DNS_CLASS_IN = 1"
definition DNS_HEADER_LEN :: nat where "DNS_HEADER_LEN = 12"
definition WSM_DNS_TIMEOUT_MS :: u32 where "WSM_DNS_TIMEOUT_MS = 3000"

lemmas dns_consts [eval_defs] = DNS_SERVER_PORT_def DNS_TYPE_A_def DNS_CLASS_IN_def DNS_HEADER_LEN_def

text \<open>The loop over the labels: \<open>n\<close> bytes are written, \<open>label\<close> is the rest of the name (46 is the
  dot).\<close>

function dns_labels :: "nat \<Rightarrow> nat \<Rightarrow> bytes \<Rightarrow> bytes option" where
  "dns_labels n cap label =
     (let lab = takeWhile (\<lambda>x. x \<noteq> 46) label; l = length lab in
      if l = 0 \<or> 63 < l \<or> cap < n + 1 + l + 1 then None
      else if l = length label then Some (of_nat l # lab @ [0])
      else map_option (\<lambda>b. of_nat l # lab @ b) (dns_labels (n + 1 + l) cap (drop (l + 1) label)))"
  by pat_completeness auto
termination
proof (relation "measure (\<lambda>(_, _, label). length label)", goal_cases)
  case 1
  then show ?case by simp
next
  case (2 n cap label lab l)
  have "length (takeWhile (\<lambda>x. x \<noteq> 46) label) \<le> length label" by (rule length_takeWhile_le)
  with 2 have "0 < length label" by (cases label) auto
  with 2 show ?case by simp
qed

declare dns_labels.simps [simp del]

definition dns_encode_name :: "nat \<Rightarrow> bytes \<Rightarrow> bytes option" where
  "dns_encode_name cap domain = dns_labels 0 cap domain"

function dns_skip_name :: "bytes \<Rightarrow> nat \<Rightarrow> nat option option" where
  "dns_skip_name p off =
     (if off < length p then
        (case rd p off of None \<Rightarrow> None
         | Some l \<Rightarrow>
           if l = 0 then Some (Some (off + 1))
           else if l AND 0xC0 = 0xC0 then Some (if off + 2 \<le> length p then Some (off + 2) else None)
           else dns_skip_name p (off + 1 + unat l))
      else Some None)"
  by pat_completeness auto
termination by (relation "measure (\<lambda>(p, off). length p - off)") auto

declare dns_skip_name.simps [simp del]

fun dns_questions :: "bytes \<Rightarrow> nat \<Rightarrow> nat \<Rightarrow> nat option option" where
  "dns_questions p 0 off = Some (Some off)"
| "dns_questions p (Suc q) off =
     (case dns_skip_name p off of None \<Rightarrow> None
      | Some None \<Rightarrow> Some None
      | Some (Some o1) \<Rightarrow> if length p < o1 + 4 then Some None else dns_questions p q (o1 + 4))"

fun dns_answers :: "bytes \<Rightarrow> nat \<Rightarrow> nat \<Rightarrow> bytes option option" where
  "dns_answers p 0 off = Some None"
| "dns_answers p (Suc a) off =
     (case dns_skip_name p off of None \<Rightarrow> None
      | Some None \<Rightarrow> Some None
      | Some (Some o1) \<Rightarrow>
        if length p < o1 + 10 then Some None
        else do {
          ty \<leftarrow> rd16 p o1;
          cls \<leftarrow> rd16 p (o1 + 2);
          rdlen \<leftarrow> rd16 p (o1 + 8);
          (if length p < o1 + 10 + unat rdlen then Some None
           else if ty = DNS_TYPE_A \<and> cls = DNS_CLASS_IN \<and> rdlen = 4
             then do { ip \<leftarrow> rd_n p (o1 + 10) 4; Some (Some ip) }
           else dns_answers p a (o1 + 10 + unat rdlen))
        })"

definition dns_parse :: "bytes \<Rightarrow> u16 \<Rightarrow> bytes option option" where
  "dns_parse p qid =
     (if length p < DNS_HEADER_LEN then Some None
      else do {
        rid \<leftarrow> rd16 p 0;
        b2 \<leftarrow> rd p 2;
        b3 \<leftarrow> rd p 3;
        qdcount \<leftarrow> rd16 p 4;
        ancount \<leftarrow> rd16 p 6;
        (if rid \<noteq> qid then Some None
         else if b2 AND 0x80 = 0 then Some None
         else if b3 AND 0x0F \<noteq> 0 then Some None
         else case dns_questions p (unat qdcount) DNS_HEADER_LEN of None \<Rightarrow> None
              | Some None \<Rightarrow> Some None
              | Some (Some off) \<Rightarrow> dns_answers p (unat ancount) off)
      })"

definition dns_header :: "u16 \<Rightarrow> bytes" where
  "dns_header qid = [hi8 qid, lo8 qid, 1, 0, 0, 1, 0, 0, 0, 0, 0, 0]"

text \<open>The result is whether an address was found, and the address.\<close>

definition dns_resolve ::
  "'w dhcp_env \<Rightarrow> 'w net_sock_ops \<Rightarrow> bytes \<Rightarrow> bytes \<Rightarrow> u32 \<Rightarrow> 'w \<Rightarrow> (bytes option \<times> 'w) option" where
  "dns_resolve e sk server domain timeout_ms w =
     (if take 4 server = [0, 0, 0, 0] then Some (None, w)
      else let (fd, w1) = ops_socket sk 2 2 17 w in
        if fd < 0 then Some (None, w1)
        else let w2 = sock_set_recv_mode sk (e_O_NONBLOCK e) fd timeout_ms w1;
                 (x, w3) = e_random e w2;
                 qid = (ucast x :: u16)
             in case dns_encode_name (512 - DNS_HEADER_LEN - 4) domain of
                  None \<Rightarrow> map_option (\<lambda>w4. (None, w4)) (ops_close sk fd w3)
                | Some nm \<Rightarrow>
                  let msg = dns_header qid @ nm @ [0, 1, 0, 1];
                      dest = \<lparr>sin_family_inet = True, sin_port = lwip_htons DNS_SERVER_PORT, sin_addr = le32 server\<rparr>
                  in case ops_sendto sk fd msg dest w3 of None \<Rightarrow> None
                     | Some (n, w4) \<Rightarrow>
                       if 0 < n then
                         (case ops_recvfrom sk fd 512 None w4 of None \<Rightarrow> None
                          | Some ((r, buf, _), w5) \<Rightarrow>
                            (case (if 0 < r then dns_parse (take (nat r) buf) qid else Some None) of None \<Rightarrow> None
                             | Some res \<Rightarrow> map_option (\<lambda>w6. (res, w6)) (ops_close sk fd w5)))
                       else map_option (\<lambda>w5. (None, w5)) (ops_close sk fd w4))"

text \<open>Null pointers of \<open>server\<close>, \<open>hostname\<close> and \<open>out_ip\<close> are \<open>args_ok = False\<close>; without a vtable the
  Ethernet one is used.\<close>

definition wsm_dns_resolve ::
  "'w dhcp_env \<Rightarrow> 'w net_sock_ops option \<Rightarrow> bool \<Rightarrow> bytes \<Rightarrow> bytes \<Rightarrow> u32 \<Rightarrow> 'w \<Rightarrow>
     ((esp_err_t \<times> bytes option) \<times> 'w) option" where
  "wsm_dns_resolve e sock args_ok server hostname timeout_ms w =
     (if \<not> args_ok then Some ((ESP_ERR_INVALID_ARG, None), w)
      else let sk = (case sock of Some s \<Rightarrow> s | None \<Rightarrow> e_sock e);
               t = (if timeout_ms = 0 then WSM_DNS_TIMEOUT_MS else timeout_ms)
           in map_option (\<lambda>(res, w1). ((if res \<noteq> None then ESP_OK else ESP_FAIL, res), w1))
                (dns_resolve e sk server hostname t w))"

section \<open>Names\<close>

text \<open>The reference decoder: labels joined with dots.\<close>

fun dns_name_text :: "bytes \<Rightarrow> bytes" where
  "dns_name_text [] = []"
| "dns_name_text (l # rest) =
     (if l = 0 then []
      else let lab = take (unat l) rest; more = drop (unat l) rest
           in if more = [] \<or> hd more = 0 then lab else lab @ [46] @ dns_name_text more)"

lemma label_byte:
  assumes "0 < l" and "l \<le> 63"
  shows "unat (of_nat l :: u8) = l" and "(of_nat l :: u8) \<noteq> 0" and "(of_nat l :: u8) AND 0xC0 = 0"
proof -
  show u: "unat (of_nat l :: u8) = l" using assms(2) by (simp add: unat_of_nat take_bit_nat_eq_self)
  then show "(of_nat l :: u8) \<noteq> 0" using assms(1) by (metis less_irrefl unat_0)
  have "\<forall>k \<in> set [0..<64]. (of_nat k :: u8) AND 0xC0 = 0" by code_simp
  moreover have "l \<in> set [0..<64]" using assms(2) by simp
  ultimately show "(of_nat l :: u8) AND 0xC0 = 0" by blast
qed

lemma split_at_dot:
  assumes "length (takeWhile (\<lambda>x. x \<noteq> (46::u8)) s) \<noteq> length s"
  shows "s = takeWhile (\<lambda>x. x \<noteq> 46) s @ 46 # drop (length (takeWhile (\<lambda>x. x \<noteq> 46) s) + 1) s"
  using assms by (induction s) auto

lemma takeWhile_whole: "length (takeWhile P s) = length s \<Longrightarrow> takeWhile P s = s"
  by (induction s) (auto split: if_splits)

lemma dns_labels_ok:
  "dns_labels n cap s = Some b \<Longrightarrow>
     n + length b \<le> cap \<and> length b = length s + 2 \<and> b \<noteq> [] \<and> hd b \<noteq> 0 \<and> dns_name_text b = s \<and>
     (\<forall>pre post. dns_skip_name (pre @ b @ post) (length pre) = Some (Some (length pre + length b)))"
proof (induction n cap s arbitrary: b rule: dns_labels.induct)
  case (1 n cap s)
  let ?lab = "takeWhile (\<lambda>x. x \<noteq> 46) s"
  let ?l = "length ?lab"
  have g: "0 < ?l" "?l \<le> 63" "n + 1 + ?l + 1 \<le> cap"
    using 1(2) by (auto simp: dns_labels.simps [of n cap s] Let_def split: if_splits)
  note lb = label_byte [OF g(1,2)]
  have skip: "dns_skip_name (pre @ (of_nat ?l # ?lab @ x) @ post) (length pre) =
      dns_skip_name ((pre @ of_nat ?l # ?lab) @ x @ post) (length (pre @ of_nat ?l # ?lab))" for pre x post
    using lb by (subst dns_skip_name.simps) (simp add: nth_append)
  show ?case
  proof (cases "?l = length s")
    case True
    then have lab: "?lab = s" by (rule takeWhile_whole)
    have b: "b = of_nat ?l # ?lab @ [0]"
      using 1(2) g True by (auto simp: dns_labels.simps [of n cap s] Let_def split: if_splits)
    have "dns_skip_name (pre @ b @ post) (length pre) = Some (Some (length pre + length b))" for pre post
      unfolding b skip by (subst dns_skip_name.simps) (simp add: nth_append)
    moreover have "n + length b \<le> cap \<and> length b = length s + 2 \<and> b \<noteq> [] \<and> hd b \<noteq> 0 \<and> dns_name_text b = s"
      using g lb unfolding b lab by simp
    ultimately show ?thesis by blast
  next
    case False
    obtain b' where b': "dns_labels (n + 1 + ?l) cap (drop (?l + 1) s) = Some b'"
      and b: "b = of_nat ?l # ?lab @ b'"
      using 1(2) g False by (auto simp: dns_labels.simps [of n cap s] Let_def split: if_splits)
    have sp: "s = ?lab @ 46 # drop (?l + 1) s" by (rule split_at_dot [OF False])
    have IH: "n + 1 + ?l + length b' \<le> cap" "length b' = length (drop (?l + 1) s) + 2" "b' \<noteq> []" "hd b' \<noteq> 0"
      "dns_name_text b' = drop (?l + 1) s"
      "\<And>pre post. dns_skip_name (pre @ b' @ post) (length pre) = Some (Some (length pre + length b'))"
      using 1(1) [OF refl refl _ False b'] g by auto
    have "length s = ?l + 1 + length (drop (?l + 1) s)" using arg_cong [OF sp, of length] by simp
    moreover have "dns_name_text b = s"
      unfolding b using lb IH(3-5) sp by simp
    moreover have "dns_skip_name (pre @ b @ post) (length pre) = Some (Some (length pre + length b))" for pre post
      unfolding b skip using IH(6) [of "pre @ of_nat ?l # ?lab" post] by simp
    ultimately show ?thesis using b IH(1,2) lb by auto
  qed
qed

end
