(* ===== verification/Dhcp_Props.thy ===== *)
theory Dhcp_Props
  imports Dhcp
begin

text \<open>
  Properties of the DHCP client: the parser never reads outside the datagram and agrees with the
  option list it encodes, what the client builds is what it accepts back, and the state machine.
\<close>

section \<open>Parsing\<close>

lemma dhcp_option_total:
  assumes "i + l \<le> length p"
  shows "\<exists>a. dhcp_option p code i l acc = Some a"
  using assms by (cases acc) (auto simp: dhcp_option_def Let_def)

lemma dhcp_options_total: "dhcp_options p i acc \<noteq> None"
proof (induction p i acc rule: dhcp_options.induct)
  case (1 p i acc)
  show ?case
  proof (cases "i < length p \<and> p ! i \<noteq> OPT_PAD \<and> p ! i \<noteq> OPT_END \<and> i + 1 < length p \<and>
      i + 2 + unat (p ! (i + 1)) \<le> length p")
    case True
    then obtain a where "dhcp_option p (p ! i) (i + 2) (unat (p ! (i + 1))) acc = Some a"
      using dhcp_option_total by blast
    with True 1(2) [of "p ! i" "p ! (i + 1)" a] show ?thesis by (cases acc, subst dhcp_options.simps) auto
  next
    case False
    with 1(1) [of "p ! i"] show ?thesis by (cases acc, subst dhcp_options.simps) auto
  qed
qed

text \<open>What makes a datagram a reply to this client.\<close>

definition addressed_to :: "wsm_dhcp_client \<Rightarrow> bytes \<Rightarrow> bool" where
  "addressed_to c p \<longleftrightarrow> DHCP_FIXED_LEN \<le> length p \<and> p ! 0 = 2 \<and>
     be32_of (p ! 4) (p ! 5) (p ! 6) (p ! 7) = c_xid c \<and>
     take 6 (drop 28 p) = take 6 (c_mac c) \<and> take 4 (drop 236 p) = [0x63, 0x82, 0x53, 0x63]"

lemma dhcp_parse_eq:
  "dhcp_parse c p =
     (if addressed_to c p
      then map_option (\<lambda>(ty, out, sid). (ty, Some out, sid))
             (dhcp_options p DHCP_FIXED_LEN (0, netinfo_zero\<lparr>n_ip := take 4 (drop 16 p)\<rparr>, c_server_id c))
      else Some (0, None, c_server_id c))"
proof (cases "DHCP_FIXED_LEN \<le> length p")
  case False
  then show ?thesis by (simp add: dhcp_parse_def addressed_to_def)
next
  case True
  then have l: "240 \<le> length p" by (simp add: DHCP_FIXED_LEN_def)
  then have "rd p 0 = Some (p ! 0)" "rd_n p 4 4 = Some (take 4 (drop 4 p))"
    "rd_n p 28 6 = Some (take 6 (drop 28 p))" "rd_n p 236 4 = Some (take 4 (drop 236 p))"
    "rd_n p 16 4 = Some (take 4 (drop 16 p))"
    by (auto simp: rd_def)
  moreover have "take 4 (drop 4 p) ! 0 = p ! 4" "take 4 (drop 4 p) ! 1 = p ! 5"
    "take 4 (drop 4 p) ! 2 = p ! 6" "take 4 (drop 4 p) ! 3 = p ! 7"
    using l by simp_all
  ultimately show ?thesis
    using True
    by (cases "dhcp_options p DHCP_FIXED_LEN (0, netinfo_zero\<lparr>n_ip := take 4 (drop 16 p)\<rparr>, c_server_id c)")
       (auto simp: dhcp_parse_def addressed_to_def Let_def)
qed

lemma dhcp_parse_some: "\<exists>ty got sid. dhcp_parse c p = Some (ty, got, sid)"
proof -
  obtain ty out sid where "dhcp_options p DHCP_FIXED_LEN
      (0, netinfo_zero\<lparr>n_ip := take 4 (drop 16 p)\<rparr>, c_server_id c) = Some (ty, out, sid)"
    using dhcp_options_total by (metis not_Some_eq prod_cases3)
  then show ?thesis by (simp add: dhcp_parse_eq)
qed

text \<open>C9. Parsing any datagram of any length never reads a byte outside it; a datagram that is not a
  reply, or carries another client's transaction id or hardware address, or is no DHCP message, is
  reported as type 0 and changes nothing of the client.\<close>

theorem dhcp_parse_safe:
  "\<exists>ty got sid. dhcp_parse c p = Some (ty, got, sid) \<and>
     (\<not> addressed_to c p \<longrightarrow> ty = 0 \<and> got = None \<and> sid = c_server_id c)"
proof -
  obtain ty out sid where "dhcp_options p DHCP_FIXED_LEN
      (0, netinfo_zero\<lparr>n_ip := take 4 (drop 16 p)\<rparr>, c_server_id c) = Some (ty, out, sid)"
    using dhcp_options_total by (metis not_Some_eq prod_cases3)
  then show ?thesis by (simp add: dhcp_parse_eq)
qed

section \<open>The parser against the option list\<close>

text \<open>The reference: a message's options as a list of codes and values, their encoding, and what
  each one means for the lease.\<close>

definition enc_option :: "u8 \<times> bytes \<Rightarrow> bytes" where
  "enc_option o1 = fst o1 # of_nat (length (snd o1)) # snd o1"

definition opt_ok :: "u8 \<times> bytes \<Rightarrow> bool" where
  "opt_ok o1 \<longleftrightarrow> fst o1 \<noteq> OPT_PAD \<and> fst o1 \<noteq> OPT_END \<and> length (snd o1) < 256"

definition opt_meaning ::
  "u8 \<times> bytes \<Rightarrow> u8 \<times> wsm_dhcp_netinfo_t \<times> bytes \<Rightarrow> u8 \<times> wsm_dhcp_netinfo_t \<times> bytes" where
  "opt_meaning o1 acc =
     (case (o1, acc) of ((code, v), (ty, out, sid)) \<Rightarrow>
        if code = OPT_MSG_TYPE \<and> v \<noteq> [] then (hd v, out, sid)
        else if length v < 4 then acc
        else if code = OPT_SUBNET then (ty, out\<lparr>n_sn := take 4 v\<rparr>, sid)
        else if code = OPT_ROUTER then (ty, out\<lparr>n_gw := take 4 v\<rparr>, sid)
        else if code = OPT_DNS then (ty, out\<lparr>n_dns := take 4 v\<rparr>, sid)
        else if code = OPT_LEASE_TIME then
          (ty, out\<lparr>n_lease_s := be32_of (v ! 0) (v ! 1) (v ! 2) (v ! 3)\<rparr>, sid)
        else if code = OPT_SERVER_ID then (ty, out, take 4 v)
        else acc)"

lemma dhcp_option_meaning:
  "dhcp_option (pre @ v @ post) code (length pre) (length v) acc = Some (opt_meaning (code, v) acc)"
  by (cases acc; cases v)
     (auto simp: dhcp_option_def opt_meaning_def dhcp_opts rd_def rd_n_def nth_append hd_append)

lemma dhcp_options_encoded:
  "\<forall>o1 \<in> set opts. opt_ok o1 \<Longrightarrow>
   dhcp_options (pre @ concat (map enc_option opts) @ OPT_END # post) (length pre) acc =
     Some (foldl (\<lambda>a o1. opt_meaning o1 a) acc opts)"
proof (induction opts arbitrary: pre acc)
  case Nil
  then show ?case by (subst dhcp_options.simps) (simp add: nth_append dhcp_opts)
next
  case (Cons o1 opts)
  obtain code v where o1: "o1 = (code, v)" by (cases o1)
  have ok: "code \<noteq> OPT_PAD" "code \<noteq> OPT_END" "length v < 256" using Cons.prems by (auto simp: opt_ok_def o1)
  let ?rest = "concat (map enc_option opts) @ OPT_END # post"
  let ?p = "pre @ enc_option o1 @ ?rest"
  have u: "unat (of_nat (length v) :: u8) = length v"
    using ok(3) by (simp add: unat_of_nat take_bit_nat_eq_self)
  have e: "enc_option o1 = code # of_nat (length v) # v" by (simp add: o1 enc_option_def)
  have at: "?p ! length pre = code" "?p ! (length pre + 1) = of_nat (length v)"
    by (simp_all add: e nth_append)
  have len: "length ?p = length pre + 2 + length v + length ?rest" by (simp add: e)
  have "dhcp_option ?p code (length pre + 2) (length v) acc = Some (opt_meaning (code, v) acc)"
    using dhcp_option_meaning [of "pre @ [code, of_nat (length v)]" v ?rest code acc]
    by (simp add: e)
  moreover have "dhcp_options ?p (length pre + 2 + length v) (opt_meaning (code, v) acc) =
      Some (foldl (\<lambda>a o1. opt_meaning o1 a) (opt_meaning (code, v) acc) opts)"
    using Cons.IH [of "pre @ enc_option o1" "opt_meaning (code, v) acc"] Cons.prems
    by (simp add: e ac_simps)
  ultimately have "dhcp_options ?p (length pre) acc =
      Some (foldl (\<lambda>a o1. opt_meaning o1 a) (opt_meaning (code, v) acc) opts)"
    using ok u at len by (subst dhcp_options.simps) (simp add: rd_def)
  then show ?case by (simp add: o1)
qed

lemma dhcp_parse_encoded:
  assumes "length hdr = DHCP_FIXED_LEN" and "\<forall>o1 \<in> set opts. opt_ok o1"
    and "addressed_to c (hdr @ concat (map enc_option opts) @ OPT_END # pad)"
  shows "dhcp_parse c (hdr @ concat (map enc_option opts) @ OPT_END # pad) =
     (case foldl (\<lambda>a o1. opt_meaning o1 a)
             (0, netinfo_zero\<lparr>n_ip := take 4 (drop 16 hdr)\<rparr>, c_server_id c) opts of
        (ty, out, sid) \<Rightarrow> Some (ty, Some out, sid))"
proof -
  have yi: "take 4 (drop 16 (hdr @ x)) = take 4 (drop 16 hdr)" for x
    using assms(1) by (simp add: DHCP_FIXED_LEN_def)
  show ?thesis
    unfolding dhcp_parse_eq if_P [OF assms(3)] yi
      dhcp_options_encoded [OF assms(2), of hdr pad, unfolded assms(1)]
    by (simp add: split_beta)
qed

text \<open>C10. On a reply whose options are encoded as RFC 2131 lays them out, in any order and followed
  by anything, the parser computes the meaning of the option list: later options override earlier
  ones, unknown and short ones are skipped, and the address is \<open>yiaddr\<close>.\<close>

theorem dhcp_parse_meaning:
  assumes "length hdr = DHCP_FIXED_LEN" and "\<forall>o1 \<in> set opts. opt_ok o1"
    and "addressed_to c (hdr @ concat (map enc_option opts) @ OPT_END # pad)"
  shows "dhcp_parse c (hdr @ concat (map enc_option opts) @ OPT_END # pad) =
     (case foldl (\<lambda>a o1. opt_meaning o1 a)
             (0, netinfo_zero\<lparr>n_ip := take 4 (drop 16 hdr)\<rparr>, c_server_id c) opts of
        (ty, out, sid) \<Rightarrow> Some (ty, Some out, sid))"
  by (rule dhcp_parse_encoded [OF assms])

section \<open>What the client sends\<close>

lemma length_dhcp_fixed [simp]: "length (c_mac c) = 6 \<Longrightarrow> length (dhcp_fixed c) = DHCP_FIXED_LEN"
  by (simp add: dhcp_fixed_def DHCP_FIXED_LEN_def)

definition client_options :: "wsm_dhcp_client \<Rightarrow> u8 \<Rightarrow> (u8 \<times> bytes) list" where
  "client_options c ty =
     [(OPT_MSG_TYPE, [ty]), (OPT_CLIENT_ID, 1 # c_mac c)] @
     (if ty = DHCPREQUEST then [(OPT_REQUESTED_IP, c_offered c), (OPT_SERVER_ID, c_server_id c)] else []) @
     [(OPT_PARAM_REQ, [OPT_SUBNET, OPT_ROUTER, OPT_DNS, OPT_LEASE_TIME])]"

definition wf_client :: "wsm_dhcp_client \<Rightarrow> bool" where
  "wf_client c \<longleftrightarrow> length (c_mac c) = 6 \<and> length (c_offered c) = 4 \<and> length (c_server_id c) = 4"

lemma dhcp_build_options:
  assumes "wf_client c"
  shows "\<exists>n. dhcp_build c ty = dhcp_fixed c @ concat (map enc_option (client_options c ty)) @
     OPT_END # replicate n OPT_PAD"
    and "length (dhcp_build c ty) = DHCP_MIN_LEN"
  using assms
  by (auto simp: wf_client_def dhcp_build_def client_options_def enc_option_def Let_def
      DHCP_FIXED_LEN_def DHCP_MIN_LEN_def)

text \<open>Every message the client builds is 300 bytes of BOOTP, and is well formed: a server that
  answers by turning it into a reply (op code 2) is recognised by this client, with the message
  type that was built, and for a REQUEST the server it names.\<close>

theorem dhcp_build_accepted:
  assumes "wf_client c"
  shows "length (dhcp_build c ty) = DHCP_MIN_LEN \<and>
     dhcp_parse c (2 # tl (dhcp_build c ty)) = Some (ty, Some netinfo_zero, c_server_id c)"
proof
  show "length (dhcp_build c ty) = DHCP_MIN_LEN" by (rule dhcp_build_options(2) [OF assms])
  obtain n where b: "dhcp_build c ty = dhcp_fixed c @ concat (map enc_option (client_options c ty)) @
     OPT_END # replicate n OPT_PAD"
    using dhcp_build_options(1) [OF assms] by blast
  let ?h = "2 # tl (dhcp_fixed c)"
  let ?o = "concat (map enc_option (client_options c ty)) @ OPT_END # replicate n OPT_PAD"
  have mac: "length (c_mac c) = 6" using assms by (simp add: wf_client_def)
  have ne: "dhcp_fixed c \<noteq> []" by (simp add: dhcp_fixed_def)
  have h: "length ?h = DHCP_FIXED_LEN" using mac ne by (simp add: DHCP_FIXED_LEN_def)
  have p: "2 # tl (dhcp_build c ty) = ?h @ ?o" using ne b by simp
  have ok: "\<forall>o1 \<in> set (client_options c ty). opt_ok o1"
    using assms by (auto simp: client_options_def opt_ok_def dhcp_opts wf_client_def)
  have "addressed_to c (?h @ ?o)"
    using mac h by (simp add: addressed_to_def dhcp_fixed_def be32_of_split DHCP_FIXED_LEN_def nth_append)
  moreover have "take 4 (drop 16 ?h) = [0, 0, 0, 0]"
    by (simp add: dhcp_fixed_def numeral_eq_Suc)
  moreover have "foldl (\<lambda>a o1. opt_meaning o1 a) (0, netinfo_zero\<lparr>n_ip := [0, 0, 0, 0]\<rparr>, c_server_id c)
      (client_options c ty) = (ty, netinfo_zero, c_server_id c)"
    using assms by (simp add: client_options_def opt_meaning_def dhcp_opts wf_client_def netinfo_zero_def)
  moreover note dhcp_parse_encoded [OF h ok]
  ultimately show "dhcp_parse c (2 # tl (dhcp_build c ty)) = Some (ty, Some netinfo_zero, c_server_id c)"
    by (simp add: p)
qed

section \<open>A scripted network\<close>

text \<open>For the witnesses: a host whose only traffic is a queue of incoming datagrams. It records what
  is sent, what lease is installed and which sockets are open; the clock only moves by hand.\<close>

record net =
  net_in :: "bytes list"
  net_sent :: "bytes list"
  net_lease :: "wsm_dhcp_netinfo_t option"
  net_open :: "int list"
  net_now :: int

definition net_ops :: "net net_sock_ops" where
  "net_ops = \<lparr>ops_socket = (\<lambda>dm ty pr w. (54, w\<lparr>net_open := 54 # net_open w\<rparr>)),
     ops_bind = (\<lambda>fd a w. (0, w)), ops_listen = (\<lambda>fd bl w. (0, w)),
     ops_accept = (\<lambda>fd w. Some ((-1, None), w)), ops_connect = (\<lambda>fd a w. (0, w)),
     ops_recv = (\<lambda>fd n w. Some ((0, []), w)), ops_send = (\<lambda>fd b w. Some (int (length b), w)),
     ops_recvfrom = (\<lambda>fd n fl w. Some (case net_in w of [] \<Rightarrow> ((-1, [], None), w)
        | p # ps \<Rightarrow> ((int (length p), p, None), w\<lparr>net_in := ps\<rparr>))),
     ops_sendto = (\<lambda>fd b a w. Some (int (length b), w\<lparr>net_sent := net_sent w @ [b]\<rparr>)),
     ops_setsockopt = (\<lambda>fd l nm b w. w),
     ops_close = (\<lambda>fd w. Some (w\<lparr>net_open := remove1 fd (net_open w)\<rparr>)),
     ops_fcntl = Some (\<lambda>fd cmd v w. w)\<rparr>"

definition net_env :: "net dhcp_env" where
  "net_env = \<lparr>e_sock = net_ops, e_prepare = (\<lambda>w. (([0, 8, 220, 1, 2, 3], []), w)),
     e_apply_lease = (\<lambda>l w. w\<lparr>net_lease := Some l\<rparr>), e_timer = (\<lambda>w. (net_now w, w)),
     e_random = (\<lambda>w. (0xCAFE0001, w)), e_O_NONBLOCK = 0x4000, e_IFNAMSIZ = 6\<rparr>"

definition net_boot :: "bytes list \<Rightarrow> net" where
  "net_boot q = \<lparr>net_in = q, net_sent = [], net_lease = None, net_open = [], net_now = 1\<rparr>"

definition sim_client :: wsm_dhcp_client where
  "sim_client = the (snd (wsm_dhcp_client_create True True None))"

definition sim_selecting :: wsm_dhcp_client where
  "sim_selecting = fst (dhcp_enter_selecting net_env
     (sim_client\<lparr>c_fd := 54, c_mac := [0, 8, 220, 1, 2, 3]\<rparr>) (net_boot []))"

text \<open>A server's message: type, offered address, server identifier, and a lease of an hour.\<close>

definition server_msg :: "u8 \<Rightarrow> bytes \<Rightarrow> bytes \<Rightarrow> bytes" where
  "server_msg ty yi sid =
     [2, 1, 6, 0, 0xCA, 0xFE, 0, 1, 0, 0, 0x80, 0, 0, 0, 0, 0] @ yi @ replicate 8 0 @
     [0, 8, 220, 1, 2, 3] @ replicate 202 0 @ [0x63, 0x82, 0x53, 0x63] @
     concat (map enc_option [(OPT_MSG_TYPE, [ty]), (OPT_SERVER_ID, sid), (OPT_LEASE_TIME, [0, 0, 14, 16])]) @
     OPT_END # []"

theorem dhcp_parse_meaning_witness:
  "\<exists>out. dhcp_parse sim_selecting (server_msg DHCPOFFER [10, 0, 0, 9] [10, 0, 0, 1]) =
     Some (DHCPOFFER, Some out, [10, 0, 0, 1]) \<and> n_ip out = [10, 0, 0, 9] \<and> n_lease_s out = 3600"
proof -
  let ?h = "take 240 (server_msg DHCPOFFER [10, 0, 0, 9] [10, 0, 0, 1])"
  let ?o = "[(OPT_MSG_TYPE, [DHCPOFFER]), (OPT_SERVER_ID, [10, 0, 0, 1]), (OPT_LEASE_TIME, [0, 0, 14, 16])]"
  have m: "server_msg DHCPOFFER [10, 0, 0, 9] [10, 0, 0, 1] = ?h @ concat (map enc_option ?o) @ OPT_END # []"
    by code_simp
  have "length ?h = DHCP_FIXED_LEN" "\<forall>o1 \<in> set ?o. opt_ok o1"
    "addressed_to sim_selecting (?h @ concat (map enc_option ?o) @ OPT_END # [])"
    by code_simp+
  note p = dhcp_parse_meaning [OF this]
  have "foldl (\<lambda>a o1. opt_meaning o1 a) (0, netinfo_zero\<lparr>n_ip := take 4 (drop 16 ?h)\<rparr>, c_server_id sim_selecting) ?o
     = (DHCPOFFER, netinfo_zero\<lparr>n_ip := [10, 0, 0, 9], n_lease_s := 3600\<rparr>, [10, 0, 0, 1])"
    by code_simp
  with p m show ?thesis by simp
qed

theorem dhcp_parse_safe_witness:
  "\<exists>ty sid. dhcp_parse sim_selecting [1, 2, 3] = Some (ty, None, sid) \<and> ty = 0"
proof -
  have "\<not> addressed_to sim_selecting [1, 2, 3]" by code_simp
  with dhcp_parse_safe [of sim_selecting "[1, 2, 3]"] show ?thesis by blast
qed

theorem dhcp_build_accepted_witness:
  "dhcp_parse sim_selecting (2 # tl (dhcp_build sim_selecting DHCPDISCOVER)) =
     Some (DHCPDISCOVER, Some netinfo_zero, [0, 0, 0, 0])"
proof -
  have "wf_client sim_selecting" "c_server_id sim_selecting = [0, 0, 0, 0]" by code_simp+
  with dhcp_build_accepted [OF this(1), of DHCPDISCOVER] show ?thesis by simp
qed

section \<open>The state machine\<close>

definition client_ok :: "wsm_dhcp_client \<Rightarrow> bool" where
  "client_ok c \<longleftrightarrow> (c_state c = ST_BOUND \<longrightarrow> c_bound c) \<and> c_tries c \<le> unat (c_xmit_tries c)"

text \<open>What the engine never touches.\<close>

definition same_setup :: "wsm_dhcp_client \<Rightarrow> wsm_dhcp_client \<Rightarrow> bool" where
  "same_setup c c' \<longleftrightarrow> c_fd c' = c_fd c \<and> c_mac c' = c_mac c \<and> c_ifname c' = c_ifname c \<and>
     c_recv_timeout_ms c' = c_recv_timeout_ms c \<and> c_step_packets c' = c_step_packets c \<and>
     c_xmit_tries c' = c_xmit_tries c \<and> c_xmit_interval_ms c' = c_xmit_interval_ms c"

lemma same_setup_refl [simp]: "same_setup c c"
  by (simp add: same_setup_def)

lemma same_setup_trans: "same_setup a b \<Longrightarrow> same_setup b c \<Longrightarrow> same_setup a c"
  by (simp add: same_setup_def)

lemma enter_selecting_facts:
  assumes "dhcp_enter_selecting e c w = (c', w')"
  shows "same_setup c c'" and "c_state c' = ST_SELECTING" and "c_tries c' = 0"
    and "c_bound c' = c_bound c" and "c_lease c' = c_lease c"
  using assms by (auto simp: dhcp_enter_selecting_def same_setup_def split: prod.splits)

lemma transmit_facts:
  assumes "dhcp_transmit e now c w = Some (failed, c', w')" and "client_ok c"
  shows "same_setup c c'" and "client_ok c'" and "c_bound c' = c_bound c"
    and "failed \<Longrightarrow> c_state c' = ST_SELECTING \<and> c_tries c' = 0"
    and "\<not> failed \<Longrightarrow> c_state c' = c_state c"
proof -
  have "same_setup c c' \<and> client_ok c' \<and> c_bound c' = c_bound c \<and>
      (failed \<longrightarrow> c_state c' = ST_SELECTING \<and> c_tries c' = 0) \<and> (\<not> failed \<longrightarrow> c_state c' = c_state c)"
    using assms enter_selecting_facts [of e c w c' w']
    by (auto simp: dhcp_transmit_def client_ok_def same_setup_def Let_def
        split: if_splits prod.splits option.splits)
  then show "same_setup c c'" and "client_ok c'" and "c_bound c' = c_bound c"
    and "failed \<Longrightarrow> c_state c' = ST_SELECTING \<and> c_tries c' = 0"
    and "\<not> failed \<Longrightarrow> c_state c' = c_state c" by blast+
qed

lemma dispatch_facts:
  assumes "dhcp_dispatch e ty got c w = (res, c', w')" and "client_ok c"
  shows "same_setup c c'" and "client_ok c'"
    and "\<And>st info. res = Some (st, info) \<Longrightarrow> st = WSM_DHCP_LEASED \<and> info = c_lease c' \<and> info = got \<and>
           c_state c' = ST_BOUND \<and> c_state c = ST_REQUESTING \<and> ty = DHCPACK"
proof -
  have "same_setup c c' \<and> client_ok c' \<and>
      (\<forall>st info. res = Some (st, info) \<longrightarrow> st = WSM_DHCP_LEASED \<and> info = c_lease c' \<and> info = got \<and>
           c_state c' = ST_BOUND \<and> c_state c = ST_REQUESTING \<and> ty = DHCPACK)"
  proof (cases "ty \<noteq> 0 \<and> ty = DHCPNAK")
    case True
    with assms enter_selecting_facts [of e c w c' w'] show ?thesis
      by (auto simp: dhcp_dispatch_def client_ok_def Let_def split: prod.splits)
  next
    case False
    with assms show ?thesis
      by (auto simp: dhcp_dispatch_def client_ok_def same_setup_def Let_def split: if_splits prod.splits)
  qed
  then show "same_setup c c'" and "client_ok c'"
    and "\<And>st info. res = Some (st, info) \<Longrightarrow> st = WSM_DHCP_LEASED \<and> info = c_lease c' \<and> info = got \<and>
           c_state c' = ST_BOUND \<and> c_state c = ST_REQUESTING \<and> ty = DHCPACK" by blast+
qed

definition poll_result_ok :: "wsm_dhcp_client \<Rightarrow> wsm_dhcp_status_t \<Rightarrow> wsm_dhcp_netinfo_t option \<Rightarrow> wsm_dhcp_client \<Rightarrow> bool"
  where "poll_result_ok c st info c' \<longleftrightarrow> client_ok c' \<and> same_setup c c' \<and>
     (case st of
        WSM_DHCP_LEASED \<Rightarrow> info = Some (c_lease c') \<and> c_state c' = ST_BOUND \<and> c_bound c'
      | WSM_DHCP_FAILED \<Rightarrow> info = None \<and> c_state c' = ST_SELECTING \<and> c_tries c' = 0
      | WSM_DHCP_PENDING \<Rightarrow> info = None
      | WSM_DHCP_CONFLICT \<Rightarrow> False)"

lemma turns_result:
  "dhcp_turns e k c w = Some ((st, info), c', w') \<Longrightarrow> client_ok c \<Longrightarrow> poll_result_ok c st info c'"
proof (induction k arbitrary: c w)
  case 0
  then show ?case by (simp add: poll_result_ok_def)
next
  case (Suc k)
  obtain now w1 where t: "e_timer e w = (now, w1)" by (cases "e_timer e w")
  show ?case
  proof (cases "c_state c = ST_BOUND \<and> now < c_renew_at_us c")
    case True
    with Suc.prems t show ?thesis by (auto simp: poll_result_ok_def client_ok_def)
  next
    case False
    obtain c2 w2 where c2: "(if c_state c = ST_BOUND then dhcp_enter_selecting e c w1 else (c, w1)) = (c2, w2)"
      by (cases "if c_state c = ST_BOUND then dhcp_enter_selecting e c w1 else (c, w1)")
    have ok2: "client_ok c2" "same_setup c c2"
      using c2 Suc.prems(2) enter_selecting_facts [of e c w1 c2 w2]
      by (auto simp: client_ok_def split: if_splits)
    obtain failed c3 w3 where tr: "dhcp_transmit e now c2 w2 = Some (failed, c3, w3)"
      using Suc.prems(1) t False c2 by (auto split: option.splits)
    note T = transmit_facts [OF tr ok2(1)]
    have s3: "same_setup c c3" using same_setup_trans [OF ok2(2) T(1)] .
    note step = Suc.prems(1) [simplified dhcp_turns.simps t Let_def prod.case if_not_P [OF False] c2 tr option.case]
    show ?thesis
    proof (cases failed)
      case True
      with step T s3 show ?thesis by (simp add: poll_result_ok_def)
    next
      case nf: False
      obtain n buf a w4 where rv: "ops_recvfrom (e_sock e) (c_fd c3) WSM_DHCP_BUF_SIZE None w3 = Some ((n, buf, a), w4)"
        using step nf by (auto split: option.splits)
      show ?thesis
      proof (cases "n \<le> 0")
        case True
        with step nf rv T s3 show ?thesis by (simp add: poll_result_ok_def)
      next
        case n: False
        obtain ty got sid where pr: "dhcp_parse c3 (take (nat n) buf) = Some (ty, got, sid)"
          using dhcp_parse_some by blast
        let ?g = "case got of Some g \<Rightarrow> g | None \<Rightarrow> netinfo_zero"
        obtain res c5 w5 where d: "dhcp_dispatch e ty ?g (c3\<lparr>c_server_id := sid\<rparr>) w4 = (res, c5, w5)"
          by (metis prod_cases3)
        have ok4: "client_ok (c3\<lparr>c_server_id := sid\<rparr>)" "same_setup c (c3\<lparr>c_server_id := sid\<rparr>)"
          using T(2) s3 by (simp_all add: client_ok_def same_setup_def)
        note D = dispatch_facts [OF d ok4(1)]
        have s5: "same_setup c c5" using same_setup_trans [OF ok4(2) D(1)] .
        note step2 = step [simplified nf rv pr n d option.case prod.case if_False]
        show ?thesis
        proof (cases res)
          case None
          with step2 n have "dhcp_turns e k c5 w5 = Some ((st, info), c', w')" by simp
          from Suc.IH [OF this D(2)] s5 show ?thesis
            by (auto simp: poll_result_ok_def intro: same_setup_trans)
        next
          case (Some r)
          obtain st' info' where r: "r = (st', info')" by (cases r)
          with step2 n Some have "st = st'" "info = Some info'" "c' = c5" by simp_all
          with D(2) D(3) [of st' info'] Some r s5 show ?thesis
            by (simp add: poll_result_ok_def client_ok_def)
        qed
      qed
    qed
  qed
qed

text \<open>C11. A poll of the client, whatever the network delivers, keeps its invariants (a bound client
  has a lease; the retransmissions never exceed the budget) and its socket and settings. It reports
  LEASED exactly together with the lease it holds, in state BOUND; FAILED only after falling back to
  SELECTING with a fresh budget; and never CONFLICT.\<close>

theorem dhcp_poll_result:
  assumes "wsm_dhcp_poll e c w = Some ((st, info), c', w')" and "client_ok c"
  shows "poll_result_ok c st info c'"
proof (cases "c_fd c < 0")
  case True
  with assms show ?thesis by (auto simp: wsm_dhcp_poll_def poll_result_ok_def)
next
  case False
  with assms turns_result show ?thesis by (auto simp: wsm_dhcp_poll_def dhcp_step_def)
qed

text \<open>An exchange with one server on the scripted network.\<close>

definition net_exchange :: net where
  "net_exchange = net_boot [server_msg DHCPOFFER [10, 0, 0, 9] [10, 0, 0, 1], server_msg DHCPACK [10, 0, 0, 9] [10, 0, 0, 1]]"

theorem dhcp_poll_result_witness:
  "\<exists>info c' w'. wsm_dhcp_poll net_env sim_selecting net_exchange = Some ((WSM_DHCP_LEASED, info), c', w') \<and>
     poll_result_ok sim_selecting WSM_DHCP_LEASED info c' \<and> map_option n_ip info = Some [10, 0, 0, 9] \<and>
     length (net_sent w') = 2"
proof -
  have "map_option (\<lambda>((st, info), c', w'). (st, map_option n_ip info, length (net_sent w')))
      (wsm_dhcp_poll net_env sim_selecting net_exchange) = Some (WSM_DHCP_LEASED, Some [10, 0, 0, 9], 2)"
    by code_simp
  then obtain info c' w' where w: "wsm_dhcp_poll net_env sim_selecting net_exchange = Some ((WSM_DHCP_LEASED, info), c', w')"
    "map_option n_ip info = Some [10, 0, 0, 9]" "length (net_sent w') = 2"
    by auto
  have "client_ok sim_selecting" by code_simp
  from dhcp_poll_result [OF w(1) this] w show ?thesis by blast
qed

text \<open>The edges of the state machine: a client becomes BOUND only by an ACK while REQUESTING, and
  the lease is then exactly what that message carried; it starts REQUESTING only by an OFFER while
  SELECTING, and asks for exactly the address offered; a NAK always restarts discovery, and every
  other message leaves the client as it was.\<close>

theorem dhcp_edges:
  "(case dhcp_dispatch e ty got c w of (res, c', w') \<Rightarrow>
     if ty = DHCPNAK then res = None \<and> c_state c' = ST_SELECTING \<and> c_offered c' = [0, 0, 0, 0]
     else if c_state c = ST_SELECTING \<and> ty = DHCPOFFER then
       res = None \<and> c_state c' = ST_REQUESTING \<and> c_offered c' = n_ip got \<and> c_tries c' = 0
     else if c_state c = ST_REQUESTING \<and> ty = DHCPACK then
       res = Some (WSM_DHCP_LEASED, got) \<and> c_state c' = ST_BOUND \<and> c_lease c' = got \<and> c_bound c'
     else res = None \<and> c' = c \<and> w' = w)"
  by (auto simp: dhcp_dispatch_def dhcp_enter_selecting_def dhcp_msgs Let_def split: prod.split)

definition net_two_servers :: net where
  "net_two_servers = net_boot [server_msg DHCPOFFER [10, 0, 0, 9] [10, 0, 0, 1],
     server_msg DHCPOFFER [192, 168, 7, 7] [192, 168, 7, 1]]"

definition second_request :: "bytes option" where
  "second_request = (case wsm_dhcp_poll net_env sim_selecting net_two_servers of None \<Rightarrow> None
     | Some (_, c1, w1) \<Rightarrow>
       (case wsm_dhcp_poll net_env c1 (w1\<lparr>net_now := net_now w1 + 2000000\<rparr>) of None \<Rightarrow> None
        | Some (_, c2, w2) \<Rightarrow> Some (last (net_sent w2))))"

text \<open>While a request is under way, a late OFFER of another server replaces the server identifier:
  the retransmitted REQUEST asks the second server for the first server's address.\<close>

theorem late_offer_mixes_servers:
  "map_option (\<lambda>m. take 12 (drop 252 m)) second_request =
     Some [OPT_REQUESTED_IP, 4, 10, 0, 0, 9, OPT_SERVER_ID, 4, 192, 168, 7, 1]"
  by code_simp

end
