(* ===== verification/Dns_Props.thy ===== *)
theory Dns_Props
  imports Dns Dhcp_Props
begin

text \<open>
  Properties of the resolver: names round-trip, the response parser never reads outside the
  datagram, and on a well-formed response it finds the first address record.
\<close>

section \<open>Names\<close>

text \<open>C12. A host name the encoder accepts is encoded within the space it was given, decodes to the
  same name, and is skipped exactly by the response parser wherever it stands.\<close>

theorem dns_name_round_trip:
  assumes "dns_encode_name cap name = Some b"
  shows "length b \<le> cap \<and> length b = length name + 2 \<and> dns_name_text b = name \<and>
     dns_skip_name (pre @ b @ post) (length pre) = Some (Some (length pre + length b))"
  using dns_labels_ok [of 0 cap name b] assms by (simp add: dns_encode_name_def)

theorem dns_name_round_trip_witness:
  "dns_name_text (the (dns_encode_name 20 [97, 46, 98, 99])) = [97, 46, 98, 99]"
proof -
  have "dns_encode_name 20 [97, 46, 98, 99] = Some [1, 97, 2, 98, 99, 0]"
    by (simp add: dns_encode_name_def dns_labels.simps)
  with dns_name_round_trip [OF this] show ?thesis by simp
qed

section \<open>The response parser\<close>

lemma dns_skip_total: "dns_skip_name p off \<noteq> None"
proof (induction p off rule: dns_skip_name.induct)
  case (1 p off)
  then show ?case by (subst dns_skip_name.simps) (simp add: rd_def)
qed

lemma dns_questions_total: "dns_questions p q off \<noteq> None"
  using dns_skip_total by (induction q arbitrary: off) (auto split: option.split)

lemma dns_answers_total:
  "\<exists>r. dns_answers p a off = Some r \<and> (\<forall>ip. r = Some ip \<longrightarrow> length ip = 4)"
proof (induction a arbitrary: off)
  case 0
  then show ?case by simp
next
  case (Suc a)
  obtain r where r: "dns_skip_name p off = Some r" using dns_skip_total by blast
  show ?case
  proof (cases r)
    case None
    with r show ?thesis by simp
  next
    case (Some o1)
    with r Suc.IH [of "o1 + 10 + unat (be16_of (p ! (o1 + 8)) (p ! (o1 + 8 + 1)))"] show ?thesis
      by (cases "length p < o1 + 10") (auto simp: rd16_def)
  qed
qed

text \<open>Parsing a response of any length and contents never reads outside it. When an address is
  found it has four bytes, and the datagram is a response without error that carries the
  identifier of the query.\<close>

theorem dns_parse_safe:
  "\<exists>r. dns_parse p qid = Some r \<and>
     (\<forall>ip. r = Some ip \<longrightarrow> length ip = 4 \<and> DNS_HEADER_LEN \<le> length p \<and>
        be16_of (p ! 0) (p ! 1) = qid \<and> p ! 2 AND 0x80 \<noteq> 0 \<and> p ! 3 AND 0x0F = 0)"
proof (cases "length p < DNS_HEADER_LEN")
  case True
  then show ?thesis by (simp add: dns_parse_def)
next
  case False
  then have l: "12 \<le> length p" by (simp add: DNS_HEADER_LEN_def)
  then have reads: "rd16 p 0 = Some (be16_of (p ! 0) (p ! 1))" "rd p 2 = Some (p ! 2)" "rd p 3 = Some (p ! 3)"
    "rd16 p 4 = Some (be16_of (p ! 4) (p ! 5))" "rd16 p 6 = Some (be16_of (p ! 6) (p ! 7))"
    by (auto simp: rd16_def rd_def)
  obtain q where q: "dns_questions p (unat (be16_of (p ! 4) (p ! 5))) DNS_HEADER_LEN = Some q"
    using dns_questions_total by blast
  show ?thesis
  proof (cases q)
    case None
    with False q reads show ?thesis by (auto simp: dns_parse_def)
  next
    case (Some off)
    obtain r where "dns_answers p (unat (be16_of (p ! 6) (p ! 7))) off = Some r"
      "\<forall>ip. r = Some ip \<longrightarrow> length ip = 4"
      using dns_answers_total by blast
    with False Some q reads show ?thesis by (auto simp: dns_parse_def)
  qed
qed

theorem dns_parse_safe_witness:
  "\<exists>ip. dns_parse [0, 7, 0x81, 0, 0, 0, 0, 1, 0, 0, 0, 0, 0, 0, 1, 0, 1, 0, 0, 0, 9, 0, 4, 10, 0, 0, 1] 7 =
     Some (Some ip) \<and> length ip = 4"
proof -
  let ?p = "[0, 7, 0x81, 0, 0, 0, 0, 1, 0, 0, 0, 0, 0, 0, 1, 0, 1, 0, 0, 0, 9, 0, 4, 10, 0, 0, 1] :: bytes"
  have "dns_parse ?p 7 \<noteq> Some None" by code_simp
  with dns_parse_safe [of ?p 7] show ?thesis by (metis option.exhaust)
qed

text \<open>The reference: a response with one question and a list of resource records that name the
  question by a compression pointer.\<close>

type_synonym rr = "u16 \<times> u16 \<times> bytes \<times> bytes"

definition enc_rr :: "rr \<Rightarrow> bytes" where
  "enc_rr r = (case r of (ty, cls, ttl, d) \<Rightarrow>
     [0xC0, 0x0C, hi8 ty, lo8 ty, hi8 cls, lo8 cls] @ ttl @
     [hi8 (of_nat (length d)), lo8 (of_nat (length d))] @ d)"

definition rr_ok :: "rr \<Rightarrow> bool" where
  "rr_ok r = (case r of (ty, cls, ttl, d) \<Rightarrow> length ttl = 4 \<and> length d < 65536)"

fun first_a :: "rr list \<Rightarrow> bytes option" where
  "first_a [] = None"
| "first_a ((ty, cls, ttl, d) # rs) =
     (if ty = DNS_TYPE_A \<and> cls = DNS_CLASS_IN \<and> length d = 4 then Some d else first_a rs)"

definition dns_response :: "u16 \<Rightarrow> u8 \<Rightarrow> u8 \<Rightarrow> bytes \<Rightarrow> rr list \<Rightarrow> bytes \<Rightarrow> bytes" where
  "dns_response qid b2 b3 qname rrs extra =
     [hi8 qid, lo8 qid, b2, b3, 0, 1, hi8 (of_nat (length rrs)), lo8 (of_nat (length rrs)), 0, 0, 0, 0] @
     qname @ [0, 1, 0, 1] @ concat (map enc_rr rrs) @ extra"

lemma dns_answers_first:
  "\<forall>r \<in> set rrs. rr_ok r \<Longrightarrow>
   dns_answers (pre @ concat (map enc_rr rrs) @ post) (length rrs) (length pre) = Some (first_a rrs)"
proof (induction rrs arbitrary: pre)
  case Nil
  then show ?case by simp
next
  case (Cons r rrs)
  obtain ty cls ttl d where r: "r = (ty, cls, ttl, d)" by (cases r)
  have ok: "length ttl = 4" "length d < 65536" using Cons.prems by (auto simp: rr_ok_def r)
  obtain t0 t1 t2 t3 where ttl: "ttl = [t0, t1, t2, t3]"
    using ok(1) by (auto simp: numeral_eq_Suc length_Suc_conv)
  let ?n = "of_nat (length d) :: u16"
  let ?rest = "concat (map enc_rr rrs) @ post"
  have e: "enc_rr r = [0xC0, 0x0C, hi8 ty, lo8 ty, hi8 cls, lo8 cls, t0, t1, t2, t3, hi8 ?n, lo8 ?n] @ d"
    by (simp add: enc_rr_def r ttl)
  let ?p = "pre @ enc_rr r @ ?rest"
  have u: "unat ?n = length d" using ok(2) by (simp add: unat_of_nat take_bit_nat_eq_self)
  then have four: "(?n = 4) = (length d = 4)" by (simp add: word_unat_eq_iff)
  have skip: "dns_skip_name ?p (length pre) = Some (Some (length pre + 2))"
    by (subst dns_skip_name.simps) (simp add: e nth_append rd_def)
  have reads: "rd16 ?p (length pre + 2) = Some ty" "rd16 ?p (length pre + 2 + 2) = Some cls"
    "rd16 ?p (length pre + 2 + 8) = Some ?n"
    by (simp_all add: e nth_append)
  have ip: "length d = 4 \<Longrightarrow> rd_n ?p (length pre + 2 + 10) 4 = Some d"
    by (simp add: e rd_n_def)
  have len: "length ?p = length pre + 12 + length d + length ?rest" by (simp add: e)
  have IH: "dns_answers ?p (length rrs) (length pre + 12 + length d) = Some (first_a rrs)"
  proof -
    have "length (pre @ enc_rr r) = length pre + 12 + length d" by (simp add: e)
    with Cons.IH [of "pre @ enc_rr r"] Cons.prems show ?thesis by (simp add: add.assoc)
  qed
  have eq: "length pre + 2 + 10 + length d = length pre + 12 + length d" by simp
  have fa: "first_a (r # rrs) =
      (if ty = DNS_TYPE_A \<and> cls = DNS_CLASS_IN \<and> length d = 4 then Some d else first_a rrs)"
    by (simp add: r)
  have small: "\<not> length ?p < length pre + 2 + 10" "\<not> length ?p < length pre + 2 + 10 + unat ?n"
    using len u by simp_all
  have "dns_answers ?p (Suc (length rrs)) (length pre) =
      (if ty = DNS_TYPE_A \<and> cls = DNS_CLASS_IN \<and> ?n = 4
       then do { x \<leftarrow> rd_n ?p (length pre + 2 + 10) 4; Some (Some x) }
       else dns_answers ?p (length rrs) (length pre + 2 + 10 + unat ?n))"
    unfolding dns_answers.simps(2) skip option.case if_not_P [OF small(1)] reads bind.bind_lunit
      if_not_P [OF small(2)] by (rule refl)
  also have "\<dots> = Some (first_a (r # rrs))"
    unfolding four u eq IH fa using ip by (cases "length d = 4") simp_all
  finally show ?case by simp
qed

text \<open>C13. On a response to the query, with one question and any number of records, the parser
  returns the data of the first IN A record of four bytes, skipping the others (a CNAME chain, an
  AAAA record), and finds nothing exactly when there is none.\<close>

theorem dns_parse_first_address:
  assumes "dns_encode_name cap name = Some qname" and "\<forall>r \<in> set rrs. rr_ok r"
    and "length rrs < 65536" and "b2 AND 0x80 \<noteq> 0" and "b3 AND 0x0F = 0"
  shows "dns_parse (dns_response qid b2 b3 qname rrs extra) qid = Some (first_a rrs)"
proof -
  let ?p = "dns_response qid b2 b3 qname rrs extra"
  let ?n = "of_nat (length rrs) :: u16"
  let ?h = "[hi8 qid, lo8 qid, b2, b3, 0, 1, hi8 ?n, lo8 ?n, 0, 0, 0, 0]"
  have u: "unat ?n = length rrs" using assms(3) by (simp add: unat_of_nat take_bit_nat_eq_self)
  have p: "?p = ?h @ qname @ ([0, 1, 0, 1] @ concat (map enc_rr rrs) @ extra)" by (simp add: dns_response_def)
  have "dns_skip_name ?p (length ?h) = Some (Some (length ?h + length qname))"
    unfolding p using dns_labels_ok [of 0 cap name qname] assms(1) by (simp only: dns_encode_name_def)
  moreover have h: "length ?h = 12" by simp
  ultimately have sk: "dns_skip_name ?p 12 = Some (Some (12 + length qname))" by (simp only: h)
  have lenp: "length ?p = 12 + length qname + 4 + length (concat (map enc_rr rrs) @ extra)" by (simp add: p)
  have q: "dns_questions ?p (Suc 0) 12 = Some (Some (12 + length qname + 4))"
    using sk lenp by simp
  have "dns_answers ((?h @ qname @ [0, 1, 0, 1]) @ concat (map enc_rr rrs) @ extra) (length rrs)
      (length (?h @ qname @ [0, 1, 0, 1])) = Some (first_a rrs)"
    by (rule dns_answers_first [OF assms(2)])
  then have a: "dns_answers ?p (length rrs) (12 + length qname + 4) = Some (first_a rrs)"
  proof -
    have "(?h @ qname @ [0, 1, 0, 1]) @ concat (map enc_rr rrs) @ extra = ?p" by (simp add: p)
    moreover have "length (?h @ qname @ [0, 1, 0, 1]) = 12 + length qname + 4" by simp
    ultimately show "dns_answers ((?h @ qname @ [0, 1, 0, 1]) @ concat (map enc_rr rrs) @ extra) (length rrs)
        (length (?h @ qname @ [0, 1, 0, 1])) = Some (first_a rrs) \<Longrightarrow> ?thesis" by (simp only:)
  qed
  have reads: "rd16 ?p 0 = Some qid" "rd ?p 2 = Some b2" "rd ?p 3 = Some b3" "rd16 ?p 4 = Some 1"
    "rd16 ?p 6 = Some ?n"
  proof -
    have "be16_of 0 1 = 1" by (simp add: be16_of_def)
    then show "rd16 ?p 0 = Some qid" "rd ?p 2 = Some b2" "rd ?p 3 = Some b3" "rd16 ?p 4 = Some 1"
      "rd16 ?p 6 = Some ?n" by (simp_all add: p nth_Cons_numeral)
  qed
  have "\<not> length ?p < DNS_HEADER_LEN" using lenp by (simp add: DNS_HEADER_LEN_def)
  then show ?thesis
    using reads assms(4,5) q a u by (simp add: dns_parse_def DNS_HEADER_LEN_def)
qed

theorem dns_parse_first_address_witness:
  "dns_parse (dns_response 0xBEEF 0x81 0x80 [1, 97, 2, 98, 99, 0]
     [(5, 1, [0, 0, 0, 60], [1, 120, 0]), (1, 1, [0, 0, 0, 60], [93, 184, 216, 34])] []) 0xBEEF =
   Some (Some [93, 184, 216, 34])"
proof -
  let ?rrs = "[(5, 1, [0, 0, 0, 60], [1, 120, 0]), (1, 1, [0, 0, 0, 60], [93, 184, 216, 34])] :: rr list"
  have "dns_encode_name 20 [97, 46, 98, 99] = Some [1, 97, 2, 98, 99, 0]"
    by (simp add: dns_encode_name_def dns_labels.simps)
  moreover have "\<forall>r \<in> set ?rrs. rr_ok r" "length ?rrs < 65536" by (simp_all add: rr_ok_def)
  moreover have "(0x81 :: u8) AND 0x80 \<noteq> 0" "(0x80 :: u8) AND 0x0F = 0" by code_simp+
  ultimately have "dns_parse (dns_response 0xBEEF 0x81 0x80 [1, 97, 2, 98, 99, 0] ?rrs []) 0xBEEF = Some (first_a ?rrs)"
    by (rule dns_parse_first_address)
  then show ?thesis by (simp add: dns_consts)
qed

end
