(* ===== verification/Net_Host.thy ===== *)
theory Net_Host
  imports Dns Dhcp_Props
begin

text \<open>
  The sockets of the DHCP client and the resolver, proved once over the interface: a host adds to
  the socket vtable the clock, the random source and the two operations on the interface, none of
  which opens or closes a socket. The TOE build provides it.
\<close>

lemma dhcp_transmit_cases:
  assumes "dhcp_transmit e now c w = Some (b, c', w')"
  obtains (idle) "w' = w"
    | (spent) "w' = snd (dhcp_enter_selecting e c w)"
    | (sent) c1 ty where "dhcp_send e c1 ty w = Some w'"
proof -
  have "w' = w \<or> w' = snd (dhcp_enter_selecting e c w) \<or> (\<exists>c1 ty. dhcp_send e c1 ty w = Some w')"
    using assms unfolding dhcp_transmit_def Let_def
    by (cases "dhcp_enter_selecting e c w") (simp split: if_split_asm option.split_asm, blast+)
  then show thesis using that by blast
qed

text \<open>Any number of polls.\<close>

fun dhcp_polls :: "'w dhcp_env \<Rightarrow> nat \<Rightarrow> wsm_dhcp_client \<Rightarrow> 'w \<Rightarrow> (wsm_dhcp_client \<times> 'w) option" where
  "dhcp_polls e 0 c w = Some (c, w)"
| "dhcp_polls e (Suc k) c w =
     (case wsm_dhcp_poll e c w of None \<Rightarrow> None | Some (_, c1, w1) \<Rightarrow> dhcp_polls e k c1 w1)"

locale net_host = net_sock "e_sock e" inv fds
  for e :: "'w dhcp_env" and inv :: "'w \<Rightarrow> bool" and fds :: "'w \<Rightarrow> int set" +
  assumes timer_law: "inv w \<Longrightarrow> inv (snd (e_timer e w)) \<and> fds (snd (e_timer e w)) = fds w"
    and random_law: "inv w \<Longrightarrow> inv (snd (e_random e w)) \<and> fds (snd (e_random e w)) = fds w"
    and prepare_law: "inv w \<Longrightarrow> inv (snd (e_prepare e w)) \<and> fds (snd (e_prepare e w)) = fds w"
    and apply_law: "inv w \<Longrightarrow> inv (e_apply_lease e l w) \<and> fds (e_apply_lease e l w) = fds w"
begin

lemma recv_mode: "inv w \<Longrightarrow> inv (sock_set_recv_mode (e_sock e) nb fd ms w) \<and>
    fds (sock_set_recv_mode (e_sock e) nb fd ms w) = fds w"
  using setsockopt_law fcntl_law by (auto simp: sock_set_recv_mode_def split: option.split)

lemma bind_iface: "inv w \<Longrightarrow> inv (sock_bind_iface e fd nm w) \<and> fds (sock_bind_iface e fd nm w) = fds w"
  using setsockopt_law by (simp add: sock_bind_iface_def Let_def)

lemma selecting:
  "inv w \<Longrightarrow> inv (snd (dhcp_enter_selecting e c w)) \<and> fds (snd (dhcp_enter_selecting e c w)) = fds w"
  using random_law [of w] by (simp add: dhcp_enter_selecting_def split_beta)

lemma send_keeps:
  assumes "inv w" and "dhcp_send e c ty w = Some w'"
  shows "inv w' \<and> fds w' = fds w"
proof -
  obtain r where "ops_sendto (e_sock e) (c_fd c) (dhcp_build c ty)
      \<lparr>sin_family_inet = True, sin_port = lwip_htons DHCP_SERVER_PORT, sin_addr = lwip_htonl (-1)\<rparr> w = Some (r, w')"
    using assms(2) by (auto simp: dhcp_send_def)
  from sendto_law [OF assms(1) this] show ?thesis .
qed

lemma transmit_keeps:
  assumes "inv w" and "dhcp_transmit e now c w = Some (b, c', w')"
  shows "inv w' \<and> fds w' = fds w"
  using assms(2)
proof (cases rule: dhcp_transmit_cases)
  case idle
  with assms(1) show ?thesis by simp
next
  case spent
  with selecting [OF assms(1), of c] show ?thesis by simp
next
  case (sent c1 ty)
  from send_keeps [OF assms(1) this] show ?thesis .
qed

lemma dispatch_keeps:
  assumes "inv w" and "dhcp_dispatch e ty got c w = (res, c', w')"
  shows "inv w' \<and> fds w' = fds w"
proof (cases "ty \<noteq> 0 \<and> ty \<noteq> DHCPNAK \<and> c_state c = ST_REQUESTING \<and> ty = DHCPACK")
  case True
  have "inv (e_apply_lease e got w) \<and> fds (e_apply_lease e got w) = fds w" by (rule apply_law [OF assms(1)])
  with timer_law [of "e_apply_lease e got w"] True assms show ?thesis
    by (auto simp: dhcp_dispatch_def Let_def split: prod.splits)
next
  case False
  with assms selecting [OF assms(1), of c] show ?thesis
    by (auto simp: dhcp_dispatch_def Let_def split: if_splits prod.splits)
qed

lemma turns_keep:
  "dhcp_turns e k c w = Some (r, c', w') \<Longrightarrow> inv w \<Longrightarrow> inv w' \<and> fds w' = fds w"
proof (induction k arbitrary: c w)
  case 0
  then show ?case by simp
next
  case (Suc k)
  obtain now w1 where t: "e_timer e w = (now, w1)" by (cases "e_timer e w")
  have k1: "inv w1 \<and> fds w1 = fds w" using timer_law [OF Suc.prems(2)] t by simp
  show ?case
  proof (cases "c_state c = ST_BOUND \<and> now < c_renew_at_us c")
    case True
    with Suc.prems t k1 show ?thesis by auto
  next
    case False
    obtain c2 w2 where c2: "(if c_state c = ST_BOUND then dhcp_enter_selecting e c w1 else (c, w1)) = (c2, w2)"
      by (cases "if c_state c = ST_BOUND then dhcp_enter_selecting e c w1 else (c, w1)")
    have k2: "inv w2 \<and> fds w2 = fds w" using c2 k1 selecting [of w1 c] by (auto split: if_splits)
    obtain failed c3 w3 where tr: "dhcp_transmit e now c2 w2 = Some (failed, c3, w3)"
      using Suc.prems(1) t False c2 by (auto split: option.splits)
    have k3: "inv w3 \<and> fds w3 = fds w" using transmit_keeps [OF _ tr] k2 by simp
    note step = Suc.prems(1) [simplified dhcp_turns.simps t Let_def prod.case if_not_P [OF False] c2 tr option.case]
    show ?thesis
    proof (cases failed)
      case True
      with step k3 show ?thesis by simp
    next
      case nf: False
      obtain n buf a w4 where rv: "ops_recvfrom (e_sock e) (c_fd c3) WSM_DHCP_BUF_SIZE None w3 = Some ((n, buf, a), w4)"
        using step nf by (auto split: option.splits)
      have k4: "inv w4 \<and> fds w4 = fds w" using recvfrom_law [OF _ rv] k3 by simp
      show ?thesis
      proof (cases "n \<le> 0")
        case True
        with step nf rv k4 show ?thesis by simp
      next
        case n: False
        obtain ty got sid where pr: "dhcp_parse c3 (take (nat n) buf) = Some (ty, got, sid)"
          using dhcp_parse_some by blast
        let ?g = "case got of Some g \<Rightarrow> g | None \<Rightarrow> netinfo_zero"
        obtain res c5 w5 where d: "dhcp_dispatch e ty ?g (c3\<lparr>c_server_id := sid\<rparr>) w4 = (res, c5, w5)"
          by (metis prod_cases3)
        have k5: "inv w5 \<and> fds w5 = fds w" using dispatch_keeps [OF _ d] k4 by simp
        note step2 = step [simplified nf rv pr n d option.case prod.case if_False]
        show ?thesis
        proof (cases res)
          case None
          with step2 n have "dhcp_turns e k c5 w5 = Some (r, c', w')" by simp
          from Suc.IH [OF this] k5 show ?thesis by simp
        next
          case (Some q)
          with step2 n k5 show ?thesis by (auto split: prod.splits)
        qed
      qed
    qed
  qed
qed

lemma poll_keeps: "wsm_dhcp_poll e c w = Some (r, c', w') \<Longrightarrow> inv w \<Longrightarrow> inv w' \<and> fds w' = fds w"
  by (auto simp: wsm_dhcp_poll_def dhcp_step_def dest: turns_keep split: if_splits)

lemma open_effect:
  assumes "dhcp_open e c w = Some ((ok, c'), w')" and "inv w"
  shows "inv w' \<and> (if ok then 0 \<le> c_fd c' \<and> c_fd c' \<notin> fds w \<and> fds w' = insert (c_fd c') (fds w)
     else c' = c \<and> fds w' = fds w)"
proof -
  let ?sk = "e_sock e"
  obtain fd w1 where so: "ops_socket ?sk 2 2 17 w = (fd, w1)" by (cases "ops_socket ?sk 2 2 17 w")
  note S = socket_law [OF assms(2) so]
  show ?thesis
  proof (cases "fd < 0")
    case True
    with assms(1) so S show ?thesis by (auto simp: dhcp_open_def)
  next
    case False
    let ?w4 = "sock_set_recv_mode ?sk (e_O_NONBLOCK e) fd (c_recv_timeout_ms c)
       (ops_setsockopt ?sk fd SOL_SOCKET SO_REUSEADDR (le32_bytes 1)
         (ops_setsockopt ?sk fd SOL_SOCKET SO_BROADCAST (le32_bytes 1) w1))"
    let ?w5 = "sock_bind_iface e fd (c_ifname c) ?w4"
    have k5: "inv ?w5 \<and> fds ?w5 = insert fd (fds w)"
      using S False setsockopt_law recv_mode bind_iface by (metis not_less)
    obtain r w6 where b: "ops_bind ?sk fd
        \<lparr>sin_family_inet = True, sin_port = lwip_htons DHCP_CLIENT_PORT, sin_addr = lwip_htonl 0\<rparr> ?w5 = (r, w6)"
      by (meson surj_pair)
    have k6: "inv w6 \<and> fds w6 = insert fd (fds w)" using bind_law [OF _ b] k5 by simp
    note st = assms(1) [unfolded dhcp_open_def Let_def so prod.case if_not_P [OF False] b]
    show ?thesis
    proof (cases "r < 0")
      case True
      then obtain w7 where cl: "ops_close ?sk fd w6 = Some w7" "ok = False" "c' = c" "w' = w7"
        using st by (auto split: option.splits)
      with close_law [OF _ _ cl(1)] k6 S False show ?thesis by auto
    next
      case nr: False
      with st have "ok" "c' = c\<lparr>c_fd := fd\<rparr>" "w' = w6" by auto
      with k6 S False show ?thesis by auto
    qed
  qed
qed

lemma start_effect:
  assumes "wsm_dhcp_start e c w = Some ((st, c'), w')" and "inv w" and "c_fd c < 0"
  shows "inv w' \<and> (if st = ESP_OK then 0 \<le> c_fd c' \<and> c_fd c' \<notin> fds w \<and> fds w' = insert (c_fd c') (fds w)
     else c_fd c' < 0 \<and> fds w' = fds w)"
proof -
  obtain mac ifn w1 where p: "e_prepare e w = ((mac, ifn), w1)" by (metis surj_pair)
  have k1: "inv w1 \<and> fds w1 = fds w" using prepare_law [OF assms(2)] p by simp
  obtain c1 w2 where se: "dhcp_enter_selecting e (c\<lparr>c_mac := mac, c_ifname := ifn\<rparr>) w1 = (c1, w2)"
    by (cases "dhcp_enter_selecting e (c\<lparr>c_mac := mac, c_ifname := ifn\<rparr>) w1")
  have k2: "inv w2 \<and> fds w2 = fds w" using selecting [of w1 "c\<lparr>c_mac := mac, c_ifname := ifn\<rparr>"] se k1 by simp
  have fd: "c_fd c1 < 0"
    using enter_selecting_facts(1) [OF se] assms(3) by (simp add: same_setup_def)
  obtain ok c3 w3 where op: "dhcp_open e (c1\<lparr>c_bound := False\<rparr>) w2 = Some ((ok, c3), w3)"
    and r: "st = (if ok then ESP_OK else ESP_FAIL)" "c' = c3" "w' = w3"
    using assms(1,3) p se by (auto simp: wsm_dhcp_start_def split: option.splits)
  from open_effect [OF op] k2 r fd show ?thesis by (auto split: if_splits)
qed

lemma stop_effect:
  assumes "wsm_dhcp_stop e c w = Some (c', w')" and "inv w" and "0 \<le> c_fd c" and "c_fd c \<in> fds w"
  shows "inv w' \<and> fds w' = fds w - {c_fd c} \<and> c_fd c' = -1 \<and> \<not> c_bound c'"
proof -
  obtain w1 where cl: "ops_close (e_sock e) (c_fd c) w = Some w1"
    using assms(1,3) by (cases "ops_close (e_sock e) (c_fd c) w") (simp_all add: wsm_dhcp_stop_def)
  have "wsm_dhcp_stop e c w = Some (c\<lparr>c_fd := -1, c_state := ST_SELECTING, c_bound := False,
      c_lease := netinfo_zero\<rparr>, w1)"
    using assms(3) cl by (simp add: wsm_dhcp_stop_def)
  with assms(1) have "c' = c\<lparr>c_fd := -1, c_state := ST_SELECTING, c_bound := False,
      c_lease := netinfo_zero\<rparr>" "w' = w1" by simp_all
  with close_law [OF assms(2,4) cl] show ?thesis by simp
qed

lemma polls_keep: "dhcp_polls e k c w = Some (c', w') \<Longrightarrow> inv w \<Longrightarrow> inv w' \<and> fds w' = fds w"
proof (induction k arbitrary: c w)
  case 0
  then show ?case by simp
next
  case (Suc k)
  then obtain r c1 w1 where p: "wsm_dhcp_poll e c w = Some (r, c1, w1)" "dhcp_polls e k c1 w1 = Some (c', w')"
    by (auto split: option.splits)
  from poll_keeps [OF p(1) Suc.prems(2)] Suc.IH [OF p(2)] show ?case by simp
qed

lemma resolve_keeps:
  assumes "dns_resolve e (e_sock e) server name tmo w = Some (res, w')" and "inv w"
  shows "inv w' \<and> fds w' = fds w"
proof (cases "take 4 server = [0, 0, 0, 0]")
  case True
  with assms show ?thesis by (auto simp: dns_resolve_def)
next
  case srv: False
  let ?sk = "e_sock e"
  obtain fd w1 where so: "ops_socket ?sk 2 2 17 w = (fd, w1)" by (cases "ops_socket ?sk 2 2 17 w")
  note S = socket_law [OF assms(2) so]
  show ?thesis
  proof (cases "fd < 0")
    case True
    with assms(1) so S srv show ?thesis by (auto simp: dns_resolve_def)
  next
    case fd: False
    let ?w2 = "sock_set_recv_mode ?sk (e_O_NONBLOCK e) fd tmo w1"
    obtain x w3 where rn: "e_random e ?w2 = (x, w3)" by (cases "e_random e ?w2")
    have k3: "inv w3 \<and> fds w3 = insert fd (fds w)"
      using S fd recv_mode [of w1 "e_O_NONBLOCK e" fd tmo] random_law [of ?w2] rn by simp
    have close: "inv w'' \<and> fds w'' = fds w"
      if "ops_close ?sk fd u = Some w''" "inv u \<and> fds u = insert fd (fds w)" for u w''
      using close_law [OF _ _ that(1)] that(2) S fd by auto
    note st = assms(1) [unfolded dns_resolve_def Let_def so prod.case if_not_P [OF srv] if_not_P [OF fd] rn]
    show ?thesis
    proof (cases "dns_encode_name (512 - DNS_HEADER_LEN - 4) name")
      case None
      with st close k3 show ?thesis by auto
    next
      case (Some nm)
      let ?msg = "dns_header (ucast x) @ nm @ [0, 1, 0, 1]"
      let ?dest = "\<lparr>sin_family_inet = True, sin_port = lwip_htons DNS_SERVER_PORT, sin_addr = le32 server\<rparr>"
      obtain n w4 where sd: "ops_sendto ?sk fd ?msg ?dest w3 = Some (n, w4)"
        using st Some by (auto split: option.splits)
      have k4: "inv w4 \<and> fds w4 = insert fd (fds w)" using sendto_law [OF _ sd] k3 by simp
      show ?thesis
      proof (cases "0 < n")
        case False
        with st Some sd close k4 show ?thesis by auto
      next
        case n: True
        then obtain r buf a w5 where rv: "ops_recvfrom ?sk fd 512 None w4 = Some ((r, buf, a), w5)"
          using st Some sd by (auto split: option.splits)
        have k5: "inv w5 \<and> fds w5 = insert fd (fds w)" using recvfrom_law [OF _ rv] k4 by simp
        obtain u where "ops_close ?sk fd w5 = Some u" "w' = u"
          using st Some sd n rv by (auto split: option.splits if_splits)
        with close k5 show ?thesis by blast
      qed
    qed
  qed
qed

end

section \<open>The TOE build as a host\<close>

interpretation toe_host: net_host "wsm_dhcp_eth_env io timer rnd fuel off nb ifn" toe_inv "toe_fds off"
  for io timer rnd fuel off nb ifn
proof -
  have s: "net_sock (e_sock (wsm_dhcp_eth_env io timer rnd fuel off nb ifn)) toe_inv (toe_fds off)"
    by (simp add: wsm_dhcp_eth_env_def toe_sock.net_sock_axioms)
  have live_chip_do: "live (chip_do f s) = live s" for f and s :: "'a toe" by (simp add: chip_do_def)
  show "net_host (wsm_dhcp_eth_env io timer rnd fuel off nb ifn) toe_inv (toe_fds off)"
    by (intro net_host.intro net_host_axioms.intro s)
      (simp_all add: wsm_dhcp_eth_env_def eth_prepare_def eth_apply_lease_def chip_pairs Let_def
        toe_fds_def split_beta)
qed

section \<open>No hardware socket leaks\<close>

lemma poll_client:
  assumes "wsm_dhcp_poll e c w = Some (r, c', w')" and "client_ok c"
  shows "client_ok c' \<and> c_fd c' = c_fd c"
proof (cases "c_fd c < 0")
  case True
  with assms show ?thesis by (simp add: wsm_dhcp_poll_def)
next
  case False
  obtain st info where r: "r = (st, info)" by (cases r)
  from False assms(1) r have "dhcp_turns e (unat (c_step_packets c)) c w = Some ((st, info), c', w')"
    by (simp add: wsm_dhcp_poll_def dhcp_step_def)
  from turns_result [OF this assms(2)] show ?thesis by (simp add: poll_result_ok_def same_setup_def)
qed

lemma polls_client:
  "dhcp_polls e k c w = Some (c', w') \<Longrightarrow> client_ok c \<Longrightarrow> client_ok c' \<and> c_fd c' = c_fd c"
proof (induction k arbitrary: c w)
  case 0
  then show ?case by simp
next
  case (Suc k)
  then obtain r c1 w1 where p: "wsm_dhcp_poll e c w = Some (r, c1, w1)" "dhcp_polls e k c1 w1 = Some (c', w')"
    by (auto split: option.splits)
  from poll_client [OF p(1) Suc.prems(2)] Suc.IH [OF p(2)] show ?case by simp
qed

lemma start_client:
  assumes "wsm_dhcp_start e c w = Some ((st, c'), w')" and "c_fd c < 0"
  shows "client_ok c'"
proof -
  obtain mac ifn w1 where p: "e_prepare e w = ((mac, ifn), w1)" by (metis surj_pair)
  obtain c1 w2 where se: "dhcp_enter_selecting e (c\<lparr>c_mac := mac, c_ifname := ifn\<rparr>) w1 = (c1, w2)"
    by (cases "dhcp_enter_selecting e (c\<lparr>c_mac := mac, c_ifname := ifn\<rparr>) w1")
  have ok: "client_ok (c1\<lparr>c_bound := False\<rparr>)"
    using enter_selecting_facts(2,3) [OF se] by (simp add: client_ok_def)
  obtain b c3 w3 where op: "dhcp_open e (c1\<lparr>c_bound := False\<rparr>) w2 = Some ((b, c3), w3)" and "c' = c3"
    using assms p se by (auto simp: wsm_dhcp_start_def split: option.splits)
  moreover have "client_ok c3"
    using op ok unfolding dhcp_open_def Let_def
    by (auto simp: client_ok_def split: prod.splits if_splits option.splits)
  ultimately show ?thesis by simp
qed

text \<open>A DHCP session on the TOE build is balanced: the socket start() takes was not in use, every
  poll leaves the set of open sockets alone whatever the network sends, and after stop() exactly the
  sockets that were open before are open again.\<close>

theorem dhcp_session_balanced:
  fixes io :: "'c iolib"
  assumes e_def: "e = wsm_dhcp_eth_env io timer rnd fuel off nb ifn"
    and "toe_reach io s" and "c_fd c < 0"
    and "wsm_dhcp_start e c s = Some ((ESP_OK, c1), s1)"
    and "dhcp_polls e k c1 s1 = Some (c2, s2)" and "wsm_dhcp_stop e c2 s2 = Some (c3, s3)"
  shows "c_fd c1 \<notin> toe_fds off s \<and> toe_fds off s2 = insert (c_fd c1) (toe_fds off s) \<and>
     toe_fds off s3 = toe_fds off s \<and> c_fd c3 = -1 \<and> toe_inv s3"
proof -
  have inv: "toe_inv s" by (rule reach_toe_inv [OF assms(2)])
  note st = toe_host.start_effect [OF assms(4) [unfolded e_def] inv assms(3), simplified]
  have ok: "client_ok c1" by (rule start_client [OF assms(4,3)])
  note po = toe_host.polls_keep [OF assms(5) [unfolded e_def] conjunct1 [OF st]]
  have fd: "c_fd c2 = c_fd c1" using polls_client [OF assms(5) ok] by simp
  have in2: "c_fd c2 \<in> toe_fds off s2" "0 \<le> c_fd c2" using st po fd by auto
  from toe_host.stop_effect [OF assms(6) [unfolded e_def] conjunct1 [OF po] in2(2,1)] st po fd
  show ?thesis by auto
qed

definition sim_timer :: "sim \<Rightarrow> int \<times> sim" where "sim_timer c = (int (sim_now c), c)"
definition sim_random :: "sim \<Rightarrow> u32 \<times> sim" where "sim_random c = (0xCAFE0001, c)"

definition sim_env :: "sim toe dhcp_env" where
  "sim_env = wsm_dhcp_eth_env sim_io sim_timer sim_random 1 54 0x4000 6"

text \<open>A client whose settings are the defaults, on the simulated chip with the listener and its
  pending connection: one socket more while it runs.\<close>

definition sim_session :: "(wsm_dhcp_client \<times> sim toe) option" where
  "sim_session = (case wsm_dhcp_start sim_env sim_client sim_pending of
     Some ((ESP_OK, c1), s1) \<Rightarrow> Some (c1, s1) | _ \<Rightarrow> None)"

theorem dhcp_session_balanced_witness:
  "\<exists>c1 s1 c3 s3. sim_session = Some (c1, s1) \<and> c_fd c1 = 55 \<and> wsm_dhcp_stop sim_env c1 s1 = Some (c3, s3) \<and>
     toe_fds 54 s3 = toe_fds 54 sim_pending"
proof -
  have run: "(case wsm_dhcp_start sim_env sim_client sim_pending of
      Some ((e, c1), s1) \<Rightarrow> e = ESP_OK \<and> c_fd c1 = 55 \<and> wsm_dhcp_stop sim_env c1 s1 \<noteq> None
    | None \<Rightarrow> False)" "c_fd sim_client < 0"
    by code_simp+
  then obtain c1 s1 c3 s3 where st: "wsm_dhcp_start sim_env sim_client sim_pending = Some ((ESP_OK, c1), s1)"
    "c_fd c1 = 55" "wsm_dhcp_stop sim_env c1 s1 = Some (c3, s3)"
    by (auto split: option.splits)
  have "dhcp_polls sim_env 0 c1 s1 = Some (c1, s1)" by simp
  from dhcp_session_balanced [OF sim_env_def sim_reach_pending run(2) st(1) this st(3)] st
  show ?thesis by (auto simp: sim_session_def)
qed

text \<open>A name lookup on the TOE build leaves the set of open sockets as it found it on every path:
  no server configured, no socket free, a name that cannot be encoded, a send that fails, no answer,
  a malformed answer, and success.\<close>

theorem dns_resolve_releases:
  assumes "toe_reach io s"
    and "wsm_dns_resolve (wsm_dhcp_eth_env io timer rnd fuel off nb ifn) None args server name tmo s = Some (r, s')"
  shows "toe_fds off s' = toe_fds off s \<and> toe_inv s'"
proof (cases args)
  case False
  with assms reach_toe_inv show ?thesis by (auto simp: wsm_dns_resolve_def)
next
  case True
  then obtain t res where
    "dns_resolve (wsm_dhcp_eth_env io timer rnd fuel off nb ifn)
       (e_sock (wsm_dhcp_eth_env io timer rnd fuel off nb ifn)) server name t s = Some (res, s')"
    using assms(2) by (auto simp: wsm_dns_resolve_def Let_def)
  from toe_host.resolve_keeps [OF this reach_toe_inv [OF assms(1)]] show ?thesis by simp
qed

theorem dns_resolve_releases_witness:
  "\<exists>s'. wsm_dns_resolve sim_env None True [8, 8, 8, 8] [97, 46, 46, 98] 5 sim_pending =
       Some ((ESP_FAIL, None), s') \<and> toe_fds 54 s' = toe_fds 54 sim_pending"
proof -
  have "(case wsm_dns_resolve sim_env None True [8, 8, 8, 8] [97, 46, 46, 98] 5 sim_pending of
      Some (r, s') \<Rightarrow> r = (ESP_FAIL, None) | None \<Rightarrow> False)" by code_simp
  then obtain s' where w: "wsm_dns_resolve sim_env None True [8, 8, 8, 8] [97, 46, 46, 98] 5 sim_pending =
       Some ((ESP_FAIL, None), s')"
    by (auto split: option.splits)
  from dns_resolve_releases [OF sim_reach_pending w [unfolded sim_env_def]] w show ?thesis by auto
qed

end
