(* ===== verification/Tftp.thy ===== *)
theory Tftp
  imports Net_Host
begin

text \<open>
  The TFTP read client: the transport seam over the socket vtable (\<open>tftp_transport.c\<close>), the
  protocol engine with its globals (\<open>tftp_core.c\<close>), and the task that drives it
  (\<open>tftp_client.c\<close>). A result \<open>None\<close> means that a call did not return or that the C code reads
  or writes outside an array.
\<close>

section \<open>State\<close>

datatype tftp_state = STATE_NONE | STATE_RRQ | STATE_WRQ | STATE_DATA | STATE_ACK | STATE_OACK

datatype tftp_progress = TFTP_PROGRESS | TFTP_FAIL | TFTP_SUCCESS

definition TFTP_RRQ :: u16 where "TFTP_RRQ = 1"
definition TFTP_WRQ :: u16 where "TFTP_WRQ = 2"
definition TFTP_DATA :: u16 where "TFTP_DATA = 3"
definition TFTP_ACK :: u16 where "TFTP_ACK = 4"
definition TFTP_ERROR :: u16 where "TFTP_ERROR = 5"
definition TFTP_OACK :: u16 where "TFTP_OACK = 6"

definition TFTP_SERVER_PORT :: u16 where "TFTP_SERVER_PORT = 69"
definition TFTP_TEMP_PORT :: u16 where "TFTP_TEMP_PORT = 51000"
definition TFTP_BLK_SIZE :: u32 where "TFTP_BLK_SIZE = 512"
definition MAX_MTU_SIZE :: nat where "MAX_MTU_SIZE = 1514"
definition FILE_NAME_SIZE :: nat where "FILE_NAME_SIZE = 20"

lemmas tftp_opcodes = TFTP_RRQ_def TFTP_WRQ_def TFTP_DATA_def TFTP_ACK_def TFTP_ERROR_def TFTP_OACK_def

text \<open>
  The globals of the three files. \<open>t_ops\<close> is the vtable the transport is bound to, \<open>t_net\<close> what is
  behind it. \<open>t_saved\<close> records the calls of the storage hook: the buffer from the data pointer on,
  the length and the block number it was given.
\<close>

record 'w tftp =
  t_ops :: "'w net_sock_ops option"
  t_net :: 'w
  t_socket :: int
  t_filename :: bytes
  t_server_ip :: u32
  t_server_port :: u16
  t_local_port :: u16
  t_state :: tftp_state
  t_block_num :: u16
  t_timeout :: u32
  t_resend_flag :: bool
  t_time_cnt :: u32
  t_retry_cnt :: u32
  t_rcv_buf :: bytes
  t_progress :: tftp_progress
  t_saved :: "(bytes \<times> u32 \<times> u16) list"
  t_bytes_received :: u32
  t_blocks_received :: u16

definition tftp_boot :: "'w \<Rightarrow> 'w tftp" where
  "tftp_boot w = \<lparr>t_ops = None, t_net = w, t_socket = -1, t_filename = replicate FILE_NAME_SIZE 0,
     t_server_ip = 0, t_server_port = 0, t_local_port = 0, t_state = STATE_NONE, t_block_num = 0,
     t_timeout = 5, t_resend_flag = False, t_time_cnt = 0, t_retry_cnt = 0, t_rcv_buf = [],
     t_progress = TFTP_PROGRESS, t_saved = [], t_bytes_received = 0, t_blocks_received = 0\<rparr>"

section \<open>The transport\<close>

definition TFTP_RECV_TIMEOUT_MS :: u32 where "TFTP_RECV_TIMEOUT_MS = 200"

definition tftp_transport_bind :: "'w net_sock_ops \<Rightarrow> 'w tftp \<Rightarrow> 'w tftp" where
  "tftp_transport_bind ops s = s\<lparr>t_ops := Some ops\<rparr>"

definition tftp_transport_open :: "u16 \<Rightarrow> 'w tftp \<Rightarrow> (int \<times> 'w tftp) option" where
  "tftp_transport_open local_port s =
     (case t_ops s of None \<Rightarrow> Some (-1, s)
      | Some ops \<Rightarrow>
        let (fd, w1) = ops_socket ops 2 2 17 (t_net s) in
        if fd < 0 then Some (-1, s\<lparr>t_net := w1\<rparr>)
        else let (r, w2) = ops_bind ops fd
                   \<lparr>sin_family_inet = True, sin_port = lwip_htons local_port, sin_addr = 0\<rparr> w1 in
          if r < 0 then map_option (\<lambda>w3. (-1, s\<lparr>t_net := w3\<rparr>)) (ops_close ops fd w2)
          else Some (fd, s\<lparr>t_net := ops_setsockopt ops fd SOL_SOCKET SO_RCVTIMEO
                                     (timeval_bytes TFTP_RECV_TIMEOUT_MS) w2\<rparr>))"

definition tftp_transport_send :: "int \<Rightarrow> bytes \<Rightarrow> u32 \<Rightarrow> u16 \<Rightarrow> 'w tftp \<Rightarrow> (int \<times> 'w tftp) option" where
  "tftp_transport_send fd buf ip port s =
     (case t_ops s of None \<Rightarrow> None
      | Some ops \<Rightarrow>
        map_option (\<lambda>(n, w). (if n < 0 then -1 else n, s\<lparr>t_net := w\<rparr>))
          (ops_sendto ops fd buf
             \<lparr>sin_family_inet = True, sin_port = lwip_htons port, sin_addr = bswap32 ip\<rparr> (t_net s)))"

text \<open>A receive that returns data but no sender leaves the address uninitialised.\<close>

definition tftp_transport_recv ::
  "int \<Rightarrow> nat \<Rightarrow> 'w tftp \<Rightarrow> ((int \<times> bytes \<times> u32 \<times> u16) \<times> 'w tftp) option" where
  "tftp_transport_recv fd len s =
     (case t_ops s of None \<Rightarrow> None
      | Some ops \<Rightarrow>
        case ops_recvfrom ops fd len (Some 16) (t_net s) of None \<Rightarrow> None
        | Some ((n, b, from), w) \<Rightarrow>
          if n \<le> 0 then Some ((-1, b, 0, 0), s\<lparr>t_net := w\<rparr>)
          else case from of None \<Rightarrow> None
               | Some a \<Rightarrow> Some ((n, b, bswap32 (sin_addr a), lwip_htons (sin_port a)), s\<lparr>t_net := w\<rparr>))"

definition tftp_transport_close :: "int \<Rightarrow> 'w tftp \<Rightarrow> 'w tftp option" where
  "tftp_transport_close fd s =
     (if 0 \<le> fd
      then (case t_ops s of None \<Rightarrow> None
            | Some ops \<Rightarrow> map_option (\<lambda>w. s\<lparr>t_net := w\<rparr>) (ops_close ops fd (t_net s)))
      else Some s)"

section \<open>The engine\<close>

definition tftp_htons :: "u16 \<Rightarrow> u16" where
  "tftp_htons v = push_bit 8 v OR drop_bit 8 v"

definition set_filename :: "bytes \<Rightarrow> 'w tftp \<Rightarrow> 'w tftp option" where
  "set_filename file s =
     (if length file \<le> FILE_NAME_SIZE
      then Some (s\<lparr>t_filename := file @ drop (length file) (t_filename s)\<rparr>) else None)"

definition open_tftp_socket :: "'w tftp \<Rightarrow> (int \<times> 'w tftp) option" where
  "open_tftp_socket = tftp_transport_open TFTP_TEMP_PORT"

definition send_udp_packet :: "int \<Rightarrow> bytes \<Rightarrow> u32 \<Rightarrow> u16 \<Rightarrow> 'w tftp \<Rightarrow> (int \<times> 'w tftp) option" where
  "send_udp_packet sock packet ip port s =
     map_option (\<lambda>(n, s1). (if n \<noteq> int (length packet) then -1 else n, s1))
       (tftp_transport_send sock packet ip port s)"

definition recv_udp_packet ::
  "int \<Rightarrow> nat \<Rightarrow> 'w tftp \<Rightarrow> ((int \<times> bytes \<times> u32 \<times> u16) \<times> 'w tftp) option" where
  "recv_udp_packet = tftp_transport_recv"

definition close_tftp_socket :: "int \<Rightarrow> 'w tftp \<Rightarrow> 'w tftp option" where
  "close_tftp_socket = tftp_transport_close"

definition init_tftp :: "'w tftp \<Rightarrow> 'w tftp" where
  "init_tftp s = s\<lparr>t_filename := (t_filename s)[0 := 0], t_server_ip := 0, t_server_port := 0,
     t_local_port := 0, t_state := STATE_NONE, t_block_num := 0, t_resend_flag := False,
     t_retry_cnt := 0, t_time_cnt := 0, t_progress := TFTP_PROGRESS\<rparr>"

definition tftp_cancel_timeout :: "'w tftp \<Rightarrow> 'w tftp" where
  "tftp_cancel_timeout s =
     (if t_resend_flag s then s\<lparr>t_resend_flag := False, t_retry_cnt := 0, t_time_cnt := 0\<rparr> else s)"

definition tftp_reg_timeout :: "'w tftp \<Rightarrow> 'w tftp" where
  "tftp_reg_timeout s =
     (if \<not> t_resend_flag s then s\<lparr>t_resend_flag := True, t_retry_cnt := 0, t_time_cnt := 0\<rparr> else s)"

text \<open>The bytes of \<open>"octet"\<close>, and of the one option the client asks for, \<open>"timeout" = "5"\<close>.\<close>

definition TRANS_BINARY :: bytes where "TRANS_BINARY = [111, 99, 116, 101, 116]"

definition default_tftp_opt :: "(bytes \<times> bytes) list" where
  "default_tftp_opt = [([116, 105, 109, 101, 111, 117, 116], [53])]"

text \<open>The request holds two bytes of opcode and every string with its terminator; the buffer it is
  built in has \<open>MAX_MTU_SIZE\<close> bytes. A string is given without its terminator.\<close>

definition rrq_packet :: "bytes \<Rightarrow> bytes \<Rightarrow> (bytes \<times> bytes) list \<Rightarrow> bytes" where
  "rrq_packet filename mode opt =
     [hi8 TFTP_RRQ, lo8 TFTP_RRQ] @ filename @ [0] @ mode @ [0] @
     concat (map (\<lambda>(code, val). code @ [0] @ val @ [0]) opt)"

definition send_tftp_rrq :: "bytes \<Rightarrow> bytes \<Rightarrow> (bytes \<times> bytes) list \<Rightarrow> 'w tftp \<Rightarrow> 'w tftp option" where
  "send_tftp_rrq filename mode opt s =
     (let pkt = rrq_packet filename mode opt in
      if MAX_MTU_SIZE < length pkt then None
      else case send_udp_packet (t_socket s) pkt (t_server_ip s) TFTP_SERVER_PORT s of None \<Rightarrow> None
           | Some (_, s1) \<Rightarrow>
             map_option tftp_reg_timeout (set_filename (filename @ [0]) (s1\<lparr>t_state := STATE_RRQ\<rparr>)))"

definition ack_packet :: "u16 \<Rightarrow> bytes" where
  "ack_packet b = [hi8 TFTP_ACK, lo8 TFTP_ACK, hi8 b, lo8 b]"

definition send_tftp_ack :: "u16 \<Rightarrow> 'w tftp \<Rightarrow> 'w tftp option" where
  "send_tftp_ack b s =
     map_option (\<lambda>(_, s1). tftp_reg_timeout s1)
       (send_udp_packet (t_socket s) (ack_packet b) (t_server_ip s) (t_server_port s) s)"

text \<open>The storage hook of \<open>tftp_client.c\<close>; the preview it logs is left out.\<close>

definition save_data :: "bytes \<Rightarrow> u32 \<Rightarrow> u16 \<Rightarrow> 'w tftp \<Rightarrow> 'w tftp" where
  "save_data data data_len blk s =
     s\<lparr>t_saved := t_saved s @ [(data, data_len, blk)],
       t_bytes_received := t_bytes_received s + data_len, t_blocks_received := blk\<rparr>"

text \<open>The header fields are converted in place, so the buffer keeps them in host order.\<close>

definition swap_header :: "bytes \<Rightarrow> bytes" where
  "swap_header p = p[0 := p ! 1, 1 := p ! 0, 2 := p ! 3, 3 := p ! 2]"

definition finish_if_short :: "u32 \<Rightarrow> 'w tftp \<Rightarrow> 'w tftp" where
  "finish_if_short len s =
     (if len - 4 < TFTP_BLK_SIZE then (init_tftp s)\<lparr>t_progress := TFTP_SUCCESS\<rparr> else s)"

definition recv_tftp_data :: "u32 \<Rightarrow> 'w tftp \<Rightarrow> 'w tftp option" where
  "recv_tftp_data msg_len s0 =
     (case rd16 (t_rcv_buf s0) 2 of None \<Rightarrow> None
      | Some blk \<Rightarrow>
        let s = s0\<lparr>t_rcv_buf := swap_header (t_rcv_buf s0)\<rparr>;
            data = drop 4 (t_rcv_buf s) in
        if t_state s = STATE_RRQ \<or> t_state s = STATE_OACK then
          let s1 = (if blk = 1
                    then tftp_cancel_timeout (save_data data (msg_len - 4) blk
                           (s\<lparr>t_state := STATE_DATA, t_block_num := blk\<rparr>))
                    else s)
          in map_option (finish_if_short msg_len) (send_tftp_ack blk s1)
        else if t_state s = STATE_DATA then
          let s1 = (if uint blk = uint (t_block_num s) + 1
                    then tftp_cancel_timeout (save_data data (msg_len - 4) blk (s\<lparr>t_block_num := blk\<rparr>))
                    else s)
          in map_option (finish_if_short msg_len) (send_tftp_ack blk s1)
        else Some s)"

text \<open>The client is never in the states of a write request; the option list of an OACK is not
  read.\<close>

definition recv_tftp_oack :: "'w tftp \<Rightarrow> 'w tftp option" where
  "recv_tftp_oack s =
     (case t_state s of
        STATE_RRQ \<Rightarrow> send_tftp_ack 0 (tftp_cancel_timeout (s\<lparr>t_state := STATE_OACK\<rparr>))
      | STATE_WRQ \<Rightarrow> Some (tftp_cancel_timeout (s\<lparr>t_state := STATE_ACK\<rparr>))
      | _ \<Rightarrow> Some s)"

definition recv_tftp_error :: "'w tftp \<Rightarrow> 'w tftp" where
  "recv_tftp_error s =
     (init_tftp (s\<lparr>t_rcv_buf := swap_header (t_rcv_buf s)\<rparr>))\<lparr>t_progress := TFTP_FAIL\<rparr>"

definition recv_tftp_packet :: "u32 \<Rightarrow> u32 \<Rightarrow> u16 \<Rightarrow> 'w tftp \<Rightarrow> 'w tftp option" where
  "recv_tftp_packet packet_len from_ip from_port s =
     (if from_ip \<noteq> t_server_ip s then Some s
      else case rd16 (t_rcv_buf s) 0 of None \<Rightarrow> None
           | Some opcode \<Rightarrow>
             let s1 = (if t_state s = STATE_WRQ \<or> t_state s = STATE_RRQ
                       then s\<lparr>t_server_port := from_port\<rparr> else s) in
             if opcode = TFTP_DATA then recv_tftp_data packet_len s1
             else if opcode = TFTP_OACK then recv_tftp_oack s1
             else if opcode = TFTP_ERROR then Some (recv_tftp_error s1)
             else Some s1)"

definition tftpc_init :: "bytes \<Rightarrow> 'w tftp \<Rightarrow> 'w tftp option" where
  "tftpc_init buf s =
     map_option (\<lambda>(fd, s1). s1\<lparr>t_socket := fd, t_rcv_buf := buf\<rparr>) (open_tftp_socket (init_tftp s))"

definition tftpc_exit :: "'w tftp \<Rightarrow> 'w tftp option" where
  "tftpc_exit s =
     map_option (\<lambda>s1. s1\<lparr>t_socket := -1, t_rcv_buf := []\<rparr>)
       (close_tftp_socket (t_socket s) (init_tftp s))"

text \<open>The C string that starts at the beginning of an array, if it ends inside it.\<close>

definition c_string :: "bytes \<Rightarrow> bytes option" where
  "c_string a = (if 0 \<in> set a then Some (takeWhile (\<lambda>x. x \<noteq> 0) a) else None)"

definition tftp_resend :: "'w tftp \<Rightarrow> 'w tftp option" where
  "tftp_resend s =
     (case t_state s of
        STATE_RRQ \<Rightarrow> (case c_string (t_filename s) of None \<Rightarrow> None
                      | Some f \<Rightarrow> send_tftp_rrq f TRANS_BINARY default_tftp_opt s)
      | STATE_OACK \<Rightarrow> send_tftp_ack (t_block_num s) s
      | STATE_DATA \<Rightarrow> send_tftp_ack (t_block_num s) s
      | _ \<Rightarrow> Some s)"

definition tftp_timeout_process :: "'w tftp \<Rightarrow> 'w tftp option" where
  "tftp_timeout_process s =
     (if t_resend_flag s \<and> t_timeout s \<le> t_time_cnt s
      then map_option (\<lambda>s1.
             let s2 = s1\<lparr>t_time_cnt := 0, t_retry_cnt := t_retry_cnt s1 + 1\<rparr> in
             if 5 \<le> t_retry_cnt s2 then (init_tftp s2)\<lparr>t_progress := TFTP_FAIL\<rparr> else s2)
           (tftp_resend s)
      else Some s)"

definition tftpc_run :: "'w tftp \<Rightarrow> (tftp_progress \<times> 'w tftp) option" where
  "tftpc_run s =
     do { s1 \<leftarrow> tftp_timeout_process s;
          ((n, b, from_ip, from_port), s2) \<leftarrow> recv_udp_packet (t_socket s1) MAX_MTU_SIZE s1;
          let s3 = s2\<lparr>t_rcv_buf := b @ drop (length b) (t_rcv_buf s2)\<rparr>;
          s4 \<leftarrow> (if n < 0 then Some s3 else recv_tftp_packet (word_of_int n) from_ip from_port s3);
          Some (t_progress s4, s4) }"

definition tftpc_read_request :: "u32 \<Rightarrow> bytes \<Rightarrow> 'w tftp \<Rightarrow> 'w tftp option" where
  "tftpc_read_request server_ip filename s =
     send_tftp_rrq filename TRANS_BINARY default_tftp_opt
       (s\<lparr>t_server_ip := server_ip, t_progress := TFTP_PROGRESS\<rparr>)"

definition tftpc_timeout_handler :: "'w tftp \<Rightarrow> 'w tftp" where
  "tftpc_timeout_handler s = (if t_resend_flag s then s\<lparr>t_time_cnt := t_time_cnt s + 1\<rparr> else s)"

section \<open>The client task\<close>

text \<open>
  The task polls the engine while the one-second timer ticks it. A schedule gives, for each poll,
  the ticks that came since the one before; \<open>Some None\<close> says the transfer is still going on when
  the schedule ends.
\<close>

fun tftp_task_loop :: "nat list \<Rightarrow> 'w tftp \<Rightarrow> (tftp_progress option \<times> 'w tftp) option" where
  "tftp_task_loop [] s = Some (None, s)"
| "tftp_task_loop (k # ks) s =
     (case tftpc_run ((tftpc_timeout_handler ^^ k) s) of None \<Rightarrow> None
      | Some (p, s1) \<Rightarrow>
        if p = TFTP_SUCCESS \<or> p = TFTP_FAIL then Some (Some p, s1) else tftp_task_loop ks s1)"

text \<open>\<open>timer_ok\<close> says whether the tick could be started; \<open>buf\<close> is the task's receive buffer.\<close>

definition tftp_client_task ::
  "'w net_sock_ops \<Rightarrow> bool \<Rightarrow> u32 \<Rightarrow> bytes \<Rightarrow> bytes \<Rightarrow> nat list \<Rightarrow> 'w tftp \<Rightarrow>
     (tftp_progress option \<times> 'w tftp) option" where
  "tftp_client_task ops timer_ok server_ip filename buf ks s =
     (let s1 = tftp_transport_bind ops s in
      if \<not> timer_ok then Some (None, s1)
      else do { s2 \<leftarrow> tftpc_init buf (s1\<lparr>t_bytes_received := 0, t_blocks_received := 0\<rparr>);
                s3 \<leftarrow> tftpc_read_request server_ip filename s2;
                (p, s4) \<leftarrow> tftp_task_loop ks s3;
                (case p of None \<Rightarrow> Some (None, s4)
                 | Some r \<Rightarrow> map_option (\<lambda>s5. (Some r, s5)) (tftpc_exit s4)) })"

end
