(* ===== verification/Tftp_Props.thy ===== *)
theory Tftp_Props
  imports Tftp
begin

text \<open>
  Properties of the TFTP client: what is stored is the blocks of the file in order whatever the
  network does, a transfer over a network that delivers stores the file, a silent server ends it,
  and a session releases its socket.
\<close>

section \<open>What the sends leave alone\<close>

lemma send_udp_shape:
  "send_udp_packet sk p ip port s = Some (r, s1) \<Longrightarrow> \<exists>w. s1 = s\<lparr>t_net := w\<rparr>"
  by (auto simp: send_udp_packet_def tftp_transport_send_def split: option.splits)

lemma send_ack_shape: "send_tftp_ack b s = Some s1 \<Longrightarrow> \<exists>w. s1 = tftp_reg_timeout (s\<lparr>t_net := w\<rparr>)"
  by (auto simp: send_tftp_ack_def dest: send_udp_shape)

definition keeps_file :: "'w tftp \<Rightarrow> 'w tftp \<Rightarrow> bool" where
  "keeps_file s s' \<longleftrightarrow> t_saved s' = t_saved s \<and> t_block_num s' = t_block_num s \<and> t_state s' = t_state s"

lemma reg_keeps [simp]: "keeps_file s (tftp_reg_timeout s)"
  by (simp add: keeps_file_def tftp_reg_timeout_def)

lemma cancel_keeps [simp]: "keeps_file s (tftp_cancel_timeout s)"
  by (simp add: keeps_file_def tftp_cancel_timeout_def)

lemma send_ack_keeps: "send_tftp_ack b s = Some s1 \<Longrightarrow> keeps_file s s1"
  by (drule send_ack_shape) (auto simp: keeps_file_def tftp_reg_timeout_def)

lemma send_rrq_keeps:
  "send_tftp_rrq f m os s = Some s1 \<Longrightarrow>
     t_saved s1 = t_saved s \<and> t_block_num s1 = t_block_num s \<and> t_state s1 = STATE_RRQ"
  by (auto simp: send_tftp_rrq_def set_filename_def Let_def tftp_reg_timeout_def
      dest!: send_udp_shape split: option.splits if_splits)

lemma recv_shape: "recv_udp_packet sk n s = Some (q, s1) \<Longrightarrow> keeps_file s s1"
  by (auto simp: recv_udp_packet_def tftp_transport_recv_def keeps_file_def split: option.splits if_splits)

section \<open>The blocks stored\<close>

definition saved_blocks :: "'w tftp \<Rightarrow> u16 list" where
  "saved_blocks s = map (\<lambda>(_, _, b). b) (t_saved s)"

definition block_run :: "nat \<Rightarrow> u16 list" where
  "block_run n = map of_nat [1..<Suc n]"

lemma block_run_0 [simp]: "block_run 0 = []"
  by (simp add: block_run_def)

lemma block_run_Suc: "block_run (Suc n) = block_run n @ [of_nat (Suc n)]"
  by (simp add: block_run_def)

text \<open>\<open>n\<close> blocks are stored; while a transfer is going on the engine knows how many.\<close>

definition tftp_inv :: "nat \<Rightarrow> 'w tftp \<Rightarrow> bool" where
  "tftp_inv n s \<longleftrightarrow> n < 65536 \<and> saved_blocks s = block_run n \<and>
     (t_state s = STATE_DATA \<longrightarrow> t_block_num s = of_nat n) \<and>
     (t_state s = STATE_RRQ \<or> t_state s = STATE_OACK \<longrightarrow> n = 0) \<and>
     t_state s \<noteq> STATE_WRQ \<and> t_state s \<noteq> STATE_ACK"

lemma tftp_inv_keeps: "keeps_file s s' \<Longrightarrow> tftp_inv n s \<Longrightarrow> tftp_inv n s'"
  by (simp add: keeps_file_def tftp_inv_def saved_blocks_def)

lemma tftp_inv_init: "tftp_inv n s \<Longrightarrow> tftp_inv n ((init_tftp s)\<lparr>t_progress := p\<rparr>)"
  by (simp add: tftp_inv_def init_tftp_def saved_blocks_def)

lemma tftp_inv_finish: "tftp_inv n s \<Longrightarrow> tftp_inv n (finish_if_short l s)"
  by (simp add: finish_if_short_def tftp_inv_init)

lemma tftp_inv_save:
  assumes "tftp_inv n s" and "t_state s \<noteq> STATE_NONE" and "blk = of_nat (Suc n)" and "Suc n < 65536"
  shows "tftp_inv (Suc n) (tftp_cancel_timeout (save_data d l blk (s\<lparr>t_state := STATE_DATA, t_block_num := blk\<rparr>)))"
proof -
  have "saved_blocks s = block_run n" using assms(1) by (simp add: tftp_inv_def)
  then have "saved_blocks (save_data d l blk (s\<lparr>t_state := STATE_DATA, t_block_num := blk\<rparr>)) = block_run (Suc n)"
    unfolding block_run_Suc assms(3) [symmetric] by (simp add: saved_blocks_def save_data_def)
  then have "tftp_inv (Suc n) (save_data d l blk (s\<lparr>t_state := STATE_DATA, t_block_num := blk\<rparr>))"
    using assms(3,4) by (simp add: tftp_inv_def save_data_def)
  then show ?thesis by (rule tftp_inv_keeps [OF cancel_keeps])
qed

lemma next_block:
  fixes blk :: u16
  assumes "uint blk = uint (of_nat n :: u16) + 1" and "n < 65536"
  shows "blk = of_nat (Suc n)" "Suc n < 65536"
proof -
  have "uint (of_nat n :: u16) = int n"
    using assms(2) by (simp add: uint_nat unat_of_nat)
  with assms(1) have u: "unat blk = Suc n" by (simp add: unat_eq_nat_uint)
  have "unat blk < 2 ^ LENGTH(16)" by (rule unsigned_less)
  with u show "Suc n < 65536" by simp
  have "of_nat (unat blk) = (of_nat (Suc n) :: u16)" by (simp only: u)
  then show "blk = of_nat (Suc n)" by (simp del: of_nat_Suc)
qed

lemma ack_finish_inv:
  assumes "tftp_inv n s" and "send_tftp_ack b s = Some z"
  shows "\<exists>m. tftp_inv m (finish_if_short l z)"
  using assms by (auto intro: tftp_inv_finish dest: send_ack_keeps tftp_inv_keeps)

lemma recv_data_inv:
  assumes r: "recv_tftp_data l s0 = Some s'" and i0: "tftp_inv n s0"
  shows "\<exists>m. tftp_inv m s'"
proof -
  obtain blk where b: "rd16 (t_rcv_buf s0) 2 = Some blk"
    using r by (auto simp: recv_tftp_data_def split: option.splits)
  define s where "s = s0\<lparr>t_rcv_buf := swap_header (t_rcv_buf s0)\<rparr>"
  define d where "d = drop 4 (t_rcv_buf s)"
  have i: "tftp_inv n s" using i0 by (simp add: s_def tftp_inv_def saved_blocks_def)
  note r' = r [unfolded recv_tftp_data_def b option.case, folded s_def, unfolded Let_def, folded d_def]
  show ?thesis
  proof (cases "t_state s = STATE_RRQ \<or> t_state s = STATE_OACK")
    case first: True
    then have n: "n = 0" using i by (auto simp: tftp_inv_def)
    show ?thesis
    proof (cases "blk = 1")
      case True
      with first n i have "tftp_inv 1 (tftp_cancel_timeout (save_data d (l - 4) blk
          (s\<lparr>t_state := STATE_DATA, t_block_num := blk\<rparr>)))"
        using tftp_inv_save [of 0 s blk d "l - 4"] by auto
      with r' first True show ?thesis by (auto dest: ack_finish_inv)
    next
      case False
      with r' first i show ?thesis by (auto dest: ack_finish_inv)
    qed
  next
    case nf: False
    show ?thesis
    proof (cases "t_state s = STATE_DATA")
      case data: True
      then have bn: "t_block_num s = of_nat n" and n: "n < 65536" using i by (simp_all add: tftp_inv_def)
      show ?thesis
      proof (cases "uint blk = uint (t_block_num s) + 1")
        case True
        note nb = next_block [OF True [unfolded bn] n]
        have eq: "s\<lparr>t_block_num := blk\<rparr> = s\<lparr>t_state := STATE_DATA, t_block_num := blk\<rparr>"
          using data by simp
        have "tftp_inv (Suc n) (tftp_cancel_timeout (save_data d (l - 4) blk (s\<lparr>t_block_num := blk\<rparr>)))"
          unfolding eq by (rule tftp_inv_save [OF i _ nb]) (simp add: data)
        with r' nf data True show ?thesis by (auto dest: ack_finish_inv)
      next
        case False
        with r' nf data i show ?thesis by (auto dest: ack_finish_inv)
      qed
    next
      case False
      with r' nf i show ?thesis by auto
    qed
  qed
qed

lemma recv_packet_inv:
  assumes r: "recv_tftp_packet l ip port s = Some s'" and i: "tftp_inv n s"
  shows "\<exists>m. tftp_inv m s'"
proof -
  let ?s = "if t_state s = STATE_WRQ \<or> t_state s = STATE_RRQ then s\<lparr>t_server_port := port\<rparr> else s"
  have i': "tftp_inv n ?s" using i by (simp add: tftp_inv_def saved_blocks_def)
  have oack: "\<exists>m. tftp_inv m t" if "recv_tftp_oack ?s = Some t" for t
  proof (cases "t_state ?s = STATE_RRQ")
    case True
    have "keeps_file (?s\<lparr>t_state := STATE_OACK\<rparr>) t"
      using that True by (auto simp: recv_tftp_oack_def keeps_file_def tftp_cancel_timeout_def
          dest!: send_ack_keeps split: if_splits)
    moreover have "tftp_inv n (?s\<lparr>t_state := STATE_OACK\<rparr>)"
      using i' True by (auto simp: tftp_inv_def saved_blocks_def split: if_splits)
    ultimately show ?thesis by (blast intro: tftp_inv_keeps)
  next
    case False
    then have "t = ?s" using that i' by (auto simp: recv_tftp_oack_def tftp_inv_def split: tftp_state.splits if_splits)
    then show ?thesis using i' by blast
  qed
  have err: "tftp_inv n (recv_tftp_error ?s)"
    unfolding recv_tftp_error_def
    by (rule tftp_inv_init) (use i' in \<open>simp add: tftp_inv_def saved_blocks_def\<close>)
  show ?thesis
  proof (cases "ip \<noteq> t_server_ip s")
    case True
    with r i show ?thesis by (auto simp: recv_tftp_packet_def)
  next
    case False
    then obtain op1 where "rd16 (t_rcv_buf s) 0 = Some op1" using r by (auto simp: recv_tftp_packet_def split: option.splits)
    with False r i' oack err show ?thesis
      by (auto simp: recv_tftp_packet_def Let_def simp del: split_paired_Ex dest: recv_data_inv split: if_splits)
  qed
qed

lemma resend_inv: "tftp_resend s = Some s' \<Longrightarrow> tftp_inv n s \<Longrightarrow> tftp_inv n s'"
  by (auto simp: tftp_resend_def split: tftp_state.splits option.splits
      dest: send_ack_keeps tftp_inv_keeps dest!: send_rrq_keeps) (auto simp: tftp_inv_def saved_blocks_def)

lemma timeout_inv:
  assumes "tftp_timeout_process s = Some s'" and "tftp_inv n s"
  shows "tftp_inv n s'"
proof -
  have "tftp_inv n t \<Longrightarrow> tftp_inv n (t\<lparr>t_time_cnt := x, t_retry_cnt := y\<rparr>)" for t x y
    by (simp add: tftp_inv_def saved_blocks_def)
  with assms show ?thesis
    by (auto simp: tftp_timeout_process_def Let_def dest!: resend_inv intro!: tftp_inv_init split: if_splits)
qed

lemma tick_inv: "tftp_inv n s \<Longrightarrow> tftp_inv n (tftpc_timeout_handler s)"
  by (simp add: tftp_inv_def saved_blocks_def tftpc_timeout_handler_def)

lemma run_inv:
  assumes "tftpc_run s = Some (p, s')" and "tftp_inv n s"
  shows "\<exists>m. tftp_inv m s'"
proof -
  from assms(1) obtain s1 k b ip port s2 where t: "tftp_timeout_process s = Some s1"
    and rv: "recv_udp_packet (t_socket s1) MAX_MTU_SIZE s1 = Some ((k, b, ip, port), s2)"
    and q: "(if k < 0 then Some (s2\<lparr>t_rcv_buf := b @ drop (length b) (t_rcv_buf s2)\<rparr>)
       else recv_tftp_packet (word_of_int k) ip port (s2\<lparr>t_rcv_buf := b @ drop (length b) (t_rcv_buf s2)\<rparr>)) = Some s'"
    by (auto simp: tftpc_run_def Let_def bind_eq_Some_conv)
  have "tftp_inv n s2" using tftp_inv_keeps [OF recv_shape [OF rv] timeout_inv [OF t assms(2)]] .
  then have "tftp_inv n (s2\<lparr>t_rcv_buf := b @ drop (length b) (t_rcv_buf s2)\<rparr>)"
    by (simp add: tftp_inv_def saved_blocks_def)
  with q show ?thesis by (auto dest: recv_packet_inv split: if_splits)
qed

section \<open>Steps\<close>

text \<open>The polls of the task and the ticks of the timer, in any order.\<close>

inductive tftp_step :: "'w tftp \<Rightarrow> 'w tftp \<Rightarrow> bool" where
  step_tick: "tftp_step s (tftpc_timeout_handler s)"
| step_run: "tftpc_run s = Some (p, s') \<Longrightarrow> tftp_step s s'"

inductive_cases tftp_stepE: "tftp_step s s'"

lemma steps_inv: "tftp_step\<^sup>*\<^sup>* s s' \<Longrightarrow> tftp_inv n s \<Longrightarrow> \<exists>m. tftp_inv m s'"
proof (induction rule: rtranclp_induct)
  case base
  then show ?case by blast
next
  case (step t u)
  then obtain m where "tftp_inv m t" by blast
  with step.hyps(2) show ?case by (elim tftp_stepE) (blast intro: tick_inv, blast dest: run_inv)
qed

lemma read_request_inv:
  "tftpc_read_request ip f s = Some s' \<Longrightarrow> t_saved s = [] \<Longrightarrow> tftp_inv 0 s'"
  by (auto simp: tftpc_read_request_def tftp_inv_def saved_blocks_def dest!: send_rrq_keeps)


text \<open>C22. Whatever the network delivers - losses, duplicates, reordered or foreign datagrams - and
  however polls and ticks interleave, the blocks handed to the storage hook since the request are
  1, 2, ..., n in this order, each once, and no more than 65535 of them.\<close>

theorem tftp_blocks_in_order:
  assumes "t_saved s0 = []" and "tftpc_read_request ip f s0 = Some s1" and "tftp_step\<^sup>*\<^sup>* s1 s"
  shows "\<exists>n < 65536. saved_blocks s = map of_nat [1..<Suc n]"
proof -
  from steps_inv [OF assms(3) read_request_inv [OF assms(2,1)]] obtain m where "tftp_inv m s" by blast
  then show ?thesis by (auto simp: tftp_inv_def block_run_def)
qed

section \<open>A network to run against\<close>

text \<open>Datagrams wait in order (\<open>None\<close> is a receive that times out); what is sent is kept with the
  address it goes to. A sender is given in host order.\<close>

record tnet =
  tn_in :: "(bytes \<times> u32 \<times> u16) option list"
  tn_sent :: "(bytes \<times> u32 \<times> u16) list"
  tn_open :: "int list"

definition tnet_recvfrom :: "nat \<Rightarrow> tnet \<Rightarrow> (int \<times> bytes \<times> sockaddr_in option) \<times> tnet" where
  "tnet_recvfrom n w =
     (case tn_in w of [] \<Rightarrow> ((-1, [], None), w)
      | None # ps \<Rightarrow> ((-1, [], None), w\<lparr>tn_in := ps\<rparr>)
      | Some (p, ip, port) # ps \<Rightarrow>
          ((int (length (take n p)), take n p,
            Some \<lparr>sin_family_inet = True, sin_port = lwip_htons port, sin_addr = bswap32 ip\<rparr>),
           w\<lparr>tn_in := ps\<rparr>))"

definition tnet_ops :: "tnet net_sock_ops" where
  "tnet_ops = \<lparr>ops_socket = (\<lambda>dm ty pr w. if 54 \<in> set (tn_open w) then (-1, w)
        else (54, w\<lparr>tn_open := 54 # tn_open w\<rparr>)),
     ops_bind = (\<lambda>fd a w. (0, w)), ops_listen = (\<lambda>fd bl w. (0, w)),
     ops_accept = (\<lambda>fd w. Some ((-1, None), w)), ops_connect = (\<lambda>fd a w. (0, w)),
     ops_recv = (\<lambda>fd n w. Some ((0, []), w)), ops_send = (\<lambda>fd b w. Some (int (length b), w)),
     ops_recvfrom = (\<lambda>fd n fl w. Some (tnet_recvfrom n w)),
     ops_sendto = (\<lambda>fd b a w. Some (int (length b),
        w\<lparr>tn_sent := tn_sent w @ [(b, bswap32 (sin_addr a), lwip_htons (sin_port a))]\<rparr>)),
     ops_setsockopt = (\<lambda>fd l nm b w. w),
     ops_close = (\<lambda>fd w. Some (w\<lparr>tn_open := remove1 fd (tn_open w)\<rparr>)),
     ops_fcntl = Some (\<lambda>fd cmd v w. w)\<rparr>"

definition log_sent :: "bytes \<Rightarrow> u32 \<Rightarrow> u16 \<Rightarrow> tnet tftp \<Rightarrow> tnet tftp" where
  "log_sent b ip port s = s\<lparr>t_net := (t_net s)\<lparr>tn_sent := tn_sent (t_net s) @ [(b, ip, port)]\<rparr>\<rparr>"

lemma lwip_htons_twice [simp]: "lwip_htons (lwip_htons p) = p"
  by (simp add: lwip_htons_def)

lemma sim_send:
  "t_ops s = Some tnet_ops \<Longrightarrow>
     send_udp_packet sk b ip port s = Some (int (length b), log_sent b ip port s)"
  by (simp add: send_udp_packet_def tftp_transport_send_def tnet_ops_def log_sent_def)

lemma sim_ack:
  "t_ops s = Some tnet_ops \<Longrightarrow>
     send_tftp_ack b s = Some (tftp_reg_timeout (log_sent (ack_packet b) (t_server_ip s) (t_server_port s) s))"
  by (simp add: send_tftp_ack_def sim_send)

lemma sim_recv:
  assumes "t_ops s = Some tnet_ops" and "tn_in (t_net s) = Some (p, ip, port) # ps"
    and "0 < length p" and "length p \<le> n" and "0 < n"
  shows "recv_udp_packet sk n s =
     Some ((int (length p), p, ip, port), s\<lparr>t_net := (t_net s)\<lparr>tn_in := ps\<rparr>\<rparr>)"
  using assms by (simp add: recv_udp_packet_def tftp_transport_recv_def tnet_ops_def tnet_recvfrom_def)

lemma sim_recv_none:
  assumes "t_ops s = Some tnet_ops" and "tn_in (t_net s) = []"
  shows "recv_udp_packet sk n s = Some ((-1, [], 0, 0), s)"
  using assms by (simp add: recv_udp_packet_def tftp_transport_recv_def tnet_ops_def tnet_recvfrom_def)

lemma ticks:
  "t_resend_flag s \<Longrightarrow> (tftpc_timeout_handler ^^ k) s = s\<lparr>t_time_cnt := t_time_cnt s + of_nat k\<rparr>"
proof (induction k)
  case 0
  then show ?case by simp
next
  case (Suc k)
  then show ?case by (simp add: tftpc_timeout_handler_def add.commute)
qed

section \<open>A transfer that is delivered\<close>

definition data_packet :: "nat \<Rightarrow> bytes \<Rightarrow> bytes" where
  "data_packet b d = [hi8 TFTP_DATA, lo8 TFTP_DATA, hi8 (of_nat b), lo8 (of_nat b)] @ d"

lemma data_packet_len [simp]: "length (data_packet b d) = length d + 4"
  by (simp add: data_packet_def)

lemma data_packet_fields [simp]:
  "rd16 (data_packet b d @ r) 0 = Some TFTP_DATA" "rd16 (data_packet b d @ r) 2 = Some (of_nat b)"
  by (simp_all add: data_packet_def rd16_def rd_def)

lemma data_packet_swapped [simp]: "drop 4 (swap_header (data_packet b d @ r)) = d @ r"
  by (simp add: data_packet_def swap_header_def)

text \<open>The content of the blocks handed to the hook.\<close>

definition stored :: "'w tftp \<Rightarrow> bytes list" where
  "stored s = map (\<lambda>(d, l, b). take (unat l) d) (t_saved s)"

text \<open>The engine waits for block \<open>k + 1\<close> from the server.\<close>

definition awaits :: "nat \<Rightarrow> u32 \<Rightarrow> u16 \<Rightarrow> tnet tftp \<Rightarrow> bool" where
  "awaits k ip port s \<longleftrightarrow> t_ops s = Some tnet_ops \<and> t_server_ip s = ip \<and> t_resend_flag s \<and>
     t_timeout s = 5 \<and> t_progress s = TFTP_PROGRESS \<and>
     (if k = 0 then t_state s = STATE_RRQ
      else t_state s = STATE_DATA \<and> t_block_num s = of_nat k \<and> t_server_port s = port)"

lemma no_timeout:
  assumes "awaits k ip port s" and "t_time_cnt s = of_nat j" and "j < 5"
  shows "tftp_timeout_process s = Some s"
proof -
  have "\<not> (5 :: u32) \<le> of_nat j"
    using assms(3) by (simp add: word_le_nat_alt unat_of_nat)
  with assms(1,2) show ?thesis by (simp add: tftp_timeout_process_def awaits_def)
qed

definition stored_block :: "nat \<Rightarrow> bytes \<Rightarrow> tnet tftp \<Rightarrow> tnet tftp \<Rightarrow> bool" where
  "stored_block k d s u \<longleftrightarrow> awaits k (t_server_ip s) (t_server_port u) u \<and> t_time_cnt u = 0 \<and>
     stored u = stored s @ [d] \<and> t_socket u = t_socket s \<and>
     t_net u = (t_net s)\<lparr>tn_sent := tn_sent (t_net s) @ [(ack_packet (of_nat k), t_server_ip s, t_server_port u)]\<rparr>"

lemma store_and_ack:
  assumes s: "t_ops s = Some tnet_ops" "t_resend_flag s" "t_timeout s = 5" "t_progress s = TFTP_PROGRESS"
    and d: "take (unat l) data = d" and k: "0 < k"
  shows "\<exists>u. send_tftp_ack (of_nat k) (tftp_cancel_timeout (save_data data l (of_nat k)
      (s\<lparr>t_state := STATE_DATA, t_block_num := of_nat k\<rparr>))) = Some u \<and> stored_block k d s u \<and>
      t_server_port u = t_server_port s"
  using assms
  by (simp add: sim_ack save_data_def tftp_cancel_timeout_def log_sent_def tftp_reg_timeout_def
      stored_block_def awaits_def stored_def)

lemma data_step:
  assumes a: "awaits k ip port s" and b: "t_rcv_buf s = data_packet (Suc k) d @ rest"
    and k: "Suc k < 65536" and d: "length d \<le> 512"
  shows "\<exists>u. recv_tftp_packet (of_nat (length d + 4)) ip port s =
      Some (finish_if_short (of_nat (length d + 4)) u) \<and> stored_block (Suc k) d s u \<and> t_server_port u = port"
proof -
  define s1 where "s1 = (s\<lparr>t_server_port := port\<rparr>)\<lparr>t_rcv_buf := swap_header (t_rcv_buf s)\<rparr>"
  have [simp]: "drop 4 (t_rcv_buf s1) = d @ rest" by (simp add: s1_def b)
  have len: "of_nat (length d + 4) - 4 = (of_nat (length d) :: u32)" by simp
  have "unat (of_nat (length d) :: u32) = length d" using d by (simp add: unat_of_nat)
  then have "take (unat (of_nat (length d) :: u32)) (d @ rest) = d" by simp
  from store_and_ack [of s1, OF _ _ _ _ this zero_less_Suc [of k]] a obtain u
    where u: "send_tftp_ack (of_nat (Suc k)) (tftp_cancel_timeout (save_data (d @ rest) (of_nat (length d))
        (of_nat (Suc k)) (s1\<lparr>t_state := STATE_DATA, t_block_num := of_nat (Suc k)\<rparr>))) = Some u"
      and sb: "stored_block (Suc k) d s1 u" "t_server_port u = t_server_port s1"
    by (auto simp: awaits_def s1_def)
  have sb': "stored_block (Suc k) d s u" "t_server_port u = port"
    using sb by (simp_all add: stored_block_def stored_def s1_def)
  have dp: "rd16 (t_rcv_buf s) 2 = Some (of_nat (Suc k))" "rd16 (t_rcv_buf s) 0 = Some TFTP_DATA"
    unfolding b by (simp_all del: of_nat_Suc)
  show ?thesis
  proof (cases "k = 0")
    case True
    have "recv_tftp_data (of_nat (length d + 4)) (s\<lparr>t_server_port := port\<rparr>) =
        Some (finish_if_short (of_nat (length d + 4)) u)"
      unfolding recv_tftp_data_def
      using a True dp u len by (simp add: awaits_def s1_def Let_def b)
    with a True dp sb' show ?thesis
      by (auto simp: recv_tftp_packet_def awaits_def tftp_opcodes)
  next
    case False
    have un: "uint (of_nat (Suc k) :: u16) = uint (of_nat k :: u16) + 1"
      using k by (simp add: uint_nat unat_of_nat del: of_nat_Suc)
    have st: "s\<lparr>t_rcv_buf := x, t_block_num := y\<rparr> =
        s\<lparr>t_rcv_buf := x, t_state := STATE_DATA, t_block_num := y\<rparr>" for x y
      using a False by (simp add: awaits_def)
    have s': "s\<lparr>t_server_port := port\<rparr> = s" using a False by (simp add: awaits_def)
    have "recv_tftp_data (of_nat (length d + 4)) s = Some (finish_if_short (of_nat (length d + 4)) u)"
      unfolding recv_tftp_data_def
      using a False dp u len un s' by (simp add: awaits_def s1_def Let_def b st del: of_nat_Suc)
    with a False dp sb' show ?thesis
      by (auto simp: recv_tftp_packet_def awaits_def tftp_opcodes)
  qed
qed


lemma run_step:
  assumes a: "awaits k ip port s" and t0: "t_time_cnt s = 0" and j: "j < 5"
    and q: "tn_in (t_net s) = Some (data_packet (Suc k) d, ip, port) # ps"
    and k: "Suc k < 65536" and d: "length d \<le> 512"
  shows "\<exists>u. tftpc_run ((tftpc_timeout_handler ^^ j) s) =
      Some (t_progress (finish_if_short (of_nat (length d + 4)) u), finish_if_short (of_nat (length d + 4)) u) \<and>
      awaits (Suc k) ip port u \<and> t_time_cnt u = 0 \<and> stored u = stored s @ [d] \<and> t_socket u = t_socket s \<and>
      t_net u = (t_net s)\<lparr>tn_in := ps, tn_sent := tn_sent (t_net s) @ [(ack_packet (of_nat (Suc k)), ip, port)]\<rparr>"
proof -
  let ?p = "data_packet (Suc k) d"
  define v where "v = s\<lparr>t_time_cnt := of_nat j\<rparr>"
  have tick: "(tftpc_timeout_handler ^^ j) s = v"
    using a t0 by (simp add: ticks v_def awaits_def)
  have av: "awaits k ip port v" using a by (simp add: awaits_def v_def)
  have to: "tftp_timeout_process v = Some v"
    by (rule no_timeout [OF av _ j]) (simp add: v_def)
  define w where "w = v\<lparr>t_net := (t_net v)\<lparr>tn_in := ps\<rparr>\<rparr>"
  have rv: "recv_udp_packet (t_socket v) MAX_MTU_SIZE v = Some ((int (length ?p), ?p, ip, port), w)"
    unfolding w_def by (rule sim_recv) (use a q d in \<open>simp_all add: awaits_def v_def MAX_MTU_SIZE_def\<close>)
  define x where "x = w\<lparr>t_rcv_buf := ?p @ drop (length d + 4) (t_rcv_buf w)\<rparr>"
  have ax: "awaits k ip port x" using av by (simp add: awaits_def x_def w_def)
  have "t_rcv_buf x = ?p @ drop (length d + 4) (t_rcv_buf w)" by (simp add: x_def)
  from data_step [OF ax this k d] obtain u where
    u: "recv_tftp_packet (of_nat (length d + 4)) ip port x = Some (finish_if_short (of_nat (length d + 4)) u)"
      "stored_block (Suc k) d x u" "t_server_port u = port" by blast
  have "tftpc_run v = Some (t_progress (finish_if_short (of_nat (length d + 4)) u), finish_if_short (of_nat (length d + 4)) u)"
    using u(1) by (simp add: tftpc_run_def to rv Let_def x_def [symmetric] del: of_nat_add of_nat_Suc)
  moreover have "t_server_ip x = ip" using ax by (simp add: awaits_def)
  ultimately show ?thesis
    using u(2,3) unfolding tick stored_block_def
    by (auto simp: x_def w_def v_def stored_def simp del: of_nat_Suc)
qed


text \<open>The datagrams of a file of blocks \<open>bs\<close>, the first of which has number \<open>k + 1\<close>, and the
  acknowledgements they call for.\<close>

fun file_packets :: "nat \<Rightarrow> u32 \<Rightarrow> u16 \<Rightarrow> bytes list \<Rightarrow> (bytes \<times> u32 \<times> u16) option list" where
  "file_packets k ip port [] = []"
| "file_packets k ip port (d # ds) = Some (data_packet (Suc k) d, ip, port) # file_packets (Suc k) ip port ds"

fun file_acks :: "nat \<Rightarrow> u32 \<Rightarrow> u16 \<Rightarrow> bytes list \<Rightarrow> (bytes \<times> u32 \<times> u16) list" where
  "file_acks k ip port [] = []"
| "file_acks k ip port (d # ds) = (ack_packet (of_nat (Suc k)), ip, port) # file_acks (Suc k) ip port ds"

text \<open>A file as the server cuts it: full blocks, then a short one, which may be empty.\<close>

fun file_blocks :: "bytes list \<Rightarrow> bool" where
  "file_blocks [] = False"
| "file_blocks [d] = (length d < 512)"
| "file_blocks (d # ds) = (length d = 512 \<and> file_blocks ds)"

lemma finish_full: "length d = 512 \<Longrightarrow> finish_if_short (of_nat (length d + 4)) s = s"
  by (simp add: finish_if_short_def TFTP_BLK_SIZE_def)

lemma finish_short:
  assumes "length d < 512"
  shows "finish_if_short (of_nat (length d + 4)) s = (init_tftp s)\<lparr>t_progress := TFTP_SUCCESS\<rparr>"
proof -
  have "(of_nat (length d) :: u32) < 512"
    using assms by (simp add: word_less_nat_alt unat_of_nat)
  then show ?thesis by (simp add: finish_if_short_def TFTP_BLK_SIZE_def)
qed

lemma transfer_runs:
  assumes "file_blocks bs" and "awaits k ip port s" and "t_time_cnt s = 0"
    and "tn_in (t_net s) = file_packets k ip port bs" and "k + length bs < 65536"
    and "length ks = length bs" and "\<forall>j\<in>set ks. j < 5"
  shows "\<exists>s'. tftp_task_loop ks s = Some (Some TFTP_SUCCESS, s') \<and> stored s' = stored s @ bs \<and>
    t_socket s' = t_socket s \<and> t_ops s' = t_ops s \<and>
    t_net s' = (t_net s)\<lparr>tn_in := [], tn_sent := tn_sent (t_net s) @ file_acks k ip port bs\<rparr>"
  using assms
proof (induction bs arbitrary: k s ks rule: file_blocks.induct)
  case 1
  then show ?case by simp
next
  case (2 d)
  from "2.prems"(6,7) obtain j where ks: "ks = [j]" "j < 5" by (cases ks) auto
  have d: "length d < 512" and k: "Suc k < 65536" using "2.prems" by simp_all
  from "2.prems"(4) have "tn_in (t_net s) = Some (data_packet (Suc k) d, ip, port) # []" by simp
  from run_step [OF "2.prems"(2,3) ks(2) this k less_imp_le [OF d]] obtain u
    where u: "tftpc_run ((tftpc_timeout_handler ^^ j) s) =
        Some (t_progress (finish_if_short (of_nat (length d + 4)) u), finish_if_short (of_nat (length d + 4)) u)"
      "awaits (Suc k) ip port u" "stored u = stored s @ [d]" "t_socket u = t_socket s"
      "t_net u = (t_net s)\<lparr>tn_in := [], tn_sent := tn_sent (t_net s) @ [(ack_packet (of_nat (Suc k)), ip, port)]\<rparr>"
    by blast
  have "t_ops u = t_ops s" using u(2) "2.prems"(2) by (simp add: awaits_def)
  then show ?case
    using u(1,3-5) unfolding finish_short [OF d] ks(1)
    by (simp add: stored_def init_tftp_def del: of_nat_Suc)
next
  case (3 d e ds)
  from "3.prems"(6) obtain j js where ks: "ks = j # js" by (cases ks) auto
  with "3.prems"(7) have j: "j < 5" by simp
  have d: "length d = 512" and k: "Suc k < 65536" and bs: "file_blocks (e # ds)" using "3.prems"(1,5) by simp_all
  from "3.prems"(4) have "tn_in (t_net s) = Some (data_packet (Suc k) d, ip, port) # file_packets (Suc k) ip port (e # ds)"
    by simp
  from run_step [OF "3.prems"(2,3) j this k eq_imp_le [OF d]] obtain u
    where u: "tftpc_run ((tftpc_timeout_handler ^^ j) s) =
        Some (t_progress (finish_if_short (of_nat (length d + 4)) u), finish_if_short (of_nat (length d + 4)) u)"
      "awaits (Suc k) ip port u" "t_time_cnt u = 0" "stored u = stored s @ [d]" "t_socket u = t_socket s"
      "t_net u = (t_net s)\<lparr>tn_in := file_packets (Suc k) ip port (e # ds),
        tn_sent := tn_sent (t_net s) @ [(ack_packet (of_nat (Suc k)), ip, port)]\<rparr>"
    by blast
  have "tn_in (t_net u) = file_packets (Suc k) ip port (e # ds)" using u(6) by simp
  from "3.IH" [OF bs u(2,3) this, of js] "3.prems"(5,6,7) ks obtain s'
    where s': "tftp_task_loop js u = Some (Some TFTP_SUCCESS, s')" "stored s' = stored u @ e # ds"
      "t_socket s' = t_socket u" "t_ops s' = t_ops u"
      "t_net s' = (t_net u)\<lparr>tn_in := [], tn_sent := tn_sent (t_net u) @ file_acks (Suc k) ip port (e # ds)\<rparr>"
    by auto
  have "t_progress u = TFTP_PROGRESS" "t_ops u = t_ops s"
    using u(2) "3.prems"(2) by (simp_all add: awaits_def)
  with u(1) s' u(4,5,6) show ?case
    unfolding finish_full [OF d] ks by (simp del: of_nat_Suc)
qed


section \<open>Start and end of a session\<close>

definition rrq_of :: "bytes \<Rightarrow> bytes" where
  "rrq_of f = rrq_packet f TRANS_BINARY default_tftp_opt"

lemma rrq_fits: "length f < 20 \<Longrightarrow> \<not> MAX_MTU_SIZE < length (rrq_packet f TRANS_BINARY default_tftp_opt)"
  by (simp add: rrq_packet_def TRANS_BINARY_def default_tftp_opt_def MAX_MTU_SIZE_def)

lemma sim_rrq:
  assumes "t_ops s = Some tnet_ops" and "length f < 20"
  shows "send_tftp_rrq f TRANS_BINARY default_tftp_opt s = Some (tftp_reg_timeout
    ((log_sent (rrq_of f) (t_server_ip s) TFTP_SERVER_PORT s)
      \<lparr>t_state := STATE_RRQ, t_filename := f @ 0 # drop (Suc (length f)) (t_filename s)\<rparr>))"
  using assms rrq_fits [OF assms(2)]
  by (simp add: send_tftp_rrq_def sim_send set_filename_def FILE_NAME_SIZE_def rrq_of_def log_sent_def)

text \<open>The state in which the task enters its loop.\<close>

definition requested :: "u32 \<Rightarrow> bytes \<Rightarrow> bytes \<Rightarrow> tnet \<Rightarrow> tnet tftp" where
  "requested ip f buf w = (tftp_boot
     (w\<lparr>tn_open := 54 # tn_open w, tn_sent := tn_sent w @ [(rrq_of f, ip, TFTP_SERVER_PORT)]\<rparr>))
     \<lparr>t_ops := Some tnet_ops, t_socket := 54, t_rcv_buf := buf, t_server_ip := ip, t_state := STATE_RRQ,
      t_resend_flag := True, t_filename := f @ 0 # drop (Suc (length f)) (replicate FILE_NAME_SIZE 0)\<rparr>"

lemma sim_start:
  assumes "length f < 20" and "54 \<notin> set (tn_open w)"
  shows "(tftpc_init buf ((tftp_transport_bind tnet_ops (tftp_boot w))
      \<lparr>t_bytes_received := 0, t_blocks_received := 0\<rparr>) \<bind> tftpc_read_request ip f) = Some (requested ip f buf w)"
proof -
  have "tftpc_init buf ((tftp_transport_bind tnet_ops (tftp_boot w))\<lparr>t_bytes_received := 0, t_blocks_received := 0\<rparr>) =
     Some ((tftp_boot (w\<lparr>tn_open := 54 # tn_open w\<rparr>))\<lparr>t_ops := Some tnet_ops, t_socket := 54, t_rcv_buf := buf\<rparr>)"
    using assms(2) by (simp add: tftpc_init_def open_tftp_socket_def tftp_transport_open_def
        tftp_transport_bind_def tnet_ops_def init_tftp_def tftp_boot_def FILE_NAME_SIZE_def numeral_eq_Suc)
  then show ?thesis
    using assms by (simp add: tftpc_read_request_def sim_rrq tftp_reg_timeout_def log_sent_def
        tftp_boot_def requested_def)
qed

lemma sim_session:
  assumes "length f < 20" and "tftp_task_loop ks (requested ip f buf w) = Some (Some r, s1)"
    and "t_ops s1 = Some tnet_ops" and "t_socket s1 = 54" and "tn_open (t_net s1) = 54 # tn_open w"
    and "54 \<notin> set (tn_open w)"
  shows "\<exists>s'. tftp_client_task tnet_ops True ip f buf ks (tftp_boot w) = Some (Some r, s') \<and>
    stored s' = stored s1 \<and> t_net s' = (t_net s1)\<lparr>tn_open := tn_open w\<rparr>"
proof -
  let ?go = "\<lambda>s3. do { (p, s4) \<leftarrow> tftp_task_loop ks s3;
     (case p of None \<Rightarrow> Some (None, s4) | Some r \<Rightarrow> map_option (\<lambda>s5. (Some r, s5)) (tftpc_exit s4)) }"
  have "tftp_client_task tnet_ops True ip f buf ks (tftp_boot w) =
      (tftpc_init buf ((tftp_transport_bind tnet_ops (tftp_boot w))
      \<lparr>t_bytes_received := 0, t_blocks_received := 0\<rparr>) \<bind> tftpc_read_request ip f) \<bind> ?go"
    by (simp add: tftp_client_task_def Let_def)
  then show ?thesis
    unfolding sim_start [OF assms(1,6)] using assms(2-)
    by (simp add: tftpc_exit_def close_tftp_socket_def tftp_transport_close_def init_tftp_def
        tnet_ops_def stored_def)
qed

text \<open>C23. A session against a server whose datagrams arrive. For a file of fewer than 65536 blocks
  (the last one short), sent block by block from any server port, the task ends with success; the
  data handed to the storage hook is the file, block by block; the client sent the request and then
  the acknowledgements 1, 2, ..., n to the port the server answered from; the socket is closed. The
  timer may tick up to four times between two polls.\<close>

theorem tftp_transfer_complete:
  assumes "file_blocks bs" and "length bs < 65536" and "length f < FILE_NAME_SIZE" and "54 \<notin> set (tn_open w)"
    and "tn_in w = file_packets 0 ip port bs" and "length ks = length bs" and "\<forall>j\<in>set ks. j < 5"
  shows "\<exists>s'. tftp_client_task tnet_ops True ip f buf ks (tftp_boot w) = Some (Some TFTP_SUCCESS, s') \<and>
    stored s' = bs \<and>
    tn_sent (t_net s') = tn_sent w @ (rrq_packet f TRANS_BINARY default_tftp_opt, ip, TFTP_SERVER_PORT) #
      file_acks 0 ip port bs \<and>
    tn_open (t_net s') = tn_open w"
proof -
  have f: "length f < 20" using assms(3) by (simp add: FILE_NAME_SIZE_def)
  have "awaits 0 ip port (requested ip f buf w)" "t_time_cnt (requested ip f buf w) = 0"
    "tn_in (t_net (requested ip f buf w)) = file_packets 0 ip port bs"
    "stored (requested ip f buf w) = []" "t_socket (requested ip f buf w) = 54"
    "t_ops (requested ip f buf w) = Some tnet_ops" "tn_open (t_net (requested ip f buf w)) = 54 # tn_open w"
    "tn_sent (t_net (requested ip f buf w)) = tn_sent w @ [(rrq_of f, ip, TFTP_SERVER_PORT)]"
    using assms(5) by (simp_all add: requested_def awaits_def tftp_boot_def stored_def)
  note R = this
  from transfer_runs [OF assms(1) R(1-3) _ assms(6,7)] assms(2) obtain s1
    where s1: "tftp_task_loop ks (requested ip f buf w) = Some (Some TFTP_SUCCESS, s1)" "stored s1 = bs"
      "t_socket s1 = 54" "t_ops s1 = Some tnet_ops"
      "t_net s1 = (t_net (requested ip f buf w))\<lparr>tn_in := [],
         tn_sent := tn_sent w @ (rrq_of f, ip, TFTP_SERVER_PORT) # file_acks 0 ip port bs\<rparr>"
    using R by auto
  then show ?thesis
    using sim_session [OF f s1(1,4,3)] R(7) assms(4) by (auto simp: rrq_of_def)
qed

theorem tftp_transfer_complete_witness:
  "\<exists>s'. tftp_client_task tnet_ops True 0xC0A80B02 [102, 46, 116] (replicate 1514 0) [0, 1] (tftp_boot
      \<lparr>tn_in = file_packets 0 0xC0A80B02 40001 [replicate 512 7, [1, 2]], tn_sent = [], tn_open = []\<rparr>) =
      Some (Some TFTP_SUCCESS, s') \<and> stored s' = [replicate 512 7, [1, 2]]"
proof -
  have "file_blocks [replicate 512 7, [1, 2]]" by simp
  from tftp_transfer_complete [OF this, of "[102, 46, 116]" "\<lparr>tn_in = file_packets 0 0xC0A80B02 40001
      [replicate 512 7, [1, 2]], tn_sent = [], tn_open = []\<rparr>" "0xC0A80B02" 40001 "[0, 1]" "replicate 1514 0"]
  show ?thesis by (auto simp: FILE_NAME_SIZE_def)
qed

section \<open>A silent server\<close>

definition waiting :: "bytes \<Rightarrow> nat \<Rightarrow> nat \<Rightarrow> tnet tftp \<Rightarrow> bool" where
  "waiting f r c s \<longleftrightarrow> t_ops s = Some tnet_ops \<and> t_state s = STATE_RRQ \<and> t_resend_flag s \<and> t_timeout s = 5 \<and>
     t_progress s = TFTP_PROGRESS \<and> t_time_cnt s = of_nat c \<and> t_retry_cnt s = of_nat r \<and>
     tn_in (t_net s) = [] \<and> (\<exists>rest. t_filename s = f @ 0 # rest)"

lemma takeWhile_name: "0 \<notin> set f \<Longrightarrow> takeWhile (\<lambda>x. x \<noteq> 0) (f @ 0 # rest) = (f :: bytes)"
  by (subst takeWhile_append2) auto

lemma waiting_resend:
  assumes w: "waiting f r c s" and f: "0 \<notin> set f" "length f < 20"
  shows "tftp_resend s = Some ((log_sent (rrq_of f) (t_server_ip s) TFTP_SERVER_PORT s)
    \<lparr>t_filename := f @ 0 # drop (Suc (length f)) (t_filename s)\<rparr>)"
proof -
  have "c_string (t_filename s) = Some f"
    using w f(1) by (auto simp: waiting_def c_string_def takeWhile_name)
  with w f(2) show ?thesis
    by (simp add: tftp_resend_def waiting_def sim_rrq tftp_reg_timeout_def log_sent_def)
qed

lemma small_le:
  assumes "c < 100" shows "(5 :: u32) \<le> of_nat c \<longleftrightarrow> 5 \<le> c"
  using assms by (simp add: word_le_nat_alt unat_of_nat)

lemma run_silent: "tftp_timeout_process s = Some s1 \<Longrightarrow> t_ops s1 = Some tnet_ops \<Longrightarrow> tn_in (t_net s1) = [] \<Longrightarrow>
   tftpc_run s = Some (t_progress s1, s1)"
  by (simp add: tftpc_run_def sim_recv_none)

lemma silent_loop:
  assumes "waiting f r c s" and "0 \<notin> set f" and "length f < 20" and "r < 5" and "c < 5"
    and "\<forall>k\<in>set ks. k \<le> 1" and "25 \<le> 5 * r + c + sum_list ks"
  shows "\<exists>s'. tftp_task_loop ks s = Some (Some TFTP_FAIL, s') \<and> t_socket s' = t_socket s \<and> t_ops s' = t_ops s \<and>
    stored s' = stored s \<and> t_net s' = (t_net s)\<lparr>tn_sent := tn_sent (t_net s) @
      replicate (5 - r) (rrq_of f, t_server_ip s, TFTP_SERVER_PORT)\<rparr>"
  using assms
proof (induction ks arbitrary: s r c)
  case Nil
  then show ?case by simp
next
  case (Cons k ks)
  note w = Cons.prems(1) and f = Cons.prems(2,3)
  define v where "v = s\<lparr>t_time_cnt := of_nat (c + k)\<rparr>"
  have tick: "(tftpc_timeout_handler ^^ k) s = v"
    using w by (simp add: waiting_def ticks v_def)
  have wv: "waiting f r (c + k) v" using w by (auto simp: waiting_def v_def)
  have same: "t_net v = t_net s" "t_socket v = t_socket s" "t_ops v = t_ops s" "stored v = stored s"
    "t_server_ip v = t_server_ip s"
    by (simp_all add: v_def stored_def)
  have ck: "c + k \<le> 5" using Cons.prems(5,6) by simp
  have le: "t_timeout v \<le> t_time_cnt v \<longleftrightarrow> c + k = 5"
    using wv ck small_le [of "c + k"] by (auto simp: waiting_def simp del: of_nat_add)
  show ?case
  proof (cases "c + k = 5")
    case False
    then have "tftp_timeout_process v = Some v" using le by (simp add: tftp_timeout_process_def)
    with wv have "tftpc_run v = Some (TFTP_PROGRESS, v)" by (simp add: run_silent waiting_def)
    moreover have "\<exists>s'. tftp_task_loop ks v = Some (Some TFTP_FAIL, s') \<and> t_socket s' = t_socket v \<and> t_ops s' = t_ops v \<and>
      stored s' = stored v \<and> t_net s' = (t_net v)\<lparr>tn_sent := tn_sent (t_net v) @
        replicate (5 - r) (rrq_of f, t_server_ip v, TFTP_SERVER_PORT)\<rparr>"
      by (rule Cons.IH [OF wv f Cons.prems(4)]) (use False ck Cons.prems in simp_all)
    ultimately show ?thesis by (simp add: tick same)
  next
    case True
    define u where "u = ((log_sent (rrq_of f) (t_server_ip v) TFTP_SERVER_PORT v)
      \<lparr>t_filename := f @ 0 # drop (Suc (length f)) (t_filename v)\<rparr>)\<lparr>t_time_cnt := 0, t_retry_cnt := of_nat (Suc r)\<rparr>"
    have "t_retry_cnt v = of_nat r" using wv by (simp add: waiting_def)
    then have to: "tftp_timeout_process v =
        Some (if 5 \<le> t_retry_cnt u then (init_tftp u)\<lparr>t_progress := TFTP_FAIL\<rparr> else u)"
      using le True wv waiting_resend [OF wv f]
      by (simp add: tftp_timeout_process_def Let_def u_def waiting_def log_sent_def add.commute)
    have u: "t_retry_cnt u = of_nat (Suc r)" "t_socket u = t_socket s" "t_ops u = Some tnet_ops"
      "stored u = stored s" "t_server_ip u = t_server_ip s" "t_net u = (t_net s)\<lparr>tn_sent := tn_sent (t_net s) @
         [(rrq_of f, t_server_ip s, TFTP_SERVER_PORT)]\<rparr>" "t_ops s = Some tnet_ops"
      using w by (simp_all add: u_def log_sent_def same stored_def waiting_def v_def)
    have five: "5 \<le> t_retry_cnt u \<longleftrightarrow> Suc r = 5"
      using Cons.prems(4) small_le [of "Suc r"] by (auto simp: u simp del: of_nat_Suc)
    show ?thesis
    proof (cases "Suc r = 5")
      case last: True
      have "tftpc_run v = Some (TFTP_FAIL, (init_tftp u)\<lparr>t_progress := TFTP_FAIL\<rparr>)"
        using to five last w by (simp add: run_silent init_tftp_def u waiting_def)
      moreover have "5 - r = 1" using last by simp
      moreover have "stored ((init_tftp u)\<lparr>t_progress := TFTP_FAIL\<rparr>) = stored s"
        using u(4) by (simp add: stored_def init_tftp_def)
      ultimately show ?thesis by (simp add: tick u init_tftp_def)
    next
      case more: False
      have wu: "waiting f (Suc r) 0 u" using wv w u by (auto simp: waiting_def u_def log_sent_def)
      have "tftpc_run v = Some (TFTP_PROGRESS, u)"
        using to five more wu by (simp add: run_silent waiting_def)
      moreover have "\<exists>s'. tftp_task_loop ks u = Some (Some TFTP_FAIL, s') \<and> t_socket s' = t_socket u \<and> t_ops s' = t_ops u \<and>
        stored s' = stored u \<and> t_net s' = (t_net u)\<lparr>tn_sent := tn_sent (t_net u) @
          replicate (5 - Suc r) (rrq_of f, t_server_ip u, TFTP_SERVER_PORT)\<rparr>"
        by (rule Cons.IH [OF wu f]) (use True more Cons.prems in simp_all)
      moreover have "5 - r = Suc (5 - Suc r)" using Cons.prems(4) by simp
      ultimately show ?thesis by (simp add: tick u)
    qed
  qed
qed

text \<open>C24. A server that never answers. When the timer ticks at most once between two polls, the task
  ends with failure by the 25th tick: it has sent the request six times, stored nothing and closed
  its socket.\<close>

theorem tftp_gives_up:
  assumes "tn_in w = []" and "54 \<notin> set (tn_open w)" and "0 \<notin> set f" and "length f < FILE_NAME_SIZE"
    and "\<forall>k\<in>set ks. k \<le> 1" and "25 \<le> sum_list ks"
  shows "\<exists>s'. tftp_client_task tnet_ops True ip f buf ks (tftp_boot w) = Some (Some TFTP_FAIL, s') \<and>
    stored s' = [] \<and> tn_open (t_net s') = tn_open w \<and>
    tn_sent (t_net s') = tn_sent w @
      replicate 6 (rrq_packet f TRANS_BINARY default_tftp_opt, ip, TFTP_SERVER_PORT)"
proof -
  have f: "length f < 20" using assms(4) by (simp add: FILE_NAME_SIZE_def)
  let ?s = "requested ip f buf w"
  have "waiting f 0 0 ?s" using assms(1) by (simp add: waiting_def requested_def tftp_boot_def)
  from silent_loop [OF this assms(3) f _ _ assms(5)] assms(6) obtain s1
    where s1: "tftp_task_loop ks ?s = Some (Some TFTP_FAIL, s1)" "t_socket s1 = t_socket ?s" "t_ops s1 = t_ops ?s"
      "stored s1 = stored ?s" "t_net s1 = (t_net ?s)\<lparr>tn_sent := tn_sent (t_net ?s) @
        replicate 5 (rrq_of f, t_server_ip ?s, TFTP_SERVER_PORT)\<rparr>" by auto
  have r: "t_socket ?s = 54" "t_ops ?s = Some tnet_ops" "stored ?s = []" "t_server_ip ?s = ip"
    "t_net ?s = w\<lparr>tn_open := 54 # tn_open w, tn_sent := tn_sent w @ [(rrq_of f, ip, TFTP_SERVER_PORT)]\<rparr>"
    by (simp_all add: requested_def tftp_boot_def stored_def)
  have "replicate 6 x = x # replicate 5 x" for x :: "bytes \<times> u32 \<times> u16"
    by (simp add: numeral_eq_Suc)
  with sim_session [OF f s1(1)] s1 r assms(2) show ?thesis by (auto simp: rrq_of_def)
qed

theorem tftp_gives_up_witness:
  "\<exists>s'. tftp_client_task tnet_ops True 0xC0A80B02 [102] (replicate 1514 0) (replicate 25 1) (tftp_boot
      \<lparr>tn_in = [], tn_sent = [], tn_open = []\<rparr>) = Some (Some TFTP_FAIL, s') \<and> stored s' = []"
  using tftp_gives_up [of "\<lparr>tn_in = [], tn_sent = [], tn_open = []\<rparr>" "[102]" "replicate 25 1" "0xC0A80B02"
      "replicate 1514 0"]
  by (auto simp: FILE_NAME_SIZE_def sum_list_replicate)


section \<open>Success without the data\<close>

text \<open>In a running transfer a short DATA packet that does not carry the next block is not stored, but
  it is acknowledged and ends the session as a success. After block 65535 no packet carries the next
  block, as the number it is compared with is 65536.\<close>

theorem tftp_success_without_data:
  assumes "t_state s = STATE_DATA" and "from_ip = t_server_ip s"
    and "rd16 (t_rcv_buf s) 0 = Some TFTP_DATA" and "rd16 (t_rcv_buf s) 2 = Some b"
    and "b \<noteq> t_block_num s + 1 \<or> t_block_num s = 65535" and "len - 4 < TFTP_BLK_SIZE"
    and "t_ops s = Some ops" and "\<forall>d a w. \<exists>r w'. ops_sendto ops (t_socket s) d a w = Some (r, w')"
  shows "\<exists>s'. recv_tftp_packet len from_ip port s = Some s' \<and> t_progress s' = TFTP_SUCCESS \<and>
    t_saved s' = t_saved s"
proof -
  have ne: "uint b \<noteq> uint (t_block_num s) + 1"
  proof
    assume e: "uint b = uint (t_block_num s) + 1"
    then have "b = t_block_num s + 1" by (metis word_of_int_uint of_int_1 of_int_add)
    with assms(5) have "uint b = 65536" using e by simp
    moreover have "uint b < 2 ^ LENGTH(16)" by (rule unsigned_less)
    ultimately show False by simp
  qed
  define u where "u = s\<lparr>t_rcv_buf := swap_header (t_rcv_buf s)\<rparr>"
  obtain r w where "ops_sendto ops (t_socket s) (ack_packet b) \<lparr>sin_family_inet = True,
      sin_port = lwip_htons (t_server_port s), sin_addr = bswap32 (t_server_ip s)\<rparr> (t_net s) = Some (r, w)"
    using assms(8) by blast
  then have a: "send_tftp_ack b u = Some (tftp_reg_timeout (u\<lparr>t_net := w\<rparr>))"
    using assms(7) by (simp add: send_tftp_ack_def send_udp_packet_def tftp_transport_send_def u_def)
  have "recv_tftp_data len s = Some (finish_if_short len (tftp_reg_timeout (u\<lparr>t_net := w\<rparr>)))"
    unfolding recv_tftp_data_def using assms(1,4) ne a by (simp add: u_def)
  with assms(1,2,3,6) show ?thesis
    by (simp add: recv_tftp_packet_def finish_if_short_def init_tftp_def u_def tftp_reg_timeout_def)
qed

text \<open>Block 65536 of a file, whose number is 0.\<close>

definition tftp_last :: "tnet tftp" where
  "tftp_last = (requested 0xC0A80B02 [102] [] \<lparr>tn_in = [], tn_sent = [], tn_open = []\<rparr>)
     \<lparr>t_state := STATE_DATA, t_block_num := 65535, t_rcv_buf := [0, 3, 0, 0, 42]\<rparr>"

theorem tftp_success_without_data_witness:
  "\<exists>s'. recv_tftp_packet 5 0xC0A80B02 40001 tftp_last = Some s' \<and> t_progress s' = TFTP_SUCCESS \<and> t_saved s' = []"
proof -
  have s: "t_state tftp_last = STATE_DATA" "0xC0A80B02 = t_server_ip tftp_last" "t_block_num tftp_last = 65535"
    "t_ops tftp_last = Some tnet_ops" "t_saved tftp_last = []"
    by (simp_all add: tftp_last_def requested_def tftp_boot_def)
  have b: "rd16 (t_rcv_buf tftp_last) 0 = Some TFTP_DATA" "rd16 (t_rcv_buf tftp_last) 2 = Some 0"
    by (simp_all add: tftp_last_def rd16_def rd_def be16_of_def TFTP_DATA_def)
  have l: "(5 :: u32) - 4 < TFTP_BLK_SIZE" by (simp add: TFTP_BLK_SIZE_def)
  have "\<forall>d a w. \<exists>r w'. ops_sendto tnet_ops (t_socket tftp_last) d a w = Some (r, w')"
    by (simp add: tnet_ops_def)
  from tftp_success_without_data [OF s(1,2) b disjI2 [OF s(3)] l s(4) this] s(5) show ?thesis by simp
qed

section \<open>The socket of a session\<close>

lemma recv_net:
  "recv_udp_packet sk n s = Some (q, s') \<Longrightarrow> t_ops s = Some vt \<Longrightarrow>
     \<exists>p w. ops_recvfrom vt sk n (Some 16) (t_net s) = Some (p, w) \<and> s' = s\<lparr>t_net := w\<rparr>"
  by (auto simp: recv_udp_packet_def tftp_transport_recv_def split: option.splits if_splits)

context net_sock
begin

definition holds :: "int \<Rightarrow> int set \<Rightarrow> 'w tftp \<Rightarrow> bool" where
  "holds fd F s \<longleftrightarrow> t_ops s = Some ops \<and> t_socket s = fd \<and> inv (t_net s) \<and> fds (t_net s) = F"

lemma holds_send: "send_udp_packet sk p ip port s = Some (r, s') \<Longrightarrow> holds fd F s \<Longrightarrow> holds fd F s'"
  by (auto simp: send_udp_packet_def tftp_transport_send_def holds_def dest: sendto_law)

lemma holds_recv: "recv_udp_packet sk n s = Some (q, s') \<Longrightarrow> holds fd F s \<Longrightarrow> holds fd F s'"
proof -
  assume r: "recv_udp_packet sk n s = Some (q, s')" and h: "holds fd F s"
  from recv_net [OF r] h obtain p w where "ops_recvfrom ops sk n (Some 16) (t_net s) = Some (p, w)"
    and "s' = s\<lparr>t_net := w\<rparr>" by (auto simp: holds_def)
  with recvfrom_law [of "t_net s" sk n "Some 16" p w] h show ?thesis by (simp add: holds_def)
qed

lemma holds_reg [simp]: "holds fd F (tftp_reg_timeout s) = holds fd F s"
  by (simp add: holds_def tftp_reg_timeout_def)

lemma holds_cancel [simp]: "holds fd F (tftp_cancel_timeout s) = holds fd F s"
  by (simp add: holds_def tftp_cancel_timeout_def)

lemma holds_upd [simp]:
  "holds fd F (s\<lparr>t_state := a\<rparr>) = holds fd F s" "holds fd F (s\<lparr>t_filename := b\<rparr>) = holds fd F s"
  "holds fd F (s\<lparr>t_rcv_buf := b\<rparr>) = holds fd F s" "holds fd F (s\<lparr>t_server_port := c\<rparr>) = holds fd F s"
  "holds fd F (s\<lparr>t_block_num := c\<rparr>) = holds fd F s" "holds fd F (save_data b d c s) = holds fd F s"
  "holds fd F (s\<lparr>t_time_cnt := d\<rparr>) = holds fd F s" "holds fd F (s\<lparr>t_retry_cnt := d\<rparr>) = holds fd F s"
  "holds fd F (s\<lparr>t_progress := p\<rparr>) = holds fd F s" "holds fd F (s\<lparr>t_server_ip := d\<rparr>) = holds fd F s"
  "holds fd F (init_tftp s) = holds fd F s" "holds fd F (finish_if_short d s) = holds fd F s"
  by (simp_all add: holds_def save_data_def init_tftp_def finish_if_short_def)

lemma holds_ack: "send_tftp_ack b s = Some s' \<Longrightarrow> holds fd F s \<Longrightarrow> holds fd F s'"
  by (auto simp: send_tftp_ack_def dest: holds_send)

lemma holds_rrq: "send_tftp_rrq f m os s = Some s' \<Longrightarrow> holds fd F s \<Longrightarrow> holds fd F s'"
  by (auto simp: send_tftp_rrq_def set_filename_def Let_def dest!: holds_send split: option.splits if_splits)

lemma holds_data: "recv_tftp_data l s = Some s' \<Longrightarrow> holds fd F s \<Longrightarrow> holds fd F s'"
  by (auto simp: recv_tftp_data_def Let_def dest!: holds_ack split: option.splits if_splits)

lemma holds_packet: "recv_tftp_packet l ip port s = Some s' \<Longrightarrow> holds fd F s \<Longrightarrow> holds fd F s'"
  by (auto simp: recv_tftp_packet_def recv_tftp_oack_def recv_tftp_error_def Let_def
      dest: holds_ack holds_data split: option.splits if_splits tftp_state.splits)

lemma holds_timeout: "tftp_timeout_process s = Some s' \<Longrightarrow> holds fd F s \<Longrightarrow> holds fd F s'"
  by (auto simp: tftp_timeout_process_def tftp_resend_def Let_def dest: holds_ack holds_rrq
      split: option.splits if_splits tftp_state.splits)

lemma holds_run: "tftpc_run s = Some (p, s') \<Longrightarrow> holds fd F s \<Longrightarrow> holds fd F s'"
  by (auto simp: tftpc_run_def Let_def bind_eq_Some_conv dest!: holds_timeout holds_recv holds_packet
      split: if_splits)

lemma holds_ticks: "holds fd F s \<Longrightarrow> holds fd F ((tftpc_timeout_handler ^^ k) s)"
  by (induction k) (simp_all add: tftpc_timeout_handler_def)

lemma holds_loop: "tftp_task_loop ks s = Some (r, s') \<Longrightarrow> holds fd F s \<Longrightarrow> holds fd F s'"
  by (induction ks arbitrary: s)
    (auto dest: holds_run [OF _ holds_ticks] split: option.splits if_splits)

lemma open_keeps:
  assumes o: "tftp_transport_open p s = Some (fd, t)" and vt: "t_ops s = Some ops" and i: "inv (t_net s)"
  shows "t_ops t = Some ops \<and> inv (t_net t) \<and>
      (0 \<le> fd \<longrightarrow> fd \<notin> fds (t_net s) \<and> fds (t_net t) = insert fd (fds (t_net s))) \<and>
      (fd < 0 \<longrightarrow> fds (t_net t) = fds (t_net s))"
proof -
  let ?a = "\<lparr>sin_family_inet = True, sin_port = lwip_htons p, sin_addr = 0\<rparr>"
  obtain d w1 where sk: "ops_socket ops 2 2 17 (t_net s) = (d, w1)" by fastforce
  obtain r2 w2 where bd: "ops_bind ops d ?a w1 = (r2, w2)" by fastforce
  note k = socket_law [OF i sk]
  note k1 = conjunct1 [OF k] and k2 = conjunct2 [OF k]
  note b1 = conjunct1 [OF bind_law [OF k1 bd]] and b2 = conjunct2 [OF bind_law [OF k1 bd]]
  note o' = o [unfolded tftp_transport_open_def vt option.case sk Let_def prod.case bd]
  show ?thesis
  proof (cases "d < 0")
    case True
    then have "fds w1 = fds (t_net s)" "fd = -1" "t = s\<lparr>t_net := w1\<rparr>" using o' k2 by simp_all
    with k1 vt show ?thesis by simp
  next
    case d: False
    then have f1: "d \<notin> fds (t_net s)" "fds w2 = insert d (fds (t_net s))" using k2 b2 by simp_all
    show ?thesis
    proof (cases "r2 < 0")
      case True
      then obtain w3 where cl: "ops_close ops d w2 = Some w3" "t = s\<lparr>t_net := w3\<rparr>" "fd = -1"
        using o' d by auto
      have "inv w3 \<and> fds w3 = fds w2 - {d}"
        by (rule close_law [OF b1 _ cl(1)]) (simp add: f1)
      with cl f1 vt show ?thesis by simp
    next
      case False
      then have t: "fd = d" "t = s\<lparr>t_net := ops_setsockopt ops d SOL_SOCKET SO_RCVTIMEO
          (timeval_bytes TFTP_RECV_TIMEOUT_MS) w2\<rparr>" using o' d by auto
      from setsockopt_law [OF b1, of d SOL_SOCKET SO_RCVTIMEO "timeval_bytes TFTP_RECV_TIMEOUT_MS"]
      show ?thesis using f1 d vt by (simp add: t)
    qed
  qed
qed

lemma exit_keeps:
  assumes "tftpc_exit s = Some s'" and "holds fd (fds (t_net s)) s"
    and "0 \<le> fd \<Longrightarrow> fd \<in> fds (t_net s)"
  shows "inv (t_net s') \<and> fds (t_net s') = (if 0 \<le> fd then fds (t_net s) - {fd} else fds (t_net s))"
proof (cases "0 \<le> fd")
  case True
  with assms(1,2) obtain w where "ops_close ops fd (t_net s) = Some w" "t_net s' = w"
    by (auto simp: tftpc_exit_def close_tftp_socket_def tftp_transport_close_def init_tftp_def holds_def)
  with close_law [of "t_net s" fd w] True assms(2,3) show ?thesis by (simp add: holds_def)
next
  case False
  with assms(1,2) show ?thesis
    by (auto simp: tftpc_exit_def close_tftp_socket_def tftp_transport_close_def init_tftp_def holds_def)
qed

lemma session_balanced:
  assumes "tftp_client_task ops True ip f buf ks s = Some (Some r, s')" and "inv (t_net s)"
  shows "inv (t_net s') \<and> fds (t_net s') = fds (t_net s)"
proof -
  let ?s = "(tftp_transport_bind ops s)\<lparr>t_bytes_received := 0, t_blocks_received := 0\<rparr>"
  from assms(1) obtain s2 s3 s4 where i: "tftpc_init buf ?s = Some s2"
    and q: "tftpc_read_request ip f s2 = Some s3" and l: "tftp_task_loop ks s3 = Some (Some r, s4)"
    and x: "tftpc_exit s4 = Some s'"
    by (auto simp: tftp_client_task_def Let_def bind_eq_Some_conv split: option.splits)
  from i obtain fd t where o: "tftp_transport_open TFTP_TEMP_PORT (init_tftp ?s) = Some (fd, t)"
    and s2: "s2 = t\<lparr>t_socket := fd, t_rcv_buf := buf\<rparr>"
    by (auto simp: tftpc_init_def open_tftp_socket_def)
  have "t_ops (init_tftp ?s) = Some ops" "t_net (init_tftp ?s) = t_net s"
    by (simp_all add: tftp_transport_bind_def init_tftp_def)
  with open_keeps [OF o] assms(2) have o': "t_ops t = Some ops" "inv (t_net t)"
    "0 \<le> fd \<longrightarrow> fd \<notin> fds (t_net s) \<and> fds (t_net t) = insert fd (fds (t_net s))"
    "fd < 0 \<longrightarrow> fds (t_net t) = fds (t_net s)" by simp_all
  then have "holds fd (fds (t_net t)) s2" by (simp add: holds_def s2)
  with q have "holds fd (fds (t_net t)) s3" by (auto simp: tftpc_read_request_def dest: holds_rrq)
  note h = holds_loop [OF l this]
  then have "fds (t_net s4) = fds (t_net t)" by (simp add: holds_def)
  with exit_keeps [OF x, of fd] h o'(3,4) show ?thesis by (cases "0 \<le> fd") simp_all
qed

end

text \<open>Over any vtable that keeps the laws of its interface, a session of the TFTP task that ends,
  with success or failure and also when its socket could not be bound, leaves exactly the sockets
  open that were open before.\<close>

theorem tftp_session_balanced:
  assumes "net_sock ops ok fds" and "ok (t_net s)"
    and "tftp_client_task ops True ip f buf ks s = Some (Some r, s')"
  shows "ok (t_net s') \<and> fds (t_net s') = fds (t_net s)"
  by (rule net_sock.session_balanced [OF assms(1,3,2)])

lemma tftp_session_balanced_toe:
  assumes "tftp_client_task (net_eth_ops io fuel off nb) True ip f buf ks s = Some (Some r, s')"
    and "toe_inv (t_net s)"
  shows "toe_inv (t_net s') \<and> toe_fds off (t_net s') = toe_fds off (t_net s)"
  by (rule toe_sock.session_balanced [OF assms])

interpretation tnet_sock: net_sock tnet_ops "\<lambda>w. distinct (tn_open w)" "\<lambda>w. set (tn_open w)"
  by unfold_locales
    (auto simp: tnet_ops_def tnet_recvfrom_def split: list.splits option.splits if_splits)

theorem tftp_session_balanced_witness:
  "\<exists>s'. tftp_client_task tnet_ops True 0xC0A80B02 [102] [] (replicate 25 1)
      (tftp_boot \<lparr>tn_in = [], tn_sent = [], tn_open = [3]\<rparr>) = Some (Some TFTP_FAIL, s') \<and>
     set (tn_open (t_net s')) = {3}"
proof -
  let ?w = "\<lparr>tn_in = [], tn_sent = [], tn_open = [3]\<rparr> :: tnet"
  let ?s = "requested 0xC0A80B02 [102] [] ?w"
  have "waiting [102] 0 0 ?s" by (simp add: waiting_def requested_def tftp_boot_def)
  from silent_loop [OF this, of "replicate 25 1"] obtain s1
    where s1: "tftp_task_loop (replicate 25 1) ?s = Some (Some TFTP_FAIL, s1)" "t_socket s1 = t_socket ?s"
      "t_ops s1 = t_ops ?s" "tn_open (t_net s1) = tn_open (t_net ?s)"
    by (auto simp: sum_list_replicate)
  have "\<exists>s'. tftp_client_task tnet_ops True 0xC0A80B02 [102] [] (replicate 25 1) (tftp_boot ?w) =
      Some (Some TFTP_FAIL, s')"
    using sim_session [OF _ s1(1)] s1(2-4) by (auto simp: requested_def tftp_boot_def)
  then obtain s' where r: "tftp_client_task tnet_ops True 0xC0A80B02 [102] [] (replicate 25 1) (tftp_boot ?w) =
      Some (Some TFTP_FAIL, s')" by blast
  from tftp_session_balanced [OF tnet_sock.net_sock_axioms _ r] r show ?thesis by (auto simp: tftp_boot_def)
qed

lemma loop_steps: "tftp_task_loop ks s = Some (r, s') \<Longrightarrow> tftp_step\<^sup>*\<^sup>* s s'"
proof (induction ks arbitrary: s)
  case Nil
  then show ?case by simp
next
  case (Cons k ks)
  have tk: "tftp_step\<^sup>*\<^sup>* s ((tftpc_timeout_handler ^^ k) s)"
    by (induction k) (auto intro: rtranclp.rtrancl_into_rtrancl step_tick)
  from Cons.prems obtain p t where r: "tftpc_run ((tftpc_timeout_handler ^^ k) s) = Some (p, t)"
    and t: "t = s' \<or> tftp_task_loop ks t = Some (r, s')" by (auto split: option.splits if_splits)
  from tk step_run [OF r] have "tftp_step\<^sup>*\<^sup>* s t" by (rule rtranclp.rtrancl_into_rtrancl)
  with t Cons.IH show ?case by (auto intro: rtranclp_trans)
qed

text \<open>A file of two blocks.\<close>

theorem tftp_blocks_in_order_witness:
  "\<exists>s1 s. tftpc_read_request 0xC0A80B02 [102] ((tftp_boot
       \<lparr>tn_in = file_packets 0 0xC0A80B02 40001 [replicate 512 7, [1]], tn_sent = [], tn_open = []\<rparr>)
       \<lparr>t_ops := Some tnet_ops\<rparr>) = Some s1 \<and> tftp_step\<^sup>*\<^sup>* s1 s \<and> saved_blocks s = [1, 2]"
proof -
  let ?bs = "[replicate 512 7, [1]] :: bytes list"
  let ?s0 = "(tftp_boot \<lparr>tn_in = file_packets 0 0xC0A80B02 40001 ?bs, tn_sent = [], tn_open = []\<rparr>)
       \<lparr>t_ops := Some tnet_ops\<rparr>"
  obtain s1 where s1: "tftpc_read_request 0xC0A80B02 [102] ?s0 = Some s1" "awaits 0 0xC0A80B02 40001 s1"
    "t_time_cnt s1 = 0" "tn_in (t_net s1) = file_packets 0 0xC0A80B02 40001 ?bs" "stored s1 = []"
    by (simp add: tftpc_read_request_def sim_rrq tftp_reg_timeout_def log_sent_def awaits_def stored_def
        tftp_boot_def)
  have "file_blocks ?bs" by simp
  from transfer_runs [OF this s1(2-4), of "[0, 0]"] s1(5) obtain s
    where "tftp_task_loop [0, 0] s1 = Some (Some TFTP_SUCCESS, s)" and st: "stored s = ?bs" by auto
  then have steps: "tftp_step\<^sup>*\<^sup>* s1 s" by (blast intro: loop_steps)
  have "t_saved ?s0 = []" by (simp add: tftp_boot_def)
  from tftp_blocks_in_order [OF this s1(1) steps] obtain n
    where n: "saved_blocks s = map of_nat [1..<Suc n]" by blast
  have "length (saved_blocks s) = length (stored s)" by (simp add: saved_blocks_def stored_def)
  with n st have "n = 2" by (simp split: if_splits)
  with n s1(1) steps show ?thesis by (auto simp: upt_rec)
qed

end
