(* ===== verification/Spi.thy ===== *)
theory Spi
  imports Esp IoLib
begin

text \<open>
  The SPI port layer of \<open>wsm_driver_spi.c\<close>: configuration defaults, initialisation and its
  unwinding, the lock and chip-select protocol around every transfer, and the callbacks the
  ioLibrary runs on. ESP-IDF and FreeRTOS are not part of the repository: each of their calls is a
  value of \<open>idf_call\<close>, its reply is a parameter that may depend on everything that happened
  before, and the state keeps the sequence of calls with their replies.
\<close>

section \<open>The build configuration\<close>

datatype spi_chip = CHIP_W5100S | CHIP_W5500 | CHIP_W6100 | CHIP_W6300 | CHIP_OTHER

text \<open>What \<open>sdkconfig.h\<close> and the ioLibrary headers fix: the chip, whether the library is there,
  quad mode, and the \<open>CONFIG_WSM_DRIVER_*\<close> values that are set.\<close>

record wsm_build =
  b_iolib :: bool
  b_chip :: spi_chip
  b_quad :: bool
  b_SPI_HOST :: "int option"
  b_SPI_CLOCK_HZ :: "int option"
  b_PIN_MISO :: "int option"
  b_PIN_MOSI :: "int option"
  b_PIN_SCLK :: "int option"
  b_PIN_CS :: "int option"
  b_PIN_RST :: "int option"
  b_PIN_INT :: "int option"
  b_PIN_IO2 :: "int option"
  b_PIN_IO3 :: "int option"

definition opt_or :: "int option \<Rightarrow> int \<Rightarrow> int" where
  "opt_or x d = (case x of Some v \<Rightarrow> v | None \<Rightarrow> d)"

definition SPI2_HOST :: int where "SPI2_HOST = 1"
definition SPI3_HOST :: int where "SPI3_HOST = 2"

definition WSM_DRIVER_USE_QSPI :: "wsm_build \<Rightarrow> bool" where
  "WSM_DRIVER_USE_QSPI b \<longleftrightarrow> b_iolib b \<and> b_chip b = CHIP_W6300"

definition WSM_DRIVER_DEF_SPI_HOST :: "wsm_build \<Rightarrow> int" where
  "WSM_DRIVER_DEF_SPI_HOST b = opt_or (b_SPI_HOST b) SPI2_HOST"
definition WSM_DRIVER_DEF_SPI_CLOCK_HZ :: "wsm_build \<Rightarrow> int" where
  "WSM_DRIVER_DEF_SPI_CLOCK_HZ b = opt_or (b_SPI_CLOCK_HZ b) (20 * 1000 * 1000)"
definition WSM_DRIVER_DEF_SPI_MISO_PIN :: "wsm_build \<Rightarrow> int" where
  "WSM_DRIVER_DEF_SPI_MISO_PIN b = opt_or (b_PIN_MISO b) 13"
definition WSM_DRIVER_DEF_SPI_MOSI_PIN :: "wsm_build \<Rightarrow> int" where
  "WSM_DRIVER_DEF_SPI_MOSI_PIN b = opt_or (b_PIN_MOSI b) 11"
definition WSM_DRIVER_DEF_SPI_CLK_PIN :: "wsm_build \<Rightarrow> int" where
  "WSM_DRIVER_DEF_SPI_CLK_PIN b = opt_or (b_PIN_SCLK b) 12"
definition WSM_DRIVER_DEF_SPI_CS_PIN :: "wsm_build \<Rightarrow> int" where
  "WSM_DRIVER_DEF_SPI_CS_PIN b = opt_or (b_PIN_CS b) 10"
definition WSM_DRIVER_DEF_SPI_RST_PIN :: "wsm_build \<Rightarrow> int" where
  "WSM_DRIVER_DEF_SPI_RST_PIN b = opt_or (b_PIN_RST b) 9"
definition WSM_DRIVER_DEF_SPI_INT_PIN :: "wsm_build \<Rightarrow> int" where
  "WSM_DRIVER_DEF_SPI_INT_PIN b = opt_or (b_PIN_INT b) 14"
definition WSM_DRIVER_DEF_SPI_IO2_PIN :: "wsm_build \<Rightarrow> int" where
  "WSM_DRIVER_DEF_SPI_IO2_PIN b = opt_or (b_PIN_IO2 b) 15"
definition WSM_DRIVER_DEF_SPI_IO3_PIN :: "wsm_build \<Rightarrow> int" where
  "WSM_DRIVER_DEF_SPI_IO3_PIN b = opt_or (b_PIN_IO3 b) 16"
definition WSM_DRIVER_DEF_SPI_TIMEOUT_MS :: u32 where "WSM_DRIVER_DEF_SPI_TIMEOUT_MS = 1000"

lemmas spi_def_pins = WSM_DRIVER_DEF_SPI_MISO_PIN_def WSM_DRIVER_DEF_SPI_MOSI_PIN_def
  WSM_DRIVER_DEF_SPI_CLK_PIN_def WSM_DRIVER_DEF_SPI_CS_PIN_def WSM_DRIVER_DEF_SPI_RST_PIN_def
  WSM_DRIVER_DEF_SPI_INT_PIN_def WSM_DRIVER_DEF_SPI_IO2_PIN_def WSM_DRIVER_DEF_SPI_IO3_PIN_def opt_or_def

section \<open>State\<close>

record wsm_driver_spi_config_t =
  g_host_id :: int
  g_clock_hz :: int
  g_pin_miso :: int
  g_pin_mosi :: int
  g_pin_sclk :: int
  g_pin_cs :: int
  g_pin_rst :: int
  g_pin_int :: int
  g_pin_io2 :: int
  g_pin_io3 :: int
  g_lock_timeout_ms :: u32
  g_bus_initialized_by_caller :: bool

definition cfg_zero :: wsm_driver_spi_config_t where
  "cfg_zero = \<lparr>g_host_id = 0, g_clock_hz = 0, g_pin_miso = 0, g_pin_mosi = 0, g_pin_sclk = 0, g_pin_cs = 0,
     g_pin_rst = 0, g_pin_int = 0, g_pin_io2 = 0, g_pin_io3 = 0, g_lock_timeout_ms = 0,
     g_bus_initialized_by_caller = False\<rparr>"

text \<open>Handles are numbers; the null handle is 0.\<close>

record wsm_driver_spi_context_t =
  x_initialized :: bool
  x_cs_active :: bool
  x_bus_owned :: bool
  x_spi_dev :: nat
  x_lock :: nat
  x_cfg :: wsm_driver_spi_config_t

definition ctx_zero :: wsm_driver_spi_context_t where
  "ctx_zero = \<lparr>x_initialized = False, x_cs_active = False, x_bus_owned = False, x_spi_dev = 0, x_lock = 0,
     x_cfg = cfg_zero\<rparr>"

record spi_bus_config =
  bus_mosi :: int
  bus_miso :: int
  bus_sclk :: int
  bus_quadwp :: int
  bus_quadhd :: int
  bus_data4_7 :: int
  bus_max_transfer_sz :: nat
  bus_quad :: bool

text \<open>The calls into ESP-IDF and FreeRTOS, of this layer and of the drivers beside it. A transaction is
  full duplex (\<open>tx\<close>, whether \<open>rx\<close> is given, the length in bits), or the phased
  W6300 frame (opcode, address with its dummy byte, data out, bits in, four lines).\<close>

datatype spi_frame = SpiFrame "bytes option" bool nat | QspiFrame u8 u32 "bytes option" nat bool

datatype idf_call =
    MutexCreate | MutexDelete nat | Take nat u32 | Give nat
  | BusInit int spi_bus_config | BusFree int
  | AddDevice int int bool | RemoveDevice nat | AcquireBus nat | ReleaseBus nat | Transmit nat spi_frame
  | GpioConfig "64 word" bool bool | GpioSet int bool | TaskDelay u32
  | RegCris | RegCs | RegSpi bool | RegSpiburst | RegQspi
  | TransmitPolling nat u32 u32 "bytes option" nat | TransmitQspi nat spi_frame
  | Calloc | FreeMem nat | TaskCreate | TaskDelete nat | TimerCreate | TimerDelete nat
  | DmaAlloc | DmaFree nat | CustomInit | CustomDeinit nat
  | NetifInit | EventLoopCreate | NetifNew | DhcpcStop nat | SetIpInfo nat u32 u32 u32

type_synonym event = "idf_call \<times> esp_err_t \<times> nat"

record spi_st =
  ctx :: wsm_driver_spi_context_t
  calls :: "event list"

text \<open>The replies. A call that returns a handle or a boolean also has an error code here:
  \<open>ESP_OK\<close> stands for a handle that is not null and for \<open>pdTRUE\<close>.\<close>

record platform =
  pf_err :: "event list \<Rightarrow> idf_call \<Rightarrow> esp_err_t"
  pf_handle :: "event list \<Rightarrow> idf_call \<Rightarrow> nat"
  pf_rx :: "event list \<Rightarrow> idf_call \<Rightarrow> bytes"
  pf_ticks :: "u32 \<Rightarrow> u32"
  pf_portMAX_DELAY :: u32

definition idf :: "platform \<Rightarrow> idf_call \<Rightarrow> spi_st \<Rightarrow> esp_err_t \<times> nat \<times> spi_st" where
  "idf pf c s = (let e = pf_err pf (calls s) c; h = pf_handle pf (calls s) c
                 in (e, h, s\<lparr>calls := calls s @ [(c, e, h)]\<rparr>))"

definition idf_do :: "platform \<Rightarrow> idf_call \<Rightarrow> spi_st \<Rightarrow> spi_st" where
  "idf_do pf c s = (case idf pf c s of (_, _, s1) \<Rightarrow> s1)"

definition set_ctx :: "(wsm_driver_spi_context_t \<Rightarrow> wsm_driver_spi_context_t) \<Rightarrow> spi_st \<Rightarrow> spi_st" where
  "set_ctx f s = s\<lparr>ctx := f (ctx s)\<rparr>"

lemma idf_simps [simp]:
  "fst (idf pf c s) = pf_err pf (calls s) c"
  "ctx (snd (snd (idf pf c s))) = ctx s" "ctx (idf_do pf c s) = ctx s"
  "calls (snd (snd (idf pf c s))) = calls s @ [(c, pf_err pf (calls s) c, pf_handle pf (calls s) c)]"
  "calls (idf_do pf c s) = calls s @ [(c, pf_err pf (calls s) c, pf_handle pf (calls s) c)]"
  "calls (set_ctx f s) = calls s" "ctx (set_ctx f s) = f (ctx s)"
  by (simp_all add: idf_def idf_do_def set_ctx_def Let_def)

section \<open>Delays and defaults\<close>

definition WSM_DRIVER_DELAY_TICKS :: "platform \<Rightarrow> u32 \<Rightarrow> u32" where
  "WSM_DRIVER_DELAY_TICKS pf ms = (if 0 < pf_ticks pf ms then pf_ticks pf ms else 1)"

definition toe_yield_1ms :: "platform \<Rightarrow> spi_st \<Rightarrow> spi_st" where
  "toe_yield_1ms pf s = idf_do pf (TaskDelay (WSM_DRIVER_DELAY_TICKS pf 1)) s"

definition resolve_pin :: "int \<Rightarrow> int \<Rightarrow> int" where
  "resolve_pin configured fallback = (if 0 \<le> configured then configured else fallback)"

definition apply_defaults :: "wsm_build \<Rightarrow> wsm_driver_spi_config_t \<Rightarrow> wsm_driver_spi_config_t" where
  "apply_defaults b g = g\<lparr>
     g_host_id := (if g_host_id g \<noteq> SPI2_HOST \<and> g_host_id g \<noteq> SPI3_HOST then WSM_DRIVER_DEF_SPI_HOST b
                   else g_host_id g),
     g_clock_hz := (if g_clock_hz g \<le> 0 then WSM_DRIVER_DEF_SPI_CLOCK_HZ b else g_clock_hz g),
     g_pin_sclk := resolve_pin (g_pin_sclk g) (WSM_DRIVER_DEF_SPI_CLK_PIN b),
     g_pin_cs := resolve_pin (g_pin_cs g) (WSM_DRIVER_DEF_SPI_CS_PIN b),
     g_pin_mosi := resolve_pin (g_pin_mosi g) (WSM_DRIVER_DEF_SPI_MOSI_PIN b),
     g_pin_miso := resolve_pin (g_pin_miso g) (WSM_DRIVER_DEF_SPI_MISO_PIN b),
     g_pin_int := resolve_pin (g_pin_int g) (WSM_DRIVER_DEF_SPI_INT_PIN b),
     g_pin_rst := resolve_pin (g_pin_rst g) (WSM_DRIVER_DEF_SPI_RST_PIN b),
     g_pin_io2 := resolve_pin (g_pin_io2 g) (WSM_DRIVER_DEF_SPI_IO2_PIN b),
     g_pin_io3 := resolve_pin (g_pin_io3 g) (WSM_DRIVER_DEF_SPI_IO3_PIN b),
     g_lock_timeout_ms := (if g_lock_timeout_ms g = 0 then WSM_DRIVER_DEF_SPI_TIMEOUT_MS
                           else g_lock_timeout_ms g)\<rparr>"

definition get_wait_ticks :: "platform \<Rightarrow> spi_st \<Rightarrow> u32" where
  "get_wait_ticks pf s =
     (let ms = g_lock_timeout_ms (x_cfg (ctx s))
      in if ms = 0xFFFFFFFF then pf_portMAX_DELAY pf else pf_ticks pf ms)"

section \<open>Transfers\<close>

text \<open>\<open>spi_device_transmit()\<close>: the code, and the bytes clocked in when a buffer is given.\<close>

definition idf_transmit :: "platform \<Rightarrow> spi_frame \<Rightarrow> spi_st \<Rightarrow> (esp_err_t \<times> bytes) \<times> spi_st" where
  "idf_transmit pf t s =
     (let c = Transmit (x_spi_dev (ctx s)) t in
      case idf pf c s of (e, _, s1) \<Rightarrow> ((e, if e = ESP_OK then pf_rx pf (calls s) c else []), s1))"

definition pin_cs :: "spi_st \<Rightarrow> int" where "pin_cs s = g_pin_cs (x_cfg (ctx s))"

definition spi_transfer_locked ::
  "platform \<Rightarrow> bytes option \<Rightarrow> bool \<Rightarrow> nat \<Rightarrow> spi_st \<Rightarrow> (esp_err_t \<times> bytes) \<times> spi_st" where
  "spi_transfer_locked pf tx rx len s =
     (let wait_ticks = get_wait_ticks pf s; auto_cs = (\<not> x_cs_active (ctx s)) in
      if len = 0 then ((ESP_OK, []), s)
      else let t = SpiFrame tx rx (len * 8) in
        if \<not> auto_cs then idf_transmit pf t s
        else case idf pf (Take (x_lock (ctx s)) wait_ticks) s of (e1, _, s1) \<Rightarrow>
          if e1 \<noteq> ESP_OK then ((ESP_ERR_TIMEOUT, []), s1)
          else case idf pf (AcquireBus (x_spi_dev (ctx s1))) s1 of (e2, _, s2) \<Rightarrow>
            if e2 \<noteq> ESP_OK then ((e2, []), idf_do pf (Give (x_lock (ctx s2))) s2)
            else let s3 = idf_do pf (GpioSet (pin_cs s2) False) s2;
                     (r, s4) = idf_transmit pf t s3;
                     s5 = idf_do pf (GpioSet (pin_cs s4) True) s4;
                     s6 = idf_do pf (ReleaseBus (x_spi_dev (ctx s5))) s5
                 in (r, idf_do pf (Give (x_lock (ctx s6))) s6))"

definition wizchip_cs_select :: "platform \<Rightarrow> spi_st \<Rightarrow> spi_st" where
  "wizchip_cs_select pf s =
     (case idf pf (Take (x_lock (ctx s)) (get_wait_ticks pf s)) s of (e1, _, s1) \<Rightarrow>
        if e1 \<noteq> ESP_OK then s1
        else case idf pf (AcquireBus (x_spi_dev (ctx s1))) s1 of (e2, _, s2) \<Rightarrow>
          if e2 \<noteq> ESP_OK then idf_do pf (Give (x_lock (ctx s2))) s2
          else set_ctx (x_cs_active_update (\<lambda>_. True)) (idf_do pf (GpioSet (pin_cs s2) False) s2))"

definition wizchip_cs_deselect :: "platform \<Rightarrow> spi_st \<Rightarrow> spi_st" where
  "wizchip_cs_deselect pf s =
     (if \<not> x_cs_active (ctx s) then s
      else let s1 = idf_do pf (GpioSet (pin_cs s) True) s;
               s2 = set_ctx (x_cs_active_update (\<lambda>_. False)) s1;
               s3 = idf_do pf (ReleaseBus (x_spi_dev (ctx s2))) s2
           in idf_do pf (Give (x_lock (ctx s3))) s3)"

definition wizchip_spi_read_byte :: "platform \<Rightarrow> spi_st \<Rightarrow> u8 \<times> spi_st" where
  "wizchip_spi_read_byte pf s =
     (let ((e, rx), s1) = spi_transfer_locked pf (Some [0]) True 1 s
      in (if e = ESP_OK \<and> rx \<noteq> [] then hd rx else 0, s1))"

definition wizchip_spi_write_byte :: "platform \<Rightarrow> u8 \<Rightarrow> spi_st \<Rightarrow> spi_st" where
  "wizchip_spi_write_byte pf byte s = snd (spi_transfer_locked pf (Some [byte]) False 1 s)"

text \<open>A burst: \<open>None\<close> is a null buffer. The reader's result are the bytes stored.\<close>

definition wizchip_spi_read_burst :: "platform \<Rightarrow> bool \<Rightarrow> u16 \<Rightarrow> spi_st \<Rightarrow> bytes \<times> spi_st" where
  "wizchip_spi_read_burst pf buf len s =
     (if \<not> buf \<or> len = 0 then ([], s)
      else let ((_, rx), s1) = spi_transfer_locked pf None True (unat len) s in (rx, s1))"

definition wizchip_spi_write_burst :: "platform \<Rightarrow> bytes option \<Rightarrow> u16 \<Rightarrow> spi_st \<Rightarrow> spi_st" where
  "wizchip_spi_write_burst pf buf len s =
     (case buf of None \<Rightarrow> s
      | Some d \<Rightarrow> if len = 0 then s
                  else snd (spi_transfer_locked pf (Some (take (unat len) d)) False (unat len) s))"

text \<open>The W6100 entry points take the library's signed length.\<close>

definition wizchip_spi_read_burst_6100 :: "platform \<Rightarrow> bool \<Rightarrow> int \<Rightarrow> spi_st \<Rightarrow> bytes \<times> spi_st" where
  "wizchip_spi_read_burst_6100 pf buf len s =
     (if len \<le> 0 then ([], s) else wizchip_spi_read_burst pf buf (word_of_int len) s)"

definition wizchip_spi_write_burst_6100 :: "platform \<Rightarrow> bytes option \<Rightarrow> int \<Rightarrow> spi_st \<Rightarrow> spi_st" where
  "wizchip_spi_write_burst_6100 pf buf len s =
     (if len \<le> 0 then s else wizchip_spi_write_burst pf buf (word_of_int len) s)"

definition wizchip_qspi_xfer ::
  "wsm_build \<Rightarrow> platform \<Rightarrow> u8 \<Rightarrow> u16 \<Rightarrow> bytes option \<Rightarrow> bool \<Rightarrow> u16 \<Rightarrow> spi_st \<Rightarrow> bytes \<times> spi_st" where
  "wizchip_qspi_xfer b pf opcode addr tx rx len s =
     (if len = 0 then ([], s)
      else let t = QspiFrame opcode (push_bit 8 (ucast addr)) (map_option (take (unat len)) tx)
                     (if rx then unat len * 8 else 0) (b_quad b);
               ((_, d), s1) = idf_transmit pf t s
           in (d, s1))"

definition wizchip_qspi_read :: "wsm_build \<Rightarrow> platform \<Rightarrow> u8 \<Rightarrow> u16 \<Rightarrow> u16 \<Rightarrow> spi_st \<Rightarrow> bytes \<times> spi_st" where
  "wizchip_qspi_read b pf opcode addr len s = wizchip_qspi_xfer b pf opcode addr None True len s"

definition wizchip_qspi_write :: "wsm_build \<Rightarrow> platform \<Rightarrow> u8 \<Rightarrow> u16 \<Rightarrow> bytes \<Rightarrow> u16 \<Rightarrow> spi_st \<Rightarrow> spi_st" where
  "wizchip_qspi_write b pf opcode addr buf len s = snd (wizchip_qspi_xfer b pf opcode addr (Some buf) False len s)"

definition wizchip_critical_enter :: "platform \<Rightarrow> spi_st \<Rightarrow> spi_st" where
  "wizchip_critical_enter pf s = idf_do pf (Take (x_lock (ctx s)) (get_wait_ticks pf s)) s"

definition wizchip_critical_exit :: "platform \<Rightarrow> spi_st \<Rightarrow> spi_st" where
  "wizchip_critical_exit pf s = idf_do pf (Give (x_lock (ctx s))) s"

section \<open>Initialisation\<close>

text \<open>The three error labels of \<open>wsm_driver_spi_init()\<close>, each falling through to the next.\<close>

definition init_err :: "platform \<Rightarrow> esp_err_t \<Rightarrow> spi_st \<Rightarrow> esp_err_t \<times> spi_st" where
  "init_err pf e s = (e, set_ctx (\<lambda>_. ctx_zero) (idf_do pf (MutexDelete (x_lock (ctx s))) s))"

definition init_err_bus :: "platform \<Rightarrow> esp_err_t \<Rightarrow> spi_st \<Rightarrow> esp_err_t \<times> spi_st" where
  "init_err_bus pf e s =
     init_err pf e (if x_bus_owned (ctx s) then idf_do pf (BusFree (g_host_id (x_cfg (ctx s)))) s else s)"

definition init_err_dev :: "platform \<Rightarrow> esp_err_t \<Rightarrow> spi_st \<Rightarrow> esp_err_t \<times> spi_st" where
  "init_err_dev pf e s =
     init_err_bus pf e (set_ctx (x_spi_dev_update (\<lambda>_. 0)) (idf_do pf (RemoveDevice (x_spi_dev (ctx s))) s))"

definition bus_config :: "wsm_build \<Rightarrow> wsm_driver_spi_config_t \<Rightarrow> spi_bus_config" where
  "bus_config b g =
     (let q = WSM_DRIVER_USE_QSPI b
      in \<lparr>bus_mosi = g_pin_mosi g, bus_miso = g_pin_miso g, bus_sclk = g_pin_sclk g,
          bus_quadwp = (if q \<and> b_quad b then g_pin_io2 g else -1),
          bus_quadhd = (if q \<and> b_quad b then g_pin_io3 g else -1),
          bus_data4_7 = -1, bus_max_transfer_sz = (if q then 16 * 1024 + 8 else 2048),
          bus_quad = (q \<and> b_quad b)\<rparr>)"

text \<open>From \<open>spi_bus_add_device()\<close> to the end.\<close>

definition init_device :: "wsm_build \<Rightarrow> platform \<Rightarrow> spi_st \<Rightarrow> esp_err_t \<times> spi_st" where
  "init_device b pf s =
     (let g = x_cfg (ctx s) in
      case idf pf (AddDevice (g_host_id g) (g_clock_hz g) (WSM_DRIVER_USE_QSPI b)) s of (e1, d, s1) \<Rightarrow>
        if e1 \<noteq> ESP_OK then init_err_bus pf e1 s1
        else let s2 = set_ctx (x_spi_dev_update (\<lambda>_. d)) s1;
                 outs = push_bit (nat (g_pin_cs g)) 1 OR push_bit (nat (g_pin_rst g)) 1 in
          case idf pf (GpioConfig outs True False) s2 of (e2, _, s3) \<Rightarrow>
            if e2 \<noteq> ESP_OK then init_err_dev pf e2 s3
            else case idf pf (GpioConfig (push_bit (nat (g_pin_int g)) 1) False True) s3 of (e3, _, s4) \<Rightarrow>
              if e3 \<noteq> ESP_OK then init_err_dev pf e3 s4
              else let s5 = idf_do pf (GpioSet (g_pin_cs g) True) s4;
                       s6 = idf_do pf (GpioSet (g_pin_rst g) True) s5
                   in (ESP_OK, set_ctx (\<lambda>x. x\<lparr>x_cs_active := False, x_initialized := True\<rparr>) s6))"

definition wsm_driver_spi_init ::
  "wsm_build \<Rightarrow> platform \<Rightarrow> wsm_driver_spi_config_t option \<Rightarrow> spi_st \<Rightarrow> esp_err_t \<times> spi_st" where
  "wsm_driver_spi_init b pf cfg s =
     (case cfg of None \<Rightarrow> (ESP_ERR_INVALID_ARG, s)
      | Some g \<Rightarrow>
        if x_initialized (ctx s) then (ESP_OK, s)
        else case idf pf MutexCreate (set_ctx (\<lambda>_. ctx_zero\<lparr>x_cfg := apply_defaults b g\<rparr>) s) of (e, m, s1) \<Rightarrow>
          if e \<noteq> ESP_OK then (ESP_ERR_NO_MEM, s1)
          else let s2 = set_ctx (x_lock_update (\<lambda>_. m)) s1; g1 = x_cfg (ctx s2) in
            if g_bus_initialized_by_caller g1 then init_device b pf s2
            else case idf pf (BusInit (g_host_id g1) (bus_config b g1)) s2 of (e1, _, s3) \<Rightarrow>
              if e1 \<noteq> ESP_OK then init_err pf e1 s3
              else init_device b pf (set_ctx (x_bus_owned_update (\<lambda>_. True)) s3))"

definition wsm_driver_spi_deinit :: "platform \<Rightarrow> spi_st \<Rightarrow> esp_err_t \<times> spi_st" where
  "wsm_driver_spi_deinit pf s =
     (if \<not> x_initialized (ctx s) then (ESP_OK, s)
      else let s1 = (if x_spi_dev (ctx s) \<noteq> 0
                     then set_ctx (x_spi_dev_update (\<lambda>_. 0)) (idf_do pf (RemoveDevice (x_spi_dev (ctx s))) s) else s);
               s2 = (if x_bus_owned (ctx s1) then idf_do pf (BusFree (g_host_id (x_cfg (ctx s1)))) s1 else s1);
               s3 = (if x_lock (ctx s2) \<noteq> 0
                     then set_ctx (x_lock_update (\<lambda>_. 0)) (idf_do pf (MutexDelete (x_lock (ctx s2))) s2) else s2)
           in (ESP_OK, set_ctx (\<lambda>_. ctx_zero) s3))"

definition wsm_driver_spi_register_iolib_callbacks ::
  "wsm_build \<Rightarrow> platform \<Rightarrow> spi_st \<Rightarrow> esp_err_t \<times> spi_st" where
  "wsm_driver_spi_register_iolib_callbacks b pf s =
     (if \<not> x_initialized (ctx s) then (ESP_ERR_INVALID_STATE, s)
      else if \<not> b_iolib b then (ESP_ERR_NOT_SUPPORTED, s)
      else let s1 = idf_do pf RegCs (idf_do pf RegCris s)
           in (ESP_OK, if WSM_DRIVER_USE_QSPI b then idf_do pf RegQspi s1
                       else idf_do pf RegSpiburst (idf_do pf (RegSpi (b_chip b = CHIP_W6100)) s1)))"

definition wsm_driver_spi_reset :: "platform \<Rightarrow> spi_st \<Rightarrow> esp_err_t \<times> spi_st" where
  "wsm_driver_spi_reset pf s =
     (let rst = g_pin_rst (x_cfg (ctx s)) in
      if \<not> x_initialized (ctx s) then (ESP_ERR_INVALID_STATE, s)
      else if rst < 0 then (ESP_ERR_NOT_SUPPORTED, s)
      else let s1 = idf_do pf (GpioSet rst False) s;
               s2 = idf_do pf (TaskDelay (WSM_DRIVER_DELAY_TICKS pf 2)) s1;
               s3 = idf_do pf (GpioSet rst True) s2
           in (ESP_OK, idf_do pf (TaskDelay (WSM_DRIVER_DELAY_TICKS pf 150)) s3))"

text \<open>The ioLibrary calls this layer makes. They run its callbacks, so they act on its state.\<close>

record chip_lib =
  lib_getVER :: "spi_st \<Rightarrow> u8 \<times> spi_st"
  lib_getVERSIONR :: "spi_st \<Rightarrow> u8 \<times> spi_st"
  lib_getCIDR :: "spi_st \<Rightarrow> u16 \<times> spi_st"
  lib_CW_GET_ID :: "spi_st \<Rightarrow> int \<times> spi_st"
  lib_CW_GET_PHYLINK :: "spi_st \<Rightarrow> (int \<times> u8) \<times> spi_st"
  lib_wizchip_init :: "bytes \<Rightarrow> bytes \<Rightarrow> spi_st \<Rightarrow> int \<times> spi_st"
  lib_wizchip_setnetinfo :: "wiz_NetInfo \<Rightarrow> spi_st \<Rightarrow> spi_st"

definition wsm_driver_spi_wizchip_check ::
  "wsm_build \<Rightarrow> chip_lib \<Rightarrow> spi_st \<Rightarrow> esp_err_t \<times> spi_st" where
  "wsm_driver_spi_wizchip_check b lib s =
     (if \<not> x_initialized (ctx s) then (ESP_ERR_INVALID_STATE, s)
      else if \<not> b_iolib b then (ESP_ERR_NOT_SUPPORTED, s)
      else (case b_chip b of
          CHIP_W5100S \<Rightarrow> (case lib_getVER lib s of (v, s1) \<Rightarrow> (if v \<noteq> 0x51 then ESP_FAIL else ESP_OK, s1))
        | CHIP_W5500 \<Rightarrow> (case lib_getVERSIONR lib s of (v, s1) \<Rightarrow> (if v \<noteq> 0x04 then ESP_FAIL else ESP_OK, s1))
        | CHIP_W6100 \<Rightarrow> (case lib_getCIDR lib s of (c, s1) \<Rightarrow> (if c \<noteq> 0x6100 then ESP_FAIL else ESP_OK, s1))
        | CHIP_W6300 \<Rightarrow> (case lib_getCIDR lib s of (c, s1) \<Rightarrow> (if c \<noteq> 0x6300 then ESP_FAIL else ESP_OK, s1))
        | CHIP_OTHER \<Rightarrow> (case lib_CW_GET_ID lib s of (r, s1) \<Rightarrow> (if r \<noteq> 0 then ESP_FAIL else ESP_OK, s1))))"

text \<open>The result is the code and what is stored in \<open>*is_up\<close>.\<close>

definition wsm_driver_spi_link_is_up ::
  "wsm_build \<Rightarrow> chip_lib \<Rightarrow> bool \<Rightarrow> spi_st \<Rightarrow> (esp_err_t \<times> bool option) \<times> spi_st" where
  "wsm_driver_spi_link_is_up b lib is_up_null s =
     (if is_up_null then ((ESP_ERR_INVALID_ARG, None), s)
      else if \<not> x_initialized (ctx s) then ((ESP_ERR_INVALID_STATE, None), s)
      else if \<not> b_iolib b then ((ESP_ERR_NOT_SUPPORTED, Some False), s)
      else case lib_CW_GET_PHYLINK lib s of ((r, link), s1) \<Rightarrow>
        if r \<noteq> 0 then ((ESP_FAIL, Some False), s1) else ((ESP_OK, Some (link \<noteq> 0)), s1))"

end
