(* ===== verification/W5500.thy ===== *)
theory W5500
  imports Spi
begin

text \<open>
  The MAC driver of \<open>esp_eth_mac_w5500.c\<close>: the chip as a raw Ethernet MAC behind an SPI driver the
  configuration may replace. A register access goes through the two entries of
  \<open>eth_spi_custom_driver_t\<close>; they, the clock, the heap, the timer and the stack above are the
  parameter \<open>emac_env\<close>, each acting on the world \<open>'w\<close>. Loops on the chip without a bound of
  their own take fuel; \<open>None\<close> says that it has run out.
\<close>

section \<open>The register map\<close>

definition W5500_ADDR_OFFSET :: nat where "W5500_ADDR_OFFSET = 16"
definition W5500_BSB_OFFSET :: nat where "W5500_BSB_OFFSET = 3"
definition W5500_RWB_OFFSET :: nat where "W5500_RWB_OFFSET = 2"
definition W5500_CHIP_VERSION :: u8 where "W5500_CHIP_VERSION = 4"
definition W5500_BSB_COM_REG :: u32 where "W5500_BSB_COM_REG = 0"
definition W5500_BSB_SOCK_REG :: "u32 \<Rightarrow> u32" where "W5500_BSB_SOCK_REG s = s * 4 + 1"
definition W5500_BSB_SOCK_TX_BUF :: "u32 \<Rightarrow> u32" where "W5500_BSB_SOCK_TX_BUF s = s * 4 + 2"
definition W5500_BSB_SOCK_RX_BUF :: "u32 \<Rightarrow> u32" where "W5500_BSB_SOCK_RX_BUF s = s * 4 + 3"
definition W5500_ACCESS_MODE_READ :: u32 where "W5500_ACCESS_MODE_READ = 0"
definition W5500_ACCESS_MODE_WRITE :: u32 where "W5500_ACCESS_MODE_WRITE = 1"
definition W5500_SPI_OP_MODE_VDM :: u32 where "W5500_SPI_OP_MODE_VDM = 0"

definition W5500_MAKE_MAP :: "u32 \<Rightarrow> u32 \<Rightarrow> u32" where
  "W5500_MAKE_MAP offset bsb = push_bit W5500_ADDR_OFFSET offset OR push_bit W5500_BSB_OFFSET bsb"

definition W5500_REG_MR :: u32 where "W5500_REG_MR = W5500_MAKE_MAP 0x0000 W5500_BSB_COM_REG"
definition W5500_REG_MAC :: u32 where "W5500_REG_MAC = W5500_MAKE_MAP 0x0009 W5500_BSB_COM_REG"
definition W5500_REG_INTLEVEL :: u32 where "W5500_REG_INTLEVEL = W5500_MAKE_MAP 0x0013 W5500_BSB_COM_REG"
definition W5500_REG_SIMR :: u32 where "W5500_REG_SIMR = W5500_MAKE_MAP 0x0018 W5500_BSB_COM_REG"
definition W5500_REG_PHYCFGR :: u32 where "W5500_REG_PHYCFGR = W5500_MAKE_MAP 0x002E W5500_BSB_COM_REG"
definition W5500_REG_VERSIONR :: u32 where "W5500_REG_VERSIONR = W5500_MAKE_MAP 0x0039 W5500_BSB_COM_REG"
definition W5500_REG_SOCK_MR :: "u32 \<Rightarrow> u32" where "W5500_REG_SOCK_MR s = W5500_MAKE_MAP 0x0000 (W5500_BSB_SOCK_REG s)"
definition W5500_REG_SOCK_CR :: "u32 \<Rightarrow> u32" where "W5500_REG_SOCK_CR s = W5500_MAKE_MAP 0x0001 (W5500_BSB_SOCK_REG s)"
definition W5500_REG_SOCK_IR :: "u32 \<Rightarrow> u32" where "W5500_REG_SOCK_IR s = W5500_MAKE_MAP 0x0002 (W5500_BSB_SOCK_REG s)"
definition W5500_REG_SOCK_RXBUF_SIZE :: "u32 \<Rightarrow> u32" where
  "W5500_REG_SOCK_RXBUF_SIZE s = W5500_MAKE_MAP 0x001E (W5500_BSB_SOCK_REG s)"
definition W5500_REG_SOCK_TXBUF_SIZE :: "u32 \<Rightarrow> u32" where
  "W5500_REG_SOCK_TXBUF_SIZE s = W5500_MAKE_MAP 0x001F (W5500_BSB_SOCK_REG s)"
definition W5500_REG_SOCK_TX_FSR :: "u32 \<Rightarrow> u32" where "W5500_REG_SOCK_TX_FSR s = W5500_MAKE_MAP 0x0020 (W5500_BSB_SOCK_REG s)"
definition W5500_REG_SOCK_TX_WR :: "u32 \<Rightarrow> u32" where "W5500_REG_SOCK_TX_WR s = W5500_MAKE_MAP 0x0024 (W5500_BSB_SOCK_REG s)"
definition W5500_REG_SOCK_RX_RSR :: "u32 \<Rightarrow> u32" where "W5500_REG_SOCK_RX_RSR s = W5500_MAKE_MAP 0x0026 (W5500_BSB_SOCK_REG s)"
definition W5500_REG_SOCK_RX_RD :: "u32 \<Rightarrow> u32" where "W5500_REG_SOCK_RX_RD s = W5500_MAKE_MAP 0x0028 (W5500_BSB_SOCK_REG s)"
definition W5500_REG_SOCK_IMR :: "u32 \<Rightarrow> u32" where "W5500_REG_SOCK_IMR s = W5500_MAKE_MAP 0x002C (W5500_BSB_SOCK_REG s)"
definition W5500_MEM_SOCK_TX :: "u32 \<Rightarrow> u16 \<Rightarrow> u32" where
  "W5500_MEM_SOCK_TX s a = W5500_MAKE_MAP (ucast a) (W5500_BSB_SOCK_TX_BUF s)"
definition W5500_MEM_SOCK_RX :: "u32 \<Rightarrow> u16 \<Rightarrow> u32" where
  "W5500_MEM_SOCK_RX s a = W5500_MAKE_MAP (ucast a) (W5500_BSB_SOCK_RX_BUF s)"

definition W5500_MR_RST :: u8 where "W5500_MR_RST = 0x80"
definition W5500_MR_PB :: u8 where "W5500_MR_PB = 0x10"
definition W5500_SIMR_SOCK0 :: u8 where "W5500_SIMR_SOCK0 = 1"
definition W5500_SMR_MAC_RAW :: u8 where "W5500_SMR_MAC_RAW = 4"
definition W5500_SMR_MAC_FILTER :: u8 where "W5500_SMR_MAC_FILTER = 0x80"
definition W5500_SMR_MAC_BLOCK_MCAST :: u8 where "W5500_SMR_MAC_BLOCK_MCAST = 0x20"
definition W5500_SCR_OPEN :: u8 where "W5500_SCR_OPEN = 1"
definition W5500_SCR_CLOSE :: u8 where "W5500_SCR_CLOSE = 0x10"
definition W5500_SCR_SEND :: u8 where "W5500_SCR_SEND = 0x20"
definition W5500_SCR_RECV :: u8 where "W5500_SCR_RECV = 0x40"
definition W5500_SIR_RECV :: u8 where "W5500_SIR_RECV = 4"
definition W5500_SIR_SEND :: u8 where "W5500_SIR_SEND = 0x10"

definition W5500_100M_TX_TMO_US :: u32 where "W5500_100M_TX_TMO_US = 200"
definition W5500_10M_TX_TMO_US :: u32 where "W5500_10M_TX_TMO_US = 1500"
definition W5500_ETH_MAC_RX_BUF_SIZE_AUTO :: u32 where "W5500_ETH_MAC_RX_BUF_SIZE_AUTO = 0"

lemmas w5500_layout [eval_defs] = W5500_ADDR_OFFSET_def W5500_BSB_OFFSET_def W5500_RWB_OFFSET_def
  W5500_BSB_COM_REG_def W5500_BSB_SOCK_REG_def W5500_BSB_SOCK_TX_BUF_def W5500_BSB_SOCK_RX_BUF_def
  W5500_ACCESS_MODE_READ_def W5500_ACCESS_MODE_WRITE_def W5500_SPI_OP_MODE_VDM_def W5500_MAKE_MAP_def
lemmas w5500_regs [eval_defs] = W5500_REG_MR_def W5500_REG_MAC_def W5500_REG_INTLEVEL_def W5500_REG_SIMR_def
  W5500_REG_PHYCFGR_def W5500_REG_VERSIONR_def W5500_REG_SOCK_MR_def W5500_REG_SOCK_CR_def W5500_REG_SOCK_IR_def
  W5500_REG_SOCK_RXBUF_SIZE_def W5500_REG_SOCK_TXBUF_SIZE_def W5500_REG_SOCK_TX_FSR_def W5500_REG_SOCK_TX_WR_def
  W5500_REG_SOCK_RX_RSR_def W5500_REG_SOCK_RX_RD_def W5500_REG_SOCK_IMR_def W5500_MEM_SOCK_TX_def W5500_MEM_SOCK_RX_def
lemmas w5500_bits [eval_defs] = W5500_MR_RST_def W5500_MR_PB_def W5500_SIMR_SOCK0_def W5500_SMR_MAC_RAW_def
  W5500_SMR_MAC_FILTER_def W5500_SMR_MAC_BLOCK_MCAST_def W5500_SCR_OPEN_def W5500_SCR_CLOSE_def W5500_SCR_SEND_def
  W5500_SCR_RECV_def W5500_SIR_RECV_def W5500_SIR_SEND_def

text \<open>The frame sizes of \<open>esp_eth_com.h\<close> (ESP-IDF).\<close>

definition ETH_MAX_PACKET_SIZE :: u32 where "ETH_MAX_PACKET_SIZE = 1522"
definition ETH_MIN_PACKET_SIZE :: u32 where "ETH_MIN_PACKET_SIZE = 64"
definition ETH_CRC_LEN :: u32 where "ETH_CRC_LEN = 4"

section \<open>State and environment\<close>

record emac_w5500_t =
  m_eth :: bool
  m_sw_reset_timeout_ms :: u32
  m_int_gpio_num :: int
  m_poll_timer :: bool
  m_poll_period_ms :: u32
  m_addr :: bytes
  m_packets_remain :: bool
  m_mcast_cnt :: u8
  m_tx_tmo :: u32

datatype eth_state = ETH_STATE_LLINIT | ETH_STATE_DEINIT
datatype eth_link = ETH_LINK_UP | ETH_LINK_DOWN | ETH_LINK_OTHER
datatype eth_speed = ETH_SPEED_10M | ETH_SPEED_100M | ETH_SPEED_OTHER
datatype eth_duplex = ETH_DUPLEX_HALF | ETH_DUPLEX_FULL | ETH_DUPLEX_OTHER

text \<open>\<open>v_read\<close> and \<open>v_write\<close> are the SPI driver; a read returns what it left in the buffer with its
  code. \<open>v_int_on\<close> and \<open>v_int_off\<close> stand for the GPIO calls that install and remove the
  interrupt handler; \<open>v_wake\<close> is the notification the receive task waits for.\<close>

record 'w emac_env =
  v_read :: "u32 \<Rightarrow> u32 \<Rightarrow> nat \<Rightarrow> 'w \<Rightarrow> (esp_err_t \<times> bytes) \<times> 'w"
  v_write :: "u32 \<Rightarrow> u32 \<Rightarrow> bytes \<Rightarrow> 'w \<Rightarrow> esp_err_t \<times> 'w"
  v_delay_ms :: "u32 \<Rightarrow> 'w \<Rightarrow> 'w"
  v_time :: "'w \<Rightarrow> 64 word \<times> 'w"
  v_malloc :: "u32 \<Rightarrow> 'w \<Rightarrow> bool \<times> 'w"
  v_free :: "'w \<Rightarrow> 'w"
  v_stack_input :: "bytes \<Rightarrow> 'w \<Rightarrow> 'w"
  v_state_changed :: "eth_state \<Rightarrow> 'w \<Rightarrow> esp_err_t \<times> 'w"
  v_int_on :: "int \<Rightarrow> 'w \<Rightarrow> 'w"
  v_int_off :: "int \<Rightarrow> 'w \<Rightarrow> 'w"
  v_int_level :: "int \<Rightarrow> 'w \<Rightarrow> bool \<times> 'w"
  v_wake :: "bool \<Rightarrow> 'w \<Rightarrow> bool \<times> 'w"
  v_timer_start :: "u32 \<Rightarrow> 'w \<Rightarrow> esp_err_t \<times> 'w"
  v_timer_stop :: "'w \<Rightarrow> esp_err_t \<times> 'w"
  v_timer_active :: "'w \<Rightarrow> bool \<times> 'w"

text \<open>\<open>ESP_GOTO_ON_ERROR\<close>: the next step runs when the code is \<open>ESP_OK\<close>, otherwise the code is the
  result.\<close>

definition and_then :: "esp_err_t \<times> 's \<Rightarrow> ('s \<Rightarrow> esp_err_t \<times> 's) \<Rightarrow> esp_err_t \<times> 's" where
  "and_then r k = (case r of (e, s) \<Rightarrow> if e = ESP_OK then k s else (e, s))"

definition with_data :: "(esp_err_t \<times> 'a) \<times> 's \<Rightarrow> ('a \<Rightarrow> 's \<Rightarrow> esp_err_t \<times> 's) \<Rightarrow> esp_err_t \<times> 's" where
  "with_data r k = (case r of ((e, a), s) \<Rightarrow> if e = ESP_OK then k a s else (e, s))"

lemma and_then_simps [simp]:
  "and_then (ESP_OK, s) k = k s" "e \<noteq> ESP_OK \<Longrightarrow> and_then (e, s) k = (e, s)"
  by (simp_all add: and_then_def)

lemma with_data_simps [simp]:
  "with_data ((ESP_OK, a), s) k = k a s" "e \<noteq> ESP_OK \<Longrightarrow> with_data ((e, a), s) k = (e, s)"
  by (simp_all add: with_data_def)

text \<open>A byte of a C variable that was read into; one that was not written reads as zero. The target
  is little-endian, the chip big-endian: \<open>be16_at\<close> is \<open>__builtin_bswap16\<close> of the variable.\<close>

definition byte :: "bytes \<Rightarrow> nat \<Rightarrow> u8" where
  "byte b i = (if i < length b then b ! i else 0)"

definition be16_at :: "bytes \<Rightarrow> u16" where
  "be16_at b = be16_of (byte b 0) (byte b 1)"

definition be16_bytes :: "u16 \<Rightarrow> bytes" where
  "be16_bytes x = [hi8 x, lo8 x]"

lemma be16_at_bytes [simp]: "be16_at (be16_bytes x) = x"
  by (simp add: be16_at_def be16_bytes_def byte_def)

section \<open>Register access\<close>

definition w5500_read :: "'w emac_env \<Rightarrow> u32 \<Rightarrow> nat \<Rightarrow> 'w \<Rightarrow> (esp_err_t \<times> bytes) \<times> 'w" where
  "w5500_read v address len w =
     v_read v (drop_bit W5500_ADDR_OFFSET address)
       ((address AND 0xFFFF) OR push_bit W5500_RWB_OFFSET W5500_ACCESS_MODE_READ OR W5500_SPI_OP_MODE_VDM) len w"

definition w5500_write :: "'w emac_env \<Rightarrow> u32 \<Rightarrow> bytes \<Rightarrow> 'w \<Rightarrow> esp_err_t \<times> 'w" where
  "w5500_write v address data w =
     v_write v (drop_bit W5500_ADDR_OFFSET address)
       ((address AND 0xFFFF) OR push_bit W5500_RWB_OFFSET W5500_ACCESS_MODE_WRITE OR W5500_SPI_OP_MODE_VDM) data w"

fun command_wait :: "'w emac_env \<Rightarrow> nat \<Rightarrow> 'w \<Rightarrow> esp_err_t \<times> 'w" where
  "command_wait v 0 w = (ESP_ERR_TIMEOUT, w)"
| "command_wait v (Suc k) w =
     with_data (w5500_read v (W5500_REG_SOCK_CR 0) 1 w)
       (\<lambda>b w1. if byte b 0 = 0 then (ESP_OK, w1) else command_wait v k (v_delay_ms v 10 w1))"

definition w5500_send_command :: "'w emac_env \<Rightarrow> u8 \<Rightarrow> u32 \<Rightarrow> 'w \<Rightarrow> esp_err_t \<times> 'w" where
  "w5500_send_command v command timeout_ms w =
     and_then (w5500_write v (W5500_REG_SOCK_CR 0) [command] w) (command_wait v (unat (timeout_ms div 10)))"

text \<open>Two reads in a row until they agree; the result carries the code and the value.\<close>

definition stable_turn :: "'w emac_env \<Rightarrow> u32 \<Rightarrow> 'w \<Rightarrow> (esp_err_t \<times> u16) option \<times> 'w" where
  "stable_turn v reg w =
     (case w5500_read v reg 2 w of ((e0, b0), w1) \<Rightarrow>
        if e0 \<noteq> ESP_OK then (Some (e0, 0), w1)
        else case w5500_read v reg 2 w1 of ((e1, b1), w2) \<Rightarrow>
          if e1 \<noteq> ESP_OK then (Some (e1, 0), w2)
          else if be16_at b0 \<noteq> be16_at b1 then (None, w2)
          else (Some (ESP_OK, be16_at b0), w2))"

definition w5500_get_tx_free_size :: "'w emac_env \<Rightarrow> nat \<Rightarrow> 'w \<Rightarrow> ((esp_err_t \<times> u16) \<times> 'w) option" where
  "w5500_get_tx_free_size v fuel w = poll_loop fuel (stable_turn v (W5500_REG_SOCK_TX_FSR 0)) w"

definition w5500_get_rx_received_size :: "'w emac_env \<Rightarrow> nat \<Rightarrow> 'w \<Rightarrow> ((esp_err_t \<times> u16) \<times> 'w) option" where
  "w5500_get_rx_received_size v fuel w = poll_loop fuel (stable_turn v (W5500_REG_SOCK_RX_RSR 0)) w"

definition w5500_write_buffer :: "'w emac_env \<Rightarrow> bytes \<Rightarrow> u16 \<Rightarrow> 'w \<Rightarrow> esp_err_t \<times> 'w" where
  "w5500_write_buffer v buffer offset w = w5500_write v (W5500_MEM_SOCK_TX 0 offset) buffer w"

definition w5500_read_buffer :: "'w emac_env \<Rightarrow> nat \<Rightarrow> u16 \<Rightarrow> 'w \<Rightarrow> (esp_err_t \<times> bytes) \<times> 'w" where
  "w5500_read_buffer v len offset w = w5500_read v (W5500_MEM_SOCK_RX 0 offset) len w"

definition w5500_set_mac_addr :: "'w emac_env \<Rightarrow> emac_w5500_t \<Rightarrow> 'w \<Rightarrow> esp_err_t \<times> 'w" where
  "w5500_set_mac_addr v m w = w5500_write v W5500_REG_MAC (m_addr m) w"

section \<open>Reset and setup\<close>

fun reset_wait :: "'w emac_env \<Rightarrow> nat \<Rightarrow> 'w \<Rightarrow> esp_err_t \<times> 'w" where
  "reset_wait v 0 w = (ESP_ERR_TIMEOUT, w)"
| "reset_wait v (Suc k) w =
     with_data (w5500_read v W5500_REG_MR 1 w)
       (\<lambda>b w1. if byte b 0 AND W5500_MR_RST = 0 then (ESP_OK, w1) else reset_wait v k (v_delay_ms v 10 w1))"

definition w5500_reset :: "'w emac_env \<Rightarrow> emac_w5500_t \<Rightarrow> 'w \<Rightarrow> esp_err_t \<times> 'w" where
  "w5500_reset v m w =
     and_then (w5500_write v W5500_REG_MR [W5500_MR_RST] w) (reset_wait v (unat (m_sw_reset_timeout_ms m div 10)))"

fun verify_wait :: "'w emac_env \<Rightarrow> nat \<Rightarrow> 'w \<Rightarrow> esp_err_t \<times> 'w" where
  "verify_wait v 0 w = (ESP_ERR_INVALID_VERSION, w)"
| "verify_wait v (Suc k) w =
     with_data (w5500_read v W5500_REG_VERSIONR 1 w)
       (\<lambda>b w1. if byte b 0 = W5500_CHIP_VERSION then (ESP_OK, w1) else verify_wait v k (v_delay_ms v 10 w1))"

definition w5500_verify_id :: "'w emac_env \<Rightarrow> emac_w5500_t \<Rightarrow> 'w \<Rightarrow> esp_err_t \<times> 'w" where
  "w5500_verify_id v m w = verify_wait v (unat (m_sw_reset_timeout_ms m div 10)) w"

fun write_all :: "'w emac_env \<Rightarrow> (u32 \<times> bytes) list \<Rightarrow> 'w \<Rightarrow> esp_err_t \<times> 'w" where
  "write_all v [] w = (ESP_OK, w)"
| "write_all v ((a, d) # ws) w = and_then (w5500_write v a d w) (write_all v ws)"

definition setup_writes :: "(u32 \<times> bytes) list" where
  "setup_writes =
     [(W5500_REG_SOCK_RXBUF_SIZE 0, [16]), (W5500_REG_SOCK_TXBUF_SIZE 0, [16])] @
     concat (map (\<lambda>i. [(W5500_REG_SOCK_RXBUF_SIZE (of_nat i), [0]), (W5500_REG_SOCK_TXBUF_SIZE (of_nat i), [0])]) [1..<8]) @
     [(W5500_REG_MR, [W5500_MR_PB]), (W5500_REG_SIMR, [0]),
      (W5500_REG_SOCK_MR 0, [W5500_SMR_MAC_RAW OR W5500_SMR_MAC_FILTER OR W5500_SMR_MAC_BLOCK_MCAST]),
      (W5500_REG_SOCK_IMR 0, [W5500_SIR_RECV]), (W5500_REG_INTLEVEL, [0xFF, 0xFF])]"

definition w5500_setup_default :: "'w emac_env \<Rightarrow> 'w \<Rightarrow> esp_err_t \<times> 'w" where
  "w5500_setup_default v w = write_all v setup_writes w"

definition emac_w5500_start :: "'w emac_env \<Rightarrow> 'w \<Rightarrow> esp_err_t \<times> 'w" where
  "emac_w5500_start v w =
     and_then (w5500_send_command v W5500_SCR_OPEN 100 w) (w5500_write v W5500_REG_SIMR [W5500_SIMR_SOCK0])"

definition emac_w5500_stop :: "'w emac_env \<Rightarrow> 'w \<Rightarrow> esp_err_t \<times> 'w" where
  "emac_w5500_stop v w =
     and_then (w5500_write v W5500_REG_SIMR [0] w) (w5500_send_command v W5500_SCR_CLOSE 100)"

section \<open>The interface of the Ethernet driver\<close>

definition emac_w5500_set_mediator :: "bool \<Rightarrow> emac_w5500_t \<Rightarrow> esp_err_t \<times> emac_w5500_t" where
  "emac_w5500_set_mediator eth m = (if eth then (ESP_OK, m\<lparr>m_eth := True\<rparr>) else (ESP_ERR_INVALID_ARG, m))"

definition emac_w5500_write_phy_reg :: "'w emac_env \<Rightarrow> u32 \<Rightarrow> u32 \<Rightarrow> 'w \<Rightarrow> esp_err_t \<times> 'w" where
  "emac_w5500_write_phy_reg v phy_reg reg_value w =
     (if phy_reg \<noteq> W5500_REG_PHYCFGR then (ESP_FAIL, w)
      else w5500_write v W5500_REG_PHYCFGR [ucast reg_value] w)"

text \<open>Only the low byte of \<open>*reg_value\<close> is written; \<open>old\<close> is what it held.\<close>

definition emac_w5500_read_phy_reg :: "'w emac_env \<Rightarrow> u32 \<Rightarrow> u32 option \<Rightarrow> 'w \<Rightarrow> (esp_err_t \<times> u32 option) \<times> 'w" where
  "emac_w5500_read_phy_reg v phy_reg old w =
     (case old of None \<Rightarrow> ((ESP_ERR_INVALID_ARG, None), w)
      | Some x \<Rightarrow>
        if phy_reg \<noteq> W5500_REG_PHYCFGR then ((ESP_FAIL, old), w)
        else case w5500_read v W5500_REG_PHYCFGR 1 w of ((e, b), w1) \<Rightarrow>
          if e \<noteq> ESP_OK then ((e, old), w1)
          else ((ESP_OK, Some ((x AND 0xFFFFFF00) OR ucast (byte b 0))), w1))"

definition emac_w5500_set_addr ::
  "'w emac_env \<Rightarrow> bytes option \<Rightarrow> emac_w5500_t \<Rightarrow> 'w \<Rightarrow> esp_err_t \<times> emac_w5500_t \<times> 'w" where
  "emac_w5500_set_addr v addr m w =
     (case addr of None \<Rightarrow> (ESP_ERR_INVALID_ARG, m, w)
      | Some a \<Rightarrow> let m1 = m\<lparr>m_addr := take 6 a\<rparr>; (e, w1) = w5500_set_mac_addr v m1 w in (e, m1, w1))"

definition emac_w5500_get_addr :: "bool \<Rightarrow> emac_w5500_t \<Rightarrow> esp_err_t \<times> bytes option" where
  "emac_w5500_get_addr addr_null m =
     (if addr_null then (ESP_ERR_INVALID_ARG, None) else (ESP_OK, Some (m_addr m)))"

definition emac_w5500_set_block_ip4_mcast :: "'w emac_env \<Rightarrow> bool \<Rightarrow> 'w \<Rightarrow> esp_err_t \<times> 'w" where
  "emac_w5500_set_block_ip4_mcast v block w =
     with_data (w5500_read v (W5500_REG_SOCK_MR 0) 1 w)
       (\<lambda>b. w5500_write v (W5500_REG_SOCK_MR 0)
          [if block then byte b 0 OR W5500_SMR_MAC_BLOCK_MCAST else byte b 0 AND NOT W5500_SMR_MAC_BLOCK_MCAST])"

definition emac_w5500_add_mac_filter ::
  "'w emac_env \<Rightarrow> bytes \<Rightarrow> emac_w5500_t \<Rightarrow> 'w \<Rightarrow> esp_err_t \<times> emac_w5500_t \<times> 'w" where
  "emac_w5500_add_mac_filter v addr m w =
     (if addr ! 0 = 0x01 \<and> addr ! 1 = 0x00 \<and> addr ! 2 = 0x5E then
        (case emac_w5500_set_block_ip4_mcast v False w of (e, w1) \<Rightarrow>
           if e \<noteq> ESP_OK then (e, m, w1) else (ESP_OK, m\<lparr>m_mcast_cnt := m_mcast_cnt m + 1\<rparr>, w1))
      else if addr ! 0 = 0x33 \<and> addr ! 1 = 0x33 then (ESP_OK, m, w)
      else (ESP_ERR_NOT_SUPPORTED, m, w))"

definition emac_w5500_del_mac_filter ::
  "'w emac_env \<Rightarrow> bytes \<Rightarrow> emac_w5500_t \<Rightarrow> 'w \<Rightarrow> esp_err_t \<times> emac_w5500_t \<times> 'w" where
  "emac_w5500_del_mac_filter v addr m w =
     (if addr ! 0 = 0x33 \<and> addr ! 1 = 0x33 then (ESP_FAIL, m, w)
      else let m1 = (if addr ! 0 = 0x01 \<and> addr ! 1 = 0x00 \<and> addr ! 2 = 0x5E \<and> 0 < m_mcast_cnt m
                     then m\<lparr>m_mcast_cnt := m_mcast_cnt m - 1\<rparr> else m)
           in if m_mcast_cnt m1 = 0 then (case emac_w5500_set_block_ip4_mcast v True w of (e, w1) \<Rightarrow> (e, m1, w1))
              else (ESP_OK, m1, w))"

definition emac_w5500_set_link :: "'w emac_env \<Rightarrow> eth_link \<Rightarrow> emac_w5500_t \<Rightarrow> 'w \<Rightarrow> esp_err_t \<times> 'w" where
  "emac_w5500_set_link v link m w =
     (case link of
        ETH_LINK_UP \<Rightarrow> and_then (emac_w5500_start v w)
          (\<lambda>w1. if m_poll_timer m then v_timer_start v (m_poll_period_ms m * 1000) w1 else (ESP_OK, w1))
      | ETH_LINK_DOWN \<Rightarrow> and_then (emac_w5500_stop v w)
          (\<lambda>w1. if m_poll_timer m then v_timer_stop v w1 else (ESP_OK, w1))
      | ETH_LINK_OTHER \<Rightarrow> (ESP_ERR_INVALID_ARG, w))"

definition emac_w5500_set_speed :: "eth_speed \<Rightarrow> emac_w5500_t \<Rightarrow> esp_err_t \<times> emac_w5500_t" where
  "emac_w5500_set_speed speed m =
     (case speed of
        ETH_SPEED_10M \<Rightarrow> (ESP_OK, m\<lparr>m_tx_tmo := W5500_10M_TX_TMO_US\<rparr>)
      | ETH_SPEED_100M \<Rightarrow> (ESP_OK, m\<lparr>m_tx_tmo := W5500_100M_TX_TMO_US\<rparr>)
      | ETH_SPEED_OTHER \<Rightarrow> (ESP_ERR_INVALID_ARG, m))"

definition emac_w5500_set_duplex :: "eth_duplex \<Rightarrow> esp_err_t" where
  "emac_w5500_set_duplex duplex = (if duplex = ETH_DUPLEX_OTHER then ESP_ERR_INVALID_ARG else ESP_OK)"

definition emac_w5500_set_promiscuous :: "'w emac_env \<Rightarrow> bool \<Rightarrow> 'w \<Rightarrow> esp_err_t \<times> 'w" where
  "emac_w5500_set_promiscuous v enable w =
     with_data (w5500_read v (W5500_REG_SOCK_MR 0) 1 w)
       (\<lambda>b. w5500_write v (W5500_REG_SOCK_MR 0)
          [if enable then byte b 0 AND NOT W5500_SMR_MAC_FILTER else byte b 0 OR W5500_SMR_MAC_FILTER])"

definition emac_w5500_set_all_multicast ::
  "'w emac_env \<Rightarrow> bool \<Rightarrow> emac_w5500_t \<Rightarrow> 'w \<Rightarrow> esp_err_t \<times> emac_w5500_t \<times> 'w" where
  "emac_w5500_set_all_multicast v enable m w =
     (case emac_w5500_set_block_ip4_mcast v (\<not> enable) w of (e, w1) \<Rightarrow>
        if e \<noteq> ESP_OK then (e, m, w1) else (ESP_OK, m\<lparr>m_mcast_cnt := 0\<rparr>, w1))"

definition emac_w5500_enable_flow_ctrl :: "bool \<Rightarrow> esp_err_t" where
  "emac_w5500_enable_flow_ctrl enable = ESP_ERR_NOT_SUPPORTED"

definition emac_w5500_set_peer_pause_ability :: "u32 \<Rightarrow> esp_err_t" where
  "emac_w5500_set_peer_pause_ability ability = ESP_ERR_NOT_SUPPORTED"

section \<open>Transmission\<close>

text \<open>The mask is wider than the byte it is applied to.\<close>

definition is_w5500_sane_for_rxtx :: "'w emac_env \<Rightarrow> 'w \<Rightarrow> bool \<times> 'w" where
  "is_w5500_sane_for_rxtx v w =
     (case w5500_read v W5500_REG_PHYCFGR 1 w of ((e, b), w1) \<Rightarrow>
        (e = ESP_OK \<and> (ucast (byte b 0) :: u32) AND 0x8001 \<noteq> 0, w1))"

text \<open>One turn of the wait for the SEND event.\<close>

definition tx_done_turn :: "'w emac_env \<Rightarrow> u32 \<Rightarrow> 64 word \<Rightarrow> 'w \<Rightarrow> esp_err_t option \<times> 'w" where
  "tx_done_turn v tmo start w =
     (case v_time v w of (now, w1) \<Rightarrow>
      case is_w5500_sane_for_rxtx v w1 of (sane, w2) \<Rightarrow>
        if \<not> sane \<or> ucast tmo < now - start then (Some ESP_FAIL, w2)
        else case w5500_read v (W5500_REG_SOCK_IR 0) 1 w2 of ((e, b), w3) \<Rightarrow>
          if e \<noteq> ESP_OK then (Some e, w3)
          else if byte b 0 AND W5500_SIR_SEND = 0 then (None, w3)
          else (Some ESP_OK, w3))"

text \<open>Everything up to the SEND command, given the free size.\<close>

definition transmit_frame :: "'w emac_env \<Rightarrow> bytes \<Rightarrow> 'w \<Rightarrow> esp_err_t \<times> 'w" where
  "transmit_frame v buf w =
     with_data (w5500_read v (W5500_REG_SOCK_TX_WR 0) 2 w) (\<lambda>b w1.
       let offset = be16_at b in
       and_then (w5500_write_buffer v buf offset w1) (\<lambda>w2.
       and_then (w5500_write v (W5500_REG_SOCK_TX_WR 0) (be16_bytes (offset + of_nat (length buf))) w2)
         (w5500_send_command v W5500_SCR_SEND 100)))"

definition emac_w5500_transmit ::
  "'w emac_env \<Rightarrow> nat \<Rightarrow> emac_w5500_t \<Rightarrow> bytes \<Rightarrow> 'w \<Rightarrow> (esp_err_t \<times> 'w) option" where
  "emac_w5500_transmit v fuel m buf w =
     (if unat ETH_MAX_PACKET_SIZE < length buf then Some (ESP_ERR_INVALID_ARG, w)
      else case w5500_get_tx_free_size v fuel w of None \<Rightarrow> None
        | Some ((e, free_size), w1) \<Rightarrow>
          if e \<noteq> ESP_OK then Some (e, w1)
          else if unat free_size < length buf then Some (ESP_ERR_NO_MEM, w1)
          else case transmit_frame v buf w1 of (e1, w2) \<Rightarrow>
            if e1 \<noteq> ESP_OK then Some (e1, w2)
            else case v_time v w2 of (start, w3) \<Rightarrow>
              (case poll_loop fuel (tx_done_turn v (m_tx_tmo m) start) w3 of None \<Rightarrow> None
               | Some (e2, w4) \<Rightarrow>
                 if e2 \<noteq> ESP_OK then Some (e2, w4)
                 else Some (w5500_write v (W5500_REG_SOCK_IR 0) [W5500_SIR_SEND] w4)))"

section \<open>Reception\<close>

text \<open>\<open>emac_w5500_auto_buf_info_t\<close>, which the first half of a reception leaves in the buffer for the
  second.\<close>

record emac_w5500_auto_buf_info_t =
  i_offset :: u32
  i_copy_len :: u32
  i_rx_len :: u32
  i_remain :: u32

text \<open>The header in front of a frame: its length with the two bytes of the header.\<close>

definition read_header :: "'w emac_env \<Rightarrow> 'w \<Rightarrow> (esp_err_t \<times> u16 \<times> u16) \<times> 'w" where
  "read_header v w =
     (case w5500_read v (W5500_REG_SOCK_RX_RD 0) 2 w of ((e, b), w1) \<Rightarrow>
        if e \<noteq> ESP_OK then ((e, 0, 0), w1)
        else case w5500_read_buffer v 2 (be16_at b) w1 of ((e1, h), w2) \<Rightarrow> ((e1, be16_at b, be16_at h), w2))"

text \<open>The result: the code, what is left in \<open>*buf\<close>, and the new \<open>*length\<close>. When the header cannot
  be read, \<open>rx_len\<close> is zero or the raw bytes read before the swap, and nobody uses it.\<close>

definition emac_w5500_alloc_recv_buf ::
  "'w emac_env \<Rightarrow> nat \<Rightarrow> u32 \<Rightarrow> 'w \<Rightarrow> ((esp_err_t \<times> emac_w5500_auto_buf_info_t option \<times> u32) \<times> 'w) option" where
  "emac_w5500_alloc_recv_buf v fuel max_len w =
     (case w5500_get_rx_received_size v fuel w of None \<Rightarrow> None
      | Some ((_, remain), w1) \<Rightarrow>
        Some (if remain = 0 then ((ESP_OK, None, 0), w1)
              else case read_header v w1 of ((e, offset, hdr), w2) \<Rightarrow>
                if e \<noteq> ESP_OK then ((e, None, 0), w2)
                else let rx_len = hdr - 2;
                         copy_len = (if max_len < ucast rx_len then max_len else ucast rx_len)
                     in if copy_len < ETH_MIN_PACKET_SIZE - ETH_CRC_LEN
                        then ((ESP_ERR_INVALID_SIZE, None, ucast rx_len), w2)
                        else case v_malloc v copy_len w2 of (ok, w3) \<Rightarrow>
                          if ok then ((ESP_OK, Some \<lparr>i_offset = ucast offset, i_copy_len = copy_len,
                                         i_rx_len = ucast rx_len, i_remain = ucast remain\<rparr>, ucast rx_len), w3)
                          else ((ESP_ERR_NO_MEM, None, ucast rx_len), w3)))"

text \<open>The second half, from the offset of the header: the payload, the new read pointer, RECV.\<close>

definition receive_payload ::
  "'w emac_env \<Rightarrow> u16 \<Rightarrow> u16 \<Rightarrow> u16 \<Rightarrow> 'w \<Rightarrow> (esp_err_t \<times> bytes) \<times> 'w" where
  "receive_payload v offset copy_len rx_len w =
     (case w5500_read_buffer v (unat copy_len) (offset + 2) w of ((e, d), w1) \<Rightarrow>
        if e \<noteq> ESP_OK then ((e, []), w1)
        else case and_then (w5500_write v (W5500_REG_SOCK_RX_RD 0) (be16_bytes (offset + 2 + rx_len)) w1)
                    (w5500_send_command v W5500_SCR_RECV 100) of (e1, w2) \<Rightarrow> ((e1, d), w2))"

text \<open>\<open>info\<close> is what the buffer holds when \<open>*length\<close> asks for it. The result: the code, the bytes
  stored, and the new \<open>*length\<close>.\<close>

definition emac_w5500_receive ::
  "'w emac_env \<Rightarrow> nat \<Rightarrow> emac_w5500_auto_buf_info_t \<Rightarrow> u32 \<Rightarrow> emac_w5500_t \<Rightarrow> 'w \<Rightarrow>
     ((esp_err_t \<times> bytes \<times> u32) \<times> emac_w5500_t \<times> 'w) option" where
  "emac_w5500_receive v fuel info len m w =
     (let m0 = m\<lparr>m_packets_remain := False\<rparr>;
          finish = (\<lambda>offset copy_len rx_len (remain :: u16) w1.
            case receive_payload v offset copy_len rx_len w1 of ((e, d), w2) \<Rightarrow>
              if e \<noteq> ESP_OK then ((e, [], 0), m0, w2)
              else ((ESP_OK, d, ucast copy_len), m0\<lparr>m_packets_remain := (0 < remain - (rx_len + 2))\<rparr>, w2))
      in if len \<noteq> W5500_ETH_MAC_RX_BUF_SIZE_AUTO then
           (case w5500_get_rx_received_size v fuel w of None \<Rightarrow> None
            | Some ((_, remain), w1) \<Rightarrow>
              Some (if remain = 0 then ((ESP_OK, [], 0), m0, w1)
                    else case read_header v w1 of ((e, offset, hdr), w2) \<Rightarrow>
                      if e \<noteq> ESP_OK then ((e, [], 0), m0, w2)
                      else let rx_len = hdr - 2;
                               copy_len = (if len < ucast rx_len then ucast len else rx_len)
                           in finish offset copy_len rx_len remain w2))
         else Some (finish (ucast (i_offset info)) (ucast (i_copy_len info)) (ucast (i_rx_len info))
                      (ucast (i_remain info)) w))"

definition emac_w5500_flush_recv_frame ::
  "'w emac_env \<Rightarrow> nat \<Rightarrow> emac_w5500_t \<Rightarrow> 'w \<Rightarrow> (esp_err_t \<times> emac_w5500_t \<times> 'w) option" where
  "emac_w5500_flush_recv_frame v fuel m w =
     (let m0 = m\<lparr>m_packets_remain := False\<rparr> in
      case w5500_get_rx_received_size v fuel w of None \<Rightarrow> None
      | Some ((_, remain), w1) \<Rightarrow>
        Some (if remain = 0 then (ESP_OK, m0, w1)
              else case read_header v w1 of ((e, offset, rx_len), w2) \<Rightarrow>
                if e \<noteq> ESP_OK then (e, m0, w2)
                else case and_then (w5500_write v (W5500_REG_SOCK_RX_RD 0) (be16_bytes (offset + rx_len)) w2)
                            (w5500_send_command v W5500_SCR_RECV 100) of (e1, w3) \<Rightarrow>
                  if e1 \<noteq> ESP_OK then (e1, m0, w3)
                  else (ESP_OK, m0\<lparr>m_packets_remain := (0 < remain - rx_len)\<rparr>, w3)))"

section \<open>The receive task\<close>

text \<open>One turn of the inner loop: a frame is handed to the stack, dropped, or flushed.\<close>

definition rx_turn :: "'w emac_env \<Rightarrow> nat \<Rightarrow> emac_w5500_t \<Rightarrow> 'w \<Rightarrow> (emac_w5500_t \<times> 'w) option" where
  "rx_turn v fuel m w =
     (case emac_w5500_alloc_recv_buf v fuel ETH_MAX_PACKET_SIZE w of None \<Rightarrow> None
      | Some ((ret, buffer, frame_len), w1) \<Rightarrow>
        if ret = ESP_OK then
          (case buffer of None \<Rightarrow> Some (m, w1)
           | Some info \<Rightarrow>
             (case emac_w5500_receive v fuel info W5500_ETH_MAC_RX_BUF_SIZE_AUTO m w1 of None \<Rightarrow> None
              | Some ((e, d, buf_len), m1, w2) \<Rightarrow>
                Some (if e = ESP_OK then
                        (if buf_len = 0 then (m1, v_free v w2)
                         else if buf_len < frame_len then (m1, v_free v w2)
                         else (m1, v_stack_input v d w2))
                      else (m1, v_free v w2))))
        else if ret = ESP_ERR_NO_MEM then
          (case emac_w5500_flush_recv_frame v fuel m w1 of None \<Rightarrow> None
           | Some (_, m1, w2) \<Rightarrow> Some (m1, w2))
        else Some (m, w1))"

fun rx_loop :: "'w emac_env \<Rightarrow> nat \<Rightarrow> nat \<Rightarrow> emac_w5500_t \<Rightarrow> 'w \<Rightarrow> (emac_w5500_t \<times> 'w) option" where
  "rx_loop v fuel 0 m w = None"
| "rx_loop v fuel (Suc k) m w =
     (case rx_turn v fuel m w of None \<Rightarrow> None
      | Some (m1, w1) \<Rightarrow> if m_packets_remain m1 then rx_loop v fuel k m1 w1 else Some (m1, w1))"

text \<open>One round of the task: the wait, then the frames. \<open>True\<close> says that it got past the wait.\<close>

definition emac_w5500_task ::
  "'w emac_env \<Rightarrow> nat \<Rightarrow> emac_w5500_t \<Rightarrow> 'w \<Rightarrow> (bool \<times> emac_w5500_t \<times> 'w) option" where
  "emac_w5500_task v fuel m w =
     (let polled = (m_int_gpio_num m < 0);
          (woken, w1) = v_wake v (\<not> polled) w;
          (level, w2) = (if \<not> polled \<and> \<not> woken then v_int_level v (m_int_gpio_num m) w1 else (False, w1))
      in if level then Some (False, m, w2)
         else case w5500_read v (W5500_REG_SOCK_IR 0) 1 w2 of ((_, b), w3) \<Rightarrow>
           if byte b 0 AND W5500_SIR_RECV \<noteq> 0 then
             (case rx_loop v fuel fuel m (snd (w5500_write v (W5500_REG_SOCK_IR 0) [W5500_SIR_RECV] w3)) of
                None \<Rightarrow> None | Some (m1, w4) \<Rightarrow> Some (True, m1, w4))
           else Some (True, m, w3))"

section \<open>Starting and stopping the driver\<close>

definition emac_w5500_init :: "'w emac_env \<Rightarrow> emac_w5500_t \<Rightarrow> 'w \<Rightarrow> esp_err_t \<times> 'w" where
  "emac_w5500_init v m w =
     (let gpio = m_int_gpio_num m;
          w1 = (if 0 \<le> gpio then v_int_on v gpio w else w);
          (e, w2) = and_then (v_state_changed v ETH_STATE_LLINIT w1) (\<lambda>w. and_then (w5500_reset v m w)
                      (\<lambda>w. and_then (w5500_verify_id v m w) (w5500_setup_default v)))
      in if e = ESP_OK then (ESP_OK, w2)
         else let w3 = (if 0 \<le> gpio then v_int_off v gpio w2 else w2)
              in (e, snd (v_state_changed v ETH_STATE_DEINIT w3)))"

definition emac_w5500_deinit :: "'w emac_env \<Rightarrow> emac_w5500_t \<Rightarrow> 'w \<Rightarrow> esp_err_t \<times> 'w" where
  "emac_w5500_deinit v m w =
     (let w1 = snd (emac_w5500_stop v w);
          w2 = (if 0 \<le> m_int_gpio_num m then v_int_off v (m_int_gpio_num m) w1 else w1);
          w3 = (if m_poll_timer m
                then (case v_timer_active v w2 of (act, w') \<Rightarrow> if act then snd (v_timer_stop v w') else w')
                else w2)
      in (ESP_OK, snd (v_state_changed v ETH_STATE_DEINIT w3)))"

end
