(* ===== verification/Phy.thy ===== *)
theory Phy
  imports W5500
begin

text \<open>
  The PHY drivers of the two chips, \<open>esp_eth_phy_w5500.c\<close> and \<open>esp_eth_phy_w6300.c\<close>. They reach the
  registers and the Ethernet driver above through the mediator; the mediator, the GPIO calls and the
  delays are the parameter \<open>phy_env\<close>, acting on the world \<open>'w\<close>.
\<close>

section \<open>What both drivers share\<close>

datatype phy_event = EvSpeed eth_speed | EvDuplex eth_duplex | EvLink eth_link

datatype gpio_op = GpioFuncSel int | GpioLevel int bool | GpioOutputEnable int

text \<open>The register read is given the PHY address and the register; the delays are in milliseconds
  (\<open>vTaskDelay\<close>) and microseconds (\<open>esp_rom_delay_us\<close>).\<close>

record 'w phy_env =
  y_reg_read :: "int \<Rightarrow> u32 \<Rightarrow> 'w \<Rightarrow> (esp_err_t \<times> u32) \<times> 'w"
  y_reg_write :: "int \<Rightarrow> u32 \<Rightarrow> u32 \<Rightarrow> 'w \<Rightarrow> esp_err_t \<times> 'w"
  y_state_changed :: "phy_event \<Rightarrow> 'w \<Rightarrow> esp_err_t \<times> 'w"
  y_delay_ms :: "u32 \<Rightarrow> 'w \<Rightarrow> 'w"
  y_delay_us :: "u32 \<Rightarrow> 'w \<Rightarrow> 'w"
  y_gpio :: "gpio_op \<Rightarrow> 'w \<Rightarrow> 'w"

record phy_w5500_t =
  p_eth :: bool
  p_addr :: int
  p_reset_timeout_ms :: u32
  p_autonego_timeout_ms :: u32
  p_link_status :: eth_link
  p_reset_gpio_num :: int

text \<open>The struct of the W6300 driver has the same fields.\<close>

type_synonym phy_w6300_t = phy_w5500_t

datatype eth_phy_autoneg_cmd = ESP_ETH_PHY_AUTONEGO_RESTART | ESP_ETH_PHY_AUTONEGO_EN
  | ESP_ETH_PHY_AUTONEGO_DIS | ESP_ETH_PHY_AUTONEGO_G_STAT | ESP_ETH_PHY_AUTONEGO_OTHER

record eth_phy_config_t =
  f_phy_addr :: int
  f_reset_timeout_ms :: u32
  f_autonego_timeout_ms :: u32
  f_reset_gpio_num :: int

section \<open>The register of the W5500\<close>

text \<open>\<open>phycfg_reg_t\<close>: the bit fields of the byte, from bit 0 up.\<close>

datatype phy_w5500_op_mode_e = W5500_OP_MODE_10BT_HALF_AUTO_DIS | W5500_OP_MODE_10BT_FULL_AUTO_DIS
  | W5500_OP_MODE_100BT_HALF_AUTO_DIS | W5500_OP_MODE_100BT_FULL_AUTO_DIS
  | W5500_OP_MODE_100BT_HALF_AUTO_EN | W5500_OP_MODE_NOT_USED | W5500_OP_MODE_PWR_DOWN
  | W5500_OP_MODE_ALL_CAPABLE

fun op_mode_bits :: "phy_w5500_op_mode_e \<Rightarrow> bool \<times> bool \<times> bool" where
  "op_mode_bits W5500_OP_MODE_10BT_HALF_AUTO_DIS = (False, False, False)"
| "op_mode_bits W5500_OP_MODE_10BT_FULL_AUTO_DIS = (False, False, True)"
| "op_mode_bits W5500_OP_MODE_100BT_HALF_AUTO_DIS = (False, True, False)"
| "op_mode_bits W5500_OP_MODE_100BT_FULL_AUTO_DIS = (False, True, True)"
| "op_mode_bits W5500_OP_MODE_100BT_HALF_AUTO_EN = (True, False, False)"
| "op_mode_bits W5500_OP_MODE_NOT_USED = (True, False, True)"
| "op_mode_bits W5500_OP_MODE_PWR_DOWN = (True, True, False)"
| "op_mode_bits W5500_OP_MODE_ALL_CAPABLE = (True, True, True)"

fun op_mode_of :: "bool \<times> bool \<times> bool \<Rightarrow> phy_w5500_op_mode_e" where
  "op_mode_of (False, False, False) = W5500_OP_MODE_10BT_HALF_AUTO_DIS"
| "op_mode_of (False, False, True) = W5500_OP_MODE_10BT_FULL_AUTO_DIS"
| "op_mode_of (False, True, False) = W5500_OP_MODE_100BT_HALF_AUTO_DIS"
| "op_mode_of (False, True, True) = W5500_OP_MODE_100BT_FULL_AUTO_DIS"
| "op_mode_of (True, False, False) = W5500_OP_MODE_100BT_HALF_AUTO_EN"
| "op_mode_of (True, False, True) = W5500_OP_MODE_NOT_USED"
| "op_mode_of (True, True, False) = W5500_OP_MODE_PWR_DOWN"
| "op_mode_of (True, True, True) = W5500_OP_MODE_ALL_CAPABLE"

record phycfg_reg_t =
  pc_link :: bool
  pc_speed :: bool
  pc_duplex :: bool
  pc_opmode :: phy_w5500_op_mode_e
  pc_opsel :: bool
  pc_reset :: bool

definition phycfg_of :: "u8 \<Rightarrow> phycfg_reg_t" where
  "phycfg_of v = \<lparr>pc_link = bit v 0, pc_speed = bit v 1, pc_duplex = bit v 2,
     pc_opmode = op_mode_of (bit v 5, bit v 4, bit v 3), pc_opsel = bit v 6, pc_reset = bit v 7\<rparr>"

definition phycfg_val :: "phycfg_reg_t \<Rightarrow> u8" where
  "phycfg_val r = (case op_mode_bits (pc_opmode r) of (o2, o1, o0) \<Rightarrow>
     horner_sum of_bool 2 [pc_link r, pc_speed r, pc_duplex r, o0, o1, o2, pc_opsel r, pc_reset r])"

text \<open>The driver passes the address of the byte as that of a \<open>uint32_t\<close>; the low byte is what it
  uses.\<close>

definition read_phycfg :: "'w phy_env \<Rightarrow> phy_w5500_t \<Rightarrow> 'w \<Rightarrow> (esp_err_t \<times> phycfg_reg_t) \<times> 'w" where
  "read_phycfg y p w = (case y_reg_read y (p_addr p) W5500_REG_PHYCFGR w of ((e, x), w1) \<Rightarrow>
     ((e, phycfg_of (ucast x)), w1))"

definition write_phycfg :: "'w phy_env \<Rightarrow> phy_w5500_t \<Rightarrow> phycfg_reg_t \<Rightarrow> 'w \<Rightarrow> esp_err_t \<times> 'w" where
  "write_phycfg y p r w = y_reg_write y (p_addr p) W5500_REG_PHYCFGR (ucast (phycfg_val r)) w"

section \<open>Link tracking\<close>

text \<open>The part of \<open>update_link_duplex_speed\<close> after the register has been read: the reports, in order,
  each only when the one before it succeeded, then the new status.\<close>

definition report_link ::
  "'w phy_env \<Rightarrow> eth_link \<Rightarrow> eth_speed \<Rightarrow> eth_duplex \<Rightarrow> phy_w5500_t \<Rightarrow> 'w \<Rightarrow> esp_err_t \<times> phy_w5500_t \<times> 'w" where
  "report_link y link speed duplex p w =
     (if p_link_status p = link then (ESP_OK, p, w)
      else case and_then (if link = ETH_LINK_UP
                  then and_then (y_state_changed y (EvSpeed speed) w) (y_state_changed y (EvDuplex duplex))
                  else (ESP_OK, w)) (y_state_changed y (EvLink link)) of (e, w1) \<Rightarrow>
        if e = ESP_OK then (ESP_OK, p\<lparr>p_link_status := link\<rparr>, w1) else (e, p, w1))"

definition w5500_update_link_duplex_speed ::
  "'w phy_env \<Rightarrow> phy_w5500_t \<Rightarrow> 'w \<Rightarrow> esp_err_t \<times> phy_w5500_t \<times> 'w" where
  "w5500_update_link_duplex_speed y p w =
     (case read_phycfg y p w of ((e, r), w1) \<Rightarrow>
        if e \<noteq> ESP_OK then (e, p, w1)
        else report_link y (if pc_link r then ETH_LINK_UP else ETH_LINK_DOWN)
               (if pc_speed r then ETH_SPEED_100M else ETH_SPEED_10M)
               (if pc_duplex r then ETH_DUPLEX_FULL else ETH_DUPLEX_HALF) p w1)"

section \<open>The W5500 driver\<close>

definition w5500_set_mediator :: "bool \<Rightarrow> phy_w5500_t \<Rightarrow> esp_err_t \<times> phy_w5500_t" where
  "w5500_set_mediator eth p = (if eth then (ESP_OK, p\<lparr>p_eth := True\<rparr>) else (ESP_ERR_INVALID_ARG, p))"

definition w5500_get_link :: "'w phy_env \<Rightarrow> phy_w5500_t \<Rightarrow> 'w \<Rightarrow> esp_err_t \<times> phy_w5500_t \<times> 'w" where
  "w5500_get_link = w5500_update_link_duplex_speed"

definition w5500_set_link :: "'w phy_env \<Rightarrow> eth_link \<Rightarrow> phy_w5500_t \<Rightarrow> 'w \<Rightarrow> esp_err_t \<times> phy_w5500_t \<times> 'w" where
  "w5500_set_link y link p w =
     (if p_link_status p = link then (ESP_OK, p, w)
      else case y_state_changed y (EvLink link) w of (e, w1) \<Rightarrow> (e, p\<lparr>p_link_status := link\<rparr>, w1))"

definition W5500_WAIT_FOR_RESET_MS :: u32 where "W5500_WAIT_FOR_RESET_MS = 10"

text \<open>The reset bit is written low and then high.\<close>

definition pulse_reset :: "'w phy_env \<Rightarrow> phy_w5500_t \<Rightarrow> phycfg_reg_t \<Rightarrow> 'w \<Rightarrow> esp_err_t \<times> 'w" where
  "pulse_reset y p r w =
     and_then (write_phycfg y p (r\<lparr>pc_reset := False\<rparr>) w)
       (\<lambda>w1. write_phycfg y p (r\<lparr>pc_reset := True\<rparr>) (y_delay_ms y W5500_WAIT_FOR_RESET_MS w1))"

definition w5500_phy_reset :: "'w phy_env \<Rightarrow> phy_w5500_t \<Rightarrow> 'w \<Rightarrow> esp_err_t \<times> phy_w5500_t \<times> 'w" where
  "w5500_phy_reset y p w =
     (let p1 = p\<lparr>p_link_status := ETH_LINK_DOWN\<rparr>;
          (e, w1) = with_data (read_phycfg y p1 w) (pulse_reset y p1)
      in (e, p1, w1))"

definition w5500_reset_hw :: "'w phy_env \<Rightarrow> phy_w5500_t \<Rightarrow> 'w \<Rightarrow> esp_err_t \<times> 'w" where
  "w5500_reset_hw y p w =
     (let n = p_reset_gpio_num p in
      (ESP_OK, if 0 \<le> n
               then y_gpio y (GpioLevel n True) (y_delay_us y 100 (y_gpio y (GpioOutputEnable n)
                      (y_gpio y (GpioLevel n False) (y_gpio y (GpioFuncSel n) w))))
               else w))"

definition op_mode_auto :: "phy_w5500_op_mode_e \<Rightarrow> bool" where
  "op_mode_auto m \<longleftrightarrow> m = W5500_OP_MODE_ALL_CAPABLE \<or> m = W5500_OP_MODE_100BT_HALF_AUTO_EN"

definition fixed_op_mode :: "bool \<Rightarrow> bool \<Rightarrow> phy_w5500_op_mode_e" where
  "fixed_op_mode full fast =
     (if full then (if fast then W5500_OP_MODE_100BT_FULL_AUTO_DIS else W5500_OP_MODE_10BT_FULL_AUTO_DIS)
      else (if fast then W5500_OP_MODE_100BT_HALF_AUTO_DIS else W5500_OP_MODE_10BT_HALF_AUTO_DIS))"

text \<open>The result carries what is stored in \<open>*autonego_en_stat\<close>, if anything.\<close>

definition w5500_autonego_ctrl ::
  "'w phy_env \<Rightarrow> eth_phy_autoneg_cmd \<Rightarrow> phy_w5500_t \<Rightarrow> 'w \<Rightarrow> (esp_err_t \<times> bool option) \<times> phy_w5500_t \<times> 'w" where
  "w5500_autonego_ctrl y cmd p w =
     (case read_phycfg y p w of ((e, r), w1) \<Rightarrow>
        if e \<noteq> ESP_OK then ((e, None), p, w1)
        else case cmd of
          ESP_ETH_PHY_AUTONEGO_RESTART \<Rightarrow>
            if \<not> op_mode_auto (pc_opmode r) then ((ESP_ERR_INVALID_STATE, None), p, w1)
            else let p1 = p\<lparr>p_link_status := ETH_LINK_DOWN\<rparr>;
                     (e1, w2) = pulse_reset y p1 (r\<lparr>pc_opsel := True\<rparr>) w1
                 in ((e1, if e1 = ESP_OK then Some (op_mode_auto (pc_opmode r)) else None), p1, w2)
        | ESP_ETH_PHY_AUTONEGO_DIS \<Rightarrow>
            let (e1, w2) = write_phycfg y p
                  (r\<lparr>pc_opmode := fixed_op_mode (pc_duplex r) (pc_speed r), pc_opsel := True\<rparr>) w1
            in ((e1, if e1 = ESP_OK then Some False else None), p, w2)
        | ESP_ETH_PHY_AUTONEGO_EN \<Rightarrow>
            let (e1, w2) = write_phycfg y p (r\<lparr>pc_opsel := True, pc_opmode := W5500_OP_MODE_ALL_CAPABLE\<rparr>) w1
            in ((e1, if e1 = ESP_OK then Some True else None), p, w2)
        | ESP_ETH_PHY_AUTONEGO_G_STAT \<Rightarrow> ((ESP_OK, Some (op_mode_auto (pc_opmode r))), p, w1)
        | ESP_ETH_PHY_AUTONEGO_OTHER \<Rightarrow> ((ESP_ERR_INVALID_ARG, None), p, w1))"

definition w5500_pwrctl :: "bool \<Rightarrow> esp_err_t" where
  "w5500_pwrctl enable = ESP_OK"

definition w5500_set_addr :: "int \<Rightarrow> phy_w5500_t \<Rightarrow> esp_err_t \<times> phy_w5500_t" where
  "w5500_set_addr addr p = (ESP_OK, p\<lparr>p_addr := addr\<rparr>)"

definition w5500_get_addr :: "bool \<Rightarrow> phy_w5500_t \<Rightarrow> esp_err_t \<times> int option" where
  "w5500_get_addr addr_null p =
     (if addr_null then (ESP_ERR_INVALID_ARG, None) else (ESP_OK, Some (p_addr p)))"

definition w5500_advertise_pause_ability :: "u32 \<Rightarrow> esp_err_t" where
  "w5500_advertise_pause_ability ability = ESP_OK"

definition w5500_loopback :: "bool \<Rightarrow> esp_err_t" where
  "w5500_loopback enable = ESP_ERR_NOT_SUPPORTED"

definition w5500_set_speed :: "'w phy_env \<Rightarrow> eth_speed \<Rightarrow> phy_w5500_t \<Rightarrow> 'w \<Rightarrow> esp_err_t \<times> phy_w5500_t \<times> 'w" where
  "w5500_set_speed y speed p w =
     (let p1 = p\<lparr>p_link_status := ETH_LINK_DOWN\<rparr>;
          (e, w1) = with_data (read_phycfg y p1 w) (\<lambda>r. pulse_reset y p1
             (r\<lparr>pc_opmode := fixed_op_mode (pc_duplex r) (speed = ETH_SPEED_100M), pc_opsel := True\<rparr>))
      in (e, p1, w1))"

definition w5500_set_duplex :: "'w phy_env \<Rightarrow> eth_duplex \<Rightarrow> phy_w5500_t \<Rightarrow> 'w \<Rightarrow> esp_err_t \<times> phy_w5500_t \<times> 'w" where
  "w5500_set_duplex y duplex p w =
     (let p1 = p\<lparr>p_link_status := ETH_LINK_DOWN\<rparr>;
          (e, w1) = with_data (read_phycfg y p1 w) (\<lambda>r. pulse_reset y p1
             (r\<lparr>pc_opmode := fixed_op_mode (duplex = ETH_DUPLEX_FULL) (pc_speed r), pc_opsel := True\<rparr>))
      in (e, p1, w1))"

definition w5500_phy_init :: "'w phy_env \<Rightarrow> phy_w5500_t \<Rightarrow> 'w \<Rightarrow> esp_err_t \<times> phy_w5500_t \<times> 'w" where
  "w5500_phy_init y p w =
     (if w5500_pwrctl True \<noteq> ESP_OK then (w5500_pwrctl True, p, w) else w5500_phy_reset y p w)"

definition w5500_phy_deinit :: esp_err_t where
  "w5500_phy_deinit = w5500_pwrctl False"

text \<open>\<open>mem\<close> says whether the memory of the instance can be had.\<close>

definition esp_eth_phy_new_w5500 :: "bool \<Rightarrow> eth_phy_config_t option \<Rightarrow> phy_w5500_t option" where
  "esp_eth_phy_new_w5500 mem config =
     (case config of None \<Rightarrow> None
      | Some f \<Rightarrow> if \<not> mem then None
          else Some \<lparr>p_eth = False, p_addr = f_phy_addr f, p_reset_timeout_ms = f_reset_timeout_ms f,
                  p_autonego_timeout_ms = f_autonego_timeout_ms f, p_link_status = ETH_LINK_DOWN,
                  p_reset_gpio_num = f_reset_gpio_num f\<rparr>)"

section \<open>The W6300 driver\<close>

definition W6300_ADDR_OFFSET :: nat where "W6300_ADDR_OFFSET = 8"
definition W6300_BSB_COM_REG :: u32 where "W6300_BSB_COM_REG = 0"

definition W6300_MAKE_MAP :: "u32 \<Rightarrow> u32 \<Rightarrow> u32" where
  "W6300_MAKE_MAP offset bsb = push_bit W6300_ADDR_OFFSET offset OR bsb"

definition W6300_REG_PHYSR :: u32 where "W6300_REG_PHYSR = W6300_MAKE_MAP 0x3000 W6300_BSB_COM_REG"
definition W6300_REG_PHYCR0 :: u32 where "W6300_REG_PHYCR0 = W6300_MAKE_MAP 0x301C W6300_BSB_COM_REG"
definition W6300_REG_PHYCR1 :: u32 where "W6300_REG_PHYCR1 = W6300_MAKE_MAP 0x301D W6300_BSB_COM_REG"

definition W6300_PHYSR_LNK :: u8 where "W6300_PHYSR_LNK = 1"
definition W6300_PHYSR_SPD :: u8 where "W6300_PHYSR_SPD = 2"
definition W6300_PHYSR_DPX :: u8 where "W6300_PHYSR_DPX = 4"
definition W6300_PHYSR_MODE2 :: u8 where "W6300_PHYSR_MODE2 = 0x20"
definition W6300_PHYCR0_AUTO :: u8 where "W6300_PHYCR0_AUTO = 0"
definition W6300_PHYCR0_100F :: u8 where "W6300_PHYCR0_100F = 4"
definition W6300_PHYCR0_100H :: u8 where "W6300_PHYCR0_100H = 5"
definition W6300_PHYCR0_10F :: u8 where "W6300_PHYCR0_10F = 6"
definition W6300_PHYCR0_10H :: u8 where "W6300_PHYCR0_10H = 7"
definition W6300_PHYCR1_RST :: u8 where "W6300_PHYCR1_RST = 1"
definition W6300_PHYCR1_PWDN :: u8 where "W6300_PHYCR1_PWDN = 0x20"
definition W6300_PHY_RESET_STABILIZE_MS :: u32 where "W6300_PHY_RESET_STABILIZE_MS = 70"
definition W6300_HW_RESET_ASSERT_MS :: u32 where "W6300_HW_RESET_ASSERT_MS = 2"
definition W6300_HW_RESET_SETTLE_MS :: u32 where "W6300_HW_RESET_SETTLE_MS = 150"

lemmas w6300_phy_regs [eval_defs] = W6300_REG_PHYSR_def W6300_REG_PHYCR0_def W6300_REG_PHYCR1_def
  W6300_MAKE_MAP_def W6300_ADDR_OFFSET_def W6300_BSB_COM_REG_def
lemmas w6300_phy_bits [eval_defs] = W6300_PHYSR_LNK_def W6300_PHYSR_SPD_def W6300_PHYSR_DPX_def
  W6300_PHYSR_MODE2_def W6300_PHYCR0_AUTO_def W6300_PHYCR0_100F_def W6300_PHYCR0_100H_def
  W6300_PHYCR0_10F_def W6300_PHYCR0_10H_def W6300_PHYCR1_RST_def W6300_PHYCR1_PWDN_def

definition w6300_phy_read :: "'w phy_env \<Rightarrow> phy_w6300_t \<Rightarrow> u32 \<Rightarrow> 'w \<Rightarrow> (esp_err_t \<times> u8) \<times> 'w" where
  "w6300_phy_read y p reg w =
     (case y_reg_read y (p_addr p) reg w of ((e, x), w1) \<Rightarrow> ((e, if e = ESP_OK then ucast x else 0), w1))"

definition w6300_phy_write :: "'w phy_env \<Rightarrow> phy_w6300_t \<Rightarrow> u32 \<Rightarrow> u8 \<Rightarrow> 'w \<Rightarrow> esp_err_t \<times> 'w" where
  "w6300_phy_write y p reg x w = y_reg_write y (p_addr p) reg (ucast x) w"

definition w6300_phycr0_fixed_mode :: "eth_speed \<Rightarrow> eth_duplex \<Rightarrow> u8" where
  "w6300_phycr0_fixed_mode speed duplex =
     (if speed = ETH_SPEED_100M then (if duplex = ETH_DUPLEX_FULL then W6300_PHYCR0_100F else W6300_PHYCR0_100H)
      else (if duplex = ETH_DUPLEX_FULL then W6300_PHYCR0_10F else W6300_PHYCR0_10H))"

definition w6300_phy_restart :: "'w phy_env \<Rightarrow> phy_w6300_t \<Rightarrow> 'w \<Rightarrow> esp_err_t \<times> 'w" where
  "w6300_phy_restart y p w =
     with_data (w6300_phy_read y p W6300_REG_PHYCR1 w) (\<lambda>x w1.
     and_then (w6300_phy_write y p W6300_REG_PHYCR1 (x OR W6300_PHYCR1_RST) w1)
       (\<lambda>w2. (ESP_OK, y_delay_ms y W6300_PHY_RESET_STABILIZE_MS w2)))"

definition physr_speed :: "u8 \<Rightarrow> eth_speed" where
  "physr_speed x = (if x AND W6300_PHYSR_SPD \<noteq> 0 then ETH_SPEED_10M else ETH_SPEED_100M)"

definition physr_duplex :: "u8 \<Rightarrow> eth_duplex" where
  "physr_duplex x = (if x AND W6300_PHYSR_DPX \<noteq> 0 then ETH_DUPLEX_HALF else ETH_DUPLEX_FULL)"

definition w6300_update_link_duplex_speed ::
  "'w phy_env \<Rightarrow> phy_w6300_t \<Rightarrow> 'w \<Rightarrow> esp_err_t \<times> phy_w6300_t \<times> 'w" where
  "w6300_update_link_duplex_speed y p w =
     (case w6300_phy_read y p W6300_REG_PHYSR w of ((e, x), w1) \<Rightarrow>
        if e \<noteq> ESP_OK then (e, p, w1)
        else report_link y (if x AND W6300_PHYSR_LNK \<noteq> 0 then ETH_LINK_UP else ETH_LINK_DOWN)
               (physr_speed x) (physr_duplex x) p w1)"

definition w6300_set_mediator :: "bool \<Rightarrow> phy_w6300_t \<Rightarrow> esp_err_t \<times> phy_w6300_t" where
  "w6300_set_mediator eth p = (if eth then (ESP_OK, p\<lparr>p_eth := True\<rparr>) else (ESP_ERR_INVALID_ARG, p))"

definition w6300_get_link :: "'w phy_env \<Rightarrow> phy_w6300_t \<Rightarrow> 'w \<Rightarrow> esp_err_t \<times> phy_w6300_t \<times> 'w" where
  "w6300_get_link = w6300_update_link_duplex_speed"

definition w6300_set_link :: "'w phy_env \<Rightarrow> eth_link \<Rightarrow> phy_w6300_t \<Rightarrow> 'w \<Rightarrow> esp_err_t \<times> phy_w6300_t \<times> 'w" where
  "w6300_set_link y link p w =
     (if p_link_status p = link then (ESP_OK, p, w)
      else case y_state_changed y (EvLink link) w of (e, w1) \<Rightarrow> (e, p\<lparr>p_link_status := link\<rparr>, w1))"

definition w6300_phy_reset :: "'w phy_env \<Rightarrow> phy_w6300_t \<Rightarrow> 'w \<Rightarrow> esp_err_t \<times> phy_w6300_t \<times> 'w" where
  "w6300_phy_reset y p w =
     (let p1 = p\<lparr>p_link_status := ETH_LINK_DOWN\<rparr>; (e, w1) = w6300_phy_restart y p1 w in (e, p1, w1))"

definition w6300_reset_hw :: "'w phy_env \<Rightarrow> phy_w6300_t \<Rightarrow> 'w \<Rightarrow> esp_err_t \<times> 'w" where
  "w6300_reset_hw y p w =
     (let n = p_reset_gpio_num p in
      (ESP_OK, if 0 \<le> n
               then y_delay_ms y W6300_HW_RESET_SETTLE_MS (y_gpio y (GpioLevel n True)
                      (y_delay_ms y W6300_HW_RESET_ASSERT_MS (y_gpio y (GpioOutputEnable n)
                        (y_gpio y (GpioLevel n False) (y_gpio y (GpioFuncSel n) w)))))
               else w))"

definition w6300_autonego_ctrl ::
  "'w phy_env \<Rightarrow> eth_phy_autoneg_cmd \<Rightarrow> phy_w6300_t \<Rightarrow> 'w \<Rightarrow> (esp_err_t \<times> bool option) \<times> phy_w6300_t \<times> 'w" where
  "w6300_autonego_ctrl y cmd p w =
     (case w6300_phy_read y p W6300_REG_PHYSR w of ((e, x), w1) \<Rightarrow>
        if e \<noteq> ESP_OK then ((e, None), p, w1)
        else let fixed = (x AND W6300_PHYSR_MODE2 \<noteq> 0); p1 = p\<lparr>p_link_status := ETH_LINK_DOWN\<rparr>;
                 configure = (\<lambda>mode w. and_then (w6300_phy_write y p1 W6300_REG_PHYCR0 mode w) (w6300_phy_restart y p1))
             in case cmd of
          ESP_ETH_PHY_AUTONEGO_RESTART \<Rightarrow>
            if fixed then ((ESP_ERR_INVALID_STATE, None), p, w1)
            else let (e1, w2) = w6300_phy_restart y p1 w1
                 in ((e1, if e1 = ESP_OK then Some True else None), p1, w2)
        | ESP_ETH_PHY_AUTONEGO_DIS \<Rightarrow>
            let (e1, w2) = configure (w6300_phycr0_fixed_mode (physr_speed x) (physr_duplex x)) w1
            in ((e1, if e1 = ESP_OK then Some False else None), p1, w2)
        | ESP_ETH_PHY_AUTONEGO_EN \<Rightarrow>
            let (e1, w2) = configure W6300_PHYCR0_AUTO w1
            in ((e1, if e1 = ESP_OK then Some True else None), p1, w2)
        | ESP_ETH_PHY_AUTONEGO_G_STAT \<Rightarrow> ((ESP_OK, Some (\<not> fixed)), p, w1)
        | ESP_ETH_PHY_AUTONEGO_OTHER \<Rightarrow> ((ESP_ERR_INVALID_ARG, None), p, w1))"

definition w6300_pwrctl :: "'w phy_env \<Rightarrow> bool \<Rightarrow> phy_w6300_t \<Rightarrow> 'w \<Rightarrow> esp_err_t \<times> 'w" where
  "w6300_pwrctl y enable p w =
     with_data (w6300_phy_read y p W6300_REG_PHYCR1 w) (\<lambda>x.
       w6300_phy_write y p W6300_REG_PHYCR1
         ((if enable then x AND NOT W6300_PHYCR1_PWDN else x OR W6300_PHYCR1_PWDN) AND NOT W6300_PHYCR1_RST))"

definition w6300_set_addr :: "int \<Rightarrow> phy_w6300_t \<Rightarrow> esp_err_t \<times> phy_w6300_t" where
  "w6300_set_addr addr p = (ESP_OK, p\<lparr>p_addr := addr\<rparr>)"

definition w6300_get_addr :: "bool \<Rightarrow> phy_w6300_t \<Rightarrow> esp_err_t \<times> int option" where
  "w6300_get_addr addr_null p =
     (if addr_null then (ESP_ERR_INVALID_ARG, None) else (ESP_OK, Some (p_addr p)))"

definition w6300_advertise_pause_ability :: "u32 \<Rightarrow> esp_err_t" where
  "w6300_advertise_pause_ability ability = ESP_OK"

definition w6300_loopback :: "bool \<Rightarrow> esp_err_t" where
  "w6300_loopback enable = ESP_ERR_NOT_SUPPORTED"

definition w6300_set_speed :: "'w phy_env \<Rightarrow> eth_speed \<Rightarrow> phy_w6300_t \<Rightarrow> 'w \<Rightarrow> esp_err_t \<times> phy_w6300_t \<times> 'w" where
  "w6300_set_speed y speed p w =
     (let p1 = p\<lparr>p_link_status := ETH_LINK_DOWN\<rparr>;
          (e, w1) = with_data (w6300_phy_read y p1 W6300_REG_PHYSR w) (\<lambda>x w1.
             and_then (w6300_phy_write y p1 W6300_REG_PHYCR0 (w6300_phycr0_fixed_mode speed (physr_duplex x)) w1)
               (w6300_phy_restart y p1))
      in (e, p1, w1))"

definition w6300_set_duplex :: "'w phy_env \<Rightarrow> eth_duplex \<Rightarrow> phy_w6300_t \<Rightarrow> 'w \<Rightarrow> esp_err_t \<times> phy_w6300_t \<times> 'w" where
  "w6300_set_duplex y duplex p w =
     (let p1 = p\<lparr>p_link_status := ETH_LINK_DOWN\<rparr>;
          (e, w1) = with_data (w6300_phy_read y p1 W6300_REG_PHYSR w) (\<lambda>x w1.
             and_then (w6300_phy_write y p1 W6300_REG_PHYCR0 (w6300_phycr0_fixed_mode (physr_speed x) duplex) w1)
               (w6300_phy_restart y p1))
      in (e, p1, w1))"

definition w6300_phy_init :: "'w phy_env \<Rightarrow> phy_w6300_t \<Rightarrow> 'w \<Rightarrow> esp_err_t \<times> phy_w6300_t \<times> 'w" where
  "w6300_phy_init y p w =
     (case w6300_pwrctl y True p w of (e, w1) \<Rightarrow> if e \<noteq> ESP_OK then (e, p, w1) else w6300_phy_reset y p w1)"

definition w6300_phy_deinit :: "'w phy_env \<Rightarrow> phy_w6300_t \<Rightarrow> 'w \<Rightarrow> esp_err_t \<times> 'w" where
  "w6300_phy_deinit y p w = w6300_pwrctl y False p w"

definition esp_eth_phy_new_w6300 :: "bool \<Rightarrow> eth_phy_config_t option \<Rightarrow> phy_w6300_t option" where
  "esp_eth_phy_new_w6300 mem config =
     (case config of None \<Rightarrow> None
      | Some f \<Rightarrow> if \<not> mem then None
          else Some \<lparr>p_eth = False, p_addr = f_phy_addr f, p_reset_timeout_ms = f_reset_timeout_ms f,
                  p_autonego_timeout_ms = f_autonego_timeout_ms f, p_link_status = ETH_LINK_DOWN,
                  p_reset_gpio_num = f_reset_gpio_num f\<rparr>)"

section \<open>The mediator over the W5500 MAC\<close>

text \<open>The Ethernet driver of ESP-IDF forwards a register access of the PHY to the MAC; what it does with
  a change of state, and the GPIO calls, are its own and stay parameters.\<close>

definition w5500_mediator ::
  "'w emac_env \<Rightarrow> (phy_event \<Rightarrow> 'w \<Rightarrow> esp_err_t \<times> 'w) \<Rightarrow> (u32 \<Rightarrow> 'w \<Rightarrow> 'w) \<Rightarrow> (gpio_op \<Rightarrow> 'w \<Rightarrow> 'w) \<Rightarrow> 'w phy_env" where
  "w5500_mediator v changed us gpio = \<lparr>
     y_reg_read = (\<lambda>_ reg w. case emac_w5500_read_phy_reg v reg (Some 0) w of ((e, x), w1) \<Rightarrow>
        ((e, case x of Some a \<Rightarrow> a | None \<Rightarrow> 0), w1)),
     y_reg_write = (\<lambda>_. emac_w5500_write_phy_reg v),
     y_state_changed = changed, y_delay_ms = v_delay_ms v, y_delay_us = us, y_gpio = gpio\<rparr>"

end
