(* ===== verification/Phy_Props.thy ===== *)
theory Phy_Props
  imports Phy
begin

text \<open>
  Properties of the PHY drivers: the bit fields of the W5500 register, and link tracking - what the
  Ethernet driver above is told over any sequence of polls, whatever the register reads and however
  often a read or a report fails.
\<close>

section \<open>The register as bit fields\<close>

lemma op_mode_inverse [simp]: "op_mode_of (op_mode_bits m) = m"
  by (cases m) simp_all

lemma op_mode_bits_inverse [simp]: "op_mode_bits (op_mode_of b) = b"
  by (cases b rule: op_mode_of.cases) simp_all

lemma bit_phycfg_val:
  "bit (phycfg_val r) n \<longleftrightarrow> n < 8 \<and> (case op_mode_bits (pc_opmode r) of (o2, o1, o0) \<Rightarrow>
     [pc_link r, pc_speed r, pc_duplex r, o0, o1, o2, pc_opsel r, pc_reset r] ! n)"
proof -
  obtain o2 o1 o0 where o: "op_mode_bits (pc_opmode r) = (o2, o1, o0)" by (metis prod_cases3)
  show ?thesis
    unfolding phycfg_val_def o prod.case bit_horner_sum_bit_iff by (simp add: eval_nat_numeral cong: conj_cong)
qed

lemma phycfg_of_val [simp]: "phycfg_of (phycfg_val r) = r"
proof -
  obtain o2 o1 o0 where o: "op_mode_bits (pc_opmode r) = (o2, o1, o0)" by (metis prod_cases3)
  then have "op_mode_of (o2, o1, o0) = pc_opmode r" by (metis op_mode_inverse)
  then show ?thesis by (simp add: phycfg_of_def bit_phycfg_val o)
qed

lemma phycfg_val_of [simp]: "phycfg_val (phycfg_of v) = v"
proof (rule bit_eqI)
  fix n assume "possible_bit TYPE(8 word) n"
  then have "n < 8" by simp
  then have "n = 0 \<or> n = 1 \<or> n = 2 \<or> n = 3 \<or> n = 4 \<or> n = 5 \<or> n = 6 \<or> n = 7" by linarith
  then show "bit (phycfg_val (phycfg_of v)) n = bit v n"
    by (elim disjE) (simp_all add: bit_phycfg_val phycfg_of_def)
qed

section \<open>Reports\<close>

definition links :: "phy_event list \<Rightarrow> eth_link list" where
  "links es = concat (map (\<lambda>e. case e of EvLink l \<Rightarrow> [l] | _ \<Rightarrow> []) es)"

fun alternates :: "eth_link \<Rightarrow> eth_link list \<Rightarrow> bool" where
  "alternates l [] = True"
| "alternates l (x # xs) = (x \<noteq> l \<and> alternates x xs)"

lemma alternates_snoc: "alternates l (xs @ [x]) = (alternates l xs \<and> x \<noteq> last (l # xs))"
  by (induction xs arbitrary: l) auto

text \<open>Each link-up is announced: the two reports just before it are a speed and a duplex mode.\<close>

definition announced :: "phy_event list \<Rightarrow> bool" where
  "announced es \<longleftrightarrow> (\<forall>i < length es. es ! i = EvLink ETH_LINK_UP \<longrightarrow>
     2 \<le> i \<and> (\<exists>s d. es ! (i - 2) = EvSpeed s \<and> es ! (i - 1) = EvDuplex d))"

lemma links_append [simp]: "links (a @ b) = links a @ links b"
  by (simp add: links_def)

lemma links_simps [simp]: "links [] = []" "links (EvSpeed s # es) = links es" "links (EvDuplex d # es) = links es"
  "links (EvLink l # es) = l # links es"
  by (simp_all add: links_def)

lemma announced_snoc:
  "announced (es @ [e]) = (announced es \<and> (e = EvLink ETH_LINK_UP \<longrightarrow>
     2 \<le> length es \<and> (\<exists>s d. es ! (length es - 2) = EvSpeed s \<and> es ! (length es - 1) = EvDuplex d)))"
proof -
  have "(\<forall>i < length (es @ [e]). P i) = ((\<forall>i < length es. P i) \<and> P (length es))" for P
    by (auto simp: less_Suc_eq)
  moreover have "(es @ [e]) ! i = es ! i" "(es @ [e]) ! (i - 1) = es ! (i - 1)" "(es @ [e]) ! (i - 2) = es ! (i - 2)"
    if "i < length es" for i
    using that by (simp_all add: nth_append less_imp_diff_less)
  moreover have "2 \<le> length es \<Longrightarrow> (es @ [e]) ! (length es - 1) = es ! (length es - 1)"
    "2 \<le> length es \<Longrightarrow> (es @ [e]) ! (length es - 2) = es ! (length es - 2)"
    by (auto simp: nth_append)
  ultimately show ?thesis
    unfolding announced_def by (simp cong: conj_cong)
qed

lemma announced_up:
  "announced es \<Longrightarrow> announced (es @ [EvSpeed s, EvDuplex d, EvLink ETH_LINK_UP])"
  using announced_snoc [of "es @ [EvSpeed s, EvDuplex d]" "EvLink ETH_LINK_UP"]
    announced_snoc [of "es @ [EvSpeed s]" "EvDuplex d"] announced_snoc [of es "EvSpeed s"]
  by (simp add: nth_append)

text \<open>The environment with a log of the reports that were accepted.\<close>

definition log_env :: "'w phy_env \<Rightarrow> ('w \<times> phy_event list) phy_env" where
  "log_env y = \<lparr>
     y_reg_read = (\<lambda>a r (w, l). case y_reg_read y a r w of (q, w1) \<Rightarrow> (q, (w1, l))),
     y_reg_write = (\<lambda>a r x (w, l). case y_reg_write y a r x w of (e, w1) \<Rightarrow> (e, (w1, l))),
     y_state_changed = (\<lambda>ev (w, l). case y_state_changed y ev w of (e, w1) \<Rightarrow>
        (e, (w1, if e = ESP_OK then l @ [ev] else l))),
     y_delay_ms = (\<lambda>n (w, l). (y_delay_ms y n w, l)), y_delay_us = (\<lambda>n (w, l). (y_delay_us y n w, l)),
     y_gpio = (\<lambda>g (w, l). (y_gpio y g w, l))\<rparr>"

text \<open>What a poll adds to the log and does to the status.\<close>

definition poll_effect :: "phy_w5500_t \<Rightarrow> phy_event list \<Rightarrow> phy_w5500_t \<Rightarrow> phy_event list \<Rightarrow> bool" where
  "poll_effect p l p' l' \<longleftrightarrow>
     p' = p \<and> (l' = l \<or> (\<exists>s. l' = l @ [EvSpeed s]) \<or> (\<exists>s d. l' = l @ [EvSpeed s, EvDuplex d])) \<or>
     p_link_status p \<noteq> ETH_LINK_UP \<and> p' = p\<lparr>p_link_status := ETH_LINK_UP\<rparr> \<and>
       (\<exists>s d. l' = l @ [EvSpeed s, EvDuplex d, EvLink ETH_LINK_UP]) \<or>
     p_link_status p \<noteq> ETH_LINK_DOWN \<and> p' = p\<lparr>p_link_status := ETH_LINK_DOWN\<rparr> \<and> l' = l @ [EvLink ETH_LINK_DOWN]"

lemma report_link_effect:
  assumes "link \<noteq> ETH_LINK_OTHER"
    and "report_link (log_env y) link speed duplex p (w, l) = (e, p', (w', l'))"
  shows "poll_effect p l p' l'"
  using assms
  by (cases link) (auto simp: report_link_def and_then_def log_env_def poll_effect_def split: prod.splits if_splits)

fun phy_polls ::
  "(phy_w5500_t \<Rightarrow> 'w \<times> 'l \<Rightarrow> esp_err_t \<times> phy_w5500_t \<times> 'w \<times> 'l) \<Rightarrow> ('w \<Rightarrow> 'w) list \<Rightarrow>
     phy_w5500_t \<Rightarrow> 'w \<times> 'l \<Rightarrow> phy_w5500_t \<times> 'w \<times> 'l" where
  "phy_polls poll [] p s = (p, s)"
| "phy_polls poll (f # fs) p (w, l) = (case poll p (f w, l) of (_, p1, s1) \<Rightarrow> phy_polls poll fs p1 s1)"

definition told :: "phy_w5500_t \<Rightarrow> phy_event list \<Rightarrow> bool" where
  "told p l \<longleftrightarrow> alternates ETH_LINK_DOWN (links l) \<and> last (ETH_LINK_DOWN # links l) = p_link_status p \<and> announced l"

text \<open>The interface of link tracking, which both drivers provide: a poll has one of the effects above.\<close>

locale link_poll =
  fixes poll :: "phy_w5500_t \<Rightarrow> 'w \<times> phy_event list \<Rightarrow> esp_err_t \<times> phy_w5500_t \<times> 'w \<times> phy_event list"
  assumes poll_law: "poll p (w, l) = (e, p', (w', l')) \<Longrightarrow> poll_effect p l p' l'"
begin

lemma poll_told:
  assumes "poll p (w, l) = (e, p', (w', l'))" and "told p l"
  shows "told p' l'"
proof -
  have a: "announced l" "alternates ETH_LINK_DOWN (links l)" "last (ETH_LINK_DOWN # links l) = p_link_status p"
    using assms(2) by (simp_all add: told_def)
  have a1: "announced (l @ [EvSpeed s])" "announced (l @ [EvSpeed s, EvDuplex d])"
    "announced (l @ [EvLink ETH_LINK_DOWN])" for s d
    using announced_snoc [of l] announced_snoc [of "l @ [EvSpeed s]" "EvDuplex d"] a(1) by simp_all
  from poll_law [OF assms(1), unfolded poll_effect_def] show ?thesis
    by (elim disjE exE conjE) (use a a1 announced_up [OF a(1)] in \<open>simp_all add: told_def alternates_snoc\<close>)
qed

lemma polls_told: "phy_polls poll fs p (w, l) = (p', (w', l')) \<Longrightarrow> told p l \<Longrightarrow> told p' l'"
proof (induction fs arbitrary: p w l)
  case Nil
  then show ?case by simp
next
  case (Cons f fs)
  obtain e p1 w1 l1 where r: "poll p (f w, l) = (e, p1, (w1, l1))" by (metis prod_cases4)
  with Cons.IH [of p1 w1 l1] Cons.prems poll_told [OF r] show ?case by simp
qed

end

lemma w5500_poll_effect:
  assumes "w5500_get_link (log_env y) p (w, l) = (e, p', (w', l'))"
  shows "poll_effect p l p' l'"
proof -
  obtain e0 x w1 where r: "y_reg_read y (p_addr p) W5500_REG_PHYCFGR w = ((e0, x), w1)" by (metis surj_pair)
  then have rd: "read_phycfg (log_env y) p (w, l) = ((e0, phycfg_of (ucast x)), (w1, l))"
    by (simp add: read_phycfg_def log_env_def)
  show ?thesis
  proof (cases "e0 = ESP_OK")
    case True
    let ?r = "phycfg_of (ucast x)"
    have "report_link (log_env y) (if pc_link ?r then ETH_LINK_UP else ETH_LINK_DOWN)
        (if pc_speed ?r then ETH_SPEED_100M else ETH_SPEED_10M)
        (if pc_duplex ?r then ETH_DUPLEX_FULL else ETH_DUPLEX_HALF) p (w1, l) = (e, p', (w', l'))"
      using assms rd True by (simp add: w5500_get_link_def w5500_update_link_duplex_speed_def)
    then show ?thesis by (rule report_link_effect [rotated]) simp
  next
    case False
    with assms rd show ?thesis
      by (simp add: w5500_get_link_def w5500_update_link_duplex_speed_def poll_effect_def)
  qed
qed

lemma w6300_poll_effect:
  assumes "w6300_get_link (log_env y) p (w, l) = (e, p', (w', l'))"
  shows "poll_effect p l p' l'"
proof -
  obtain e0 x w1 where r: "y_reg_read y (p_addr p) W6300_REG_PHYSR w = ((e0, x), w1)" by (metis surj_pair)
  then have rd: "w6300_phy_read (log_env y) p W6300_REG_PHYSR (w, l) =
      ((e0, if e0 = ESP_OK then ucast x else 0), (w1, l))"
    by (simp add: w6300_phy_read_def log_env_def)
  show ?thesis
  proof (cases "e0 = ESP_OK")
    case True
    let ?x = "ucast x :: u8"
    have "report_link (log_env y) (if ?x AND W6300_PHYSR_LNK \<noteq> 0 then ETH_LINK_UP else ETH_LINK_DOWN)
        (physr_speed ?x) (physr_duplex ?x) p (w1, l) = (e, p', (w', l'))"
      using assms rd True by (simp add: w6300_get_link_def w6300_update_link_duplex_speed_def)
    then show ?thesis by (rule report_link_effect [rotated]) simp
  next
    case False
    with assms rd show ?thesis
      by (simp add: w6300_get_link_def w6300_update_link_duplex_speed_def poll_effect_def)
  qed
qed

interpretation w5500_link: link_poll "w5500_get_link (log_env y)" for y
  by unfold_locales (rule w5500_poll_effect)

interpretation w6300_link: link_poll "w6300_get_link (log_env y)" for y
  by unfold_locales (rule w6300_poll_effect)

text \<open>C18. Link tracking, for both chips: start from a new instance and poll any number of times, with
  any change of the chip between two polls, any register values, and register reads and reports
  that may fail. The link reports the driver above has accepted alternate, beginning with a
  link-up; the last of them is the status the driver holds; and each link-up comes right after a
  report of the speed and one of the duplex mode.\<close>

theorem phy_link_reports:
  "(case phy_polls (w5500_get_link (log_env y)) fs (p\<lparr>p_link_status := ETH_LINK_DOWN\<rparr>) (w, []) of (p', _, es) \<Rightarrow>
      alternates ETH_LINK_DOWN (links es) \<and> last (ETH_LINK_DOWN # links es) = p_link_status p' \<and> announced es) \<and>
   (case phy_polls (w6300_get_link (log_env y)) fs (p\<lparr>p_link_status := ETH_LINK_DOWN\<rparr>) (w, []) of (p', _, es) \<Rightarrow>
      alternates ETH_LINK_DOWN (links es) \<and> last (ETH_LINK_DOWN # links es) = p_link_status p' \<and> announced es)"
proof -
  have t: "told (p\<lparr>p_link_status := ETH_LINK_DOWN\<rparr>) []"
    by (simp add: told_def announced_def)
  obtain p5 w5 l5 where r5: "phy_polls (w5500_get_link (log_env y)) fs (p\<lparr>p_link_status := ETH_LINK_DOWN\<rparr>) (w, []) =
      (p5, (w5, l5))" by (metis prod_cases3)
  obtain p6 w6 l6 where r6: "phy_polls (w6300_get_link (log_env y)) fs (p\<lparr>p_link_status := ETH_LINK_DOWN\<rparr>) (w, []) =
      (p6, (w6, l6))" by (metis prod_cases3)
  show ?thesis
    using w5500_link.polls_told [OF r5 t] w6300_link.polls_told [OF r6 t] unfolding r5 r6 prod.case told_def by blast
qed

end
