(* ===== verification/Spi_Props.thy ===== *)
theory Spi_Props
  imports Spi
begin

text \<open>
  Properties of the SPI port layer: every resource it takes is given back on every path, and the
  chip select frames what is sent.
\<close>

section \<open>What a sequence of calls holds\<close>

datatype resource = RMutex nat | RBus int | RDev nat | RLock nat | RClaim nat
  | RMem nat | RTask nat | RTimer nat | RDma nat | RCustom nat

text \<open>A call that acquires counts when it succeeded, a call that releases counts always.\<close>

fun delta :: "event \<Rightarrow> (resource \<times> int) option" where
  "delta (MutexCreate, e, h) = (if e = ESP_OK then Some (RMutex h, 1) else None)"
| "delta (MutexDelete m, e, h) = Some (RMutex m, -1)"
| "delta (Take m t, e, h) = (if e = ESP_OK then Some (RLock m, 1) else None)"
| "delta (Give m, e, h) = Some (RLock m, -1)"
| "delta (BusInit b c, e, h) = (if e = ESP_OK then Some (RBus b, 1) else None)"
| "delta (BusFree b, e, h) = Some (RBus b, -1)"
| "delta (AddDevice b k q, e, h) = (if e = ESP_OK then Some (RDev h, 1) else None)"
| "delta (RemoveDevice d, e, h) = Some (RDev d, -1)"
| "delta (AcquireBus d, e, h) = (if e = ESP_OK then Some (RClaim d, 1) else None)"
| "delta (ReleaseBus d, e, h) = Some (RClaim d, -1)"
| "delta (Calloc, e, h) = (if e = ESP_OK then Some (RMem h, 1) else None)"
| "delta (FreeMem m, e, h) = Some (RMem m, -1)"
| "delta (TaskCreate, e, h) = (if e = ESP_OK then Some (RTask h, 1) else None)"
| "delta (TaskDelete k, e, h) = Some (RTask k, -1)"
| "delta (TimerCreate, e, h) = (if e = ESP_OK then Some (RTimer h, 1) else None)"
| "delta (TimerDelete k, e, h) = Some (RTimer k, -1)"
| "delta (DmaAlloc, e, h) = (if e = ESP_OK then Some (RDma h, 1) else None)"
| "delta (DmaFree m, e, h) = (if m = 0 then None else Some (RDma m, -1))"
| "delta (CustomInit, e, h) = (if e = ESP_OK then Some (RCustom h, 1) else None)"
| "delta (CustomDeinit m, e, h) = Some (RCustom m, -1)"
| "delta _ = None"

fun held :: "event list \<Rightarrow> resource \<Rightarrow> int" where
  "held [] r = 0"
| "held (ev # evs) r = (case delta ev of Some (q, n) \<Rightarrow> if q = r then n else 0 | None \<Rightarrow> 0) + held evs r"

lemma held_append [simp]: "held (xs @ ys) r = held xs r + held ys r"
  by (induction xs) auto

text \<open>The level of the chip-select line: a transfer is framed when it happens while the line is low.\<close>

definition level_after :: "int \<Rightarrow> idf_call \<Rightarrow> bool \<Rightarrow> bool" where
  "level_after pin c low = (case c of GpioSet p v \<Rightarrow> (if p = pin then \<not> v else low) | _ \<Rightarrow> low)"

definition is_transmit :: "idf_call \<Rightarrow> bool" where
  "is_transmit c = (case c of Transmit _ _ \<Rightarrow> True | _ \<Rightarrow> False)"

fun framed :: "int \<Rightarrow> bool \<Rightarrow> event list \<Rightarrow> bool" where
  "framed pin low [] = True"
| "framed pin low ((c, _, _) # evs) \<longleftrightarrow> (is_transmit c \<longrightarrow> low) \<and> framed pin (level_after pin c low) evs"

fun low_after :: "int \<Rightarrow> bool \<Rightarrow> event list \<Rightarrow> bool" where
  "low_after pin low [] = low"
| "low_after pin low ((c, _, _) # evs) = low_after pin (level_after pin c low) evs"

lemmas cs_defs [simp] = level_after_def is_transmit_def

text \<open>How often the line falls: the number of frames the chip sees.\<close>

fun falls :: "int \<Rightarrow> event list \<Rightarrow> nat" where
  "falls pin [] = 0"
| "falls pin ((c, _, _) # evs) = (if c = GpioSet pin False then 1 else 0) + falls pin evs"

lemma framed_append: "framed pin low (xs @ ys) \<longleftrightarrow> framed pin low xs \<and> framed pin (low_after pin low xs) ys"
  by (induction pin low xs rule: framed.induct) (simp_all del: cs_defs)

lemma low_after_append: "low_after pin low (xs @ ys) = low_after pin (low_after pin low xs) ys"
  by (induction pin low xs rule: low_after.induct) (simp_all del: cs_defs)

lemma falls_append [simp]: "falls pin (xs @ ys) = falls pin xs + falls pin ys"
  by (induction xs) auto

definition settled :: "int \<Rightarrow> bool \<Rightarrow> event list \<Rightarrow> bool" where
  "settled pin low evs \<longleftrightarrow> (\<forall>r. held evs r = 0) \<and> framed pin low evs \<and> low_after pin low evs = low"

lemma settled_append: "settled pin low xs \<Longrightarrow> settled pin low ys \<Longrightarrow> settled pin low (xs @ ys)"
  by (simp add: settled_def framed_append low_after_append)

lemma settled_Nil [simp]: "settled pin low []"
  by (simp add: settled_def)

section \<open>Transfers\<close>

lemma ev_append: "calls s @ [x] @ ys = (calls s @ [x]) @ ys" by simp

lemma idf_do_calls: "idf_do pf c s = s\<lparr>calls := calls s @ [(c, pf_err pf (calls s) c, pf_handle pf (calls s) c)]\<rparr>"
  by (simp add: idf_do_def idf_def Let_def)

lemma transfer_active:
  assumes "x_cs_active (ctx s)"
  obtains new where "snd (spi_transfer_locked pf tx rx len s) = s\<lparr>calls := calls s @ new\<rparr>"
    and "settled pin True new" and "falls pin new = 0"
proof (cases "len = 0")
  case True
  then show thesis using that [of "[]"] by (simp add: spi_transfer_locked_def)
next
  case False
  let ?c = "Transmit (x_spi_dev (ctx s)) (SpiFrame tx rx (len * 8))"
  show thesis
    by (rule that [of "[(?c, pf_err pf (calls s) ?c, pf_handle pf (calls s) ?c)]"])
      (use False assms in \<open>simp_all add: spi_transfer_locked_def idf_transmit_def idf_def Let_def settled_def\<close>)
qed

lemma transfer_idle:
  assumes "\<not> x_cs_active (ctx s)"
  obtains new where "snd (spi_transfer_locked pf tx rx len s) = s\<lparr>calls := calls s @ new\<rparr>"
    and "settled (pin_cs s) False new"
proof (cases "len = 0")
  case True
  then show thesis using that [of "[]"] by (simp add: spi_transfer_locked_def)
next
  case False
  let ?t = "Take (x_lock (ctx s)) (get_wait_ticks pf s)"
  let ?e1 = "(?t, pf_err pf (calls s) ?t, pf_handle pf (calls s) ?t)"
  let ?a = "AcquireBus (x_spi_dev (ctx s))"
  let ?w1 = "calls s @ [?e1]"
  let ?e2 = "(?a, pf_err pf ?w1 ?a, pf_handle pf ?w1 ?a)"
  have run: "spi_transfer_locked pf tx rx len s =
      (if pf_err pf (calls s) ?t \<noteq> ESP_OK then ((ESP_ERR_TIMEOUT, []), s\<lparr>calls := ?w1\<rparr>)
       else if pf_err pf ?w1 ?a \<noteq> ESP_OK
         then ((pf_err pf ?w1 ?a, []), idf_do pf (Give (x_lock (ctx s))) (s\<lparr>calls := ?w1 @ [?e2]\<rparr>))
       else let s3 = idf_do pf (GpioSet (pin_cs s) False) (s\<lparr>calls := ?w1 @ [?e2]\<rparr>);
                (r, s4) = idf_transmit pf (SpiFrame tx rx (len * 8)) s3;
                s5 = idf_do pf (GpioSet (pin_cs s) True) s4;
                s6 = idf_do pf (ReleaseBus (x_spi_dev (ctx s))) s5
            in (r, idf_do pf (Give (x_lock (ctx s))) s6))"
    using assms False by (simp add: spi_transfer_locked_def idf_def Let_def idf_transmit_def pin_cs_def)
  consider (refused) "pf_err pf (calls s) ?t \<noteq> ESP_OK"
    | (busy) "pf_err pf (calls s) ?t = ESP_OK" "pf_err pf ?w1 ?a \<noteq> ESP_OK"
    | (sent) "pf_err pf (calls s) ?t = ESP_OK" "pf_err pf ?w1 ?a = ESP_OK" by blast
  then show thesis
  proof cases
    case refused
    then show thesis using that [of "[?e1]"] by (simp add: run settled_def)
  next
    case busy
    then show thesis
      by (intro that [of "[?e1, ?e2, (Give (x_lock (ctx s)), pf_err pf (?w1 @ [?e2]) (Give (x_lock (ctx s))),
            pf_handle pf (?w1 @ [?e2]) (Give (x_lock (ctx s))))]"])
        (simp_all add: run idf_do_calls settled_def)
  next
    case sent
    define s3 where "s3 = idf_do pf (GpioSet (pin_cs s) False) (s\<lparr>calls := ?w1 @ [?e2]\<rparr>)"
    define s4 where "s4 = snd (idf_transmit pf (SpiFrame tx rx (len * 8)) s3)"
    define s5 where "s5 = idf_do pf (GpioSet (pin_cs s) True) s4"
    define s6 where "s6 = idf_do pf (ReleaseBus (x_spi_dev (ctx s))) s5"
    have r: "snd (spi_transfer_locked pf tx rx len s) = idf_do pf (Give (x_lock (ctx s))) s6"
      using sent by (simp add: run s3_def s4_def s5_def s6_def Let_def split_beta)
    have "\<exists>e3 h3 e4 h4 e5 h5 e6 h6 e7 h7. snd (spi_transfer_locked pf tx rx len s) = s\<lparr>calls := calls s @
        [?e1, ?e2, (GpioSet (pin_cs s) False, e3, h3), (Transmit (x_spi_dev (ctx s)) (SpiFrame tx rx (len * 8)), e4, h4),
         (GpioSet (pin_cs s) True, e5, h5), (ReleaseBus (x_spi_dev (ctx s)), e6, h6), (Give (x_lock (ctx s)), e7, h7)]\<rparr>"
      unfolding r s6_def s5_def s4_def s3_def idf_do_calls idf_transmit_def idf_def Let_def by simp blast
    then obtain e3 h3 e4 h4 e5 h5 e6 h6 e7 h7 where x: "snd (spi_transfer_locked pf tx rx len s) = s\<lparr>calls := calls s @
        [?e1, ?e2, (GpioSet (pin_cs s) False, e3, h3), (Transmit (x_spi_dev (ctx s)) (SpiFrame tx rx (len * 8)), e4, h4),
         (GpioSet (pin_cs s) True, e5, h5), (ReleaseBus (x_spi_dev (ctx s)), e6, h6), (Give (x_lock (ctx s)), e7, h7)]\<rparr>"
      by blast
    show thesis by (rule that [OF x]) (use sent in \<open>simp add: settled_def\<close>)
  qed
qed

text \<open>The data callbacks the library calls between a select and a deselect.\<close>

datatype spi_op = ReadByte | WriteByte u8 | ReadBurst u16 | WriteBurst bytes u16

definition spi_do :: "platform \<Rightarrow> spi_op \<Rightarrow> spi_st \<Rightarrow> spi_st" where
  "spi_do pf op s = (case op of
       ReadByte \<Rightarrow> snd (wizchip_spi_read_byte pf s)
     | WriteByte x \<Rightarrow> wizchip_spi_write_byte pf x s
     | ReadBurst n \<Rightarrow> snd (wizchip_spi_read_burst pf True n s)
     | WriteBurst d n \<Rightarrow> wizchip_spi_write_burst pf (Some d) n s)"

definition spi_session :: "platform \<Rightarrow> spi_op list \<Rightarrow> spi_st \<Rightarrow> spi_st" where
  "spi_session pf ops s = wizchip_cs_deselect pf (fold (spi_do pf) ops (wizchip_cs_select pf s))"

lemma spi_do_transfer:
  "spi_do pf op s = s \<or> (\<exists>tx rx len. spi_do pf op s = snd (spi_transfer_locked pf tx rx len s))"
  by (cases op) (auto simp: spi_do_def wizchip_spi_read_byte_def wizchip_spi_write_byte_def
      wizchip_spi_read_burst_def wizchip_spi_write_burst_def split_beta Let_def)

lemma spi_do_settled:
  "\<exists>new. spi_do pf op s = s\<lparr>calls := calls s @ new\<rparr> \<and> settled (pin_cs s) (x_cs_active (ctx s)) new \<and>
     (x_cs_active (ctx s) \<longrightarrow> falls (pin_cs s) new = 0)"
proof -
  consider (same) "spi_do pf op s = s" | (tr) tx rx len where "spi_do pf op s = snd (spi_transfer_locked pf tx rx len s)"
    using spi_do_transfer by blast
  then show ?thesis
  proof cases
    case same
    then show ?thesis by (intro exI [of _ "[]"]) simp
  next
    case tr
    show ?thesis
    proof (cases "x_cs_active (ctx s)")
      case True
      from transfer_active [OF True, of pf tx rx len "pin_cs s"] tr True show ?thesis by metis
    next
      case False
      from transfer_idle [OF False, of pf tx rx len] tr False show ?thesis by metis
    qed
  qed
qed

lemma spi_ops_settled:
  "\<exists>new. fold (spi_do pf) ops s = s\<lparr>calls := calls s @ new\<rparr> \<and> settled (pin_cs s) (x_cs_active (ctx s)) new \<and>
     (x_cs_active (ctx s) \<longrightarrow> falls (pin_cs s) new = 0)"
proof (induction ops arbitrary: s)
  case Nil
  then show ?case by (intro exI [of _ "[]"]) simp
next
  case (Cons op ops)
  obtain new1 where n1: "spi_do pf op s = s\<lparr>calls := calls s @ new1\<rparr>" "settled (pin_cs s) (x_cs_active (ctx s)) new1"
    "x_cs_active (ctx s) \<longrightarrow> falls (pin_cs s) new1 = 0"
    using spi_do_settled by blast
  have same: "pin_cs (s\<lparr>calls := calls s @ new1\<rparr>) = pin_cs s" by (simp add: pin_cs_def)
  obtain new2 where "fold (spi_do pf) ops (s\<lparr>calls := calls s @ new1\<rparr>) = s\<lparr>calls := (calls s @ new1) @ new2\<rparr>"
    "settled (pin_cs s) (x_cs_active (ctx s)) new2" "x_cs_active (ctx s) \<longrightarrow> falls (pin_cs s) new2 = 0"
    using Cons.IH [of "s\<lparr>calls := calls s @ new1\<rparr>"] same by auto
  with n1 show ?case by (intro exI [of _ "new1 @ new2"]) (simp add: settled_append)
qed

text \<open>Whether a select is granted: the lock within its timeout, and the bus.\<close>

definition select_granted :: "platform \<Rightarrow> spi_st \<Rightarrow> bool" where
  "select_granted pf s \<longleftrightarrow> x_cs_active (ctx (wizchip_cs_select pf s))"

lemma select_shape:
  assumes "\<not> x_cs_active (ctx s)"
  obtains (granted) evs where "wizchip_cs_select pf s = s\<lparr>ctx := (ctx s)\<lparr>x_cs_active := True\<rparr>, calls := calls s @ evs\<rparr>"
      and "\<And>r. held evs r = (if r = RLock (x_lock (ctx s)) then 1 else 0) + (if r = RClaim (x_spi_dev (ctx s)) then 1 else 0)"
      and "framed (pin_cs s) False evs" and "low_after (pin_cs s) False evs" and "falls (pin_cs s) evs = 1"
    | (refused) evs where "wizchip_cs_select pf s = s\<lparr>calls := calls s @ evs\<rparr>" and "settled (pin_cs s) False evs"
proof -
  let ?t = "Take (x_lock (ctx s)) (get_wait_ticks pf s)"
  let ?e1 = "(?t, pf_err pf (calls s) ?t, pf_handle pf (calls s) ?t)"
  let ?a = "AcquireBus (x_spi_dev (ctx s))"
  let ?w1 = "calls s @ [?e1]"
  let ?e2 = "(?a, pf_err pf ?w1 ?a, pf_handle pf ?w1 ?a)"
  let ?w2 = "?w1 @ [?e2]"
  let ?g = "GpioSet (pin_cs s) False"
  have run: "wizchip_cs_select pf s =
      (if pf_err pf (calls s) ?t \<noteq> ESP_OK then s\<lparr>calls := ?w1\<rparr>
       else if pf_err pf ?w1 ?a \<noteq> ESP_OK then idf_do pf (Give (x_lock (ctx s))) (s\<lparr>calls := ?w2\<rparr>)
       else set_ctx (x_cs_active_update (\<lambda>_. True)) (idf_do pf ?g (s\<lparr>calls := ?w2\<rparr>)))"
    by (simp add: wizchip_cs_select_def idf_def Let_def pin_cs_def)
  consider (a) "pf_err pf (calls s) ?t \<noteq> ESP_OK"
    | (b) "pf_err pf (calls s) ?t = ESP_OK" "pf_err pf ?w1 ?a \<noteq> ESP_OK"
    | (c) "pf_err pf (calls s) ?t = ESP_OK" "pf_err pf ?w1 ?a = ESP_OK" by blast
  then show thesis
  proof cases
    case a
    then show thesis by (intro refused [of "[?e1]"]) (simp_all add: run settled_def)
  next
    case b
    then show thesis
      by (intro refused [of "[?e1, ?e2, (Give (x_lock (ctx s)), pf_err pf ?w2 (Give (x_lock (ctx s))),
            pf_handle pf ?w2 (Give (x_lock (ctx s))))]"]) (simp_all add: run settled_def idf_do_calls)
  next
    case c
    then show thesis
      by (intro granted [of "[?e1, ?e2, (?g, pf_err pf ?w2 ?g, pf_handle pf ?w2 ?g)]"])
        (simp_all add: run idf_do_calls set_ctx_def)
  qed
qed

text \<open>A session of the library (select, any reads and writes, deselect) gives back every lock and
  bus claim it took, leaves the driver's state as it was and the chip select high, and sends
  nothing while the chip select is high, whatever fails on the way; and when the select is
  granted, all of it is one frame.\<close>

theorem spi_session_balanced:
  assumes "\<not> x_cs_active (ctx s)"
  shows "\<exists>new. spi_session pf ops s = s\<lparr>calls := calls s @ new\<rparr> \<and> (\<forall>r. held new r = 0) \<and>
     framed (pin_cs s) False new \<and> \<not> low_after (pin_cs s) False new \<and>
     (select_granted pf s \<longrightarrow> falls (pin_cs s) new = 1)"
  using assms
proof (cases rule: select_shape [where pf = pf])
  case (granted evs)
  let ?s1 = "s\<lparr>ctx := (ctx s)\<lparr>x_cs_active := True\<rparr>, calls := calls s @ evs\<rparr>"
  have p: "pin_cs ?s1 = pin_cs s" by (simp add: pin_cs_def)
  obtain new where n: "fold (spi_do pf) ops ?s1 = ?s1\<lparr>calls := calls ?s1 @ new\<rparr>" "settled (pin_cs s) True new"
    "falls (pin_cs s) new = 0"
    using spi_ops_settled [of pf ops ?s1] p by auto
  let ?s2 = "?s1\<lparr>calls := calls ?s1 @ new\<rparr>"
  obtain e1 h1 e2 h2 e3 h3 where d: "wizchip_cs_deselect pf ?s2 = s\<lparr>calls := calls s @ evs @ new @
      [(GpioSet (pin_cs s) True, e1, h1), (ReleaseBus (x_spi_dev (ctx s)), e2, h2), (Give (x_lock (ctx s)), e3, h3)]\<rparr>"
  proof -
    have off: "(ctx s)\<lparr>x_cs_active := False\<rparr> = ctx s" using assms by (cases "ctx s") simp
    have "\<exists>e1 h1 e2 h2 e3 h3. wizchip_cs_deselect pf ?s2 = s\<lparr>calls := calls s @ evs @ new @
      [(GpioSet (pin_cs s) True, e1, h1), (ReleaseBus (x_spi_dev (ctx s)), e2, h2), (Give (x_lock (ctx s)), e3, h3)]\<rparr>"
      using off by (simp add: wizchip_cs_deselect_def idf_do_calls set_ctx_def pin_cs_def Let_def) blast
    then show thesis using that by blast
  qed
  show ?thesis
    by (rule exI [of _ "evs @ new @ [(GpioSet (pin_cs s) True, e1, h1), (ReleaseBus (x_spi_dev (ctx s)), e2, h2),
        (Give (x_lock (ctx s)), e3, h3)]"])
      (use granted n d in \<open>simp add: spi_session_def settled_def framed_append low_after_append\<close>)
next
  case (refused evs)
  let ?s1 = "s\<lparr>calls := calls s @ evs\<rparr>"
  have p: "pin_cs ?s1 = pin_cs s" by (simp add: pin_cs_def)
  obtain new where n: "fold (spi_do pf) ops ?s1 = ?s1\<lparr>calls := calls ?s1 @ new\<rparr>" "settled (pin_cs s) False new"
    using spi_ops_settled [of pf ops ?s1] p assms by auto
  have "settled (pin_cs s) False (evs @ new)" using refused(2) n(2) by (rule settled_append)
  moreover have "spi_session pf ops s = s\<lparr>calls := calls s @ evs @ new\<rparr>"
    using refused n assms by (simp add: spi_session_def wizchip_cs_deselect_def)
  moreover have "\<not> select_granted pf s" using refused assms by (simp add: select_granted_def)
  ultimately show ?thesis by (auto simp: settled_def)
qed

section \<open>Initialisation\<close>

text \<open>From one state to a later one: the calls in between hold exactly \<open>f\<close> more than before.\<close>

definition grown :: "spi_st \<Rightarrow> spi_st \<Rightarrow> (resource \<Rightarrow> int) \<Rightarrow> bool" where
  "grown s s' f \<longleftrightarrow> (\<exists>new. calls s' = calls s @ new \<and> (\<forall>r. held new r = f r))"

definition one :: "resource \<Rightarrow> resource \<Rightarrow> int" where
  "one q r = (if r = q then 1 else 0)"

definition given :: "bool \<Rightarrow> int \<Rightarrow> int" where
  "given p n = (if p then n else 0)"

lemma grown_refl: "grown s s (\<lambda>_. 0)"
  by (auto simp: grown_def intro: exI [of _ "[]"])

lemma grown_trans: "grown s s' f \<Longrightarrow> grown s' s'' g \<Longrightarrow> grown s s'' (\<lambda>r. f r + g r)"
  by (auto simp: grown_def)

lemma grown_set_ctx [simp]: "grown s (set_ctx k s') f = grown s s' f" "grown (set_ctx k s) s' f = grown s s' f"
  by (simp_all add: grown_def)

lemma grown_idf:
  assumes "idf pf c s = (e, h, s')"
  shows "grown s s' (\<lambda>r. held [(c, e, h)] r)" and "ctx s' = ctx s"
    and "e = pf_err pf (calls s) c" and "h = pf_handle pf (calls s) c"
  using assms by (auto simp: idf_def grown_def Let_def)

lemma grown_do: "grown s (idf_do pf c s) (\<lambda>r. held [(c, pf_err pf (calls s) c, pf_handle pf (calls s) c)] r)"
  by (simp add: grown_def)

lemma grown_eq: "grown s s' f \<Longrightarrow> (\<And>r. f r = g r) \<Longrightarrow> grown s s' g"
  by (simp add: grown_def)

lemma grown_give:
  assumes "\<And>e h. delta (c, e, h) = Some (q, -1)"
  shows "grown s (idf_do pf c s) (\<lambda>r. - one q r)"
  by (rule grown_eq [OF grown_do]) (simp add: assms one_def)

lemma init_err_effect:
  "fst (init_err pf e s) = e" "ctx (snd (init_err pf e s)) = ctx_zero"
  "grown s (snd (init_err pf e s)) (\<lambda>r. - one (RMutex (x_lock (ctx s))) r)"
  using grown_give [of "MutexDelete (x_lock (ctx s))" "RMutex (x_lock (ctx s))" s pf]
  by (simp_all add: init_err_def)

lemma init_err_bus_effect:
  "fst (init_err_bus pf e s) = e" "ctx (snd (init_err_bus pf e s)) = ctx_zero"
  "grown s (snd (init_err_bus pf e s))
     (\<lambda>r. - one (RMutex (x_lock (ctx s))) r - given (x_bus_owned (ctx s)) (one (RBus (g_host_id (x_cfg (ctx s)))) r))"
proof -
  show "fst (init_err_bus pf e s) = e" "ctx (snd (init_err_bus pf e s)) = ctx_zero"
    by (simp_all add: init_err_bus_def init_err_effect)
  show "grown s (snd (init_err_bus pf e s))
     (\<lambda>r. - one (RMutex (x_lock (ctx s))) r - given (x_bus_owned (ctx s)) (one (RBus (g_host_id (x_cfg (ctx s)))) r))"
  proof (cases "x_bus_owned (ctx s)")
    case True
    let ?h = "g_host_id (x_cfg (ctx s))"
    have "grown s (idf_do pf (BusFree ?h) s) (\<lambda>r. - one (RBus ?h) r)" by (rule grown_give) simp
    from grown_eq [OF grown_trans [OF this init_err_effect(3) [of "idf_do pf (BusFree ?h) s" pf e]]] True
    show ?thesis by (simp add: init_err_bus_def given_def)
  next
    case False
    from init_err_effect(3) [of s pf e] False show ?thesis by (simp add: init_err_bus_def given_def)
  qed
qed

lemma init_err_dev_effect:
  "fst (init_err_dev pf e s) = e" "ctx (snd (init_err_dev pf e s)) = ctx_zero"
  "grown s (snd (init_err_dev pf e s))
     (\<lambda>r. - one (RMutex (x_lock (ctx s))) r - given (x_bus_owned (ctx s)) (one (RBus (g_host_id (x_cfg (ctx s)))) r)
          - one (RDev (x_spi_dev (ctx s))) r)"
proof -
  show "fst (init_err_dev pf e s) = e" "ctx (snd (init_err_dev pf e s)) = ctx_zero"
    by (simp_all add: init_err_dev_def init_err_bus_effect)
  from grown_trans [OF grown_do [of s pf "RemoveDevice (x_spi_dev (ctx s))"]
      init_err_bus_effect(3) [of "set_ctx (x_spi_dev_update (\<lambda>_. 0)) (idf_do pf (RemoveDevice (x_spi_dev (ctx s))) s)" pf e,
        simplified]]
  show "grown s (snd (init_err_dev pf e s))
     (\<lambda>r. - one (RMutex (x_lock (ctx s))) r - given (x_bus_owned (ctx s)) (one (RBus (g_host_id (x_cfg (ctx s)))) r)
          - one (RDev (x_spi_dev (ctx s))) r)"
    unfolding init_err_dev_def by (rule grown_eq) (auto simp: one_def)
qed

text \<open>What adding the device does to what is held, given what was taken before it.\<close>

definition taken :: "wsm_driver_spi_context_t \<Rightarrow> resource \<Rightarrow> int" where
  "taken x r = one (RMutex (x_lock x)) r + given (x_bus_owned x) (one (RBus (g_host_id (x_cfg x))) r)"

text \<open>A handle is null exactly when its creation failed.\<close>

definition handles_ok :: "platform \<Rightarrow> bool" where
  "handles_ok pf \<longleftrightarrow> (\<forall>evs c. pf_err pf evs c = ESP_OK \<longrightarrow> pf_handle pf evs c \<noteq> 0)"

definition device_added :: "spi_st \<Rightarrow> spi_st \<Rightarrow> bool" where
  "device_added s s' \<longleftrightarrow> (\<exists>d. d \<noteq> 0 \<and>
     ctx s' = (ctx s)\<lparr>x_spi_dev := d, x_cs_active := False, x_initialized := True\<rparr> \<and>
     grown s s' (one (RDev d)) \<and> \<not> low_after (pin_cs s) True (calls s'))"

definition undone :: "spi_st \<Rightarrow> spi_st \<Rightarrow> bool" where
  "undone s s' \<longleftrightarrow> ctx s' = ctx_zero \<and> grown s s' (\<lambda>r. - taken (ctx s) r)"

lemma init_device_effect:
  assumes "init_device b pf s = (e, s')" and "handles_ok pf"
  shows "if e = ESP_OK then device_added s s' else undone s s'"
proof -
  let ?g = "x_cfg (ctx s)"
  let ?outs = "push_bit (nat (g_pin_cs ?g)) 1 OR push_bit (nat (g_pin_rst ?g)) 1 :: 64 word"
  obtain e1 d s1 where i1: "idf pf (AddDevice (g_host_id ?g) (g_clock_hz ?g) (WSM_DRIVER_USE_QSPI b)) s = (e1, d, s1)"
    by (metis prod_cases3)
  note G1 = grown_idf [OF i1]
  note r1 = assms(1) [unfolded init_device_def Let_def i1 prod.case]
  show ?thesis
  proof (cases "e1 = ESP_OK")
    case False
    with r1 have r: "e = e1" "s' = snd (init_err_bus pf e1 s1)" using init_err_bus_effect(1) [of pf e1 s1] by simp_all
    have "grown s s1 (\<lambda>_. 0)" by (rule grown_eq [OF G1(1)]) (use False in simp)
    from grown_trans [OF this init_err_bus_effect(3) [of s1 pf e1]]
    have "grown s s' (\<lambda>r. - taken (ctx s) r)" unfolding r by (rule grown_eq) (simp add: taken_def G1(2))
    with False r init_err_bus_effect(2) show ?thesis by (simp add: undone_def)
  next
    case ok1: True
    have d: "d \<noteq> 0" using ok1 G1(3,4) assms(2) by (simp add: handles_ok_def)
    have g1: "grown s s1 (one (RDev d))" by (rule grown_eq [OF G1(1)]) (use ok1 in \<open>simp add: one_def\<close>)
    let ?s2 = "set_ctx (x_spi_dev_update (\<lambda>_. d)) s1"
    obtain e2 h2 s3 where i2: "idf pf (GpioConfig ?outs True False) ?s2 = (e2, h2, s3)" by (metis prod_cases3)
    note G2 = grown_idf [OF i2, simplified]
    have g3: "grown s s3 (one (RDev d))" by (rule grown_eq [OF grown_trans [OF g1 G2(1)]]) simp
    have c3: "ctx s3 = (ctx s)\<lparr>x_spi_dev := d\<rparr>" using G2(2) G1(2) by simp
    have dev_err: "undone s (snd (init_err_dev pf q u))" if "grown s u (one (RDev d))" "ctx u = (ctx s)\<lparr>x_spi_dev := d\<rparr>" for q u
    proof -
      from grown_trans [OF that(1) init_err_dev_effect(3) [of u pf q]]
      have "grown s (snd (init_err_dev pf q u)) (\<lambda>r. - taken (ctx s) r)"
        by (rule grown_eq) (simp add: taken_def that(2))
      with init_err_dev_effect(2) show ?thesis by (simp add: undone_def)
    qed
    note r2 = r1 [simplified ok1 i2 prod.case, simplified]
    show ?thesis
    proof (cases "e2 = ESP_OK")
      case False
      with r2 have "e = e2" "s' = snd (init_err_dev pf e2 s3)" using init_err_dev_effect(1) [of pf e2 s3] by simp_all
      with False dev_err [OF g3 c3] show ?thesis by simp
    next
      case ok2: True
      obtain e3 h3 s4 where i3: "idf pf (GpioConfig (push_bit (nat (g_pin_int ?g)) 1) False True) s3 = (e3, h3, s4)"
        by (metis prod_cases3)
      note G3 = grown_idf [OF i3, simplified]
      have g4: "grown s s4 (one (RDev d))" by (rule grown_eq [OF grown_trans [OF g3 G3(1)]]) simp
      have c4: "ctx s4 = (ctx s)\<lparr>x_spi_dev := d\<rparr>" using G3(2) c3 by simp
      note r3 = r2 [simplified ok2 i3 prod.case, simplified]
      show ?thesis
      proof (cases "e3 = ESP_OK")
        case False
        with r3 have "e = e3" "s' = snd (init_err_dev pf e3 s4)" using init_err_dev_effect(1) [of pf e3 s4] by simp_all
        with False dev_err [OF g4 c4] show ?thesis by simp
      next
        case ok3: True
        let ?s5 = "idf_do pf (GpioSet (g_pin_cs ?g) True) s4"
        let ?s6 = "idf_do pf (GpioSet (g_pin_rst ?g) True) ?s5"
        have r: "e = ESP_OK" "s' = set_ctx (\<lambda>x. x\<lparr>x_cs_active := False, x_initialized := True\<rparr>) ?s6"
          using r3 ok3 by simp_all
        have "grown s ?s6 (one (RDev d))"
          by (rule grown_eq [OF grown_trans [OF g4 grown_trans [OF grown_do grown_do]]]) simp
        moreover have "\<not> low_after (pin_cs s) True (calls ?s6)"
          by (simp add: low_after_append pin_cs_def)
        ultimately show ?thesis using d r c4 by (auto simp: device_added_def)
      qed
    qed
  qed
qed

lemma deinit_effect:
  assumes "x_initialized (ctx s)" and "x_spi_dev (ctx s) \<noteq> 0" and "x_lock (ctx s) \<noteq> 0"
  shows "ctx (snd (wsm_driver_spi_deinit pf s)) = ctx_zero \<and>
    grown s (snd (wsm_driver_spi_deinit pf s)) (\<lambda>r. - taken (ctx s) r - one (RDev (x_spi_dev (ctx s))) r)"
proof -
  let ?s1 = "set_ctx (x_spi_dev_update (\<lambda>_. 0)) (idf_do pf (RemoveDevice (x_spi_dev (ctx s))) s)"
  let ?s2 = "if x_bus_owned (ctx s) then idf_do pf (BusFree (g_host_id (x_cfg (ctx s)))) ?s1 else ?s1"
  let ?s3 = "idf_do pf (MutexDelete (x_lock (ctx s))) ?s2"
  have d: "snd (wsm_driver_spi_deinit pf s) = set_ctx (\<lambda>_. ctx_zero) (set_ctx (x_lock_update (\<lambda>_. 0)) ?s3)"
    using assms by (simp add: wsm_driver_spi_deinit_def Let_def)
  have "grown s ?s1 (\<lambda>r. - one (RDev (x_spi_dev (ctx s))) r)"
    using grown_give [of "RemoveDevice (x_spi_dev (ctx s))" "RDev (x_spi_dev (ctx s))" s pf] by simp
  moreover have "grown ?s1 ?s2 (\<lambda>r. - given (x_bus_owned (ctx s)) (one (RBus (g_host_id (x_cfg (ctx s)))) r))"
    using grown_give [of "BusFree (g_host_id (x_cfg (ctx s)))" "RBus (g_host_id (x_cfg (ctx s)))" ?s1 pf] grown_refl [of ?s1]
    by (simp add: given_def)
  moreover have "grown ?s2 ?s3 (\<lambda>r. - one (RMutex (x_lock (ctx s))) r)"
    by (rule grown_give) simp
  ultimately have "grown s ?s3 (\<lambda>r. - taken (ctx s) r - one (RDev (x_spi_dev (ctx s))) r)"
    by (rule grown_eq [OF grown_trans [OF _ grown_trans]]) (simp add: taken_def)
  then show ?thesis unfolding d by simp
qed

definition wsm_driver_spi_owns :: "spi_st \<Rightarrow> resource \<Rightarrow> int" where
  "wsm_driver_spi_owns s r = taken (ctx s) r + one (RDev (x_spi_dev (ctx s))) r"

text \<open>C14. Initialisation is all or nothing: on success the driver holds its mutex, its device and, unless
  the caller owns it, the bus, with the chip select high, and deinit() gives back exactly these; on
  any failure, at whichever of the six calls, everything taken before has been given back.\<close>

theorem spi_init_all_or_nothing:
  assumes "handles_ok pf" and "\<not> x_initialized (ctx s)" and "wsm_driver_spi_init b pf (Some g) s = (e, s1)"
  shows "if e = ESP_OK
    then x_initialized (ctx s1) \<and> x_bus_owned (ctx s1) = (\<not> g_bus_initialized_by_caller g) \<and>
      grown s s1 (wsm_driver_spi_owns s1) \<and> \<not> low_after (pin_cs s1) True (calls s1) \<and>
      ctx (snd (wsm_driver_spi_deinit pf s1)) = ctx_zero \<and> grown s (snd (wsm_driver_spi_deinit pf s1)) (\<lambda>_. 0)
    else \<not> x_initialized (ctx s1) \<and> grown s s1 (\<lambda>_. 0)"
proof -
  let ?g = "apply_defaults b g"
  have caller: "g_bus_initialized_by_caller ?g = g_bus_initialized_by_caller g" by (simp add: apply_defaults_def)
  obtain em m u where im: "idf pf MutexCreate (set_ctx (\<lambda>_. ctx_zero\<lparr>x_cfg := ?g\<rparr>) s) = (em, m, u)"
    by (metis prod_cases3)
  note GM = grown_idf [OF im, simplified]
  note r = assms(3) [unfolded wsm_driver_spi_init_def Let_def option.case if_not_P [OF assms(2)] im prod.case]
  show ?thesis
  proof (cases "em = ESP_OK")
    case False
    with r have "e = ESP_ERR_NO_MEM" "s1 = u" by simp_all
    with False GM show ?thesis by (auto simp: ctx_zero_def elim: grown_eq)
  next
    case okm: True
    have m: "m \<noteq> 0" using okm GM(3,4) assms(1) by (simp add: handles_ok_def)
    have gm: "grown s u (one (RMutex m))" by (rule grown_eq [OF GM(1)]) (use okm in \<open>simp add: one_def\<close>)
    let ?s2 = "set_ctx (x_lock_update (\<lambda>_. m)) u"
    have c2: "ctx ?s2 = ctx_zero\<lparr>x_cfg := ?g, x_lock := m\<rparr>" using GM(2) by simp
    \<comment> \<open>the rest of the initialisation, from a state whose resources are those its context names\<close>
    have rest: ?thesis
      if dev: "init_device b pf t = (e, s1)" and ct: "ctx t = ctx_zero\<lparr>x_cfg := ?g, x_lock := m, x_bus_owned := o1\<rparr>"
        and o1: "o1 = (\<not> g_bus_initialized_by_caller g)" and gt: "grown s t (taken (ctx t))" for t o1
    proof (cases "e = ESP_OK")
      case False
      with init_device_effect [OF dev assms(1)] have u: "undone t s1" by simp
      from grown_trans [OF gt] u have "grown s s1 (\<lambda>_. 0)"
        unfolding undone_def by (metis (no_types, lifting) add.right_inverse grown_eq)
      with u False show ?thesis by (simp add: undone_def ctx_zero_def)
    next
      case True
      with init_device_effect [OF dev assms(1)] obtain d where d: "d \<noteq> 0"
        "ctx s1 = (ctx t)\<lparr>x_spi_dev := d, x_cs_active := False, x_initialized := True\<rparr>"
        "grown t s1 (one (RDev d))" "\<not> low_after (pin_cs t) True (calls s1)"
        by (auto simp: device_added_def)
      have own: "grown s s1 (wsm_driver_spi_owns s1)"
        by (rule grown_eq [OF grown_trans [OF gt d(3)]]) (simp add: wsm_driver_spi_owns_def taken_def d(2))
      have de: "ctx (snd (wsm_driver_spi_deinit pf s1)) = ctx_zero \<and>
          grown s1 (snd (wsm_driver_spi_deinit pf s1)) (\<lambda>r. - taken (ctx s1) r - one (RDev (x_spi_dev (ctx s1))) r)"
        by (rule deinit_effect) (use d m ct in simp_all)
      have "grown s (snd (wsm_driver_spi_deinit pf s1)) (\<lambda>_. 0)"
        by (rule grown_eq [OF grown_trans [OF own conjunct2 [OF de]]]) (simp add: wsm_driver_spi_owns_def)
      with True own de d ct o1 show ?thesis by (simp add: pin_cs_def)
    qed
    show ?thesis
    proof (cases "g_bus_initialized_by_caller g")
      case True
      then have dev: "init_device b pf ?s2 = (e, s1)" using r okm GM(2) caller by simp
      show ?thesis
        by (rule rest [OF dev, of False]) (use True c2 gm in \<open>auto simp: ctx_zero_def taken_def given_def one_def elim: grown_eq\<close>)
    next
      case False
      obtain eb hb v where ib: "idf pf (BusInit (g_host_id ?g) (bus_config b ?g)) ?s2 = (eb, hb, v)"
        by (metis prod_cases3)
      note GB = grown_idf [OF ib, simplified]
      have r2: "(if eb \<noteq> ESP_OK then init_err pf eb v else init_device b pf (set_ctx (x_bus_owned_update (\<lambda>_. True)) v)) = (e, s1)"
        using r okm GM(2) caller False ib by simp
      show ?thesis
      proof (cases "eb = ESP_OK")
        case bad: False
        with r2 have s1: "e = eb" "s1 = snd (init_err pf eb v)" using init_err_effect(1) [of pf eb v] by simp_all
        have "grown s v (one (RMutex m))" by (rule grown_eq [OF grown_trans [OF gm GB(1)]]) (use bad in simp)
        from grown_trans [OF this init_err_effect(3) [of v pf eb]] GB(2) c2
        have "grown s s1 (\<lambda>_. 0)" unfolding s1 by (auto elim: grown_eq)
        with bad s1 init_err_effect(2) show ?thesis by (simp add: ctx_zero_def)
      next
        case okb: True
        with r2 have dev: "init_device b pf (set_ctx (x_bus_owned_update (\<lambda>_. True)) v) = (e, s1)" by simp
        show ?thesis
        proof (rule rest [OF dev, of True])
          show "ctx (set_ctx (x_bus_owned_update (\<lambda>_. True)) v) =
              ctx_zero\<lparr>x_cfg := ?g, x_lock := m, x_bus_owned := True\<rparr>" using GB(2) c2 by simp
          show "True = (\<not> g_bus_initialized_by_caller g)" using False by simp
          have "grown s v (taken (ctx (set_ctx (x_bus_owned_update (\<lambda>_. True)) v)))"
            by (rule grown_eq [OF grown_trans [OF gm GB(1)]]) (use okb GB(2) GM(2) c2 in \<open>simp add: taken_def given_def one_def\<close>)
          then show "grown s (set_ctx (x_bus_owned_update (\<lambda>_. True)) v) (taken (ctx (set_ctx (x_bus_owned_update (\<lambda>_. True)) v)))"
            by simp
        qed
      qed
    qed
  qed
qed

section \<open>A platform to evaluate on\<close>

text \<open>Every call succeeds, except those whose position in the sequence is listed.\<close>

definition sim_pf :: "nat list \<Rightarrow> platform" where
  "sim_pf bad = \<lparr>pf_err = (\<lambda>evs c. if length evs \<in> set bad then ESP_FAIL else ESP_OK),
     pf_handle = (\<lambda>evs c. length evs + 1), pf_rx = (\<lambda>evs t. []), pf_ticks = (\<lambda>ms. ms div 10),
     pf_portMAX_DELAY = -1\<rparr>"

definition sim_build :: wsm_build where
  "sim_build = \<lparr>b_iolib = True, b_chip = CHIP_W5500, b_quad = False, b_SPI_HOST = None, b_SPI_CLOCK_HZ = None,
     b_PIN_MISO = None, b_PIN_MOSI = None, b_PIN_SCLK = None, b_PIN_CS = None, b_PIN_RST = None, b_PIN_INT = None,
     b_PIN_IO2 = None, b_PIN_IO3 = None\<rparr>"

definition spi_fresh :: spi_st where "spi_fresh = \<lparr>ctx = ctx_zero, calls = []\<rparr>"

text \<open>The state after a successful initialisation.\<close>

definition sim_spi :: spi_st where
  "sim_spi = \<lparr>ctx = ctx_zero\<lparr>x_initialized := True, x_lock := 1, x_bus_owned := True, x_spi_dev := 3,
     x_cfg := apply_defaults sim_build (cfg_zero\<lparr>g_pin_cs := -1\<rparr>)\<rparr>, calls = []\<rparr>"

lemmas sim_spi_simps = sim_spi_def sim_pf_def sim_build_def spi_fresh_def ctx_zero_def cfg_zero_def
  apply_defaults_def resolve_pin_def spi_def_pins pin_cs_def idf_def idf_do_def set_ctx_def Let_def

lemma sim_pf_handles: "handles_ok (sim_pf bad)"
  by (simp add: handles_ok_def sim_pf_def)

text \<open>The third call, adding the device, fails: the mutex and the bus are given back.\<close>

theorem spi_init_all_or_nothing_witness:
  "\<exists>s1. wsm_driver_spi_init sim_build (sim_pf [2]) (Some cfg_zero) spi_fresh = (ESP_FAIL, s1) \<and>
     length (calls s1) = 5 \<and> grown spi_fresh s1 (\<lambda>_. 0)"
proof -
  obtain s1 where i: "wsm_driver_spi_init sim_build (sim_pf [2]) (Some cfg_zero) spi_fresh = (ESP_FAIL, s1)"
    and n: "length (calls s1) = 5"
  proof -
    have "fst (wsm_driver_spi_init sim_build (sim_pf [2]) (Some cfg_zero) spi_fresh) = ESP_FAIL \<and>
        length (calls (snd (wsm_driver_spi_init sim_build (sim_pf [2]) (Some cfg_zero) spi_fresh))) = 5"
      by (simp add: sim_spi_simps wsm_driver_spi_init_def init_device_def init_err_bus_def init_err_def)
    then show thesis using that by (metis prod.collapse)
  qed
  have "\<not> x_initialized (ctx spi_fresh)" by (simp add: spi_fresh_def ctx_zero_def)
  from spi_init_all_or_nothing [OF sim_pf_handles this i] i n show ?thesis by simp
qed

lemma sim_spi_idle: "\<not> x_cs_active (ctx sim_spi)" "pin_cs sim_spi = 10"
  by (simp_all add: sim_spi_simps)

theorem spi_session_balanced_witness:
  "\<exists>new. spi_session (sim_pf []) [WriteByte 0, WriteByte 0x39, ReadByte] sim_spi = sim_spi\<lparr>calls := calls sim_spi @ new\<rparr> \<and>
     falls 10 new = 1 \<and> (\<forall>r. held new r = 0)"
proof -
  have "select_granted (sim_pf []) sim_spi"
    by (simp add: sim_spi_simps select_granted_def wizchip_cs_select_def)
  with spi_session_balanced [OF sim_spi_idle(1), of "sim_pf []" "[WriteByte 0, WriteByte 0x39, ReadByte]"]
  show ?thesis unfolding sim_spi_idle by blast
qed

text \<open>A select that is refused is not reported, and the bytes that follow still go out, each in a
  frame of its own: here the lock is not granted for the select but is for the transfers, and the
  chip sees a three-byte frame as three frames of one byte.\<close>

theorem refused_select_splits_frame:
  "(let s1 = spi_session (sim_pf [0]) [WriteByte 0, WriteByte 0x39, ReadByte] sim_spi;
        s2 = spi_session (sim_pf []) [WriteByte 0, WriteByte 0x39, ReadByte] sim_spi
    in falls 10 (calls s1) = 3 \<and> falls 10 (calls s2) = 1)"
  by (simp add: sim_spi_simps spi_session_def wizchip_cs_select_def wizchip_cs_deselect_def spi_do_def
      wizchip_spi_read_byte_def wizchip_spi_write_byte_def spi_transfer_locked_def idf_transmit_def)

end
