(* ===== verification/Mac_New.thy ===== *)
theory Mac_New
  imports Spi_Props
begin

text \<open>
  What the constructors of the two MAC drivers share: the context of the default SPI driver, the
  handles of an instance, the sequence that makes them and the error label that takes down what has
  been made. The locale \<open>mac_ctor\<close> is what the sequence needs of a driver's SPI initialisation.
\<close>

section \<open>The SPI context\<close>

text \<open>The context \<open>eth_spi_info_t\<close> with the address of its memory.\<close>

record eth_spi_info_t =
  e_mem :: nat
  e_hdl :: nat
  e_lock :: nat

datatype spi_ctx = SpiDefault eth_spi_info_t | SpiCustom nat

definition eth_spi_release :: "platform \<Rightarrow> eth_spi_info_t \<Rightarrow> spi_st \<Rightarrow> spi_st" where
  "eth_spi_release pf spi s =
     idf_do pf (FreeMem (e_mem spi)) (idf_do pf (MutexDelete (e_lock spi)) (idf_do pf (RemoveDevice (e_hdl spi)) s))"

definition spi_ctx_deinit :: "platform \<Rightarrow> spi_ctx \<Rightarrow> spi_st \<Rightarrow> spi_st" where
  "spi_ctx_deinit pf c s = (case c of SpiDefault spi \<Rightarrow> eth_spi_release pf spi s
                                    | SpiCustom h \<Rightarrow> idf_do pf (CustomDeinit h) s)"

section \<open>The handles of an instance\<close>

text \<open>The memory of the instance and what it holds; a null handle is 0.\<close>

record mac_handles =
  n_mem :: nat
  n_spi :: "spi_ctx option"
  n_task :: nat
  n_rx_buffer :: nat
  n_timer :: nat

text \<open>The error label: what has been made so far is taken down again.\<close>

definition mac_release :: "platform \<Rightarrow> mac_handles \<Rightarrow> spi_st \<Rightarrow> spi_st" where
  "mac_release pf i s =
     (let s1 = (if n_timer i \<noteq> 0 then idf_do pf (TimerDelete (n_timer i)) s else s);
          s2 = (if n_task i \<noteq> 0 then idf_do pf (TaskDelete (n_task i)) s1 else s1);
          s3 = (case n_spi i of None \<Rightarrow> s2 | Some c \<Rightarrow> spi_ctx_deinit pf c s2);
          s4 = idf_do pf (DmaFree (n_rx_buffer i)) s3
      in idf_do pf (FreeMem (n_mem i)) s4)"

definition new_err :: "platform \<Rightarrow> mac_handles \<Rightarrow> spi_st \<Rightarrow> mac_handles option \<times> spi_st" where
  "new_err pf i s = (None, mac_release pf i s)"

text \<open>The sequence after the checks of the arguments; \<open>polled\<close> asks for the timer.\<close>

definition mac_build ::
  "platform \<Rightarrow> (spi_st \<Rightarrow> spi_ctx option \<times> spi_st) \<Rightarrow> bool \<Rightarrow> spi_st \<Rightarrow> mac_handles option \<times> spi_st" where
  "mac_build pf ctx_init polled s =
     (case idf pf Calloc s of (e, mem, s1) \<Rightarrow>
        if e \<noteq> ESP_OK then (None, s1)
        else let i0 = \<lparr>n_mem = mem, n_spi = None, n_task = 0, n_rx_buffer = 0, n_timer = 0\<rparr> in
          case ctx_init s1 of (spi, s2) \<Rightarrow>
            if spi = None then new_err pf i0 s2
            else let i1 = i0\<lparr>n_spi := spi\<rparr> in
              case idf pf TaskCreate s2 of (e1, task, s3) \<Rightarrow>
                if e1 \<noteq> ESP_OK then new_err pf i1 s3
                else let i2 = i1\<lparr>n_task := task\<rparr> in
                  case idf pf DmaAlloc s3 of (e2, buf, s4) \<Rightarrow>
                    if e2 \<noteq> ESP_OK then new_err pf i2 s4
                    else let i3 = i2\<lparr>n_rx_buffer := buf\<rparr> in
                      if \<not> polled then (Some i3, s4)
                      else case idf pf TimerCreate s4 of (e3, tm, s5) \<Rightarrow>
                        if e3 \<noteq> ESP_OK then new_err pf i3 s5
                        else (Some (i3\<lparr>n_timer := tm\<rparr>), s5))"

text \<open>Deletion, which takes the task for granted.\<close>

definition mac_del :: "platform \<Rightarrow> mac_handles \<Rightarrow> spi_st \<Rightarrow> spi_st" where
  "mac_del pf i s =
     (let s1 = (if n_timer i \<noteq> 0 then idf_do pf (TimerDelete (n_timer i)) s else s);
          s2 = idf_do pf (TaskDelete (n_task i)) s1;
          s3 = (case n_spi i of None \<Rightarrow> s2 | Some c \<Rightarrow> spi_ctx_deinit pf c s2);
          s4 = idf_do pf (DmaFree (n_rx_buffer i)) s3
      in idf_do pf (FreeMem (n_mem i)) s4)"

section \<open>What an instance holds\<close>

definition held_ctx :: "spi_ctx option \<Rightarrow> resource \<Rightarrow> int" where
  "held_ctx c r = (case c of None \<Rightarrow> 0
     | Some (SpiDefault spi) \<Rightarrow> one (RMem (e_mem spi)) r + one (RDev (e_hdl spi)) r + one (RMutex (e_lock spi)) r
     | Some (SpiCustom h) \<Rightarrow> one (RCustom h) r)"

definition held_inst :: "mac_handles \<Rightarrow> resource \<Rightarrow> int" where
  "held_inst i r = one (RMem (n_mem i)) r + held_ctx (n_spi i) r + given (n_task i \<noteq> 0) (one (RTask (n_task i)) r) +
     given (n_rx_buffer i \<noteq> 0) (one (RDma (n_rx_buffer i)) r) + given (n_timer i \<noteq> 0) (one (RTimer (n_timer i)) r)"

lemma grown_take:
  assumes "idf pf c s = (e, h, s')" and "\<And>h. delta (c, e, h) = (if e = ESP_OK then Some (q h, 1) else None)"
  shows "grown s s' (\<lambda>r. if e = ESP_OK then one (q h) r else 0)"
  by (rule grown_eq [OF grown_idf(1) [OF assms(1)]]) (simp add: assms(2) one_def)

lemma handle_nz: "handles_ok pf \<Longrightarrow> idf pf c s = (ESP_OK, h, s') \<Longrightarrow> h \<noteq> 0"
  by (auto simp: handles_ok_def idf_def Let_def)

lemma spi_ctx_deinit_grown: "grown s (spi_ctx_deinit pf c s) (\<lambda>r. - held_ctx (Some c) r)"
proof (cases c)
  case (SpiDefault spi)
  let ?s1 = "idf_do pf (RemoveDevice (e_hdl spi)) s"
  let ?s2 = "idf_do pf (MutexDelete (e_lock spi)) ?s1"
  have "grown s ?s1 (\<lambda>r. - one (RDev (e_hdl spi)) r)" by (rule grown_give) simp
  moreover have "grown ?s1 ?s2 (\<lambda>r. - one (RMutex (e_lock spi)) r)" by (rule grown_give) simp
  moreover have "grown ?s2 (idf_do pf (FreeMem (e_mem spi)) ?s2) (\<lambda>r. - one (RMem (e_mem spi)) r)"
    by (rule grown_give) simp
  ultimately have "grown s (idf_do pf (FreeMem (e_mem spi)) ?s2)
      (\<lambda>r. - one (RDev (e_hdl spi)) r + (- one (RMutex (e_lock spi)) r + - one (RMem (e_mem spi)) r))"
    by (intro grown_trans)
  then show ?thesis
    unfolding SpiDefault spi_ctx_deinit_def eth_spi_release_def spi_ctx.case
    by (rule grown_eq) (simp add: held_ctx_def)
next
  case (SpiCustom h)
  have "grown s (idf_do pf (CustomDeinit h) s) (\<lambda>r. - one (RCustom h) r)" by (rule grown_give) simp
  then show ?thesis by (simp add: SpiCustom spi_ctx_deinit_def held_ctx_def)
qed

lemma mac_release_grown: "grown s (mac_release pf i s) (\<lambda>r. - held_inst i r)"
proof -
  let ?s1 = "if n_timer i \<noteq> 0 then idf_do pf (TimerDelete (n_timer i)) s else s"
  let ?s2 = "if n_task i \<noteq> 0 then idf_do pf (TaskDelete (n_task i)) ?s1 else ?s1"
  let ?s3 = "case n_spi i of None \<Rightarrow> ?s2 | Some c \<Rightarrow> spi_ctx_deinit pf c ?s2"
  let ?s4 = "idf_do pf (DmaFree (n_rx_buffer i)) ?s3"
  have g1: "grown s ?s1 (\<lambda>r. - given (n_timer i \<noteq> 0) (one (RTimer (n_timer i)) r))"
    using grown_give [of "TimerDelete (n_timer i)" "RTimer (n_timer i)" s pf] grown_refl [of s] by (simp add: given_def)
  have g2: "grown ?s1 ?s2 (\<lambda>r. - given (n_task i \<noteq> 0) (one (RTask (n_task i)) r))"
    using grown_give [of "TaskDelete (n_task i)" "RTask (n_task i)" ?s1 pf] grown_refl [of ?s1] by (simp add: given_def)
  have g3: "grown ?s2 ?s3 (\<lambda>r. - held_ctx (n_spi i) r)"
  proof (cases "n_spi i")
    case None
    then show ?thesis using grown_refl [of ?s2] by (simp add: held_ctx_def)
  next
    case (Some c)
    then show ?thesis using spi_ctx_deinit_grown [of ?s2 pf c] by simp
  qed
  have g4: "grown ?s3 ?s4 (\<lambda>r. - given (n_rx_buffer i \<noteq> 0) (one (RDma (n_rx_buffer i)) r))"
    by (rule grown_eq [OF grown_do]) (simp add: given_def one_def)
  have g5: "grown ?s4 (idf_do pf (FreeMem (n_mem i)) ?s4) (\<lambda>r. - one (RMem (n_mem i)) r)"
    by (rule grown_give) simp
  have r: "mac_release pf i s = idf_do pf (FreeMem (n_mem i)) ?s4" by (simp add: mac_release_def Let_def)
  show ?thesis
    unfolding r by (rule grown_eq [OF grown_trans [OF g1 grown_trans [OF g2 grown_trans [OF g3 grown_trans [OF g4 g5]]]]])
      (simp add: held_inst_def)
qed

lemma mac_del_release: "n_task i \<noteq> 0 \<Longrightarrow> mac_del pf i s = mac_release pf i s"
  by (simp add: mac_del_def mac_release_def Let_def)

section \<open>The law of a driver's SPI initialisation\<close>

text \<open>\<open>ok pf\<close> is what the initialisation needs of the platform; it then holds exactly the context it
  returns, and nothing when it fails.\<close>

locale mac_ctor =
  fixes ctx_init :: "platform \<Rightarrow> 'cfg \<Rightarrow> spi_st \<Rightarrow> spi_ctx option \<times> spi_st" and ok :: "platform \<Rightarrow> bool"
  assumes ctx_init_law: "ctx_init pf cfg s = (c, s') \<Longrightarrow> ok pf \<Longrightarrow> grown s s' (held_ctx c)"
begin

lemma build_all_or_nothing:
  assumes "handles_ok pf" and "ok pf" and "mac_build pf (ctx_init pf cfg) polled s = (r, s1)"
  shows "(case r of None \<Rightarrow> grown s s1 (\<lambda>_. 0) | Some i \<Rightarrow> grown s s1 (held_inst i) \<and> n_task i \<noteq> 0)"
proof -
  obtain e mem u1 where i1: "idf pf Calloc s = (e, mem, u1)" by (metis prod_cases3)
  obtain spi u2 where i2: "ctx_init pf cfg u1 = (spi, u2)" by (metis surj_pair)
  obtain e1 task u3 where i3: "idf pf TaskCreate u2 = (e1, task, u3)" by (metis prod_cases3)
  obtain e2 buf u4 where i4: "idf pf DmaAlloc u3 = (e2, buf, u4)" by (metis prod_cases3)
  obtain e3 tm u5 where i5: "idf pf TimerCreate u4 = (e3, tm, u5)" by (metis prod_cases3)
  have g1: "grown s u1 (\<lambda>r. if e = ESP_OK then one (RMem mem) r else 0)" by (rule grown_take [OF i1]) simp
  note g2 = ctx_init_law [OF i2 assms(2)]
  have g3: "grown u2 u3 (\<lambda>r. if e1 = ESP_OK then one (RTask task) r else 0)" by (rule grown_take [OF i3]) simp
  have g4: "grown u3 u4 (\<lambda>r. if e2 = ESP_OK then one (RDma buf) r else 0)" by (rule grown_take [OF i4]) simp
  have g5: "grown u4 u5 (\<lambda>r. if e3 = ESP_OK then one (RTimer tm) r else 0)" by (rule grown_take [OF i5]) simp
  note h1 = g1 and h2 = grown_trans [OF g1 g2]
  note h3 = grown_trans [OF g1 grown_trans [OF g2 g3]]
  note h4 = grown_trans [OF g1 grown_trans [OF g2 grown_trans [OF g3 g4]]]
  note h5 = grown_trans [OF g1 grown_trans [OF g2 grown_trans [OF g3 grown_trans [OF g4 g5]]]]
  have nz: "e1 = ESP_OK \<Longrightarrow> task \<noteq> 0" "e2 = ESP_OK \<Longrightarrow> buf \<noteq> 0" "e3 = ESP_OK \<Longrightarrow> tm \<noteq> 0"
    using handle_nz [OF assms(1)] i3 i4 i5 by auto
  let ?i0 = "\<lparr>n_mem = mem, n_spi = None, n_task = 0, n_rx_buffer = 0, n_timer = 0\<rparr>"
  let ?i1 = "?i0\<lparr>n_spi := spi\<rparr>" let ?i2 = "?i1\<lparr>n_task := task\<rparr>" let ?i3 = "?i2\<lparr>n_rx_buffer := buf\<rparr>"
  let ?i4 = "?i3\<lparr>n_timer := tm\<rparr>"
  have run: "(r, s1) =
      (if e \<noteq> ESP_OK then (None, u1) else if spi = None then new_err pf ?i0 u2
       else if e1 \<noteq> ESP_OK then new_err pf ?i1 u3 else if e2 \<noteq> ESP_OK then new_err pf ?i2 u4
       else if \<not> polled then (Some ?i3, u4)
       else if e3 \<noteq> ESP_OK then new_err pf ?i3 u5 else (Some ?i4, u5))"
    using assms(3) [symmetric, unfolded mac_build_def prod.case Let_def i1 i2 i3 i4 i5] by simp
  have fails: ?thesis if "(r, s1) = new_err pf i u" "grown s u (held_inst i)" for i u
  proof -
    have "grown s (mac_release pf i u) (\<lambda>_. 0)"
      by (rule grown_eq [OF grown_trans [OF that(2) mac_release_grown]]) simp
    with that(1) show ?thesis by (simp add: new_err_def)
  qed
  note inst = held_inst_def held_ctx_def given_def
  consider "e \<noteq> ESP_OK" | "e = ESP_OK" "spi = None" | "e = ESP_OK" "spi \<noteq> None" "e1 \<noteq> ESP_OK"
    | "e = ESP_OK" "spi \<noteq> None" "e1 = ESP_OK" "e2 \<noteq> ESP_OK"
    | "e = ESP_OK" "spi \<noteq> None" "e1 = ESP_OK" "e2 = ESP_OK" "\<not> polled"
    | "e = ESP_OK" "spi \<noteq> None" "e1 = ESP_OK" "e2 = ESP_OK" "polled" "e3 \<noteq> ESP_OK"
    | "e = ESP_OK" "spi \<noteq> None" "e1 = ESP_OK" "e2 = ESP_OK" "polled" "e3 = ESP_OK" by blast
  then show ?thesis
  proof cases
    case 1
    with run have "r = None" "s1 = u1" by simp_all
    with grown_eq [OF h1, of "\<lambda>_. 0"] 1 show ?thesis by simp
  next
    case 2
    show ?thesis by (rule fails [of ?i0 u2]) (use run 2 grown_eq [OF h2, of "held_inst ?i0"] in \<open>auto simp: inst\<close>)
  next
    case 3
    show ?thesis by (rule fails [of ?i1 u3]) (use run 3 grown_eq [OF h3, of "held_inst ?i1"] in \<open>auto simp: inst\<close>)
  next
    case 4
    show ?thesis by (rule fails [of ?i2 u4]) (use run 4 nz grown_eq [OF h4, of "held_inst ?i2"] in \<open>auto simp: inst\<close>)
  next
    case 5
    then show ?thesis using run nz grown_eq [OF h4, of "held_inst ?i3"] by (auto simp: inst)
  next
    case 6
    show ?thesis by (rule fails [of ?i3 u5]) (use run 6 nz grown_eq [OF h5, of "held_inst ?i3"] in \<open>auto simp: inst\<close>)
  next
    case 7
    then show ?thesis using run nz grown_eq [OF h5, of "held_inst ?i4"] by (auto simp: inst)
  qed
qed

lemma build_then_delete:
  assumes "handles_ok pf" and "ok pf" and "mac_build pf (ctx_init pf cfg) polled s = (Some i, s1)"
  shows "grown s (mac_del pf i s1) (\<lambda>_. 0)"
proof -
  have g: "grown s s1 (held_inst i)" and n: "n_task i \<noteq> 0" using build_all_or_nothing [OF assms] by simp_all
  have "grown s (mac_release pf i s1) (\<lambda>_. 0)" by (rule grown_eq [OF grown_trans [OF g mac_release_grown]]) simp
  then show ?thesis by (simp add: mac_del_release [OF n])
qed

end

end
