(* ===== verification/W5500_New.thy ===== *)
theory W5500_New
  imports Mac_New W5500
begin

text \<open>
  The rest of \<open>esp_eth_mac_w5500.c\<close>: the default SPI driver, and the construction and deletion of a
  MAC instance with everything it allocates.
\<close>

section \<open>The default SPI driver\<close>

definition W5500_SPI_LOCK_TIMEOUT_MS :: u32 where "W5500_SPI_LOCK_TIMEOUT_MS = 50"

text \<open>The device configuration: the clock, and the bits of the command and address phases.\<close>

definition w5500_spi_init :: "platform \<Rightarrow> int \<Rightarrow> int \<Rightarrow> nat \<times> nat \<Rightarrow> spi_st \<Rightarrow> eth_spi_info_t option \<times> spi_st" where
  "w5500_spi_init pf host clock bits s =
     (case idf pf Calloc s of (e, mem, s1) \<Rightarrow>
        if e \<noteq> ESP_OK then (None, s1)
        else if bits \<noteq> (0, 0) \<and> bits \<noteq> (16, 8) then (None, idf_do pf (FreeMem mem) s1)
        else case idf pf (AddDevice host clock False) s1 of (e1, hdl, s2) \<Rightarrow>
          if e1 \<noteq> ESP_OK then (None, idf_do pf (FreeMem mem) s2)
          else case idf pf MutexCreate s2 of (e2, lock, s3) \<Rightarrow>
            if e2 \<noteq> ESP_OK then (None, idf_do pf (FreeMem mem) s3)
            else (Some \<lparr>e_mem = mem, e_hdl = hdl, e_lock = lock\<rparr>, s3))"

definition w5500_spi_deinit :: "platform \<Rightarrow> eth_spi_info_t \<Rightarrow> spi_st \<Rightarrow> esp_err_t \<times> spi_st" where
  "w5500_spi_deinit pf spi s = (ESP_OK, eth_spi_release pf spi s)"

definition w5500_spi_lock :: "platform \<Rightarrow> eth_spi_info_t \<Rightarrow> spi_st \<Rightarrow> bool \<times> spi_st" where
  "w5500_spi_lock pf spi s =
     (case idf pf (Take (e_lock spi) (pf_ticks pf W5500_SPI_LOCK_TIMEOUT_MS)) s of (e, _, s1) \<Rightarrow> (e = ESP_OK, s1))"

definition w5500_spi_unlock :: "platform \<Rightarrow> eth_spi_info_t \<Rightarrow> spi_st \<Rightarrow> spi_st" where
  "w5500_spi_unlock pf spi s = idf_do pf (Give (e_lock spi)) s"

definition w5500_spi_write ::
  "platform \<Rightarrow> eth_spi_info_t \<Rightarrow> u32 \<Rightarrow> u32 \<Rightarrow> bytes \<Rightarrow> spi_st \<Rightarrow> esp_err_t \<times> spi_st" where
  "w5500_spi_write pf spi cmd addr value s =
     (case w5500_spi_lock pf spi s of (ok, s1) \<Rightarrow>
        if \<not> ok then (ESP_ERR_TIMEOUT, s1)
        else case idf pf (TransmitPolling (e_hdl spi) cmd addr (Some value) 0) s1 of (e, _, s2) \<Rightarrow>
          (if e \<noteq> ESP_OK then ESP_FAIL else ESP_OK, w5500_spi_unlock pf spi s2))"

text \<open>Up to four bytes are received inside the zeroed transaction and copied out on every path, more
  go straight to the caller's buffer, which \<open>old\<close> is the contents of.\<close>

definition w5500_spi_read ::
  "platform \<Rightarrow> eth_spi_info_t \<Rightarrow> u32 \<Rightarrow> u32 \<Rightarrow> bytes \<Rightarrow> nat \<Rightarrow> spi_st \<Rightarrow> (esp_err_t \<times> bytes) \<times> spi_st" where
  "w5500_spi_read pf spi cmd addr old len s =
     (let unwritten = (if len \<le> 4 then replicate len 0 else old) in
      case w5500_spi_lock pf spi s of (ok, s1) \<Rightarrow>
        if \<not> ok then ((ESP_ERR_TIMEOUT, unwritten), s1)
        else let c = TransmitPolling (e_hdl spi) cmd addr None len in
          case idf pf c s1 of (e, _, s2) \<Rightarrow>
            (if e \<noteq> ESP_OK then (ESP_FAIL, unwritten) else (ESP_OK, pf_rx pf (calls s1) c), w5500_spi_unlock pf spi s2))"

section \<open>Construction and deletion\<close>

record eth_w5500_config_t =
  w_int_gpio_num :: int
  w_poll_period_ms :: u32
  w_spi_host_id :: int
  w_clock_hz :: int
  w_bits :: "nat \<times> nat"
  w_custom_spi_driver :: bool

definition spi_ctx_init :: "platform \<Rightarrow> eth_w5500_config_t \<Rightarrow> spi_st \<Rightarrow> spi_ctx option \<times> spi_st" where
  "spi_ctx_init pf cfg s =
     (if w_custom_spi_driver cfg
      then (case idf pf CustomInit s of (e, h, s1) \<Rightarrow> (if e = ESP_OK then Some (SpiCustom h) else None, s1))
      else (case w5500_spi_init pf (w_spi_host_id cfg) (w_clock_hz cfg) (w_bits cfg) s of (x, s1) \<Rightarrow> (map_option SpiDefault x, s1)))"

text \<open>An instance is its state with the handles it holds.\<close>

definition esp_eth_mac_new_w5500 ::
  "platform \<Rightarrow> eth_w5500_config_t option \<Rightarrow> u32 option \<Rightarrow> spi_st \<Rightarrow> (emac_w5500_t \<times> mac_handles) option \<times> spi_st" where
  "esp_eth_mac_new_w5500 pf config mac_config s =
     (case (config, mac_config) of
        (Some cfg, Some sw_reset_timeout_ms) \<Rightarrow>
          if (0 \<le> w_int_gpio_num cfg) = (0 < w_poll_period_ms cfg) then (None, s)
          else let polled = (w_int_gpio_num cfg < 0);
                   m = \<lparr>m_eth = False, m_sw_reset_timeout_ms = sw_reset_timeout_ms, m_int_gpio_num = w_int_gpio_num cfg,
                        m_poll_timer = polled, m_poll_period_ms = w_poll_period_ms cfg, m_addr = replicate 6 0,
                        m_packets_remain = False, m_mcast_cnt = 0, m_tx_tmo = 0\<rparr>
               in case mac_build pf (spi_ctx_init pf cfg) polled s of (r, s1) \<Rightarrow> (map_option (Pair m) r, s1)
      | _ \<Rightarrow> (None, s))"

definition emac_w5500_del :: "platform \<Rightarrow> mac_handles \<Rightarrow> spi_st \<Rightarrow> esp_err_t \<times> spi_st" where
  "emac_w5500_del pf i s = (ESP_OK, mac_del pf i s)"

section \<open>All or nothing\<close>

text \<open>The mutex of the SPI driver can always be made.\<close>

definition mutexes_ok :: "platform \<Rightarrow> bool" where
  "mutexes_ok pf \<longleftrightarrow> (\<forall>evs. pf_err pf evs MutexCreate = ESP_OK)"

lemma spi_ctx_init_grown:
  assumes "spi_ctx_init pf cfg s = (c, s')" and "mutexes_ok pf"
  shows "grown s s' (held_ctx c)"
proof (cases "w_custom_spi_driver cfg")
  case True
  obtain e h u where i: "idf pf CustomInit s = (e, h, u)" by (metis prod_cases3)
  have "grown s u (\<lambda>r. if e = ESP_OK then one (RCustom h) r else 0)" by (rule grown_take [OF i]) simp
  with assms(1) i True show ?thesis by (auto simp: spi_ctx_init_def held_ctx_def elim: grown_eq)
next
  case False
  obtain e mem s1 where i1: "idf pf Calloc s = (e, mem, s1)" by (metis prod_cases3)
  obtain e1 hdl s2 where i2: "idf pf (AddDevice (w_spi_host_id cfg) (w_clock_hz cfg) False) s1 = (e1, hdl, s2)" by (metis prod_cases3)
  obtain e2 lock s3 where i3: "idf pf MutexCreate s2 = (e2, lock, s3)" by (metis prod_cases3)
  have e2: "e2 = ESP_OK" using grown_idf(3) [OF i3] assms(2) by (simp add: mutexes_ok_def)
  have g1: "grown s s1 (\<lambda>r. if e = ESP_OK then one (RMem mem) r else 0)" by (rule grown_take [OF i1]) simp
  have g2: "grown s1 s2 (\<lambda>r. if e1 = ESP_OK then one (RDev hdl) r else 0)" by (rule grown_take [OF i2]) simp
  have g3: "grown s2 s3 (\<lambda>r. if e2 = ESP_OK then one (RMutex lock) r else 0)" by (rule grown_take [OF i3]) simp
  have f: "grown u (idf_do pf (FreeMem mem) u) (\<lambda>r. - one (RMem mem) r)" for u by (rule grown_give) simp
  note run = assms(1) [unfolded spi_ctx_init_def w5500_spi_init_def i1 prod.case, simplified False, simplified]
  consider (mem) "e \<noteq> ESP_OK" | (bits) "e = ESP_OK" "w_bits cfg \<noteq> (0, 0) \<and> w_bits cfg \<noteq> (16, 8)"
    | (dev) "e = ESP_OK" "\<not> (w_bits cfg \<noteq> (0, 0) \<and> w_bits cfg \<noteq> (16, 8))" "e1 \<noteq> ESP_OK"
    | (ok) "e = ESP_OK" "\<not> (w_bits cfg \<noteq> (0, 0) \<and> w_bits cfg \<noteq> (16, 8))" "e1 = ESP_OK" by blast
  then show ?thesis
  proof cases
    case mem
    with run have "c = None" "s' = s1" by auto
    then show ?thesis using grown_eq [OF g1] mem by (simp add: held_ctx_def)
  next
    case bits
    with run have "c = None" "s' = idf_do pf (FreeMem mem) s1" by auto
    then show ?thesis using grown_eq [OF grown_trans [OF g1 f]] bits by (simp add: held_ctx_def)
  next
    case dev
    with run i2 have "c = None" "s' = idf_do pf (FreeMem mem) s2" by auto
    then show ?thesis using grown_eq [OF grown_trans [OF g1 grown_trans [OF g2 f]]] dev by (simp add: held_ctx_def)
  next
    case ok
    with run i2 i3 e2 have "c = Some (SpiDefault \<lparr>e_mem = mem, e_hdl = hdl, e_lock = lock\<rparr>)" "s' = s3" by auto
    then show ?thesis using grown_eq [OF grown_trans [OF g1 grown_trans [OF g2 g3]]] ok e2 by (simp add: held_ctx_def)
  qed
qed

interpretation w5500_ctor: mac_ctor spi_ctx_init mutexes_ok
  by unfold_locales (rule spi_ctx_init_grown)


definition sim_pf_without :: "idf_call \<Rightarrow> platform" where
  "sim_pf_without c0 = (sim_pf [])\<lparr>pf_err := (\<lambda>evs c. if c = c0 then ESP_FAIL else ESP_OK)\<rparr>"

definition sim_w5500_config :: eth_w5500_config_t where
  "sim_w5500_config = \<lparr>w_int_gpio_num = 4, w_poll_period_ms = 0, w_spi_host_id = 1, w_clock_hz = 20000000,
     w_bits = (0, 0),
     w_custom_spi_driver = False\<rparr>"

text \<open>One call on an explicit state.\<close>

lemma idf_without:
  "idf (sim_pf_without c0) c \<lparr>ctx = x, calls = L\<rparr> = (if c = c0 then ESP_FAIL else ESP_OK, Suc (length L),
     \<lparr>ctx = x, calls = L @ [(c, if c = c0 then ESP_FAIL else ESP_OK, Suc (length L))]\<rparr>)"
  "idf_do (sim_pf_without c0) c \<lparr>ctx = x, calls = L\<rparr> =
     \<lparr>ctx = x, calls = L @ [(c, if c = c0 then ESP_FAIL else ESP_OK, Suc (length L))]\<rparr>"
  by (simp_all add: idf_do_def idf_def Let_def sim_pf_without_def sim_pf_def)

lemma mac_release_flat:
  "mac_release pf i s = idf_do pf (FreeMem (n_mem i)) (idf_do pf (DmaFree (n_rx_buffer i))
     ((case n_spi i of None \<Rightarrow> id | Some c \<Rightarrow> spi_ctx_deinit pf c)
        ((if n_task i \<noteq> 0 then idf_do pf (TaskDelete (n_task i)) else id)
           ((if n_timer i \<noteq> 0 then idf_do pf (TimerDelete (n_timer i)) else id) s))))"
  by (simp add: mac_release_def Let_def split: option.split)

lemmas sim_new_simps = spi_ctx_init_def w5500_spi_init_def idf_without
lemmas sim_err_simps = new_err_def mac_release_flat spi_ctx_deinit_def eth_spi_release_def

lemma sim_new_dma: "esp_eth_mac_new_w5500 (sim_pf_without DmaAlloc) (Some sim_w5500_config) (Some 100) spi_fresh =
    (None, \<lparr>ctx = ctx_zero, calls = [(Calloc, ESP_OK, 1), (Calloc, ESP_OK, 2), (AddDevice 1 20000000 False, ESP_OK, 3),
       (MutexCreate, ESP_OK, 4), (TaskCreate, ESP_OK, 5), (DmaAlloc, ESP_FAIL, 6), (TaskDelete 5, ESP_OK, 7),
       (RemoveDevice 3, ESP_OK, 8), (MutexDelete 4, ESP_OK, 9), (FreeMem 2, ESP_OK, 10), (DmaFree 0, ESP_OK, 11),
       (FreeMem 1, ESP_OK, 12)]\<rparr>)"
  unfolding esp_eth_mac_new_w5500_def mac_build_def option.case prod.case spi_fresh_def idf_without
  by (simp add: sim_w5500_config_def, simp add: sim_new_simps, simp only: sim_err_simps, simp add: idf_without sim_err_simps)

lemma sim_new_lock: "esp_eth_mac_new_w5500 (sim_pf_without MutexCreate) (Some sim_w5500_config) (Some 100) spi_fresh =
    (None, \<lparr>ctx = ctx_zero, calls = [(Calloc, ESP_OK, 1), (Calloc, ESP_OK, 2), (AddDevice 1 20000000 False, ESP_OK, 3),
       (MutexCreate, ESP_FAIL, 4), (FreeMem 2, ESP_OK, 5), (DmaFree 0, ESP_OK, 6), (FreeMem 1, ESP_OK, 7)]\<rparr>)"
  unfolding esp_eth_mac_new_w5500_def mac_build_def option.case prod.case spi_fresh_def idf_without
  by (simp add: sim_w5500_config_def, simp add: sim_new_simps, simp only: sim_err_simps, simp add: idf_without sim_err_simps)

lemma sim_pf_without_handles: "handles_ok (sim_pf_without c)"
  by (simp add: handles_ok_def sim_pf_without_def sim_pf_def)


text \<open>When the mutex cannot be made, the SPI device that was just added stays on the bus: nothing in
  the error path removes it, and its handle is lost with the memory it was stored in.\<close>

theorem mac_new_leaks_device:
  "(case esp_eth_mac_new_w5500 (sim_pf_without MutexCreate) (Some sim_w5500_config) (Some 100) spi_fresh of (r, s1) \<Rightarrow>
     r = None \<and> held (calls s1) (RDev 3) = 1 \<and> (\<forall>n. held (calls s1) (RMem n) = 0))"
  by (simp add: sim_new_lock)

end
