(* ===== verification/W6300.thy ===== *)
theory W6300
  imports Phy
begin

text \<open>
  The MAC driver of \<open>esp_eth_mac_w6300.c\<close>: raw Ethernet over the half-duplex QSPI frame of the W6300,
  with the lock registers and the interrupt acknowledgement that chip has. As for the W5500, the
  SPI driver, the clock, the heap, the timer and the stack above are a parameter, extended by the
  width of the bus; loops on the chip without a bound of their own take fuel.
\<close>

section \<open>The register map\<close>

definition W6300_BLOCK_MASK :: u32 where "W6300_BLOCK_MASK = 0xFF"
definition W6300_ACCESS_MODE_READ :: u32 where "W6300_ACCESS_MODE_READ = push_bit 5 0"
definition W6300_ACCESS_MODE_WRITE :: u32 where "W6300_ACCESS_MODE_WRITE = push_bit 5 1"

definition W6300_QSPI_MODE :: "bool \<Rightarrow> u32" where
  "W6300_QSPI_MODE quad = (if quad then push_bit 6 2 else push_bit 6 0)"

definition W6300_BSB_SOCK_REG :: "u32 \<Rightarrow> u32" where "W6300_BSB_SOCK_REG s = s * 4 + 1"
definition W6300_BSB_SOCK_TX_BUF :: "u32 \<Rightarrow> u32" where "W6300_BSB_SOCK_TX_BUF s = s * 4 + 2"
definition W6300_BSB_SOCK_RX_BUF :: "u32 \<Rightarrow> u32" where "W6300_BSB_SOCK_RX_BUF s = s * 4 + 3"

definition W6300_REG_CIDR :: u32 where "W6300_REG_CIDR = W6300_MAKE_MAP 0x0000 W6300_BSB_COM_REG"
definition W6300_REG_RTL :: u32 where "W6300_REG_RTL = W6300_MAKE_MAP 0x0004 W6300_BSB_COM_REG"
definition W6300_REG_SYSR :: u32 where "W6300_REG_SYSR = W6300_MAKE_MAP 0x2000 W6300_BSB_COM_REG"
definition W6300_REG_SYCR0 :: u32 where "W6300_REG_SYCR0 = W6300_MAKE_MAP 0x2004 W6300_BSB_COM_REG"
definition W6300_REG_SYCR1 :: u32 where "W6300_REG_SYCR1 = W6300_MAKE_MAP 0x2005 W6300_BSB_COM_REG"
definition W6300_REG_IMR :: u32 where "W6300_REG_IMR = W6300_MAKE_MAP 0x2104 W6300_BSB_COM_REG"
definition W6300_REG_SIMR :: u32 where "W6300_REG_SIMR = W6300_MAKE_MAP 0x2114 W6300_BSB_COM_REG"
definition W6300_REG_NET4MR :: u32 where "W6300_REG_NET4MR = W6300_MAKE_MAP 0x4000 W6300_BSB_COM_REG"
definition W6300_REG_NET6MR :: u32 where "W6300_REG_NET6MR = W6300_MAKE_MAP 0x4004 W6300_BSB_COM_REG"
definition W6300_REG_MAC :: u32 where "W6300_REG_MAC = W6300_MAKE_MAP 0x4120 W6300_BSB_COM_REG"
definition W6300_REG_INTPTMR :: u32 where "W6300_REG_INTPTMR = W6300_MAKE_MAP 0x41C5 W6300_BSB_COM_REG"
definition W6300_REG_CHPLCKR :: u32 where "W6300_REG_CHPLCKR = W6300_MAKE_MAP 0x41F4 W6300_BSB_COM_REG"
definition W6300_REG_NETLCKR :: u32 where "W6300_REG_NETLCKR = W6300_MAKE_MAP 0x41F5 W6300_BSB_COM_REG"
definition W6300_REG_PHYLCKR :: u32 where "W6300_REG_PHYLCKR = W6300_MAKE_MAP 0x41F6 W6300_BSB_COM_REG"

definition W6300_REG_SOCK_MR :: "u32 \<Rightarrow> u32" where "W6300_REG_SOCK_MR s = W6300_MAKE_MAP 0x0000 (W6300_BSB_SOCK_REG s)"
definition W6300_REG_SOCK_CR :: "u32 \<Rightarrow> u32" where "W6300_REG_SOCK_CR s = W6300_MAKE_MAP 0x0010 (W6300_BSB_SOCK_REG s)"
definition W6300_REG_SOCK_IR :: "u32 \<Rightarrow> u32" where "W6300_REG_SOCK_IR s = W6300_MAKE_MAP 0x0020 (W6300_BSB_SOCK_REG s)"
definition W6300_REG_SOCK_IMR :: "u32 \<Rightarrow> u32" where "W6300_REG_SOCK_IMR s = W6300_MAKE_MAP 0x0024 (W6300_BSB_SOCK_REG s)"
definition W6300_REG_SOCK_IRCLR :: "u32 \<Rightarrow> u32" where "W6300_REG_SOCK_IRCLR s = W6300_MAKE_MAP 0x0028 (W6300_BSB_SOCK_REG s)"
definition W6300_REG_SOCK_SR :: "u32 \<Rightarrow> u32" where "W6300_REG_SOCK_SR s = W6300_MAKE_MAP 0x0030 (W6300_BSB_SOCK_REG s)"
definition W6300_REG_SOCK_TXBUF_SIZE :: "u32 \<Rightarrow> u32" where
  "W6300_REG_SOCK_TXBUF_SIZE s = W6300_MAKE_MAP 0x0200 (W6300_BSB_SOCK_REG s)"
definition W6300_REG_SOCK_TX_FSR :: "u32 \<Rightarrow> u32" where "W6300_REG_SOCK_TX_FSR s = W6300_MAKE_MAP 0x0204 (W6300_BSB_SOCK_REG s)"
definition W6300_REG_SOCK_TX_WR :: "u32 \<Rightarrow> u32" where "W6300_REG_SOCK_TX_WR s = W6300_MAKE_MAP 0x020C (W6300_BSB_SOCK_REG s)"
definition W6300_REG_SOCK_RXBUF_SIZE :: "u32 \<Rightarrow> u32" where
  "W6300_REG_SOCK_RXBUF_SIZE s = W6300_MAKE_MAP 0x0220 (W6300_BSB_SOCK_REG s)"
definition W6300_REG_SOCK_RX_RSR :: "u32 \<Rightarrow> u32" where "W6300_REG_SOCK_RX_RSR s = W6300_MAKE_MAP 0x0224 (W6300_BSB_SOCK_REG s)"
definition W6300_REG_SOCK_RX_RD :: "u32 \<Rightarrow> u32" where "W6300_REG_SOCK_RX_RD s = W6300_MAKE_MAP 0x0228 (W6300_BSB_SOCK_REG s)"

definition W6300_MEM_SOCK_TX :: "u32 \<Rightarrow> u16 \<Rightarrow> u32" where
  "W6300_MEM_SOCK_TX s a = W6300_MAKE_MAP (ucast a) (W6300_BSB_SOCK_TX_BUF s)"
definition W6300_MEM_SOCK_RX :: "u32 \<Rightarrow> u16 \<Rightarrow> u32" where
  "W6300_MEM_SOCK_RX s a = W6300_MAKE_MAP (ucast a) (W6300_BSB_SOCK_RX_BUF s)"

definition W6300_CHIP_ID :: u16 where "W6300_CHIP_ID = 0x6300"
definition W6300_RTL_MASK :: u8 where "W6300_RTL_MASK = 0x0F"
definition W6300_SYSR_CHPL :: u8 where "W6300_SYSR_CHPL = 0x80"
definition W6300_SYSR_NETL :: u8 where "W6300_SYSR_NETL = 0x40"
definition W6300_SYSR_PHYL :: u8 where "W6300_SYSR_PHYL = 0x20"
definition W6300_CHIP_UNLOCK :: u8 where "W6300_CHIP_UNLOCK = 0xCE"
definition W6300_NET_UNLOCK :: u8 where "W6300_NET_UNLOCK = 0x3A"
definition W6300_PHY_UNLOCK :: u8 where "W6300_PHY_UNLOCK = 0x53"
definition W6300_SYCR0_RST :: u8 where "W6300_SYCR0_RST = 0"
definition W6300_SYCR1_IEN :: u8 where "W6300_SYCR1_IEN = 0x80"
definition W6300_SMR_MAC_RAW :: u8 where "W6300_SMR_MAC_RAW = 7"
definition W6300_SMR_MAC_FILTER :: u8 where "W6300_SMR_MAC_FILTER = 0x80"
definition W6300_SMR_MAC_BLOCK_MCAST :: u8 where "W6300_SMR_MAC_BLOCK_MCAST = 0x20"
definition W6300_SCR_OPEN :: u8 where "W6300_SCR_OPEN = 1"
definition W6300_SCR_CLOSE :: u8 where "W6300_SCR_CLOSE = 0x10"
definition W6300_SCR_SEND :: u8 where "W6300_SCR_SEND = 0x20"
definition W6300_SCR_RECV :: u8 where "W6300_SCR_RECV = 0x40"
definition W6300_SIR_SENDOK :: u8 where "W6300_SIR_SENDOK = 0x10"
definition W6300_SIR_RECV :: u8 where "W6300_SIR_RECV = 4"
definition W6300_SIMR_SOCK0 :: u8 where "W6300_SIMR_SOCK0 = 1"
definition W6300_SOCK_MACRAW :: u8 where "W6300_SOCK_MACRAW = 0x42"
definition W6300_NETXMR_PB :: u8 where "W6300_NETXMR_PB = 1"

definition W6300_100M_TX_TMO_US :: u32 where "W6300_100M_TX_TMO_US = 200"
definition W6300_10M_TX_TMO_US :: u32 where "W6300_10M_TX_TMO_US = 1500"
definition W6300_ETH_MAC_RX_BUF_SIZE_AUTO :: u32 where "W6300_ETH_MAC_RX_BUF_SIZE_AUTO = 0"
definition W6300_MACRAW_SOCK :: u32 where "W6300_MACRAW_SOCK = 0"
definition W6300_SOCK0_BUF_KB :: u8 where "W6300_SOCK0_BUF_KB = 16"
definition W6300_RX_HEADER_LEN_MASK :: u8 where "W6300_RX_HEADER_LEN_MASK = 7"
definition W6300_RX_HEADER_SIZE :: u16 where "W6300_RX_HEADER_SIZE = 2"

lemmas w6300_layout [eval_defs] = W6300_MAKE_MAP_def W6300_ADDR_OFFSET_def W6300_BSB_COM_REG_def
  W6300_BLOCK_MASK_def W6300_ACCESS_MODE_READ_def W6300_ACCESS_MODE_WRITE_def W6300_QSPI_MODE_def
  W6300_BSB_SOCK_REG_def W6300_BSB_SOCK_TX_BUF_def W6300_BSB_SOCK_RX_BUF_def W6300_MACRAW_SOCK_def
lemmas w6300_regs [eval_defs] = W6300_REG_CIDR_def W6300_REG_RTL_def W6300_REG_SYSR_def W6300_REG_SYCR0_def
  W6300_REG_SYCR1_def W6300_REG_IMR_def W6300_REG_SIMR_def W6300_REG_NET4MR_def W6300_REG_NET6MR_def
  W6300_REG_MAC_def W6300_REG_INTPTMR_def W6300_REG_CHPLCKR_def W6300_REG_NETLCKR_def W6300_REG_PHYLCKR_def
  W6300_REG_SOCK_MR_def W6300_REG_SOCK_CR_def W6300_REG_SOCK_IR_def W6300_REG_SOCK_IMR_def
  W6300_REG_SOCK_IRCLR_def W6300_REG_SOCK_SR_def W6300_REG_SOCK_TXBUF_SIZE_def W6300_REG_SOCK_TX_FSR_def
  W6300_REG_SOCK_TX_WR_def W6300_REG_SOCK_RXBUF_SIZE_def W6300_REG_SOCK_RX_RSR_def W6300_REG_SOCK_RX_RD_def
  W6300_MEM_SOCK_TX_def W6300_MEM_SOCK_RX_def
lemmas w6300_bits [eval_defs] = W6300_CHIP_ID_def W6300_RTL_MASK_def W6300_SYSR_CHPL_def W6300_SYSR_NETL_def
  W6300_SYSR_PHYL_def W6300_CHIP_UNLOCK_def W6300_NET_UNLOCK_def W6300_PHY_UNLOCK_def W6300_SYCR0_RST_def
  W6300_SYCR1_IEN_def W6300_SMR_MAC_RAW_def W6300_SMR_MAC_FILTER_def W6300_SMR_MAC_BLOCK_MCAST_def
  W6300_SCR_OPEN_def W6300_SCR_CLOSE_def W6300_SCR_SEND_def W6300_SCR_RECV_def W6300_SIR_SENDOK_def
  W6300_SIR_RECV_def W6300_SIMR_SOCK0_def W6300_SOCK_MACRAW_def W6300_NETXMR_PB_def W6300_SOCK0_BUF_KB_def

section \<open>State and environment\<close>

record emac_w6300_t =
  z_eth :: bool
  z_sw_reset_timeout_ms :: u32
  z_int_gpio_num :: int
  z_poll_timer :: bool
  z_poll_period_ms :: u32
  z_addr :: bytes
  z_packets_remain :: bool
  z_mcast_cnt :: u8
  z_tx_tmo :: u32

record 'w w6300_env = "'w emac_env" +
  v_quad :: bool

section \<open>Register access\<close>

definition w6300_read :: "'w w6300_env \<Rightarrow> u32 \<Rightarrow> nat \<Rightarrow> 'w \<Rightarrow> (esp_err_t \<times> bytes) \<times> 'w" where
  "w6300_read v address len w =
     v_read v ((address AND W6300_BLOCK_MASK) OR W6300_ACCESS_MODE_READ OR W6300_QSPI_MODE (v_quad v))
       (push_bit 8 (drop_bit W6300_ADDR_OFFSET address)) len w"

definition w6300_write :: "'w w6300_env \<Rightarrow> u32 \<Rightarrow> bytes \<Rightarrow> 'w \<Rightarrow> esp_err_t \<times> 'w" where
  "w6300_write v address data w =
     v_write v ((address AND W6300_BLOCK_MASK) OR W6300_ACCESS_MODE_WRITE OR W6300_QSPI_MODE (v_quad v))
       (push_bit 8 (drop_bit W6300_ADDR_OFFSET address)) data w"

definition w6300_write_u8 :: "'w w6300_env \<Rightarrow> u32 \<Rightarrow> u8 \<Rightarrow> 'w \<Rightarrow> esp_err_t \<times> 'w" where
  "w6300_write_u8 v address x w = w6300_write v address [x] w"

definition w6300_read_u16 :: "'w w6300_env \<Rightarrow> u32 \<Rightarrow> 'w \<Rightarrow> (esp_err_t \<times> u16) \<times> 'w" where
  "w6300_read_u16 v address w =
     (case w6300_read v address 2 w of ((e, b), w1) \<Rightarrow> ((e, if e = ESP_OK then be16_at b else 0), w1))"

definition w6300_write_u16 :: "'w w6300_env \<Rightarrow> u32 \<Rightarrow> u16 \<Rightarrow> 'w \<Rightarrow> esp_err_t \<times> 'w" where
  "w6300_write_u16 v address x w = w6300_write v address (be16_bytes x) w"

fun command_wait_w6300 :: "'w w6300_env \<Rightarrow> nat \<Rightarrow> 'w \<Rightarrow> esp_err_t \<times> 'w" where
  "command_wait_w6300 v 0 w = (ESP_ERR_TIMEOUT, w)"
| "command_wait_w6300 v (Suc k) w =
     with_data (w6300_read v (W6300_REG_SOCK_CR W6300_MACRAW_SOCK) 1 w)
       (\<lambda>b w1. if byte b 0 = 0 then (ESP_OK, w1) else command_wait_w6300 v k (v_delay_ms v 10 w1))"

definition w6300_send_command :: "'w w6300_env \<Rightarrow> u8 \<Rightarrow> u32 \<Rightarrow> 'w \<Rightarrow> esp_err_t \<times> 'w" where
  "w6300_send_command v command timeout_ms w =
     and_then (w6300_write_u8 v (W6300_REG_SOCK_CR W6300_MACRAW_SOCK) command w)
       (command_wait_w6300 v (unat (timeout_ms div 10)))"

definition w6300_clear_sock_intr :: "'w w6300_env \<Rightarrow> u8 \<Rightarrow> 'w \<Rightarrow> esp_err_t \<times> 'w" where
  "w6300_clear_sock_intr v bits w = w6300_write_u8 v (W6300_REG_SOCK_IRCLR W6300_MACRAW_SOCK) bits w"

definition stable_turn_w6300 :: "'w w6300_env \<Rightarrow> u32 \<Rightarrow> 'w \<Rightarrow> (esp_err_t \<times> u16) option \<times> 'w" where
  "stable_turn_w6300 v reg w =
     (case w6300_read_u16 v reg w of ((e0, x0), w1) \<Rightarrow>
        if e0 \<noteq> ESP_OK then (Some (e0, 0), w1)
        else case w6300_read_u16 v reg w1 of ((e1, x1), w2) \<Rightarrow>
          if e1 \<noteq> ESP_OK then (Some (e1, 0), w2)
          else if x0 \<noteq> x1 then (None, w2) else (Some (ESP_OK, x0), w2))"

definition w6300_get_tx_free_size :: "'w w6300_env \<Rightarrow> nat \<Rightarrow> 'w \<Rightarrow> ((esp_err_t \<times> u16) \<times> 'w) option" where
  "w6300_get_tx_free_size v fuel w = poll_loop fuel (stable_turn_w6300 v (W6300_REG_SOCK_TX_FSR W6300_MACRAW_SOCK)) w"

definition w6300_get_rx_received_size :: "'w w6300_env \<Rightarrow> nat \<Rightarrow> 'w \<Rightarrow> ((esp_err_t \<times> u16) \<times> 'w) option" where
  "w6300_get_rx_received_size v fuel w = poll_loop fuel (stable_turn_w6300 v (W6300_REG_SOCK_RX_RSR W6300_MACRAW_SOCK)) w"

definition w6300_write_buffer :: "'w w6300_env \<Rightarrow> bytes \<Rightarrow> u16 \<Rightarrow> 'w \<Rightarrow> esp_err_t \<times> 'w" where
  "w6300_write_buffer v buffer offset w = w6300_write v (W6300_MEM_SOCK_TX W6300_MACRAW_SOCK offset) buffer w"

definition w6300_read_buffer :: "'w w6300_env \<Rightarrow> nat \<Rightarrow> u16 \<Rightarrow> 'w \<Rightarrow> (esp_err_t \<times> bytes) \<times> 'w" where
  "w6300_read_buffer v len offset w = w6300_read v (W6300_MEM_SOCK_RX W6300_MACRAW_SOCK offset) len w"

definition w6300_set_mac_addr :: "'w w6300_env \<Rightarrow> emac_w6300_t \<Rightarrow> 'w \<Rightarrow> esp_err_t \<times> 'w" where
  "w6300_set_mac_addr v m w = w6300_write v W6300_REG_MAC (z_addr m) w"

section \<open>Locks, reset and setup\<close>

definition w6300_unlock_all :: "'w w6300_env \<Rightarrow> 'w \<Rightarrow> esp_err_t \<times> 'w" where
  "w6300_unlock_all v w =
     and_then (w6300_write_u8 v W6300_REG_CHPLCKR W6300_CHIP_UNLOCK w) (\<lambda>w.
     and_then (w6300_write_u8 v W6300_REG_NETLCKR W6300_NET_UNLOCK w) (\<lambda>w.
     and_then (w6300_write_u8 v W6300_REG_PHYLCKR W6300_PHY_UNLOCK w) (\<lambda>w.
     with_data (w6300_read v W6300_REG_SYSR 1 w) (\<lambda>b w.
       (if byte b 0 AND (W6300_SYSR_CHPL OR W6300_SYSR_NETL OR W6300_SYSR_PHYL) = 0
        then ESP_OK else ESP_ERR_INVALID_STATE, w)))))"

definition chip_id :: "u8 \<Rightarrow> u8 \<Rightarrow> u8 \<Rightarrow> u16" where
  "chip_id c0 c1 rtl = (push_bit 8 (ucast c0 OR push_bit 1 (ucast (rtl AND W6300_RTL_MASK)))) OR ucast c1"

definition w6300_read_id :: "'w w6300_env \<Rightarrow> 'w \<Rightarrow> (esp_err_t \<times> u16) \<times> 'w" where
  "w6300_read_id v w =
     (case w6300_read v W6300_REG_CIDR 2 w of ((e, c), w1) \<Rightarrow>
        if e \<noteq> ESP_OK then ((e, 0), w1)
        else case w6300_read v W6300_REG_RTL 1 w1 of ((e1, r), w2) \<Rightarrow>
          ((e1, if e1 = ESP_OK then chip_id (byte c 0) (byte c 1) (byte r 0) else 0), w2))"

fun verify_wait_w6300 :: "'w w6300_env \<Rightarrow> nat \<Rightarrow> 'w \<Rightarrow> esp_err_t \<times> 'w" where
  "verify_wait_w6300 v 0 w = (ESP_ERR_INVALID_VERSION, w)"
| "verify_wait_w6300 v (Suc k) w =
     with_data (w6300_read_id v w)
       (\<lambda>x w1. if x = W6300_CHIP_ID then (ESP_OK, w1) else verify_wait_w6300 v k (v_delay_ms v 10 w1))"

definition w6300_verify_id :: "'w w6300_env \<Rightarrow> emac_w6300_t \<Rightarrow> 'w \<Rightarrow> esp_err_t \<times> 'w" where
  "w6300_verify_id v m w = verify_wait_w6300 v (unat (z_sw_reset_timeout_ms m div 10)) w"

definition w6300_reset :: "'w w6300_env \<Rightarrow> emac_w6300_t \<Rightarrow> 'w \<Rightarrow> esp_err_t \<times> 'w" where
  "w6300_reset v m w =
     and_then (w6300_write_u8 v W6300_REG_CHPLCKR W6300_CHIP_UNLOCK w) (\<lambda>w.
     and_then (w6300_write_u8 v W6300_REG_SYCR0 W6300_SYCR0_RST w) (\<lambda>w.
     and_then (w6300_verify_id v m (v_delay_ms v 10 w)) (w6300_unlock_all v)))"

fun write_all_w6300 :: "'w w6300_env \<Rightarrow> (u32 \<times> bytes) list \<Rightarrow> 'w \<Rightarrow> esp_err_t \<times> 'w" where
  "write_all_w6300 v [] w = (ESP_OK, w)"
| "write_all_w6300 v ((a, d) # ws) w = and_then (w6300_write v a d w) (write_all_w6300 v ws)"

definition setup_writes_w6300 :: "(u32 \<times> bytes) list" where
  "setup_writes_w6300 =
     [(W6300_REG_SOCK_RXBUF_SIZE 0, [W6300_SOCK0_BUF_KB]), (W6300_REG_SOCK_TXBUF_SIZE 0, [W6300_SOCK0_BUF_KB])] @
     concat (map (\<lambda>i. [(W6300_REG_SOCK_RXBUF_SIZE (of_nat i), [0]), (W6300_REG_SOCK_TXBUF_SIZE (of_nat i), [0])]) [1..<8]) @
     [(W6300_REG_NET4MR, [W6300_NETXMR_PB]), (W6300_REG_NET6MR, [W6300_NETXMR_PB]),
      (W6300_REG_IMR, [0]), (W6300_REG_SIMR, [0]),
      (W6300_REG_SOCK_MR W6300_MACRAW_SOCK, [W6300_SMR_MAC_RAW OR W6300_SMR_MAC_FILTER OR W6300_SMR_MAC_BLOCK_MCAST]),
      (W6300_REG_SOCK_IMR W6300_MACRAW_SOCK, [W6300_SIR_RECV]), (W6300_REG_INTPTMR, be16_bytes 0)]"

definition w6300_setup_default :: "'w w6300_env \<Rightarrow> 'w \<Rightarrow> esp_err_t \<times> 'w" where
  "w6300_setup_default v w =
     and_then (write_all_w6300 v setup_writes_w6300 w) (\<lambda>w1.
     with_data (w6300_read v W6300_REG_SYCR1 1 w1) (\<lambda>b.
       w6300_write_u8 v W6300_REG_SYCR1 (byte b 0 OR W6300_SYCR1_IEN)))"

section \<open>The interface of the Ethernet driver\<close>

definition emac_w6300_start :: "'w w6300_env \<Rightarrow> 'w \<Rightarrow> esp_err_t \<times> 'w" where
  "emac_w6300_start v w =
     and_then (w6300_send_command v W6300_SCR_OPEN 100 w) (\<lambda>w1.
     with_data (w6300_read v (W6300_REG_SOCK_SR W6300_MACRAW_SOCK) 1 w1) (\<lambda>b w2.
       if byte b 0 \<noteq> W6300_SOCK_MACRAW then (ESP_ERR_INVALID_STATE, w2)
       else w6300_write_u8 v W6300_REG_SIMR W6300_SIMR_SOCK0 w2))"

definition emac_w6300_stop :: "'w w6300_env \<Rightarrow> 'w \<Rightarrow> esp_err_t \<times> 'w" where
  "emac_w6300_stop v w =
     and_then (w6300_write_u8 v W6300_REG_SIMR 0 w) (w6300_send_command v W6300_SCR_CLOSE 100)"

definition emac_w6300_set_mediator :: "bool \<Rightarrow> emac_w6300_t \<Rightarrow> esp_err_t \<times> emac_w6300_t" where
  "emac_w6300_set_mediator eth m = (if eth then (ESP_OK, m\<lparr>z_eth := True\<rparr>) else (ESP_ERR_INVALID_ARG, m))"

definition w6300_is_phy_reg :: "u32 \<Rightarrow> bool" where
  "w6300_is_phy_reg r \<longleftrightarrow> r = W6300_REG_PHYSR \<or> r = W6300_REG_PHYCR0 \<or> r = W6300_REG_PHYCR1"

definition emac_w6300_write_phy_reg :: "'w w6300_env \<Rightarrow> u32 \<Rightarrow> u32 \<Rightarrow> 'w \<Rightarrow> esp_err_t \<times> 'w" where
  "emac_w6300_write_phy_reg v phy_reg reg_value w =
     (if \<not> w6300_is_phy_reg phy_reg \<or> phy_reg = W6300_REG_PHYSR then (ESP_FAIL, w)
      else w6300_write_u8 v phy_reg (ucast reg_value) w)"

definition emac_w6300_read_phy_reg :: "'w w6300_env \<Rightarrow> u32 \<Rightarrow> u32 option \<Rightarrow> 'w \<Rightarrow> (esp_err_t \<times> u32 option) \<times> 'w" where
  "emac_w6300_read_phy_reg v phy_reg old w =
     (if old = None then ((ESP_ERR_INVALID_ARG, None), w)
      else if \<not> w6300_is_phy_reg phy_reg then ((ESP_FAIL, old), w)
      else case w6300_read v phy_reg 1 w of ((e, b), w1) \<Rightarrow>
        if e \<noteq> ESP_OK then ((e, old), w1) else ((ESP_OK, Some (ucast (byte b 0))), w1))"

definition emac_w6300_set_addr ::
  "'w w6300_env \<Rightarrow> bytes option \<Rightarrow> emac_w6300_t \<Rightarrow> 'w \<Rightarrow> esp_err_t \<times> emac_w6300_t \<times> 'w" where
  "emac_w6300_set_addr v addr m w =
     (case addr of None \<Rightarrow> (ESP_ERR_INVALID_ARG, m, w)
      | Some a \<Rightarrow> let m1 = m\<lparr>z_addr := take 6 a\<rparr>; (e, w1) = w6300_set_mac_addr v m1 w in (e, m1, w1))"

definition emac_w6300_get_addr :: "bool \<Rightarrow> emac_w6300_t \<Rightarrow> esp_err_t \<times> bytes option" where
  "emac_w6300_get_addr addr_null m =
     (if addr_null then (ESP_ERR_INVALID_ARG, None) else (ESP_OK, Some (z_addr m)))"

definition emac_w6300_set_block_ip4_mcast :: "'w w6300_env \<Rightarrow> bool \<Rightarrow> 'w \<Rightarrow> esp_err_t \<times> 'w" where
  "emac_w6300_set_block_ip4_mcast v block w =
     with_data (w6300_read v (W6300_REG_SOCK_MR W6300_MACRAW_SOCK) 1 w)
       (\<lambda>b. w6300_write_u8 v (W6300_REG_SOCK_MR W6300_MACRAW_SOCK)
          (if block then byte b 0 OR W6300_SMR_MAC_BLOCK_MCAST else byte b 0 AND NOT W6300_SMR_MAC_BLOCK_MCAST))"

definition emac_w6300_add_mac_filter ::
  "'w w6300_env \<Rightarrow> bytes \<Rightarrow> emac_w6300_t \<Rightarrow> 'w \<Rightarrow> esp_err_t \<times> emac_w6300_t \<times> 'w" where
  "emac_w6300_add_mac_filter v addr m w =
     (if addr ! 0 = 0x01 \<and> addr ! 1 = 0x00 \<and> addr ! 2 = 0x5E then
        (case emac_w6300_set_block_ip4_mcast v False w of (e, w1) \<Rightarrow>
           if e \<noteq> ESP_OK then (e, m, w1) else (ESP_OK, m\<lparr>z_mcast_cnt := z_mcast_cnt m + 1\<rparr>, w1))
      else if addr ! 0 = 0x33 \<and> addr ! 1 = 0x33 then (ESP_OK, m, w)
      else (ESP_ERR_NOT_SUPPORTED, m, w))"

definition emac_w6300_del_mac_filter ::
  "'w w6300_env \<Rightarrow> bytes \<Rightarrow> emac_w6300_t \<Rightarrow> 'w \<Rightarrow> esp_err_t \<times> emac_w6300_t \<times> 'w" where
  "emac_w6300_del_mac_filter v addr m w =
     (if addr ! 0 = 0x33 \<and> addr ! 1 = 0x33 then (ESP_FAIL, m, w)
      else let m1 = (if addr ! 0 = 0x01 \<and> addr ! 1 = 0x00 \<and> addr ! 2 = 0x5E \<and> 0 < z_mcast_cnt m
                     then m\<lparr>z_mcast_cnt := z_mcast_cnt m - 1\<rparr> else m)
           in if z_mcast_cnt m1 = 0 then (case emac_w6300_set_block_ip4_mcast v True w of (e, w1) \<Rightarrow> (e, m1, w1))
              else (ESP_OK, m1, w))"

definition emac_w6300_set_link :: "'w w6300_env \<Rightarrow> eth_link \<Rightarrow> emac_w6300_t \<Rightarrow> 'w \<Rightarrow> esp_err_t \<times> 'w" where
  "emac_w6300_set_link v link m w =
     (case link of
        ETH_LINK_UP \<Rightarrow> and_then (emac_w6300_start v w)
          (\<lambda>w1. if z_poll_timer m then v_timer_start v (z_poll_period_ms m * 1000) w1 else (ESP_OK, w1))
      | ETH_LINK_DOWN \<Rightarrow> and_then (emac_w6300_stop v w)
          (\<lambda>w1. if z_poll_timer m then v_timer_stop v w1 else (ESP_OK, w1))
      | ETH_LINK_OTHER \<Rightarrow> (ESP_ERR_INVALID_ARG, w))"

definition emac_w6300_set_speed :: "eth_speed \<Rightarrow> emac_w6300_t \<Rightarrow> esp_err_t \<times> emac_w6300_t" where
  "emac_w6300_set_speed speed m =
     (case speed of
        ETH_SPEED_10M \<Rightarrow> (ESP_OK, m\<lparr>z_tx_tmo := W6300_10M_TX_TMO_US\<rparr>)
      | ETH_SPEED_100M \<Rightarrow> (ESP_OK, m\<lparr>z_tx_tmo := W6300_100M_TX_TMO_US\<rparr>)
      | ETH_SPEED_OTHER \<Rightarrow> (ESP_ERR_INVALID_ARG, m))"

definition emac_w6300_set_duplex :: "eth_duplex \<Rightarrow> esp_err_t" where
  "emac_w6300_set_duplex duplex = (if duplex = ETH_DUPLEX_OTHER then ESP_ERR_INVALID_ARG else ESP_OK)"

definition emac_w6300_set_promiscuous :: "'w w6300_env \<Rightarrow> bool \<Rightarrow> 'w \<Rightarrow> esp_err_t \<times> 'w" where
  "emac_w6300_set_promiscuous v enable w =
     with_data (w6300_read v (W6300_REG_SOCK_MR W6300_MACRAW_SOCK) 1 w)
       (\<lambda>b. w6300_write_u8 v (W6300_REG_SOCK_MR W6300_MACRAW_SOCK)
          (if enable then byte b 0 AND NOT W6300_SMR_MAC_FILTER else byte b 0 OR W6300_SMR_MAC_FILTER))"

definition emac_w6300_set_all_multicast ::
  "'w w6300_env \<Rightarrow> bool \<Rightarrow> emac_w6300_t \<Rightarrow> 'w \<Rightarrow> esp_err_t \<times> emac_w6300_t \<times> 'w" where
  "emac_w6300_set_all_multicast v enable m w =
     (case emac_w6300_set_block_ip4_mcast v (\<not> enable) w of (e, w1) \<Rightarrow>
        if e \<noteq> ESP_OK then (e, m, w1) else (ESP_OK, m\<lparr>z_mcast_cnt := 0\<rparr>, w1))"

definition emac_w6300_enable_flow_ctrl :: "bool \<Rightarrow> esp_err_t" where
  "emac_w6300_enable_flow_ctrl enable = ESP_ERR_NOT_SUPPORTED"

definition emac_w6300_set_peer_pause_ability :: "u32 \<Rightarrow> esp_err_t" where
  "emac_w6300_set_peer_pause_ability ability = ESP_ERR_NOT_SUPPORTED"

section \<open>Transmission\<close>

definition is_w6300_sane_for_rxtx :: "'w w6300_env \<Rightarrow> 'w \<Rightarrow> bool \<times> 'w" where
  "is_w6300_sane_for_rxtx v w =
     (case w6300_read v W6300_REG_PHYSR 1 w of ((e, b), w1) \<Rightarrow>
        (e = ESP_OK \<and> byte b 0 AND W6300_PHYSR_LNK \<noteq> 0, w1))"

definition tx_done_turn_w6300 :: "'w w6300_env \<Rightarrow> u32 \<Rightarrow> 64 word \<Rightarrow> 'w \<Rightarrow> esp_err_t option \<times> 'w" where
  "tx_done_turn_w6300 v tmo start w =
     (case v_time v w of (now, w1) \<Rightarrow>
      case is_w6300_sane_for_rxtx v w1 of (sane, w2) \<Rightarrow>
        if \<not> sane \<or> ucast tmo < now - start then (Some ESP_FAIL, w2)
        else case w6300_read v (W6300_REG_SOCK_IR W6300_MACRAW_SOCK) 1 w2 of ((e, b), w3) \<Rightarrow>
          if e \<noteq> ESP_OK then (Some e, w3)
          else if byte b 0 AND W6300_SIR_SENDOK = 0 then (None, w3)
          else (Some ESP_OK, w3))"

definition transmit_frame_w6300 :: "'w w6300_env \<Rightarrow> bytes \<Rightarrow> 'w \<Rightarrow> esp_err_t \<times> 'w" where
  "transmit_frame_w6300 v buf w =
     with_data (w6300_read_u16 v (W6300_REG_SOCK_TX_WR W6300_MACRAW_SOCK) w) (\<lambda>offset w1.
       and_then (w6300_write_buffer v buf offset w1) (\<lambda>w2.
       and_then (w6300_write_u16 v (W6300_REG_SOCK_TX_WR W6300_MACRAW_SOCK) (offset + of_nat (length buf)) w2)
         (w6300_send_command v W6300_SCR_SEND 100)))"

definition emac_w6300_transmit ::
  "'w w6300_env \<Rightarrow> nat \<Rightarrow> emac_w6300_t \<Rightarrow> bytes \<Rightarrow> 'w \<Rightarrow> (esp_err_t \<times> 'w) option" where
  "emac_w6300_transmit v fuel m buf w =
     (if unat ETH_MAX_PACKET_SIZE < length buf then Some (ESP_ERR_INVALID_ARG, w)
      else case w6300_get_tx_free_size v fuel w of None \<Rightarrow> None
        | Some ((e, free_size), w1) \<Rightarrow>
          if e \<noteq> ESP_OK then Some (e, w1)
          else if unat free_size < length buf then Some (ESP_ERR_NO_MEM, w1)
          else case transmit_frame_w6300 v buf w1 of (e1, w2) \<Rightarrow>
            if e1 \<noteq> ESP_OK then Some (e1, w2)
            else case v_time v w2 of (start, w3) \<Rightarrow>
              (case poll_loop fuel (tx_done_turn_w6300 v (z_tx_tmo m) start) w3 of None \<Rightarrow> None
               | Some (e2, w4) \<Rightarrow>
                 if e2 \<noteq> ESP_OK then Some (e2, w4)
                 else Some (w6300_clear_sock_intr v W6300_SIR_SENDOK w4)))"

section \<open>Reception\<close>

record emac_w6300_auto_buf_info_t =
  j_offset :: u32
  j_copy_len :: u32
  j_rx_len :: u32
  j_remain :: u32

text \<open>The length a header stands for: three bits of the first byte and the second byte, with the
  header itself.\<close>

definition header_total :: "bytes \<Rightarrow> u16" where
  "header_total h = (push_bit 8 (ucast (byte h 0 AND W6300_RX_HEADER_LEN_MASK))) OR ucast (byte h 1)"

definition w6300_read_frame_header :: "'w w6300_env \<Rightarrow> u16 \<Rightarrow> 'w \<Rightarrow> (esp_err_t \<times> u16) \<times> 'w" where
  "w6300_read_frame_header v offset w =
     (case w6300_read_buffer v 2 offset w of ((e, h), w1) \<Rightarrow>
        if e \<noteq> ESP_OK then ((e, 0), w1)
        else if header_total h < W6300_RX_HEADER_SIZE then ((ESP_ERR_INVALID_SIZE, 0), w1)
        else ((ESP_OK, header_total h - W6300_RX_HEADER_SIZE), w1))"

text \<open>The read pointer and the frame it points to; the variables of the caller start as zero.\<close>

definition read_header_w6300 :: "'w w6300_env \<Rightarrow> 'w \<Rightarrow> (esp_err_t \<times> u16 \<times> u16) \<times> 'w" where
  "read_header_w6300 v w =
     (case w6300_read_u16 v (W6300_REG_SOCK_RX_RD W6300_MACRAW_SOCK) w of ((e, offset), w1) \<Rightarrow>
        if e \<noteq> ESP_OK then ((e, 0, 0), w1)
        else case w6300_read_frame_header v offset w1 of ((e1, rx_len), w2) \<Rightarrow> ((e1, offset, rx_len), w2))"

definition emac_w6300_alloc_recv_buf ::
  "'w w6300_env \<Rightarrow> nat \<Rightarrow> u32 \<Rightarrow> 'w \<Rightarrow> ((esp_err_t \<times> emac_w6300_auto_buf_info_t option \<times> u32) \<times> 'w) option" where
  "emac_w6300_alloc_recv_buf v fuel max_len w =
     (case w6300_get_rx_received_size v fuel w of None \<Rightarrow> None
      | Some ((_, remain), w1) \<Rightarrow>
        Some (if remain = 0 then ((ESP_OK, None, 0), w1)
              else case read_header_w6300 v w1 of ((e, offset, rx_len), w2) \<Rightarrow>
                if e \<noteq> ESP_OK then ((e, None, 0), w2)
                else let copy_len = (if max_len < ucast rx_len then max_len else ucast rx_len)
                     in if copy_len < ETH_MIN_PACKET_SIZE - ETH_CRC_LEN
                        then ((ESP_ERR_INVALID_SIZE, None, ucast rx_len), w2)
                        else case v_malloc v copy_len w2 of (ok, w3) \<Rightarrow>
                          if ok then ((ESP_OK, Some \<lparr>j_offset = ucast offset, j_copy_len = copy_len,
                                         j_rx_len = ucast rx_len, j_remain = ucast remain\<rparr>, ucast rx_len), w3)
                          else ((ESP_ERR_NO_MEM, None, ucast rx_len), w3)))"

definition receive_payload_w6300 ::
  "'w w6300_env \<Rightarrow> u16 \<Rightarrow> u16 \<Rightarrow> u16 \<Rightarrow> 'w \<Rightarrow> (esp_err_t \<times> bytes) \<times> 'w" where
  "receive_payload_w6300 v offset copy_len rx_len w =
     (case w6300_read_buffer v (unat copy_len) (offset + W6300_RX_HEADER_SIZE) w of ((e, d), w1) \<Rightarrow>
        if e \<noteq> ESP_OK then ((e, []), w1)
        else case and_then (w6300_write_u16 v (W6300_REG_SOCK_RX_RD W6300_MACRAW_SOCK)
                              (offset + W6300_RX_HEADER_SIZE + rx_len) w1)
                    (w6300_send_command v W6300_SCR_RECV 100) of (e1, w2) \<Rightarrow> ((e1, d), w2))"

definition emac_w6300_receive ::
  "'w w6300_env \<Rightarrow> nat \<Rightarrow> emac_w6300_auto_buf_info_t \<Rightarrow> u32 \<Rightarrow> emac_w6300_t \<Rightarrow> 'w \<Rightarrow>
     ((esp_err_t \<times> bytes \<times> u32) \<times> emac_w6300_t \<times> 'w) option" where
  "emac_w6300_receive v fuel info len m w =
     (let m0 = m\<lparr>z_packets_remain := False\<rparr>;
          finish = (\<lambda>offset copy_len rx_len (remain :: u16) w1.
            case receive_payload_w6300 v offset copy_len rx_len w1 of ((e, d), w2) \<Rightarrow>
              if e \<noteq> ESP_OK then ((e, [], 0), m0, w2)
              else ((ESP_OK, d, ucast copy_len),
                    m0\<lparr>z_packets_remain := (0 < remain - (rx_len + W6300_RX_HEADER_SIZE))\<rparr>, w2))
      in if len \<noteq> W6300_ETH_MAC_RX_BUF_SIZE_AUTO then
           (case w6300_get_rx_received_size v fuel w of None \<Rightarrow> None
            | Some ((_, remain), w1) \<Rightarrow>
              Some (if remain = 0 then ((ESP_OK, [], 0), m0, w1)
                    else case read_header_w6300 v w1 of ((e, offset, rx_len), w2) \<Rightarrow>
                      if e \<noteq> ESP_OK then ((e, [], 0), m0, w2)
                      else finish offset (if len < ucast rx_len then ucast len else rx_len) rx_len remain w2))
         else Some (finish (ucast (j_offset info)) (ucast (j_copy_len info)) (ucast (j_rx_len info))
                      (ucast (j_remain info)) w))"

definition emac_w6300_flush_recv_frame ::
  "'w w6300_env \<Rightarrow> nat \<Rightarrow> emac_w6300_t \<Rightarrow> 'w \<Rightarrow> (esp_err_t \<times> emac_w6300_t \<times> 'w) option" where
  "emac_w6300_flush_recv_frame v fuel m w =
     (let m0 = m\<lparr>z_packets_remain := False\<rparr> in
      case w6300_get_rx_received_size v fuel w of None \<Rightarrow> None
      | Some ((_, remain), w1) \<Rightarrow>
        Some (if remain = 0 then (ESP_OK, m0, w1)
              else case read_header_w6300 v w1 of ((e, offset, rx_len), w2) \<Rightarrow>
                if e \<noteq> ESP_OK then (e, m0, w2)
                else let total = rx_len + W6300_RX_HEADER_SIZE in
                  case and_then (w6300_write_u16 v (W6300_REG_SOCK_RX_RD W6300_MACRAW_SOCK) (offset + total) w2)
                         (w6300_send_command v W6300_SCR_RECV 100) of (e1, w3) \<Rightarrow>
                  if e1 \<noteq> ESP_OK then (e1, m0, w3)
                  else (ESP_OK, m0\<lparr>z_packets_remain := (0 < remain - total)\<rparr>, w3)))"

section \<open>The receive task\<close>

definition rx_turn_w6300 :: "'w w6300_env \<Rightarrow> nat \<Rightarrow> emac_w6300_t \<Rightarrow> 'w \<Rightarrow> (emac_w6300_t \<times> 'w) option" where
  "rx_turn_w6300 v fuel m w =
     (case emac_w6300_alloc_recv_buf v fuel ETH_MAX_PACKET_SIZE w of None \<Rightarrow> None
      | Some ((ret, buffer, frame_len), w1) \<Rightarrow>
        if ret = ESP_OK then
          (case buffer of None \<Rightarrow> Some (m, w1)
           | Some info \<Rightarrow>
             (case emac_w6300_receive v fuel info W6300_ETH_MAC_RX_BUF_SIZE_AUTO m w1 of None \<Rightarrow> None
              | Some ((e, d, buf_len), m1, w2) \<Rightarrow>
                Some (if e = ESP_OK then
                        (if buf_len = 0 then (m1, v_free v w2)
                         else if buf_len < frame_len then (m1, v_free v w2)
                         else (m1, v_stack_input v d w2))
                      else (m1, v_free v w2))))
        else
          (case emac_w6300_flush_recv_frame v fuel m w1 of None \<Rightarrow> None
           | Some (_, m1, w2) \<Rightarrow> Some (m1, w2)))"

fun rx_loop_w6300 :: "'w w6300_env \<Rightarrow> nat \<Rightarrow> nat \<Rightarrow> emac_w6300_t \<Rightarrow> 'w \<Rightarrow> (emac_w6300_t \<times> 'w) option" where
  "rx_loop_w6300 v fuel 0 m w = None"
| "rx_loop_w6300 v fuel (Suc k) m w =
     (case rx_turn_w6300 v fuel m w of None \<Rightarrow> None
      | Some (m1, w1) \<Rightarrow> if z_packets_remain m1 then rx_loop_w6300 v fuel k m1 w1 else Some (m1, w1))"

text \<open>One round of the task. \<open>status\<close> is the variable the interrupt register is read into; a read that
  fails leaves what the round before left there.\<close>

definition emac_w6300_task ::
  "'w w6300_env \<Rightarrow> nat \<Rightarrow> u8 \<Rightarrow> emac_w6300_t \<Rightarrow> 'w \<Rightarrow> (bool \<times> u8 \<times> emac_w6300_t \<times> 'w) option" where
  "emac_w6300_task v fuel status m w =
     (let polled = (z_int_gpio_num m < 0);
          (woken, w1) = v_wake v (\<not> polled) w;
          (level, w2) = (if \<not> polled \<and> \<not> woken then v_int_level v (z_int_gpio_num m) w1 else (False, w1))
      in if level then Some (False, status, m, w2)
         else case w6300_read v (W6300_REG_SOCK_IR W6300_MACRAW_SOCK) 1 w2 of ((e, b), w3) \<Rightarrow>
           let st = (if e = ESP_OK then byte b 0 else status) in
           if st AND W6300_SIR_RECV \<noteq> 0 then
             (case rx_loop_w6300 v fuel fuel m (snd (w6300_clear_sock_intr v W6300_SIR_RECV w3)) of
                None \<Rightarrow> None | Some (m1, w4) \<Rightarrow> Some (True, st, m1, w4))
           else Some (True, st, m, w3))"

section \<open>Starting and stopping the driver\<close>

definition emac_w6300_init :: "'w w6300_env \<Rightarrow> emac_w6300_t \<Rightarrow> 'w \<Rightarrow> esp_err_t \<times> 'w" where
  "emac_w6300_init v m w =
     (let gpio = z_int_gpio_num m;
          w1 = (if 0 \<le> gpio then v_int_on v gpio w else w);
          (e, w2) = and_then (v_state_changed v ETH_STATE_LLINIT w1)
                      (\<lambda>w. and_then (w6300_reset v m w) (w6300_setup_default v))
      in if e = ESP_OK then (ESP_OK, w2)
         else let w3 = (if 0 \<le> gpio then v_int_off v gpio w2 else w2)
              in (e, snd (v_state_changed v ETH_STATE_DEINIT w3)))"

definition emac_w6300_deinit :: "'w w6300_env \<Rightarrow> emac_w6300_t \<Rightarrow> 'w \<Rightarrow> esp_err_t \<times> 'w" where
  "emac_w6300_deinit v m w =
     (let w1 = snd (emac_w6300_stop v w);
          w2 = (if 0 \<le> z_int_gpio_num m then v_int_off v (z_int_gpio_num m) w1 else w1);
          w3 = (if z_poll_timer m
                then (case v_timer_active v w2 of (act, w') \<Rightarrow> if act then snd (v_timer_stop v w') else w')
                else w2)
      in (ESP_OK, snd (v_state_changed v ETH_STATE_DEINIT w3)))"

end
