(* ===== verification/W5500_Props.thy ===== *)
theory W5500_Props
  imports W5500
begin

text \<open>
  Properties of the data path of the W5500 driver, over the documented behaviour of the chip's
  socket 0 in MAC-raw mode: two ring buffers with 16-bit pointers that wrap, a read pointer that
  RECV commits and a write pointer that SEND commits.
\<close>

section \<open>Addresses on the wire\<close>

lemma bit_below_32: "(b :: u32) < 32 \<Longrightarrow> bit b k \<Longrightarrow> k < 5"
proof -
  assume b: "b < 32" "bit b k"
  then have "take_bit 5 b = b" by (simp add: take_bit_eq_mod mod_word_less)
  with b(2) show "k < 5" by (metis bit_take_bit_iff)
qed

lemma make_map_phases:
  assumes "bsb < 32"
  shows "drop_bit 16 (W5500_MAKE_MAP (ucast (off :: u16)) bsb) = ucast off"
    and "W5500_MAKE_MAP (ucast (off :: u16)) bsb AND 0xFFFF = push_bit 3 bsb"
proof -
  have m: "(0xFFFF :: u32) = mask 16" by (simp add: mask_eq_exp_minus_1)
  have lt: "bit bsb (n - 3) \<Longrightarrow> 3 \<le> n \<Longrightarrow> n < 16" for n using bit_below_32 [OF assms, of "n - 3"] by auto
  have low: "\<not> bit bsb (n + 16 - 3)" for n using bit_below_32 [OF assms, of "n + 16 - 3"] by auto
  show "drop_bit 16 (W5500_MAKE_MAP (ucast off) bsb) = ucast off"
    using low by (intro bit_eqI) (auto simp: W5500_MAKE_MAP_def w5500_layout bit_simps dest: bit_imp_le_length)
  show "W5500_MAKE_MAP (ucast off) bsb AND 0xFFFF = push_bit 3 bsb"
    unfolding m using lt
    by (intro bit_eqI) (auto simp: W5500_MAKE_MAP_def w5500_layout bit_simps)
qed

section \<open>The chip\<close>

definition ring_read :: "(u16 \<Rightarrow> u8) \<Rightarrow> u16 \<Rightarrow> nat \<Rightarrow> bytes" where
  "ring_read mem off n = map (\<lambda>i. mem (off + of_nat i)) [0..<n]"

definition ring_write :: "u16 \<Rightarrow> bytes \<Rightarrow> (u16 \<Rightarrow> u8) \<Rightarrow> u16 \<Rightarrow> u8" where
  "ring_write off d mem a = (let k = unat ((a - off) AND 0x3FFF) in if k < length d then d ! k else mem a)"

lemma length_ring_read [simp]: "length (ring_read mem off n) = n"
  by (simp add: ring_read_def)

lemma ring_read_append: "ring_read mem off (a + b) = ring_read mem off a @ ring_read mem (off + of_nat a) b"
  by (rule nth_equalityI) (auto simp: ring_read_def nth_append algebra_simps)

lemma ring_read_write: "length d \<le> 0x4000 \<Longrightarrow> ring_read (ring_write off d mem) off (length d) = d"
proof (rule nth_equalityI)
  fix i
  assume l: "length d \<le> 0x4000" and "i < length (ring_read (ring_write off d mem) off (length d))"
  then have i: "i < length d" "i < 0x4000" by simp_all
  have m: "(0x3FFF :: u16) = mask 14" by (simp add: mask_eq_exp_minus_1)
  have "unat ((of_nat i :: u16) AND 0x3FFF) = i"
    unfolding m using i(2) by (simp add: take_bit_eq_mask [symmetric] unsigned_take_bit_eq unat_of_nat take_bit_nat_eq_self)
  with i show "ring_read (ring_write off d mem) off (length d) ! i = d ! i"
    by (simp add: ring_read_def ring_write_def)
qed simp

text \<open>What is visible of socket 0: the receive ring with its committed read pointer \<open>k_rx_base\<close>, the
  register \<open>k_rx_rd\<close> and the bytes pending; the transmit ring likewise, with the frames sent; and
  what the stack above has been given.\<close>

record w5500_view =
  k_rxmem :: "u16 \<Rightarrow> u8"
  k_rx_base :: u16
  k_rx_rd :: u16
  k_rsr :: u16
  k_txmem :: "u16 \<Rightarrow> u8"
  k_tx_base :: u16
  k_tx_wr :: u16
  k_fsr :: u16
  k_sent :: "bytes list"
  k_up :: "bytes list"

definition reads :: "'w emac_env \<Rightarrow> ('w \<Rightarrow> w5500_view) \<Rightarrow> u32 \<Rightarrow> nat \<Rightarrow> (w5500_view \<Rightarrow> bytes) \<Rightarrow> bool" where
  "reads v view a n d \<longleftrightarrow> (\<forall>w. fst (w5500_read v a n w) = (ESP_OK, d (view w)) \<and>
     view (snd (w5500_read v a n w)) = view w)"

definition writes :: "'w emac_env \<Rightarrow> ('w \<Rightarrow> w5500_view) \<Rightarrow> u32 \<Rightarrow> bytes \<Rightarrow> (w5500_view \<Rightarrow> w5500_view) \<Rightarrow> bool" where
  "writes v view a d f \<longleftrightarrow> (\<forall>w. fst (w5500_write v a d w) = ESP_OK \<and> view (snd (w5500_write v a d w)) = f (view w))"

definition rx_commit :: "w5500_view \<Rightarrow> w5500_view" where
  "rx_commit k = k\<lparr>k_rx_base := k_rx_rd k, k_rsr := k_rsr k - (k_rx_rd k - k_rx_base k)\<rparr>"

definition tx_commit :: "w5500_view \<Rightarrow> w5500_view" where
  "tx_commit k = k\<lparr>k_tx_base := k_tx_wr k,
     k_sent := k_sent k @ [ring_read (k_txmem k) (k_tx_base k) (unat (k_tx_wr k - k_tx_base k))]\<rparr>"

text \<open>The documented behaviour the data path relies on, with an SPI bus that works and memory for
  every frame.\<close>

definition rx_chip :: "'w emac_env \<Rightarrow> ('w \<Rightarrow> w5500_view) \<Rightarrow> bool" where
  "rx_chip v view \<longleftrightarrow>
     reads v view (W5500_REG_SOCK_RX_RSR 0) 2 (\<lambda>k. be16_bytes (k_rsr k)) \<and>
     reads v view (W5500_REG_SOCK_RX_RD 0) 2 (\<lambda>k. be16_bytes (k_rx_rd k)) \<and>
     (\<forall>off n. reads v view (W5500_MEM_SOCK_RX 0 off) n (\<lambda>k. ring_read (k_rxmem k) off n)) \<and>
     reads v view (W5500_REG_SOCK_CR 0) 1 (\<lambda>k. [0]) \<and>
     (\<forall>p. writes v view (W5500_REG_SOCK_RX_RD 0) (be16_bytes p) (k_rx_rd_update (\<lambda>_. p))) \<and>
     writes v view (W5500_REG_SOCK_CR 0) [W5500_SCR_RECV] rx_commit \<and>
     (\<forall>n w. fst (v_malloc v n w) \<and> view (snd (v_malloc v n w)) = view w) \<and>
     (\<forall>f w. view (v_stack_input v f w) = k_up_update (\<lambda>u. u @ [f]) (view w))"

definition tx_chip :: "'w emac_env \<Rightarrow> ('w \<Rightarrow> w5500_view) \<Rightarrow> bool" where
  "tx_chip v view \<longleftrightarrow>
     reads v view (W5500_REG_SOCK_TX_FSR 0) 2 (\<lambda>k. be16_bytes (k_fsr k)) \<and>
     reads v view (W5500_REG_SOCK_TX_WR 0) 2 (\<lambda>k. be16_bytes (k_tx_wr k)) \<and>
     reads v view (W5500_REG_SOCK_CR 0) 1 (\<lambda>k. [0]) \<and>
     (\<forall>off d. writes v view (W5500_MEM_SOCK_TX 0 off) d (k_txmem_update (ring_write off d))) \<and>
     (\<forall>p. writes v view (W5500_REG_SOCK_TX_WR 0) (be16_bytes p) (k_tx_wr_update (\<lambda>_. p))) \<and>
     writes v view (W5500_REG_SOCK_CR 0) [W5500_SCR_SEND] tx_commit \<and>
     (\<forall>w. view (snd (w5500_read v W5500_REG_PHYCFGR 1 w)) = view w) \<and>
     (\<forall>w. view (snd (w5500_read v (W5500_REG_SOCK_IR 0) 1 w)) = view w) \<and>
     (\<forall>d w. view (snd (w5500_write v (W5500_REG_SOCK_IR 0) d w)) = view w) \<and>
     (\<forall>w. view (snd (v_time v w)) = view w)"

lemma reads_obtain:
  assumes "reads v view a n d"
  obtains w' where "w5500_read v a n w = ((ESP_OK, d (view w)), w')" and "view w' = view w"
  using assms that [of "snd (w5500_read v a n w)"] by (simp add: reads_def prod_eq_iff)

lemma writes_obtain:
  assumes "writes v view a d f"
  obtains w' where "w5500_write v a d w = (ESP_OK, w')" and "view w' = f (view w)"
  using assms that [of "snd (w5500_write v a d w)"] by (simp add: writes_def prod_eq_iff)

lemma stable_read:
  assumes "reads v view a 2 (\<lambda>k. be16_bytes (f k))" and "0 < fuel"
  obtains w' where "poll_loop fuel (stable_turn v a) w = Some ((ESP_OK, f (view w)), w')" and "view w' = view w"
proof -
  obtain w1 where r1: "w5500_read v a 2 w = ((ESP_OK, be16_bytes (f (view w))), w1)" "view w1 = view w"
    by (rule reads_obtain [OF assms(1)])
  obtain w2 where r2: "w5500_read v a 2 w1 = ((ESP_OK, be16_bytes (f (view w1))), w2)" "view w2 = view w1"
    by (rule reads_obtain [OF assms(1)])
  have "stable_turn v a w = (Some (ESP_OK, f (view w)), w2)"
    using r1 r2 by (simp add: stable_turn_def)
  with assms(2) have "poll_loop fuel (stable_turn v a) w = Some ((ESP_OK, f (view w)), w2)"
    by (simp add: poll_loop_first)
  with r1 r2 show thesis using that by simp
qed

lemma command_ok:
  assumes "writes v view (W5500_REG_SOCK_CR 0) [c] f" and "reads v view (W5500_REG_SOCK_CR 0) 1 (\<lambda>k. [0])"
  obtains w' where "w5500_send_command v c 100 w = (ESP_OK, w')" and "view w' = f (view w)"
proof -
  obtain w1 where r1: "w5500_write v (W5500_REG_SOCK_CR 0) [c] w = (ESP_OK, w1)" "view w1 = f (view w)"
    by (rule writes_obtain [OF assms(1)])
  obtain w2 where r2: "w5500_read v (W5500_REG_SOCK_CR 0) 1 w1 = ((ESP_OK, [0]), w2)" "view w2 = view w1"
    by (rule reads_obtain [OF assms(2)])
  have n: "unat ((100 :: u32) div 10) = Suc 9" by simp
  have "command_wait v (Suc 9) w1 = (ESP_OK, w2)"
    unfolding command_wait.simps r2(1) by (simp add: byte_def)
  then have "w5500_send_command v c 100 w = (ESP_OK, w2)"
    unfolding w5500_send_command_def n r1(1) by (simp only: and_then_simps)
  with r1 r2 show thesis using that by simp
qed

section \<open>Receiving\<close>

definition enc_frame :: "bytes \<Rightarrow> bytes" where
  "enc_frame f = be16_bytes (of_nat (length f + 2)) @ f"

definition frame_ok :: "bytes \<Rightarrow> bool" where
  "frame_ok f \<longleftrightarrow> 60 \<le> length f \<and> length f \<le> 1522"

text \<open>The ring holds exactly these frames from the committed read pointer on.\<close>

definition rx_holds :: "w5500_view \<Rightarrow> bytes list \<Rightarrow> bool" where
  "rx_holds k fs \<longleftrightarrow> k_rx_rd k = k_rx_base k \<and>
     ring_read (k_rxmem k) (k_rx_base k) (unat (k_rsr k)) = concat (map enc_frame fs)"

lemma length_enc_frame [simp]: "length (enc_frame f) = length f + 2"
  by (simp add: enc_frame_def be16_bytes_def)

lemma rx_holds_len: "rx_holds k fs \<Longrightarrow> unat (k_rsr k) = length (concat (map enc_frame fs))"
  by (metis length_ring_read rx_holds_def)

lemma ring_read_prefix:
  assumes "ring_read mem off n = xs @ ys"
  shows "ring_read mem off (length xs) = xs" and "ring_read mem (off + of_nat (length xs)) (n - length xs) = ys"
proof -
  have "n = length xs + (n - length xs)" using arg_cong [OF assms, of length] by simp
  then have "ring_read mem off (length xs) @ ring_read mem (off + of_nat (length xs)) (n - length xs) = xs @ ys"
    using assms by (metis ring_read_append)
  then show "ring_read mem off (length xs) = xs" and "ring_read mem (off + of_nat (length xs)) (n - length xs) = ys"
    by simp_all
qed

lemma rx_turn_frame:
  assumes chip: "rx_chip v view" and fuel: "0 < fuel" and holds: "rx_holds (view w) (f # fs)" and ok: "frame_ok f"
  obtains w' where "rx_turn v fuel m w = Some (m\<lparr>m_packets_remain := (fs \<noteq> [])\<rparr>, w')"
    and "view w' = (view w)\<lparr>k_rx_base := k_rx_base (view w) + of_nat (length f + 2),
           k_rx_rd := k_rx_base (view w) + of_nat (length f + 2),
           k_rsr := k_rsr (view w) - of_nat (length f + 2), k_up := k_up (view w) @ [f]\<rparr>"
proof -
  let ?k = "view w"
  let ?o = "k_rx_base ?k"
  let ?n = "of_nat (length f) :: u16"
  note C = chip [unfolded rx_chip_def]
  note len = rx_holds_len [OF holds]
  have f: "60 \<le> length f" "length f \<le> 1522" using ok by (simp_all add: frame_ok_def)
  have un: "unat ?n = length f" "unat (of_nat (length f) :: u32) = length f"
    using f by (simp_all add: unat_of_nat take_bit_nat_eq_self)
  have uc: "(ucast ?n :: u32) = of_nat (length f)" "(ucast (of_nat (length f) :: u32) :: u16) = ?n"
    using f by (simp_all add: word_unat_eq_iff unsigned_ucast_eq un unat_of_nat take_bit_nat_eq_self)
  have rsr: "k_rsr ?k \<noteq> 0" using len by auto
  \<comment> \<open>what the ring holds, piece by piece\<close>
  have whole: "ring_read (k_rxmem ?k) ?o (unat (k_rsr ?k)) = be16_bytes (?n + 2) @ f @ concat (map enc_frame fs)"
    using holds by (simp add: rx_holds_def enc_frame_def add.commute)
  have hdr: "ring_read (k_rxmem ?k) ?o 2 = be16_bytes (?n + 2)"
    using ring_read_prefix(1) [OF whole] by (simp add: be16_bytes_def numeral_2_eq_2)
  have rest: "ring_read (k_rxmem ?k) (?o + 2) (unat (k_rsr ?k) - 2) = f @ concat (map enc_frame fs)"
    using ring_read_prefix(2) [OF whole] by (simp add: be16_bytes_def numeral_2_eq_2)
  have pay: "ring_read (k_rxmem ?k) (?o + 2) (length f) = f" by (rule ring_read_prefix(1) [OF rest])
  \<comment> \<open>the first half: size, pointer, header, memory\<close>
  obtain w1 where w1: "w5500_get_rx_received_size v fuel w = Some ((ESP_OK, k_rsr ?k), w1)" "view w1 = ?k"
    using stable_read [OF _ fuel] C unfolding w5500_get_rx_received_size_def by metis
  obtain w2 where r2: "w5500_read v (W5500_REG_SOCK_RX_RD 0) 2 w1 = ((ESP_OK, be16_bytes (k_rx_rd (view w1))), w2)"
    "view w2 = view w1"
    using C by (elim conjE) (erule reads_obtain)
  have rd: "k_rx_rd ?k = ?o" using holds by (simp add: rx_holds_def)
  obtain w3 where r3: "w5500_read v (W5500_MEM_SOCK_RX 0 ?o) 2 w2 = ((ESP_OK, ring_read (k_rxmem (view w2)) ?o 2), w3)"
    "view w3 = view w2"
    by (rule reads_obtain [of v view "W5500_MEM_SOCK_RX 0 ?o" 2 "\<lambda>k. ring_read (k_rxmem k) ?o 2"]) (use C in auto)
  have h: "read_header v w1 = ((ESP_OK, ?o, ?n + 2), w3)"
    using r2 r3 w1(2) rd hdr by (simp add: read_header_def w5500_read_buffer_def)
  obtain w4 where r4: "v_malloc v (of_nat (length f)) w3 = (True, w4)" "view w4 = ?k"
  proof -
    have "fst (v_malloc v (of_nat (length f)) w3)" "view (snd (v_malloc v (of_nat (length f)) w3)) = view w3"
      using C by blast+
    then show thesis using that [of "snd (v_malloc v (of_nat (length f)) w3)"] r3(2) r2(2) w1(2)
      by (simp add: prod_eq_iff)
  qed
  let ?info = "\<lparr>i_offset = ucast ?o, i_copy_len = of_nat (length f), i_rx_len = of_nat (length f),
    i_remain = ucast (k_rsr ?k)\<rparr>"
  have cmp: "\<not> ETH_MAX_PACKET_SIZE < of_nat (length f)" "\<not> (of_nat (length f) :: u32) < ETH_MIN_PACKET_SIZE - ETH_CRC_LEN"
    using f un(2) by (simp_all add: word_less_nat_alt ETH_MAX_PACKET_SIZE_def ETH_MIN_PACKET_SIZE_def ETH_CRC_LEN_def)
  have alloc: "emac_w5500_alloc_recv_buf v fuel ETH_MAX_PACKET_SIZE w = Some ((ESP_OK, Some ?info, of_nat (length f)), w4)"
    unfolding emac_w5500_alloc_recv_buf_def using w1(1) rsr h cmp r4(1) by (simp add: Let_def uc)
  \<comment> \<open>the second half: payload, pointer, RECV\<close>
  obtain w5 where r5: "w5500_read v (W5500_MEM_SOCK_RX 0 (?o + 2)) (length f) w4 =
      ((ESP_OK, ring_read (k_rxmem (view w4)) (?o + 2) (length f)), w5)" "view w5 = view w4"
    by (rule reads_obtain [of v view "W5500_MEM_SOCK_RX 0 (?o + 2)" "length f" "\<lambda>k. ring_read (k_rxmem k) (?o + 2) (length f)"])
      (use C in auto)
  let ?p = "?o + 2 + ?n"
  obtain w6 where r6: "w5500_write v (W5500_REG_SOCK_RX_RD 0) (be16_bytes ?p) w5 = (ESP_OK, w6)"
    "view w6 = k_rx_rd_update (\<lambda>_. ?p) (view w5)"
    by (rule writes_obtain [of v view "W5500_REG_SOCK_RX_RD 0" "be16_bytes ?p" "k_rx_rd_update (\<lambda>_. ?p)"]) (use C in auto)
  obtain w7 where r7: "w5500_send_command v W5500_SCR_RECV 100 w6 = (ESP_OK, w7)" "view w7 = rx_commit (view w6)"
    using command_ok [of v view W5500_SCR_RECV rx_commit w6] C by blast
  have pl: "receive_payload v ?o ?n ?n w4 = ((ESP_OK, f), w7)"
    unfolding receive_payload_def w5500_read_buffer_def un(1) using r5 r6(1) r7(1) r4(2) pay by simp
  have more: "(0 < k_rsr ?k - (?n + 2)) = (fs \<noteq> [])"
  proof -
    have "unat (?n + 2) = length f + 2"
      using f by (simp add: unat_word_ariths un(1))
    then have "unat (k_rsr ?k - (?n + 2)) = length (concat (map enc_frame fs))"
      using len by (subst unat_sub) (simp_all add: word_le_nat_alt)
    moreover have "(length (concat (map enc_frame fs)) = 0) = (fs = [])" by (cases fs) auto
    ultimately show ?thesis by (simp add: word_less_nat_alt)
  qed
  let ?m = "m\<lparr>m_packets_remain := (fs \<noteq> [])\<rparr>"
  have uo: "(ucast (ucast ?o :: u32) :: u16) = ?o" "(ucast (ucast (k_rsr ?k) :: u32) :: u16) = k_rsr ?k"
    by (rule bit_eqI; auto simp: bit_simps dest: bit_imp_le_length)+
  have rcv: "emac_w5500_receive v fuel ?info W5500_ETH_MAC_RX_BUF_SIZE_AUTO m w4 =
      Some ((ESP_OK, f, of_nat (length f)), ?m, w7)"
    unfolding emac_w5500_receive_def using pl more by (simp add: Let_def uo uc)
  have nz: "(of_nat (length f) :: u32) \<noteq> 0" using un(2) f by (metis le_zero_eq not_numeral_le_zero unat_0)
  have "rx_turn v fuel m w = Some (?m, v_stack_input v f w7)"
    unfolding rx_turn_def using alloc rcv nz by simp
  moreover have "view (v_stack_input v f w7) = ?k\<lparr>k_rx_base := ?p, k_rx_rd := ?p,
      k_rsr := k_rsr ?k - (?p - ?o), k_up := k_up ?k @ [f]\<rparr>"
    using C r7(2) r6(2) r5(2) r4(2) by (simp add: rx_commit_def)
  moreover have "?p = ?o + of_nat (length f + 2)" "?p - ?o = of_nat (length f + 2)" by simp_all
  ultimately show thesis using that by simp
qed

lemma rx_holds_next:
  assumes "rx_holds k (f # fs)" and "frame_ok f"
    and "k' = k\<lparr>k_rx_base := k_rx_base k + of_nat (length f + 2), k_rx_rd := k_rx_base k + of_nat (length f + 2),
       k_rsr := k_rsr k - of_nat (length f + 2), k_up := u\<rparr>"
  shows "rx_holds k' fs"
proof -
  have "unat (of_nat (length f + 2) :: u16) = length f + 2"
    using assms(2) by (simp only: unat_of_nat) (simp add: frame_ok_def take_bit_nat_eq_self)
  then have "unat (k_rsr k - of_nat (length f + 2)) = unat (k_rsr k) - length (enc_frame f)"
    using rx_holds_len [OF assms(1)] by (subst unat_sub) (simp_all add: word_le_nat_alt)
  moreover have "ring_read (k_rxmem k) (k_rx_base k + of_nat (length (enc_frame f))) (unat (k_rsr k) - length (enc_frame f)) =
      concat (map enc_frame fs)"
    by (rule ring_read_prefix(2)) (use assms(1) in \<open>simp add: rx_holds_def\<close>)
  ultimately show ?thesis by (simp add: rx_holds_def assms(3))
qed

text \<open>C15. The receive loop drains the chip: when the ring holds a sequence of frames, the loop ends, hands
  exactly these frames to the stack, in order and unchanged, and leaves the ring empty, wherever
  the 16-bit pointers stand and however often they wrap.\<close>

theorem rx_loop_delivers:
  assumes "rx_chip v view" and "0 < fuel" and "rx_holds (view w) fs" and "\<forall>f \<in> set fs. frame_ok f"
    and "fs \<noteq> []" and "length fs \<le> n"
  shows "\<exists>m' w'. rx_loop v fuel n m w = Some (m', w') \<and> k_up (view w') = k_up (view w) @ fs \<and>
     k_rsr (view w') = 0 \<and> k_rx_rd (view w') = k_rx_base (view w') \<and> \<not> m_packets_remain m'"
  using assms(3-6)
proof (induction fs arbitrary: m w n)
  case Nil
  then show ?case by simp
next
  case (Cons f fs)
  obtain n' where n: "n = Suc n'" using Cons.prems(4) by (cases n) auto
  have f: "frame_ok f" using Cons.prems(2) by simp
  obtain w1 where t: "rx_turn v fuel m w = Some (m\<lparr>m_packets_remain := (fs \<noteq> [])\<rparr>, w1)"
    and v1: "view w1 = (view w)\<lparr>k_rx_base := k_rx_base (view w) + of_nat (length f + 2),
           k_rx_rd := k_rx_base (view w) + of_nat (length f + 2),
           k_rsr := k_rsr (view w) - of_nat (length f + 2), k_up := k_up (view w) @ [f]\<rparr>"
    by (rule rx_turn_frame [OF assms(1,2) Cons.prems(1) f])
  have holds: "rx_holds (view w1) fs" by (rule rx_holds_next [OF Cons.prems(1) f v1])
  show ?case
  proof (cases "fs = []")
    case True
    have "unat (k_rsr (view w1)) = 0" using rx_holds_len [OF holds] True by simp
    then have "k_rsr (view w1) = 0" by (simp add: unat_eq_0)
    with True t v1 n holds show ?thesis by (simp add: rx_holds_def)
  next
    case False
    from Cons.IH [OF holds _ False, of n' "m\<lparr>m_packets_remain := True\<rparr>"] Cons.prems(2,4) n
    obtain m' w' where "rx_loop v fuel n' (m\<lparr>m_packets_remain := True\<rparr>) w1 = Some (m', w')"
      "k_up (view w') = k_up (view w1) @ fs" "k_rsr (view w') = 0" "k_rx_rd (view w') = k_rx_base (view w')"
      "\<not> m_packets_remain m'" by auto
    with False t v1 n show ?thesis by simp
  qed
qed

text \<open>A header whose length field is below that of the smallest frame.\<close>

definition bad_header :: "w5500_view \<Rightarrow> bool" where
  "bad_header k \<longleftrightarrow> k_rsr k \<noteq> 0 \<and> be16_at (ring_read (k_rxmem k) (k_rx_rd k) 2) - 2 < 60"

lemma rx_turn_bad:
  assumes "rx_chip v view" and "0 < fuel" and "bad_header (view w)"
  obtains w' where "rx_turn v fuel m w = Some (m, w')" and "view w' = view w"
proof -
  note C = assms(1) [unfolded rx_chip_def]
  let ?k = "view w"
  obtain w1 where w1: "w5500_get_rx_received_size v fuel w = Some ((ESP_OK, k_rsr ?k), w1)" "view w1 = ?k"
    using stable_read [OF _ assms(2)] C unfolding w5500_get_rx_received_size_def by metis
  obtain w2 where r2: "w5500_read v (W5500_REG_SOCK_RX_RD 0) 2 w1 = ((ESP_OK, be16_bytes (k_rx_rd (view w1))), w2)"
    "view w2 = view w1"
    using C by (elim conjE) (erule reads_obtain)
  let ?o = "k_rx_rd ?k"
  obtain w3 where r3: "w5500_read v (W5500_MEM_SOCK_RX 0 ?o) 2 w2 = ((ESP_OK, ring_read (k_rxmem (view w2)) ?o 2), w3)"
    "view w3 = view w2"
    by (rule reads_obtain [of v view "W5500_MEM_SOCK_RX 0 ?o" 2 "\<lambda>k. ring_read (k_rxmem k) ?o 2"]) (use C in auto)
  let ?h = "be16_at (ring_read (k_rxmem ?k) ?o 2)"
  have h: "read_header v w1 = ((ESP_OK, ?o, ?h), w3)"
    using r2 r3 w1(2) by (simp add: read_header_def w5500_read_buffer_def)
  have small: "unat (?h - 2) < 60" "k_rsr ?k \<noteq> 0"
    using assms(3) by (simp_all add: bad_header_def word_less_nat_alt)
  have "unat (ucast (?h - 2) :: u32) = unat (?h - 2)"
    using small by (simp add: unsigned_ucast_eq take_bit_nat_eq_self)
  then have "(if ETH_MAX_PACKET_SIZE < ucast (?h - 2) then ETH_MAX_PACKET_SIZE else ucast (?h - 2)) <
      ETH_MIN_PACKET_SIZE - ETH_CRC_LEN"
    using small by (simp add: word_less_nat_alt ETH_MAX_PACKET_SIZE_def ETH_MIN_PACKET_SIZE_def ETH_CRC_LEN_def)
  then have "emac_w5500_alloc_recv_buf v fuel ETH_MAX_PACKET_SIZE w =
      Some ((ESP_ERR_INVALID_SIZE, None, ucast (?h - 2)), w3)"
    unfolding emac_w5500_alloc_recv_buf_def using w1(1) h small(2) by (simp add: Let_def)
  then have "rx_turn v fuel m w = Some (m, w3)" by (simp add: rx_turn_def)
  with that r3(2) r2(2) w1(2) show thesis by simp
qed

text \<open>C16. A frame header with a bad length wedges the receiver. The error path neither skips it nor resets
  the ring: when it follows a frame in the same burst, the receive loop never ends, however long it
  runs; otherwise the round ends with nothing changed, so the next one meets the same header.\<close>

theorem bad_header_wedges_receiver:
  assumes "rx_chip v view" and "0 < fuel" and "bad_header (view w)"
  shows "if m_packets_remain m then \<forall>n. rx_loop v fuel n m w = None
    else \<exists>w'. rx_loop v fuel (Suc n) m w = Some (m, w') \<and> view w' = view w \<and> bad_header (view w')"
proof (cases "m_packets_remain m")
  case True
  have "rx_loop v fuel n m w = None" if "bad_header (view w)" for n w
    using that
  proof (induction n arbitrary: w)
    case 0
    then show ?case by simp
  next
    case (Suc n)
    obtain w' where "rx_turn v fuel m w = Some (m, w')" "view w' = view w"
      by (rule rx_turn_bad [OF assms(1,2) Suc.prems])
    with Suc True show ?case by simp
  qed
  with True assms(3) show ?thesis by simp
next
  case False
  obtain w' where "rx_turn v fuel m w = Some (m, w')" "view w' = view w" by (rule rx_turn_bad [OF assms])
  with False assms(3) show ?thesis by simp
qed

section \<open>Transmitting\<close>

lemma tx_done_view:
  assumes "tx_chip v view" and "poll_loop fuel (tx_done_turn v tmo start) w = Some (r, w')"
  shows "view w' = view w"
proof (rule poll_loop_rule [OF assms(2), where I = "\<lambda>u. view u = view w" and Q = "\<lambda>_ u. view u = view w"])
  have T: "view (snd (tx_done_turn v tmo start u)) = view u" for u
    using assms(1) by (simp add: tx_done_turn_def is_w5500_sane_for_rxtx_def tx_chip_def split_beta)
  show "view w = view w" by simp
  show "\<And>t t'. view t = view w \<Longrightarrow> tx_done_turn v tmo start t = (None, t') \<Longrightarrow> view t' = view w"
    by (metis T snd_conv)
  show "\<And>t q t'. view t = view w \<Longrightarrow> tx_done_turn v tmo start t = (Some q, t') \<Longrightarrow> view t' = view w"
    by (metis T snd_conv)
qed

lemma transmit_frame_effect:
  assumes "tx_chip v view" and "k_tx_base (view w) = k_tx_wr (view w)" and "length buf \<le> 1522"
  obtains w' where "transmit_frame v buf w = (ESP_OK, w')" and "k_sent (view w') = k_sent (view w) @ [buf]"
    and "k_tx_base (view w') = k_tx_wr (view w) + of_nat (length buf)"
    and "k_tx_wr (view w') = k_tx_wr (view w) + of_nat (length buf)" and "k_rxmem (view w') = k_rxmem (view w)"
    and "k_rsr (view w') = k_rsr (view w)"
proof -
  note C = assms(1) [unfolded tx_chip_def]
  let ?o = "k_tx_wr (view w)"
  let ?p = "?o + of_nat (length buf)"
  obtain w1 where r1: "w5500_read v (W5500_REG_SOCK_TX_WR 0) 2 w = ((ESP_OK, be16_bytes ?o), w1)" "view w1 = view w"
    by (rule reads_obtain [of v view "W5500_REG_SOCK_TX_WR 0" 2 "\<lambda>k. be16_bytes (k_tx_wr k)"]) (use C in auto)
  obtain w2 where r2: "w5500_write v (W5500_MEM_SOCK_TX 0 ?o) buf w1 = (ESP_OK, w2)"
    "view w2 = k_txmem_update (ring_write ?o buf) (view w1)"
    by (rule writes_obtain [of v view "W5500_MEM_SOCK_TX 0 ?o" buf "k_txmem_update (ring_write ?o buf)"]) (use C in auto)
  obtain w3 where r3: "w5500_write v (W5500_REG_SOCK_TX_WR 0) (be16_bytes ?p) w2 = (ESP_OK, w3)"
    "view w3 = k_tx_wr_update (\<lambda>_. ?p) (view w2)"
    by (rule writes_obtain [of v view "W5500_REG_SOCK_TX_WR 0" "be16_bytes ?p" "k_tx_wr_update (\<lambda>_. ?p)"]) (use C in auto)
  obtain w4 where r4: "w5500_send_command v W5500_SCR_SEND 100 w3 = (ESP_OK, w4)" "view w4 = tx_commit (view w3)"
    using command_ok [of v view W5500_SCR_SEND tx_commit w3] C by blast
  have "transmit_frame v buf w = (ESP_OK, w4)"
    using r1 r2 r3 r4 by (simp add: transmit_frame_def w5500_write_buffer_def)
  moreover have "unat (of_nat (length buf) :: u16) = length buf"
    using assms(3) by (simp add: unat_of_nat take_bit_nat_eq_self)
  ultimately show thesis
    using that r1(2) r2(2) r3(2) r4(2) assms(2,3) by (simp add: tx_commit_def ring_read_write)
qed

text \<open>The test before and during a transmission looks at the link bit alone: the mask's other bit is
  outside the byte it is applied to.\<close>

lemma sane_ignores_reset:
  "fst (is_w5500_sane_for_rxtx v w) =
     (case fst (w5500_read v W5500_REG_PHYCFGR 1 w) of (e, b) \<Rightarrow> e = ESP_OK \<and> bit (byte b 0) 0)"
proof -
  have "((ucast (x :: u8) :: u32) AND 0x8001 \<noteq> 0) = bit x 0" for x
  proof -
    have m: "(0x8001 :: u32) = push_bit 15 1 OR push_bit 0 1" by simp
    have b: "bit (0x8001 :: u32) n = (n = 0 \<or> n = 15)" for n
      by (subst m, simp only: bit_or_iff bit_push_bit_iff bit_1_iff) auto
    have "((ucast x :: u32) AND 0x8001 \<noteq> 0) = (\<exists>n. bit ((ucast x :: u32) AND 0x8001) n)"
      by (simp add: bit_eq_iff) (use bit_imp_le_length in fastforce)
    also have "\<dots> = bit x 0"
      by (simp only: bit_and_iff b) (auto simp: bit_simps dest: bit_imp_le_length intro: exI [of _ 0])
    finally show ?thesis .
  qed
  then show ?thesis by (simp add: is_w5500_sane_for_rxtx_def split_beta)
qed

text \<open>Transmission: a frame that is too long for Ethernet or does not fit the free space is refused and
  nothing on the chip changes; otherwise exactly this frame is sent, once, whatever the 16-bit
  write pointer, and the driver's verdict comes only after that.\<close>

theorem transmit_sends_once:
  assumes "tx_chip v view" and "k_tx_base (view w) = k_tx_wr (view w)"
    and "emac_w5500_transmit v fuel m buf w = Some (e, w')"
  shows "if 1522 < length buf then e = ESP_ERR_INVALID_ARG \<and> w' = w
    else if unat (k_fsr (view w)) < length buf then e = ESP_ERR_NO_MEM \<and> view w' = view w
    else k_sent (view w') = k_sent (view w) @ [buf] \<and> k_tx_wr (view w') = k_tx_wr (view w) + of_nat (length buf) \<and>
      k_tx_base (view w') = k_tx_wr (view w')"
proof (cases "1522 < length buf")
  case True
  with assms(3) show ?thesis by (simp add: emac_w5500_transmit_def ETH_MAX_PACKET_SIZE_def)
next
  case len: False
  note C = assms(1) [unfolded tx_chip_def]
  have fuel: "0 < fuel"
  proof (rule ccontr)
    assume "\<not> 0 < fuel"
    with assms(3) len show False
      by (simp add: emac_w5500_transmit_def w5500_get_tx_free_size_def ETH_MAX_PACKET_SIZE_def)
  qed
  obtain w1 where w1: "w5500_get_tx_free_size v fuel w = Some ((ESP_OK, k_fsr (view w)), w1)" "view w1 = view w"
    using stable_read [OF _ fuel] C unfolding w5500_get_tx_free_size_def by metis
  show ?thesis
  proof (cases "unat (k_fsr (view w)) < length buf")
    case True
    with assms(3) len w1 show ?thesis by (simp add: emac_w5500_transmit_def ETH_MAX_PACKET_SIZE_def)
  next
    case False
    obtain w2 where t: "transmit_frame v buf w1 = (ESP_OK, w2)" "k_sent (view w2) = k_sent (view w1) @ [buf]"
      "k_tx_base (view w2) = k_tx_wr (view w1) + of_nat (length buf)"
      "k_tx_wr (view w2) = k_tx_wr (view w1) + of_nat (length buf)"
      using transmit_frame_effect [OF assms(1), of w1 buf] assms(2) w1(2) len by auto
    obtain st w3 where tm: "v_time v w2 = (st, w3)" by (cases "v_time v w2")
    have v3: "view w3 = view w2" using C tm by (metis snd_conv)
    obtain e2 w4 where pl: "poll_loop fuel (tx_done_turn v (m_tx_tmo m) st) w3 = Some (e2, w4)"
      using assms(3) len False w1 t tm
      by (cases "poll_loop fuel (tx_done_turn v (m_tx_tmo m) st) w3")
        (auto simp: emac_w5500_transmit_def ETH_MAX_PACKET_SIZE_def)
    have v4: "view w4 = view w2" using tx_done_view [OF assms(1) pl] v3 by simp
    have "view w' = view w4"
    proof (cases "e2 = ESP_OK")
      case True
      with assms(3) len False w1 t tm pl
      have "w5500_write v (W5500_REG_SOCK_IR 0) [W5500_SIR_SEND] w4 = (e, w')"
        by (simp add: emac_w5500_transmit_def ETH_MAX_PACKET_SIZE_def)
      with C show ?thesis by (metis snd_conv)
    next
      case bad: False
      with assms(3) len False w1 t tm pl show ?thesis
        by (simp add: emac_w5500_transmit_def ETH_MAX_PACKET_SIZE_def)
    qed
    with False len t v4 w1(2) show ?thesis by simp
  qed
qed

section \<open>A chip to evaluate on\<close>

text \<open>The world is what is visible; the two phases of the SPI frame select the register or the ring.\<close>

definition sim_read :: "u32 \<Rightarrow> u32 \<Rightarrow> nat \<Rightarrow> w5500_view \<Rightarrow> (esp_err_t \<times> bytes) \<times> w5500_view" where
  "sim_read cmd ctl n k = ((ESP_OK,
     if ctl = 24 then ring_read (k_rxmem k) (ucast cmd) n
     else if ctl = 8 then
       (if cmd = 0x26 then be16_bytes (k_rsr k) else if cmd = 0x28 then be16_bytes (k_rx_rd k)
        else if cmd = 0x20 then be16_bytes (k_fsr k) else if cmd = 0x24 then be16_bytes (k_tx_wr k)
        else if cmd = 1 then [0] else [0x14])
     else [1]), k)"

definition sim_write :: "u32 \<Rightarrow> u32 \<Rightarrow> bytes \<Rightarrow> w5500_view \<Rightarrow> esp_err_t \<times> w5500_view" where
  "sim_write cmd ctl d k = (ESP_OK,
     if ctl = 20 then k_txmem_update (ring_write (ucast cmd) d) k
     else if ctl = 12 then
       (if cmd = 0x28 then k_rx_rd_update (\<lambda>_. be16_at d) k else if cmd = 0x24 then k_tx_wr_update (\<lambda>_. be16_at d) k
        else if cmd = 1 \<and> d = [W5500_SCR_RECV] then rx_commit k
        else if cmd = 1 \<and> d = [W5500_SCR_SEND] then tx_commit k else k)
     else k)"

definition sim_v :: "w5500_view emac_env" where
  "sim_v = \<lparr>v_read = sim_read, v_write = sim_write, v_delay_ms = (\<lambda>_ k. k), v_time = (\<lambda>k. (0, k)),
     v_malloc = (\<lambda>_ k. (True, k)), v_free = (\<lambda>k. k), v_stack_input = (\<lambda>f. k_up_update (\<lambda>u. u @ [f])),
     v_state_changed = (\<lambda>_ k. (ESP_OK, k)), v_int_on = (\<lambda>_ k. k), v_int_off = (\<lambda>_ k. k),
     v_int_level = (\<lambda>_ k. (False, k)), v_wake = (\<lambda>_ k. (True, k)), v_timer_start = (\<lambda>_ k. (ESP_OK, k)),
     v_timer_stop = (\<lambda>k. (ESP_OK, k)), v_timer_active = (\<lambda>k. (False, k))\<rparr>"

lemma reg_phases:
  "w5500_read v (W5500_REG_SOCK_RX_RSR 0) n w = v_read v 0x26 8 n w"
  "w5500_read v (W5500_REG_SOCK_RX_RD 0) n w = v_read v 0x28 8 n w"
  "w5500_read v (W5500_REG_SOCK_CR 0) n w = v_read v 1 8 n w"
  "w5500_read v (W5500_REG_SOCK_TX_FSR 0) n w = v_read v 0x20 8 n w"
  "w5500_read v (W5500_REG_SOCK_TX_WR 0) n w = v_read v 0x24 8 n w"
  "w5500_read v (W5500_REG_SOCK_IR 0) n w = v_read v 2 8 n w"
  "w5500_read v (W5500_REG_PHYCFGR) n w = v_read v 0x2E 0 n w"
  "w5500_write v (W5500_REG_SOCK_RX_RD 0) d w = v_write v 0x28 12 d w"
  "w5500_write v (W5500_REG_SOCK_CR 0) d w = v_write v 1 12 d w"
  "w5500_write v (W5500_REG_SOCK_TX_WR 0) d w = v_write v 0x24 12 d w"
  "w5500_write v (W5500_REG_SOCK_IR 0) d w = v_write v 2 12 d w"
proof -
  have a0: "drop_bit W5500_ADDR_OFFSET (W5500_REG_SOCK_RX_RSR 0) = 0x26" "(W5500_REG_SOCK_RX_RSR 0) AND 0xFFFF = 8" by code_simp+
  have a1: "drop_bit W5500_ADDR_OFFSET (W5500_REG_SOCK_RX_RD 0) = 0x28" "(W5500_REG_SOCK_RX_RD 0) AND 0xFFFF = 8" by code_simp+
  have a2: "drop_bit W5500_ADDR_OFFSET (W5500_REG_SOCK_CR 0) = 1" "(W5500_REG_SOCK_CR 0) AND 0xFFFF = 8" by code_simp+
  have a3: "drop_bit W5500_ADDR_OFFSET (W5500_REG_SOCK_TX_FSR 0) = 0x20" "(W5500_REG_SOCK_TX_FSR 0) AND 0xFFFF = 8" by code_simp+
  have a4: "drop_bit W5500_ADDR_OFFSET (W5500_REG_SOCK_TX_WR 0) = 0x24" "(W5500_REG_SOCK_TX_WR 0) AND 0xFFFF = 8" by code_simp+
  have a5: "drop_bit W5500_ADDR_OFFSET (W5500_REG_SOCK_IR 0) = 2" "(W5500_REG_SOCK_IR 0) AND 0xFFFF = 8" by code_simp+
  have a6: "drop_bit W5500_ADDR_OFFSET (W5500_REG_PHYCFGR) = 0x2E" "(W5500_REG_PHYCFGR) AND 0xFFFF = 0" by code_simp+
  have m: "(8 :: u32) OR push_bit W5500_RWB_OFFSET W5500_ACCESS_MODE_WRITE OR W5500_SPI_OP_MODE_VDM = 12"
    "(8 :: u32) OR push_bit W5500_RWB_OFFSET W5500_ACCESS_MODE_READ OR W5500_SPI_OP_MODE_VDM = 8"
    "(0 :: u32) OR push_bit W5500_RWB_OFFSET W5500_ACCESS_MODE_READ OR W5500_SPI_OP_MODE_VDM = 0" by code_simp+
  show "w5500_read v (W5500_REG_SOCK_RX_RSR 0) n w = v_read v 0x26 8 n w" unfolding w5500_read_def a0 m by (rule refl)
  show "w5500_read v (W5500_REG_SOCK_RX_RD 0) n w = v_read v 0x28 8 n w" unfolding w5500_read_def a1 m by (rule refl)
  show "w5500_read v (W5500_REG_SOCK_CR 0) n w = v_read v 1 8 n w" unfolding w5500_read_def a2 m by (rule refl)
  show "w5500_read v (W5500_REG_SOCK_TX_FSR 0) n w = v_read v 0x20 8 n w" unfolding w5500_read_def a3 m by (rule refl)
  show "w5500_read v (W5500_REG_SOCK_TX_WR 0) n w = v_read v 0x24 8 n w" unfolding w5500_read_def a4 m by (rule refl)
  show "w5500_read v (W5500_REG_SOCK_IR 0) n w = v_read v 2 8 n w" unfolding w5500_read_def a5 m by (rule refl)
  show "w5500_read v (W5500_REG_PHYCFGR) n w = v_read v 0x2E 0 n w" unfolding w5500_read_def a6 m by (rule refl)
  show "w5500_write v (W5500_REG_SOCK_RX_RD 0) d w = v_write v 0x28 12 d w" unfolding w5500_write_def a1 m by (rule refl)
  show "w5500_write v (W5500_REG_SOCK_CR 0) d w = v_write v 1 12 d w" unfolding w5500_write_def a2 m by (rule refl)
  show "w5500_write v (W5500_REG_SOCK_TX_WR 0) d w = v_write v 0x24 12 d w" unfolding w5500_write_def a4 m by (rule refl)
  show "w5500_write v (W5500_REG_SOCK_IR 0) d w = v_write v 2 12 d w" unfolding w5500_write_def a5 m by (rule refl)
qed

lemma mem_phases:
  "w5500_read v (W5500_MEM_SOCK_RX 0 off) n w = v_read v (ucast off) 24 n w"
  "w5500_write v (W5500_MEM_SOCK_TX 0 off) d w = v_write v (ucast off) 20 d w"
proof -
  have m: "push_bit 3 (W5500_BSB_SOCK_RX_BUF 0) OR push_bit W5500_RWB_OFFSET W5500_ACCESS_MODE_READ OR W5500_SPI_OP_MODE_VDM = 24"
    "push_bit 3 (W5500_BSB_SOCK_TX_BUF 0) OR push_bit W5500_RWB_OFFSET W5500_ACCESS_MODE_WRITE OR W5500_SPI_OP_MODE_VDM = 20"
    "W5500_BSB_SOCK_RX_BUF 0 < 32" "W5500_BSB_SOCK_TX_BUF 0 < 32" by code_simp+
  show "w5500_read v (W5500_MEM_SOCK_RX 0 off) n w = v_read v (ucast off) 24 n w"
    unfolding w5500_read_def W5500_MEM_SOCK_RX_def W5500_ADDR_OFFSET_def make_map_phases [OF m(3)] m by (rule refl)
  show "w5500_write v (W5500_MEM_SOCK_TX 0 off) d w = v_write v (ucast off) 20 d w"
    unfolding w5500_write_def W5500_MEM_SOCK_TX_def W5500_ADDR_OFFSET_def make_map_phases [OF m(4)] m by (rule refl)
qed

lemma ucast_u16 [simp]: "ucast (ucast (x :: u16) :: u32) = x"
  by (rule bit_eqI; auto simp: bit_simps dest: bit_imp_le_length)

lemma sim_rx_chip: "rx_chip sim_v id"
  by (simp add: rx_chip_def reads_def writes_def reg_phases mem_phases sim_v_def sim_read_def sim_write_def
      w5500_bits fun_eq_iff)

lemma sim_tx_chip: "tx_chip sim_v id"
  by (simp add: tx_chip_def reads_def writes_def reg_phases mem_phases sim_v_def sim_read_def sim_write_def
      w5500_bits fun_eq_iff)

text \<open>A ring with two frames of sixty bytes across the wrap of the read pointer.\<close>

definition sim_ring :: "bytes list \<Rightarrow> w5500_view" where
  "sim_ring fs = (let d = concat (map enc_frame fs) in
     \<lparr>k_rxmem = ring_write 0xFFF0 d (\<lambda>_. 0), k_rx_base = 0xFFF0, k_rx_rd = 0xFFF0, k_rsr = of_nat (length d),
      k_txmem = (\<lambda>_. 0), k_tx_base = 0xFFFE, k_tx_wr = 0xFFFE, k_fsr = 0x4000, k_sent = [], k_up = []\<rparr>)"

lemma sim_ring_holds:
  assumes "length (concat (map enc_frame fs)) \<le> 0x4000"
  shows "rx_holds (sim_ring fs) fs"
proof -
  have "unat (of_nat (length (concat (map enc_frame fs))) :: u16) = length (concat (map enc_frame fs))"
    using assms by (simp only: unat_of_nat) (simp add: take_bit_nat_eq_self)
  with assms show ?thesis by (simp add: rx_holds_def sim_ring_def Let_def ring_read_write del: length_concat)
qed

definition sim_mac :: emac_w5500_t where
  "sim_mac = \<lparr>m_eth = True, m_sw_reset_timeout_ms = 100, m_int_gpio_num = 4, m_poll_timer = False, m_poll_period_ms = 0,
     m_addr = replicate 6 0, m_packets_remain = False, m_mcast_cnt = 0, m_tx_tmo = 200\<rparr>"

theorem rx_loop_delivers_witness:
  "\<exists>m' k'. rx_loop sim_v 1 2 sim_mac (sim_ring [replicate 60 1, replicate 60 2]) = Some (m', k') \<and>
     k_up k' = [replicate 60 1, replicate 60 2]"
proof -
  let ?fs = "[replicate 60 1, replicate 60 2] :: bytes list"
  have h: "rx_holds (id (sim_ring ?fs)) ?fs" using sim_ring_holds [of ?fs] by simp
  have "k_up (id (sim_ring ?fs)) = []" by (simp add: sim_ring_def Let_def)
  moreover have "\<forall>f \<in> set ?fs. frame_ok f" "?fs \<noteq> []" "length ?fs \<le> 2" by (simp_all add: frame_ok_def)
  ultimately show ?thesis using rx_loop_delivers [OF sim_rx_chip _ h, of 1 2 sim_mac] by auto
qed

theorem bad_header_wedges_receiver_witness:
  "\<forall>n. rx_loop sim_v 1 n (sim_mac\<lparr>m_packets_remain := True\<rparr>) (sim_ring [[]]) = None"
proof -
  have l: "length [0, 2 :: u8] = 2" by simp
  have "ring_read (ring_write 0xFFF0 [0, 2] (\<lambda>_. 0)) 0xFFF0 (length [0, 2 :: u8]) = [0, 2]"
    by (rule ring_read_write) simp
  moreover have "be16_at [0, 2] = 2" by code_simp
  ultimately have "be16_at (ring_read (ring_write 0xFFF0 [0, 2] (\<lambda>_. 0)) 0xFFF0 2) = 2" unfolding l by simp
  then have "bad_header (id (sim_ring [[]]))"
    by (simp add: bad_header_def sim_ring_def enc_frame_def be16_bytes_def hi8_def lo8_def Let_def)
  from bad_header_wedges_receiver [OF sim_rx_chip _ this, of 1 "sim_mac\<lparr>m_packets_remain := True\<rparr>"]
  show ?thesis by simp
qed

theorem transmit_sends_once_witness:
  "\<exists>k'. emac_w5500_transmit sim_v 1 sim_mac (replicate 60 7) (sim_ring []) = Some (ESP_OK, k') \<and>
     k_sent k' = [replicate 60 7] \<and> k_tx_wr k' = 58"
proof -
  let ?r = "emac_w5500_transmit sim_v 1 sim_mac (replicate 60 7) (sim_ring [])"
  let ?k = "id (sim_ring [])"
  have b: "k_tx_base ?k = k_tx_wr ?k" "k_fsr ?k = 0x4000" "k_tx_wr ?k = 0xFFFE" "k_sent ?k = []"
    by (simp_all add: sim_ring_def Let_def)
  obtain k2 where t: "transmit_frame sim_v (replicate 60 7) (sim_ring []) = (ESP_OK, k2)"
    using transmit_frame_effect [OF sim_tx_chip b(1), of "replicate 60 7"] by auto
  have turn: "tx_done_turn sim_v 200 0 k = (Some ESP_OK, k)" for k
    by (simp add: tx_done_turn_def is_w5500_sane_for_rxtx_def reg_phases sim_v_def sim_read_def byte_def W5500_SIR_SEND_def)
  have free: "w5500_get_tx_free_size sim_v (Suc 0) k = Some ((ESP_OK, k_fsr k), k)" for k
    by (simp add: w5500_get_tx_free_size_def stable_turn_def reg_phases sim_v_def sim_read_def)
  have tm: "v_time sim_v k = (0, k)" for k by (simp add: sim_v_def)
  have "w5500_write sim_v (W5500_REG_SOCK_IR 0) [W5500_SIR_SEND] k = (ESP_OK, k)" for k
    by (simp add: reg_phases sim_v_def sim_write_def)
  then have run: "\<exists>k'. ?r = Some (ESP_OK, k')"
    using b(2) tm by (simp add: emac_w5500_transmit_def free t turn ETH_MAX_PACKET_SIZE_def sim_mac_def)
  then obtain k' where r: "?r = Some (ESP_OK, k')" by blast
  from transmit_sends_once [OF sim_tx_chip b(1) r [unfolded id_def]] b r show ?thesis by simp
qed

end
