(* ===== verification/W6300_Props.thy ===== *)
theory W6300_Props
  imports W6300 W5500_Props
begin

text \<open>
  Properties of the W6300 driver: initialisation against the lock registers, which make the chip
  ignore writes, and reception, whose rings are those of the W5500.
\<close>

section \<open>The chip behind the driver\<close>

definition reads6 :: "'w w6300_env \<Rightarrow> ('w \<Rightarrow> 'k) \<Rightarrow> u32 \<Rightarrow> nat \<Rightarrow> ('k \<Rightarrow> bytes) \<Rightarrow> bool" where
  "reads6 v view a n d \<longleftrightarrow> (\<forall>w. fst (w6300_read v a n w) = (ESP_OK, d (view w)) \<and>
     view (snd (w6300_read v a n w)) = view w)"

definition writes6 :: "'w w6300_env \<Rightarrow> ('w \<Rightarrow> 'k) \<Rightarrow> u32 \<Rightarrow> bytes \<Rightarrow> ('k \<Rightarrow> 'k) \<Rightarrow> bool" where
  "writes6 v view a d f \<longleftrightarrow> (\<forall>w. fst (w6300_write v a d w) = ESP_OK \<and> view (snd (w6300_write v a d w)) = f (view w))"

lemma reads6_obtain:
  assumes "reads6 v view a n d"
  obtains w' where "w6300_read v a n w = ((ESP_OK, d (view w)), w')" and "view w' = view w"
  using assms that [of "snd (w6300_read v a n w)"] by (simp add: reads6_def prod_eq_iff)

lemma writes6_obtain:
  assumes "writes6 v view a d f"
  obtains w' where "w6300_write v a d w = (ESP_OK, w')" and "view w' = f (view w)"
  using assms that [of "snd (w6300_write v a d w)"] by (simp add: writes6_def prod_eq_iff)

lemma write_u8_obtain:
  assumes "writes6 v view a [x] f"
  obtains w' where "w6300_write_u8 v a x w = (ESP_OK, w')" and "view w' = f (view w)"
  using writes6_obtain [OF assms] by (metis w6300_write_u8_def)

lemma read_u16_obtain:
  assumes "reads6 v view a 2 (\<lambda>k. be16_bytes (f k))"
  obtains w' where "w6300_read_u16 v a w = ((ESP_OK, f (view w)), w')" and "view w' = view w"
proof -
  obtain w' where "w6300_read v a 2 w = ((ESP_OK, be16_bytes (f (view w))), w')" "view w' = view w"
    by (rule reads6_obtain [OF assms])
  with that show thesis by (simp add: w6300_read_u16_def)
qed

lemma stable_read6:
  assumes "reads6 v view a 2 (\<lambda>k. be16_bytes (f k))" and "0 < fuel"
  obtains w' where "poll_loop fuel (stable_turn_w6300 v a) w = Some ((ESP_OK, f (view w)), w')" and "view w' = view w"
proof -
  obtain w1 where r1: "w6300_read_u16 v a w = ((ESP_OK, f (view w)), w1)" "view w1 = view w"
    by (rule read_u16_obtain [where f = f, OF assms(1)])
  obtain w2 where r2: "w6300_read_u16 v a w1 = ((ESP_OK, f (view w1)), w2)" "view w2 = view w1"
    by (rule read_u16_obtain [where f = f, OF assms(1)])
  have "stable_turn_w6300 v a w = (Some (ESP_OK, f (view w)), w2)"
    using r1 r2 by (simp add: stable_turn_w6300_def)
  with assms(2) r1 r2 show thesis using that by (simp add: poll_loop_first)
qed

lemma command_ok6:
  assumes "writes6 v view (W6300_REG_SOCK_CR 0) [c] f" and "reads6 v view (W6300_REG_SOCK_CR 0) 1 (\<lambda>k. [0])"
  obtains w' where "w6300_send_command v c 100 w = (ESP_OK, w')" and "view w' = f (view w)"
proof -
  have s: "W6300_MACRAW_SOCK = 0" by (simp add: W6300_MACRAW_SOCK_def)
  obtain w1 where r1: "w6300_write_u8 v (W6300_REG_SOCK_CR 0) c w = (ESP_OK, w1)" "view w1 = f (view w)"
    by (rule write_u8_obtain [OF assms(1)])
  obtain w2 where r2: "w6300_read v (W6300_REG_SOCK_CR 0) 1 w1 = ((ESP_OK, [0]), w2)" "view w2 = view w1"
    by (rule reads6_obtain [OF assms(2)])
  have n: "unat ((100 :: u32) div 10) = Suc 9" by simp
  have "command_wait_w6300 v (Suc 9) w1 = (ESP_OK, w2)"
    unfolding command_wait_w6300.simps s r2(1) by (simp add: byte_def)
  then have "w6300_send_command v c 100 w = (ESP_OK, w2)"
    unfolding w6300_send_command_def n s r1(1) by (simp only: and_then_simps)
  with r1 r2 show thesis using that by simp
qed

section \<open>Initialisation and the lock registers\<close>

datatype lock_group = LockChip | LockNet | LockPhy

text \<open>What is visible of the registers: the three locks and the bytes, by address. A write to a
  register of a locked group has no effect; which register is in which group is left open.\<close>

record w6300_regs =
  q_locked :: "lock_group \<Rightarrow> bool"
  q_reg :: "u32 \<Rightarrow> u8"

fun store :: "u32 \<Rightarrow> bytes \<Rightarrow> (u32 \<Rightarrow> u8) \<Rightarrow> u32 \<Rightarrow> u8" where
  "store a [] f = f"
| "store a (b # bs) f = store (a + 0x100) bs (f(a := b))"

fun bytes_at :: "u32 \<Rightarrow> nat \<Rightarrow> (u32 \<Rightarrow> u8) \<Rightarrow> bytes" where
  "bytes_at a 0 f = []"
| "bytes_at a (Suc n) f = f a # bytes_at (a + 0x100) n f"

definition unlock :: "lock_group \<Rightarrow> w6300_regs \<Rightarrow> w6300_regs" where
  "unlock g q = q\<lparr>q_locked := (q_locked q)(g := False)\<rparr>"

definition guarded_store :: "(u32 \<Rightarrow> lock_group option) \<Rightarrow> u32 \<Rightarrow> bytes \<Rightarrow> w6300_regs \<Rightarrow> w6300_regs" where
  "guarded_store grp a d q =
     (case grp a of Some g \<Rightarrow> if q_locked q g then q else q\<lparr>q_reg := store a d (q_reg q)\<rparr>
                  | None \<Rightarrow> q\<lparr>q_reg := store a d (q_reg q)\<rparr>)"

definition soft_reset :: "(u32 \<Rightarrow> u8) \<Rightarrow> w6300_regs \<Rightarrow> w6300_regs" where
  "soft_reset power_on q = (if q_locked q LockChip then q else \<lparr>q_locked = (\<lambda>_. True), q_reg = power_on\<rparr>)"

definition sysr :: "w6300_regs \<Rightarrow> u8" where
  "sysr q = (if q_locked q LockChip then W6300_SYSR_CHPL else 0) OR (if q_locked q LockNet then W6300_SYSR_NETL else 0) OR
     (if q_locked q LockPhy then W6300_SYSR_PHYL else 0)"

text \<open>The documented behaviour of the registers the initialisation uses. The chip identifies itself as
  \<open>0x61\<close> with the missing bit in the RTL register. A delay changes nothing visible.\<close>

definition lock_chip ::
  "'w w6300_env \<Rightarrow> ('w \<Rightarrow> w6300_regs) \<Rightarrow> (u32 \<Rightarrow> lock_group option) \<Rightarrow> (u32 \<Rightarrow> u8) \<Rightarrow> bool" where
  "lock_chip v view grp power_on \<longleftrightarrow>
     writes6 v view W6300_REG_CHPLCKR [W6300_CHIP_UNLOCK] (unlock LockChip) \<and>
     writes6 v view W6300_REG_NETLCKR [W6300_NET_UNLOCK] (unlock LockNet) \<and>
     writes6 v view W6300_REG_PHYLCKR [W6300_PHY_UNLOCK] (unlock LockPhy) \<and>
     writes6 v view W6300_REG_SYCR0 [W6300_SYCR0_RST] (soft_reset power_on) \<and>
     (\<forall>a \<in> insert W6300_REG_SYCR1 (fst ` set setup_writes_w6300). \<forall>d. writes6 v view a d (guarded_store grp a d)) \<and>
     reads6 v view W6300_REG_SYSR 1 (\<lambda>q. [sysr q]) \<and>
     reads6 v view W6300_REG_CIDR 2 (\<lambda>_. [0x61, 0]) \<and>
     reads6 v view W6300_REG_RTL 1 (\<lambda>_. [1]) \<and>
     reads6 v view W6300_REG_SYCR1 1 (\<lambda>q. [q_reg q W6300_REG_SYCR1]) \<and>
     (\<forall>n w. view (v_delay_ms v n w) = view w)"

definition all_unlocked :: "w6300_regs \<Rightarrow> bool" where
  "all_unlocked q \<longleftrightarrow> \<not> q_locked q LockChip \<and> \<not> q_locked q LockNet \<and> \<not> q_locked q LockPhy"

lemma guarded_store_unlocked:
  "all_unlocked q \<Longrightarrow> guarded_store grp a d q = q\<lparr>q_reg := store a d (q_reg q)\<rparr>"
  by (auto simp: guarded_store_def all_unlocked_def split: option.split) (metis lock_group.exhaust)+

lemma chip_id_w6300: "chip_id 0x61 0 1 = W6300_CHIP_ID"
  by code_simp

lemma reset_unlocks:
  assumes "lock_chip v view grp power_on" and "10 \<le> z_sw_reset_timeout_ms m"
  obtains w' where "w6300_reset v m w = (ESP_OK, w')" and "all_unlocked (view w')"
proof -
  note C = assms(1) [unfolded lock_chip_def]
  have reg: "reads6 v view W6300_REG_CIDR 2 (\<lambda>_. [0x61, 0])" "reads6 v view W6300_REG_RTL 1 (\<lambda>_. [1])"
    "reads6 v view W6300_REG_SYSR 1 (\<lambda>q. [sysr q])" using C by blast+
  obtain w1 where r1: "w6300_write_u8 v W6300_REG_CHPLCKR W6300_CHIP_UNLOCK w = (ESP_OK, w1)"
    "view w1 = unlock LockChip (view w)" using C by (metis write_u8_obtain)
  obtain w2 where r2: "w6300_write_u8 v W6300_REG_SYCR0 W6300_SYCR0_RST w1 = (ESP_OK, w2)"
    "view w2 = soft_reset power_on (view w1)" using C by (metis write_u8_obtain)
  let ?w3 = "v_delay_ms v 10 w2"
  obtain w4 where r4: "w6300_read v W6300_REG_CIDR 2 ?w3 = ((ESP_OK, [0x61, 0]), w4)" "view w4 = view ?w3"
    by (rule reads6_obtain [OF reg(1)])
  obtain w5 where r5: "w6300_read v W6300_REG_RTL 1 w4 = ((ESP_OK, [1]), w5)" "view w5 = view w4"
    by (rule reads6_obtain [OF reg(2)])
  have id: "w6300_read_id v ?w3 = ((ESP_OK, W6300_CHIP_ID), w5)"
    using r4 r5 by (simp add: w6300_read_id_def byte_def chip_id_w6300)
  obtain n where n: "unat (z_sw_reset_timeout_ms m div 10) = Suc n"
  proof -
    have "1 \<le> unat (z_sw_reset_timeout_ms m) div 10" using assms(2) by (simp add: word_le_nat_alt)
    then have "0 < unat (z_sw_reset_timeout_ms m div 10)" by (simp add: unat_div)
    with that show thesis by (metis Suc_pred)
  qed
  have ver: "w6300_verify_id v m ?w3 = (ESP_OK, w5)"
    unfolding w6300_verify_id_def n by (simp add: id)
  obtain w6 where r6: "w6300_write_u8 v W6300_REG_CHPLCKR W6300_CHIP_UNLOCK w5 = (ESP_OK, w6)"
    "view w6 = unlock LockChip (view w5)" using C by (metis write_u8_obtain)
  obtain w7 where r7: "w6300_write_u8 v W6300_REG_NETLCKR W6300_NET_UNLOCK w6 = (ESP_OK, w7)"
    "view w7 = unlock LockNet (view w6)" using C by (metis write_u8_obtain)
  obtain w8 where r8: "w6300_write_u8 v W6300_REG_PHYLCKR W6300_PHY_UNLOCK w7 = (ESP_OK, w8)"
    "view w8 = unlock LockPhy (view w7)" using C by (metis write_u8_obtain)
  have un: "all_unlocked (view w8)"
    by (simp add: r8(2) r7(2) r6(2) all_unlocked_def unlock_def)
  obtain w9 where r9: "w6300_read v W6300_REG_SYSR 1 w8 = ((ESP_OK, [sysr (view w8)]), w9)" "view w9 = view w8"
    by (rule reads6_obtain [OF reg(3)])
  have "sysr (view w8) = 0" using un by (simp add: sysr_def all_unlocked_def)
  then have "w6300_unlock_all v w5 = (ESP_OK, w9)"
    using r6(1) r7(1) r8(1) r9(1) by (simp add: w6300_unlock_all_def byte_def)
  then have "w6300_reset v m w = (ESP_OK, w9)"
    using r1(1) r2(1) ver by (simp add: w6300_reset_def)
  with that un r9(2) show thesis by simp
qed

text \<open>A list of writes on an unlocked chip takes effect byte by byte.\<close>

lemma write_all_unlocked:
  assumes "\<forall>a \<in> fst ` set ws. \<forall>d. writes6 v view a d (guarded_store grp a d)" and "all_unlocked (view w)"
  obtains w' where "write_all_w6300 v ws w = (ESP_OK, w')" and "all_unlocked (view w')"
    and "q_reg (view w') = fold (\<lambda>(a, d). store a d) ws (q_reg (view w))"
proof -
  have "\<exists>w'. write_all_w6300 v ws w = (ESP_OK, w') \<and> all_unlocked (view w') \<and>
      q_reg (view w') = fold (\<lambda>(a, d). store a d) ws (q_reg (view w))"
    using assms
  proof (induction ws arbitrary: w)
    case Nil
    then show ?case by simp
  next
    case (Cons x ws)
    obtain a d where x: "x = (a, d)" by (cases x)
    obtain w1 where r: "w6300_write v a d w = (ESP_OK, w1)" "view w1 = guarded_store grp a d (view w)"
      using writes6_obtain Cons.prems(1) x by (metis fst_conv image_eqI list.set_intros(1))
    then have u: "view w1 = (view w)\<lparr>q_reg := store a d (q_reg (view w))\<rparr>"
      by (simp add: guarded_store_unlocked Cons.prems(2))
    moreover have "all_unlocked (view w1)" using Cons.prems(2) u by (simp add: all_unlocked_def)
    ultimately show ?case using Cons.IH [of w1] Cons.prems(1) r(1) x by auto
  qed
  with that show thesis by blast
qed

fun addrs :: "u32 \<Rightarrow> nat \<Rightarrow> u32 list" where
  "addrs a 0 = []"
| "addrs a (Suc n) = a # addrs (a + 0x100) n"

definition written :: "(u32 \<times> bytes) list \<Rightarrow> u32 list" where
  "written ws = concat (map (\<lambda>(a, d). addrs a (length d)) ws)"

lemma store_other: "x \<notin> set (addrs a (length d)) \<Longrightarrow> store a d f x = f x"
  by (induction d arbitrary: a f) auto

lemma bytes_at_cong: "(\<And>x. x \<in> set (addrs a n) \<Longrightarrow> f x = g x) \<Longrightarrow> bytes_at a n f = bytes_at a n g"
  by (induction n arbitrary: a) auto

lemma bytes_at_store: "distinct (addrs a (length d)) \<Longrightarrow> bytes_at a (length d) (store a d f) = d"
  by (induction d arbitrary: a f) (auto simp: store_other)

lemma fold_store_other: "x \<notin> set (written ws) \<Longrightarrow> fold (\<lambda>(a, d). store a d) ws f x = f x"
  by (induction ws arbitrary: f) (auto simp: written_def store_other)

lemma fold_store:
  "distinct (written ws) \<Longrightarrow> (a, d) \<in> set ws \<Longrightarrow> bytes_at a (length d) (fold (\<lambda>(a, d). store a d) ws f) = d"
proof (induction ws arbitrary: f)
  case Nil
  then show ?case by simp
next
  case (Cons x ws)
  obtain b e where x: "x = (b, e)" by (cases x)
  show ?case
  proof (cases "(a, d) \<in> set ws")
    case True
    with Cons x show ?thesis by (simp add: written_def)
  next
    case False
    with Cons.prems x have "b = a" "e = d" by simp_all
    moreover have "bytes_at a (length d) (fold (\<lambda>(a, d). store a d) ws (store a d f)) = bytes_at a (length d) (store a d f)"
      using Cons.prems(1) x calculation by (intro bytes_at_cong fold_store_other) (auto simp: written_def)
    ultimately show ?thesis
      using Cons.prems(1) x by (simp add: bytes_at_store written_def)
  qed
qed

lemma setup_lengths:
  "map (\<lambda>(a, d). (a, length d)) setup_writes_w6300 =
     [(0x22001, 1), (0x20001, 1), (0x22005, 1), (0x20005, 1), (0x22009, 1), (0x20009, 1), (0x2200D, 1), (0x2000D, 1),
      (0x22011, 1), (0x20011, 1), (0x22015, 1), (0x20015, 1), (0x22019, 1), (0x20019, 1), (0x2201D, 1), (0x2001D, 1),
      (0x400000, 1), (0x400400, 1), (0x210400, 1), (0x211400, 1), (1, 1), (0x2401, 1), (0x41C500, 2)]"
proof -
  have "[1..<8] = [1, 2, 3, 4, 5, 6, 7 :: nat]" by (simp add: upt_rec)
  then show ?thesis by (simp add: setup_writes_w6300_def be16_bytes_def w6300_regs w6300_layout)
qed

lemma setup_distinct: "distinct (written (setup_writes_w6300 @ [(W6300_REG_SYCR1, [x])]))"
proof -
  have w: "written ws = concat (map (\<lambda>(a, n). addrs a n) (map (\<lambda>(a, d). (a, length d)) ws))" for ws
    by (simp add: written_def comp_def split_def)
  have a: "addrs a 1 = [a]" "addrs a 2 = [a, a + 0x100]" for a by (simp_all add: numeral_2_eq_2)
  show ?thesis
    unfolding w map_append setup_lengths list.map prod.case list.size(3,4) add_0_left concat.simps a One_nat_def [symmetric]
    by (simp add: w6300_regs w6300_layout)
qed

text \<open>C19. Initialisation against the locks: whatever state the chip is in - locked, unlocked, or half of
  each - and however its registers are spread over the three lock groups, initialisation succeeds,
  leaves every group unlocked, and every register of the default setup holds what was written: no
  write is lost to a lock, although the reset in the middle locks everything again.\<close>

theorem w6300_init_loses_no_write:
  assumes "lock_chip v view grp power_on" and "\<forall>w. fst (v_state_changed v ETH_STATE_LLINIT w) = ESP_OK"
    and "10 \<le> z_sw_reset_timeout_ms m"
  shows "\<exists>w'. emac_w6300_init v m w = (ESP_OK, w') \<and> all_unlocked (view w') \<and>
    (\<forall>(a, d) \<in> set setup_writes_w6300. bytes_at a (length d) (q_reg (view w')) = d) \<and>
    q_reg (view w') W6300_REG_SYCR1 AND W6300_SYCR1_IEN = W6300_SYCR1_IEN"
proof -
  note C = assms(1) [unfolded lock_chip_def]
  let ?w0 = "if 0 \<le> z_int_gpio_num m then v_int_on v (z_int_gpio_num m) w else w"
  obtain w1 where r1: "v_state_changed v ETH_STATE_LLINIT ?w0 = (ESP_OK, w1)"
    using assms(2) by (metis prod.collapse)
  obtain w2 where r2: "w6300_reset v m w1 = (ESP_OK, w2)" "all_unlocked (view w2)"
    by (rule reset_unlocks [OF assms(1,3)])
  obtain w3 where r3: "write_all_w6300 v setup_writes_w6300 w2 = (ESP_OK, w3)" "all_unlocked (view w3)"
    "q_reg (view w3) = fold (\<lambda>(a, d). store a d) setup_writes_w6300 (q_reg (view w2))"
    by (rule write_all_unlocked [of setup_writes_w6300 v view grp w2]) (use C r2(2) in auto)
  have "reads6 v view W6300_REG_SYCR1 1 (\<lambda>q. [q_reg q W6300_REG_SYCR1])" using C by blast
  then obtain w4 where r4: "w6300_read v W6300_REG_SYCR1 1 w3 = ((ESP_OK, [q_reg (view w3) W6300_REG_SYCR1]), w4)"
    "view w4 = view w3" by (rule reads6_obtain)
  let ?x = "q_reg (view w3) W6300_REG_SYCR1 OR W6300_SYCR1_IEN"
  have "writes6 v view W6300_REG_SYCR1 [?x] (guarded_store grp W6300_REG_SYCR1 [?x])" using C by blast
  then obtain w5 where r5: "w6300_write_u8 v W6300_REG_SYCR1 ?x w4 = (ESP_OK, w5)"
    "view w5 = guarded_store grp W6300_REG_SYCR1 [?x] (view w4)" by (rule write_u8_obtain)
  let ?ws = "setup_writes_w6300 @ [(W6300_REG_SYCR1, [?x])]"
  have v5: "view w5 = (view w3)\<lparr>q_reg := fold (\<lambda>(a, d). store a d) ?ws (q_reg (view w2))\<rparr>"
    by (simp add: r5(2) r4(2) guarded_store_unlocked r3(2) r3(3) [symmetric])
  have "w6300_setup_default v w2 = (ESP_OK, w5)"
    using r3(1) r4(1) r5(1) by (simp add: w6300_setup_default_def byte_def)
  then have run: "emac_w6300_init v m w = (ESP_OK, w5)"
    using r1 r2(1) by (simp add: emac_w6300_init_def Let_def)
  have reg: "bytes_at a (length d) (q_reg (view w5)) = d" if "(a, d) \<in> set ?ws" for a d
    using fold_store [OF setup_distinct that] v5 by simp
  have ien: "q_reg (view w5) W6300_REG_SYCR1 = ?x" using reg [of W6300_REG_SYCR1 "[?x]"] by simp
  have un: "all_unlocked (view w5)" using r3(2) by (simp add: v5 all_unlocked_def)
  have ws: "\<forall>(a, d) \<in> set setup_writes_w6300. bytes_at a (length d) (q_reg (view w5)) = d"
    using reg by auto
  have "?x AND W6300_SYCR1_IEN = W6300_SYCR1_IEN" by (simp add: word_ao_absorbs)
  then have "q_reg (view w5) W6300_REG_SYCR1 AND W6300_SYCR1_IEN = W6300_SYCR1_IEN" unfolding ien .
  with run un ws show ?thesis by blast
qed

section \<open>The frame on the wire\<close>

text \<open>What a chip recovers from the opcode and the address phase: the block and the direction from the
  opcode, the offset from the upper two bytes of the address phase.\<close>

definition frame_address :: "u32 \<Rightarrow> u32 \<Rightarrow> u32" where
  "frame_address cmd addr = addr OR (cmd AND 0x1F)"

definition frame_writes :: "u32 \<Rightarrow> bool" where
  "frame_writes cmd = bit cmd 5"

lemma frame_decodes:
  assumes "a AND 0xFF < 32"
  shows "frame_address ((a AND W6300_BLOCK_MASK) OR W6300_ACCESS_MODE_READ OR W6300_QSPI_MODE q) (push_bit 8 (drop_bit 8 a)) = a"
    and "frame_address ((a AND W6300_BLOCK_MASK) OR W6300_ACCESS_MODE_WRITE OR W6300_QSPI_MODE q) (push_bit 8 (drop_bit 8 a)) = a"
    and "\<not> frame_writes ((a AND W6300_BLOCK_MASK) OR W6300_ACCESS_MODE_READ OR W6300_QSPI_MODE q)"
    and "frame_writes ((a AND W6300_BLOCK_MASK) OR W6300_ACCESS_MODE_WRITE OR W6300_QSPI_MODE q)"
proof -
  have m: "(0xFF :: u32) = mask 8" "(0x1F :: u32) = mask 5" by (simp_all add: mask_eq_exp_minus_1)
  have lt: "bit a n \<Longrightarrow> n < 8 \<Longrightarrow> n < 5" for n
    using bit_below_32 [OF assms] by (simp add: m(1) bit_simps)
  have q: "bit (W6300_QSPI_MODE q) n \<longleftrightarrow> q \<and> n = 7" for n
  proof -
    have e: "(push_bit 6 2 :: u32) = push_bit 7 1" "(push_bit 6 0 :: u32) = 0" by simp_all
    have not_bit_0: "bit (0 :: u32) n = False" by simp
    show ?thesis
      unfolding W6300_QSPI_MODE_def e by (cases q) (simp_all only: if_True if_False bit_push_bit_iff bit_1_iff not_bit_0, auto)
  qed
  have rw: "\<not> bit W6300_ACCESS_MODE_READ n" "bit W6300_ACCESS_MODE_WRITE n \<longleftrightarrow> n = 5" for n
    unfolding W6300_ACCESS_MODE_READ_def W6300_ACCESS_MODE_WRITE_def bit_push_bit_iff bit_1_iff by auto
  have b: "bit W6300_BLOCK_MASK n \<longleftrightarrow> n < 8" for n
    by (simp add: W6300_BLOCK_MASK_def m bit_simps) auto
  have o: "bit (push_bit 8 (drop_bit 8 a)) n \<longleftrightarrow> 8 \<le> n \<and> bit a n" for n
    using bit_imp_le_length [of a n] by (auto simp: bit_simps)
  have all: "bit (frame_address ((a AND W6300_BLOCK_MASK) OR d OR W6300_QSPI_MODE q) (push_bit 8 (drop_bit 8 a))) n = bit a n"
    if "\<And>n. bit d n \<Longrightarrow> n = 5" for d n
    using lt [of n] that [of n] unfolding frame_address_def m(2) bit_or_iff bit_and_iff o q b bit_mask_iff by auto
  show "frame_address ((a AND W6300_BLOCK_MASK) OR W6300_ACCESS_MODE_READ OR W6300_QSPI_MODE q) (push_bit 8 (drop_bit 8 a)) = a"
    by (rule bit_eqI, rule all) (simp add: rw)
  show "frame_address ((a AND W6300_BLOCK_MASK) OR W6300_ACCESS_MODE_WRITE OR W6300_QSPI_MODE q) (push_bit 8 (drop_bit 8 a)) = a"
    by (rule bit_eqI, rule all) (simp add: rw)
  show "\<not> frame_writes ((a AND W6300_BLOCK_MASK) OR W6300_ACCESS_MODE_READ OR W6300_QSPI_MODE q)"
    using lt [of 5] by (auto simp: frame_writes_def bit_or_iff bit_and_iff q rw)
  show "frame_writes ((a AND W6300_BLOCK_MASK) OR W6300_ACCESS_MODE_WRITE OR W6300_QSPI_MODE q)"
    by (simp add: frame_writes_def bit_or_iff rw)
qed

text \<open>A bus whose device is addressed by the frame.\<close>

definition sim_bus ::
  "(u32 \<Rightarrow> nat \<Rightarrow> 'w \<Rightarrow> bytes) \<Rightarrow> (u32 \<Rightarrow> bytes \<Rightarrow> 'w \<Rightarrow> 'w) \<Rightarrow> bool \<Rightarrow> (bytes \<Rightarrow> 'w \<Rightarrow> 'w) \<Rightarrow> 'w w6300_env" where
  "sim_bus regs regs_wr quad up =
     \<lparr>v_read = (\<lambda>c a n w. ((ESP_OK, regs (frame_address c a) n w), w)),
      v_write = (\<lambda>c a d w. (ESP_OK, regs_wr (frame_address c a) d w)),
      v_delay_ms = (\<lambda>_ w. w), v_time = (\<lambda>w. (0, w)), v_malloc = (\<lambda>_ w. (True, w)), v_free = (\<lambda>w. w),
      v_stack_input = up, v_state_changed = (\<lambda>_ w. (ESP_OK, w)), v_int_on = (\<lambda>_ w. w), v_int_off = (\<lambda>_ w. w),
      v_int_level = (\<lambda>_ w. (False, w)), v_wake = (\<lambda>_ w. (True, w)), v_timer_start = (\<lambda>_ w. (ESP_OK, w)),
      v_timer_stop = (\<lambda>w. (ESP_OK, w)), v_timer_active = (\<lambda>w. (False, w)), v_quad = quad\<rparr>"

lemma sim_bus_access:
  assumes "a AND 0xFF < 32"
  shows "w6300_read (sim_bus regs regs_wr q up) a n w = ((ESP_OK, regs a n w), w)"
    and "w6300_write (sim_bus regs regs_wr q up) a d w = (ESP_OK, regs_wr a d w)"
  by (simp_all add: w6300_read_def w6300_write_def sim_bus_def frame_decodes [OF assms] W6300_ADDR_OFFSET_def)

definition sim_regs_read :: "u32 \<Rightarrow> nat \<Rightarrow> w6300_regs \<Rightarrow> bytes" where
  "sim_regs_read a n q =
     (if a = W6300_REG_SYSR then [sysr q] else if a = W6300_REG_CIDR then [0x61, 0] else if a = W6300_REG_RTL then [1]
      else bytes_at a n (q_reg q))"

definition sim_grp :: "u32 \<Rightarrow> lock_group option" where
  "sim_grp a = (if a \<in> {W6300_REG_SYCR1, W6300_REG_INTPTMR} then Some LockChip
     else if a \<in> {W6300_REG_NET4MR, W6300_REG_NET6MR} then Some LockNet else None)"

definition sim_regs_write :: "u32 \<Rightarrow> bytes \<Rightarrow> w6300_regs \<Rightarrow> w6300_regs" where
  "sim_regs_write a d q =
     (if a = W6300_REG_CHPLCKR then q\<lparr>q_locked := (q_locked q)(LockChip := d \<noteq> [W6300_CHIP_UNLOCK])\<rparr>
      else if a = W6300_REG_NETLCKR then q\<lparr>q_locked := (q_locked q)(LockNet := d \<noteq> [W6300_NET_UNLOCK])\<rparr>
      else if a = W6300_REG_PHYLCKR then q\<lparr>q_locked := (q_locked q)(LockPhy := d \<noteq> [W6300_PHY_UNLOCK])\<rparr>
      else if a = W6300_REG_SYCR0 then soft_reset (\<lambda>_. 0) q
      else guarded_store sim_grp a d q)"

definition sim_w6300 :: "w6300_regs w6300_env" where
  "sim_w6300 = sim_bus sim_regs_read sim_regs_write True (\<lambda>_ q. q)"

lemma setup_addresses:
  "fst ` set setup_writes_w6300 = {0x22001, 0x20001, 0x22005, 0x20005, 0x22009, 0x20009, 0x2200D, 0x2000D,
      0x22011, 0x20011, 0x22015, 0x20015, 0x22019, 0x20019, 0x2201D, 0x2001D,
      0x400000, 0x400400, 0x210400, 0x211400, 1, 0x2401, 0x41C500}"
proof -
  have "fst ` set setup_writes_w6300 = set (map fst (map (\<lambda>(a, d). (a, length d)) setup_writes_w6300))"
    by (force simp: image_image)
  then show ?thesis unfolding setup_lengths by simp
qed

lemma sim_lock_chip: "lock_chip sim_w6300 id sim_grp (\<lambda>_. 0)"
proof -
  have small: "a AND 0xFF < (32 :: u32)"
    if "a \<in> insert W6300_REG_SYCR1 (fst ` set setup_writes_w6300)" for a
    using that unfolding setup_addresses by (auto simp: w6300_regs w6300_layout)
  have ord: "sim_regs_write a d = guarded_store sim_grp a d"
    if "a \<in> insert W6300_REG_SYCR1 (fst ` set setup_writes_w6300)" for a d
    using that unfolding setup_addresses by (auto simp: sim_regs_write_def w6300_regs w6300_layout fun_eq_iff)
  have regs: "W6300_REG_CHPLCKR AND 0xFF < 32" "W6300_REG_NETLCKR AND 0xFF < 32" "W6300_REG_PHYLCKR AND 0xFF < 32"
    "W6300_REG_SYCR0 AND 0xFF < 32" "W6300_REG_SYSR AND 0xFF < 32" "W6300_REG_CIDR AND 0xFF < 32"
    "W6300_REG_RTL AND 0xFF < 32" "W6300_REG_SYCR1 AND 0xFF < 32"
    by (simp_all add: w6300_regs w6300_layout)
  have s: "\<forall>a \<in> insert W6300_REG_SYCR1 (fst ` set setup_writes_w6300). \<forall>d. writes6 sim_w6300 id a d (guarded_store sim_grp a d)"
    using small ord by (simp add: writes6_def sim_w6300_def sim_bus_access)
  have w: "sim_regs_write W6300_REG_CHPLCKR [W6300_CHIP_UNLOCK] = unlock LockChip"
    "sim_regs_write W6300_REG_NETLCKR [W6300_NET_UNLOCK] = unlock LockNet"
    "sim_regs_write W6300_REG_PHYLCKR [W6300_PHY_UNLOCK] = unlock LockPhy"
    "sim_regs_write W6300_REG_SYCR0 [W6300_SYCR0_RST] = soft_reset (\<lambda>_. 0)"
    by (simp_all add: sim_regs_write_def unlock_def fun_eq_iff w6300_regs w6300_layout)
  have r: "sim_regs_read W6300_REG_SYSR n q = [sysr q]" "sim_regs_read W6300_REG_CIDR n q = [0x61, 0]"
    "sim_regs_read W6300_REG_RTL n q = [1]" "sim_regs_read W6300_REG_SYCR1 (Suc 0) q = [q_reg q W6300_REG_SYCR1]" for n q
    by (simp_all add: sim_regs_read_def w6300_regs w6300_layout)
  show ?thesis
    unfolding lock_chip_def using s
    by (simp add: writes6_def reads6_def sim_w6300_def sim_bus_access regs w r) (simp add: sim_bus_def)
qed

definition sim_mac6 :: emac_w6300_t where
  "sim_mac6 = \<lparr>z_eth = True, z_sw_reset_timeout_ms = 100, z_int_gpio_num = 8, z_poll_timer = False, z_poll_period_ms = 0,
     z_addr = replicate 6 0, z_packets_remain = False, z_mcast_cnt = 0, z_tx_tmo = W6300_100M_TX_TMO_US\<rparr>"

theorem w6300_init_loses_no_write_witness:
  "\<exists>q. emac_w6300_init sim_w6300 sim_mac6 \<lparr>q_locked = (\<lambda>_. True), q_reg = (\<lambda>_. 0xAA)\<rparr> = (ESP_OK, q) \<and> all_unlocked q \<and>
     bytes_at (W6300_REG_SOCK_MR 0) 1 (q_reg q) = [0xA7]"
proof -
  have l: "\<forall>w. fst (v_state_changed sim_w6300 ETH_STATE_LLINIT w) = ESP_OK" "10 \<le> z_sw_reset_timeout_ms sim_mac6"
    by (simp_all add: sim_w6300_def sim_bus_def sim_mac6_def)
  have e: "(W6300_REG_SOCK_MR 0, [0xA7]) \<in> set setup_writes_w6300"
    by (simp add: setup_writes_w6300_def w6300_bits W6300_MACRAW_SOCK_def)
  obtain q where q: "emac_w6300_init sim_w6300 sim_mac6 \<lparr>q_locked = (\<lambda>_. True), q_reg = (\<lambda>_. 0xAA)\<rparr> = (ESP_OK, q)"
    "all_unlocked (id q)" "\<forall>(a, d) \<in> set setup_writes_w6300. bytes_at a (length d) (q_reg (id q)) = d"
    using w6300_init_loses_no_write [OF sim_lock_chip l] by blast
  from bspec [OF q(3) e] have "bytes_at (W6300_REG_SOCK_MR 0) 1 (q_reg q) = [0xA7]" by simp
  with q show ?thesis by auto
qed

section \<open>Receiving\<close>

text \<open>The rings of socket 0 are those of the W5500, so the same view of them serves; the behaviour the
  receive path relies on, with memory for every frame.\<close>

definition rx_chip6 :: "'w w6300_env \<Rightarrow> ('w \<Rightarrow> w5500_view) \<Rightarrow> bool" where
  "rx_chip6 v view \<longleftrightarrow>
     reads6 v view (W6300_REG_SOCK_RX_RSR 0) 2 (\<lambda>k. be16_bytes (k_rsr k)) \<and>
     reads6 v view (W6300_REG_SOCK_RX_RD 0) 2 (\<lambda>k. be16_bytes (k_rx_rd k)) \<and>
     (\<forall>off n. reads6 v view (W6300_MEM_SOCK_RX 0 off) n (\<lambda>k. ring_read (k_rxmem k) off n)) \<and>
     reads6 v view (W6300_REG_SOCK_CR 0) 1 (\<lambda>k. [0]) \<and>
     (\<forall>p. writes6 v view (W6300_REG_SOCK_RX_RD 0) (be16_bytes p) (k_rx_rd_update (\<lambda>_. p))) \<and>
     writes6 v view (W6300_REG_SOCK_CR 0) [W6300_SCR_RECV] rx_commit \<and>
     (\<forall>n w. fst (v_malloc v n w) \<and> view (snd (v_malloc v n w)) = view w) \<and>
     (\<forall>w. view (v_free v w) = view w) \<and>
     (\<forall>f w. view (v_stack_input v f w) = k_up_update (\<lambda>u. u @ [f]) (view w))"

lemma header_total_bytes: "x < 0x800 \<Longrightarrow> header_total (be16_bytes x) = x"
proof -
  assume x: "x < 0x800"
  have t: "take_bit 11 x = x"
    using x by (simp add: word_unat_eq_iff unsigned_take_bit_eq word_less_nat_alt take_bit_nat_eq_self)
  have x11: "bit x n \<Longrightarrow> n < 11" for n by (metis t bit_take_bit_iff)
  have m: "(7 :: u8) = mask 3" by (simp add: mask_eq_exp_minus_1)
  show ?thesis
  proof (rule bit_eqI)
    fix n
    show "bit (header_total (be16_bytes x)) n = bit x n"
      using x11 [of n]
      by (auto simp: header_total_def be16_bytes_def byte_def hi8_def lo8_def W6300_RX_HEADER_LEN_MASK_def m bit_simps)
  qed
qed

text \<open>The first half of both readers of a frame: the bytes pending, the read pointer, the header.\<close>

lemma pending6:
  assumes "rx_chip6 v view" and "0 < fuel"
  obtains w' where "w6300_get_rx_received_size v fuel w = Some ((ESP_OK, k_rsr (view w)), w')" and "view w' = view w"
proof -
  have "reads6 v view (W6300_REG_SOCK_RX_RSR 0) 2 (\<lambda>k. be16_bytes (k_rsr k))"
    using assms(1) by (simp add: rx_chip6_def)
  then obtain w' where "poll_loop fuel (stable_turn_w6300 v (W6300_REG_SOCK_RX_RSR 0)) w = Some ((ESP_OK, k_rsr (view w)), w')"
    and "view w' = view w" by (rule stable_read6 [where f = k_rsr, OF _ assms(2)])
  then show thesis
    by (intro that [of w']) (simp_all add: w6300_get_rx_received_size_def W6300_MACRAW_SOCK_def)
qed

lemma header6:
  assumes "rx_chip6 v view"
  obtains w' where "read_header_w6300 v w =
      (let h = header_total (ring_read (k_rxmem (view w)) (k_rx_rd (view w)) 2) in
       if h < W6300_RX_HEADER_SIZE then ((ESP_ERR_INVALID_SIZE, k_rx_rd (view w), 0), w')
       else ((ESP_OK, k_rx_rd (view w), h - W6300_RX_HEADER_SIZE), w'))" and "view w' = view w"
proof -
  have C: "reads6 v view (W6300_REG_SOCK_RX_RD 0) 2 (\<lambda>k. be16_bytes (k_rx_rd k))"
    "reads6 v view (W6300_MEM_SOCK_RX 0 off) n (\<lambda>k. ring_read (k_rxmem k) off n)" for off n
    using assms by (simp_all add: rx_chip6_def)
  obtain w1 where r1: "w6300_read_u16 v (W6300_REG_SOCK_RX_RD 0) w = ((ESP_OK, k_rx_rd (view w)), w1)" "view w1 = view w"
    by (rule read_u16_obtain [where f = k_rx_rd, OF C(1)])
  obtain w2 where r2: "w6300_read v (W6300_MEM_SOCK_RX 0 (k_rx_rd (view w))) 2 w1 =
      ((ESP_OK, ring_read (k_rxmem (view w1)) (k_rx_rd (view w)) 2), w2)" "view w2 = view w1"
    by (rule reads6_obtain [OF C(2)])
  show thesis
    by (rule that [of w2])
      (simp_all add: read_header_w6300_def w6300_read_frame_header_def w6300_read_buffer_def W6300_MACRAW_SOCK_def
        r1 r2 Let_def)
qed

text \<open>The last part of both: the new read pointer and RECV.\<close>

lemma commit6:
  assumes "rx_chip6 v view"
  obtains w' where "and_then (w6300_write_u16 v (W6300_REG_SOCK_RX_RD W6300_MACRAW_SOCK) p w)
      (w6300_send_command v W6300_SCR_RECV 100) = (ESP_OK, w')"
    and "view w' = rx_commit (k_rx_rd_update (\<lambda>_. p) (view w))"
proof -
  have C: "writes6 v view (W6300_REG_SOCK_RX_RD 0) (be16_bytes p) (k_rx_rd_update (\<lambda>_. p))"
    "writes6 v view (W6300_REG_SOCK_CR 0) [W6300_SCR_RECV] rx_commit"
    "reads6 v view (W6300_REG_SOCK_CR 0) 1 (\<lambda>k. [0])"
    using assms by (simp_all add: rx_chip6_def)
  obtain w1 where r1: "w6300_write v (W6300_REG_SOCK_RX_RD 0) (be16_bytes p) w = (ESP_OK, w1)"
    "view w1 = k_rx_rd_update (\<lambda>_. p) (view w)" by (rule writes6_obtain [OF C(1)])
  obtain w2 where r2: "w6300_send_command v W6300_SCR_RECV 100 w1 = (ESP_OK, w2)" "view w2 = rx_commit (view w1)"
    by (rule command_ok6 [OF C(2,3)])
  show thesis
    by (rule that [of w2]) (simp_all add: w6300_write_u16_def W6300_MACRAW_SOCK_def r1 r2)
qed

text \<open>One turn on a frame of any length the header can express: it is handed up when it is a frame of
  Ethernet, and dropped when it is too short or too long for one.\<close>

definition past_frame :: "bytes \<Rightarrow> w5500_view \<Rightarrow> w5500_view" where
  "past_frame f k = k\<lparr>k_rx_base := k_rx_base k + of_nat (length f + 2), k_rx_rd := k_rx_base k + of_nat (length f + 2),
     k_rsr := k_rsr k - of_nat (length f + 2)\<rparr>"

lemma frame_pieces:
  assumes "rx_holds k (f # fs)"
  shows "ring_read (k_rxmem k) (k_rx_base k) 2 = be16_bytes (of_nat (length f + 2))"
    and "n \<le> length f \<Longrightarrow> ring_read (k_rxmem k) (k_rx_base k + 2) n = take n f"
proof -
  let ?h = "be16_bytes (of_nat (length f + 2))"
  have l: "length ?h = 2" by (simp add: be16_bytes_def)
  have whole: "ring_read (k_rxmem k) (k_rx_base k) (unat (k_rsr k)) = ?h @ f @ concat (map enc_frame fs)"
    using assms by (simp add: rx_holds_def enc_frame_def)
  from ring_read_prefix(1) [OF whole] show "ring_read (k_rxmem k) (k_rx_base k) 2 = ?h" unfolding l .
  from ring_read_prefix(2) [OF whole] have
    "ring_read (k_rxmem k) (k_rx_base k + 2) (unat (k_rsr k) - 2) = take n f @ drop n f @ concat (map enc_frame fs)"
    unfolding l by simp
  from ring_read_prefix(1) [OF this]
  show "n \<le> length f \<Longrightarrow> ring_read (k_rxmem k) (k_rx_base k + 2) n = take n f" by simp
qed

lemma more_frames:
  assumes "rx_holds k (f # fs)" and "length f \<le> 2045"
  shows "(0 < k_rsr k - (of_nat (length f) + 2)) = (fs \<noteq> [])"
proof -
  have "unat (of_nat (length f + 2) :: u16) = length f + 2"
    using assms(2) by (simp only: unat_of_nat) (simp add: take_bit_nat_eq_self)
  then have "unat (k_rsr k - of_nat (length f + 2)) = length (concat (map enc_frame fs))"
    using rx_holds_len [OF assms(1)] by (subst unat_sub) (simp_all add: word_le_nat_alt)
  moreover have "(length (concat (map enc_frame fs)) = 0) = (fs = [])" by (cases fs) auto
  ultimately show ?thesis by (simp add: word_less_nat_alt add.commute)
qed

lemma rx_commit_frame:
  "k_rx_rd k = k_rx_base k \<Longrightarrow> p = k_rx_base k + of_nat (length f + 2) \<Longrightarrow>
     rx_commit (k_rx_rd_update (\<lambda>_. p) k) = past_frame f k"
  by (simp add: rx_commit_def past_frame_def algebra_simps)

lemma read_payload6:
  assumes "rx_chip6 v view" and "rx_holds (view w) (f # fs)" and "n \<le> length f"
  obtains w' where "w6300_read_buffer v n (k_rx_base (view w) + 2) w = ((ESP_OK, take n f), w')" and "view w' = view w"
proof -
  have "reads6 v view (W6300_MEM_SOCK_RX 0 (k_rx_base (view w) + 2)) n (\<lambda>k. ring_read (k_rxmem k) (k_rx_base (view w) + 2) n)"
    using assms(1) by (simp add: rx_chip6_def)
  then obtain w' where "w6300_read v (W6300_MEM_SOCK_RX 0 (k_rx_base (view w) + 2)) n w =
      ((ESP_OK, ring_read (k_rxmem (view w)) (k_rx_base (view w) + 2) n), w')" "view w' = view w"
    by (rule reads6_obtain)
  with frame_pieces(2) [OF assms(2,3)] show thesis
    by (intro that [of w']) (simp_all add: w6300_read_buffer_def W6300_MACRAW_SOCK_def)
qed

lemma header_of_frame:
  assumes "rx_chip6 v view" and "rx_holds (view w) (f # fs)" and "length f \<le> 2045"
  obtains w' where "read_header_w6300 v w = ((ESP_OK, k_rx_base (view w), of_nat (length f)), w')" and "view w' = view w"
proof -
  have u: "unat (of_nat (length f + 2) :: u16) = length f + 2"
    using assms(3) by (simp only: unat_of_nat) (simp add: take_bit_nat_eq_self)
  then have lt: "(of_nat (length f + 2) :: u16) < 0x800" "\<not> (of_nat (length f + 2) :: u16) < W6300_RX_HEADER_SIZE"
    using assms(3) by (simp_all only: word_less_nat_alt W6300_RX_HEADER_SIZE_def) simp_all
  have h: "header_total (ring_read (k_rxmem (view w)) (k_rx_rd (view w)) 2) = of_nat (length f + 2)"
    using assms(2) frame_pieces(1) [OF assms(2)] header_total_bytes [OF lt(1)] by (simp add: rx_holds_def)
  obtain w' where "read_header_w6300 v w = ((ESP_OK, k_rx_rd (view w), of_nat (length f + 2) - W6300_RX_HEADER_SIZE), w')"
    "view w' = view w"
    using header6 [OF assms(1), of w] lt(2) unfolding h Let_def by auto
  with assms(2) show thesis
    by (intro that [of w']) (simp_all add: rx_holds_def W6300_RX_HEADER_SIZE_def)
qed

lemma rx_turn6:
  assumes chip: "rx_chip6 v view" and fuel: "0 < fuel" and holds: "rx_holds (view w) (f # fs)" and len: "length f \<le> 2045"
  obtains w' where "rx_turn_w6300 v fuel m w = Some (m\<lparr>z_packets_remain := (fs \<noteq> [])\<rparr>, w')"
    and "view w' = k_up_update (\<lambda>u. u @ (if frame_ok f then [f] else [])) (past_frame f (view w))"
proof -
  let ?k = "view w" let ?o = "k_rx_base ?k" let ?n = "of_nat (length f) :: u16" let ?N = "of_nat (length f) :: u32"
  have un: "unat ?n = length f" "unat ?N = length f"
    using len by (simp_all add: unat_of_nat take_bit_nat_eq_self)
  have uc: "(ucast ?n :: u32) = ?N" "(ucast ?N :: u16) = ?n"
    using len by (simp_all add: word_unat_eq_iff unsigned_ucast_eq un unat_of_nat take_bit_nat_eq_self)
  have rd: "k_rx_rd ?k = ?o" and rsr: "k_rsr ?k \<noteq> 0" using holds rx_holds_len [OF holds] by (auto simp: rx_holds_def)
  have more: "(0 < k_rsr ?k - (?n + W6300_RX_HEADER_SIZE)) = (fs \<noteq> [])"
    using more_frames [OF holds len] by (simp add: W6300_RX_HEADER_SIZE_def)
  have uo: "(ucast (ucast ?o :: u32) :: u16) = ?o" "(ucast (ucast (k_rsr ?k) :: u32) :: u16) = k_rsr ?k" by simp_all
  obtain w1 where w1: "w6300_get_rx_received_size v fuel w = Some ((ESP_OK, k_rsr ?k), w1)" "view w1 = ?k"
    by (rule pending6 [OF chip fuel])
  obtain w2 where w2: "read_header_w6300 v w1 = ((ESP_OK, ?o, ?n), w2)" "view w2 = ?k"
    using header_of_frame [OF chip, of w1 f fs] holds len w1(2) by metis
  define c where "c = (if ETH_MAX_PACKET_SIZE < ?N then ETH_MAX_PACKET_SIZE else ?N)"
  have uc': "unat c = min 1522 (length f)"
    by (simp add: c_def ETH_MAX_PACKET_SIZE_def word_less_nat_alt un)
  have cif: "(if ETH_MAX_PACKET_SIZE < ucast ?n then ETH_MAX_PACKET_SIZE else ucast ?n) = c"
    by (simp add: c_def uc)
  note sizes = ETH_MAX_PACKET_SIZE_def ETH_MIN_PACKET_SIZE_def ETH_CRC_LEN_def
  show thesis
  proof (cases "length f < 60")
    case True
    then have "c < ETH_MIN_PACKET_SIZE - ETH_CRC_LEN" unfolding word_less_nat_alt uc' by (simp add: sizes)
    then have alloc: "emac_w6300_alloc_recv_buf v fuel ETH_MAX_PACKET_SIZE w = Some ((ESP_ERR_INVALID_SIZE, None, ?N), w2)"
      unfolding emac_w6300_alloc_recv_buf_def w1(1) option.case prod.case w2(1) Let_def cif using rsr by (simp add: uc(1))
    obtain w3 where w3: "w6300_get_rx_received_size v fuel w2 = Some ((ESP_OK, k_rsr ?k), w3)" "view w3 = ?k"
      using pending6 [OF chip fuel, of w2] w2(2) by metis
    obtain w4 where w4: "read_header_w6300 v w3 = ((ESP_OK, ?o, ?n), w4)" "view w4 = ?k"
      using header_of_frame [OF chip, of w3 f fs] holds len w3(2) by metis
    let ?p = "?o + (?n + W6300_RX_HEADER_SIZE)"
    obtain w5 where w5: "and_then (w6300_write_u16 v (W6300_REG_SOCK_RX_RD W6300_MACRAW_SOCK) ?p w4)
        (w6300_send_command v W6300_SCR_RECV 100) = (ESP_OK, w5)" "view w5 = rx_commit (k_rx_rd_update (\<lambda>_. ?p) (view w4))"
      by (rule commit6 [OF chip])
    have "emac_w6300_flush_recv_frame v fuel m w2 = Some (ESP_OK, m\<lparr>z_packets_remain := (fs \<noteq> [])\<rparr>, w5)"
      unfolding emac_w6300_flush_recv_frame_def using w3(1) rsr w4(1) w5(1) more by (simp add: Let_def)
    with alloc have "rx_turn_w6300 v fuel m w = Some (m\<lparr>z_packets_remain := (fs \<noteq> [])\<rparr>, w5)"
      by (simp add: rx_turn_w6300_def)
    moreover have "view w5 = past_frame f ?k"
      using w5(2) rx_commit_frame [OF rd, of ?p f] by (simp add: w4(2) W6300_RX_HEADER_SIZE_def algebra_simps)
    ultimately show thesis using True by (intro that [of w5]) (simp_all add: frame_ok_def)
  next
    case False
    then have "\<not> c < ETH_MIN_PACKET_SIZE - ETH_CRC_LEN" unfolding word_less_nat_alt uc' by (simp add: sizes)
    moreover obtain w3 where w3: "v_malloc v c w2 = (True, w3)" "view w3 = ?k"
    proof -
      have "fst (v_malloc v c w2)" "view (snd (v_malloc v c w2)) = view w2"
        using chip unfolding rx_chip6_def by blast+
      then show thesis using that [of "snd (v_malloc v c w2)"] w2(2) by (simp add: prod_eq_iff)
    qed
    ultimately have alloc: "emac_w6300_alloc_recv_buf v fuel ETH_MAX_PACKET_SIZE w =
        Some ((ESP_OK, Some \<lparr>j_offset = ucast ?o, j_copy_len = c, j_rx_len = ?N, j_remain = ucast (k_rsr ?k)\<rparr>, ?N), w3)"
      unfolding emac_w6300_alloc_recv_buf_def w1(1) option.case prod.case w2(1) Let_def cif using rsr by (simp add: uc(1))
    have c16: "unat (ucast c :: u16) = min 1522 (length f)"
      by (simp only: unsigned_ucast_eq unsigned_take_bit_eq uc') (simp add: take_bit_nat_eq_self)
    then have c32: "(ucast (ucast c :: u16) :: u32) = c"
      unfolding word_unat_eq_iff uc' by (simp only: unsigned_ucast_eq unsigned_take_bit_eq uc') (simp add: take_bit_nat_eq_self)
    obtain w4 where w4: "w6300_read_buffer v (min 1522 (length f)) (?o + 2) w3 = ((ESP_OK, take (min 1522 (length f)) f), w4)"
      "view w4 = ?k"
      using read_payload6 [OF chip, of w3 f fs "min 1522 (length f)"] holds w3(2) by (metis min.cobounded2)
    let ?p = "?o + W6300_RX_HEADER_SIZE + ?n"
    obtain w5 where w5: "and_then (w6300_write_u16 v (W6300_REG_SOCK_RX_RD W6300_MACRAW_SOCK) ?p w4)
        (w6300_send_command v W6300_SCR_RECV 100) = (ESP_OK, w5)" "view w5 = rx_commit (k_rx_rd_update (\<lambda>_. ?p) (view w4))"
      by (rule commit6 [OF chip])
    have pl: "receive_payload_w6300 v ?o (ucast c) ?n w3 = ((ESP_OK, take (min 1522 (length f)) f), w5)"
      unfolding receive_payload_w6300_def c16 using w4(1) w5(1) by (simp add: W6300_RX_HEADER_SIZE_def)
    have rcv: "emac_w6300_receive v fuel \<lparr>j_offset = ucast ?o, j_copy_len = c, j_rx_len = ?N, j_remain = ucast (k_rsr ?k)\<rparr>
        W6300_ETH_MAC_RX_BUF_SIZE_AUTO m w3 =
        Some ((ESP_OK, take (min 1522 (length f)) f, c), m\<lparr>z_packets_remain := (fs \<noteq> [])\<rparr>, w5)"
      unfolding emac_w6300_receive_def using pl more by (simp add: Let_def uo uc c32)
    have nz: "c \<noteq> 0" using uc' False by (metis unat_0 not_less_zero min_def zero_less_numeral)
    have v5: "view w5 = past_frame f ?k"
      using w5(2) rx_commit_frame [OF rd, of ?p f] by (simp add: w4(2) W6300_RX_HEADER_SIZE_def algebra_simps)
    have cmp: "c < ?N \<longleftrightarrow> 1522 < length f" unfolding word_less_nat_alt uc' un by auto
    let ?w6 = "if 1522 < length f then v_free v w5 else v_stack_input v (take (min 1522 (length f)) f) w5"
    have "rx_turn_w6300 v fuel m w = Some (m\<lparr>z_packets_remain := (fs \<noteq> [])\<rparr>, ?w6)"
      unfolding rx_turn_w6300_def using alloc rcv nz cmp by (simp del: ucast_id)
    moreover have "view ?w6 = k_up_update (\<lambda>u. u @ (if frame_ok f then [f] else [])) (past_frame f ?k)"
      using chip False v5 by (simp add: rx_chip6_def frame_ok_def)
    ultimately show thesis by (rule that)
  qed
qed

lemma past_frame_holds:
  assumes "rx_holds k (f # fs)" and "length f \<le> 2045"
  shows "rx_holds (k_up_update g (past_frame f k)) fs"
proof -
  have "unat (of_nat (length f + 2) :: u16) = length f + 2"
    using assms(2) by (simp only: unat_of_nat) (simp add: take_bit_nat_eq_self)
  then have "unat (k_rsr k - of_nat (length f + 2)) = unat (k_rsr k) - length (enc_frame f)"
    using rx_holds_len [OF assms(1)] by (subst unat_sub) (simp_all add: word_le_nat_alt)
  moreover have "ring_read (k_rxmem k) (k_rx_base k + of_nat (length (enc_frame f))) (unat (k_rsr k) - length (enc_frame f)) =
      concat (map enc_frame fs)"
    by (rule ring_read_prefix(2)) (use assms(1) in \<open>simp add: rx_holds_def\<close>)
  ultimately show ?thesis by (simp add: rx_holds_def past_frame_def)
qed

text \<open>C20. The receive loop of the W6300 drains the chip whatever the lengths of the frames: it ends, hands
  up exactly those whose length Ethernet allows, in order and unchanged, drops the others whole, and
  leaves the ring empty, wherever the 16-bit pointers stand.\<close>

theorem w6300_rx_loop_delivers:
  assumes "rx_chip6 v view" and "0 < fuel" and "rx_holds (view w) fs" and "\<forall>f \<in> set fs. length f \<le> 2045"
    and "fs \<noteq> []" and "length fs \<le> n"
  shows "\<exists>m' w'. rx_loop_w6300 v fuel n m w = Some (m', w') \<and> k_up (view w') = k_up (view w) @ filter frame_ok fs \<and>
     k_rsr (view w') = 0 \<and> k_rx_rd (view w') = k_rx_base (view w') \<and> \<not> z_packets_remain m'"
  using assms(3-6)
proof (induction fs arbitrary: m w n)
  case Nil
  then show ?case by simp
next
  case (Cons f fs)
  obtain n' where n: "n = Suc n'" using Cons.prems(4) by (cases n) auto
  have f: "length f \<le> 2045" using Cons.prems(2) by simp
  obtain w1 where t: "rx_turn_w6300 v fuel m w = Some (m\<lparr>z_packets_remain := (fs \<noteq> [])\<rparr>, w1)"
    and v1: "view w1 = k_up_update (\<lambda>u. u @ (if frame_ok f then [f] else [])) (past_frame f (view w))"
    by (rule rx_turn6 [OF assms(1,2) Cons.prems(1) f])
  have holds: "rx_holds (view w1) fs" unfolding v1 by (rule past_frame_holds [OF Cons.prems(1) f])
  have up: "k_up (view w1) = k_up (view w) @ (if frame_ok f then [f] else [])" by (simp add: v1 past_frame_def)
  show ?case
  proof (cases "fs = []")
    case True
    have "unat (k_rsr (view w1)) = 0" using rx_holds_len [OF holds] True by simp
    then have "k_rsr (view w1) = 0" by (simp add: unat_eq_0)
    with True t up n holds show ?thesis by (simp add: rx_holds_def)
  next
    case False
    from Cons.IH [OF holds _ False, of n' "m\<lparr>z_packets_remain := True\<rparr>"] Cons.prems(2,4) n
    obtain m' w' where "rx_loop_w6300 v fuel n' (m\<lparr>z_packets_remain := True\<rparr>) w1 = Some (m', w')"
      "k_up (view w') = k_up (view w1) @ filter frame_ok fs" "k_rsr (view w') = 0" "k_rx_rd (view w') = k_rx_base (view w')"
      "\<not> z_packets_remain m'" by auto
    with False t up n show ?thesis by simp
  qed
qed

text \<open>A header whose length is below the two bytes it counts itself.\<close>

definition short_header :: "w5500_view \<Rightarrow> bool" where
  "short_header k \<longleftrightarrow> k_rsr k \<noteq> 0 \<and> header_total (ring_read (k_rxmem k) (k_rx_rd k) 2) < W6300_RX_HEADER_SIZE"

text \<open>A corrupt header that claims less than its own two bytes stalls the receiver: the flush that is
  to drop the frame reads the same header and fails on it too, so the round ends with the read
  pointer, the ring and the bytes pending as they were, and every later round meets it again.\<close>

theorem w6300_short_header_stalls:
  assumes "rx_chip6 v view" and "0 < fuel" and "short_header (view w)"
  shows "\<exists>w'. rx_loop_w6300 v fuel (Suc n) m w = Some (m\<lparr>z_packets_remain := False\<rparr>, w') \<and>
    view w' = view w \<and> short_header (view w')"
proof -
  let ?k = "view w"
  have rsr: "k_rsr ?k \<noteq> 0" and h: "header_total (ring_read (k_rxmem ?k) (k_rx_rd ?k) 2) < W6300_RX_HEADER_SIZE"
    using assms(3) by (simp_all add: short_header_def)
  obtain w1 where w1: "w6300_get_rx_received_size v fuel w = Some ((ESP_OK, k_rsr ?k), w1)" "view w1 = ?k"
    by (rule pending6 [OF assms(1,2)])
  obtain w2 where w2: "read_header_w6300 v w1 = ((ESP_ERR_INVALID_SIZE, k_rx_rd ?k, 0), w2)" "view w2 = ?k"
    using header6 [OF assms(1), of w1] w1(2) h by (auto simp: Let_def)
  obtain w3 where w3: "w6300_get_rx_received_size v fuel w2 = Some ((ESP_OK, k_rsr ?k), w3)" "view w3 = ?k"
    using pending6 [OF assms(1,2), of w2] w2(2) by metis
  obtain w4 where w4: "read_header_w6300 v w3 = ((ESP_ERR_INVALID_SIZE, k_rx_rd ?k, 0), w4)" "view w4 = ?k"
    using header6 [OF assms(1), of w3] w3(2) h by (auto simp: Let_def)
  have "emac_w6300_alloc_recv_buf v fuel ETH_MAX_PACKET_SIZE w = Some ((ESP_ERR_INVALID_SIZE, None, 0), w2)"
    unfolding emac_w6300_alloc_recv_buf_def using w1(1) rsr w2(1) by simp
  moreover have "emac_w6300_flush_recv_frame v fuel m w2 = Some (ESP_ERR_INVALID_SIZE, m\<lparr>z_packets_remain := False\<rparr>, w4)"
    unfolding emac_w6300_flush_recv_frame_def using w3(1) rsr w4(1) by (simp add: Let_def)
  ultimately have "rx_loop_w6300 v fuel (Suc n) m w = Some (m\<lparr>z_packets_remain := False\<rparr>, w4)"
    by (simp add: rx_turn_w6300_def)
  with w4(2) assms(3) show ?thesis by auto
qed

text \<open>A chip with the rings behind the same frame decoder.\<close>

definition sim_ring_regs :: "u32 \<Rightarrow> nat \<Rightarrow> w5500_view \<Rightarrow> bytes" where
  "sim_ring_regs a n k =
     (if a AND 0xFF = 3 then ring_read (k_rxmem k) (ucast (drop_bit 8 a)) n
      else if a = W6300_REG_SOCK_RX_RSR 0 then be16_bytes (k_rsr k)
      else if a = W6300_REG_SOCK_RX_RD 0 then be16_bytes (k_rx_rd k) else [0])"

definition sim_ring_write :: "u32 \<Rightarrow> bytes \<Rightarrow> w5500_view \<Rightarrow> w5500_view" where
  "sim_ring_write a d k =
     (if a = W6300_REG_SOCK_RX_RD 0 then k_rx_rd_update (\<lambda>_. be16_at d) k
      else if a = W6300_REG_SOCK_CR 0 \<and> d = [W6300_SCR_RECV] then rx_commit k else k)"

definition sim_rx6 :: "w5500_view w6300_env" where
  "sim_rx6 = sim_bus sim_ring_regs sim_ring_write False (\<lambda>f. k_up_update (\<lambda>u. u @ [f]))"

lemma rx_buffer_address:
  "W6300_MEM_SOCK_RX 0 off AND 0xFF = 3" "ucast (drop_bit 8 (W6300_MEM_SOCK_RX 0 off)) = off"
proof -
  have m: "(0xFF :: u32) = mask 8" by (simp add: mask_eq_exp_minus_1)
  have a: "W6300_MEM_SOCK_RX 0 off = push_bit 8 (ucast off) OR 3" by (simp add: w6300_regs w6300_layout)
  have e: "(3 :: u32) = mask 2" by (simp add: mask_eq_exp_minus_1)
  show "W6300_MEM_SOCK_RX 0 off AND 0xFF = 3"
    unfolding a m e by (rule bit_eqI) (auto simp only: bit_mask_iff bit_and_iff bit_or_iff bit_push_bit_iff)
  show "ucast (drop_bit 8 (W6300_MEM_SOCK_RX 0 off)) = off"
    unfolding a e by (rule bit_eqI) (auto simp: bit_simps dest: bit_imp_le_length)
qed

lemma sim_rx_chip6: "rx_chip6 sim_rx6 id"
proof -
  have r: "W6300_REG_SOCK_RX_RSR 0 AND 0xFF < 32" "W6300_REG_SOCK_RX_RD 0 AND 0xFF < 32" "W6300_REG_SOCK_CR 0 AND 0xFF < 32"
    "W6300_MEM_SOCK_RX 0 off AND 0xFF < 32" for off
    by (simp_all add: rx_buffer_address) (simp_all add: w6300_regs w6300_layout)
  have v: "sim_ring_regs (W6300_REG_SOCK_RX_RSR 0) n k = be16_bytes (k_rsr k)"
    "sim_ring_regs (W6300_REG_SOCK_RX_RD 0) n k = be16_bytes (k_rx_rd k)"
    "sim_ring_regs (W6300_REG_SOCK_CR 0) n k = [0]"
    "sim_ring_write (W6300_REG_SOCK_RX_RD 0) (be16_bytes p) k = k_rx_rd_update (\<lambda>_. p) k"
    "sim_ring_write (W6300_REG_SOCK_CR 0) [W6300_SCR_RECV] k = rx_commit k" for n k p
    by (simp_all add: sim_ring_regs_def sim_ring_write_def rx_buffer_address) (simp_all add: w6300_regs w6300_layout)
  have b: "sim_ring_regs (W6300_MEM_SOCK_RX 0 off) n k = ring_read (k_rxmem k) off n" for off n k
    unfolding sim_ring_regs_def rx_buffer_address by simp
  show ?thesis
    by (simp add: rx_chip6_def reads6_def writes6_def sim_rx6_def sim_bus_access r v b) (simp add: sim_bus_def)
qed

theorem w6300_rx_loop_delivers_witness:
  "\<exists>m' k'. rx_loop_w6300 sim_rx6 1 3 sim_mac6 (sim_ring [replicate 60 1, replicate 8 9, replicate 61 2]) = Some (m', k') \<and>
     k_up k' = [replicate 60 1, replicate 61 2]"
proof -
  let ?fs = "[replicate 60 1, replicate 8 9, replicate 61 2] :: bytes list"
  have h: "rx_holds (id (sim_ring ?fs)) ?fs" using sim_ring_holds [of ?fs] by simp
  have "k_up (id (sim_ring ?fs)) = []" by (simp add: sim_ring_def Let_def)
  moreover have "\<forall>f \<in> set ?fs. length f \<le> 2045" "?fs \<noteq> []" "length ?fs \<le> 3" by simp_all
  moreover have "filter frame_ok ?fs = [replicate 60 1, replicate 61 2]" by (simp add: frame_ok_def)
  ultimately show ?thesis using w6300_rx_loop_delivers [OF sim_rx_chip6 _ h, of 1 3 sim_mac6] by auto
qed

theorem w6300_short_header_stalls_witness:
  "\<exists>k'. rx_loop_w6300 sim_rx6 1 9 sim_mac6 ((sim_ring [])\<lparr>k_rsr := 64\<rparr>) = Some (sim_mac6\<lparr>z_packets_remain := False\<rparr>, k') \<and>
     k_rsr k' = 64"
proof -
  have "ring_read (ring_write 0xFFF0 [] (\<lambda>_. 0)) 0xFFF0 2 = [0, 0]"
    by (simp add: ring_read_def ring_write_def numeral_2_eq_2)
  moreover have "header_total [0, 0] < W6300_RX_HEADER_SIZE" by code_simp
  ultimately have "short_header (id ((sim_ring [])\<lparr>k_rsr := 64\<rparr>))"
    by (simp add: short_header_def sim_ring_def Let_def)
  from w6300_short_header_stalls [OF sim_rx_chip6 _ this, of 1 8 sim_mac6] show ?thesis by auto
qed

end
