(* ===== verification/W6300_New.thy ===== *)
theory W6300_New
  imports W5500_New W6300_Props
begin

text \<open>
  The rest of \<open>esp_eth_mac_w6300.c\<close>: the default QSPI driver, and the construction and deletion of a
  MAC instance. The QSPI transport is compared with the one of the TOE build.
\<close>

section \<open>The default QSPI driver\<close>

definition W6300_SPI_LOCK_TIMEOUT_MS :: u32 where "W6300_SPI_LOCK_TIMEOUT_MS = 50"

text \<open>The device configuration: the clock, the half-duplex flag, and the bits of the command and address
  phases.\<close>

definition w6300_spi_init ::
  "platform \<Rightarrow> int \<Rightarrow> int \<Rightarrow> bool \<Rightarrow> nat \<times> nat \<Rightarrow> spi_st \<Rightarrow> eth_spi_info_t option \<times> spi_st" where
  "w6300_spi_init pf host clock halfduplex bits s =
     (case idf pf Calloc s of (e, mem, s1) \<Rightarrow>
        if e \<noteq> ESP_OK then (None, s1)
        else if \<not> halfduplex then (None, idf_do pf (FreeMem mem) s1)
        else if bits \<noteq> (0, 0) \<and> bits \<noteq> (8, 24) then (None, idf_do pf (FreeMem mem) s1)
        else case idf pf (AddDevice host clock True) s1 of (e1, hdl, s2) \<Rightarrow>
          if e1 \<noteq> ESP_OK then (None, idf_do pf (FreeMem mem) s2)
          else case idf pf MutexCreate s2 of (e2, lock, s3) \<Rightarrow>
            if e2 \<noteq> ESP_OK then (None, idf_do pf (FreeMem mem) s3)
            else (Some \<lparr>e_mem = mem, e_hdl = hdl, e_lock = lock\<rparr>, s3))"

definition w6300_spi_deinit :: "platform \<Rightarrow> eth_spi_info_t \<Rightarrow> spi_st \<Rightarrow> esp_err_t \<times> spi_st" where
  "w6300_spi_deinit pf spi s = (ESP_OK, eth_spi_release pf spi s)"

definition w6300_spi_lock :: "platform \<Rightarrow> eth_spi_info_t \<Rightarrow> spi_st \<Rightarrow> bool \<times> spi_st" where
  "w6300_spi_lock pf spi s =
     (case idf pf (Take (e_lock spi) (pf_ticks pf W6300_SPI_LOCK_TIMEOUT_MS)) s of (e, _, s1) \<Rightarrow> (e = ESP_OK, s1))"

definition w6300_spi_unlock :: "platform \<Rightarrow> eth_spi_info_t \<Rightarrow> spi_st \<Rightarrow> spi_st" where
  "w6300_spi_unlock pf spi s = idf_do pf (Give (e_lock spi)) s"

text \<open>\<open>quad\<close> is \<open>CONFIG_WSM_DRIVER_QSPI_QUAD\<close>, \<open>tx\<close> and \<open>rx\<close> say which of the two buffers is there. The
  bytes returned are those stored in the receive buffer: none unless the transfer worked.\<close>

definition w6300_qspi_xfer ::
  "bool \<Rightarrow> platform \<Rightarrow> eth_spi_info_t \<Rightarrow> u32 \<Rightarrow> u32 \<Rightarrow> bytes option \<Rightarrow> bool \<Rightarrow> nat \<Rightarrow> spi_st \<Rightarrow> (esp_err_t \<times> bytes) \<times> spi_st" where
  "w6300_qspi_xfer quad pf spi cmd addr tx rx len s =
     (case w6300_spi_lock pf spi s of (ok, s1) \<Rightarrow>
        if \<not> ok then ((ESP_ERR_TIMEOUT, []), s1)
        else let c = TransmitQspi (e_hdl spi) (QspiFrame (ucast cmd) addr (map_option (take len) tx)
                       (if rx then len * 8 else 0) quad) in
          case idf pf c s1 of (e, _, s2) \<Rightarrow>
            (if e \<noteq> ESP_OK then (ESP_FAIL, []) else (ESP_OK, if rx then pf_rx pf (calls s1) c else []),
             w6300_spi_unlock pf spi s2))"

definition w6300_spi_write ::
  "bool \<Rightarrow> platform \<Rightarrow> eth_spi_info_t \<Rightarrow> u32 \<Rightarrow> u32 \<Rightarrow> bytes \<Rightarrow> spi_st \<Rightarrow> esp_err_t \<times> spi_st" where
  "w6300_spi_write quad pf spi cmd addr value s =
     (case w6300_qspi_xfer quad pf spi cmd addr (Some value) False (length value) s of ((e, _), s1) \<Rightarrow> (e, s1))"

definition w6300_spi_read ::
  "bool \<Rightarrow> platform \<Rightarrow> eth_spi_info_t \<Rightarrow> u32 \<Rightarrow> u32 \<Rightarrow> nat \<Rightarrow> spi_st \<Rightarrow> (esp_err_t \<times> bytes) \<times> spi_st" where
  "w6300_spi_read quad pf spi cmd addr len s = w6300_qspi_xfer quad pf spi cmd addr None True len s"

section \<open>Construction and deletion\<close>

record eth_w6300_config_t =
  x_int_gpio_num :: int
  x_poll_period_ms :: u32
  x_spi_host_id :: int
  x_clock_hz :: int
  x_halfduplex :: bool
  x_bits :: "nat \<times> nat"
  x_custom_spi_driver :: bool

definition spi_ctx_init_w6300 :: "platform \<Rightarrow> eth_w6300_config_t \<Rightarrow> spi_st \<Rightarrow> spi_ctx option \<times> spi_st" where
  "spi_ctx_init_w6300 pf cfg s =
     (if x_custom_spi_driver cfg
      then (case idf pf CustomInit s of (e, h, s1) \<Rightarrow> (if e = ESP_OK then Some (SpiCustom h) else None, s1))
      else (case w6300_spi_init pf (x_spi_host_id cfg) (x_clock_hz cfg) (x_halfduplex cfg) (x_bits cfg) s of
              (c, s1) \<Rightarrow> (map_option SpiDefault c, s1)))"

definition esp_eth_mac_new_w6300 ::
  "platform \<Rightarrow> eth_w6300_config_t option \<Rightarrow> u32 option \<Rightarrow> spi_st \<Rightarrow> (emac_w6300_t \<times> mac_handles) option \<times> spi_st" where
  "esp_eth_mac_new_w6300 pf config mac_config s =
     (case (config, mac_config) of
        (Some cfg, Some sw_reset_timeout_ms) \<Rightarrow>
          if (0 \<le> x_int_gpio_num cfg) = (0 < x_poll_period_ms cfg) then (None, s)
          else let polled = (x_int_gpio_num cfg < 0);
                   m = \<lparr>z_eth = False, z_sw_reset_timeout_ms = sw_reset_timeout_ms, z_int_gpio_num = x_int_gpio_num cfg,
                        z_poll_timer = polled, z_poll_period_ms = x_poll_period_ms cfg, z_addr = replicate 6 0,
                        z_packets_remain = False, z_mcast_cnt = 0, z_tx_tmo = W6300_100M_TX_TMO_US\<rparr>
               in case mac_build pf (spi_ctx_init_w6300 pf cfg) polled s of (r, s1) \<Rightarrow> (map_option (Pair m) r, s1)
      | _ \<Rightarrow> (None, s))"

definition emac_w6300_del :: "platform \<Rightarrow> mac_handles \<Rightarrow> spi_st \<Rightarrow> esp_err_t \<times> spi_st" where
  "emac_w6300_del pf i s = (ESP_OK, mac_del pf i s)"

text \<open>Behind the checks on the device configuration, the initialisation takes and gives back what that of
  the W5500 does.\<close>

lemma w6300_ctx_init_grown:
  assumes "spi_ctx_init_w6300 pf cfg s = (c, s')" and "mutexes_ok pf"
  shows "grown s s' (held_ctx c)"
proof (cases "x_custom_spi_driver cfg")
  case True
  obtain e h u where i: "idf pf CustomInit s = (e, h, u)" by (metis prod_cases3)
  have "grown s u (\<lambda>r. if e = ESP_OK then one (RCustom h) r else 0)" by (rule grown_take [OF i]) simp
  with assms(1) i True show ?thesis by (auto simp: spi_ctx_init_w6300_def held_ctx_def elim: grown_eq)
next
  case False
  obtain e mem s1 where i1: "idf pf Calloc s = (e, mem, s1)" by (metis prod_cases3)
  obtain e1 hdl s2 where i2: "idf pf (AddDevice (x_spi_host_id cfg) (x_clock_hz cfg) True) s1 = (e1, hdl, s2)" by (metis prod_cases3)
  obtain e2 lock s3 where i3: "idf pf MutexCreate s2 = (e2, lock, s3)" by (metis prod_cases3)
  have e2: "e2 = ESP_OK" using grown_idf(3) [OF i3] assms(2) by (simp add: mutexes_ok_def)
  have g1: "grown s s1 (\<lambda>r. if e = ESP_OK then one (RMem mem) r else 0)" by (rule grown_take [OF i1]) simp
  have g2: "grown s1 s2 (\<lambda>r. if e1 = ESP_OK then one (RDev hdl) r else 0)" by (rule grown_take [OF i2]) simp
  have g3: "grown s2 s3 (\<lambda>r. if e2 = ESP_OK then one (RMutex lock) r else 0)" by (rule grown_take [OF i3]) simp
  have f: "grown u (idf_do pf (FreeMem mem) u) (\<lambda>r. - one (RMem mem) r)" for u by (rule grown_give) simp
  let ?bad = "\<not> x_halfduplex cfg \<or> x_bits cfg \<noteq> (0, 0) \<and> x_bits cfg \<noteq> (8, 24)"
  have run: "(c, s') = (if e \<noteq> ESP_OK then (None, s1) else if ?bad then (None, idf_do pf (FreeMem mem) s1)
      else if e1 \<noteq> ESP_OK then (None, idf_do pf (FreeMem mem) s2)
      else (Some (SpiDefault \<lparr>e_mem = mem, e_hdl = hdl, e_lock = lock\<rparr>), s3))"
    using assms(1) [symmetric] e2 by (auto simp: spi_ctx_init_w6300_def w6300_spi_init_def False i1 i2 i3)
  consider (mem) "e \<noteq> ESP_OK" | (bad) "e = ESP_OK" "?bad" | (dev) "e = ESP_OK" "\<not> ?bad" "e1 \<noteq> ESP_OK"
    | (ok) "e = ESP_OK" "\<not> ?bad" "e1 = ESP_OK" by blast
  then show ?thesis
  proof cases
    case mem
    with run grown_eq [OF g1] show ?thesis by (auto simp: held_ctx_def)
  next
    case bad
    with run grown_eq [OF grown_trans [OF g1 f]] show ?thesis by (auto simp: held_ctx_def)
  next
    case dev
    then have "c = None" "s' = idf_do pf (FreeMem mem) s2" using run by auto
    then show ?thesis using grown_eq [OF grown_trans [OF g1 grown_trans [OF g2 f]]] dev by (simp add: held_ctx_def)
  next
    case ok
    then have "c = Some (SpiDefault \<lparr>e_mem = mem, e_hdl = hdl, e_lock = lock\<rparr>)" "s' = s3" using run by auto
    then show ?thesis using grown_eq [OF grown_trans [OF g1 grown_trans [OF g2 g3]]] ok e2 by (simp add: held_ctx_def)
  qed
qed

interpretation w6300_ctor: mac_ctor spi_ctx_init_w6300 mutexes_ok
  by unfold_locales (rule w6300_ctx_init_grown)

text \<open>As for the W5500, a failed construction gives everything back and deletion what was held.\<close>

lemma mac_new_w6300_all_or_nothing:
  assumes "handles_ok pf" and "mutexes_ok pf" and "esp_eth_mac_new_w6300 pf config mac_config s = (r, s1)"
  shows "(case r of None \<Rightarrow> grown s s1 (\<lambda>_. 0)
    | Some (m, i) \<Rightarrow> grown s s1 (held_inst i) \<and> grown s (snd (emac_w6300_del pf i s1)) (\<lambda>_. 0))"
proof (cases "\<exists>cfg tmo. config = Some cfg \<and> mac_config = Some tmo \<and> (0 \<le> x_int_gpio_num cfg) \<noteq> (0 < x_poll_period_ms cfg)")
  case False
  with assms(3) have "r = None" "s1 = s"
    by (auto simp: esp_eth_mac_new_w6300_def split: option.splits if_splits)
  then show ?thesis by (simp add: grown_refl)
next
  case True
  then obtain cfg tmo where cfg: "config = Some cfg" "mac_config = Some tmo"
    "\<not> ((0 \<le> x_int_gpio_num cfg) = (0 < x_poll_period_ms cfg))" by blast
  obtain q u where b: "mac_build pf (spi_ctx_init_w6300 pf cfg) (x_int_gpio_num cfg < 0) s = (q, u)" by (metis surj_pair)
  have r: "(q = None) = (r = None)" "\<And>m i. r = Some (m, i) \<Longrightarrow> q = Some i" "s1 = u"
    using assms(3) [unfolded esp_eth_mac_new_w6300_def cfg(1,2) option.case prod.case Let_def if_not_P [OF cfg(3)] b] by auto
  note built = w6300_ctor.build_all_or_nothing [OF assms(1,2) b]
  show ?thesis
  proof (cases r)
    case None
    with built r show ?thesis by simp
  next
    case (Some p)
    obtain m i where p: "p = (m, i)" by (cases p)
    then have q: "q = Some i" using r(2) Some by blast
    note w6300_ctor.build_then_delete [OF assms(1,2) b [unfolded q]]
    with built q Some p r(3) show ?thesis by (simp add: emac_w6300_del_def)
  qed
qed

section \<open>The two transports of the W6300\<close>

text \<open>The frames a run has put on the bus.\<close>

fun frames :: "event list \<Rightarrow> spi_frame list" where
  "frames [] = []"
| "frames ((Transmit d f, e, h) # evs) = f # frames evs"
| "frames ((TransmitQspi d f, e, h) # evs) = f # frames evs"
| "frames (ev # evs) = frames evs"

lemma frames_append [simp]: "frames (xs @ ys) = frames xs @ frames ys"
  by (induction xs rule: frames.induct) simp_all

text \<open>The register access of the MAC driver over its own transport.\<close>

definition qspi_env :: "platform \<Rightarrow> bool \<Rightarrow> eth_spi_info_t \<Rightarrow> spi_st w6300_env \<Rightarrow> spi_st w6300_env" where
  "qspi_env pf quad spi v = v\<lparr>v_read := w6300_spi_read quad pf spi, v_write := w6300_spi_write quad pf spi, v_quad := quad\<rparr>"

lemma xfer_frames:
  assumes "\<And>evs. pf_err pf evs (Take (e_lock spi) (pf_ticks pf W6300_SPI_LOCK_TIMEOUT_MS)) = ESP_OK"
  shows "frames (calls (snd (w6300_qspi_xfer quad pf spi cmd addr tx rx len s))) =
    frames (calls s) @ [QspiFrame (ucast cmd) addr (map_option (take len) tx) (if rx then len * 8 else 0) quad]"
  by (simp add: w6300_qspi_xfer_def w6300_spi_lock_def w6300_spi_unlock_def idf_do_def idf_def Let_def assms)

lemma toe_xfer_frames:
  assumes "0 < len" and "len < 65536"
  shows "frames (calls (snd (wizchip_qspi_xfer b pf opcode addr tx rx (of_nat len) s))) =
    frames (calls s) @ [QspiFrame opcode (push_bit 8 (ucast addr)) (map_option (take len) tx) (if rx then len * 8 else 0) (b_quad b)]"
proof -
  have u: "unat (of_nat len :: u16) = len" using assms(2) by (simp add: unat_of_nat take_bit_nat_eq_self)
  then have "(of_nat len :: u16) \<noteq> 0" using assms(1) by (metis less_numeral_extra(3) unat_0)
  then show ?thesis
    by (simp add: wizchip_qspi_xfer_def idf_transmit_def idf_def Let_def u)
qed


definition sim_wire :: "spi_st w6300_env" where
  "sim_wire = qspi_env (sim_pf []) True \<lparr>e_mem = 1, e_hdl = 2, e_lock = 3\<rparr> (sim_bus (\<lambda>_ _ _. []) (\<lambda>_ _ s. s) True (\<lambda>_ s. s))"


end
