(* ===== verification/Net_Tcp.thy ===== *)
theory Net_Tcp
  imports Net_Host
begin

text \<open>
  What the application tasks add to the socket vtable: \<open>errno\<close>, the millisecond clock and the delay
  of the scheduler, and the stream calls. The interface is a locale over \<open>net_sock\<close>; the TOE build
  provides it, with \<open>errno\<close> kept beside the state of the descriptor layer. The loops of the tasks
  run a body, which may itself fail to return, until it gives a value.
\<close>

section \<open>Loops over calls that may not return\<close>

text \<open>The body gives \<open>None\<close> when a call inside it did not return. A loop is \<open>None\<close> as well when it
  has not ended after the number of turns given.\<close>

fun turns :: "nat \<Rightarrow> ('s \<Rightarrow> ('r option \<times> 's) option) \<Rightarrow> 's \<Rightarrow> ('r \<times> 's) option" where
  "turns 0 body s = None"
| "turns (Suc n) body s =
     (case body s of None \<Rightarrow> None | Some (Some r, s') \<Rightarrow> Some (r, s')
      | Some (None, s') \<Rightarrow> turns n body s')"

lemma turns_rule:
  assumes "turns n body s = Some (r, s')" and "I s"
    and "\<And>t t'. I t \<Longrightarrow> body t = Some (None, t') \<Longrightarrow> I t'"
    and "\<And>t q t'. I t \<Longrightarrow> body t = Some (Some q, t') \<Longrightarrow> Q q t'"
  shows "Q r s'"
  using assms(1,2)
proof (induction n arbitrary: s)
  case 0
  then show ?case by simp
next
  case (Suc n)
  then show ?case
    using assms(3,4) by (auto split: prod.splits option.splits)
qed

lemma turns_mono: "turns n body s = Some x \<Longrightarrow> n \<le> m \<Longrightarrow> turns m body s = Some x"
proof (induction n arbitrary: s m)
  case 0
  then show ?case by simp
next
  case (Suc n)
  then obtain k where "m = Suc k" "n \<le> k" by (cases m) auto
  with Suc show ?case by (auto split: prod.splits option.splits)
qed

text \<open>A loop whose body returns and gets nearer to its end returns.\<close>

lemma turns_total:
  assumes "I s" and "mu s < n"
    and "\<And>t. I t \<Longrightarrow> \<exists>q t'. body t = Some (q, t') \<and> (q = None \<longrightarrow> I t' \<and> mu t' < mu t)"
  shows "\<exists>r s'. turns n body s = Some (r, s')"
  using assms(1,2)
proof (induction n arbitrary: s)
  case 0
  then show ?case by simp
next
  case (Suc n)
  obtain q t where t: "body s = Some (q, t)" "q = None \<longrightarrow> I t \<and> mu t < mu s"
    using assms(3) [OF Suc.prems(1)] by blast
  with Suc.IH [of t] Suc.prems(2) show ?case by (cases q) auto
qed

section \<open>The interface\<close>

datatype delay = Ticks nat | Millis nat

record 'w host =
  h_sock :: "'w net_sock_ops"
  h_errno :: "'w \<Rightarrow> errno"
  h_now_ms :: "'w \<Rightarrow> u32 \<times> 'w"
  h_delay :: "delay \<Rightarrow> 'w \<Rightarrow> 'w"

locale tcp_host = net_sock "h_sock h" inv fds
  for h :: "'w host" and inv :: "'w \<Rightarrow> bool" and fds :: "'w \<Rightarrow> int set" +
  assumes connect_law: "inv w \<Longrightarrow> ops_connect (h_sock h) fd a w = (r, w') \<Longrightarrow> inv w' \<and> fds w' = fds w"
    and recv_law: "inv w \<Longrightarrow> ops_recv (h_sock h) fd n w = Some (q, w') \<Longrightarrow> inv w' \<and> fds w' = fds w"
    and send_law: "inv w \<Longrightarrow> ops_send (h_sock h) fd b w = Some (r, w') \<Longrightarrow> inv w' \<and> fds w' = fds w"
    and now_law: "inv w \<Longrightarrow> h_now_ms h w = (t, w') \<Longrightarrow> inv w' \<and> fds w' = fds w"
    and delay_law: "inv w \<Longrightarrow> inv (h_delay h k w) \<and> fds (h_delay h k w) = fds w"

section \<open>The TOE provider\<close>

definition net_eth_errno_ops :: "'c iolib \<Rightarrow> nat \<Rightarrow> nat \<Rightarrow> u32 \<Rightarrow> ('c toe \<times> errno) net_sock_ops" where
  "net_eth_errno_ops io fuel off nb = \<lparr>
     ops_socket = (\<lambda>dm ty pr (s, _). let ((r, e), s1) = wrap_lwip_socket (int off) dm ty pr s in (r, s1, e)),
     ops_bind = (\<lambda>fd a (s, _). let ((r, e), s1) = wrap_lwip_bind io (int off) fd a s in (r, s1, e)),
     ops_listen = (\<lambda>fd bl (s, _). let ((r, e), s1) = wrap_lwip_listen io (int off) fd bl s in (r, s1, e)),
     ops_accept = (\<lambda>fd (s, _). map_option (\<lambda>((r, e, a), s1). ((r, a), s1, e))
        (wrap_lwip_accept io fuel (int off) fd True (Some 16) s)),
     ops_connect = (\<lambda>fd a (s, _). let ((r, e), s1) = wrap_lwip_connect io (int off) fd a s in (r, s1, e)),
     ops_recv = (\<lambda>fd n (s, _). map_option (\<lambda>((r, e, b), s1). ((r, b), s1, e))
        (wrap_lwip_recv io fuel (int off) fd n s)),
     ops_send = (\<lambda>fd b (s, _). map_option (\<lambda>((r, e), s1). (r, s1, e))
        (wrap_lwip_send io fuel (int off) fd b s)),
     ops_recvfrom = (\<lambda>fd n fl (s, _). map_option (\<lambda>((r, e, b, a), s1). ((r, b, a), s1, e))
        (wrap_lwip_recvfrom io fuel (int off) fd n (fl \<noteq> None) fl s)),
     ops_sendto = (\<lambda>fd b a (s, _). map_option (\<lambda>((r, e), s1). (r, s1, e))
        (wrap_lwip_sendto io fuel (int off) fd b (Some a) s)),
     ops_setsockopt = (\<lambda>fd l nm b (s, _).
        let ((_, e), s1) = wrap_lwip_setsockopt io (int off) fd l nm (Some b) s in (s1, e)),
     ops_close = (\<lambda>fd (s, _). map_option (\<lambda>((_, e), s1). (s1, e)) (wrap_lwip_close io fuel (int off) fd s)),
     ops_fcntl = Some (\<lambda>fd cmd v (s, _).
        let ((_, e), s1) = wrap_lwip_fcntl nb (int off) fd cmd v s in (s1, e))\<rparr>"

text \<open>\<open>timer\<close> is \<open>esp_timer_get_time()\<close>, \<open>delay\<close> what \<open>vTaskDelay()\<close> does to the chip and the time.\<close>

definition net_eth_host ::
  "'c iolib \<Rightarrow> ('c \<Rightarrow> int \<times> 'c) \<Rightarrow> (delay \<Rightarrow> 'c \<Rightarrow> 'c) \<Rightarrow> nat \<Rightarrow> nat \<Rightarrow> u32 \<Rightarrow> ('c toe \<times> errno) host" where
  "net_eth_host io timer delay fuel off nb = \<lparr>
     h_sock = net_eth_errno_ops io fuel off nb,
     h_errno = snd,
     h_now_ms = (\<lambda>(s, e). let (t, s1) = on_chip timer s in (word_of_int (t div 1000), s1, e)),
     h_delay = (\<lambda>k (s, e). (chip_do (delay k) s, e))\<rparr>"

definition errno_inv :: "'c toe \<times> errno \<Rightarrow> bool" where
  "errno_inv w = toe_inv (fst w)"

definition errno_fds :: "nat \<Rightarrow> 'c toe \<times> errno \<Rightarrow> int set" where
  "errno_fds off w = toe_fds off (fst w)"

text \<open>Forgetting \<open>errno\<close> gives the vtable of \<open>Net_Ops\<close>.\<close>

lemma errno_socket: "ops_socket (net_eth_errno_ops io fuel off nb) dm ty pr w = (r, w') \<Longrightarrow>
    ops_socket (net_eth_ops io fuel off nb) dm ty pr (fst w) = (r, fst w')"
  by (auto simp: net_eth_errno_ops_def net_eth_ops_def split: prod.splits)

lemma errno_bind: "ops_bind (net_eth_errno_ops io fuel off nb) fd a w = (r, w') \<Longrightarrow>
    ops_bind (net_eth_ops io fuel off nb) fd a (fst w) = (r, fst w')"
  by (auto simp: net_eth_errno_ops_def net_eth_ops_def split: prod.splits)

lemma errno_recvfrom: "ops_recvfrom (net_eth_errno_ops io fuel off nb) fd n fl w = Some (q, w') \<Longrightarrow>
    ops_recvfrom (net_eth_ops io fuel off nb) fd n fl (fst w) = Some (q, fst w')"
  by (auto simp: net_eth_errno_ops_def net_eth_ops_def split: prod.splits)

lemma errno_sendto: "ops_sendto (net_eth_errno_ops io fuel off nb) fd b a w = Some (r, w') \<Longrightarrow>
    ops_sendto (net_eth_ops io fuel off nb) fd b a (fst w) = Some (r, fst w')"
  by (auto simp: net_eth_errno_ops_def net_eth_ops_def split: prod.splits)

lemma errno_setsockopt: "fst (ops_setsockopt (net_eth_errno_ops io fuel off nb) fd l nm b w) =
    ops_setsockopt (net_eth_ops io fuel off nb) fd l nm b (fst w)"
  by (auto simp: net_eth_errno_ops_def net_eth_ops_def split: prod.splits)

lemma errno_close: "ops_close (net_eth_errno_ops io fuel off nb) fd w = Some w' \<Longrightarrow>
    ops_close (net_eth_ops io fuel off nb) fd (fst w) = Some (fst w')"
  by (auto simp: net_eth_errno_ops_def net_eth_ops_def split: prod.splits)

lemma errno_fcntl: "ops_fcntl (net_eth_errno_ops io fuel off nb) = Some f \<Longrightarrow>
    \<exists>g. ops_fcntl (net_eth_ops io fuel off nb) = Some g \<and> fst (f fd cmd v w) = g fd cmd v (fst w)"
  by (auto simp: net_eth_errno_ops_def net_eth_ops_def split: prod.splits)

lemma live_connect: "live (snd (wiztoe_connect io fd ip p s)) = live s"
  by (simp add: wiztoe_connect_def chip_pairs Let_def split_beta live_upd_role)

lemma errno_connect_law:
  assumes "errno_inv w" and "ops_connect (net_eth_errno_ops io fuel off nb) fd a w = (r, w')"
  shows "errno_inv w' \<and> errno_fds off w' = errno_fds off w"
proof -
  obtain ip p where a: "toe_ip_from_sockaddr a = (ip, p)" by (metis surj_pair)
  have w': "fst w' = snd (wiztoe_connect io (fd - int off) ip p (fst w))"
    using assms(2) a by (auto simp: net_eth_errno_ops_def wrap_lwip_connect_def split_beta)
  show ?thesis
    using toe_call_inv [OF call_connect assms(1) [unfolded errno_inv_def], of io "fd - int off" ip p] w'
    by (simp add: errno_inv_def errno_fds_def toe_fds_def live_connect)
qed

lemma errno_same:
  assumes "errno_inv w" and "same_tables (fst w) (fst w')"
  shows "errno_inv w' \<and> errno_fds off w' = errno_fds off w"
  using assms same_tablesD(4) [OF assms(2)]
  by (simp add: errno_inv_def errno_fds_def toe_fds_def live_same same_tablesD)

lemma errno_recv_law:
  assumes "errno_inv w" and "ops_recv (net_eth_errno_ops io fuel off nb) fd n w = Some (q, w')"
  shows "errno_inv w' \<and> errno_fds off w' = errno_fds off w"
proof -
  obtain p where "wiztoe_recv io fuel (fd - int off) n (fst w) = Some (p, fst w')"
    using assms(2) by (auto simp: net_eth_errno_ops_def wrap_lwip_recv_def split_beta split: option.splits)
  from errno_same [OF assms(1) recv_same [OF this]] show ?thesis .
qed

lemma errno_send_law:
  assumes "errno_inv w" and "ops_send (net_eth_errno_ops io fuel off nb) fd b w = Some (r, w')"
  shows "errno_inv w' \<and> errno_fds off w' = errno_fds off w"
proof -
  obtain p where "wiztoe_send io fuel (fd - int off) b (fst w) = Some (p, fst w')"
    using assms(2) by (auto simp: net_eth_errno_ops_def wrap_lwip_send_def split_beta split: option.splits)
  from errno_same [OF assms(1) send_same [OF this]] show ?thesis .
qed

interpretation errno_sock: net_sock "net_eth_errno_ops io fuel off nb" errno_inv "errno_fds off"
  for io fuel off nb
proof
  note d = errno_inv_def errno_fds_def
  show "errno_inv w' \<and> (if 0 \<le> fd then fd \<notin> errno_fds off w \<and> errno_fds off w' = insert fd (errno_fds off w)
      else errno_fds off w' = errno_fds off w)"
    if "errno_inv w" "ops_socket (net_eth_errno_ops io fuel off nb) dm ty pr w = (fd, w')" for w dm ty pr fd w'
    using toe_sock.socket_law [OF _ errno_socket [OF that(2)]] that(1) by (simp add: d)
  show "errno_inv w' \<and> errno_fds off w' = errno_fds off w"
    if "errno_inv w" "ops_bind (net_eth_errno_ops io fuel off nb) fd a w = (r, w')" for w fd a r w'
    using toe_sock.bind_law [OF _ errno_bind [OF that(2)]] that(1) by (simp add: d)
  show "errno_inv w' \<and> errno_fds off w' = errno_fds off w"
    if "errno_inv w" "ops_recvfrom (net_eth_errno_ops io fuel off nb) fd n fl w = Some (q, w')" for w fd n fl q w'
    using toe_sock.recvfrom_law [OF _ errno_recvfrom [OF that(2)]] that(1) by (simp add: d)
  show "errno_inv w' \<and> errno_fds off w' = errno_fds off w"
    if "errno_inv w" "ops_sendto (net_eth_errno_ops io fuel off nb) fd b a w = Some (r, w')" for w fd b a r w'
    using toe_sock.sendto_law [OF _ errno_sendto [OF that(2)]] that(1) by (simp add: d)
  show "errno_inv (ops_setsockopt (net_eth_errno_ops io fuel off nb) fd l nm b w) \<and>
      errno_fds off (ops_setsockopt (net_eth_errno_ops io fuel off nb) fd l nm b w) = errno_fds off w"
    if "errno_inv w" for w fd l nm b
    using toe_sock.setsockopt_law [of "fst w" io fuel off nb fd l nm b] that by (simp add: d errno_setsockopt)
  show "errno_inv w' \<and> errno_fds off w' = errno_fds off w - {fd}"
    if "errno_inv w" "fd \<in> errno_fds off w" "ops_close (net_eth_errno_ops io fuel off nb) fd w = Some w'" for w fd w'
    using toe_sock.close_law [OF _ _ errno_close [OF that(3)]] that(1,2) by (simp add: d)
  show "errno_inv (f fd cmd v w) \<and> errno_fds off (f fd cmd v w) = errno_fds off w"
    if f: "errno_inv w" "ops_fcntl (net_eth_errno_ops io fuel off nb) = Some f" for w f fd cmd v
  proof -
    obtain g where g: "ops_fcntl (net_eth_ops io fuel off nb) = Some g" "fst (f fd cmd v w) = g fd cmd v (fst w)"
        using errno_fcntl [OF f(2)] by blast
    from toe_sock.fcntl_law [OF _ g(1), of "fst w" fd cmd v] f(1) show ?thesis by (simp add: d g(2))
  qed
qed

interpretation toe_tcp: tcp_host "net_eth_host io timer delay fuel off nb" errno_inv "errno_fds off"
  for io :: "'c iolib" and timer delay fuel off nb
proof (intro tcp_host.intro tcp_host_axioms.intro)
  show "net_sock (h_sock (net_eth_host io timer delay fuel off nb)) errno_inv (errno_fds off)"
    by (simp add: net_eth_host_def errno_sock.net_sock_axioms)
next
  fix w fd a r w'
  assume "errno_inv w" "ops_connect (h_sock (net_eth_host io timer delay fuel off nb)) fd a w = (r, w')"
  then show "errno_inv w' \<and> errno_fds off w' = errno_fds off w"
    using errno_connect_law by (simp add: net_eth_host_def)
next
  fix w fd n q w'
  assume "errno_inv w" "ops_recv (h_sock (net_eth_host io timer delay fuel off nb)) fd n w = Some (q, w')"
  then show "errno_inv w' \<and> errno_fds off w' = errno_fds off w"
    using errno_recv_law by (simp add: net_eth_host_def)
next
  fix w fd b r w'
  assume "errno_inv w" "ops_send (h_sock (net_eth_host io timer delay fuel off nb)) fd b w = Some (r, w')"
  then show "errno_inv w' \<and> errno_fds off w' = errno_fds off w"
    using errno_send_law by (simp add: net_eth_host_def)
next
  fix w t w'
  assume "errno_inv w" "h_now_ms (net_eth_host io timer delay fuel off nb) w = (t, w')"
  then show "errno_inv w' \<and> errno_fds off w' = errno_fds off w"
    by (auto simp: net_eth_host_def errno_inv_def errno_fds_def toe_fds_def chip_pairs Let_def split_beta)
next
  fix w :: "'c toe \<times> errno" and k
  assume "errno_inv w"
  then show "errno_inv (h_delay (net_eth_host io timer delay fuel off nb) k w) \<and>
      errno_fds off (h_delay (net_eth_host io timer delay fuel off nb) k w) = errno_fds off w"
    by (cases w) (simp add: net_eth_host_def errno_inv_def errno_fds_def toe_fds_def chip_do_def)
qed

end
