(* ===== verification/Mqtt.thy ===== *)
theory Mqtt
  imports Net_Tcp
begin

text \<open>
  The MQTT 3.1.1 client engine (\<open>mqtt.c\<close>): the wire encoding, the socket input and output, the
  packets it sends and reads, the session and the task that keeps one alive. A result \<open>None\<close> means
  that a call did not return within the fuel, or that the C code reads or writes outside a buffer.
\<close>

section \<open>Constants and state\<close>

definition MQTT_PKT_CONNECT :: u8 where "MQTT_PKT_CONNECT = 1"
definition MQTT_PKT_CONNACK :: u8 where "MQTT_PKT_CONNACK = 2"
definition MQTT_PKT_PUBLISH :: u8 where "MQTT_PKT_PUBLISH = 3"
definition MQTT_PKT_PUBACK :: u8 where "MQTT_PKT_PUBACK = 4"
definition MQTT_PKT_SUBSCRIBE :: u8 where "MQTT_PKT_SUBSCRIBE = 8"
definition MQTT_PKT_SUBACK :: u8 where "MQTT_PKT_SUBACK = 9"
definition MQTT_PKT_PINGREQ :: u8 where "MQTT_PKT_PINGREQ = 12"

lemmas mqtt_types = MQTT_PKT_CONNECT_def MQTT_PKT_CONNACK_def MQTT_PKT_PUBLISH_def MQTT_PKT_PUBACK_def
  MQTT_PKT_SUBSCRIBE_def MQTT_PKT_SUBACK_def MQTT_PKT_PINGREQ_def

definition MQTT_PROTOCOL_LEVEL :: u8 where "MQTT_PROTOCOL_LEVEL = 4"
definition CONNECT_CLEAN_SESSION :: u8 where "CONNECT_CLEAN_SESSION = 0x02"
definition CONNECT_PASSWORD :: u8 where "CONNECT_PASSWORD = 0x40"
definition CONNECT_USERNAME :: u8 where "CONNECT_USERNAME = 0x80"
definition SUBACK_FAILURE :: u8 where "SUBACK_FAILURE = 0x80"
definition MQTT_FIXED_HDR_MAX :: nat where "MQTT_FIXED_HDR_MAX = 5"

definition MQTT_POLL_MS :: u32 where "MQTT_POLL_MS = 1000"
definition MQTT_ACK_TIMEOUT_MS :: u32 where "MQTT_ACK_TIMEOUT_MS = 5000"
definition MQTT_RECONNECT_MS :: nat where "MQTT_RECONNECT_MS = 5000"
definition MQTT_BUF_SIZE :: nat where "MQTT_BUF_SIZE = 2048"

text \<open>A C string is the list of its bytes before the NUL; a null pointer is \<open>None\<close>.\<close>

record mqtt_config =
  broker_ip :: bytes
  broker_port :: u16
  client_id :: bytes
  username :: "bytes option"
  password :: "bytes option"
  keepalive_s :: u16
  pub_topic :: "bytes option"
  pub_payload :: bytes
  pub_period_ms :: u32
  sub_topic :: "bytes option"

text \<open>\<open>m_net\<close> is what is behind the vtable, \<open>m_msgs\<close> the messages logged, oldest first.\<close>

record 'w mqtt_ctx =
  m_cfg :: mqtt_config
  m_fd :: int
  m_next_pkt_id :: u16
  m_last_tx_ms :: u32
  m_last_rx_ms :: u32
  m_rxbuf :: bytes
  m_cap :: nat
  m_net :: 'w
  m_msgs :: "(bytes \<times> bytes) list"

definition m_now :: "'w host \<Rightarrow> 'w mqtt_ctx \<Rightarrow> u32 \<times> 'w mqtt_ctx" where
  "m_now h c = (let (t, w) = h_now_ms h (m_net c) in (t, c\<lparr>m_net := w\<rparr>))"

section \<open>Wire encoding\<close>

fun enc_remaining_len :: "nat \<Rightarrow> bytes" where
  "enc_remaining_len len =
     (let b = of_nat (len mod 128); l = len div 128
      in if 0 < l then (b OR 0x80) # enc_remaining_len l else [b])"

declare enc_remaining_len.simps [simp del]

definition enc_str :: "bytes \<Rightarrow> bytes" where
  "enc_str s = (let n = length s in of_nat (n div 256) # of_nat (n mod 256) # s)"

definition str_field_len :: "bytes \<Rightarrow> nat" where
  "str_field_len s = 2 + length s"

section \<open>Raw socket I/O\<close>

text \<open>\<open>EAGAIN\<close> and \<open>EWOULDBLOCK\<close> are one number.\<close>

definition errno_is_timeout :: "'w host \<Rightarrow> 'w mqtt_ctx \<Rightarrow> bool" where
  "errno_is_timeout h c \<longleftrightarrow> h_errno h (m_net c) = EWOULDBLOCK"

definition send_all_turn ::
  "'w host \<Rightarrow> bytes \<Rightarrow> nat \<times> 'w mqtt_ctx \<Rightarrow> (bool option \<times> nat \<times> 'w mqtt_ctx) option" where
  "send_all_turn h data = (\<lambda>(off, c).
     if length data \<le> off then
       let (t, c1) = m_now h c in Some (Some True, off, c1\<lparr>m_last_tx_ms := t\<rparr>)
     else case ops_send (h_sock h) (m_fd c) (drop off data) (m_net c) of None \<Rightarrow> None
          | Some (n, w) \<Rightarrow>
            let c1 = c\<lparr>m_net := w\<rparr> in
            if 0 < n then Some (None, off + nat n, c1)
            else if n < 0 \<and> errno_is_timeout h c1 then
              Some (None, off, c1\<lparr>m_net := h_delay h (Ticks 1) (m_net c1)\<rparr>)
            else Some (Some False, off, c1))"

definition send_all :: "'w host \<Rightarrow> nat \<Rightarrow> bytes \<Rightarrow> 'w mqtt_ctx \<Rightarrow> (bool \<times> 'w mqtt_ctx) option" where
  "send_all h k data c =
     map_option (\<lambda>(r, _, c1). (r, c1)) (turns k (send_all_turn h data) (0, c))"

datatype rd_t = RD_OK | RD_TIMEOUT | RD_ERROR

definition recv_some :: "'w host \<Rightarrow> nat \<Rightarrow> 'w mqtt_ctx \<Rightarrow> ((rd_t \<times> bytes) \<times> 'w mqtt_ctx) option" where
  "recv_some h len c =
     (case ops_recv (h_sock h) (m_fd c) len (m_net c) of None \<Rightarrow> None
      | Some ((n, b), w) \<Rightarrow>
        let c1 = c\<lparr>m_net := w\<rparr> in
        if 0 < n then
          let (t, c2) = m_now h c1 in Some ((RD_OK, take (nat n) b), c2\<lparr>m_last_rx_ms := t\<rparr>)
        else if n = 0 then Some ((RD_ERROR, []), c1)
        else Some ((if errno_is_timeout h c1 then RD_TIMEOUT else RD_ERROR, []), c1))"

text \<open>The bytes read so far stand for the offset and for the part of the caller's buffer that has
  been written.\<close>

definition read_exact_turn ::
  "'w host \<Rightarrow> nat \<Rightarrow> u32 \<Rightarrow> u32 \<Rightarrow> bytes \<times> 'w mqtt_ctx \<Rightarrow> (rd_t option \<times> bytes \<times> 'w mqtt_ctx) option" where
  "read_exact_turn h len start timeout_ms = (\<lambda>(got, c).
     if len \<le> length got then Some (Some RD_OK, got, c)
     else case recv_some h (len - length got) c of None \<Rightarrow> None
          | Some ((RD_ERROR, _), c1) \<Rightarrow> Some (Some RD_ERROR, got, c1)
          | Some ((RD_TIMEOUT, _), c1) \<Rightarrow>
            let (t, c2) = m_now h c1
            in Some (if timeout_ms \<le> t - start then Some RD_TIMEOUT else None, got, c2)
          | Some ((RD_OK, b), c1) \<Rightarrow> Some (None, got @ b, c1))"

definition read_exact ::
  "'w host \<Rightarrow> nat \<Rightarrow> nat \<Rightarrow> u32 \<Rightarrow> 'w mqtt_ctx \<Rightarrow> ((rd_t \<times> bytes) \<times> 'w mqtt_ctx) option" where
  "read_exact h k len timeout_ms c =
     (let (start, c1) = m_now h c
      in map_option (\<lambda>(r, got, c2). ((r, got), c2))
           (turns k (read_exact_turn h len start timeout_ms) ([], c1)))"

definition into_rxbuf :: "bytes \<Rightarrow> 'w mqtt_ctx \<Rightarrow> 'w mqtt_ctx" where
  "into_rxbuf b c = c\<lparr>m_rxbuf := b @ drop (length b) (m_rxbuf c)\<rparr>"

definition drop_turn ::
  "'w host \<Rightarrow> nat \<Rightarrow> nat \<times> 'w mqtt_ctx \<Rightarrow> (rd_t option \<times> nat \<times> 'w mqtt_ctx) option" where
  "drop_turn h k = (\<lambda>(len, c).
     if len = 0 then Some (Some RD_OK, len, c)
     else let chunk = (if len < m_cap c then len else m_cap c)
          in case read_exact h k chunk MQTT_ACK_TIMEOUT_MS c of None \<Rightarrow> None
             | Some ((r, b), c1) \<Rightarrow>
               if r \<noteq> RD_OK then Some (Some r, len, into_rxbuf b c1)
               else Some (None, len - chunk, into_rxbuf b c1))"

definition drop_bytes :: "'w host \<Rightarrow> nat \<Rightarrow> nat \<Rightarrow> 'w mqtt_ctx \<Rightarrow> (rd_t \<times> 'w mqtt_ctx) option" where
  "drop_bytes h k len c = map_option (\<lambda>(r, _, c1). (r, c1)) (turns k (drop_turn h k) (len, c))"

text \<open>\<open>i\<close> counts the bytes that may still be read.\<close>

fun remaining_len_loop ::
  "'w host \<Rightarrow> nat \<Rightarrow> nat \<Rightarrow> nat \<Rightarrow> nat \<Rightarrow> 'w mqtt_ctx \<Rightarrow> (nat option \<times> 'w mqtt_ctx) option" where
  "remaining_len_loop h k 0 val mult c = Some (None, c)"
| "remaining_len_loop h k (Suc i) val mult c =
     (case read_exact h k 1 MQTT_ACK_TIMEOUT_MS c of None \<Rightarrow> None
      | Some ((r, b), c1) \<Rightarrow>
        if r \<noteq> RD_OK then Some (None, c1)
        else let v = val + unat (b ! 0 AND 0x7F) * mult
             in if b ! 0 AND 0x80 = 0 then Some (Some v, c1)
                else remaining_len_loop h k i v (mult * 128) c1)"

definition read_remaining_len :: "'w host \<Rightarrow> nat \<Rightarrow> 'w mqtt_ctx \<Rightarrow> (nat option \<times> 'w mqtt_ctx) option" where
  "read_remaining_len h k c = remaining_len_loop h k 4 0 1 c"

text \<open>The result, the type, the flags and the length of the body in the receive buffer; the last
  three are what the callers initialise them to where the C code leaves them unset.\<close>

definition read_packet ::
  "'w host \<Rightarrow> nat \<Rightarrow> 'w mqtt_ctx \<Rightarrow> ((int \<times> u8 \<times> u8 \<times> nat) \<times> 'w mqtt_ctx) option" where
  "read_packet h k c =
     (case read_exact h k 1 0 c of None \<Rightarrow> None
      | Some ((RD_TIMEOUT, _), c1) \<Rightarrow> Some ((0, 0, 0, 0), c1)
      | Some ((RD_ERROR, _), c1) \<Rightarrow> Some ((-1, 0, 0, 0), c1)
      | Some ((RD_OK, hdr), c1) \<Rightarrow>
        (case read_remaining_len h k c1 of None \<Rightarrow> None
         | Some (None, c2) \<Rightarrow> Some ((-1, 0, 0, 0), c2)
         | Some (Some rem, c2) \<Rightarrow>
           let ty = drop_bit 4 (hdr ! 0); flags = hdr ! 0 AND 0x0F in
           if m_cap c2 < rem then
             (case drop_bytes h k rem c2 of None \<Rightarrow> None
              | Some (r, c3) \<Rightarrow> Some ((if r = RD_OK then 0 else -1, ty, flags, 0), c3))
           else if 0 < rem then
             (case read_exact h k rem MQTT_ACK_TIMEOUT_MS c2 of None \<Rightarrow> None
              | Some ((r, b), c3) \<Rightarrow>
                if r \<noteq> RD_OK then Some ((-1, ty, flags, 0), into_rxbuf b c3)
                else Some ((1, ty, flags, rem), into_rxbuf b c3))
           else Some ((1, ty, flags, rem), c2)))"

section \<open>Outgoing packets\<close>

text \<open>A packet under construction is the part of \<open>txbuf\<close> written so far; writing past the end of
  the buffer is \<open>None\<close>.\<close>

definition tx_put :: "nat \<Rightarrow> bytes \<Rightarrow> bytes \<Rightarrow> bytes option" where
  "tx_put cap b p = (if length p + length b \<le> cap then Some (p @ b) else None)"

definition has_user :: "mqtt_config \<Rightarrow> bool" where
  "has_user cfg = (case username cfg of None \<Rightarrow> False | Some u \<Rightarrow> u \<noteq> [])"

definition has_pass :: "mqtt_config \<Rightarrow> bool" where
  "has_pass cfg \<longleftrightarrow> has_user cfg \<and> (case password cfg of None \<Rightarrow> False | Some u \<Rightarrow> u \<noteq> [])"

definition connect_rem :: "mqtt_config \<Rightarrow> nat" where
  "connect_rem cfg = 10 + str_field_len (client_id cfg)
     + (if has_user cfg then str_field_len (the (username cfg)) else 0)
     + (if has_pass cfg then str_field_len (the (password cfg)) else 0)"

definition connect_packet :: "nat \<Rightarrow> mqtt_config \<Rightarrow> bytes option" where
  "connect_packet cap cfg = do {
     p \<leftarrow> tx_put cap [push_bit 4 MQTT_PKT_CONNECT] [];
     p \<leftarrow> tx_put cap (enc_remaining_len (connect_rem cfg)) p;
     p \<leftarrow> tx_put cap (enc_str [77, 81, 84, 84]) p;
     p \<leftarrow> tx_put cap [MQTT_PROTOCOL_LEVEL] p;
     p \<leftarrow> tx_put cap [CONNECT_CLEAN_SESSION OR (if has_user cfg then CONNECT_USERNAME else 0) OR
                      (if has_pass cfg then CONNECT_PASSWORD else 0)] p;
     p \<leftarrow> tx_put cap [hi8 (keepalive_s cfg)] p;
     p \<leftarrow> tx_put cap [lo8 (keepalive_s cfg)] p;
     p \<leftarrow> tx_put cap (enc_str (client_id cfg)) p;
     p \<leftarrow> (if has_user cfg then tx_put cap (enc_str (the (username cfg))) p else Some p);
     (if has_pass cfg then tx_put cap (enc_str (the (password cfg))) p else Some p) }"

definition send_connect :: "'w host \<Rightarrow> nat \<Rightarrow> 'w mqtt_ctx \<Rightarrow> (bool \<times> 'w mqtt_ctx) option" where
  "send_connect h k c =
     (if m_cap c < MQTT_FIXED_HDR_MAX + connect_rem (m_cfg c) then Some (False, c)
      else case connect_packet (m_cap c) (m_cfg c) of None \<Rightarrow> None | Some p \<Rightarrow> send_all h k p c)"

definition subscribe_packet :: "nat \<Rightarrow> u16 \<Rightarrow> bytes \<Rightarrow> bytes option" where
  "subscribe_packet cap pkt_id topic = do {
     p \<leftarrow> tx_put cap [push_bit 4 MQTT_PKT_SUBSCRIBE OR 0x02] [];
     p \<leftarrow> tx_put cap (enc_remaining_len (2 + str_field_len topic + 1)) p;
     p \<leftarrow> tx_put cap [hi8 pkt_id] p;
     p \<leftarrow> tx_put cap [lo8 pkt_id] p;
     p \<leftarrow> tx_put cap (enc_str topic) p;
     tx_put cap [0] p }"

text \<open>Called with a topic that is not null, as publish is.\<close>

definition send_subscribe :: "'w host \<Rightarrow> nat \<Rightarrow> u16 \<Rightarrow> bytes \<Rightarrow> 'w mqtt_ctx \<Rightarrow> (bool \<times> 'w mqtt_ctx) option" where
  "send_subscribe h k pkt_id topic c =
     (if m_cap c < MQTT_FIXED_HDR_MAX + (2 + str_field_len topic + 1) then Some (False, c)
      else case subscribe_packet (m_cap c) pkt_id topic of None \<Rightarrow> None | Some p \<Rightarrow> send_all h k p c)"

definition publish_packet :: "nat \<Rightarrow> bytes \<Rightarrow> bytes \<Rightarrow> bytes option" where
  "publish_packet cap topic payload = do {
     p \<leftarrow> tx_put cap [push_bit 4 MQTT_PKT_PUBLISH] [];
     p \<leftarrow> tx_put cap (enc_remaining_len (str_field_len topic + length payload)) p;
     p \<leftarrow> tx_put cap (enc_str topic) p;
     tx_put cap payload p }"

definition send_publish :: "'w host \<Rightarrow> nat \<Rightarrow> bytes \<Rightarrow> 'w mqtt_ctx \<Rightarrow> (bool \<times> 'w mqtt_ctx) option" where
  "send_publish h k topic c =
     (if m_cap c < MQTT_FIXED_HDR_MAX + (str_field_len topic + length (pub_payload (m_cfg c)))
      then Some (False, c)
      else case publish_packet (m_cap c) topic (pub_payload (m_cfg c)) of None \<Rightarrow> None
           | Some p \<Rightarrow> send_all h k p c)"

definition send_puback :: "'w host \<Rightarrow> nat \<Rightarrow> u16 \<Rightarrow> 'w mqtt_ctx \<Rightarrow> (bool \<times> 'w mqtt_ctx) option" where
  "send_puback h k pkt_id c = send_all h k [push_bit 4 MQTT_PKT_PUBACK, 2, hi8 pkt_id, lo8 pkt_id] c"

definition send_pingreq :: "'w host \<Rightarrow> nat \<Rightarrow> 'w mqtt_ctx \<Rightarrow> (bool \<times> 'w mqtt_ctx) option" where
  "send_pingreq h k c = send_all h k [push_bit 4 MQTT_PKT_PINGREQ, 0] c"

section \<open>Incoming packets\<close>

text \<open>The fields of a PUBLISH body: \<open>None\<close> outside the buffer, \<open>Some None\<close> where the packet is
  refused, otherwise the topic, the packet identifier and the payload.\<close>

definition publish_fields :: "bytes \<Rightarrow> u8 \<Rightarrow> nat \<Rightarrow> (bytes \<times> u16 \<times> bytes) option option" where
  "publish_fields p qos len =
     (if len < 2 then Some None
      else do {
        a \<leftarrow> rd p 0; b \<leftarrow> rd p 1;
        let topic_len = unat a * 256 + unat b;
        let off = 2 + topic_len;
        if len < off then Some None
        else if 0 < qos \<and> len < off + 2 then Some None
        else do {
          pkt_id \<leftarrow> (if 0 < qos then rd16 p off else Some 0);
          let off1 = (if 0 < qos then off + 2 else off);
          topic \<leftarrow> rd_n p 2 topic_len;
          payload \<leftarrow> rd_n p off1 (len - off1);
          Some (Some (topic, pkt_id, payload)) } })"

definition handle_publish :: "'w host \<Rightarrow> nat \<Rightarrow> u8 \<Rightarrow> nat \<Rightarrow> 'w mqtt_ctx \<Rightarrow> 'w mqtt_ctx option" where
  "handle_publish h k flags len c =
     (let qos = drop_bit 1 flags AND 3 in
      case publish_fields (m_rxbuf c) qos len of None \<Rightarrow> None
      | Some None \<Rightarrow> Some c
      | Some (Some (topic, pkt_id, payload)) \<Rightarrow>
        let c1 = c\<lparr>m_msgs := m_msgs c @ [(topic, payload)]\<rparr> in
        if qos = 1 then map_option snd (send_puback h k pkt_id c1) else Some c1)"

definition wait_turn ::
  "'w host \<Rightarrow> nat \<Rightarrow> u8 \<Rightarrow> u32 \<Rightarrow> u32 \<Rightarrow> 'w mqtt_ctx \<Rightarrow> (nat option option \<times> 'w mqtt_ctx) option" where
  "wait_turn h k want start timeout_ms c =
     (case read_packet h k c of None \<Rightarrow> None
      | Some ((r, ty, flags, len), c1) \<Rightarrow>
        if r < 0 then Some (Some None, c1)
        else if 0 < r \<and> ty = want then Some (Some (Some len), c1)
        else (case (if 0 < r \<and> ty = MQTT_PKT_PUBLISH then handle_publish h k flags len c1 else Some c1)
              of None \<Rightarrow> None
              | Some c2 \<Rightarrow> let (t, c3) = m_now h c2
                           in Some (if timeout_ms \<le> t - start then Some None else None, c3)))"

text \<open>The length of the body, or \<open>None\<close> inside for -1.\<close>

definition wait_packet ::
  "'w host \<Rightarrow> nat \<Rightarrow> u8 \<Rightarrow> u32 \<Rightarrow> 'w mqtt_ctx \<Rightarrow> (nat option \<times> 'w mqtt_ctx) option" where
  "wait_packet h k want timeout_ms c =
     (let (start, c1) = m_now h c in turns k (wait_turn h k want start timeout_ms) c1)"

section \<open>The session\<close>

text \<open>\<open>aton\<close> is \<open>esp_ip4addr_aton()\<close>.\<close>

definition tcp_connect :: "'w host \<Rightarrow> (bytes \<Rightarrow> u32) \<Rightarrow> 'w mqtt_ctx \<Rightarrow> (bool \<times> 'w mqtt_ctx) option" where
  "tcp_connect h aton c =
     (let ops = h_sock h; (fd, w1) = ops_socket ops 2 1 6 (m_net c) in
      if fd < 0 then Some (False, c\<lparr>m_fd := fd, m_net := w1\<rparr>)
      else
        let w2 = ops_setsockopt ops fd SOL_SOCKET SO_RCVTIMEO (timeval_bytes MQTT_POLL_MS) w1;
            w3 = ops_setsockopt ops fd IPPROTO_TCP TCP_NODELAY (le32_bytes 1) w2;
            (r, w4) = ops_connect ops fd \<lparr>sin_family_inet = True,
               sin_port = lwip_htons (broker_port (m_cfg c)), sin_addr = aton (broker_ip (m_cfg c))\<rparr> w3
        in if r \<noteq> 0 then
             map_option (\<lambda>w5. (False, c\<lparr>m_fd := -1, m_net := w5\<rparr>)) (ops_close ops fd w4)
           else Some (True, c\<lparr>m_fd := fd, m_net := w4\<rparr>))"

text \<open>CONNECT and its acknowledgement; \<open>False\<close> is the \<open>goto out\<close>.\<close>

definition mqtt_open :: "'w host \<Rightarrow> nat \<Rightarrow> 'w mqtt_ctx \<Rightarrow> (bool \<times> 'w mqtt_ctx) option" where
  "mqtt_open h k c = do {
     (sent, c1) \<leftarrow> send_connect h k c;
     if \<not> sent then Some (False, c1)
     else do {
       (len, c2) \<leftarrow> wait_packet h k MQTT_PKT_CONNACK MQTT_ACK_TIMEOUT_MS c1;
       case len of None \<Rightarrow> Some (False, c2)
       | Some n \<Rightarrow> if n < 2 then Some (False, c2)
                   else do { b \<leftarrow> rd (m_rxbuf c2) 1; Some (b = 0, c2) } } }"

definition mqtt_subscribe :: "'w host \<Rightarrow> nat \<Rightarrow> 'w mqtt_ctx \<Rightarrow> (bool \<times> 'w mqtt_ctx) option" where
  "mqtt_subscribe h k c =
     (case sub_topic (m_cfg c) of None \<Rightarrow> Some (True, c)
      | Some topic \<Rightarrow>
        let pkt_id = m_next_pkt_id c; next = pkt_id + 1 in
        do { (sent, c1) \<leftarrow> send_subscribe h k pkt_id topic (c\<lparr>m_next_pkt_id := if next = 0 then 1 else next\<rparr>);
             if \<not> sent then Some (False, c1)
             else do {
               (len, c2) \<leftarrow> wait_packet h k MQTT_PKT_SUBACK MQTT_ACK_TIMEOUT_MS c1;
               case len of None \<Rightarrow> Some (False, c2)
               | Some n \<Rightarrow> if n < 3 then Some (False, c2)
                           else do { b \<leftarrow> rd (m_rxbuf c2) 2; Some (b \<noteq> SUBACK_FAILURE, c2) } } })"

definition keepalive_ms :: "mqtt_config \<Rightarrow> u32" where
  "keepalive_ms cfg = ucast (keepalive_s cfg) * 1000"

text \<open>The publish and the keep-alive of one turn, with the time read once before both. The result
  says whether the session goes on.\<close>

definition publish_due ::
  "'w host \<Rightarrow> nat \<Rightarrow> u32 \<Rightarrow> u32 \<Rightarrow> 'w mqtt_ctx \<Rightarrow> ((bool \<times> u32) \<times> 'w mqtt_ctx) option" where
  "publish_due h k now last_pub_ms c =
     (case pub_topic (m_cfg c) of None \<Rightarrow> Some ((True, last_pub_ms), c)
      | Some topic \<Rightarrow>
        if pub_period_ms (m_cfg c) \<le> now - last_pub_ms
        then map_option (\<lambda>(ok, c1). ((ok, now), c1)) (send_publish h k topic c)
        else Some ((True, last_pub_ms), c))"

definition keep_alive :: "'w host \<Rightarrow> nat \<Rightarrow> u32 \<Rightarrow> 'w mqtt_ctx \<Rightarrow> (bool \<times> 'w mqtt_ctx) option" where
  "keep_alive h k now c =
     (let ka = keepalive_ms (m_cfg c) in
      if ka = 0 then Some (True, c)
      else do {
        (ok, c1) \<leftarrow> (if ka div 2 \<le> now - m_last_tx_ms c then send_pingreq h k c else Some (True, c));
        if \<not> ok then Some (False, c1)
        else Some (now - m_last_rx_ms c1 < ka + ka div 2, c1) })"

text \<open>One turn of the session loop; \<open>Some ()\<close> is a break.\<close>

definition session_turn ::
  "'w host \<Rightarrow> nat \<Rightarrow> u32 \<times> 'w mqtt_ctx \<Rightarrow> (unit option \<times> u32 \<times> 'w mqtt_ctx) option" where
  "session_turn h k = (\<lambda>(last_pub_ms, c). do {
     ((r, ty, flags, n), c1) \<leftarrow> read_packet h k c;
     if r < 0 then Some (Some (), last_pub_ms, c1)
     else do {
       c2 \<leftarrow> (if 0 < r \<and> ty = MQTT_PKT_PUBLISH then handle_publish h k flags n c1 else Some c1);
       let (now, c3) = m_now h c2;
       ((ok, pub), c4) \<leftarrow> publish_due h k now last_pub_ms c3;
       if \<not> ok then Some (Some (), pub, c4)
       else do {
         (alive, c5) \<leftarrow> keep_alive h k now c4;
         Some (if alive then None else Some (), pub, c5) } } })"

text \<open>Between the TCP connection and the label \<open>out\<close>.\<close>

definition session_body :: "'w host \<Rightarrow> nat \<Rightarrow> 'w mqtt_ctx \<Rightarrow> 'w mqtt_ctx option" where
  "session_body h k c = do {
     let (t, c1) = m_now h c;
     (ok, c2) \<leftarrow> mqtt_open h k (c1\<lparr>m_last_rx_ms := t, m_last_tx_ms := t\<rparr>);
     if \<not> ok then Some c2
     else do {
       (ok, c3) \<leftarrow> mqtt_subscribe h k c2;
       if \<not> ok then Some c3
       else do {
         let (last_pub_ms, c4) = m_now h c3;
         (_, _, c5) \<leftarrow> turns k (session_turn h k) (last_pub_ms, c4);
         Some c5 } } }"

definition mqtt_session :: "'w host \<Rightarrow> (bytes \<Rightarrow> u32) \<Rightarrow> nat \<Rightarrow> 'w mqtt_ctx \<Rightarrow> 'w mqtt_ctx option" where
  "mqtt_session h aton k c = do {
     (ok, c1) \<leftarrow> tcp_connect h aton c;
     if \<not> ok then Some c1
     else do {
       c2 \<leftarrow> session_body h k c1;
       w \<leftarrow> ops_close (h_sock h) (m_fd c2) (m_net c2);
       Some (c2\<lparr>m_fd := -1, m_net := w\<rparr>) } }"

section \<open>The task\<close>

text \<open>\<open>junk\<close> is what the allocated receive buffer holds at first, \<open>None\<close> a failed allocation. The
  wait for the link is a loop; the sessions that follow it never end, and \<open>mqtt_sessions\<close> runs the
  first \<open>n\<close>.\<close>

definition mqtt_client_start :: "mqtt_config \<Rightarrow> 'w \<Rightarrow> 'w mqtt_ctx" where
  "mqtt_client_start cfg w = \<lparr>m_cfg = cfg, m_fd = -1, m_next_pkt_id = 1, m_last_tx_ms = 0,
     m_last_rx_ms = 0, m_rxbuf = [], m_cap = 0, m_net = w, m_msgs = []\<rparr>"

definition link_turn ::
  "'w host \<Rightarrow> ('w \<Rightarrow> bool \<times> 'w) \<Rightarrow> 'w mqtt_ctx \<Rightarrow> (unit option \<times> 'w mqtt_ctx) option" where
  "link_turn h iface_up c =
     (let (up, w) = iface_up (m_net c)
      in Some (if up then (Some (), c\<lparr>m_net := w\<rparr>) else (None, c\<lparr>m_net := h_delay h (Millis 100) w\<rparr>)))"

fun mqtt_sessions :: "'w host \<Rightarrow> (bytes \<Rightarrow> u32) \<Rightarrow> nat \<Rightarrow> nat \<Rightarrow> 'w mqtt_ctx \<Rightarrow> 'w mqtt_ctx option" where
  "mqtt_sessions h aton k 0 c = Some c"
| "mqtt_sessions h aton k (Suc n) c =
     (case mqtt_session h aton k c of None \<Rightarrow> None
      | Some c1 \<Rightarrow> mqtt_sessions h aton k n (c1\<lparr>m_net := h_delay h (Millis MQTT_RECONNECT_MS) (m_net c1)\<rparr>))"

definition mqtt_task ::
  "'w host \<Rightarrow> (bytes \<Rightarrow> u32) \<Rightarrow> ('w \<Rightarrow> bool \<times> 'w) \<Rightarrow> nat \<Rightarrow> bytes option \<Rightarrow> nat \<Rightarrow> 'w mqtt_ctx \<Rightarrow>
     'w mqtt_ctx option" where
  "mqtt_task h aton iface_up k junk n c =
     (case junk of None \<Rightarrow> Some c
      | Some buf \<Rightarrow>
        (case turns k (link_turn h iface_up) (c\<lparr>m_rxbuf := buf, m_cap := MQTT_BUF_SIZE\<rparr>) of None \<Rightarrow> None
         | Some (_, c1) \<Rightarrow> mqtt_sessions h aton k n c1))"

end
