(* ===== verification/Mqtt_Props.thy ===== *)
theory Mqtt_Props
  imports Mqtt
begin

text \<open>
  The properties of the MQTT client: reading keeps the byte stream in step with the packets in it, a
  published message arrives as it was sent, the session gives back its socket and keeps its state in
  order, the buffers are never left, and when a PINGREQ is sent.
\<close>

section \<open>Frames\<close>

text \<open>What the input functions leave alone.\<close>

definition rx_frame :: "'w mqtt_ctx \<Rightarrow> 'w mqtt_ctx \<Rightarrow> bool" where
  "rx_frame c c' \<longleftrightarrow> m_cfg c' = m_cfg c \<and> m_fd c' = m_fd c \<and> m_next_pkt_id c' = m_next_pkt_id c \<and>
     m_last_tx_ms c' = m_last_tx_ms c \<and> m_rxbuf c' = m_rxbuf c \<and> m_cap c' = m_cap c \<and> m_msgs c' = m_msgs c"

lemma rx_frame_refl [simp]: "rx_frame c c"
  and rx_frame_net [simp]: "rx_frame c (c1\<lparr>m_net := w\<rparr>) = rx_frame c c1"
  and rx_frame_net_left [simp]: "rx_frame (c\<lparr>m_net := w\<rparr>) c1 = rx_frame c c1"
  and rx_frame_rx [simp]: "rx_frame c (c1\<lparr>m_last_rx_ms := t\<rparr>) = rx_frame c c1"
  and rx_frame_trans: "rx_frame c d \<Longrightarrow> rx_frame d e \<Longrightarrow> rx_frame c e"
  by (simp_all add: rx_frame_def)

lemma m_now_frame: "m_now h c = (t, c') \<Longrightarrow> rx_frame c c'"
  by (auto simp: m_now_def split: prod.splits)

lemma recv_some_frame: "recv_some h n c = Some (q, c') \<Longrightarrow> rx_frame c c'"
  by (auto simp: recv_some_def Let_def split: option.splits prod.splits if_splits
      dest!: m_now_frame)

lemma read_exact_turn_frame: "read_exact_turn h n t0 tmo (got, c) = Some (q, got', c') \<Longrightarrow> rx_frame c c'"
  by (auto simp: read_exact_turn_def split: option.splits prod.splits if_splits rd_t.splits
      dest!: recv_some_frame m_now_frame intro: rx_frame_trans)

lemma read_exact_frame:
  assumes "read_exact h k n tmo c = Some (q, c')"
  shows "rx_frame c c'"
proof -
  obtain t c1 where t: "m_now h c = (t, c1)" by (cases "m_now h c")
  then obtain r got where "turns k (read_exact_turn h n t tmo) ([], c1) = Some (r, got, c')"
    using assms by (auto simp: read_exact_def)
  then have "(\<lambda>r (got, d). rx_frame c d) r (got, c')"
    by (rule turns_rule [where I = "\<lambda>(got, d). rx_frame c d"])
      (use m_now_frame [OF t] in \<open>auto dest: read_exact_turn_frame intro: rx_frame_trans\<close>)
  then show ?thesis by simp
qed

section \<open>The stream\<close>

text \<open>What TCP gives a reader: \<open>pend\<close> is what the peer has sent, or will send, and has not been read.
  A receive takes a non-empty piece off the front, no longer than asked for, or takes nothing.\<close>

definition in_stream :: "'w host \<Rightarrow> int \<Rightarrow> ('w \<Rightarrow> bytes) \<Rightarrow> bool" where
  "in_stream h fd pend \<longleftrightarrow>
     (\<forall>n w r b w'. ops_recv (h_sock h) fd n w = Some ((r, b), w') \<longrightarrow>
        (if 0 < r then nat r \<le> n \<and> nat r \<le> length b \<and> pend w = take (nat r) b @ pend w'
         else pend w' = pend w)) \<and>
     (\<forall>w. pend (snd (h_now_ms h w)) = pend w)"

lemma in_stream_recv:
  "in_stream h fd pend \<Longrightarrow> ops_recv (h_sock h) fd n w = Some ((r, b), w') \<Longrightarrow>
     (if 0 < r then nat r \<le> n \<and> nat r \<le> length b \<and> pend w = take (nat r) b @ pend w' else pend w' = pend w)"
  unfolding in_stream_def by blast

lemma in_stream_now: "in_stream h fd pend \<Longrightarrow> m_now h c = (t, c') \<Longrightarrow> pend (m_net c') = pend (m_net c)"
  by (auto simp: in_stream_def m_now_def split: prod.splits) (metis snd_conv)

lemma recv_some_stream:
  assumes "in_stream h (m_fd c) pend" and "recv_some h n c = Some ((r, b), c')"
  shows "pend (m_net c) = b @ pend (m_net c') \<and> length b \<le> n \<and> (r = RD_OK) = (b \<noteq> [])"
proof -
  obtain i b' w where rc: "ops_recv (h_sock h) (m_fd c) n (m_net c) = Some ((i, b'), w)"
    using assms(2) by (auto simp: recv_some_def split: option.splits)
  note L = in_stream_recv [OF assms(1) rc]
  show ?thesis
  proof (cases "0 < i")
    case True
    obtain t c2 where t: "m_now h (c\<lparr>m_net := w\<rparr>) = (t, c2)" by (cases "m_now h (c\<lparr>m_net := w\<rparr>)")
    have eq: "r = RD_OK" "b = take (nat i) b'" "m_net c' = m_net c2"
      using assms(2) True rc t by (auto simp: recv_some_def Let_def)
    from True L have "b \<noteq> []" "length b = nat i" by (auto simp: eq)
    with L True eq in_stream_now [OF assms(1) t] show ?thesis by simp
  next
    case False
    have "b = [] \<and> r \<noteq> RD_OK \<and> m_net c' = w"
      using assms(2) False rc by (auto simp: recv_some_def Let_def split: if_splits)
    with L False show ?thesis by simp
  qed
qed

lemma read_exact_turn_stream:
  assumes "in_stream h (m_fd c) pend" and "read_exact_turn h n t0 tmo (got, c) = Some (q, got', c')"
  shows "\<exists>b. got' = got @ b \<and> pend (m_net c) = b @ pend (m_net c') \<and> length b \<le> n - length got \<and>
    (q = Some RD_OK) = (n \<le> length got) \<and> (q \<noteq> None \<longrightarrow> b = [])"
proof (cases "n \<le> length got")
  case True
  with assms(2) show ?thesis by (auto simp: read_exact_turn_def)
next
  case False
  then obtain r b c1 where rc: "recv_some h (n - length got) c = Some ((r, b), c1)"
    using assms(2) by (auto simp: read_exact_turn_def split: option.splits)
  note L = recv_some_stream [OF assms(1) rc]
  have s1: "in_stream h (m_fd c1) pend" using recv_some_frame [OF rc] assms(1) by (simp add: rx_frame_def)
  show ?thesis
  proof (cases r)
    case RD_OK
    with assms(2) False rc L show ?thesis by (auto simp: read_exact_turn_def)
  next
    case RD_TIMEOUT
    with assms(2) False rc L show ?thesis
      by (auto simp: read_exact_turn_def split: prod.splits if_splits dest!: in_stream_now [OF s1])
  next
    case RD_ERROR
    with assms(2) False rc L show ?thesis by (auto simp: read_exact_turn_def)
  qed
qed

lemma read_exact_stream:
  fixes c :: "'w mqtt_ctx"
  assumes "in_stream h (m_fd c) pend" and "read_exact h k n tmo c = Some ((r, got), c')"
  shows "pend (m_net c) = got @ pend (m_net c') \<and> length got \<le> n \<and> (r = RD_OK) = (length got = n)"
proof -
  obtain t c1 where t: "m_now h c = (t, c1)" by (cases "m_now h c")
  have run: "turns k (read_exact_turn h n t tmo) ([], c1) = Some (r, got, c')"
    using assms(2) t by (auto simp: read_exact_def)
  let ?I = "\<lambda>(got, d). m_fd d = m_fd c \<and> pend (m_net c) = got @ pend (m_net d) \<and> length got \<le> n"
  have "(\<lambda>r (got, d). ?I (got, d) \<and> (r = RD_OK) = (n \<le> length got)) r (got, c')"
  proof (rule turns_rule [OF run, where I = ?I])
    show "?I ([], c1)"
      using in_stream_now [OF assms(1) t] m_now_frame [OF t] by (simp add: rx_frame_def)
    fix s s' :: "bytes \<times> 'w mqtt_ctx" and q
    assume I: "?I s"
    obtain g d g' d' where s: "s = (g, d)" "s' = (g', d')" by (cases s, cases s')
    have str: "in_stream h (m_fd d) pend" using I s assms(1) by simp
    { fix q'
      assume b: "read_exact_turn h n t tmo s = Some (q', s')"
      from read_exact_turn_frame [OF b [unfolded s]] have f: "m_fd d' = m_fd d" by (simp add: rx_frame_def)
      from read_exact_turn_stream [OF str b [unfolded s]] obtain u
        where u: "g' = g @ u" "pend (m_net d) = u @ pend (m_net d')" "length u \<le> n - length g"
          "(q' = Some RD_OK) = (n \<le> length g)"
            "q' \<noteq> None \<longrightarrow> u = []" by blast
      have "?I s'" using I s f u by auto
      moreover have "q' \<noteq> None \<longrightarrow> (q' = Some RD_OK) = (n \<le> length g')" using u by auto
      ultimately have "?I s'" "q' \<noteq> None \<longrightarrow> (q' = Some RD_OK) = (n \<le> length g')" by auto }
    note R = this
    { assume "read_exact_turn h n t tmo s = Some (None, s')"
      from R(1) [OF this] show "?I s'" . }
    { assume "read_exact_turn h n t tmo s = Some (Some q, s')"
      from R [OF this] s show "(\<lambda>r (got, d). ?I (got, d) \<and> (r = RD_OK) = (n \<le> length got)) q s'" by auto }
  qed
  then show ?thesis by auto
qed

section \<open>The reference parser\<close>

text \<open>The remaining length at the front of a byte list, in at most \<open>i\<close> bytes.\<close>

fun varint_split :: "nat \<Rightarrow> bytes \<Rightarrow> (nat \<times> bytes) option" where
  "varint_split 0 bs = None"
| "varint_split (Suc i) [] = None"
| "varint_split (Suc i) (b # bs) =
     (if b AND 0x80 = 0 then Some (unat b, bs)
      else map_option (\<lambda>(v, r). (unat (b AND 0x7F) + 128 * v, r)) (varint_split i bs))"

text \<open>One control packet at the front of a byte list: type, flags, body and the bytes after it.\<close>

definition mqtt_frame :: "bytes \<Rightarrow> (u8 \<times> u8 \<times> bytes \<times> bytes) option" where
  "mqtt_frame bs =
     (case bs of [] \<Rightarrow> None
      | b # r \<Rightarrow>
        (case varint_split 4 r of None \<Rightarrow> None
         | Some (n, r1) \<Rightarrow>
           if n \<le> length r1 then Some (drop_bit 4 b, b AND 0x0F, take n r1, drop n r1) else None))"

lemma and_7f: "b AND 0x80 = 0 \<Longrightarrow> unat (b AND 0x7F) = unat (b :: u8)"
proof -
  assume a: "b AND 0x80 = 0"
  have "b AND mask 7 = b"
  proof (rule bit_eqI)
    fix n assume "possible_bit TYPE(8 word) n"
    then have n: "n < 8" by simp
    have "bit (b AND 0x80) 7 = False" by (simp add: a)
    then have "\<not> bit b 7" by (simp add: bit_simps)
    then show "bit (b AND mask 7) n = bit b n" using n by (cases "n = 7") (auto simp: bit_simps)
  qed
  then show ?thesis by (simp add: mask_eq_exp_minus_1)
qed

lemma remaining_len_stream:
  "in_stream h (m_fd c) pend \<Longrightarrow> remaining_len_loop h k i v mult c = Some (res, c') \<Longrightarrow>
     rx_frame c c' \<and> (\<forall>n. res = Some n \<longrightarrow>
       (\<exists>m. varint_split i (pend (m_net c)) = Some (m, pend (m_net c')) \<and> n = v + m * mult))"
proof (induction i arbitrary: v mult c)
  case 0
  then show ?case by simp
next
  case (Suc i)
  obtain r b c1 where re: "read_exact h k 1 MQTT_ACK_TIMEOUT_MS c = Some ((r, b), c1)"
    using Suc.prems(2) by (auto split: option.splits)
  note F = read_exact_frame [OF re] and S = read_exact_stream [OF Suc.prems(1) re]
  show ?case
  proof (cases "r = RD_OK")
    case False
    with Suc.prems(2) re F show ?thesis by auto
  next
    case True
    then obtain x where x: "b = [x]" using S by (auto simp: length_Suc_conv)
    show ?thesis
    proof (cases "x AND 0x80 = 0")
      case ok: True
      with Suc.prems(2) re True x have "res = Some (v + unat (x AND 0x7F) * mult)" "c' = c1" by auto
      with F S x ok show ?thesis by (simp add: and_7f)
    next
      case more: False
      with Suc.prems(2) re True x have
        rec: "remaining_len_loop h k i (v + unat (x AND 0x7F) * mult) (mult * 128) c1 = Some (res, c')"
        by auto
      have "in_stream h (m_fd c1) pend" using F Suc.prems(1) by (simp add: rx_frame_def)
      note IH = Suc.IH [OF this rec]
      show ?thesis
      proof (intro conjI allI impI)
        show "rx_frame c c'" using F IH rx_frame_trans by blast
        fix n assume "res = Some n"
        with IH obtain m where m: "varint_split i (pend (m_net c1)) = Some (m, pend (m_net c'))"
          "n = v + unat (x AND 0x7F) * mult + m * (mult * 128)" by blast
        with S x more show "\<exists>m. varint_split (Suc i) (pend (m_net c)) = Some (m, pend (m_net c')) \<and>
            n = v + m * mult"
          by (auto simp: algebra_simps)
      qed
    qed
  qed
qed

section \<open>Reading a packet\<close>

text \<open>As \<open>rx_frame\<close>, with a receive buffer that may have been written but keeps its size.\<close>

definition rx_frame_buf :: "'w mqtt_ctx \<Rightarrow> 'w mqtt_ctx \<Rightarrow> bool" where
  "rx_frame_buf c c' \<longleftrightarrow> m_cfg c' = m_cfg c \<and> m_fd c' = m_fd c \<and> m_next_pkt_id c' = m_next_pkt_id c \<and>
     m_last_tx_ms c' = m_last_tx_ms c \<and> m_cap c' = m_cap c \<and> m_msgs c' = m_msgs c \<and>
     length (m_rxbuf c') = length (m_rxbuf c)"

lemma rx_frame_bufI: "rx_frame c c' \<Longrightarrow> rx_frame_buf c c'"
  and rx_frame_buf_trans: "rx_frame_buf c d \<Longrightarrow> rx_frame_buf d e \<Longrightarrow> rx_frame_buf c e"
  by (simp_all add: rx_frame_def rx_frame_buf_def)

lemma rx_frame_into:
  "rx_frame c c1 \<Longrightarrow> length b \<le> length (m_rxbuf c) \<Longrightarrow> rx_frame_buf c (into_rxbuf b c1)"
  by (simp add: rx_frame_def rx_frame_buf_def into_rxbuf_def)

lemma into_rxbuf_net [simp]: "m_net (into_rxbuf b c) = m_net c"
  by (simp add: into_rxbuf_def)

lemma take_into_rxbuf: "length b = n \<Longrightarrow> take n (m_rxbuf (into_rxbuf b c)) = b"
  by (simp add: into_rxbuf_def)

lemma drop_bytes_stream:
  fixes c :: "'w mqtt_ctx"
  assumes "in_stream h (m_fd c) pend" and "m_cap c = length (m_rxbuf c)"
    and "drop_bytes h k n c = Some (r, c')"
  shows "rx_frame_buf c c' \<and> (r = RD_OK \<longrightarrow> (\<exists>b. length b = n \<and> pend (m_net c) = b @ pend (m_net c')))"
proof -
  obtain m where run: "turns k (drop_turn h k) (n, c) = Some (r, m, c')"
    using assms(3) by (auto simp: drop_bytes_def)
  let ?I = "\<lambda>(l, d). rx_frame_buf c d \<and> (\<exists>b. length b + l = n \<and> pend (m_net c) = b @ pend (m_net d))"
  have "(\<lambda>r (l, d). rx_frame_buf c d \<and> (r = RD_OK \<longrightarrow> ?I (l, d) \<and> l = 0)) r (m, c')"
  proof (rule turns_rule [OF run, where I = ?I])
    show "?I (n, c)" by (simp add: rx_frame_buf_def)
    fix s s' :: "nat \<times> 'w mqtt_ctx" and q
    assume I: "?I s"
    obtain l d l' d' where s: "s = (l, d)" "s' = (l', d')" by (cases s, cases s')
    have d: "in_stream h (m_fd d) pend" "m_cap d = length (m_rxbuf d)"
      using I s assms(1,2) by (simp_all add: rx_frame_buf_def)
    have R: "rx_frame_buf c d' \<and> (q' = None \<longrightarrow> ?I s') \<and> q' \<noteq> Some RD_OK"
      if b: "drop_turn h k s = Some (q', s')" and l: "l \<noteq> 0" for q'
    proof -
      let ?n = "if l < m_cap d then l else m_cap d"
      obtain x u d1 where re: "read_exact h k ?n MQTT_ACK_TIMEOUT_MS d = Some ((x, u), d1)"
        using b s l by (auto simp: drop_turn_def Let_def split: option.splits)
      have out: "q' = (if x = RD_OK then None else Some x)" "d' = into_rxbuf u d1"
        "x = RD_OK \<longrightarrow> l' = l - ?n"
        using b s l re by (auto simp: drop_turn_def Let_def split: if_splits)
      note S = read_exact_stream [OF d(1) re]
      have f: "rx_frame_buf d d'"
        unfolding out(2) using S d(2) by (intro rx_frame_into [OF read_exact_frame [OF re]]) (simp split: if_splits)
      have "rx_frame_buf c d'" using f I s rx_frame_buf_trans by blast
      moreover have "?I s'" if "x = RD_OK"
      proof -
        from I s obtain b where "length b + l = n" "pend (m_net c) = b @ pend (m_net d)" by auto
        then have "length (b @ u) + l' = n" "pend (m_net c) = (b @ u) @ pend (m_net d')"
          using S out that by auto
        with \<open>rx_frame_buf c d'\<close> s show ?thesis by blast
      qed
      ultimately show ?thesis using out by auto
    qed
    { assume b: "drop_turn h k s = Some (None, s')"
      then have "l \<noteq> 0" using s by (auto simp: drop_turn_def split: if_splits)
      from R [OF b this] show "?I s'" by simp }
    { assume b: "drop_turn h k s = Some (Some q, s')"
      show "(\<lambda>r (l, d). rx_frame_buf c d \<and> (r = RD_OK \<longrightarrow> ?I (l, d) \<and> l = 0)) q s'"
      proof (cases "l = 0")
        case True
        with b s I show ?thesis by (auto simp: drop_turn_def)
      next
        case False
        from R [OF b False] s show ?thesis by auto
      qed }
  qed
  then show ?thesis by auto
qed

text \<open>The outcomes of \<open>read_packet\<close> on a stream.\<close>

definition in_step :: "'w mqtt_ctx \<Rightarrow> ('w \<Rightarrow> bytes) \<Rightarrow> int \<Rightarrow> u8 \<Rightarrow> u8 \<Rightarrow> nat \<Rightarrow> 'w mqtt_ctx \<Rightarrow> bool" where
  "in_step c pend r ty flags n c' \<longleftrightarrow>
     (if r = 1 then n \<le> m_cap c \<and>
        mqtt_frame (pend (m_net c)) = Some (ty, flags, take n (m_rxbuf c'), pend (m_net c')) \<and> n \<le> length (m_rxbuf c')
      else if r = 0 then pend (m_net c') = pend (m_net c) \<or>
        (\<exists>body. mqtt_frame (pend (m_net c)) = Some (ty, flags, body, pend (m_net c')) \<and> m_cap c < length body)
      else r = -1)"

lemma read_packet_stream:
  assumes "in_stream h (m_fd c) pend" and "m_cap c = length (m_rxbuf c)"
    and "read_packet h k c = Some ((r, ty, flags, n), c')"
  shows "rx_frame_buf c c' \<and> in_step c pend r ty flags n c'"
proof -
  obtain x hdr c1 where h1: "read_exact h k 1 0 c = Some ((x, hdr), c1)"
    using assms(3) by (auto simp: read_packet_def split: option.splits)
  note F1 = read_exact_frame [OF h1] and S1 = read_exact_stream [OF assms(1) h1]
  note st1 = assms(3) [unfolded read_packet_def h1 option.case prod.case]
  show ?thesis
  proof (cases "x = RD_OK")
    case False
    with st1 F1 have "c' = c1" "r = (if x = RD_TIMEOUT then 0 else -1)"
      by (cases x; simp)+
    moreover have "hdr = []" using S1 False by (cases hdr) auto
    ultimately show ?thesis using F1 S1 False by (auto simp: in_step_def rx_frame_bufI)
  next
    case True
    then obtain b where b: "hdr = [b]" using S1 by (auto simp: length_Suc_conv)
    have c1: "in_stream h (m_fd c1) pend" "m_cap c1 = length (m_rxbuf c1)" "m_cap c1 = m_cap c"
      using F1 assms(1,2) by (simp_all add: rx_frame_def)
    note st2 = st1 [unfolded True rd_t.case]
    obtain rl c2 where rl: "read_remaining_len h k c1 = Some (rl, c2)"
      using st2 by (auto split: option.splits)
    note R = remaining_len_stream [OF c1(1) rl [unfolded read_remaining_len_def]]
    have F2: "rx_frame c c2" using F1 R rx_frame_trans by blast
    show ?thesis
    proof (cases rl)
      case None
      with st2 rl F2 show ?thesis by (simp add: in_step_def rx_frame_bufI)
    next
      case (Some m)
      with R have v: "varint_split 4 (pend (m_net c1)) = Some (m, pend (m_net c2))" by simp
      have fr: "mqtt_frame (pend (m_net c)) = (if m \<le> length (pend (m_net c2))
          then Some (drop_bit 4 b, b AND 0x0F, take m (pend (m_net c2)), drop m (pend (m_net c2))) else None)"
        using S1 b v by (simp add: mqtt_frame_def)
      have c2: "in_stream h (m_fd c2) pend" "m_cap c2 = length (m_rxbuf c2)" "m_cap c2 = m_cap c"
        using F2 assms(1,2) by (simp_all add: rx_frame_def)
      note st3 = st2 [unfolded rl Some option.case prod.case Let_def b nth_Cons_0]
      consider (big) "m_cap c2 < m" | (some) "m \<le> m_cap c2" "0 < m" | (empty) "m = 0" by linarith
      then show ?thesis
      proof cases
        case big
        obtain y c3 where dr: "drop_bytes h k m c2 = Some (y, c3)"
          using st3 big by (auto split: option.splits)
        note D = drop_bytes_stream [OF c2(1,2) dr]
        have out: "r = (if y = RD_OK then 0 else -1)" "ty = drop_bit 4 b" "flags = b AND 0x0F" "c' = c3"
          using st3 big dr by (auto split: if_splits)
        have "rx_frame_buf c c'" using D F2 rx_frame_bufI rx_frame_buf_trans out(4) by blast
        moreover have "in_step c pend r ty flags n c'"
        proof (cases "y = RD_OK")
          case False
          with out show ?thesis by (simp add: in_step_def)
        next
          case ok: True
          with D obtain u where u: "length u = m" "pend (m_net c2) = u @ pend (m_net c3)" by blast
          with fr out c2(3) big ok show ?thesis by (auto simp: in_step_def)
        qed
        ultimately show ?thesis ..
      next
        case some
        obtain y u c3 where re: "read_exact h k m MQTT_ACK_TIMEOUT_MS c2 = Some ((y, u), c3)"
          using st3 some by (auto split: option.splits)
        note S3 = read_exact_stream [OF c2(1) re]
        have f: "rx_frame_buf c2 (into_rxbuf u c3)"
          using S3 c2(2) some by (intro rx_frame_into [OF read_exact_frame [OF re]]) simp
        have out: "r = (if y = RD_OK then 1 else -1)" "ty = drop_bit 4 b" "flags = b AND 0x0F"
          "c' = into_rxbuf u c3" "y = RD_OK \<longrightarrow> n = m"
          using st3 some re by (auto split: if_splits)
        have "rx_frame_buf c c'" using f F2 rx_frame_bufI rx_frame_buf_trans out(4) by blast
        moreover have "in_step c pend r ty flags n c'"
        proof (cases "y = RD_OK")
          case False
          with out show ?thesis by (simp add: in_step_def)
        next
          case ok: True
          have l: "length u = m" using S3 ok by blast
          have "take m (m_rxbuf c') = u" using out(4) l take_into_rxbuf by blast
          moreover have "m \<le> length (m_rxbuf c')" using out(4) l by (simp add: into_rxbuf_def)
          ultimately show ?thesis using S3 l fr out c2(3) ok some by (simp add: in_step_def)
        qed
        ultimately show ?thesis ..
      next
        case empty
        with st3 have "r = 1" "ty = drop_bit 4 b" "flags = b AND 0x0F" "n = 0" "c' = c2" by simp_all
        with fr F2 empty show ?thesis by (simp add: in_step_def rx_frame_bufI)
      qed
    qed
  qed
qed

section \<open>Reading returns\<close>

text \<open>As long as there are bytes, a receive gives some.\<close>

definition delivers :: "'w host \<Rightarrow> int \<Rightarrow> ('w \<Rightarrow> bytes) \<Rightarrow> bool" where
  "delivers h fd pend \<longleftrightarrow> (\<forall>n w. 0 < n \<and> pend w \<noteq> [] \<longrightarrow>
     (\<exists>r b w'. ops_recv (h_sock h) fd n w = Some ((r, b), w') \<and> 0 < r))"

lemma recv_some_delivers:
  assumes "delivers h (m_fd c) pend" and "0 < n" and "pend (m_net c) \<noteq> []"
  shows "\<exists>b c'. recv_some h n c = Some ((RD_OK, b), c')"
proof -
  obtain r b w where "ops_recv (h_sock h) (m_fd c) n (m_net c) = Some ((r, b), w)" "0 < r"
    using assms unfolding delivers_def by blast
  then show ?thesis by (auto simp: recv_some_def Let_def split: prod.split)
qed

lemma read_exact_turns_deliver:
  "in_stream h (m_fd c) pend \<Longrightarrow> delivers h (m_fd c) pend \<Longrightarrow> length got \<le> n \<Longrightarrow>
   n - length got \<le> length (pend (m_net c)) \<Longrightarrow> n - length got < k \<Longrightarrow>
     \<exists>got' c'. turns k (read_exact_turn h n t0 tmo) (got, c) = Some (RD_OK, got', c')"
proof (induction k arbitrary: got c)
  case 0
  then show ?case by simp
next
  case (Suc k)
  show ?case
  proof (cases "n \<le> length got")
    case True
    then show ?thesis by (simp add: read_exact_turn_def)
  next
    case False
    then have "pend (m_net c) \<noteq> []" using Suc.prems(4) by auto
    with recv_some_delivers [OF Suc.prems(2), of "n - length got"] False
    obtain b c1 where rc: "recv_some h (n - length got) c = Some ((RD_OK, b), c1)" by auto
    note S = recv_some_stream [OF Suc.prems(1) rc]
    have fd: "m_fd c1 = m_fd c" using recv_some_frame [OF rc] by (simp add: rx_frame_def)
    have lb: "0 < length b" using S by simp
    have "\<exists>got' c'. turns k (read_exact_turn h n t0 tmo) (got @ b, c1) = Some (RD_OK, got', c')"
    proof (rule Suc.IH)
      have "n - length (got @ b) < n - length got" unfolding length_append using lb False by linarith
      then show "n - length (got @ b) < k" using Suc.prems(5) by simp
      have "n - length (got @ b) = n - length got - length b" by simp
      also have "\<dots> \<le> length (pend (m_net c)) - length b" using Suc.prems(4) by (rule diff_le_mono)
      also have "\<dots> = length (pend (m_net c1))" using S by simp
      finally show "n - length (got @ b) \<le> length (pend (m_net c1))" .
    qed (use Suc.prems S False fd in auto)
    moreover have "read_exact_turn h n t0 tmo (got, c) = Some (None, got @ b, c1)"
      using False rc by (simp add: read_exact_turn_def)
    ultimately show ?thesis by simp
  qed
qed

lemma read_exact_delivers:
  assumes "in_stream h (m_fd c) pend" and "delivers h (m_fd c) pend"
    and "n \<le> length (pend (m_net c))" and "n < k"
  shows "\<exists>got c'. read_exact h k n tmo c = Some ((RD_OK, got), c')"
proof -
  obtain t c1 where t: "m_now h c = (t, c1)" by (cases "m_now h c")
  have c1: "m_fd c1 = m_fd c" "pend (m_net c1) = pend (m_net c)"
    using m_now_frame [OF t] in_stream_now [OF assms(1) t] by (simp_all add: rx_frame_def)
  have "\<exists>got' c'. turns k (read_exact_turn h n t tmo) ([], c1) = Some (RD_OK, got', c')"
    using assms c1 by (intro read_exact_turns_deliver [where pend = pend]) simp_all
  with t show ?thesis by (auto simp: read_exact_def)
qed

lemma remaining_len_delivers:
  "in_stream h (m_fd c) pend \<Longrightarrow> delivers h (m_fd c) pend \<Longrightarrow> 1 < k \<Longrightarrow>
   varint_split i (pend (m_net c)) \<noteq> None \<Longrightarrow>
     \<exists>m c'. remaining_len_loop h k i v mult c = Some (Some m, c')"
proof (induction i arbitrary: v mult c)
  case 0
  then show ?case by simp
next
  case (Suc i)
  obtain x xs where p: "pend (m_net c) = x # xs" using Suc.prems(4) by (cases "pend (m_net c)") auto
  obtain b c1 where re: "read_exact h k 1 MQTT_ACK_TIMEOUT_MS c = Some ((RD_OK, b), c1)"
    using read_exact_delivers [OF Suc.prems(1,2), of 1 k MQTT_ACK_TIMEOUT_MS] p Suc.prems(3) by auto
  note F = read_exact_frame [OF re] and S = read_exact_stream [OF Suc.prems(1) re]
  have b: "b = [x]" "pend (m_net c1) = xs" using S p by (auto simp: length_Suc_conv)
  have fd: "m_fd c1 = m_fd c" using F by (simp add: rx_frame_def)
  show ?case
  proof (cases "x AND 0x80 = 0")
    case True
    with re b show ?thesis by simp
  next
    case False
    with Suc.prems(4) p have "varint_split i (pend (m_net c1)) \<noteq> None" using b by auto
    from Suc.IH [OF _ _ Suc.prems(3) this] Suc.prems(1,2) fd
    have "\<exists>m c'. remaining_len_loop h k i (v + unat (x AND 0x7F) * mult) (mult * 128) c1 = Some (Some m, c')"
      by simp
    with re b False show ?thesis by simp
  qed
qed

text \<open>A packet that has arrived and fits is read.\<close>

lemma read_packet_delivers:
  assumes "in_stream h (m_fd c) pend" and "delivers h (m_fd c) pend"
    and fr: "mqtt_frame (pend (m_net c)) = Some (ty, flags, body, rest)"
    and "m_cap c = length (m_rxbuf c)" and "length body \<le> m_cap c" and "length body < k" and "1 < k"
  shows "\<exists>c'. read_packet h k c = Some ((1, ty, flags, length body), c') \<and> rx_frame_buf c c' \<and>
    take (length body) (m_rxbuf c') = body \<and> pend (m_net c') = rest"
proof -
  obtain x xs where p: "pend (m_net c) = x # xs" using fr by (cases "pend (m_net c)") (auto simp: mqtt_frame_def)
  then obtain m r1 where v: "varint_split 4 xs = Some (m, r1)" and m: "m \<le> length r1"
    and body: "body = take m r1"
    using fr by (auto simp: mqtt_frame_def split: option.splits if_splits)
  obtain b c1 where h1: "read_exact h k 1 0 c = Some ((RD_OK, b), c1)"
    using read_exact_delivers [OF assms(1,2), of 1 k 0] p assms(7) by auto
  note F1 = read_exact_frame [OF h1] and S1 = read_exact_stream [OF assms(1) h1]
  have x: "b = [x]" "pend (m_net c1) = xs" using S1 p by (auto simp: length_Suc_conv)
  have c1: "in_stream h (m_fd c1) pend" "delivers h (m_fd c1) pend"
    using F1 assms(1,2) by (simp_all add: rx_frame_def)
  obtain l c2 where rl: "remaining_len_loop h k 4 0 1 c1 = Some (Some l, c2)"
    using remaining_len_delivers [OF c1 assms(7), of 4 0 1] v x by auto
  note R = remaining_len_stream [OF c1(1) rl]
  have l: "l = m" "pend (m_net c2) = r1" using R v x by auto
  have c2: "in_stream h (m_fd c2) pend" "delivers h (m_fd c2) pend" "m_cap c2 = m_cap c"
    using R F1 assms(1,2) by (simp_all add: rx_frame_def)
  have lb: "length body = m" using body m by simp
  have "\<exists>c' n ty' flags'. read_packet h k c = Some ((1, ty', flags', n), c')"
  proof (cases "0 < m")
    case False
    with h1 rl l x show ?thesis by (simp add: read_packet_def read_remaining_len_def)
  next
    case True
    obtain u c3 where "read_exact h k m MQTT_ACK_TIMEOUT_MS c2 = Some ((RD_OK, u), c3)"
      using read_exact_delivers [OF c2(1,2), of m k MQTT_ACK_TIMEOUT_MS] l m lb assms(6) by auto
    with True h1 rl l x lb assms(5) c2(3) show ?thesis
      by (simp add: read_packet_def read_remaining_len_def)
  qed
  then obtain c' n ty' flags' where rp: "read_packet h k c = Some ((1, ty', flags', n), c')" by blast
  from read_packet_stream [OF assms(1,4) rp] fr have
    "ty' = ty" "flags' = flags" "take n (m_rxbuf c') = body" "pend (m_net c') = rest" "n \<le> length (m_rxbuf c')"
    and f: "rx_frame_buf c c'" by (auto simp: in_step_def)
  moreover from this have "n = length body" by force
  ultimately show ?thesis using rp by auto
qed

section \<open>Encoding\<close>

lemma byte_low: "n < 128 \<Longrightarrow> unat (of_nat n :: u8) = n"
  by (simp add: unat_of_nat)

lemma byte_low_bit: "n < 128 \<Longrightarrow> \<not> bit (of_nat n :: u8) 7"
  by (simp add: bit_word_iff_drop_bit_and drop_bit_eq_div word_arith_nat_div unat_of_nat)

lemma and_80: "(b AND 0x80 = 0) = (\<not> bit (b :: u8) 7)"
proof
  assume a: "b AND 0x80 = 0"
  have "bit (b AND 0x80) 7 = False" by (simp add: a)
  then show "\<not> bit b 7" by (simp add: bit_simps)
next
  assume a: "\<not> bit b 7"
  show "b AND 0x80 = 0"
  proof (rule bit_eqI)
    fix n assume "possible_bit TYPE(8 word) n"
    then have "n = 0 \<or> n = 1 \<or> n = 2 \<or> n = 3 \<or> n = 4 \<or> n = 5 \<or> n = 6 \<or> n = 7" by simp arith
    with a show "bit (b AND 0x80) n = bit 0 n" by (elim disjE) (simp_all add: bit_simps)
  qed
qed

lemma enc_low: "n < 128 \<Longrightarrow> (of_nat n :: u8) AND 0x80 = 0"
  using byte_low_bit by (simp add: and_80)

lemma enc_high: "n < 128 \<Longrightarrow> ((of_nat n :: u8) OR 0x80) AND 0x80 \<noteq> 0"
  by (simp add: and_80 bit_simps)

lemma enc_high_val: "n < 128 \<Longrightarrow> unat (((of_nat n :: u8) OR 0x80) AND 0x7F) = n"
proof -
  assume n: "n < 128"
  have "((of_nat n :: u8) OR 0x80) AND 0x7F = of_nat n AND 0x7F" by (simp add: bit.conj_disj_distrib2)
  with and_7f [OF enc_low [OF n]] byte_low [OF n] show ?thesis by simp
qed

lemma enc_small: "n < 128 \<Longrightarrow> enc_remaining_len n = [of_nat n]"
  by (subst enc_remaining_len.simps) (simp add: Let_def)

lemma enc_big: "128 \<le> n \<Longrightarrow> enc_remaining_len n = (of_nat (n mod 128) OR 0x80) # enc_remaining_len (n div 128)"
  by (subst enc_remaining_len.simps) (simp add: Let_def div_greater_zero_iff)

lemma varint_split_small: "n < 128 \<Longrightarrow> varint_split (Suc i) (enc_remaining_len n @ rest) = Some (n, rest)"
  by (simp add: enc_small enc_low byte_low)

lemma varint_split_big:
  assumes "128 \<le> n" and "varint_split i (enc_remaining_len (n div 128) @ rest) = Some (n div 128, rest)"
  shows "varint_split (Suc i) (enc_remaining_len n @ rest) = Some (n, rest)"
proof -
  have m: "n mod 128 < 128" by simp
  have "n mod 128 + 128 * (n div 128) = n" by presburger
  then show ?thesis
    unfolding enc_big [OF assms(1)] append_Cons varint_split.simps(3) if_not_P [OF enc_high [OF m]] assms(2)
    by (simp only: option.map prod.case enc_high_val [OF m])
qed

lemma varint_split_enc: "n < 128 ^ Suc i \<Longrightarrow> varint_split (Suc i) (enc_remaining_len n @ rest) = Some (n, rest)"
proof (induction i arbitrary: n)
  case 0
  then show ?case by (intro varint_split_small) simp
next
  case (Suc i)
  show ?case
  proof (cases "n < 128")
    case True
    then show ?thesis by (rule varint_split_small)
  next
    case False
    have "n div 128 < 128 ^ Suc i" using Suc.prems by (simp add: less_mult_imp_div_less algebra_simps)
    show ?thesis
    proof (rule varint_split_big)
      show "128 \<le> n" using False by simp
      show "varint_split (Suc i) (enc_remaining_len (n div 128) @ rest) = Some (n div 128, rest)"
        by (rule Suc.IH) fact
    qed
  qed
qed

text \<open>Every packet the client builds starts with its type and the length of the rest.\<close>

lemma mqtt_frame_enc:
  assumes "length body < 128 ^ 4"
  shows "mqtt_frame (b # enc_remaining_len (length body) @ body @ rest) = Some (drop_bit 4 b, b AND 0x0F, body, rest)"
proof -
  have "Suc 3 = 4" by simp
  from varint_split_enc [of "length body" 3 "body @ rest", unfolded this, OF assms]
  show ?thesis by (simp add: mqtt_frame_def)
qed

lemma enc_remaining_len_length: "n < 128 ^ Suc i \<Longrightarrow> length (enc_remaining_len n) \<le> Suc i"
proof (induction i arbitrary: n)
  case 0
  then show ?case by (simp add: enc_small)
next
  case (Suc i)
  have "n div 128 < 128 ^ Suc i" using Suc.prems by (simp add: less_mult_imp_div_less algebra_simps)
  from Suc.IH [OF this] show ?case by (subst enc_remaining_len.simps) (simp add: Let_def)
qed

lemma tx_put_Some [simp]: "length p + length b \<le> cap \<Longrightarrow> tx_put cap b p = Some (p @ b)"
  by (simp add: tx_put_def)

lemma enc_str_length [simp]: "length (enc_str s) = str_field_len s"
  by (simp add: enc_str_def str_field_len_def Let_def)

lemma publish_packet_eq:
  assumes "5 + (str_field_len topic + length payload) \<le> cap" and "cap < 128 ^ 4"
  shows "publish_packet cap topic payload = Some
    (push_bit 4 MQTT_PKT_PUBLISH # enc_remaining_len (length (enc_str topic @ payload)) @ enc_str topic @ payload)"
proof -
  have "length (enc_remaining_len (str_field_len topic + length payload)) \<le> 4"
    using enc_remaining_len_length [of "str_field_len topic + length payload" 3] assms by simp
  with assms show ?thesis by (simp add: publish_packet_def)
qed

lemma subscribe_packet_eq:
  assumes "5 + (2 + str_field_len topic + 1) \<le> cap" and "cap < 128 ^ 4"
  shows "subscribe_packet cap pkt_id topic = Some ((push_bit 4 MQTT_PKT_SUBSCRIBE OR 2) #
    enc_remaining_len (length ([hi8 pkt_id, lo8 pkt_id] @ enc_str topic @ [0])) @
    [hi8 pkt_id, lo8 pkt_id] @ enc_str topic @ [0])"
proof -
  have n: "2 + str_field_len topic + 1 = length ([hi8 pkt_id, lo8 pkt_id] @ enc_str topic @ [0])" by simp
  have "length (enc_remaining_len (2 + str_field_len topic + 1)) \<le> 4"
    using enc_remaining_len_length [of "2 + str_field_len topic + 1" 3] assms by simp
  with assms show ?thesis unfolding subscribe_packet_def n [symmetric] by simp
qed

definition connect_body :: "mqtt_config \<Rightarrow> bytes" where
  "connect_body cfg = enc_str [77, 81, 84, 84] @ [MQTT_PROTOCOL_LEVEL,
     CONNECT_CLEAN_SESSION OR (if has_user cfg then CONNECT_USERNAME else 0) OR
       (if has_pass cfg then CONNECT_PASSWORD else 0), hi8 (keepalive_s cfg), lo8 (keepalive_s cfg)] @
     enc_str (client_id cfg) @ (if has_user cfg then enc_str (the (username cfg)) else []) @
     (if has_pass cfg then enc_str (the (password cfg)) else [])"

lemma connect_packet_eq:
  assumes "5 + connect_rem cfg \<le> cap" and "cap < 128 ^ 4"
  shows "connect_packet cap cfg = Some (push_bit 4 MQTT_PKT_CONNECT #
    enc_remaining_len (length (connect_body cfg)) @ connect_body cfg)"
proof -
  have n: "connect_rem cfg = length (connect_body cfg)"
    by (simp add: connect_rem_def connect_body_def str_field_len_def)
  define L where "L = enc_remaining_len (connect_rem cfg)"
  have L: "length L \<le> 4"
    unfolding L_def using enc_remaining_len_length [of "connect_rem cfg" 3] assms by simp
  have fit: "17 + length (client_id cfg) + (if has_user cfg then 2 + length (the (username cfg)) else 0) +
      (if has_pass cfg then 2 + length (the (password cfg)) else 0) \<le> cap"
    using assms(1) by (cases "has_user cfg"; cases "has_pass cfg") (simp_all add: connect_rem_def str_field_len_def)
  show ?thesis
    unfolding connect_packet_def n [symmetric] L_def [symmetric]
    using L fit by (cases "has_user cfg"; cases "has_pass cfg")
      (simp_all add: connect_body_def str_field_len_def)
qed

section \<open>Parsing a PUBLISH\<close>

lemma take_two: "i + 1 < length p \<Longrightarrow> take 2 (drop i p) = [p ! i, p ! (i + 1)]"
  by (simp add: numeral_2_eq_2 take_Suc_conv_app_nth hd_drop_conv_nth drop_Suc)

lemma take_split: "i \<le> n \<Longrightarrow> take n p = take i p @ take (n - i) (drop i p)"
  by (simp flip: take_add)

lemma publish_fields_cases:
  assumes "len \<le> length p"
  obtains (refused) "publish_fields p qos len = Some None"
    | (fields) topic pkt_id payload where "publish_fields p qos len = Some (Some (topic, pkt_id, payload))"
      "take len p = enc_str topic @ (if 0 < qos then [hi8 pkt_id, lo8 pkt_id] else []) @ payload"
      "length topic < 65536" "0 < qos \<or> pkt_id = 0"
proof (cases "len < 2")
  case True
  then show thesis using refused by (simp add: publish_fields_def)
next
  case False
  let ?a = "p ! 0" and ?b = "p ! 1"
  let ?t = "unat ?a * 256 + unat ?b"
  let ?o = "if 0 < qos then 2 + ?t + 2 else 2 + ?t"
  have ab: "rd p 0 = Some ?a" "rd p 1 = Some ?b" using False assms by (auto simp: rd_def)
  show thesis
  proof (cases "len < ?o")
    case True
    then show thesis using refused False ab by (auto simp: publish_fields_def Let_def split: if_splits)
  next
    case o: False
    let ?id = "if 0 < qos then be16_of (p ! (2 + ?t)) (p ! (3 + ?t)) else 0"
    let ?topic = "take ?t (drop 2 p)" and ?pl = "take (len - ?o) (drop ?o p)"
    have lt: "length ?topic = ?t" using o assms by (simp split: if_splits)
    have bnd: "unat ?a < 256" "unat ?b < 256" using unsigned_less [of ?a] unsigned_less [of ?b] by simp_all
    have f: "publish_fields p qos len = Some (Some (?topic, ?id, ?pl))"
      using False o ab assms by (auto simp: publish_fields_def Let_def numeral_3_eq_3 numeral_2_eq_2 split: if_splits)
    have et: "enc_str ?topic = take (2 + ?t) p"
    proof -
      have "enc_str ?topic = [?a, ?b] @ ?topic"
        using bnd unfolding enc_str_def lt by (simp add: Let_def)
      also have "[?a, ?b] = take 2 p"
        using take_two [of 0 p] False assms by simp
      also have "take 2 p @ ?topic = take (2 + ?t) p" by (rule take_add [symmetric])
      finally show ?thesis .
    qed
    show thesis
    proof (rule fields [OF f])
      show "length ?topic < 65536" using bnd lt by simp
      show "0 < qos \<or> ?id = 0" by simp
      show "take len p = enc_str ?topic @ (if 0 < qos then [hi8 ?id, lo8 ?id] else []) @ ?pl"
      proof (cases "0 < qos")
        case True
        then have "[hi8 ?id, lo8 ?id] = take 2 (drop (2 + ?t) p)"
          using take_two [of "2 + ?t" p] o assms by (simp add: numeral_3_eq_3 numeral_2_eq_2)
        moreover have "take len p = take (2 + ?t) p @ take 2 (drop (2 + ?t) p) @ take (len - (2 + ?t + 2)) (drop (2 + ?t + 2) p)"
          using take_split [of "2 + ?t" len p] take_split [of 2 "len - (2 + ?t)" "drop (2 + ?t) p"] o True
          by (simp add: add.commute)
        ultimately show ?thesis using True et by simp
      next
        case False
        have "take len p = take (2 + ?t) p @ take (len - (2 + ?t)) (drop (2 + ?t) p)"
          using take_split [of "2 + ?t" len p] o False by simp
        with False et show ?thesis by simp
      qed
    qed
  qed
qed

lemma publish_fields_enc:
  assumes "length (enc_str topic @ payload) \<le> length p"
    and "take (length (enc_str topic @ payload)) p = enc_str topic @ payload" and "length topic < 65536"
  shows "publish_fields p 0 (length (enc_str topic @ payload)) = Some (Some (topic, 0, payload))"
proof -
  obtain q where p: "p = enc_str topic @ payload @ q"
    using assms(2) by (metis append_assoc append_take_drop_id)
  have "length topic div 256 < 256" using assms(3) by simp
  then have v: "unat (of_nat (length topic div 256) :: u8) * 256 + unat (of_nat (length topic mod 256) :: u8) = length topic"
    by (simp add: unat_of_nat)
  show ?thesis
    by (simp add: p publish_fields_def enc_str_def str_field_len_def Let_def v)
qed

section \<open>The session keeps its sockets\<close>

text \<open>What every operation of a session keeps: the socket and the configuration, a packet identifier
  that is not 0, and, in a lawful world, the invariant and the open sockets.\<close>

definition task_keeps ::
  "('w \<Rightarrow> bool) \<Rightarrow> ('w \<Rightarrow> int set) \<Rightarrow> 'w mqtt_ctx \<Rightarrow> 'w mqtt_ctx \<Rightarrow> bool" where
  "task_keeps I F c c' \<longleftrightarrow> m_fd c' = m_fd c \<and> m_cfg c' = m_cfg c \<and>
     (m_next_pkt_id c \<noteq> 0 \<longrightarrow> m_next_pkt_id c' \<noteq> 0) \<and>
     (I (m_net c) \<longrightarrow> I (m_net c') \<and> F (m_net c') = F (m_net c))"

lemma task_keeps_refl [simp]: "task_keeps I F c c"
  and task_keeps_trans: "task_keeps I F c d \<Longrightarrow> task_keeps I F d e \<Longrightarrow> task_keeps I F c e"
  and task_keeps_fields [simp]:
    "task_keeps I F c (c'\<lparr>m_last_tx_ms := t\<rparr>) = task_keeps I F c c'"
    "task_keeps I F c (c'\<lparr>m_last_rx_ms := t\<rparr>) = task_keeps I F c c'"
    "task_keeps I F c (c'\<lparr>m_msgs := ms\<rparr>) = task_keeps I F c c'"
    "task_keeps I F (c\<lparr>m_last_tx_ms := t\<rparr>) c' = task_keeps I F c c'"
    "task_keeps I F (c\<lparr>m_last_rx_ms := t\<rparr>) c' = task_keeps I F c c'"
    "task_keeps I F (c\<lparr>m_msgs := ms\<rparr>) c' = task_keeps I F c c'"
    "task_keeps I F c (into_rxbuf b c') = task_keeps I F c c'"
  by (auto simp: task_keeps_def into_rxbuf_def)

lemma loop_keeps:
  assumes "turns n body (x, c) = Some (r, y, c')"
    and "\<And>x d q y d'. body (x, d) = Some (q, y, d') \<Longrightarrow> task_keeps I F d d'"
  shows "task_keeps I F c c'"
proof -
  have "(\<lambda>_ s. task_keeps I F c (snd s)) r (y, c')"
    by (rule turns_rule [OF assms(1), where I = "\<lambda>s. task_keeps I F c (snd s)"])
      (auto dest!: assms(2) intro: task_keeps_trans)
  then show ?thesis by simp
qed

context tcp_host
begin

lemma net_keeps: "(inv (m_net c) \<Longrightarrow> inv w \<and> fds w = fds (m_net c)) \<Longrightarrow> task_keeps inv fds c (c\<lparr>m_net := w\<rparr>)"
  by (simp add: task_keeps_def)

lemma now_keeps: "m_now h c = (t, c') \<Longrightarrow> task_keeps inv fds c c'"
  by (auto simp: m_now_def split: prod.splits intro!: net_keeps dest: now_law)

lemma send_turn_keeps:
  assumes "send_all_turn h b (x, c) = Some (q, y, c')"
  shows "task_keeps inv fds c c'"
proof (cases "length b \<le> x")
  case True
  with assms show ?thesis by (auto simp: send_all_turn_def dest: now_keeps split: prod.splits)
next
  case False
  obtain n w where s: "ops_send (h_sock h) (m_fd c) (drop x b) (m_net c) = Some (n, w)"
    using assms False by (auto simp: send_all_turn_def split: option.splits)
  have k: "inv (m_net c) \<Longrightarrow> inv w \<and> fds w = fds (m_net c)" by (rule send_law [OF _ s])
  have "c' = c\<lparr>m_net := w\<rparr> \<or> c' = c\<lparr>m_net := h_delay h (Ticks 1) w\<rparr>"
    using assms False s by (auto simp: send_all_turn_def Let_def split: if_splits)
  with k delay_law show ?thesis by (auto intro: net_keeps)
qed

lemma send_all_keeps: "send_all h k b c = Some (r, c') \<Longrightarrow> task_keeps inv fds c c'"
  by (auto simp: send_all_def intro: loop_keeps [OF _ send_turn_keeps])

lemma recv_some_keeps:
  assumes "recv_some h n c = Some (q, c')"
  shows "task_keeps inv fds c c'"
proof -
  obtain r b w where s: "ops_recv (h_sock h) (m_fd c) n (m_net c) = Some ((r, b), w)"
    using assms by (auto simp: recv_some_def split: option.splits)
  have k: "task_keeps inv fds c (c\<lparr>m_net := w\<rparr>)" by (rule net_keeps) (rule recv_law [OF _ s])
  then show ?thesis
    using assms s by (auto simp: recv_some_def Let_def split: if_splits prod.splits
        dest!: now_keeps intro: task_keeps_trans)
qed

lemma read_exact_keeps:
  assumes "read_exact h k n tmo c = Some (q, c')"
  shows "task_keeps inv fds c c'"
proof -
  obtain t c1 where t: "m_now h c = (t, c1)" by (cases "m_now h c")
  obtain r got where run: "turns k (read_exact_turn h n t tmo) ([], c1) = Some (r, got, c')"
    using assms t by (auto simp: read_exact_def)
  have "task_keeps inv fds d d'" if "read_exact_turn h n t tmo (x, d) = Some (p, y, d')" for x d p y d'
    using that by (auto simp: read_exact_turn_def split: if_splits option.splits rd_t.splits prod.splits
        dest!: recv_some_keeps now_keeps intro: task_keeps_trans)
  from loop_keeps [OF run this] now_keeps [OF t] show ?thesis by (rule task_keeps_trans [rotated])
qed

lemma drop_bytes_keeps: "drop_bytes h k n c = Some (r, c') \<Longrightarrow> task_keeps inv fds c c'"
  by (auto simp: drop_bytes_def elim!: loop_keeps)
    (auto simp: drop_turn_def Let_def split: if_splits option.splits prod.splits dest!: read_exact_keeps)

lemma remaining_len_keeps:
  "remaining_len_loop h k i v m c = Some (r, c') \<Longrightarrow> task_keeps inv fds c c'"
proof (induction i arbitrary: v m c)
  case 0
  then show ?case by simp
next
  case (Suc i)
  then show ?case
    by (auto simp: Let_def split: option.splits if_splits prod.splits dest!: read_exact_keeps
        intro: task_keeps_trans)
qed

lemma read_packet_keeps: "read_packet h k c = Some (q, c') \<Longrightarrow> task_keeps inv fds c c'"
  by (auto simp: read_packet_def read_remaining_len_def Let_def
      split: option.splits if_splits prod.splits rd_t.splits
      dest!: read_exact_keeps remaining_len_keeps drop_bytes_keeps intro: task_keeps_trans)

lemma handle_publish_keeps: "handle_publish h k fl n c = Some c' \<Longrightarrow> task_keeps inv fds c c'"
  by (auto simp: handle_publish_def send_puback_def Let_def
      split: option.splits if_splits prod.splits dest!: send_all_keeps)

lemma wait_packet_keeps:
  assumes "wait_packet h k want tmo c = Some (r, c')"
  shows "task_keeps inv fds c c'"
proof -
  obtain t c1 where t: "m_now h c = (t, c1)" by (cases "m_now h c")
  have run: "turns k (wait_turn h k want t tmo) c1 = Some (r, c')"
    using assms t by (simp add: wait_packet_def)
  have step: "task_keeps inv fds d d'" if "wait_turn h k want t tmo d = Some (p, d')" for d p d'
    using that by (auto simp: wait_turn_def split: if_splits option.splits prod.splits
        dest!: read_packet_keeps handle_publish_keeps now_keeps intro: task_keeps_trans)
  have "(\<lambda>_. task_keeps inv fds c1) r c'"
    by (rule turns_rule [OF run, where I = "task_keeps inv fds c1"])
      (auto dest!: step intro: task_keeps_trans)
  with now_keeps [OF t] show ?thesis by (blast intro: task_keeps_trans)
qed

lemma mqtt_open_keeps: "mqtt_open h k c = Some (b, c') \<Longrightarrow> task_keeps inv fds c c'"
  by (auto simp: mqtt_open_def send_connect_def bind_eq_Some_conv
      split: if_splits option.splits prod.splits
      dest!: send_all_keeps wait_packet_keeps intro: task_keeps_trans)

lemma mqtt_subscribe_keeps:
  assumes "mqtt_subscribe h k c = Some (b, c')"
  shows "task_keeps inv fds c c'"
proof (cases "sub_topic (m_cfg c)")
  case None
  with assms show ?thesis by (simp add: mqtt_subscribe_def)
next
  case (Some topic)
  let ?c0 = "c\<lparr>m_next_pkt_id := if m_next_pkt_id c + 1 = 0 then 1 else m_next_pkt_id c + 1\<rparr>"
  have k0: "task_keeps inv fds c ?c0" by (simp add: task_keeps_def)
  obtain sent c1 where s: "send_subscribe h k (m_next_pkt_id c) topic ?c0 = Some (sent, c1)"
    using assms Some by (auto simp: mqtt_subscribe_def Let_def bind_eq_Some_conv)
  have k1: "task_keeps inv fds ?c0 c1"
    using s by (auto simp: send_subscribe_def split: if_splits option.splits dest: send_all_keeps)
  have "task_keeps inv fds c1 c'"
    using assms Some s by (auto simp: mqtt_subscribe_def Let_def bind_eq_Some_conv
        split: if_splits option.splits prod.splits dest!: wait_packet_keeps)
  with k0 k1 show ?thesis by (blast intro: task_keeps_trans)
qed

lemma session_turn_keeps:
  assumes "session_turn h k (x, c) = Some (q, y, c')"
  shows "task_keeps inv fds c c'"
proof -
  have pub: "task_keeps inv fds d d'" if "publish_due h k now l d = Some (p, d')" for d d' p now l
    using that by (auto simp: publish_due_def send_publish_def split: option.splits if_splits
        dest!: send_all_keeps)
  have ka: "task_keeps inv fds d d'" if "keep_alive h k now d = Some (p, d')" for d d' p now
    using that by (auto simp: keep_alive_def send_pingreq_def Let_def bind_eq_Some_conv
        split: if_splits dest!: send_all_keeps)
  note st = assms [unfolded session_turn_def prod.case]
  from st obtain r ty flags n c1 where rp: "read_packet h k c = Some ((r, ty, flags, n), c1)"
    by (cases "read_packet h k c") auto
  note k1 = read_packet_keeps [OF rp]
  note st1 = st [unfolded rp Option.bind.bind_lunit prod.case]
  show ?thesis
  proof (cases "r < 0")
    case True
    with st1 k1 show ?thesis by simp
  next
    case False
    note st2 = st1 [unfolded if_not_P [OF False]]
    let ?hp = "if 0 < r \<and> ty = MQTT_PKT_PUBLISH then handle_publish h k flags n c1 else Some c1"
    from st2 obtain c2 where c2: "?hp = Some c2" by (cases ?hp) auto
    have k2: "task_keeps inv fds c1 c2" using c2 by (auto split: if_splits dest: handle_publish_keeps)
    obtain now c3 where n: "m_now h c2 = (now, c3)" by (rule prod.exhaust)
    note st3 = st2 [unfolded c2 Option.bind.bind_lunit n Let_def prod.case]
    from st3 obtain ok l c4 where pu: "publish_due h k now x c3 = Some ((ok, l), c4)"
      by (cases "publish_due h k now x c3") auto
    note st4 = st3 [unfolded pu Option.bind.bind_lunit prod.case]
    note k4 = task_keeps_trans [OF task_keeps_trans [OF k1 k2] task_keeps_trans [OF now_keeps [OF n] pub [OF pu]]]
    show ?thesis
    proof (cases ok)
      case False
      with st4 k4 show ?thesis by simp
    next
      case True
      with st4 obtain al where "keep_alive h k now c4 = Some (al, c')"
        by (cases "keep_alive h k now c4") auto
      from task_keeps_trans [OF k4 ka [OF this]] show ?thesis .
    qed
  qed
qed

lemma session_body_keeps:
  assumes "session_body h k c = Some c'"
  shows "task_keeps inv fds c c'"
proof -
  obtain t c1 where t: "m_now h c = (t, c1)" by (rule prod.exhaust)
  note st = assms [unfolded session_body_def t Let_def prod.case]
  from st obtain ok c2 where op: "mqtt_open h k (c1\<lparr>m_last_rx_ms := t, m_last_tx_ms := t\<rparr>) = Some (ok, c2)"
    by (cases "mqtt_open h k (c1\<lparr>m_last_rx_ms := t, m_last_tx_ms := t\<rparr>)") auto
  have k2: "task_keeps inv fds c c2"
    using now_keeps [OF t] mqtt_open_keeps [OF op] by (simp add: task_keeps_trans)
  show ?thesis
  proof (cases ok)
    case False
    with st op k2 show ?thesis by simp
  next
    case True
    note st2 = st [unfolded op Option.bind.bind_lunit prod.case, simplified True]
    from st2 obtain ok3 c3 where su: "mqtt_subscribe h k c2 = Some (ok3, c3)"
      by (cases "mqtt_subscribe h k c2") auto
    have k3: "task_keeps inv fds c c3" using k2 mqtt_subscribe_keeps [OF su] by (rule task_keeps_trans)
    obtain l c4 where l: "m_now h c3 = (l, c4)" by (rule prod.exhaust)
    show ?thesis
    proof (cases ok3)
      case False
      with st2 su k3 show ?thesis by simp
    next
      case True
      with st2 su l obtain r y where "turns k (session_turn h k) (l, c4) = Some (r, y, c')"
        by (auto simp: bind_eq_Some_conv)
      from loop_keeps [OF this session_turn_keeps] have "task_keeps inv fds c4 c'" .
      from task_keeps_trans [OF k3 task_keeps_trans [OF now_keeps [OF l] this]] show ?thesis .
    qed
  qed
qed

lemma tcp_connect_effect:
  assumes "tcp_connect h aton c = Some (ok, c')" and "inv (m_net c)"
  shows "inv (m_net c') \<and> m_cfg c' = m_cfg c \<and> m_next_pkt_id c' = m_next_pkt_id c \<and>
    (if ok then 0 \<le> m_fd c' \<and> m_fd c' \<notin> fds (m_net c) \<and> fds (m_net c') = insert (m_fd c') (fds (m_net c))
     else m_fd c' < 0 \<and> fds (m_net c') = fds (m_net c))"
proof -
  obtain fd w1 where so: "ops_socket (h_sock h) 2 1 6 (m_net c) = (fd, w1)"
    by (cases "ops_socket (h_sock h) 2 1 6 (m_net c)")
  note S = socket_law [OF assms(2) so]
  show ?thesis
  proof (cases "fd < 0")
    case True
    have S1: "inv w1" "fds w1 = fds (m_net c)" using S True by simp_all
    have "ok = False" "c' = c\<lparr>m_fd := fd, m_net := w1\<rparr>"
      using assms(1) [unfolded tcp_connect_def Let_def so prod.case if_P [OF True]] by simp_all
    with True S1 show ?thesis by simp
  next
    case False
    let ?w2 = "ops_setsockopt (h_sock h) fd SOL_SOCKET SO_RCVTIMEO (timeval_bytes MQTT_POLL_MS) w1"
    let ?w3 = "ops_setsockopt (h_sock h) fd IPPROTO_TCP TCP_NODELAY (le32_bytes 1) ?w2"
    obtain r w4 where co: "ops_connect (h_sock h) fd \<lparr>sin_family_inet = True,
        sin_port = lwip_htons (broker_port (m_cfg c)), sin_addr = aton (broker_ip (m_cfg c))\<rparr> ?w3 = (r, w4)"
      by (rule prod.exhaust)
    have S1: "inv w1" "fd \<notin> fds (m_net c)" "fds w1 = insert fd (fds (m_net c))" using S False by simp_all
    note s2 = setsockopt_law [OF S1(1), of fd SOL_SOCKET SO_RCVTIMEO "timeval_bytes MQTT_POLL_MS"]
    note s3 = setsockopt_law [OF conjunct1 [OF s2], of fd IPPROTO_TCP TCP_NODELAY "le32_bytes 1"]
    note s4 = connect_law [OF conjunct1 [OF s3] co]
    have k4: "inv w4" "fds w4 = insert fd (fds (m_net c))"
      using conjunct1 [OF s4] conjunct2 [OF s4] conjunct2 [OF s3] conjunct2 [OF s2] S1(3) by (simp_all only:)
    note st = assms(1) [unfolded tcp_connect_def Let_def so prod.case if_not_P [OF False] co]
    show ?thesis
    proof (cases "r = 0")
      case True
      with st have "ok" "c' = c\<lparr>m_fd := fd, m_net := w4\<rparr>" by simp_all
      with S1 k4 False show ?thesis by simp
    next
      case nr: False
      then obtain w5 where cl: "ops_close (h_sock h) fd w4 = Some w5" and
        c': "ok = False" "c' = c\<lparr>m_fd := -1, m_net := w5\<rparr>"
        using st by auto
      have "inv w5 \<and> fds w5 = fds w4 - {fd}" by (rule close_law [OF k4(1) _ cl]) (simp add: k4)
      with k4 S1 c' show ?thesis by simp
    qed
  qed
qed

lemma session_effect:
  assumes "mqtt_session h aton k c = Some c'" and "inv (m_net c)"
  shows "inv (m_net c') \<and> fds (m_net c') = fds (m_net c) \<and> m_fd c' < 0 \<and> m_cfg c' = m_cfg c \<and>
    (m_next_pkt_id c \<noteq> 0 \<longrightarrow> m_next_pkt_id c' \<noteq> 0)"
proof -
  obtain ok c1 where tc: "tcp_connect h aton c = Some (ok, c1)"
    using assms(1) by (auto simp: mqtt_session_def bind_eq_Some_conv)
  note T = tcp_connect_effect [OF tc assms(2)]
  show ?thesis
  proof (cases ok)
    case False
    with assms(1) tc T show ?thesis by (auto simp: mqtt_session_def)
  next
    case True
    obtain c2 w where b: "session_body h k c1 = Some c2" and
      cl: "ops_close (h_sock h) (m_fd c2) (m_net c2) = Some w" and c': "c' = c2\<lparr>m_fd := -1, m_net := w\<rparr>"
      using assms(1) tc True by (auto simp: mqtt_session_def bind_eq_Some_conv)
    note K = session_body_keeps [OF b, unfolded task_keeps_def]
    have "m_fd c2 \<in> fds (m_net c2)" "inv (m_net c2)" using K T True by auto
    from close_law [OF this(2,1) cl] K T True c' show ?thesis by auto
  qed
qed

lemma sessions_effect:
  "mqtt_sessions h aton k n c = Some c' \<Longrightarrow> inv (m_net c) \<Longrightarrow> m_fd c < 0 \<Longrightarrow>
   inv (m_net c') \<and> fds (m_net c') = fds (m_net c) \<and> m_fd c' < 0 \<and> m_cfg c' = m_cfg c \<and>
     (m_next_pkt_id c \<noteq> 0 \<longrightarrow> m_next_pkt_id c' \<noteq> 0)"
proof (induction n arbitrary: c)
  case 0
  then show ?case by simp
next
  case (Suc n)
  obtain c1 where s: "mqtt_session h aton k c = Some c1"
    and r: "mqtt_sessions h aton k n (c1\<lparr>m_net := h_delay h (Millis MQTT_RECONNECT_MS) (m_net c1)\<rparr>) = Some c'"
    using Suc.prems(1) by (auto split: option.splits)
  note E = session_effect [OF s Suc.prems(2)]
  from Suc.IH [OF r] E delay_law [of "m_net c1"] show ?case by auto
qed

end

section \<open>The properties\<close>

text \<open>A connection for the witnesses: what is still to be read, what was sent, and the time. A receive
  takes at most three bytes, a send takes everything and two milliseconds.\<close>

definition pipe_ops :: "(bytes \<times> bytes \<times> u32) net_sock_ops" where
  "pipe_ops = \<lparr>ops_socket = (\<lambda>_ _ _ w. (3, w)), ops_bind = (\<lambda>_ _ w. (0, w)), ops_listen = (\<lambda>_ _ w. (0, w)),
     ops_accept = (\<lambda>_ w. Some ((-1, None), w)), ops_connect = (\<lambda>_ _ w. (0, w)),
     ops_recv = (\<lambda>_ n (i, o1, t). let b = take (min 3 n) i in
        Some (if b = [] then ((-1, []), i, o1, t + 1000) else ((int (length b), b), drop (min 3 n) i, o1, t))),
     ops_send = (\<lambda>_ b (i, o1, t). Some (int (length b), i, o1 @ b, t + 2)),
     ops_recvfrom = (\<lambda>_ _ _ w. Some ((-1, [], None), w)), ops_sendto = (\<lambda>_ _ _ w. Some (-1, w)),
     ops_setsockopt = (\<lambda>_ _ _ _ w. w), ops_close = (\<lambda>_ w. Some w), ops_fcntl = None\<rparr>"

definition pipe_host :: "(bytes \<times> bytes \<times> u32) host" where
  "pipe_host = \<lparr>h_sock = pipe_ops, h_errno = (\<lambda>_. EWOULDBLOCK), h_now_ms = (\<lambda>(i, o1, t). (t, i, o1, t)),
     h_delay = (\<lambda>_ w. w)\<rparr>"

definition pipe_cfg :: mqtt_config where
  "pipe_cfg = \<lparr>broker_ip = [49], broker_port = 1883, client_id = [97], username = Some [117],
     password = None, keepalive_s = 60, pub_topic = Some [116], pub_payload = [104, 105],
     pub_period_ms = 10000, sub_topic = None\<rparr>"

definition pipe_ctx :: "bytes \<Rightarrow> (bytes \<times> bytes \<times> u32) mqtt_ctx" where
  "pipe_ctx i = (mqtt_client_start pipe_cfg (i, [], 50000))\<lparr>m_fd := 3, m_rxbuf := replicate 32 0, m_cap := 32\<rparr>"

lemma take_min_length: "take (min (length a) m) a = take m a"
  by (simp add: min_def)

lemma pipe_stream: "in_stream pipe_host fd fst"
  by (auto simp: take_min_length in_stream_def pipe_host_def pipe_ops_def Let_def split: if_splits prod.splits)

lemma pipe_delivers: "delivers pipe_host fd fst"
  by (auto simp: delivers_def pipe_host_def pipe_ops_def Let_def)

lemmas pipe_defs = pipe_host_def pipe_ops_def pipe_cfg_def pipe_ctx_def mqtt_client_start_def

text \<open>C25. Reading keeps in step with the packets. Whatever the broker sends and however the stream is
  cut into receives: when a packet is reported, the type, the flags and the body are those of the next
  packet of the stream, and exactly that packet has been taken off it; when none is reported, either
  nothing was taken, or a whole packet larger than the receive buffer was, and dropped. The buffer is
  never written past its end.\<close>

theorem mqtt_read_in_step:
  assumes "in_stream h (m_fd c) pend" and "m_cap c = length (m_rxbuf c)"
    and "read_packet h k c = Some ((r, ty, flags, n), c')"
  shows "(r = 1 \<longrightarrow> n \<le> m_cap c \<and>
            mqtt_frame (pend (m_net c)) = Some (ty, flags, take n (m_rxbuf c'), pend (m_net c'))) \<and>
    (r = 0 \<longrightarrow> pend (m_net c') = pend (m_net c) \<or>
       (\<exists>body. mqtt_frame (pend (m_net c)) = Some (ty, flags, body, pend (m_net c')) \<and> m_cap c < length body)) \<and>
    r \<in> {-1, 0, 1} \<and> length (m_rxbuf c') = m_cap c"
  using read_packet_stream [OF assms] assms(2)
  by (auto simp: in_step_def rx_frame_buf_def split: if_splits)

theorem mqtt_read_in_step_witness:
  "\<exists>c'. read_packet pipe_host 20 (pipe_ctx [0x30, 3, 0, 1, 116, 0xD0, 0]) = Some ((1, 3, 0, 3), c') \<and>
     take 3 (m_rxbuf c') = [0, 1, 116] \<and> fst (m_net c') = [0xD0, 0]"
proof -
  have fr: "mqtt_frame [0x30, 3, 0, 1, 116, 0xD0, 0] = Some (3, 0, [0, 1, 116], [0xD0, 0])" by code_simp
  have "(case read_packet pipe_host 20 (pipe_ctx [0x30, 3, 0, 1, 116, 0xD0, 0]) of
      Some (q, _) \<Rightarrow> q = (1, 3, 0, 3) | None \<Rightarrow> False)" by code_simp
  then obtain c' where c': "read_packet pipe_host 20 (pipe_ctx [0x30, 3, 0, 1, 116, 0xD0, 0]) = Some ((1, 3, 0, 3), c')"
    by (auto split: option.splits)
  have "m_cap (pipe_ctx [0x30, 3, 0, 1, 116, 0xD0, 0]) = length (m_rxbuf (pipe_ctx [0x30, 3, 0, 1, 116, 0xD0, 0]))"
    by (simp add: pipe_ctx_def)
  from mqtt_read_in_step [OF pipe_stream this c'] fr c' show ?thesis
    by (simp add: pipe_ctx_def mqtt_client_start_def)
qed

text \<open>C26. A published message arrives. What \<open>send_publish\<close> builds for a topic and a payload within its
  guards, once it is next on the stream of another client with a large enough buffer, is read by that
  client as one PUBLISH at QoS 0 and logged with exactly that topic and payload; the packets behind it
  are still on the stream.\<close>

theorem mqtt_publish_arrives:
  assumes "publish_packet cap topic payload = Some p" and "length topic < 65536"
    and "5 + (str_field_len topic + length payload) \<le> cap" and "cap < 128 ^ 4"
    and "in_stream h (m_fd c) pend" and "delivers h (m_fd c) pend"
    and "pend (m_net c) = p @ rest" and "m_cap c = length (m_rxbuf c)" and "cap \<le> m_cap c" and "m_cap c < k"
  shows "\<exists>c1 c2. read_packet h k c = Some ((1, MQTT_PKT_PUBLISH, 0, str_field_len topic + length payload), c1) \<and>
    handle_publish h k 0 (str_field_len topic + length payload) c1 = Some c2 \<and>
    m_msgs c2 = m_msgs c @ [(topic, payload)] \<and> pend (m_net c2) = rest"
proof -
  let ?body = "enc_str topic @ payload"
  have len: "length ?body = str_field_len topic + length payload" by simp
  have p: "p = push_bit 4 MQTT_PKT_PUBLISH # enc_remaining_len (length ?body) @ ?body"
    using publish_packet_eq [OF assms(3,4)] assms(1) by simp
  have b0: "drop_bit 4 (push_bit 4 MQTT_PKT_PUBLISH) = MQTT_PKT_PUBLISH" "push_bit 4 MQTT_PKT_PUBLISH AND 0x0F = 0"
    by (simp_all add: MQTT_PKT_PUBLISH_def)
  have small: "length ?body < 128 ^ 4" using assms(3,4) by simp
  have fr: "mqtt_frame (pend (m_net c)) = Some (MQTT_PKT_PUBLISH, 0, ?body, rest)"
    using mqtt_frame_enc [OF small, of "push_bit 4 MQTT_PKT_PUBLISH" rest] b0 by (simp add: assms(7) p)
  obtain c1 where rp: "read_packet h k c = Some ((1, MQTT_PKT_PUBLISH, 0, length ?body), c1)"
    and f: "rx_frame_buf c c1" and tk: "take (length ?body) (m_rxbuf c1) = ?body" and pn: "pend (m_net c1) = rest"
    using read_packet_delivers [OF assms(5,6) fr assms(8), of k] assms(3,9,10) by auto
  have le: "length ?body \<le> length (m_rxbuf c1)"
    using f assms(3,8,9) by (simp add: rx_frame_buf_def)
  have pf: "publish_fields (m_rxbuf c1) 0 (length ?body) = Some (Some (topic, 0, payload))"
    by (rule publish_fields_enc [OF le tk assms(2)])
  then have "handle_publish h k 0 (length ?body) c1 = Some (c1\<lparr>m_msgs := m_msgs c1 @ [(topic, payload)]\<rparr>)"
    by (simp add: handle_publish_def)
  with rp f pn len show ?thesis by (simp add: rx_frame_buf_def)
qed

theorem mqtt_publish_arrives_witness:
  "\<exists>c1 c2. read_packet pipe_host 40 (pipe_ctx [0x30, 5, 0, 1, 116, 104, 105, 0xD0, 0]) = Some ((1, 3, 0, 5), c1) \<and>
     handle_publish pipe_host 40 0 5 c1 = Some c2 \<and> m_msgs c2 = [([116], [104, 105])] \<and> fst (m_net c2) = [0xD0, 0]"
proof -
  let ?c = "pipe_ctx [0x30, 5, 0, 1, 116, 104, 105, 0xD0, 0]"
  have p: "publish_packet 32 [116] [104, 105] = Some [0x30, 5, 0, 1, 116, 104, 105]" by code_simp
  have c: "fst (m_net ?c) = [0x30, 5, 0, 1, 116, 104, 105] @ [0xD0, 0]" "m_cap ?c = length (m_rxbuf ?c)"
    "32 \<le> m_cap ?c" "m_cap ?c < 40" "m_msgs ?c = []"
    by (simp_all add: pipe_ctx_def mqtt_client_start_def)
  from mqtt_publish_arrives [OF p _ _ _ pipe_stream pipe_delivers c(1-4)] c(5) show ?thesis
    by (simp add: str_field_len_def MQTT_PKT_PUBLISH_def)
qed

lemma one_frame:
  assumes "f = Some (b # enc_remaining_len (length body) @ body)" and "5 + length body \<le> cap"
    and "cap < 128 ^ 4" and "drop_bit 4 b = ty" and "b AND 0x0F = flags"
  shows "\<exists>p. f = Some p \<and> length p \<le> cap \<and> mqtt_frame p = Some (ty, flags, body, [])"
proof -
  have l: "length body < 128 ^ 4" using assms(2,3) by simp
  have "length (enc_remaining_len (length body)) \<le> 4"
    using enc_remaining_len_length [of "length body" 3] l by simp
  with mqtt_frame_enc [OF l, of b "[]"] assms show ?thesis by simp
qed

text \<open>The packets the client builds. Within the guard that the send functions check, CONNECT,
  SUBSCRIBE and PUBLISH are built without writing past the transmit buffer, and each is one frame: the
  remaining length announced is the number of bytes that follow, and the body has the fields in the
  order of the standard.\<close>

theorem mqtt_packets_framed:
  assumes "cap < 128 ^ 4"
  shows "(5 + connect_rem cfg \<le> cap \<longrightarrow> (\<exists>p. connect_packet cap cfg = Some p \<and> length p \<le> cap \<and>
      mqtt_frame p = Some (MQTT_PKT_CONNECT, 0, enc_str [77, 81, 84, 84] @ [MQTT_PROTOCOL_LEVEL,
        CONNECT_CLEAN_SESSION OR (if has_user cfg then CONNECT_USERNAME else 0) OR
        (if has_pass cfg then CONNECT_PASSWORD else 0), hi8 (keepalive_s cfg), lo8 (keepalive_s cfg)] @
        enc_str (client_id cfg) @ (if has_user cfg then enc_str (the (username cfg)) else []) @
        (if has_pass cfg then enc_str (the (password cfg)) else []), []))) \<and>
    (5 + (2 + str_field_len topic + 1) \<le> cap \<longrightarrow> (\<exists>p. subscribe_packet cap pkt_id topic = Some p \<and>
      length p \<le> cap \<and> mqtt_frame p = Some (MQTT_PKT_SUBSCRIBE, 2, [hi8 pkt_id, lo8 pkt_id] @ enc_str topic @ [0], []))) \<and>
    (5 + (str_field_len topic + length payload) \<le> cap \<longrightarrow> (\<exists>p. publish_packet cap topic payload = Some p \<and>
      length p \<le> cap \<and> mqtt_frame p = Some (MQTT_PKT_PUBLISH, 0, enc_str topic @ payload, [])))"
proof -
  have ty: "drop_bit 4 (push_bit 4 MQTT_PKT_CONNECT) = MQTT_PKT_CONNECT" "push_bit 4 MQTT_PKT_CONNECT AND 0x0F = 0"
    "drop_bit 4 (push_bit 4 MQTT_PKT_SUBSCRIBE OR 2) = MQTT_PKT_SUBSCRIBE" "(push_bit 4 MQTT_PKT_SUBSCRIBE OR 2) AND 0x0F = 2"
    "drop_bit 4 (push_bit 4 MQTT_PKT_PUBLISH) = MQTT_PKT_PUBLISH" "push_bit 4 MQTT_PKT_PUBLISH AND 0x0F = 0"
    by (simp_all add: mqtt_types)
  have n: "connect_rem cfg = length (connect_body cfg)"
    by (simp add: connect_rem_def connect_body_def str_field_len_def)
  show ?thesis
    unfolding connect_body_def [symmetric]
    by (intro conjI impI; (rule one_frame [OF connect_packet_eq _ assms ty(1,2)]
        one_frame [OF subscribe_packet_eq _ assms ty(3,4)] one_frame [OF publish_packet_eq _ assms ty(5,6)]))
      (use assms in \<open>simp_all add: n\<close>)
qed

theorem mqtt_packets_framed_witness:
  "\<exists>p. connect_packet 64 pipe_cfg = Some p \<and> length p \<le> 64 \<and> subscribe_packet 64 7 [116] \<noteq> None \<and>
     publish_packet 64 [116] [104, 105] \<noteq> None"
proof -
  have "5 + connect_rem pipe_cfg \<le> 64" "(64::nat) < 128 ^ 4"
    by (simp_all add: connect_rem_def has_user_def has_pass_def pipe_cfg_def str_field_len_def)
  with mqtt_packets_framed [of 64 pipe_cfg "[116]" 7 "[104, 105]"] show ?thesis
    by (auto simp: str_field_len_def)
qed

text \<open>C27. A PUBLISH body from the network is parsed without reading outside it, whatever its bytes. A body
  that is accepted is exactly the topic with its length, the packet identifier when the QoS is not 0,
  and the payload; everything else is refused.\<close>

theorem mqtt_publish_parsed:
  assumes "len \<le> length p"
  shows "\<exists>r. publish_fields p qos len = Some r \<and>
    (case r of None \<Rightarrow> \<not> (\<exists>topic pkt_id payload. length topic < 65536 \<and>
         take len p = enc_str topic @ (if 0 < qos then [hi8 pkt_id, lo8 pkt_id] else []) @ payload)
     | Some (topic, pkt_id, payload) \<Rightarrow> length topic < 65536 \<and> (0 < qos \<or> pkt_id = 0) \<and>
         take len p = enc_str topic @ (if 0 < qos then [hi8 pkt_id, lo8 pkt_id] else []) @ payload)"
  using assms
proof (cases rule: publish_fields_cases [of len p qos])
  case refused
  have no: False if t: "length topic < 65536"
    "take len p = enc_str topic @ (if 0 < qos then [hi8 pkt_id, lo8 pkt_id] else []) @ payload" for topic pkt_id payload
  proof -
    obtain q where p: "p = enc_str topic @ (if 0 < qos then [hi8 pkt_id, lo8 pkt_id] else []) @ payload @ q"
      using t(2) by (metis append_assoc append_take_drop_id)
    have "length (take len p) = len" using assms by simp
    then have len: "len = 2 + length topic + (if 0 < qos then 2 else 0) + length payload"
      unfolding t(2) by (auto simp: str_field_len_def split: if_splits)
    have "length topic div 256 < 256" using t(1) by simp
    then have v: "unat (of_nat (length topic div 256) :: u8) * 256 + unat (of_nat (length topic mod 256) :: u8) = length topic"
      by (simp add: unat_of_nat)
    show False
      using refused assms by (auto simp: p len publish_fields_def enc_str_def Let_def v rd16_def split: if_splits)
  qed
  show ?thesis
    by (rule exI [of _ None]) (use refused no in \<open>simp only: option.case, blast\<close>)
next
  case fields
  then show ?thesis by auto
qed

theorem mqtt_publish_parsed_witness:
  "publish_fields [0, 1, 116, 0, 9, 104, 105, 77] 1 7 = Some (Some ([116], 9, [104, 105])) \<and>
   (\<exists>r. publish_fields [0, 9, 116] 0 3 = Some r \<and> r = None)"
proof -
  have a: "publish_fields [0, 1, 116, 0, 9, 104, 105, 77] 1 7 = Some (Some ([116], 9, [104, 105]))"
    "publish_fields [0, 9, 116] 0 3 = Some None" by code_simp+
  with mqtt_publish_parsed [of 7 "[0, 1, 116, 0, 9, 104, 105, 77]" 1] show ?thesis by simp
qed

text \<open>C28. The task on the TOE build gives back every socket. After any number of sessions, however each
  of them ended (no socket free, connection refused, CONNECT refused, subscription refused, stream
  lost), exactly the sockets that were open before are open, the task holds no descriptor, and the next
  packet identifier is not 0.\<close>

theorem mqtt_sessions_balanced:
  fixes io :: "'c iolib"
  assumes "toe_reach io s"
    and "mqtt_sessions (net_eth_host io timer delay fuel off nb) aton k n
      ((mqtt_client_start cfg (s, e))\<lparr>m_rxbuf := buf, m_cap := cap\<rparr>) = Some c'"
  shows "toe_fds off (fst (m_net c')) = toe_fds off s \<and> m_fd c' < 0 \<and> m_next_pkt_id c' \<noteq> 0"
proof -
  let ?c = "(mqtt_client_start cfg (s, e))\<lparr>m_rxbuf := buf, m_cap := cap\<rparr>"
  have c: "m_net ?c = (s, e)" "m_fd ?c < 0" "m_next_pkt_id ?c \<noteq> 0" by (simp_all add: mqtt_client_start_def)
  have "errno_inv (m_net ?c)" using reach_toe_inv [OF assms(1)] c(1) by (simp add: errno_inv_def)
  from toe_tcp.sessions_effect [OF assms(2) this c(2)] c show ?thesis by (simp add: errno_fds_def)
qed

text \<open>A broker that refuses the connection of the simulated chip.\<close>

definition sim_refused :: "sim iolib" where
  "sim_refused = sim_io\<lparr>io_connect := (\<lambda>sn ip p c. (-13, c))\<rparr>"

definition sim_refused_host :: "(sim toe \<times> errno) host" where
  "sim_refused_host = net_eth_host sim_refused (\<lambda>c. (int (sim_now c), c)) (\<lambda>_ c. c) 1 54 0x4000"

definition sim_session_ctx :: "(sim toe \<times> errno) mqtt_ctx" where
  "sim_session_ctx = (mqtt_client_start pipe_cfg (toe_boot sim_boot, E_OK))
     \<lparr>m_rxbuf := replicate 32 0, m_cap := 32\<rparr>"

theorem mqtt_sessions_balanced_witness:
  "\<exists>c'. mqtt_sessions sim_refused_host (\<lambda>_. 7) 8 2 sim_session_ctx = Some c' \<and>
     toe_fds 54 (fst (m_net c')) = toe_fds 54 (toe_boot sim_boot)"
proof -
  have "mqtt_sessions sim_refused_host (\<lambda>_. 7) 8 2 sim_session_ctx \<noteq> None" by code_simp
  then obtain c' where c': "mqtt_sessions sim_refused_host (\<lambda>_. 7) 8 2 sim_session_ctx = Some c'"
    by blast
  from mqtt_sessions_balanced [OF reach_boot c' [unfolded sim_refused_host_def sim_session_ctx_def]] c'
  show ?thesis by blast
qed

text \<open>The keep-alive of a turn in which a message was published. The time is read before the publish
  and the time of the last transmission after it: when the clock has moved on in between, the elapsed
  time wraps below zero, and a PINGREQ is sent at once although a packet has just gone out.\<close>

theorem mqtt_ping_after_publish:
  assumes "publish_due h k now last_pub c = Some ((True, pub), c1)"
    and "m_last_tx_ms c1 = now + d" and "0 < d" and "d < 2 ^ 31" and "keepalive_s (m_cfg c1) \<noteq> 0"
  shows "keep_alive h k now c1 = do { (ok, c2) \<leftarrow> send_pingreq h k c1;
     if \<not> ok then Some (False, c2)
     else Some (now - m_last_rx_ms c2 < keepalive_ms (m_cfg c1) + keepalive_ms (m_cfg c1) div 2, c2) }"
proof -
  let ?ka = "keepalive_ms (m_cfg c1)"
  have l: "unat (keepalive_s (m_cfg c1)) < 65536" using unsigned_less [of "keepalive_s (m_cfg c1)"] by simp
  have s: "unat (ucast (keepalive_s (m_cfg c1)) :: u32) = unat (keepalive_s (m_cfg c1))"
    using l by (simp add: unsigned_ucast_eq take_bit_nat_eq_self)
  have z: "unat (keepalive_s (m_cfg c1)) \<noteq> 0" using assms(5) by (simp add: unat_eq_0)
  have ka: "unat ?ka = unat (keepalive_s (m_cfg c1)) * 1000"
    using l by (simp add: keepalive_ms_def unat_word_ariths s)
  have nz: "?ka \<noteq> 0" using ka z by auto
  have d: "unat d < 2147483648" "0 < unat d" using assms(3,4) by (simp_all add: word_less_nat_alt)
  have "now - m_last_tx_ms c1 = - d" using assms(2) by simp
  moreover have "unat (- d) = 4294967296 - unat d" using unat_sub_if' [of 0 d] d(2) by simp
  moreover have "unat (?ka div 2) \<le> 32767500" using ka l by (simp add: unat_div)
  ultimately have "?ka div 2 \<le> now - m_last_tx_ms c1" using d by (simp add: word_le_nat_alt)
  with nz show ?thesis by (simp add: keep_alive_def Let_def)
qed

theorem mqtt_ping_after_publish_witness:
  "\<exists>c1 c2. publish_due pipe_host 5 50000 0 (pipe_ctx []) = Some ((True, 50000), c1) \<and>
     keep_alive pipe_host 5 50000 c1 = Some (c2) \<and> fst (snd (m_net (snd c2))) = [0x30, 5, 0, 1, 116, 104, 105, 0xC0, 0]"
proof -
  have "(case publish_due pipe_host 5 50000 0 (pipe_ctx []) of Some (q, c1) \<Rightarrow>
        q = (True, 50000) \<and> m_last_tx_ms c1 = 50000 + 2 \<and> keepalive_s (m_cfg c1) \<noteq> 0 \<and>
        (case send_pingreq pipe_host 5 c1 of Some (ok, c2) \<Rightarrow> ok \<and>
           fst (snd (m_net c2)) = [0x30, 5, 0, 1, 116, 104, 105, 0xC0, 0] | None \<Rightarrow> False) | None \<Rightarrow> False)"
    by code_simp
  then obtain c1 c2 where p: "publish_due pipe_host 5 50000 0 (pipe_ctx []) = Some ((True, 50000), c1)"
    "m_last_tx_ms c1 = 50000 + 2" "keepalive_s (m_cfg c1) \<noteq> 0" "send_pingreq pipe_host 5 c1 = Some (True, c2)"
    "fst (snd (m_net c2)) = [0x30, 5, 0, 1, 116, 104, 105, 0xC0, 0]"
    by (auto split: option.splits)
  from mqtt_ping_after_publish [OF p(1,2) _ _ p(3)] p show ?thesis by simp
qed

end
