(* ===== verification/Netbios.thy ===== *)
theory Netbios
  imports Net_Tcp
begin

text \<open>
  The NetBIOS name responder (\<open>netbios.c\<close>) and the hooks of the TOE build (\<open>eth_netbios.c\<close>): the
  name encoding of RFC 1001, the query parser and the answer, the setup of the socket and the loop of
  the task. A result \<open>None\<close> means that a call did not return within the fuel, or that the C code reads
  outside a buffer or uses a variable that was not set.
\<close>

section \<open>Constants\<close>

definition NETBIOS_NAME_LEN :: nat where "NETBIOS_NAME_LEN = 16"
definition NETBIOS_ENCNAME_LEN :: nat where "NETBIOS_ENCNAME_LEN = NETBIOS_NAME_LEN * 2"
definition NETB_HFLAG_RESPONSE :: u16 where "NETB_HFLAG_RESPONSE = 0x8000"
definition NETB_HFLAG_OPCODE :: u16 where "NETB_HFLAG_OPCODE = 0x7800"
definition NETB_HFLAG_OPCODE_NAME_QUERY :: u16 where "NETB_HFLAG_OPCODE_NAME_QUERY = 0"
definition NETB_HFLAG_AUTHORATIVE :: u16 where "NETB_HFLAG_AUTHORATIVE = 0x0400"
definition NETB_HFLAG_RECURS_DESIRED :: u16 where "NETB_HFLAG_RECURS_DESIRED = 0x0100"
definition NETB_NFLAG_NODETYPE_BNODE :: u16 where "NETB_NFLAG_NODETYPE_BNODE = 0"
definition NETBIOS_PORT :: u16 where "NETBIOS_PORT = 137"
definition NETBIOS_BUF_SIZE :: nat where "NETBIOS_BUF_SIZE = 512"
definition NETBIOS_RECV_TIMEOUT_MS :: u32 where "NETBIOS_RECV_TIMEOUT_MS = 5000"
definition NETBIOS_NAME_TTL :: u32 where "NETBIOS_NAME_TTL = 10"

text \<open>The packed structs as byte counts: a header of 12, a question of 38 (label length, 33 bytes of
  name, type, class), an answer of 12 more.\<close>

definition netbios_hdr_len :: nat where "netbios_hdr_len = 12"
definition NETBIOS_QUESTION_LEN :: nat where "NETBIOS_QUESTION_LEN = 1 + (NETBIOS_ENCNAME_LEN + 1) + 2 + 2"

lemmas netbios_lens = NETBIOS_NAME_LEN_def NETBIOS_ENCNAME_LEN_def netbios_hdr_len_def NETBIOS_QUESTION_LEN_def
lemmas netbios_flags = NETB_HFLAG_RESPONSE_def NETB_HFLAG_OPCODE_def NETB_HFLAG_OPCODE_NAME_QUERY_def
  NETB_HFLAG_AUTHORATIVE_def NETB_HFLAG_RECURS_DESIRED_def NETB_NFLAG_NODETYPE_BNODE_def

section \<open>The hooks\<close>

text \<open>The hooks of an interface over its socket vtable; \<open>nb_IFNAMSIZ\<close> belongs to lwIP.\<close>

record 'w netbios_ops =
  nb_host :: "'w host"
  nb_get_ip :: "'w \<Rightarrow> bytes option \<times> 'w"
  nb_get_ifname :: "'w \<Rightarrow> bytes \<times> 'w"
  nb_IFNAMSIZ :: nat

definition eth_get_ip :: "'c iolib \<Rightarrow> 'c toe \<times> errno \<Rightarrow> bytes option \<times> 'c toe \<times> errno" where
  "eth_get_ip io = (\<lambda>(s, e).
     let (ni, s1) = on_chip (io_CN_GET_NETINFO io) s in
     (if take 4 (ni_ip ni) = [0, 0, 0, 0] then None else Some (take 4 (ni_ip ni)), s1, e))"

definition eth_get_ifname :: "'c toe \<times> errno \<Rightarrow> bytes \<times> 'c toe \<times> errno" where
  "eth_get_ifname w = ([], w)"

definition netbios_eth_ops ::
  "'c iolib \<Rightarrow> ('c \<Rightarrow> int \<times> 'c) \<Rightarrow> (delay \<Rightarrow> 'c \<Rightarrow> 'c) \<Rightarrow> nat \<Rightarrow> nat \<Rightarrow> u32 \<Rightarrow> nat \<Rightarrow>
     ('c toe \<times> errno) netbios_ops" where
  "netbios_eth_ops io timer delay fuel off nb ifn = \<lparr>nb_host = net_eth_host io timer delay fuel off nb,
     nb_get_ip = eth_get_ip io, nb_get_ifname = eth_get_ifname, nb_IFNAMSIZ = ifn\<rparr>"

section \<open>Names\<close>

text \<open>Two characters 'A'..'P' are the two nibbles of a byte.\<close>

definition level1_byte :: "u8 \<Rightarrow> u8 \<Rightarrow> u8 option" where
  "level1_byte hi lo =
     (if hi < 65 \<or> 80 < hi \<or> lo < 65 \<or> 80 < lo then None
      else Some (push_bit 4 (hi - 65) OR (lo - 65)))"

fun level1_bytes :: "bytes \<Rightarrow> bytes option" where
  "level1_bytes (hi # lo # r) =
     (case level1_byte hi lo of None \<Rightarrow> None
      | Some b \<Rightarrow> map_option (Cons b) (level1_bytes r))"
| "level1_bytes _ = Some []"

fun trim_spaces :: "bytes \<Rightarrow> nat \<Rightarrow> nat" where
  "trim_spaces raw 0 = 0"
| "trim_spaces raw (Suc n) = (if raw ! n = 32 then trim_spaces raw n else Suc n)"

text \<open>The result is the bytes before the NUL that is written after them.\<close>

definition netbios_name_decode :: "bytes \<Rightarrow> nat \<Rightarrow> bytes option" where
  "netbios_name_decode enc out_len =
     (case level1_bytes (take (NETBIOS_NAME_LEN * 2) enc) of None \<Rightarrow> None
      | Some raw \<Rightarrow> let n = trim_spaces raw (NETBIOS_NAME_LEN - 1)
                    in if out_len \<le> n then None else Some (take n raw))"

text \<open>\<open>strcasecmp() == 0\<close>: both strings end at the first NUL.\<close>

definition tolower :: "u8 \<Rightarrow> u8" where
  "tolower b = (if 65 \<le> b \<and> b \<le> 90 then b + 32 else b)"

definition strcasecmp_eq :: "bytes \<Rightarrow> bytes \<Rightarrow> bool" where
  "strcasecmp_eq a b \<longleftrightarrow> map tolower (takeWhile (\<lambda>x. x \<noteq> 0) a) = map tolower (takeWhile (\<lambda>x. x \<noteq> 0) b)"

section \<open>One datagram\<close>

definition netbios_resp :: "bytes \<Rightarrow> u8 \<Rightarrow> bytes \<Rightarrow> bytes \<Rightarrow> bytes \<Rightarrow> bytes \<Rightarrow> bytes" where
  "netbios_resp trans_id nametype encname ty cls ip =
     (let flags = NETB_HFLAG_RESPONSE OR NETB_HFLAG_OPCODE_NAME_QUERY OR NETB_HFLAG_AUTHORATIVE
            OR NETB_HFLAG_RECURS_DESIRED
      in trans_id @ [hi8 flags, lo8 flags] @ [0, 0] @ [hi8 1, lo8 1] @ [0, 0] @ [0, 0] @
         [nametype] @ encname @ ty @ cls @
         [ucast (drop_bit 24 NETBIOS_NAME_TTL), ucast (drop_bit 16 NETBIOS_NAME_TTL),
          ucast (drop_bit 8 NETBIOS_NAME_TTL), ucast NETBIOS_NAME_TTL] @
         [hi8 6, lo8 6] @ [hi8 NETB_NFLAG_NODETYPE_BNODE, lo8 NETB_NFLAG_NODETYPE_BNODE] @ ip)"

text \<open>The outer \<open>None\<close> is a read outside the datagram, the inner one the result 0.\<close>

definition netbios_handle ::
  "'w netbios_ops \<Rightarrow> bytes \<Rightarrow> bytes \<Rightarrow> nat \<Rightarrow> 'w \<Rightarrow> (bytes option \<times> 'w) option" where
  "netbios_handle o1 nb_name req req_len w =
     (if req_len < netbios_hdr_len + NETBIOS_QUESTION_LEN then Some (None, w)
      else do {
        flags \<leftarrow> rd16 req 2;
        questions \<leftarrow> rd16 req 4;
        nametype \<leftarrow> rd req 12;
        if flags AND NETB_HFLAG_RESPONSE \<noteq> 0 \<or>
           flags AND NETB_HFLAG_OPCODE \<noteq> NETB_HFLAG_OPCODE_NAME_QUERY \<or>
           questions \<noteq> 1 \<or> nametype \<noteq> of_nat NETBIOS_ENCNAME_LEN then Some (None, w)
        else do {
          encname \<leftarrow> rd_n req 13 (NETBIOS_ENCNAME_LEN + 1);
          case netbios_name_decode encname NETBIOS_NAME_LEN of None \<Rightarrow> Some (None, w)
          | Some asked \<Rightarrow>
            if \<not> strcasecmp_eq asked nb_name then Some (None, w)
            else (case nb_get_ip o1 w of (None, w1) \<Rightarrow> Some (None, w1)
                  | (Some ip, w1) \<Rightarrow> do {
                      trans_id \<leftarrow> rd_n req 0 2;
                      ty \<leftarrow> rd_n req 46 2;
                      cls \<leftarrow> rd_n req 48 2;
                      Some (Some (netbios_resp trans_id nametype encname ty cls ip), w1) }) } })"

section \<open>The responder\<close>

definition netbios_bind_iface :: "'w netbios_ops \<Rightarrow> int \<Rightarrow> bytes \<Rightarrow> 'w \<Rightarrow> 'w" where
  "netbios_bind_iface o1 fd ifname w =
     (if ifname = [] then w
      else let n = min (length ifname) (nb_IFNAMSIZ o1 - 1);
               ifr = take n ifname @ replicate (nb_IFNAMSIZ o1 - n) 0
           in ops_setsockopt (h_sock (nb_host o1)) fd SOL_SOCKET SO_BINDTODEVICE ifr w)"

definition sock_set_rcvtimeo :: "'w net_sock_ops \<Rightarrow> int \<Rightarrow> u32 \<Rightarrow> 'w \<Rightarrow> 'w" where
  "sock_set_rcvtimeo sk fd ms w = ops_setsockopt sk fd SOL_SOCKET SO_RCVTIMEO (timeval_bytes ms) w"

text \<open>From the name of the interface to the bound socket: its descriptor, or \<open>None\<close> inside where
  \<open>netbios_serve()\<close> returns.\<close>

definition netbios_open :: "'w netbios_ops \<Rightarrow> 'w \<Rightarrow> (int option \<times> 'w) option" where
  "netbios_open o1 w =
     (let sk = h_sock (nb_host o1);
          (ifname, w0) = nb_get_ifname o1 w;
          (fd, w1) = ops_socket sk 2 2 17 w0 in
      if fd < 0 then Some (None, w1)
      else
        let w2 = ops_setsockopt sk fd SOL_SOCKET SO_REUSEADDR (le32_bytes 1) w1;
            w3 = ops_setsockopt sk fd SOL_SOCKET SO_BROADCAST (le32_bytes 1) w2;
            w4 = sock_set_rcvtimeo sk fd NETBIOS_RECV_TIMEOUT_MS w3;
            w5 = netbios_bind_iface o1 fd ifname w4;
            (r, w6) = ops_bind sk fd \<lparr>sin_family_inet = True, sin_port = lwip_htons NETBIOS_PORT,
                        sin_addr = lwip_htonl 0\<rparr> w5
        in if r < 0 then map_option (\<lambda>w7. (None, w7)) (ops_close sk fd w6)
           else Some (Some fd, w6))"

text \<open>One turn of the loop, with the datagram it answered, if any.\<close>

definition netbios_turn :: "'w netbios_ops \<Rightarrow> bytes \<Rightarrow> nat \<Rightarrow> int \<Rightarrow> 'w \<Rightarrow> (bytes option \<times> 'w) option" where
  "netbios_turn o1 nb_name cap fd w =
     (let h = nb_host o1; sk = h_sock h in
      case ops_recvfrom sk fd cap (Some 16) w of None \<Rightarrow> None
      | Some ((n, buf, src), w1) \<Rightarrow>
        if n < 0 then
          Some (None, if h_errno h w1 = EWOULDBLOCK then w1 else h_delay h (Millis 100) w1)
        else if n = 0 then Some (None, w1)
        else (case src of None \<Rightarrow> None
              | Some a \<Rightarrow>
                (case netbios_handle o1 nb_name buf (nat n) w1 of None \<Rightarrow> None
                 | Some (None, w2) \<Rightarrow> Some (None, w2)
                 | Some (Some resp, w2) \<Rightarrow>
                   map_option (\<lambda>(_, w3). (Some resp, w3)) (ops_sendto sk fd resp a w2))))"

text \<open>The loop never ends: these are its first \<open>k\<close> turns.\<close>

fun netbios_turns :: "'w netbios_ops \<Rightarrow> bytes \<Rightarrow> nat \<Rightarrow> int \<Rightarrow> nat \<Rightarrow> 'w \<Rightarrow> (bytes list \<times> 'w) option" where
  "netbios_turns o1 nb_name cap fd 0 w = Some ([], w)"
| "netbios_turns o1 nb_name cap fd (Suc k) w =
     (case netbios_turn o1 nb_name cap fd w of None \<Rightarrow> None
      | Some (r, w1) \<Rightarrow>
        map_option (\<lambda>(rs, w2). (case r of None \<Rightarrow> rs | Some x \<Rightarrow> x # rs, w2))
          (netbios_turns o1 nb_name cap fd k w1))"

text \<open>The descriptor served, if the setup worked, and the answers given in \<open>k\<close> turns.\<close>

definition netbios_serve ::
  "'w netbios_ops \<Rightarrow> bytes \<Rightarrow> nat \<Rightarrow> nat \<Rightarrow> 'w \<Rightarrow> ((int option \<times> bytes list) \<times> 'w) option" where
  "netbios_serve o1 nb_name cap k w =
     (case netbios_open o1 w of None \<Rightarrow> None
      | Some (None, w1) \<Rightarrow> Some ((None, []), w1)
      | Some (Some fd, w1) \<Rightarrow>
        map_option (\<lambda>(rs, w2). ((Some fd, rs), w2)) (netbios_turns o1 nb_name cap fd k w1))"

definition nb_link_turn :: "'w host \<Rightarrow> ('w \<Rightarrow> bool \<times> 'w) \<Rightarrow> 'w \<Rightarrow> (unit option \<times> 'w) option" where
  "nb_link_turn h iface_up w =
     (let (up, w1) = iface_up w
      in Some (if up then (Some (), w1) else (None, h_delay h (Millis 100) w1)))"

text \<open>\<open>alloc\<close> says whether the buffer could be had.\<close>

definition netbios_task ::
  "'w netbios_ops \<Rightarrow> bytes \<Rightarrow> bool \<Rightarrow> ('w \<Rightarrow> bool \<times> 'w) \<Rightarrow> nat \<Rightarrow> nat \<Rightarrow> 'w \<Rightarrow>
     ((int option \<times> bytes list) \<times> 'w) option" where
  "netbios_task o1 nb_name alloc iface_up fuel k w =
     (if \<not> alloc then Some ((None, []), w)
      else case turns fuel (nb_link_turn (nb_host o1) iface_up) w of None \<Rightarrow> None
           | Some (_, w1) \<Rightarrow> netbios_serve o1 nb_name NETBIOS_BUF_SIZE k w1)"

end
