(* ===== verification/Netbios_Props.thy ===== *)
theory Netbios_Props
  imports Netbios
begin

text \<open>
  The properties of the NetBIOS responder: which datagrams it answers and with what, and the socket it
  holds.
\<close>

section \<open>The name encoding\<close>

definition level1_enc :: "bytes \<Rightarrow> bytes" where
  "level1_enc r = concat (map (\<lambda>b. [65 + drop_bit 4 b, 65 + (b AND 15)]) r)"

lemma nibble_cases: "(h :: u8) < 16 \<Longrightarrow> h \<in> {0, 1, 2, 3, 4, 5, 6, 7, 8, 9, 10, 11, 12, 13, 14, 15}"
proof -
  assume "h < 16"
  then have "unat h < 16" by (simp add: word_less_nat_alt)
  then have "unat h \<in> {0, 1, 2, 3, 4, 5, 6, 7, 8, 9, 10, 11, 12, 13, 14, 15}" unfolding insert_iff empty_iff by presburger
  then show ?thesis by (simp add: word_unat_eq_iff)
qed

lemma nibbles_small: "drop_bit 4 (b :: u8) < 16" "(b :: u8) AND 15 < 16"
proof -
  have "unat b < 256" using unsigned_less [of b] by simp
  then have "unat (drop_bit 4 b) < 16" by (simp add: drop_bit_eq_div unat_div)
  then show "drop_bit 4 b < 16" by (simp add: word_less_nat_alt)
  have "b AND 15 \<le> 15" by (rule word_and_le1)
  then show "b AND 15 < 16" by (simp add: word_le_nat_alt word_less_nat_alt)
qed

lemma nibbles_join: "push_bit 4 (drop_bit 4 b) OR (b AND 15) = (b :: u8)"
proof -
  have "push_bit 4 (drop_bit 4 b) OR (b AND mask 4) = b"
    by (rule bit_eqI) (auto simp: bit_simps)
  then show ?thesis by (simp add: mask_eq_exp_minus_1)
qed

lemma nibble_mask: "(h :: u8) < 16 \<Longrightarrow> h AND mask 4 = h"
  by (drule nibble_cases, elim insertE) (simp_all add: mask_eq_exp_minus_1)

lemma nibbles_split:
  assumes "h < 16" and "l < 16"
  shows "drop_bit 4 (push_bit 4 h OR l) = (h :: u8)" and "(push_bit 4 h OR l) AND 15 = (l :: u8)"
proof -
  have h: "bit h n \<Longrightarrow> n < 4" and l: "bit l n \<Longrightarrow> n < 4" for n
    using arg_cong [OF nibble_mask [OF assms(1)], of "\<lambda>x. bit x n"]
      arg_cong [OF nibble_mask [OF assms(2)], of "\<lambda>x. bit x n"] by (auto simp: bit_simps)
  show "drop_bit 4 (push_bit 4 h OR l) = h"
    by (rule bit_eqI) (use h l in \<open>fastforce simp: bit_simps\<close>)
  have "(push_bit 4 h OR l) AND mask 4 = l"
    by (rule bit_eqI) (use l in \<open>auto simp: bit_simps\<close>)
  then show "(push_bit 4 h OR l) AND 15 = l" by (simp add: mask_eq_exp_minus_1)
qed

lemma nibble_char: "(h :: u8) < 16 \<Longrightarrow> \<not> 65 + h < 65 \<and> \<not> 80 < 65 + h"
  by (drule nibble_cases, elim insertE) simp_all

lemma level1_byte_enc: "level1_byte (65 + drop_bit 4 b) (65 + (b AND 15)) = Some b"
  using nibble_char [OF nibbles_small(1) [of b]] nibble_char [OF nibbles_small(2) [of b]]
  by (simp add: level1_byte_def nibbles_join)

lemma level1_byte_Some:
  assumes "level1_byte hi lo = Some b"
  shows "hi = 65 + drop_bit 4 b \<and> lo = 65 + (b AND 15)"
proof -
  have r: "65 \<le> hi" "hi \<le> 80" "65 \<le> lo" "lo \<le> 80" and b: "b = push_bit 4 (hi - 65) OR (lo - 65)"
    using assms by (auto simp: level1_byte_def split: if_splits)
  have "hi - 65 < 16" "lo - 65 < 16"
    using r by (simp_all add: word_less_nat_alt word_le_nat_alt unat_sub_if')
  from nibbles_split [OF this] show ?thesis unfolding b by simp
qed

lemma level1_bytes_enc: "level1_bytes (level1_enc r) = Some r"
  by (induction r) (simp_all add: level1_enc_def level1_byte_enc)

lemma level1_bytes_Some: "level1_bytes e = Some r \<Longrightarrow> even (length e) \<Longrightarrow> e = level1_enc r"
proof (induction e arbitrary: r rule: level1_bytes.induct)
  case (1 hi lo e)
  then obtain b r' where b: "level1_byte hi lo = Some b" "level1_bytes e = Some r'" "r = b # r'"
    by (auto split: option.splits)
  with 1 have "e = level1_enc r'" by simp
  with level1_byte_Some [OF b(1)] b(3) show ?case by (simp add: level1_enc_def)
qed (auto simp: level1_enc_def)

lemma level1_enc_length [simp]: "length (level1_enc r) = 2 * length r"
  by (induction r) (simp_all add: level1_enc_def)

lemma trim_spaces_le: "trim_spaces raw n \<le> n"
  by (induction n) auto

lemma trim_spaces_pad:
  "n \<le> length raw \<Longrightarrow> take n raw = take (trim_spaces raw n) raw @ replicate (n - trim_spaces raw n) 32"
proof (induction n)
  case 0
  then show ?case by simp
next
  case (Suc n)
  with trim_spaces_le [of raw n] show ?case
    by (simp add: take_Suc_conv_app_nth Suc_diff_le replicate_append_same)
qed

lemma trim_spaces_last: "n \<le> length raw \<Longrightarrow> trim_spaces raw n = 0 \<or> raw ! (trim_spaces raw n - 1) \<noteq> 32"
  by (induction n) auto

lemma trim_spaces_eq:
  assumes "take n raw = name @ replicate (n - length name) 32" and "length name \<le> n" and "n \<le> length raw"
    and "name = [] \<or> last name \<noteq> 32"
  shows "trim_spaces raw n = length name"
  using assms
proof (induction n)
  case 0
  then show ?case by simp
next
  case (Suc n)
  have x: "take n raw @ [raw ! n] = name @ replicate (Suc n - length name) 32"
    using Suc.prems(1,3) by (simp add: take_Suc_conv_app_nth)
  show ?case
  proof (cases "length name = Suc n")
    case True
    with x have "name = take n raw @ [raw ! n]" by simp
    with Suc.prems(4) True show ?thesis by auto
  next
    case False
    then have "length name \<le> n" using Suc.prems(2) by simp
    then have "replicate (Suc n - length name) (32 :: u8) = replicate (n - length name) 32 @ [32]"
      by (simp add: Suc_diff_le replicate_append_same)
    with x have "take n raw = name @ replicate (n - length name) 32" "raw ! n = 32" by simp_all
    with Suc.IH Suc.prems \<open>length name \<le> n\<close> show ?thesis by simp
  qed
qed

text \<open>What a label of 32 characters decodes to.\<close>

definition nb_label :: "bytes \<Rightarrow> u8 \<Rightarrow> bytes" where
  "nb_label name suffix = level1_enc (name @ replicate (15 - length name) 32 @ [suffix])"

definition nb_plain :: "bytes \<Rightarrow> bool" where
  "nb_plain name \<longleftrightarrow> length name \<le> 15 \<and> (name = [] \<or> last name \<noteq> 32)"

lemma decode_label:
  assumes "nb_plain name" and "take 32 enc = nb_label name suffix"
  shows "netbios_name_decode enc 16 = Some name"
proof -
  let ?raw = "name @ replicate (15 - length name) 32 @ [suffix]"
  have l: "length name \<le> 15" using assms(1) by (simp add: nb_plain_def)
  have "trim_spaces ?raw 15 = length name"
    by (rule trim_spaces_eq) (use assms(1) l in \<open>auto simp: nb_plain_def\<close>)
  then show ?thesis
    using assms(2) l by (simp add: netbios_name_decode_def netbios_lens nb_label_def level1_bytes_enc)
qed

lemma decode_label_Some:
  assumes "netbios_name_decode enc 16 = Some name" and "32 \<le> length enc"
  shows "nb_plain name \<and> (\<exists>suffix. take 32 enc = nb_label name suffix)"
proof -
  obtain raw where raw: "level1_bytes (take 32 enc) = Some raw" "name = take (trim_spaces raw 15) raw"
    using assms(1) by (auto simp: netbios_name_decode_def netbios_lens Let_def split: option.splits if_splits)
  have e: "take 32 enc = level1_enc raw" using level1_bytes_Some [OF raw(1)] assms(2) by simp
  then have "length (level1_enc raw) = 32" using assms(2) by (metis length_take min.absorb2)
  then have l: "length raw = 16" by simp
  have t: "trim_spaces raw 15 \<le> 15" by (rule trim_spaces_le)
  then have ln: "length name = trim_spaces raw 15" using raw(2) l by simp
  have "take 15 raw = name @ replicate (15 - length name) 32"
    using trim_spaces_pad [of 15 raw] l ln raw(2) by simp
  moreover have "raw = take 15 raw @ [raw ! 15]"
    using l take_Suc_conv_app_nth [of 15 raw] by simp
  ultimately have r: "raw = name @ replicate (15 - length name) 32 @ [raw ! 15]" by simp
  have "nb_plain name"
    using trim_spaces_last [of 15 raw] l ln t raw(2)
    by (auto simp: nb_plain_def last_conv_nth)
  with e r show ?thesis unfolding nb_label_def by metis
qed

section \<open>The answer\<close>

text \<open>A name query of RFC 1002, on the bytes: opcode 0 in a request, one question, a label of 32.\<close>

definition nb_query :: "bytes \<Rightarrow> bool" where
  "nb_query req \<longleftrightarrow> req ! 2 AND 0xF8 = 0 \<and> req ! 4 = 0 \<and> req ! 5 = 1 \<and> req ! 12 = 32"

lemma and_or_zero: "(u :: u16) AND (v OR z) = 0 \<longleftrightarrow> u AND v = 0 \<and> u AND z = 0"
  by (auto simp: bit_eq_iff bit_simps)

lemma be16_and_high: "be16_of a b AND push_bit 8 (ucast v) = push_bit 8 (ucast (a AND v))"
  unfolding be16_of_def by (rule bit_eqI) (auto simp: bit_simps dest: bit_imp_le_length)

lemma be16_flags:
  "(be16_of a b AND 0x8000 = 0 \<and> be16_of a b AND 0x7800 = 0) = (a AND 0xF8 = 0)"
proof -
  have "be16_of a b AND 0x8000 = 0 \<and> be16_of a b AND 0x7800 = 0 \<longleftrightarrow> be16_of a b AND 0xF800 = 0"
    using and_or_zero [of "be16_of a b" "0x8000" "0x7800"] by simp
  also have "\<dots> \<longleftrightarrow> push_bit 8 (ucast (a AND 0xF8)) = (0 :: u16)"
    using be16_and_high [of a b "0xF8"] by simp
  also have "\<dots> \<longleftrightarrow> a AND 0xF8 = 0"
  proof
    assume "push_bit 8 (ucast (a AND 0xF8)) = (0 :: u16)"
    then have "bit (push_bit 8 (ucast (a AND 0xF8)) :: u16) (n + 8) = False" for n by simp
    then show "a AND 0xF8 = 0" by (intro bit_eqI) (auto simp: bit_simps)
  qed simp
  finally show ?thesis .
qed

lemma be16_of_eq: "(be16_of a b = w) = (a = hi8 w \<and> b = lo8 w)"
  using be16_of_split by fastforce

lemma nb_query_eq:
  "nb_query req = (be16_of (req ! 2) (req ! 3) AND NETB_HFLAG_RESPONSE = 0 \<and>
     be16_of (req ! 2) (req ! 3) AND NETB_HFLAG_OPCODE = NETB_HFLAG_OPCODE_NAME_QUERY \<and>
     be16_of (req ! 4) (req ! 5) = 1 \<and> req ! 12 = of_nat NETBIOS_ENCNAME_LEN)"
  using be16_flags [of "req ! 2" "req ! 3"]
  by (auto simp: nb_query_def netbios_flags netbios_lens be16_of_eq hi8_def lo8_def)

text \<open>The handler on a datagram of full length, step by step.\<close>

lemma handle_eq:
  assumes "n \<le> length req" and "50 \<le> n"
  shows "netbios_handle o1 nb_name req n w =
    (if \<not> nb_query req then Some (None, w)
     else case netbios_name_decode (take 33 (drop 13 req)) 16 of None \<Rightarrow> Some (None, w)
     | Some asked \<Rightarrow> if \<not> strcasecmp_eq asked nb_name then Some (None, w)
        else (case nb_get_ip o1 w of (None, w1) \<Rightarrow> Some (None, w1)
              | (Some ip, w1) \<Rightarrow> Some (Some (netbios_resp (take 2 req) 32 (take 33 (drop 13 req))
                   (take 2 (drop 46 req)) (take 2 (drop 48 req)) ip), w1)))"
proof -
  have r: "rd16 req 2 = Some (be16_of (req ! 2) (req ! 3))" "rd16 req 4 = Some (be16_of (req ! 4) (req ! 5))"
    "rd req 12 = Some (req ! 12)" "rd_n req 13 33 = Some (take 33 (drop 13 req))"
    "rd_n req 0 2 = Some (take 2 req)" "rd_n req 46 2 = Some (take 2 (drop 46 req))"
    "rd_n req 48 2 = Some (take 2 (drop 48 req))"
    using assms by simp_all
  have l: "\<not> n < netbios_hdr_len + NETBIOS_QUESTION_LEN" "NETBIOS_ENCNAME_LEN + 1 = 33" "NETBIOS_NAME_LEN = 16"
    using assms(2) by (simp_all add: netbios_lens)
  have c: "(be16_of (req ! 2) (req ! 3) AND NETB_HFLAG_RESPONSE \<noteq> 0 \<or>
      be16_of (req ! 2) (req ! 3) AND NETB_HFLAG_OPCODE \<noteq> NETB_HFLAG_OPCODE_NAME_QUERY \<or>
      be16_of (req ! 4) (req ! 5) \<noteq> 1 \<or> req ! 12 \<noteq> of_nat NETBIOS_ENCNAME_LEN) = (\<not> nb_query req)"
    unfolding nb_query_eq by blast
  show ?thesis
    unfolding netbios_handle_def if_not_P [OF l(1)] l(2,3) r Option.bind.bind_lunit c
    by (cases "nb_query req") (simp_all add: nb_query_def split: option.split prod.split)
qed

text \<open>C29. Which datagrams are answered. Nothing outside the datagram is read, whatever its length and
  bytes, and there is an answer exactly when it is a name query of at least 50 bytes, the interface has
  an address, and the 32 characters are the level-1 encoding of a name of at most 15 bytes, padded with
  spaces, that is ours up to case, with any suffix.\<close>

theorem netbios_answers_exactly:
  assumes "n \<le> length req"
  shows "\<exists>r w'. netbios_handle o1 nb_name req n w = Some (r, w') \<and>
    (r \<noteq> None \<longleftrightarrow> 50 \<le> n \<and> nb_query req \<and> fst (nb_get_ip o1 w) \<noteq> None \<and>
      (\<exists>name suffix. length name \<le> 15 \<and> (name = [] \<or> last name \<noteq> 32) \<and> strcasecmp_eq name nb_name \<and>
        take 32 (drop 13 req) = level1_enc (name @ replicate (15 - length name) 32 @ [suffix])))"
proof (cases "50 \<le> n")
  case False
  then show ?thesis by (simp add: netbios_handle_def netbios_lens)
next
  case True
  let ?enc = "take 33 (drop 13 req)"
  have t: "take 32 ?enc = take 32 (drop 13 req)" "32 \<le> length ?enc" using True assms by simp_all
  have name: "(\<exists>name suffix. length name \<le> 15 \<and> (name = [] \<or> last name \<noteq> 32) \<and> strcasecmp_eq name nb_name \<and>
        take 32 (drop 13 req) = level1_enc (name @ replicate (15 - length name) 32 @ [suffix])) \<longleftrightarrow>
      (\<exists>name. netbios_name_decode ?enc 16 = Some name \<and> strcasecmp_eq name nb_name)" (is "?L = ?R")
  proof
    assume ?L
    then obtain name suffix where "nb_plain name" "take 32 ?enc = nb_label name suffix" "strcasecmp_eq name nb_name"
      unfolding nb_plain_def nb_label_def t(1) by blast
    with decode_label show ?R by blast
  next
    assume ?R
    with decode_label_Some [OF _ t(2)] show ?L
      unfolding nb_plain_def nb_label_def t(1) by blast
  qed
  show ?thesis
    unfolding name handle_eq [OF assms True]
    using True by (cases "nb_get_ip o1 w") (auto split: option.split prod.split)
qed

text \<open>The query of a peer for the name \<open>WIZNET\<close> (suffix 0), and a responder with that name.\<close>

definition nb_wiznet :: bytes where "nb_wiznet = [119, 105, 122, 110, 101, 116]"

definition nb_request :: bytes where
  "nb_request = [0xBE, 0xEF, 1, 0x10, 0, 1, 0, 0, 0, 0, 0, 0, 32] @
     nb_label [87, 73, 90, 78, 69, 84] 0 @ [0, 0, 32, 0, 1]"

definition nb_sim_ops :: "(sim toe \<times> errno) netbios_ops" where
  "nb_sim_ops = netbios_eth_ops sim_io (\<lambda>c. (int (sim_now c), c)) (\<lambda>_ c. c) 1 54 0x4000 6"

theorem netbios_answers_exactly_witness:
  "\<exists>r w'. netbios_handle nb_sim_ops nb_wiznet nb_request 50 (toe_boot sim_boot, E_OK) = Some (r, w') \<and> r \<noteq> None"
proof -
  have l: "50 \<le> length nb_request" by (simp add: nb_request_def nb_label_def)
  have q: "nb_query nb_request" by (simp add: nb_query_def nb_request_def)
  have ip: "fst (nb_get_ip nb_sim_ops (toe_boot sim_boot, E_OK)) \<noteq> None" by code_simp
  have nm: "length [87, 73, 90, 78, 69, 84 :: u8] \<le> 15 \<and>
      ([87, 73, 90, 78, 69, 84 :: u8] = [] \<or> last [87, 73, 90, 78, 69, 84 :: u8] \<noteq> 32) \<and>
      strcasecmp_eq [87, 73, 90, 78, 69, 84] nb_wiznet \<and>
      take 32 (drop 13 nb_request) =
        level1_enc ([87, 73, 90, 78, 69, 84] @ replicate (15 - length [87, 73, 90, 78, 69, 84 :: u8]) 32 @ [0])"
    by (simp add: strcasecmp_eq_def nb_wiznet_def tolower_def nb_request_def nb_label_def)
  from netbios_answers_exactly [OF l, of nb_sim_ops nb_wiznet "(toe_boot sim_boot, E_OK)"] q ip nm
  show ?thesis by blast
qed

text \<open>What the answer is. It is 62 bytes long, echoes the identifier, the question and its name byte for
  byte, says that it is an authoritative answer with one record, and carries the address of the
  interface. No responder answers it in turn, so two of them on one network do not keep each other
  busy.\<close>

theorem netbios_answer_final:
  fixes o1 :: "'w netbios_ops"
  assumes "n \<le> length req" and "netbios_handle o1 nb_name req n w = Some (Some resp, w')"
    and "nb_get_ip o1 w = (Some ip, w1)" and "length ip = 4"
  shows "length resp = 62 \<and> take 2 resp = take 2 req \<and> take 2 (drop 2 resp) = [0x85, 0] \<and>
    take 38 (drop 12 resp) = take 38 (drop 12 req) \<and>
    drop 50 resp = [0, 0, 0, 10, 0, 6, 0, 0] @ ip \<and> w' = w1 \<and>
    (\<forall>(o2 :: 'w netbios_ops) nb2 w2. netbios_handle o2 nb2 resp 62 w2 = Some (None, w2))"
proof -
  have n: "50 \<le> n" using assms(2) by (auto simp: netbios_handle_def netbios_lens split: if_splits)
  note st = assms(2) [unfolded handle_eq [OF assms(1) n] assms(3) prod.case option.case]
  have q: "nb_query req" and r: "resp = netbios_resp (take 2 req) 32 (take 33 (drop 13 req))
      (take 2 (drop 46 req)) (take 2 (drop 48 req)) ip" and w: "w' = w1"
    using st by (auto split: if_splits option.splits)
  have l: "50 \<le> length req" using n assms(1) by simp
  have f: "[hi8 (NETB_HFLAG_RESPONSE OR NETB_HFLAG_OPCODE_NAME_QUERY OR NETB_HFLAG_AUTHORATIVE OR NETB_HFLAG_RECURS_DESIRED),
      lo8 (NETB_HFLAG_RESPONSE OR NETB_HFLAG_OPCODE_NAME_QUERY OR NETB_HFLAG_AUTHORATIVE OR NETB_HFLAG_RECURS_DESIRED)] = [0x85, 0]"
    by (simp add: netbios_flags hi8_def lo8_def)
  have e: "resp = (take 2 req @ [0x85, 0] @ [0, 0, 0, 1, 0, 0, 0, 0]) @ (32 # take 33 (drop 13 req) @
      take 2 (drop 46 req) @ take 2 (drop 48 req)) @ ([0, 0, 0, 10, 0, 6, 0, 0] @ ip)"
    unfolding r netbios_resp_def Let_def f
    by (simp add: hi8_def lo8_def NETBIOS_NAME_TTL_def NETB_NFLAG_NODETYPE_BNODE_def)
  have d: "32 # take 33 (drop 13 req) @ take 2 (drop 46 req) @ take 2 (drop 48 req) = take 38 (drop 12 req)"
  proof -
    have "drop 12 req = req ! 12 # drop 13 req" using l Cons_nth_drop_Suc [of 12 req] by simp
    moreover have "req ! 12 = 32" using q by (simp add: nb_query_def)
    moreover have "take 37 (drop 13 req) = take 33 (drop 13 req) @ take 2 (drop 46 req) @ take 2 (drop 48 req)"
      using take_add [of 33 4 "drop 13 req"] take_add [of 2 2 "drop 46 req"] by simp
    ultimately show ?thesis by simp
  qed
  have l1: "length (take 2 req @ [0x85, 0] @ [0, 0, 0, 1, 0, 0, 0, 0]) = 12" "length (take 38 (drop 12 req)) = 38"
    using l by simp_all
  have shape: "length resp = 62" "take 2 resp = take 2 req" "take 2 (drop 2 resp) = [0x85, 0]"
    "take 38 (drop 12 resp) = take 38 (drop 12 req)" "drop 50 resp = [0, 0, 0, 10, 0, 6, 0, 0] @ ip"
    using l l1 assms(4) unfolding e d by simp_all
  have "resp ! 2 = 0x85" using l unfolding e by (simp add: nth_append)
  then have "\<not> nb_query resp" by (simp add: nb_query_def)
  then have "netbios_handle o2 nb2 resp 62 w2 = Some (None, w2)"
    for o2 :: "'w netbios_ops" and nb2 w2
    using handle_eq [of 62 resp o2 nb2 w2] shape(1) by simp
  then have fin: "\<forall>(o2 :: 'w netbios_ops) nb2 w2. netbios_handle o2 nb2 resp 62 w2 = Some (None, w2)" by blast
  show ?thesis by (intro conjI) (rule shape w fin)+
qed

theorem netbios_answer_final_witness:
  "\<exists>resp w'. netbios_handle nb_sim_ops nb_wiznet nb_request 50 (toe_boot sim_boot, E_OK) = Some (Some resp, w') \<and>
     drop 58 resp = [192, 168, 11, 2] \<and> netbios_handle nb_sim_ops nb_wiznet resp 62 w' = Some (None, w')"
proof -
  have "(case netbios_handle nb_sim_ops nb_wiznet nb_request 50 (toe_boot sim_boot, E_OK) of
      Some (Some resp, _) \<Rightarrow> drop 58 resp = [192, 168, 11, 2] | _ \<Rightarrow> False)" by code_simp
  then obtain resp w' where h: "netbios_handle nb_sim_ops nb_wiznet nb_request 50 (toe_boot sim_boot, E_OK) = Some (Some resp, w')"
    "drop 58 resp = [192, 168, 11, 2]" by (auto split: option.splits)
  have "nb_get_ip nb_sim_ops (toe_boot sim_boot, E_OK) = (Some [192, 168, 11, 2], toe_boot sim_boot, E_OK)"
    by code_simp
  from netbios_answer_final [OF _ h(1) this]
  have "\<forall>(o2 :: (sim toe \<times> errno) netbios_ops) nb2 w2. netbios_handle o2 nb2 resp 62 w2 = Some (None, w2)"
    by (simp add: nb_request_def nb_label_def del: split_paired_All)
  with h show ?thesis by blast
qed

section \<open>The socket of the responder\<close>

locale netbios_host = tcp_host "nb_host o1" inv fds
  for o1 :: "'w netbios_ops" and inv :: "'w \<Rightarrow> bool" and fds :: "'w \<Rightarrow> int set" +
  assumes get_ip_law: "inv w \<Longrightarrow> nb_get_ip o1 w = (r, w') \<Longrightarrow> inv w' \<and> fds w' = fds w"
    and get_ifname_law: "inv w \<Longrightarrow> nb_get_ifname o1 w = (n, w') \<Longrightarrow> inv w' \<and> fds w' = fds w"
begin

lemma handle_keeps:
  assumes "netbios_handle o1 nm req n w = Some (r, w')" and "inv w"
  shows "inv w' \<and> fds w' = fds w"
proof -
  obtain q w1 where g: "nb_get_ip o1 w = (q, w1)" by (rule prod.exhaust)
  have "w' = w \<or> w' = w1"
    using assms(1) by (auto simp: netbios_handle_def bind_eq_Some_conv g
        split: if_splits option.splits)
  with get_ip_law [OF assms(2) g] assms(2) show ?thesis by blast
qed

lemma turn_keeps:
  assumes "netbios_turn o1 nm cap fd w = Some (r, w')" and "inv w"
  shows "inv w' \<and> fds w' = fds w"
proof -
  obtain n buf src w1 where rf: "ops_recvfrom (h_sock (nb_host o1)) fd cap (Some 16) w = Some ((n, buf, src), w1)"
    using assms(1) by (auto simp: netbios_turn_def Let_def split: option.splits)
  have k1: "inv w1 \<and> fds w1 = fds w" by (rule recvfrom_law [OF assms(2) rf])
  note st = assms(1) [unfolded netbios_turn_def Let_def rf option.case prod.case]
  show ?thesis
  proof (cases "0 < n")
    case False
    then have "w' = w1 \<or> w' = h_delay (nb_host o1) (Millis 100) w1" using st by (auto split: if_splits)
    with k1 delay_law show ?thesis by auto
  next
    case True
    then obtain a r2 w2 where h: "src = Some a" "netbios_handle o1 nm buf (nat n) w1 = Some (r2, w2)"
      using st by (auto split: option.splits)
    have k2: "inv w2 \<and> fds w2 = fds w" using handle_keeps [OF h(2)] k1 by simp
    show ?thesis
    proof (cases r2)
      case None
      with st True h k2 show ?thesis by simp
    next
      case (Some resp)
      then obtain q where "ops_sendto (h_sock (nb_host o1)) fd resp a w2 = Some (q, w')"
        using st True h by auto
      from sendto_law [OF _ this] k2 show ?thesis by simp
    qed
  qed
qed

lemma nb_turns_keep:
  "netbios_turns o1 nm cap fd k w = Some (rs, w') \<Longrightarrow> inv w \<Longrightarrow> inv w' \<and> fds w' = fds w"
proof (induction k arbitrary: w rs)
  case 0
  then show ?case by simp
next
  case (Suc k)
  then obtain r w1 rs' where t: "netbios_turn o1 nm cap fd w = Some (r, w1)"
    "netbios_turns o1 nm cap fd k w1 = Some (rs', w')"
    by (auto split: option.splits)
  from turn_keeps [OF t(1) Suc.prems(2)] Suc.IH [OF t(2)] show ?case by simp
qed

lemma nb_bind_iface: "inv w \<Longrightarrow> inv (netbios_bind_iface o1 fd nm w) \<and> fds (netbios_bind_iface o1 fd nm w) = fds w"
  using setsockopt_law by (simp add: netbios_bind_iface_def Let_def)

lemma nb_open_effect:
  assumes "netbios_open o1 w = Some (r, w')" and "inv w"
  shows "inv w' \<and> (case r of None \<Rightarrow> fds w' = fds w | Some fd \<Rightarrow> fd \<notin> fds w \<and> fds w' = insert fd (fds w))"
proof -
  let ?sk = "h_sock (nb_host o1)"
  obtain nm w0 where nm: "nb_get_ifname o1 w = (nm, w0)" by (rule prod.exhaust)
  have k0: "inv w0" "fds w0 = fds w" using get_ifname_law [OF assms(2) nm] by simp_all
  obtain fd w1 where so: "ops_socket ?sk 2 2 17 w0 = (fd, w1)" by (rule prod.exhaust)
  note S = socket_law [OF k0(1) so]
  note st = assms(1) [unfolded netbios_open_def Let_def nm so prod.case]
  show ?thesis
  proof (cases "fd < 0")
    case True
    with st have "r = None" "w' = w1" by simp_all
    moreover have "inv w1" "fds w1 = fds w" using S True k0 by simp_all
    ultimately show ?thesis by simp
  next
    case False
    have S1: "inv w1" "fd \<notin> fds w" "fds w1 = insert fd (fds w)" using S False k0 by simp_all
    let ?w2 = "ops_setsockopt ?sk fd SOL_SOCKET SO_REUSEADDR (le32_bytes 1) w1"
    let ?w3 = "ops_setsockopt ?sk fd SOL_SOCKET SO_BROADCAST (le32_bytes 1) ?w2"
    let ?w4 = "sock_set_rcvtimeo ?sk fd NETBIOS_RECV_TIMEOUT_MS ?w3"
    let ?w5 = "netbios_bind_iface o1 fd nm ?w4"
    have so2: "inv ?w2 \<and> fds ?w2 = fds w1" by (rule setsockopt_law [OF S1(1)])
    have so3: "inv ?w3 \<and> fds ?w3 = fds ?w2" by (rule setsockopt_law [OF conjunct1 [OF so2]])
    have so4: "inv ?w4 \<and> fds ?w4 = fds ?w3"
      unfolding sock_set_rcvtimeo_def by (rule setsockopt_law [OF conjunct1 [OF so3]])
    have so5: "inv ?w5 \<and> fds ?w5 = fds ?w4" by (rule nb_bind_iface [OF conjunct1 [OF so4]])
    obtain q w6 where b: "ops_bind ?sk fd \<lparr>sin_family_inet = True, sin_port = lwip_htons NETBIOS_PORT,
        sin_addr = lwip_htonl 0\<rparr> ?w5 = (q, w6)" by (rule prod.exhaust)
    have k6: "inv w6 \<and> fds w6 = fds ?w5" by (rule bind_law [OF conjunct1 [OF so5] b])
    have f6: "fds w6 = insert fd (fds w)"
      using k6 so5 so4 so3 so2 S1(3) by (simp only:)
    note st2 = st [unfolded if_not_P [OF False] b prod.case]
    show ?thesis
    proof (cases "q < 0")
      case True
      then obtain w7 where c: "ops_close ?sk fd w6 = Some w7" "r = None" "w' = w7" using st2 by auto
      have "inv w7 \<and> fds w7 = fds w6 - {fd}" by (rule close_law [OF conjunct1 [OF k6] _ c(1)]) (simp add: f6)
      with c f6 S1(2) show ?thesis by simp
    next
      case nb: False
      with st2 have "r = Some fd" "w' = w6" by simp_all
      with k6 f6 S1(2) show ?thesis by simp
    qed
  qed
qed

lemma nb_serve_effect:
  assumes "netbios_serve o1 nm cap k w = Some ((r, rs), w')" and "inv w"
  shows "inv w' \<and> (case r of None \<Rightarrow> rs = [] \<and> fds w' = fds w | Some fd \<Rightarrow> fd \<notin> fds w \<and> fds w' = insert fd (fds w))"
proof -
  obtain q w1 where op: "netbios_open o1 w = Some (q, w1)"
    using assms(1) by (auto simp: netbios_serve_def split: option.splits)
  note E = nb_open_effect [OF op assms(2)]
  show ?thesis
  proof (cases q)
    case None
    with assms(1) op E show ?thesis by (simp add: netbios_serve_def)
  next
    case (Some fd)
    then have t: "netbios_turns o1 nm cap fd k w1 = Some (rs, w')" "r = Some fd"
      using assms(1) op by (auto simp: netbios_serve_def)
    from nb_turns_keep [OF t(1)] E Some t(2) show ?thesis by simp
  qed
qed

end

interpretation toe_netbios: netbios_host "netbios_eth_ops io timer delay fuel off nb ifn" errno_inv "errno_fds off"
  for io :: "'c iolib" and timer delay fuel off nb ifn
proof (intro netbios_host.intro netbios_host_axioms.intro)
  show "tcp_host (nb_host (netbios_eth_ops io timer delay fuel off nb ifn)) errno_inv (errno_fds off)"
    by (simp add: netbios_eth_ops_def toe_tcp.tcp_host_axioms)
next
  fix w :: "'c toe \<times> errno" and r w'
  assume "errno_inv w" "nb_get_ip (netbios_eth_ops io timer delay fuel off nb ifn) w = (r, w')"
  then show "errno_inv w' \<and> errno_fds off w' = errno_fds off w"
    by (cases w) (auto simp: netbios_eth_ops_def eth_get_ip_def errno_inv_def errno_fds_def toe_fds_def
        chip_pairs Let_def)
next
  fix w :: "'c toe \<times> errno" and n w'
  assume "errno_inv w" "nb_get_ifname (netbios_eth_ops io timer delay fuel off nb ifn) w = (n, w')"
  then show "errno_inv w' \<and> errno_fds off w' = errno_fds off w"
    by (simp add: netbios_eth_ops_def eth_get_ifname_def)
qed

text \<open>The responder on the TOE build holds one socket. When the setup fails, at socket() or at bind(),
  nothing stays open; otherwise the task holds exactly one socket that was not in use before, and no
  datagram, answered or not, opens or closes another.\<close>

theorem netbios_one_socket:
  fixes io :: "'c iolib"
  assumes "toe_reach io s"
    and "netbios_serve (netbios_eth_ops io timer delay fuel off nb ifn) nm cap k (s, e) = Some ((r, rs), w')"
  shows "case r of None \<Rightarrow> rs = [] \<and> toe_fds off (fst w') = toe_fds off s
    | Some fd \<Rightarrow> fd \<notin> toe_fds off s \<and> toe_fds off (fst w') = insert fd (toe_fds off s)"
proof -
  have "errno_inv (s, e)" using reach_toe_inv [OF assms(1)] by (simp add: errno_inv_def)
  from toe_netbios.nb_serve_effect [OF assms(2) this] show ?thesis
    by (auto simp: errno_fds_def split: option.splits)
qed

theorem netbios_one_socket_witness:
  "\<exists>w'. netbios_serve nb_sim_ops nb_wiznet NETBIOS_BUF_SIZE 0 (toe_boot sim_boot, E_OK) = Some ((Some 54, []), w') \<and>
     toe_fds 54 (fst w') = insert 54 (toe_fds 54 (toe_boot sim_boot))"
proof -
  have "(case netbios_serve nb_sim_ops nb_wiznet NETBIOS_BUF_SIZE 0 (toe_boot sim_boot, E_OK) of
      Some ((r, rs), _) \<Rightarrow> r = Some 54 \<and> rs = [] | None \<Rightarrow> False)" by code_simp
  then obtain w' where h: "netbios_serve nb_sim_ops nb_wiznet NETBIOS_BUF_SIZE 0 (toe_boot sim_boot, E_OK) = Some ((Some 54, []), w')"
    by (auto split: option.splits)
  from netbios_one_socket [OF reach_boot h [unfolded nb_sim_ops_def]] h show ?thesis by auto
qed

end
