(* ===== verification/Net_Server.thy ===== *)
theory Net_Server
  imports Net_Tcp
begin

text \<open>
  The interface of the server tasks: the stream calls of \<open>Net_Tcp\<close> with listen and accept. A
  connection that accept gives is a new socket, and the listener stays open. The TOE build provides
  it.
\<close>

section \<open>Loops the tasks share\<close>

text \<open>Sending all of a buffer, and waiting for the interface.\<close>

definition stream_turn :: "'w host \<Rightarrow> int \<Rightarrow> bytes \<Rightarrow> nat \<times> 'w \<Rightarrow> (int option \<times> nat \<times> 'w) option" where
  "stream_turn h fd buf = (\<lambda>(sent, w).
     if length buf \<le> sent then Some (Some (int sent), sent, w)
     else case ops_send (h_sock h) fd (drop sent buf) w of None \<Rightarrow> None
          | Some (n, w1) \<Rightarrow>
            if 0 < n then Some (None, sent + nat n, w1)
            else if n < 0 \<and> h_errno h w1 = EWOULDBLOCK then Some (None, sent, h_delay h (Ticks 1) w1)
            else Some (Some (-1), sent, w1))"

definition iface_turn :: "'w host \<Rightarrow> ('w \<Rightarrow> bool \<times> 'w) \<Rightarrow> 'w \<Rightarrow> (unit option \<times> 'w) option" where
  "iface_turn h up_fn w =
     (let (up, w1) = up_fn w in Some (if up then (Some (), w1) else (None, h_delay h (Millis 100) w1)))"

section \<open>The interface\<close>

locale server_host = tcp_host h inv fds
  for h :: "'w host" and inv :: "'w \<Rightarrow> bool" and fds :: "'w \<Rightarrow> int set" +
  assumes listen_law: "inv w \<Longrightarrow> ops_listen (h_sock h) fd bl w = (r, w') \<Longrightarrow> inv w' \<and> fds w' = fds w"
    and accept_law: "inv w \<Longrightarrow> ops_accept (h_sock h) fd w = Some ((r, a), w') \<Longrightarrow>
      inv w' \<and> (if 0 \<le> r then r \<notin> fds w \<and> fds w' = insert r (fds w) else fds w' = fds w)"
begin

lemma stream_turn_keeps:
  assumes "stream_turn h fd b (n, w) = Some (q, n', w')" and "inv w"
  shows "inv w' \<and> fds w' = fds w"
proof (cases "length b \<le> n")
  case True
  with assms show ?thesis by (simp add: stream_turn_def)
next
  case False
  with assms(1) obtain r w1 where s: "ops_send (h_sock h) fd (drop n b) w = Some (r, w1)"
    and w': "w' = w1 \<or> w' = h_delay h (Ticks 1) w1"
    by (auto simp: stream_turn_def split: option.splits if_splits)
  from send_law [OF assms(2) s] delay_law [of w1 "Ticks 1"] w' show ?thesis by auto
qed

text \<open>\<open>g\<close> is the part of the state of the loop that is behind the vtable.\<close>

lemma turns_kept:
  assumes "turns k body s = Some (r, s')" and "inv (g s)"
    and step: "\<And>t q t'. inv (g t) \<Longrightarrow> body t = Some (q, t') \<Longrightarrow> inv (g t') \<and> fds (g t') = fds (g t)"
  shows "inv (g s') \<and> fds (g s') = fds (g s)"
  using assms(1,2)
proof (induction k arbitrary: s)
  case 0
  then show ?case by simp
next
  case (Suc k)
  obtain q t where t: "body s = Some (q, t)" using Suc.prems(1) by (auto split: option.splits)
  note S = step [OF Suc.prems(2) t]
  show ?case
  proof (cases q)
    case None
    with Suc.prems(1) t have "turns k body t = Some (r, s')" by simp
    from Suc.IH [OF this conjunct1 [OF S]] S show ?thesis by simp
  next
    case (Some x)
    with Suc.prems(1) t S show ?thesis by simp
  qed
qed

lemma stream_loop_keeps:
  assumes "turns k (stream_turn h fd b) (n, w) = Some (r, n', w')" and "inv w"
  shows "inv w' \<and> fds w' = fds w"
proof -
  have "inv (snd t') \<and> fds (snd t') = fds (snd t)"
    if "inv (snd t)" "stream_turn h fd b t = Some (q, t')" for t t' and q :: "int option"
    using stream_turn_keeps [of fd b "fst t" "snd t" q "fst t'" "snd t'"] that by simp
  from turns_kept [OF assms(1), of snd, OF _ this] assms(2) show ?thesis by simp
qed

text \<open>\<open>up_fn\<close> asks the interface and opens nothing.\<close>

lemma iface_loop_keeps:
  assumes "turns k (iface_turn h up_fn) w = Some (r, w')" and "inv w"
    and up: "\<And>w. inv w \<Longrightarrow> inv (snd (up_fn w)) \<and> fds (snd (up_fn w)) = fds w"
  shows "inv w' \<and> fds w' = fds w"
proof -
  have "inv t' \<and> fds t' = fds t" if "inv t" "iface_turn h up_fn t = Some (q, t')" for t t' q
    using that(2) up [OF that(1)] delay_law [of "snd (up_fn t)" "Millis 100"]
    by (cases "fst (up_fn t)") (simp_all add: iface_turn_def split_beta)
  from turns_kept [OF assms(1), of "\<lambda>w. w", OF assms(2) this] show ?thesis .
qed

end

section \<open>What accept does to the descriptors\<close>

lemma used_live: "(\<And>j. d_used (desc t j) = d_used (desc s j)) \<Longrightarrow> live t = live s"
  by (simp add: live_def toe_fd_valid_def fun_eq_iff)

lemma live_reopen: "live (snd (toe_listener_reopen io fd s)) = live s"
  by (rule used_live) (simp add: reopen_desc)

lemma live_disarm: "live (toe_listener_disarm fd s) = live s"
  by (rule used_live) (simp add: toe_listener_disarm_def Let_def toe_sn_release_def nth_upd)

lemma accept_established_live:
  assumes "toe_ok s" and "0 \<le> fd" and "fd < int WIZTOE_MAX_DESC"
    and "d_listening (desc s fd)" and "0 \<le> d_sn (desc s fd)"
    and "toe_accept_established io fd s = (r, s')"
  shows "if 0 \<le> r then \<not> live s r \<and> live s' = (live s)(r := True) else live s' = live s"
  using assms
proof (cases rule: accept_established_cases)
  case full
  then show ?thesis by (simp add: WIZTOE_ERR_WOULDBLOCK_def)
next
  case conn
  have "live s' = (live s)(r := True)"
    using handed_over_facts(4) [OF assms(1-5) conn(1-3)] by (simp add: conn(4) live_rearm)
  with conn(1,3) show ?thesis by (simp add: live_def toe_fd_valid_def)
qed

lemma accept_poll_live:
  assumes "toe_ok s" and "0 \<le> fd" and "fd < int WIZTOE_MAX_DESC" and "d_listening (desc s fd)"
    and "accept_poll io fd s = (q, s')"
  shows "case q of None \<Rightarrow> live s' = live s
    | Some r \<Rightarrow> if 0 \<le> r then \<not> live s r \<and> live s' = (live s)(r := True) else live s' = live s"
proof (cases "d_sn (desc s fd) < 0")
  case True
  with assms(5) show ?thesis by (auto simp: accept_poll_def live_rearm)
next
  case False
  obtain sr c where on: "on_chip (io_getSn_SR io (toe_sn s fd)) s = (sr, s\<lparr>chip := c\<rparr>)"
    by (auto simp: on_chip_def split: prod.splits)
  let ?s = "s\<lparr>chip := c\<rparr>"
  note step = assms(5) [unfolded accept_poll_def if_not_P [OF False] on Let_def prod.case]
  have est: ?thesis if "toe_accept_established io fd ?s = (r, t)" "q = Some r" "s' = t" for r t
    using accept_established_live [of ?s fd io r t] that assms(1-4) False by (simp split: if_split_asm)
  have rest: ?thesis if "q = None" "live s' = live s" using that by simp
  show ?thesis
  proof (cases "sr = SOCK_ESTABLISHED \<or> sr = SOCK_CLOSE_WAIT")
    case True
    with step est show ?thesis by (auto split: prod.splits)
  next
    case False
    with step have "q = None \<and> live s' = live s"
      by (cases sr) (auto simp: live_disarm live_reopen chip_pairs Let_def split: prod.splits if_splits
          dest: arg_cong [where f = "\<lambda>x. live (snd x)"])
    with rest show ?thesis by blast
  qed
qed

lemma accept_live:
  assumes "toe_ok s" and "wiztoe_accept io n fd s = Some (r, s')"
  shows "if 0 \<le> r then \<not> live s r \<and> live s' = (live s)(r := True) else live s' = live s"
proof (cases "\<not> toe_fd_valid s fd \<or> \<not> d_listening (desc s fd)")
  case True
  with assms show ?thesis by (auto simp: wiztoe_accept_def)
next
  case False
  then have r: "0 \<le> fd" "fd < int WIZTOE_MAX_DESC" "d_listening (desc s fd)"
    by (auto simp: toe_fd_valid_def)
  let ?I = "\<lambda>t. toe_ok t \<and> d_listening (desc t fd) \<and> live t = live s"
  let ?Q = "\<lambda>r t. if 0 \<le> r then \<not> live s r \<and> live t = (live s)(r := True) else live t = live s"
  obtain st c where pl: "poll_loop n (accept_turn io fd st) (s\<lparr>chip := c\<rparr>) = Some (r, s')"
    using assms(2) False by (auto simp: wiztoe_accept_def chip_pairs Let_def)
  from pl show "?Q r s'"
  proof (rule poll_loop_rule [where I = ?I])
    show "?I (s\<lparr>chip := c\<rparr>)" using assms(1) r by simp
  next
    fix t t' assume I: "?I t" and t: "accept_turn io fd st t = (None, t')"
    obtain q u where u: "accept_poll io fd t = (q, u)" by (cases "accept_poll io fd t")
    from t obtain c where "t' = u\<lparr>chip := c\<rparr>" "q = None" using u by (auto elim!: accept_turn_None)
    with accept_poll_live [OF _ r(1,2) _ u] toe_ok_accept_poll [of t fd io] accept_poll_listening [of io fd t] I r u
    show "?I t'" by auto
  next
    fix t q t' assume I: "?I t" and t: "accept_turn io fd st t = (Some q, t')"
    obtain p u where u: "accept_poll io fd t = (p, u)" by (cases "accept_poll io fd t")
    from t obtain c where c: "t' = u\<lparr>chip := c\<rparr>" using u by (auto elim!: accept_turn_Some)
    note L = accept_poll_live [OF conjunct1 [OF I] r(1,2) _ u]
    show "?Q q t'"
    proof (cases p)
      case (Some x)
      with t u have "q = x" by (simp add: accept_turn_def)
      with L I Some c show ?thesis by (simp split: if_splits)
    next
      case None
      with t u have "q < 0"
        by (auto simp: accept_turn_def WIZTOE_ERR_WOULDBLOCK_def WIZTOE_ERR_TIMEOUT_def split: if_splits prod.splits)
      with L I None c show ?thesis by simp
    qed
  qed
qed

lemma live_listen: "live (snd (wiztoe_listen io fd bl s)) = live s"
  by (simp add: wiztoe_listen_def Let_def split_beta live_reopen live_upd_role keeps_role_def live_upd_same)

section \<open>The TOE provider\<close>

lemma errno_listen_law:
  assumes "errno_inv w" and "ops_listen (net_eth_errno_ops io fuel off nb) fd bl w = (r, w')"
  shows "errno_inv w' \<and> errno_fds off w' = errno_fds off w"
proof -
  have w': "fst w' = snd (wiztoe_listen io (fd - int off) bl (fst w))"
    using assms(2) by (auto simp: net_eth_errno_ops_def wrap_lwip_listen_def split_beta)
  show ?thesis
    using toe_call_inv [OF call_listen assms(1) [unfolded errno_inv_def], of io "fd - int off" bl] w'
    by (simp add: errno_inv_def errno_fds_def toe_fds_def live_listen)
qed

lemma errno_accept_law:
  assumes "errno_inv w" and "ops_accept (net_eth_errno_ops io fuel off nb) fd w = Some ((r, a), w')"
  shows "errno_inv w' \<and> (if 0 \<le> r then r \<notin> errno_fds off w \<and> errno_fds off w' = insert r (errno_fds off w)
    else errno_fds off w' = errno_fds off w)"
proof -
  have I: "toe_inv (fst w)" using assms(1) by (simp add: errno_inv_def)
  obtain q t where q: "wiztoe_accept io fuel (fd - int off) (fst w) = Some (q, t)"
    and r: "r = (if q < 0 then -1 else q + int off)"
    and w': "live (fst w') = live t" "toe_inv t \<Longrightarrow> toe_inv (fst w')"
  proof -
    obtain q t where q: "wiztoe_accept io fuel (fd - int off) (fst w) = Some (q, t)"
      using assms(2) by (auto simp: net_eth_errno_ops_def wrap_lwip_accept_def split_beta split: option.splits)
    obtain c where c: "snd (wiztoe_peer io q t) = t\<lparr>chip := c\<rparr>" using peer_chip [of io q t] by blast
    have "r = (if q < 0 then -1 else q + int off) \<and> (fst w' = t \<or> fst w' = t\<lparr>chip := c\<rparr>)"
      using assms(2) q c
      by (auto simp: net_eth_errno_ops_def wrap_lwip_accept_def toe_is_wouldblock_def
          WIZTOE_ERR_WOULDBLOCK_def WIZTOE_ERR_TIMEOUT_def split_beta Let_def split: if_splits)
    with that [OF q] show thesis by auto
  qed
  have t: "toe_inv t" using toe_call_inv [OF call_accept [OF q] I] .
  show ?thesis
  proof (cases "toe_ok (fst w)")
    case True
    from accept_live [OF this q] r w' t show ?thesis
      by (auto simp: errno_inv_def errno_fds_def toe_fds_def split: if_splits)
  next
    case False
    then have "\<not> toe_fd_valid (fst w) (fd - int off)" using I toe_inv_valid(1) by blast
    with q r w' t show ?thesis
      by (auto simp: wiztoe_accept_def errno_inv_def errno_fds_def toe_fds_def)
  qed
qed

interpretation toe_server: server_host "net_eth_host io timer delay fuel off nb" errno_inv "errno_fds off"
  for io :: "'c iolib" and timer delay fuel off nb
proof (intro server_host.intro server_host_axioms.intro)
  show "tcp_host (net_eth_host io timer delay fuel off nb) errno_inv (errno_fds off)"
    by (rule toe_tcp.tcp_host_axioms)
next
  fix w :: "'c toe \<times> errno" and fd bl r w'
  assume "errno_inv w" "ops_listen (h_sock (net_eth_host io timer delay fuel off nb)) fd bl w = (r, w')"
  then show "errno_inv w' \<and> errno_fds off w' = errno_fds off w"
    using errno_listen_law by (simp add: net_eth_host_def)
next
  fix w :: "'c toe \<times> errno" and fd r a w'
  assume I: "errno_inv w" and "ops_accept (h_sock (net_eth_host io timer delay fuel off nb)) fd w = Some ((r, a), w')"
  then have "ops_accept (net_eth_errno_ops io fuel off nb) fd w = Some ((r, a), w')"
    by (simp add: net_eth_host_def)
  from errno_accept_law [OF I this] show "errno_inv w' \<and> (if 0 \<le> r then r \<notin> errno_fds off w \<and>
      errno_fds off w' = insert r (errno_fds off w) else errno_fds off w' = errno_fds off w)" .
qed

end
