(* ===== verification/C_Text.thy ===== *)
theory C_Text
  imports Prelude
begin

text \<open>
  C strings as the list of their bytes before the NUL, and the functions of \<open>string.h\<close> and \<open>stdio.h\<close>
  the examples use on them. A pointer into a string is the rest of the string from there; the
  difference of two of them is the difference of their lengths.
\<close>

definition ascii :: "string \<Rightarrow> bytes" where
  "ascii s = map of_char s"

definition crlf :: bytes where
  "crlf = [13, 10]"

definition cstr :: "bytes \<Rightarrow> bytes" where
  "cstr b = takeWhile (\<lambda>x. x \<noteq> 0) b"

text \<open>\<open>strstr(hay, pat)\<close>: the first occurrence.\<close>

fun strstr :: "bytes \<Rightarrow> bytes \<Rightarrow> bytes option" where
  "strstr pat [] = (if pat = [] then Some [] else None)"
| "strstr pat (x # xs) = (if take (length pat) (x # xs) = pat then Some (x # xs) else strstr pat xs)"

text \<open>\<open>%u\<close>.\<close>

fun udec :: "nat \<Rightarrow> bytes" where
  "udec n = (if n < 10 then [] else udec (n div 10)) @ [48 + of_nat (n mod 10)]"

declare udec.simps [simp del]

lemma udec_code: "udec n = (if n < 10 then [48 + of_nat n] else udec (n div 10) @ [48 + of_nat (n mod 10)])"
  by (subst udec.simps) auto

section \<open>Properties\<close>

lemma ascii_length [simp]: "length (ascii s) = length s"
  by (simp add: ascii_def)

lemma strstr_Some:
  "strstr pat s = Some r \<Longrightarrow> \<exists>p. s = p @ r \<and> take (length pat) r = pat \<and> strstr pat r = Some r"
proof (induction s)
  case Nil
  then show ?case by (simp split: if_splits)
next
  case (Cons x xs)
  show ?case
  proof (cases "take (length pat) (x # xs) = pat")
    case True
    with Cons.prems show ?thesis by (intro exI [of _ "[]"]) auto
  next
    case False
    with Cons.prems have "strstr pat xs = Some r" by auto
    from Cons.IH [OF this] obtain p where "xs = p @ r" "take (length pat) r = pat" "strstr pat r = Some r" by blast
    then show ?thesis by (intro exI [of _ "x # p"]) simp
  qed
qed

lemma strstr_suffix: "strstr pat s = Some r \<Longrightarrow> \<exists>q. r = pat @ q"
  by (drule strstr_Some) (metis append_take_drop_id)

lemma strstr_length: "strstr pat s = Some r \<Longrightarrow> length pat \<le> length r \<and> length r \<le> length s"
  using strstr_Some strstr_suffix by fastforce

lemma strstr_None: "strstr pat s = None \<longleftrightarrow> (\<forall>p q. s \<noteq> p @ pat @ q)"
proof (induction s)
  case Nil
  then show ?case by auto
next
  case (Cons x xs)
  show ?case
  proof (cases "take (length pat) (x # xs) = pat")
    case True
    then have "x # xs = [] @ pat @ drop (length pat) (x # xs)"
      by (metis append_Nil append_take_drop_id)
    with True show ?thesis by (metis option.distinct(1) strstr.simps(2))
  next
    case False
    have "x # xs \<noteq> [] @ pat @ q" for q
    proof
      assume "x # xs = [] @ pat @ q"
      then have "take (length pat) (x # xs) = take (length pat) (pat @ q)" by simp
      with False show False by simp
    qed
    then have "(\<forall>p q. x # xs \<noteq> p @ pat @ q) \<longleftrightarrow> (\<forall>p q. xs \<noteq> p @ pat @ q)"
      by (metis append_Cons append_Nil list.exhaust list.inject)
    with False Cons.IH show ?thesis by simp
  qed
qed

lemma strstr_here: "take (length pat) s = pat \<Longrightarrow> strstr pat s = Some s"
  by (cases s) auto

text \<open>It is the first: a match is found no later than one that is there.\<close>

lemma strstr_first: "strstr pat (p @ pat @ q) = Some r \<Longrightarrow> length (pat @ q) \<le> length r"
proof (induction p)
  case Nil
  then show ?case using strstr_here [of pat "pat @ q"] by simp
next
  case (Cons x p)
  then show ?case by (cases "take (length pat) ((x # p) @ pat @ q) = pat") auto
qed

text \<open>What it finds, in full: the occurrence that no other one begins before.\<close>

lemma strstr_spec:
  assumes "pat \<noteq> []"
  shows "strstr pat s = Some r \<longleftrightarrow> (\<exists>l q. s = l @ pat @ q \<and> r = pat @ q \<and> strstr pat (l @ butlast pat) = None)"
proof (induction s)
  case Nil
  with assms show ?case by simp
next
  case (Cons x xs)
  have pre: "take (length pat) (l @ butlast pat) = take (length pat) (l @ pat @ q)" if "l \<noteq> []" for l q
  proof -
    have "l @ butlast pat = take (length l + (length pat - 1)) (l @ pat @ q)" by (simp add: butlast_conv_take)
    moreover have "min (length pat) (length l + (length pat - 1)) = length pat"
      using that by (cases l) simp_all
    ultimately show ?thesis by (simp only: take_take)
  qed
  show ?case
  proof (cases "take (length pat) (x # xs) = pat")
    case True
    have "r = x # xs" if "x # xs = l @ pat @ q" "r = pat @ q" "strstr pat (l @ butlast pat) = None" for l q
    proof (cases "l = []")
      case False
      with True that(1) pre [of l q] have "take (length pat) (l @ butlast pat) = pat" by simp
      from strstr_here [OF this] that(3) show ?thesis by simp
    qed (use that in simp)
    moreover have "strstr pat (butlast pat) = None"
    proof (cases "strstr pat (butlast pat)")
      case (Some y)
      have "length pat \<le> length (butlast pat)" using strstr_length [OF Some] by simp
      moreover have "length (butlast pat) < length pat" using assms by simp
      ultimately show ?thesis by linarith
    qed simp
    moreover have "x # xs = pat @ drop (length pat) (x # xs)"
      using append_take_drop_id [of "length pat" "x # xs"] unfolding True by (rule sym)
    ultimately have "(\<exists>l q. x # xs = l @ pat @ q \<and> r = pat @ q \<and> strstr pat (l @ butlast pat) = None) \<longleftrightarrow> r = x # xs"
      by (metis append_Nil)
    moreover have "strstr pat (x # xs) = Some (x # xs)" by (rule strstr_here [OF True])
    ultimately show ?thesis by auto
  next
    case False
    have skip: "strstr pat (x # l @ butlast pat) = strstr pat (l @ butlast pat)" if "xs = l @ pat @ q" for l q
      using pre [of "x # l" q] False that by simp
    have nz: "l \<noteq> []" if "x # xs = l @ pat @ q" for l q using that False by auto
    have "(\<exists>l q. x # xs = l @ pat @ q \<and> r = pat @ q \<and> strstr pat (l @ butlast pat) = None) \<longleftrightarrow>
        (\<exists>l q. xs = l @ pat @ q \<and> r = pat @ q \<and> strstr pat (l @ butlast pat) = None)"
      (is "?A = ?B")
    proof
      assume ?A
      then obtain l q where lq: "x # xs = l @ pat @ q" "r = pat @ q" "strstr pat (l @ butlast pat) = None" by blast
      with nz obtain l' where "l = x # l'" by (cases l) auto
      with lq skip [of l' q] show ?B by auto
    next
      assume ?B
      then obtain l q where "xs = l @ pat @ q" "r = pat @ q" "strstr pat (l @ butlast pat) = None" by blast
      with skip [of l q] show ?A by (intro exI [of _ "x # l"] exI [of _ q]) simp
    qed
    with False Cons.IH show ?thesis by simp
  qed
qed

text \<open>A pattern of one byte.\<close>

lemma strstr_single: "strstr [c] s = Some r \<longleftrightarrow> (\<exists>p. s = p @ r \<and> c \<notin> set p \<and> r \<noteq> [] \<and> hd r = c)"
proof (induction s)
  case Nil
  then show ?case by simp
next
  case (Cons x xs)
  show ?case
  proof (cases "x = c")
    case True
    then show ?thesis by (auto simp: append_eq_Cons_conv Cons_eq_append_conv)
  next
    case False
    with Cons.IH show ?thesis by (auto simp: Cons_eq_append_conv)
  qed
qed

lemma cstr_nonzero: "0 \<notin> set (cstr b)"
  unfolding cstr_def by (auto dest: set_takeWhileD)

lemma cstr_length: "length (cstr b) \<le> length b"
  by (simp add: cstr_def length_takeWhile_le)

lemma cstr_id: "0 \<notin> set b \<Longrightarrow> cstr b = b"
  by (auto simp: cstr_def takeWhile_eq_all_conv)

lemma udec_length: "n < 10 ^ Suc k \<Longrightarrow> length (udec n) \<le> Suc k"
proof (induction k arbitrary: n)
  case 0
  then show ?case by (simp add: udec.simps)
next
  case (Suc k)
  then have "n div 10 < 10 ^ Suc k" by (simp add: less_mult_imp_div_less algebra_simps)
  from Suc.IH [OF this] show ?case by (subst udec.simps) simp
qed

end
