(* ===== verification/Upnp_Xml.thy ===== *)
theory Upnp_Xml
  imports C_Text
begin

text \<open>
  The UPnP message builders (\<open>upnp_xml.c\<close>). A buffer is the string in it; every builder appends piece
  by piece, within the size of the buffer.
\<close>

section \<open>Message text\<close>

definition soap_start :: bytes where
  "soap_start = ascii ''<?xml version=\"1.0\"?>'' @ crlf @ ascii ''<SOAP-ENV:Envelope xmlns:SOAP-ENV=\"http://schemas.xmlsoap.org/soap/envelope/\" SOAP-ENV:encodingStyle=\"http://schemas.xmlsoap.org/soap/encoding/\"><SOAP-ENV:Body>''"

definition soap_end :: bytes where
  "soap_end = ascii ''</SOAP-ENV:Body></SOAP-ENV:Envelope>'' @ crlf"

definition open_DeletePortMapping :: bytes where
  "open_DeletePortMapping = ascii ''<m:DeletePortMapping xmlns:m=\"urn:schemas-upnp-org:service:WANIPConnection:1\">''"

definition close_DeletePortMapping :: bytes where
  "close_DeletePortMapping = ascii ''</m:DeletePortMapping>''"

definition open_NewRemoteHost :: bytes where
  "open_NewRemoteHost = ascii ''<NewRemoteHost xmlns:dt=\"urn:schemas-microsoft-com:datatypes\" dt:dt=\"string\">''"

definition close_NewRemoteHost :: bytes where
  "close_NewRemoteHost = ascii ''</NewRemoteHost>''"

definition open_NewExternalPort :: bytes where
  "open_NewExternalPort = ascii ''<NewExternalPort xmlns:dt=\"urn:schemas-microsoft-com:datatypes\" dt:dt=\"ui2\">''"

definition close_NewExternalPort :: bytes where
  "close_NewExternalPort = ascii ''</NewExternalPort>''"

definition open_NewProtocol :: bytes where
  "open_NewProtocol = ascii ''<NewProtocol xmlns:dt=\"urn:schemas-microsoft-com:datatypes\" dt:dt=\"string\">''"

definition close_NewProtocol :: bytes where
  "close_NewProtocol = ascii ''</NewProtocol>''"

definition open_AddPortMapping :: bytes where
  "open_AddPortMapping = ascii ''<m:AddPortMapping xmlns:m=\"urn:schemas-upnp-org:service:WANIPConnection:1\">''"

definition close_AddPortMapping :: bytes where
  "close_AddPortMapping = ascii ''</m:AddPortMapping>''"

definition open_NewInternalPort :: bytes where
  "open_NewInternalPort = ascii ''<NewInternalPort xmlns:dt=\"urn:schemas-microsoft-com:datatypes\" dt:dt=\"ui2\">''"

definition close_NewInternalPort :: bytes where
  "close_NewInternalPort = ascii ''</NewInternalPort>''"

definition open_NewInternalClient :: bytes where
  "open_NewInternalClient = ascii ''<NewInternalClient xmlns:dt=\"urn:schemas-microsoft-com:datatypes\" dt:dt=\"string\">''"

definition close_NewInternalClient :: bytes where
  "close_NewInternalClient = ascii ''</NewInternalClient>''"

definition NewEnabled :: bytes where
  "NewEnabled = ascii ''<NewEnabled xmlns:dt=\"urn:schemas-microsoft-com:datatypes\" dt:dt=\"boolean\">1</NewEnabled>''"

definition open_NewPortMappingDescription :: bytes where
  "open_NewPortMappingDescription = ascii ''<NewPortMappingDescription xmlns:dt=\"urn:schemas-microsoft-com:datatypes\" dt:dt=\"string\">''"

definition close_NewPortMappingDescription :: bytes where
  "close_NewPortMappingDescription = ascii ''</NewPortMappingDescription>''"

definition NewLeaseDuration :: bytes where
  "NewLeaseDuration = ascii ''<NewLeaseDuration xmlns:dt=\"urn:schemas-microsoft-com:datatypes\" dt:dt=\"ui4\">0</NewLeaseDuration>''"

section \<open>Bounded append\<close>

text \<open>Called with buffers of at least one byte.\<close>

definition xml_append :: "nat \<Rightarrow> bytes \<Rightarrow> bytes \<Rightarrow> bytes" where
  "xml_append cap s dest =
     (let used = length dest
      in if cap - 1 \<le> used then dest else dest @ take (cap - used - 1) s)"

definition xml_appends :: "nat \<Rightarrow> bytes list \<Rightarrow> bytes \<Rightarrow> bytes" where
  "xml_appends cap = fold (xml_append cap)"

text \<open>\<open>num[12]\<close> holds every 32-bit number.\<close>

definition append_uint :: "nat \<Rightarrow> nat \<Rightarrow> bytes \<Rightarrow> bytes" where
  "append_uint cap v = xml_append cap (udec v)"

definition append_host :: "nat \<Rightarrow> bytes \<Rightarrow> bytes \<Rightarrow> bytes \<Rightarrow> bytes" where
  "append_host cap igd_ip igd_port = xml_appends cap [ascii ''Host: '', igd_ip, ascii '':'', igd_port]"

section \<open>The builders\<close>

datatype upnp_action_t = UPNP_ACTION_DELETE_PORT | UPNP_ACTION_ADD_PORT

definition upnp_xml_get_header :: "nat \<Rightarrow> bytes \<Rightarrow> bytes \<Rightarrow> bytes \<Rightarrow> bytes" where
  "upnp_xml_get_header cap desc_location igd_ip igd_port =
     (let d = xml_appends cap [ascii ''GET '', desc_location, ascii '' HTTP/1.1'' @ crlf,
            ascii ''Accept: text/xml, application/xml'' @ crlf,
            ascii ''User-Agent: Mozilla/4.0 (compatible; UPnP/1.0; Windows NT/5.1)'' @ crlf] [];
          d = append_host cap igd_ip igd_port d;
          d = xml_appends cap [crlf @ ascii ''Connection: close'' @ crlf @
            ascii ''Cache-Control: no-cache'' @ crlf @ ascii ''Pragma: no-cache'' @ crlf @ crlf] d
      in d)"

definition upnp_xml_post_header :: "nat \<Rightarrow> nat \<Rightarrow> upnp_action_t \<Rightarrow> bytes \<Rightarrow> bytes \<Rightarrow> bytes \<Rightarrow> bytes" where
  "upnp_xml_post_header cap content_length action control_url igd_ip igd_port =
     (let d = xml_appends cap [ascii ''POST '', control_url, ascii '' HTTP/1.1'' @ crlf,
            ascii ''Content-Type: text/xml; charset=\"utf-8\"'' @ crlf,
            ascii ''SOAPAction: \"urn:schemas-upnp-org:service:WANIPConnection:1#'',
            if action = UPNP_ACTION_ADD_PORT then ascii ''AddPortMapping\"'' else ascii ''DeletePortMapping\"'',
            crlf @ ascii ''User-Agent: Mozilla/4.0 (compatible; UPnP/1.0; Windows NT/5.1)'' @ crlf] [];
          d = append_host cap igd_ip igd_port d;
          d = xml_appends cap [crlf @ ascii ''Content-Length: ''] d;
          d = append_uint cap content_length d;
          d = xml_appends cap [crlf @ ascii ''Connection: close'' @ crlf @
            ascii ''Cache-Control: no-cache'' @ crlf @ ascii ''Pragma: no-cache'' @ crlf @ crlf] d
      in d)"

definition upnp_xml_subscribe :: "nat \<Rightarrow> bytes \<Rightarrow> bytes \<Rightarrow> bytes \<Rightarrow> bytes \<Rightarrow> u16 \<Rightarrow> bytes" where
  "upnp_xml_subscribe cap event_sub_url igd_ip igd_port local_ip listen_port =
     (let d = xml_appends cap [ascii ''SUBSCRIBE '', event_sub_url, ascii '' HTTP/1.1'' @ crlf] [];
          d = append_host cap igd_ip igd_port d;
          d = xml_appends cap [crlf @ ascii ''USER-AGENT: Mozilla/4.0 (compatible; UPnP/1.1; Windows NT/5.1)'' @ crlf,
            ascii ''CALLBACK: <http://'', local_ip, ascii '':''] d;
          d = append_uint cap (unat listen_port) d;
          d = xml_appends cap [ascii ''/>'',
            crlf @ ascii ''NT: upnp:event'' @ crlf @ ascii ''TIMEOUT: Second-1800'' @ crlf @ crlf] d
      in d)"

definition upnp_xml_add_port :: "nat \<Rightarrow> bytes \<Rightarrow> u16 \<Rightarrow> bytes \<Rightarrow> u16 \<Rightarrow> bytes \<Rightarrow> bytes" where
  "upnp_xml_add_port cap protocol external_port internal_ip internal_port description =
     (let d = xml_appends cap [soap_start, open_AddPortMapping, open_NewRemoteHost, close_NewRemoteHost,
            open_NewExternalPort] [];
          d = append_uint cap (unat external_port) d;
          d = xml_appends cap [close_NewExternalPort, open_NewProtocol, protocol, close_NewProtocol,
            open_NewInternalPort] d;
          d = append_uint cap (unat internal_port) d;
          d = xml_appends cap [close_NewInternalPort, open_NewInternalClient, internal_ip,
            close_NewInternalClient, NewEnabled, open_NewPortMappingDescription, description,
            close_NewPortMappingDescription, NewLeaseDuration, close_AddPortMapping, soap_end] d
      in d)"

definition upnp_xml_delete_port :: "nat \<Rightarrow> bytes \<Rightarrow> u16 \<Rightarrow> bytes" where
  "upnp_xml_delete_port cap protocol external_port =
     (let d = xml_appends cap [soap_start, open_DeletePortMapping, open_NewRemoteHost, close_NewRemoteHost,
            open_NewExternalPort] [];
          d = append_uint cap (unat external_port) d;
          d = xml_appends cap [close_NewExternalPort, open_NewProtocol, protocol, close_NewProtocol,
            close_DeletePortMapping, soap_end] d
      in d)"

end
