(* ===== verification/Upnp.thy ===== *)
theory Upnp
  imports Net_Server Upnp_Xml
begin

text \<open>
  The UPnP client: the socket transport (\<open>upnp_transport.c\<close>), the protocol steps and the parsers
  (\<open>upnp_core.c\<close>), and the session that drives them (\<open>upnp_client.c\<close>). A result \<open>None\<close> means that a
  call did not return within the fuel \<open>k\<close>, or that the C code reads or writes outside a buffer.
\<close>

section \<open>Transport\<close>

text \<open>The vtable is \<open>None\<close> before the bind. \<open>aton\<close> is \<open>inet_addr()\<close>.\<close>

definition upnp_send_all :: "'w host \<Rightarrow> nat \<Rightarrow> int \<Rightarrow> bytes \<Rightarrow> 'w \<Rightarrow> (int \<times> 'w) option" where
  "upnp_send_all h k fd buf w = map_option (\<lambda>(r, _, w1). (r, w1)) (turns k (stream_turn h fd buf) (0, w))"

definition upnp_set_timeout :: "'w host \<Rightarrow> int \<Rightarrow> u32 \<Rightarrow> 'w \<Rightarrow> 'w" where
  "upnp_set_timeout h fd ms w = ops_setsockopt (h_sock h) fd SOL_SOCKET SO_RCVTIMEO (timeval_bytes ms) w"

definition upnp_addr :: "u32 \<Rightarrow> u16 \<Rightarrow> sockaddr_in" where
  "upnp_addr ip port = \<lparr>sin_family_inet = True, sin_port = lwip_htons port, sin_addr = ip\<rparr>"

text \<open>The result and the bytes written to \<open>resp\<close> before the NUL.\<close>

definition upnp_transport_ssdp ::
  "'w host option \<Rightarrow> (bytes \<Rightarrow> u32) \<Rightarrow> bytes \<Rightarrow> u16 \<Rightarrow> u16 \<Rightarrow> bytes \<Rightarrow> nat \<Rightarrow> u32 \<Rightarrow> 'w \<Rightarrow>
     ((int \<times> bytes) \<times> 'w) option" where
  "upnp_transport_ssdp s_ops aton group_ip group_port local_port msg resp_size timeout_ms w =
     (case s_ops of None \<Rightarrow> Some ((-1, []), w)
      | Some h \<Rightarrow>
        let sk = h_sock h; (fd, w1) = ops_socket sk 2 2 17 w in
        if fd < 0 then Some ((-1, []), w1)
        else
          let (b, w2) = ops_bind sk fd (upnp_addr (lwip_htonl 0) local_port) w1 in
          if b < 0 then map_option (\<lambda>w3. ((-1, []), w3)) (ops_close sk fd w2)
          else
            let w3 = upnp_set_timeout h fd timeout_ms w2;
                w4 = ops_setsockopt sk fd IPPROTO_IP IP_MULTICAST_TTL (le32_bytes 1) w3
            in case ops_sendto sk fd msg (upnp_addr (aton group_ip) group_port) w4 of None \<Rightarrow> None
               | Some (n, w5) \<Rightarrow>
                 if n < 0 then map_option (\<lambda>w6. ((-1, []), w6)) (ops_close sk fd w5)
                 else (case ops_recvfrom sk fd (resp_size - 1) (Some 16) w5 of None \<Rightarrow> None
                       | Some ((n, buf, _), w6) \<Rightarrow>
                         (case ops_close sk fd w6 of None \<Rightarrow> None
                          | Some w7 \<Rightarrow>
                            if n \<le> 0 then Some ((0, []), w7)
                            else if int resp_size \<le> n then None
                            else Some ((n, take (nat n) buf), w7))))"

text \<open>One receive of the response; \<open>cap\<close> leaves room for the NUL.\<close>

definition http_read_turn ::
  "'w host \<Rightarrow> int \<Rightarrow> nat \<Rightarrow> bytes \<times> 'w \<Rightarrow> (unit option \<times> bytes \<times> 'w) option" where
  "http_read_turn h fd cap = (\<lambda>(got, w).
     if cap \<le> length got then Some (Some (), got, w)
     else case ops_recv (h_sock h) fd (cap - length got) w of None \<Rightarrow> None
          | Some ((n, b), w1) \<Rightarrow>
            if n \<le> 0 then Some (Some (), got, w1)
            else if int (cap - length got) < n then None
            else Some (None, got @ take (nat n) b, w1))"

definition upnp_transport_http ::
  "'w host option \<Rightarrow> (bytes \<Rightarrow> u32) \<Rightarrow> nat \<Rightarrow> bytes \<Rightarrow> u16 \<Rightarrow> bytes \<Rightarrow> nat \<Rightarrow> u32 \<Rightarrow> 'w \<Rightarrow>
     ((int \<times> bytes) \<times> 'w) option" where
  "upnp_transport_http s_ops aton k ip port request resp_size timeout_ms w =
     (case s_ops of None \<Rightarrow> Some ((-1, []), w)
      | Some h \<Rightarrow>
        let sk = h_sock h; (fd, w1) = ops_socket sk 2 1 6 w in
        if fd < 0 then Some ((-1, []), w1)
        else
          let (c, w2) = ops_connect sk fd (upnp_addr (aton ip) port) w1 in
          if c < 0 then map_option (\<lambda>w3. ((-1, []), w3)) (ops_close sk fd w2)
          else
            let w3 = upnp_set_timeout h fd timeout_ms w2
            in case upnp_send_all h k fd request w3 of None \<Rightarrow> None
               | Some (n, w4) \<Rightarrow>
                 if n < 0 then map_option (\<lambda>w5. ((-1, []), w5)) (ops_close sk fd w4)
                 else (case turns k (http_read_turn h fd (resp_size - 1)) ([], w4) of None \<Rightarrow> None
                       | Some (_, got, w5) \<Rightarrow>
                         map_option (\<lambda>w6. ((int (length got), got), w6)) (ops_close sk fd w5)))"

definition upnp_transport_listen :: "'w host option \<Rightarrow> u16 \<Rightarrow> 'w \<Rightarrow> (int \<times> 'w) option" where
  "upnp_transport_listen s_ops port w =
     (case s_ops of None \<Rightarrow> Some (-1, w)
      | Some h \<Rightarrow>
        let sk = h_sock h; (fd, w1) = ops_socket sk 2 1 6 w in
        if fd < 0 then Some (-1, w1)
        else
          let (b, w2) = ops_bind sk fd (upnp_addr (lwip_htonl 0) port) w1;
              (l, w3) = (if b < 0 then (-1, w2) else ops_listen sk fd 1 w2)
          in if b < 0 \<or> l < 0 then map_option (\<lambda>w4. (-1, w4)) (ops_close sk fd w3)
             else Some (fd, w3))"

definition upnp_transport_accept :: "'w host \<Rightarrow> int \<Rightarrow> u32 \<Rightarrow> 'w \<Rightarrow> (int \<times> 'w) option" where
  "upnp_transport_accept h listen_fd timeout_ms w =
     map_option (\<lambda>((fd, _), w1). (if fd < 0 then -1 else fd, w1))
       (ops_accept (h_sock h) listen_fd (upnp_set_timeout h listen_fd timeout_ms w))"

definition upnp_transport_recv :: "'w host \<Rightarrow> int \<Rightarrow> nat \<Rightarrow> u32 \<Rightarrow> 'w \<Rightarrow> ((int \<times> bytes) \<times> 'w) option" where
  "upnp_transport_recv h fd cap timeout_ms w =
     (case ops_recv (h_sock h) fd (cap - 1) (upnp_set_timeout h fd timeout_ms w) of None \<Rightarrow> None
      | Some ((n, b), w1) \<Rightarrow>
        if n \<le> 0 then Some ((if n < 0 then -1 else 0, []), w1)
        else if int cap \<le> n then None
        else Some ((n, take (nat n) b), w1))"

definition upnp_transport_close :: "'w host \<Rightarrow> int \<Rightarrow> 'w \<Rightarrow> 'w option" where
  "upnp_transport_close h fd w = (if 0 \<le> fd then ops_close (h_sock h) fd w else Some w)"

section \<open>State\<close>

definition CONT_BUFFER_SIZE :: nat where "CONT_BUFFER_SIZE = 2048"
definition SEND_BUFFER_SIZE :: nat where "SEND_BUFFER_SIZE = 4096"
definition RECV_BUFFER_SIZE :: nat where "RECV_BUFFER_SIZE = 4096"

definition SSDP_GROUP_IP :: bytes where "SSDP_GROUP_IP = ascii ''239.255.255.250''"
definition SSDP_GROUP_PORT :: u16 where "SSDP_GROUP_PORT = 1900"
definition SSDP_LOCAL_PORT :: u16 where "SSDP_LOCAL_PORT = 1901"
definition SSDP_TIMEOUT_MS :: u32 where "SSDP_TIMEOUT_MS = 3000"
definition HTTP_TIMEOUT_MS :: u32 where "HTTP_TIMEOUT_MS = 5000"

definition SSDP :: bytes where
  "SSDP = ascii ''M-SEARCH * HTTP/1.1'' @ crlf @ ascii ''Host:239.255.255.250:1900'' @ crlf @
     ascii ''ST:urn:schemas-upnp-org:device:InternetGatewayDevice:1'' @ crlf @
     ascii ''Man:\"ssdp:discover\"'' @ crlf @ ascii ''MX:3'' @ crlf @ crlf"

datatype upnp_step_t = UPNP_STEP_NONE | UPNP_STEP_DISCOVERED | UPNP_STEP_DESCRIBED

text \<open>The enumerators are compared by their numbers.\<close>

primrec step_num :: "upnp_step_t \<Rightarrow> nat" where
  "step_num UPNP_STEP_NONE = 0"
| "step_num UPNP_STEP_DISCOVERED = 1"
| "step_num UPNP_STEP_DESCRIBED = 2"

instantiation upnp_step_t :: linorder
begin

definition less_eq_upnp_step_t :: "upnp_step_t \<Rightarrow> upnp_step_t \<Rightarrow> bool" where
  "less_eq_upnp_step_t a b \<longleftrightarrow> step_num a \<le> step_num b"

definition less_upnp_step_t :: "upnp_step_t \<Rightarrow> upnp_step_t \<Rightarrow> bool" where
  "less_upnp_step_t a b \<longleftrightarrow> step_num a < step_num b"

instance
proof
  show "a = b" if "a \<le> b" "b \<le> a" for a b :: upnp_step_t
    using that by (cases a; cases b) (simp_all add: less_eq_upnp_step_t_def)
qed (auto simp: less_eq_upnp_step_t_def less_upnp_step_t_def)

end

definition UPNP_OK :: int where "UPNP_OK = 0"
definition UPNP_ERR_PARSE :: int where "UPNP_ERR_PARSE = 1"
definition UPNP_ERR_TIMEOUT :: int where "UPNP_ERR_TIMEOUT = -1"
definition UPNP_ERR_STEP :: int where "UPNP_ERR_STEP = -2"

lemmas upnp_codes = UPNP_OK_def UPNP_ERR_PARSE_def UPNP_ERR_TIMEOUT_def UPNP_ERR_STEP_def

text \<open>The static variables, each buffer as the string in it, and what is behind the vtable.\<close>

record 'w upnp =
  u_step :: upnp_step_t
  descURL :: bytes
  descIP :: bytes
  descPORT :: bytes
  descLOCATION :: bytes
  controlURL :: bytes
  eventSubURL :: bytes
  u_content :: bytes
  u_send_buffer :: bytes
  u_recv_buffer :: bytes
  u_net :: 'w

definition upnp_start :: "'w \<Rightarrow> 'w upnp" where
  "upnp_start w = \<lparr>u_step = UPNP_STEP_NONE, descURL = [], descIP = [], descPORT = [], descLOCATION = [],
     controlURL = [], eventSubURL = [], u_content = [], u_send_buffer = [], u_recv_buffer = [], u_net = w\<rparr>"

text \<open>Plain \<open>char\<close> is unsigned on the compilers of the targets.\<close>

definition C2D :: "u8 \<Rightarrow> u8" where
  "C2D c = (if 48 \<le> c \<and> c \<le> 57 then c - 48
            else if 97 \<le> c \<and> c \<le> 102 then 10 + c - 97
            else if 65 \<le> c \<and> c \<le> 70 then 10 + c - 65
            else c)"

definition ATOI :: "bytes \<Rightarrow> u16 \<Rightarrow> u16" where
  "ATOI s b = ucast (foldl (\<lambda>num c. num * ucast b + ucast (C2D c)) (0 :: u32) s)"

definition upnp_igd_port :: "'w upnp \<Rightarrow> u16" where
  "upnp_igd_port u = ATOI (descPORT u) 10"

section \<open>Parsers\<close>

definition parse_http :: "bytes \<Rightarrow> 'w upnp \<Rightarrow> (int \<times> 'w upnp) option" where
  "parse_http xml u =
     (if strstr (ascii ''200 OK'') xml \<noteq> None then Some (UPNP_OK, u)
      else case strstr crlf xml of None \<Rightarrow> Some (UPNP_ERR_PARSE, u\<lparr>u_content := []\<rparr>)
           | Some loc \<Rightarrow>
             let n = length xml - length loc
             in if CONT_BUFFER_SIZE \<le> n then None
                else Some (UPNP_ERR_PARSE, u\<lparr>u_content := take n xml\<rparr>))"

text \<open>\<open>(size_t)(end - start - skip) >= size\<close>, and the copy of that many bytes.\<close>

definition str_field :: "bytes \<Rightarrow> nat \<Rightarrow> bytes \<Rightarrow> nat \<Rightarrow> bytes option" where
  "str_field start skip end1 cap =
     (let n = int (length start) - int (length end1) - int skip
      in if n < 0 \<or> int cap \<le> n then None else Some (take (nat n) (drop skip start)))"

definition ssdp_location :: "bytes \<Rightarrow> bytes option" where
  "ssdp_location xml = do {
     start \<leftarrow> strstr (ascii ''LOCATION: '') xml;
     end1 \<leftarrow> strstr crlf start;
     str_field start (length (ascii ''LOCATION: '')) end1 64 }"

definition ssdp_ip :: "bytes \<Rightarrow> (bytes \<times> bytes) option" where
  "ssdp_ip url = do {
     start \<leftarrow> strstr (ascii ''http://'') url;
     end1 \<leftarrow> strstr (ascii '':'') (drop 7 start);
     ip \<leftarrow> str_field start 7 end1 16;
     Some (ip, drop 1 end1) }"

definition ssdp_port :: "bytes \<Rightarrow> (bytes \<times> bytes) option" where
  "ssdp_port start = do {
     end1 \<leftarrow> strstr (ascii ''/'') start;
     port \<leftarrow> str_field start 0 end1 6;
     Some (port, end1) }"

text \<open>A step that fails leaves the fields written before it.\<close>

definition parse_ssdp :: "bytes \<Rightarrow> 'w upnp \<Rightarrow> (int \<times> 'w upnp) option" where
  "parse_ssdp xml u = do {
     (r, u0) \<leftarrow> parse_http xml u;
     Some (if r \<noteq> UPNP_OK then (UPNP_ERR_PARSE, u0)
       else case ssdp_location xml of None \<Rightarrow> (UPNP_ERR_PARSE, u0)
            | Some url \<Rightarrow>
              let u1 = u0\<lparr>descURL := url\<rparr> in
              (case ssdp_ip url of None \<Rightarrow> (UPNP_ERR_PARSE, u1)
               | Some (ip, rest) \<Rightarrow>
                 let u2 = u1\<lparr>descIP := ip\<rparr> in
                 (case ssdp_port rest of None \<Rightarrow> (UPNP_ERR_PARSE, u2)
                  | Some (port, path) \<Rightarrow>
                    let u3 = u2\<lparr>descPORT := port\<rparr> in
                    if 64 \<le> length path then (UPNP_ERR_PARSE, u3)
                    else (UPNP_OK, u3\<lparr>descLOCATION := path\<rparr>)))) }"

definition desc_field :: "bytes \<Rightarrow> bytes \<Rightarrow> bytes \<Rightarrow> bytes option" where
  "desc_field opn cls xml = do {
     svc \<leftarrow> strstr (ascii ''urn:schemas-upnp-org:service:WANIPConnection:1'') xml;
     start \<leftarrow> strstr opn svc;
     end1 \<leftarrow> strstr cls start;
     str_field start (length opn) end1 64 }"

definition parse_description :: "bytes \<Rightarrow> 'w upnp \<Rightarrow> (int \<times> 'w upnp) option" where
  "parse_description xml u = do {
     (r, u0) \<leftarrow> parse_http xml u;
     Some (if r \<noteq> UPNP_OK then (UPNP_ERR_PARSE, u0)
       else case desc_field (ascii ''<controlURL>'') (ascii ''</controlURL>'') xml of
              None \<Rightarrow> (UPNP_ERR_PARSE, u0)
            | Some ctl \<Rightarrow>
              let u1 = u0\<lparr>controlURL := ctl\<rparr> in
              (case desc_field (ascii ''<eventSubURL>'') (ascii ''</eventSubURL>'') xml of
                 None \<Rightarrow> (UPNP_ERR_PARSE, u1)
               | Some evt \<Rightarrow> (UPNP_OK, u1\<lparr>eventSubURL := evt\<rparr>))) }"

definition copy_element :: "bytes \<Rightarrow> bytes \<Rightarrow> bytes \<Rightarrow> 'w upnp \<Rightarrow> bool \<times> 'w upnp" where
  "copy_element xml opn cls u =
     (case (do { start \<leftarrow> strstr opn xml; end1 \<leftarrow> strstr cls start;
                 str_field start (length opn) end1 CONT_BUFFER_SIZE }) of
        None \<Rightarrow> (False, u) | Some e \<Rightarrow> (True, u\<lparr>u_content := e\<rparr>))"

text \<open>The elements printed, in order.\<close>

definition print_element :: "bytes \<Rightarrow> bytes \<Rightarrow> bytes \<Rightarrow> (bytes list \<times> 'w upnp) \<Rightarrow> bytes list \<times> 'w upnp" where
  "print_element xml opn cls = (\<lambda>(out, u).
     let (ok, u1) = copy_element xml opn cls u in (if ok then out @ [u_content u1] else out, u1))"

definition upnp_parse_eventing :: "bytes \<Rightarrow> 'w upnp \<Rightarrow> bytes list \<times> 'w upnp" where
  "upnp_parse_eventing xml u =
     print_element xml (ascii ''<PortMappingNumberOfEntries>'') (ascii ''</PortMappingNumberOfEntries>'')
      (print_element xml (ascii ''<ExternalIPAddress>'') (ascii ''</ExternalIPAddress>'')
       (print_element xml (ascii ''<ConnectionStatus>'') (ascii ''</ConnectionStatus>'')
        (print_element xml (ascii ''<PossibleConnectionTypes>'') (ascii ''</PossibleConnectionTypes>'')
         ([], u))))"

definition parse_error :: "bytes \<Rightarrow> 'w upnp \<Rightarrow> int \<times> 'w upnp" where
  "parse_error xml u =
     (let (a, u1) = copy_element xml (ascii ''<faultstring>'') (ascii ''</faultstring>'') u in
      if \<not> a then (UPNP_ERR_PARSE, u1)
      else let (b, u2) = copy_element xml (ascii ''<errorCode>'') (ascii ''</errorCode>'') u1 in
        if \<not> b then (UPNP_ERR_PARSE, u2)
        else let ret = uint (ATOI (u_content u2) 10);
                 (c, u3) = copy_element xml (ascii ''<errorDescription>'') (ascii ''</errorDescription>'') u2
             in if \<not> c then (UPNP_ERR_PARSE, u3) else (ret, u3))"

section \<open>Protocol steps\<close>

definition upnp_discover :: "'w host option \<Rightarrow> (bytes \<Rightarrow> u32) \<Rightarrow> 'w upnp \<Rightarrow> (int \<times> 'w upnp) option" where
  "upnp_discover s_ops aton u = do {
     ((n, resp), w) \<leftarrow> upnp_transport_ssdp s_ops aton SSDP_GROUP_IP SSDP_GROUP_PORT SSDP_LOCAL_PORT SSDP
       RECV_BUFFER_SIZE SSDP_TIMEOUT_MS (u_net u);
     let u1 = u\<lparr>u_recv_buffer := cstr resp, u_net := w\<rparr>;
     if n \<le> 0 then Some (UPNP_ERR_TIMEOUT, u1)
     else do {
       (ret, u2) \<leftarrow> parse_ssdp (u_recv_buffer u1) u1;
       Some (ret, if ret = UPNP_OK then u2\<lparr>u_step := UPNP_STEP_DISCOVERED\<rparr> else u2) } }"

text \<open>The exchange the HTTP steps share: the request is in the send buffer.\<close>

definition upnp_exchange ::
  "'w host option \<Rightarrow> (bytes \<Rightarrow> u32) \<Rightarrow> nat \<Rightarrow> 'w upnp \<Rightarrow> (int \<times> 'w upnp) option" where
  "upnp_exchange s_ops aton k u = do {
     ((n, resp), w) \<leftarrow> upnp_transport_http s_ops aton k (descIP u) (upnp_igd_port u) (u_send_buffer u)
       RECV_BUFFER_SIZE HTTP_TIMEOUT_MS (u_net u);
     Some (n, u\<lparr>u_recv_buffer := cstr resp, u_net := w\<rparr>) }"

definition upnp_get_description ::
  "'w host option \<Rightarrow> (bytes \<Rightarrow> u32) \<Rightarrow> nat \<Rightarrow> 'w upnp \<Rightarrow> (int \<times> 'w upnp) option" where
  "upnp_get_description s_ops aton k u =
     (if u_step u < UPNP_STEP_DISCOVERED then Some (UPNP_ERR_STEP, u)
      else do {
        (n, u1) \<leftarrow> upnp_exchange s_ops aton k (u\<lparr>u_send_buffer :=
           upnp_xml_get_header SEND_BUFFER_SIZE (descLOCATION u) (descIP u) (descPORT u)\<rparr>);
        if n \<le> 0 then Some (UPNP_ERR_TIMEOUT, u1)
        else do {
          (ret, u2) \<leftarrow> parse_description (u_recv_buffer u1) u1;
          Some (ret, if ret = UPNP_OK then u2\<lparr>u_step := UPNP_STEP_DESCRIBED\<rparr> else u2) } })"

definition upnp_subscribe ::
  "'w host option \<Rightarrow> (bytes \<Rightarrow> u32) \<Rightarrow> nat \<Rightarrow> bytes \<Rightarrow> u16 \<Rightarrow> 'w upnp \<Rightarrow> (int \<times> 'w upnp) option" where
  "upnp_subscribe s_ops aton k local_ip event_port u =
     (if u_step u < UPNP_STEP_DESCRIBED then Some (UPNP_ERR_STEP, u)
      else do {
        (n, u1) \<leftarrow> upnp_exchange s_ops aton k (u\<lparr>u_send_buffer :=
           upnp_xml_subscribe SEND_BUFFER_SIZE (eventSubURL u) (descIP u) (descPORT u) local_ip event_port\<rparr>);
        if n \<le> 0 then Some (UPNP_ERR_TIMEOUT, u1) else parse_http (u_recv_buffer u1) u1 })"

definition port_action ::
  "'w host option \<Rightarrow> (bytes \<Rightarrow> u32) \<Rightarrow> nat \<Rightarrow> upnp_action_t \<Rightarrow> bytes \<Rightarrow> 'w upnp \<Rightarrow> (int \<times> 'w upnp) option" where
  "port_action s_ops aton k action expect_response u =
     (if u_step u < UPNP_STEP_DESCRIBED then Some (UPNP_ERR_STEP, u)
      else
        let body_len = length (u_content u);
            hdr = upnp_xml_post_header SEND_BUFFER_SIZE body_len action (controlURL u) (descIP u) (descPORT u)
        in if SEND_BUFFER_SIZE \<le> length hdr + body_len then Some (UPNP_ERR_PARSE, u\<lparr>u_send_buffer := hdr\<rparr>)
           else do {
             (n, u1) \<leftarrow> upnp_exchange s_ops aton k (u\<lparr>u_send_buffer := hdr @ u_content u\<rparr>);
             if n \<le> 0 then Some (UPNP_ERR_TIMEOUT, u1)
             else do {
               (_, u2) \<leftarrow> parse_http (u_recv_buffer u1) u1;
               Some (if strstr expect_response (u_recv_buffer u2) = None
                     then parse_error (u_recv_buffer u2) u2 else (UPNP_OK, u2)) } })"

definition upnp_add_port ::
  "'w host option \<Rightarrow> (bytes \<Rightarrow> u32) \<Rightarrow> nat \<Rightarrow> bytes \<Rightarrow> u16 \<Rightarrow> bytes \<Rightarrow> u16 \<Rightarrow> bytes \<Rightarrow> 'w upnp \<Rightarrow>
     (int \<times> 'w upnp) option" where
  "upnp_add_port s_ops aton k protocol external_port internal_ip internal_port description u =
     port_action s_ops aton k UPNP_ACTION_ADD_PORT
       (ascii ''u:AddPortMappingResponse xmlns:u=\"urn:schemas-upnp-org:service:WANIPConnection:1\"'')
       (u\<lparr>u_content := upnp_xml_add_port CONT_BUFFER_SIZE protocol external_port internal_ip internal_port
            description\<rparr>)"

definition upnp_delete_port ::
  "'w host option \<Rightarrow> (bytes \<Rightarrow> u32) \<Rightarrow> nat \<Rightarrow> bytes \<Rightarrow> u16 \<Rightarrow> 'w upnp \<Rightarrow> (int \<times> 'w upnp) option" where
  "upnp_delete_port s_ops aton k protocol external_port u =
     port_action s_ops aton k UPNP_ACTION_DELETE_PORT
       (ascii ''u:DeletePortMappingResponse xmlns:u=\"urn:schemas-upnp-org:service:WANIPConnection:1\"'')
       (u\<lparr>u_content := upnp_xml_delete_port CONT_BUFFER_SIZE protocol external_port\<rparr>)"

section \<open>The session\<close>

definition DISCOVER_ATTEMPTS :: nat where "DISCOVER_ATTEMPTS = 5"
definition EVENT_PORT :: u16 where "EVENT_PORT = 5002"
definition EVENT_BUF_SIZE :: nat where "EVENT_BUF_SIZE = 2048"

definition HTTP_OK :: bytes where
  "HTTP_OK = ascii ''HTTP/1.1 200 OK'' @ crlf @ crlf"

text \<open>The settings of \<open>net_config.h\<close>.\<close>

record upnp_config =
  UPNP_MAP_PROTOCOL :: bytes
  UPNP_MAP_EXT_PORT :: u16
  UPNP_MAP_INT_IP :: bytes
  UPNP_MAP_INT_PORT :: u16
  UPNP_MAP_DESCRIPTION :: bytes
  UPNP_DELETE_AFTER_ADD :: bool
  UPNP_EVENT_LISTEN_SEC :: nat

definition upnp_net_config :: upnp_config where
  "upnp_net_config = \<lparr>UPNP_MAP_PROTOCOL = ascii ''TCP'', UPNP_MAP_EXT_PORT = 8000, UPNP_MAP_INT_IP = [],
     UPNP_MAP_INT_PORT = 8000, UPNP_MAP_DESCRIPTION = ascii ''wsm_driver'', UPNP_DELETE_AFTER_ADD = True,
     UPNP_EVENT_LISTEN_SEC = 10\<rparr>"

text \<open>The task's view of an interface: the vtable and the two callbacks.\<close>

record 'w upnp_client_ctx_t =
  c_host :: "'w host"
  c_is_up :: "'w \<Rightarrow> bool \<times> 'w"
  c_local_ip :: "'w \<Rightarrow> bytes \<times> 'w"

fun discover_loop ::
  "'w host \<Rightarrow> (bytes \<Rightarrow> u32) \<Rightarrow> nat \<Rightarrow> int \<Rightarrow> 'w upnp \<Rightarrow> (int \<times> 'w upnp) option" where
  "discover_loop h aton 0 ret u = Some (ret, u)"
| "discover_loop h aton (Suc i) ret u =
     (if ret = UPNP_OK then Some (ret, u)
      else case upnp_discover (Some h) aton u of None \<Rightarrow> None
           | Some (r, u1) \<Rightarrow> discover_loop h aton i r u1)"

text \<open>One connection: answered first, parsed after. The argument counts the seconds left.\<close>

definition serve_event :: "'w host \<Rightarrow> nat \<Rightarrow> int \<Rightarrow> 'w upnp \<Rightarrow> 'w upnp option" where
  "serve_event h k fd u = do {
     ((n, buf), w1) \<leftarrow> upnp_transport_recv h fd EVENT_BUF_SIZE 1000 (u_net u);
     (_, w2) \<leftarrow> upnp_send_all h k fd HTTP_OK w1;
     let u1 = u\<lparr>u_net := w2\<rparr>;
     let u2 = (if 0 < n then snd (upnp_parse_eventing (cstr buf) u1) else u1);
     w3 \<leftarrow> upnp_transport_close h fd (u_net u2);
     Some (u2\<lparr>u_net := w3\<rparr>) }"

fun events_loop :: "'w host \<Rightarrow> nat \<Rightarrow> int \<Rightarrow> nat \<Rightarrow> 'w upnp \<Rightarrow> 'w upnp option" where
  "events_loop h k listen_fd 0 u = Some u"
| "events_loop h k listen_fd (Suc left) u =
     (case upnp_transport_accept h listen_fd 1000 (u_net u) of None \<Rightarrow> None
      | Some (fd, w1) \<Rightarrow>
        let u1 = u\<lparr>u_net := w1\<rparr> in
        if fd < 0 then events_loop h k listen_fd left u1
        else case serve_event h k fd u1 of None \<Rightarrow> None
             | Some u2 \<Rightarrow> events_loop h k listen_fd left u2)"

text \<open>\<open>alloc\<close> says whether the buffer could be had.\<close>

definition listen_for_events :: "'w host \<Rightarrow> nat \<Rightarrow> bool \<Rightarrow> nat \<Rightarrow> 'w upnp \<Rightarrow> 'w upnp option" where
  "listen_for_events h k alloc seconds u = do {
     (listen_fd, w1) \<leftarrow> upnp_transport_listen (Some h) EVENT_PORT (u_net u);
     let u1 = u\<lparr>u_net := w1\<rparr>;
     if listen_fd < 0 then Some u1
     else do {
       u2 \<leftarrow> (if alloc then events_loop h k listen_fd seconds u1 else Some u1);
       w3 \<leftarrow> upnp_transport_close h listen_fd (u_net u2);
       Some (u2\<lparr>u_net := w3\<rparr>) } }"

definition upnp_eventing ::
  "upnp_config \<Rightarrow> 'w upnp_client_ctx_t \<Rightarrow> (bytes \<Rightarrow> u32) \<Rightarrow> nat \<Rightarrow> bool \<Rightarrow> 'w upnp \<Rightarrow> 'w upnp option" where
  "upnp_eventing cfg c aton k alloc u =
     (if UPNP_EVENT_LISTEN_SEC cfg = 0 then Some u
      else let (ip, w1) = c_local_ip c (u_net u)
        in case upnp_subscribe (Some (c_host c)) aton k ip EVENT_PORT (u\<lparr>u_net := w1\<rparr>) of None \<Rightarrow> None
           | Some (ret, u1) \<Rightarrow>
             if ret = UPNP_OK then listen_for_events (c_host c) k alloc (UPNP_EVENT_LISTEN_SEC cfg) u1
             else Some u1)"

definition upnp_mapping ::
  "upnp_config \<Rightarrow> 'w upnp_client_ctx_t \<Rightarrow> (bytes \<Rightarrow> u32) \<Rightarrow> nat \<Rightarrow> 'w upnp \<Rightarrow> (int \<times> 'w upnp) option" where
  "upnp_mapping cfg c aton k u =
     (let (ip, w1) = (if UPNP_MAP_INT_IP cfg \<noteq> [] then (UPNP_MAP_INT_IP cfg, u_net u)
                      else c_local_ip c (u_net u))
      in do {
        (ret, u1) \<leftarrow> upnp_add_port (Some (c_host c)) aton k (UPNP_MAP_PROTOCOL cfg) (UPNP_MAP_EXT_PORT cfg) ip
          (UPNP_MAP_INT_PORT cfg) (UPNP_MAP_DESCRIPTION cfg) (u\<lparr>u_net := w1\<rparr>);
        if ret = UPNP_OK \<and> UPNP_DELETE_AFTER_ADD cfg
        then upnp_delete_port (Some (c_host c)) aton k (UPNP_MAP_PROTOCOL cfg) (UPNP_MAP_EXT_PORT cfg) u1
        else Some (ret, u1) })"

text \<open>The last result code the task logged, and the state it leaves.\<close>

definition upnp_client_task ::
  "upnp_config \<Rightarrow> 'w upnp_client_ctx_t \<Rightarrow> (bytes \<Rightarrow> u32) \<Rightarrow> nat \<Rightarrow> bool \<Rightarrow> 'w upnp \<Rightarrow> (int \<times> 'w upnp) option" where
  "upnp_client_task cfg c aton k alloc u = do {
     (_, w1) \<leftarrow> turns k (iface_turn (c_host c) (c_is_up c)) (u_net u);
     (ret, u1) \<leftarrow> discover_loop (c_host c) aton DISCOVER_ATTEMPTS UPNP_ERR_TIMEOUT (u\<lparr>u_net := w1\<rparr>);
     if ret \<noteq> UPNP_OK then Some (ret, u1)
     else do {
       (ret, u2) \<leftarrow> upnp_get_description (Some (c_host c)) aton k u1;
       if ret \<noteq> UPNP_OK then Some (ret, u2)
       else do {
         u3 \<leftarrow> upnp_eventing cfg c aton k alloc u2;
         upnp_mapping cfg c aton k u3 } } }"

end
