(* ===== verification/Upnp_Props.thy ===== *)
theory Upnp_Props
  imports Upnp
begin

text \<open>
  The properties of the UPnP client: the sockets a session holds, the requests it puts on the wire,
  what it takes from a reply, and the one reply that is written past a buffer.
\<close>

section \<open>What the parsers change\<close>

text \<open>Every buffer holds its string and the NUL.\<close>

definition upnp_ok :: "'w upnp \<Rightarrow> bool" where
  "upnp_ok u \<longleftrightarrow> length (descURL u) < 64 \<and> length (descIP u) < 16 \<and> length (descPORT u) < 6 \<and>
     length (descLOCATION u) < 64 \<and> length (controlURL u) < 64 \<and> length (eventSubURL u) < 64 \<and>
     length (u_content u) < CONT_BUFFER_SIZE"

text \<open>The parsers leave the step and the world alone, and the buffers in order.\<close>

definition parsed :: "'w upnp \<Rightarrow> 'w upnp \<Rightarrow> bool" where
  "parsed u u' \<longleftrightarrow> u_net u' = u_net u \<and> u_step u' = u_step u \<and> u_recv_buffer u' = u_recv_buffer u \<and>
     u_send_buffer u' = u_send_buffer u \<and> (upnp_ok u \<longrightarrow> upnp_ok u')"

lemma parsed_refl: "parsed u u" and parsed_trans: "parsed u v \<Longrightarrow> parsed v w \<Longrightarrow> parsed u w"
  by (simp_all add: parsed_def)

lemma str_field_length: "str_field start skip e cap = Some x \<Longrightarrow> length x < cap"
  by (auto simp: str_field_def Let_def split: if_splits)

lemma parse_http_parsed: "parse_http x u = Some (r, u') \<Longrightarrow> parsed u u'"
  by (auto simp: parse_http_def Let_def parsed_def upnp_ok_def CONT_BUFFER_SIZE_def split: if_splits option.splits)

lemma parse_ssdp_fields: "ssdp_location x = Some url \<Longrightarrow> length url < 64"
  "ssdp_ip url = Some (ip, rest) \<Longrightarrow> length ip < 16" "ssdp_port rest = Some (port, path) \<Longrightarrow> length port < 6"
  by (auto simp: ssdp_location_def ssdp_ip_def ssdp_port_def bind_eq_Some_conv dest: str_field_length)

lemma parse_ssdp_parsed: "parse_ssdp x u = Some (r, u') \<Longrightarrow> parsed u u'"
proof -
  assume a: "parse_ssdp x u = Some (r, u')"
  obtain q u0 where p: "parse_http x u = Some (q, u0)"
    using a by (auto simp: parse_ssdp_def bind_eq_Some_conv)
  have a2: "(if q \<noteq> UPNP_OK then (UPNP_ERR_PARSE, u0)
       else case ssdp_location x of None \<Rightarrow> (UPNP_ERR_PARSE, u0)
            | Some url \<Rightarrow>
              let u1 = u0\<lparr>descURL := url\<rparr> in
              (case ssdp_ip url of None \<Rightarrow> (UPNP_ERR_PARSE, u1)
               | Some (ip, rest) \<Rightarrow>
                 let u2 = u1\<lparr>descIP := ip\<rparr> in
                 (case ssdp_port rest of None \<Rightarrow> (UPNP_ERR_PARSE, u2)
                  | Some (port, path) \<Rightarrow>
                    let u3 = u2\<lparr>descPORT := port\<rparr> in
                    if 64 \<le> length path then (UPNP_ERR_PARSE, u3)
                    else (UPNP_OK, u3\<lparr>descLOCATION := path\<rparr>)))) = (r, u')"
    using a by (simp add: parse_ssdp_def p)
  have "parsed u0 u'"
  proof (cases "q = UPNP_OK \<and> ssdp_location x \<noteq> None")
    case False
    with a2 have "u' = u0" by (auto split: if_splits)
    then show ?thesis by (simp add: parsed_refl)
  next
    case True
    then obtain url where url: "ssdp_location x = Some url" and q: "q = UPNP_OK" by blast
    note a3 = a2 [unfolded url q option.case Let_def, simplified]
    have l: "length url < 64" by (rule parse_ssdp_fields(1) [OF url])
    show ?thesis
    proof (cases "ssdp_ip url")
      case None
      with a3 l show ?thesis by (auto simp: parsed_def upnp_ok_def)
    next
      case (Some p)
      obtain ip rest where p: "p = (ip, rest)" by (rule prod.exhaust)
      note a4 = a3 [unfolded Some p option.case prod.case]
      have li: "length ip < 16" using parse_ssdp_fields(2) [of url ip rest] Some p by simp
      show ?thesis
      proof (cases "ssdp_port rest")
        case None
        with a4 l li show ?thesis by (auto simp: parsed_def upnp_ok_def)
      next
        case po: (Some y)
        obtain port path where y: "y = (port, path)" by (rule prod.exhaust)
        have "length port < 6" using parse_ssdp_fields(3) [of rest port path] po y by simp
        with a4 [unfolded po y option.case prod.case] l li show ?thesis
          by (auto simp: parsed_def upnp_ok_def split: if_splits)
      qed
    qed
  qed
  with parse_http_parsed [OF p] show ?thesis by (rule parsed_trans)
qed

lemma parse_description_parsed: "parse_description x u = Some (r, u') \<Longrightarrow> parsed u u'"
proof -
  assume a: "parse_description x u = Some (r, u')"
  have f: "length y < 64" if "desc_field op cl x = Some y" for op cl y
    using that by (auto simp: desc_field_def bind_eq_Some_conv dest: str_field_length)
  from a obtain q u0 where p: "parse_http x u = Some (q, u0)" and "parsed u0 u'"
    by (auto simp: parse_description_def Let_def bind_eq_Some_conv parsed_def upnp_ok_def
        dest!: f split: if_splits option.splits)
  then show ?thesis using parsed_trans [OF parse_http_parsed [OF p]] by blast
qed

lemma copy_element_parsed: "copy_element x op cl u = (b, u') \<Longrightarrow> parsed u u'"
  by (auto simp: copy_element_def parsed_def upnp_ok_def bind_eq_Some_conv dest: str_field_length split: option.splits)

lemma parse_error_parsed: "parse_error x u = (r, u') \<Longrightarrow> parsed u u'"
  by (auto simp: parse_error_def Let_def dest!: copy_element_parsed split: prod.splits if_splits
      intro: parsed_trans)

lemma parse_eventing_parsed: "parsed u (snd (upnp_parse_eventing x u))"
proof -
  have step: "parsed v (snd (print_element x op cl p))" if "parsed v (snd p)"
    for op cl and v :: "'a upnp" and p :: "bytes list \<times> 'a upnp"
    using that by (cases "copy_element x op cl (snd p)")
      (auto simp: print_element_def split_beta dest: copy_element_parsed intro: parsed_trans)
  show ?thesis unfolding upnp_parse_eventing_def by (intro step) (simp add: parsed_refl)
qed

section \<open>Sockets\<close>

context server_host
begin

lemma timeout_keeps: "inv w \<Longrightarrow> inv (upnp_set_timeout h fd ms w) \<and> fds (upnp_set_timeout h fd ms w) = fds w"
  unfolding upnp_set_timeout_def by (rule setsockopt_law)

lemma upnp_send_keeps:
  assumes "upnp_send_all h k fd buf w = Some (r, w')" and "inv w"
  shows "inv w' \<and> fds w' = fds w"
proof -
  obtain n where "turns k (stream_turn h fd buf) (0, w) = Some (r, n, w')"
    using assms(1) by (auto simp: upnp_send_all_def)
  from stream_loop_keeps [OF this assms(2)] show ?thesis .
qed

text \<open>A new socket, something done with it, and its close.\<close>

lemma closed_again:
  assumes "inv w1" and "fds w1 = insert fd F" and "fd \<notin> F" and "ops_close (h_sock h) fd w1 = Some w2"
  shows "inv w2 \<and> fds w2 = F"
proof -
  have "inv w2 \<and> fds w2 = fds w1 - {fd}"
    by (rule close_law [OF assms(1) _ assms(4)]) (simp add: assms(2))
  with assms(2,3) show ?thesis by simp
qed

lemma ssdp_keeps:
  assumes "upnp_transport_ssdp (Some h) aton ip gp lp msg n tmo w = Some (q, w')" and "inv w"
  shows "inv w' \<and> fds w' = fds w"
proof -
  obtain fd w1 where so: "ops_socket (h_sock h) 2 2 17 w = (fd, w1)" by (rule prod.exhaust)
  note S = socket_law [OF assms(2) so]
  note st = assms(1) [unfolded upnp_transport_ssdp_def option.case Let_def so prod.case]
  show ?thesis
  proof (cases "fd < 0")
    case True
    with st S show ?thesis by simp
  next
    case False
    then have S1: "inv w1" "fd \<notin> fds w" "fds w1 = insert fd (fds w)" using S by simp_all
    obtain b w2 where bi: "ops_bind (h_sock h) fd (upnp_addr (lwip_htonl 0) lp) w1 = (b, w2)" by (rule prod.exhaust)
    have S2: "inv w2" "fds w2 = insert fd (fds w)" using bind_law [OF S1(1) bi] S1(3) by simp_all
    note st2 = st [unfolded if_not_P [OF False] bi prod.case]
    show ?thesis
    proof (cases "b < 0")
      case True
      with st2 have "ops_close (h_sock h) fd w2 = Some w'" by auto
      from closed_again [OF S2 S1(2) this] show ?thesis .
    next
      case nb: False
      let ?w3 = "upnp_set_timeout h fd tmo w2"
      let ?w4 = "ops_setsockopt (h_sock h) fd IPPROTO_IP IP_MULTICAST_TTL (le32_bytes 1) ?w3"
      note s3 = timeout_keeps [OF S2(1), of fd tmo]
      note s4 = setsockopt_law [OF conjunct1 [OF s3], of fd IPPROTO_IP IP_MULTICAST_TTL "le32_bytes 1"]
      have S4: "inv ?w4" "fds ?w4 = insert fd (fds w)" using s3 s4 S2(2) by (simp_all only:)
      note st3 = st2 [unfolded if_not_P [OF nb]]
      obtain s w5 where sn: "ops_sendto (h_sock h) fd msg (upnp_addr (aton ip) gp) ?w4 = Some (s, w5)"
        using st3 by (auto split: option.splits)
      have S5: "inv w5" "fds w5 = insert fd (fds w)" using sendto_law [OF S4(1) sn] S4(2) by simp_all
      note st4 = st3 [unfolded sn option.case prod.case]
      show ?thesis
      proof (cases "s < 0")
        case True
        with st4 have "ops_close (h_sock h) fd w5 = Some w'" by auto
        from closed_again [OF S5 S1(2) this] show ?thesis .
      next
        case ns: False
        note st5 = st4 [unfolded if_not_P [OF ns]]
        obtain p w6 where rv: "ops_recvfrom (h_sock h) fd (n - 1) (Some 16) w5 = Some (p, w6)"
          using st5 by (auto split: option.splits)
        have S6: "inv w6" "fds w6 = insert fd (fds w)" using recvfrom_law [OF S5(1) rv] S5(2) by simp_all
        obtain m buf a where p: "p = (m, buf, a)" by (metis prod_cases3)
        note st6 = st5 [unfolded rv p option.case prod.case]
        obtain w7 where cl: "ops_close (h_sock h) fd w6 = Some w7" using st6 by (auto split: option.splits)
        have "w' = w7" using st6 by (simp add: cl split: if_splits)
        with closed_again [OF S6 S1(2) cl] show ?thesis by simp
      qed
    qed
  qed
qed

lemma read_turn_keeps:
  assumes "http_read_turn h fd cap s = Some (q, s')" and "inv (snd s)"
  shows "inv (snd s') \<and> fds (snd s') = fds (snd s)"
proof (cases "cap \<le> length (fst s)")
  case True
  with assms show ?thesis by (simp add: http_read_turn_def split_beta)
next
  case False
  then obtain p w1 where rv: "ops_recv (h_sock h) fd (cap - length (fst s)) (snd s) = Some (p, w1)"
    and w1: "snd s' = w1"
    using assms(1) by (auto simp: http_read_turn_def split_beta split: option.splits if_splits)
  from recv_law [OF assms(2) rv] w1 show ?thesis by simp
qed

lemma http_keeps:
  assumes "upnp_transport_http (Some h) aton k ip port req n tmo w = Some (q, w')" and "inv w"
  shows "inv w' \<and> fds w' = fds w"
proof -
  obtain fd w1 where so: "ops_socket (h_sock h) 2 1 6 w = (fd, w1)" by (rule prod.exhaust)
  note S = socket_law [OF assms(2) so]
  note st = assms(1) [unfolded upnp_transport_http_def option.case Let_def so prod.case]
  show ?thesis
  proof (cases "fd < 0")
    case True
    with st S show ?thesis by simp
  next
    case False
    then have S1: "inv w1" "fd \<notin> fds w" "fds w1 = insert fd (fds w)" using S by simp_all
    obtain c w2 where co: "ops_connect (h_sock h) fd (upnp_addr (aton ip) port) w1 = (c, w2)" by (rule prod.exhaust)
    have S2: "inv w2" "fds w2 = insert fd (fds w)" using connect_law [OF S1(1) co] S1(3) by simp_all
    note st2 = st [unfolded if_not_P [OF False] co prod.case]
    show ?thesis
    proof (cases "c < 0")
      case True
      with st2 have "ops_close (h_sock h) fd w2 = Some w'" by auto
      from closed_again [OF S2 S1(2) this] show ?thesis .
    next
      case nc: False
      let ?w3 = "upnp_set_timeout h fd tmo w2"
      note s3 = timeout_keeps [OF S2(1), of fd tmo]
      note st3 = st2 [unfolded if_not_P [OF nc]]
      obtain s w4 where sn: "upnp_send_all h k fd req ?w3 = Some (s, w4)"
        using st3 by (auto split: option.splits)
      have S4: "inv w4" "fds w4 = insert fd (fds w)"
        using upnp_send_keeps [OF sn conjunct1 [OF s3]] s3 S2(2) by simp_all
      note st4 = st3 [unfolded sn option.case prod.case]
      show ?thesis
      proof (cases "s < 0")
        case True
        with st4 have "ops_close (h_sock h) fd w4 = Some w'" by auto
        from closed_again [OF S4 S1(2) this] show ?thesis .
      next
        case ns: False
        note st5 = st4 [unfolded if_not_P [OF ns]]
        obtain x got w5 where rd: "turns k (http_read_turn h fd (n - 1)) ([], w4) = Some (x, got, w5)"
          using st5 by (auto split: option.splits)
        have S5: "inv w5" "fds w5 = insert fd (fds w)"
          using turns_kept [OF rd, of snd, OF _ read_turn_keeps] S4 by simp_all
        from st5 rd have "ops_close (h_sock h) fd w5 = Some w'" by auto
        from closed_again [OF S5 S1(2) this] show ?thesis .
      qed
    qed
  qed
qed

lemma discover_keeps:
  assumes "upnp_discover (Some h) aton u = Some (r, u')" and "inv (u_net u)"
  shows "inv (u_net u') \<and> fds (u_net u') = fds (u_net u)"
proof -
  obtain p w where t: "upnp_transport_ssdp (Some h) aton SSDP_GROUP_IP SSDP_GROUP_PORT SSDP_LOCAL_PORT SSDP
       RECV_BUFFER_SIZE SSDP_TIMEOUT_MS (u_net u) = Some (p, w)" and "u_net u' = w"
    using assms(1) by (auto simp: upnp_discover_def Let_def bind_eq_Some_conv parsed_def upnp_codes split: if_splits
        dest!: parse_ssdp_parsed)
  with ssdp_keeps [OF t assms(2)] show ?thesis by simp
qed

text \<open>The steps of the session.\<close>

lemma exchange_keeps:
  assumes "upnp_exchange (Some h) aton k u = Some (n, u')" and "inv (u_net u)"
  shows "inv (u_net u') \<and> fds (u_net u') = fds (u_net u)"
proof -
  obtain p w where t: "upnp_transport_http (Some h) aton k (descIP u) (upnp_igd_port u) (u_send_buffer u)
       RECV_BUFFER_SIZE HTTP_TIMEOUT_MS (u_net u) = Some (p, w)" and "u_net u' = w"
    using assms(1) by (auto simp: upnp_exchange_def bind_eq_Some_conv)
  with http_keeps [OF t assms(2)] show ?thesis by simp
qed

lemma description_keeps:
  assumes "upnp_get_description (Some h) aton k u = Some (r, u')" and "inv (u_net u)"
  shows "inv (u_net u') \<and> fds (u_net u') = fds (u_net u)"
proof (cases "u_step u < UPNP_STEP_DISCOVERED")
  case True
  with assms show ?thesis by (simp add: upnp_get_description_def)
next
  case False
  then obtain s n u1 where e: "upnp_exchange (Some h) aton k (u\<lparr>u_send_buffer := s\<rparr>) = Some (n, u1)"
    and "u_net u' = u_net u1"
    using assms(1) by (auto simp: upnp_get_description_def bind_eq_Some_conv parsed_def split: if_splits
        dest!: parse_description_parsed)
  with exchange_keeps [OF e] assms(2) show ?thesis by simp
qed

lemma subscribe_keeps:
  assumes "upnp_subscribe (Some h) aton k ip p u = Some (r, u')" and "inv (u_net u)"
  shows "inv (u_net u') \<and> fds (u_net u') = fds (u_net u)"
proof (cases "u_step u < UPNP_STEP_DESCRIBED")
  case True
  with assms show ?thesis by (simp add: upnp_subscribe_def)
next
  case False
  then obtain s n u1 where e: "upnp_exchange (Some h) aton k (u\<lparr>u_send_buffer := s\<rparr>) = Some (n, u1)"
    and "u_net u' = u_net u1"
    using assms(1) by (auto simp: upnp_subscribe_def bind_eq_Some_conv parsed_def split: if_splits
        dest!: parse_http_parsed)
  with exchange_keeps [OF e] assms(2) show ?thesis by simp
qed

lemma port_action_keeps:
  assumes "port_action (Some h) aton k a ex u = Some (r, u')" and "inv (u_net u)"
  shows "inv (u_net u') \<and> fds (u_net u') = fds (u_net u)"
proof (cases "u_step u < UPNP_STEP_DESCRIBED")
  case True
  with assms show ?thesis by (simp add: port_action_def)
next
  case False
  let ?hdr = "upnp_xml_post_header SEND_BUFFER_SIZE (length (u_content u)) a (controlURL u) (descIP u) (descPORT u)"
  note st = assms(1) [unfolded port_action_def if_not_P [OF False] Let_def]
  show ?thesis
  proof (cases "SEND_BUFFER_SIZE \<le> length ?hdr + length (u_content u)")
    case True
    with st assms(2) show ?thesis by auto
  next
    case fit: False
    obtain n u1 where e: "upnp_exchange (Some h) aton k (u\<lparr>u_send_buffer := ?hdr @ u_content u\<rparr>) = Some (n, u1)"
      using st by (auto simp: fit bind_eq_Some_conv)
    have "u_net u' = u_net u1"
    proof (cases "n \<le> 0")
      case True
      with st e fit show ?thesis by simp
    next
      case np: False
      then obtain q u2 where p: "parse_http (u_recv_buffer u1) u1 = Some (q, u2)"
        and r: "(r, u') = (if strstr ex (u_recv_buffer u2) = None then parse_error (u_recv_buffer u2) u2 else (UPNP_OK, u2))"
        using st by (auto simp: fit e bind_eq_Some_conv)
      have "u_net u' = u_net u2"
        using r parse_error_parsed [of "u_recv_buffer u2" u2 r u'] by (auto simp: parsed_def split: if_splits)
      with parse_http_parsed [OF p] show ?thesis by (simp add: parsed_def)
    qed
    with exchange_keeps [OF e] assms(2) show ?thesis by simp
  qed
qed

lemma discover_loop_keeps:
  "discover_loop h aton i ret u = Some (r, u') \<Longrightarrow> inv (u_net u) \<Longrightarrow>
     inv (u_net u') \<and> fds (u_net u') = fds (u_net u)"
proof (induction i arbitrary: ret u)
  case 0
  then show ?case by simp
next
  case (Suc i)
  show ?case
  proof (cases "ret = UPNP_OK")
    case True
    with Suc.prems show ?thesis by simp
  next
    case False
    then obtain q u1 where d: "upnp_discover (Some h) aton u = Some (q, u1)"
      and l: "discover_loop h aton i q u1 = Some (r, u')"
      using Suc.prems(1) by (auto split: option.splits)
    note D = discover_keeps [OF d Suc.prems(2)]
    from Suc.IH [OF l conjunct1 [OF D]] D show ?thesis by simp
  qed
qed

lemma transport_listen_effect:
  assumes "upnp_transport_listen (Some h) port w = Some (r, w')" and "inv w"
  shows "inv w' \<and> (if 0 \<le> r then r \<notin> fds w \<and> fds w' = insert r (fds w) else fds w' = fds w)"
proof -
  obtain fd w1 where so: "ops_socket (h_sock h) 2 1 6 w = (fd, w1)" by (rule prod.exhaust)
  note S = socket_law [OF assms(2) so]
  note st = assms(1) [unfolded upnp_transport_listen_def option.case Let_def so prod.case]
  show ?thesis
  proof (cases "fd < 0")
    case True
    with st S show ?thesis by simp
  next
    case False
    then have S1: "inv w1" "fd \<notin> fds w" "fds w1 = insert fd (fds w)" using S by simp_all
    obtain b w2 where bi: "ops_bind (h_sock h) fd (upnp_addr (lwip_htonl 0) port) w1 = (b, w2)" by (rule prod.exhaust)
    have S2: "inv w2" "fds w2 = insert fd (fds w)" using bind_law [OF S1(1) bi] S1(3) by simp_all
    obtain l w3 where li: "(if b < 0 then (-1, w2) else ops_listen (h_sock h) fd 1 w2) = (l, w3)" by (rule prod.exhaust)
    have S3: "inv w3" "fds w3 = insert fd (fds w)"
      using li S2 listen_law [OF S2(1), of fd 1 l w3] by (auto split: if_splits)
    note st2 = st [unfolded if_not_P [OF False] bi prod.case li]
    show ?thesis
    proof (cases "b < 0 \<or> l < 0")
      case True
      with st2 have "r = -1" "ops_close (h_sock h) fd w3 = Some w'" by auto
      with closed_again [OF S3 S1(2)] show ?thesis by simp
    next
      case bl: False
      with st2 have "r = fd" "w' = w3" by auto
      with S3 S1(2) False show ?thesis by simp
    qed
  qed
qed

lemma transport_accept_effect:
  assumes "upnp_transport_accept h lfd tmo w = Some (r, w')" and "inv w"
  shows "inv w' \<and> (if 0 \<le> r then r \<notin> fds w \<and> fds w' = insert r (fds w) else fds w' = fds w)"
proof -
  note T = timeout_keeps [OF assms(2), of lfd tmo]
  obtain fd a where ac: "ops_accept (h_sock h) lfd (upnp_set_timeout h lfd tmo w) = Some ((fd, a), w')"
    and r: "r = (if fd < 0 then -1 else fd)"
    using assms(1) by (auto simp: upnp_transport_accept_def)
  from accept_law [OF conjunct1 [OF T] ac] T r show ?thesis by (cases "fd < 0") simp_all
qed

lemma serve_event_keeps:
  assumes "serve_event h k fd u = Some u'" and "inv (u_net u)" and "0 \<le> fd"
    and "fds (u_net u) = insert fd F" and "fd \<notin> F"
  shows "inv (u_net u') \<and> fds (u_net u') = F"
proof -
  obtain n buf w1 where rv: "upnp_transport_recv h fd EVENT_BUF_SIZE 1000 (u_net u) = Some ((n, buf), w1)"
    using assms(1) by (auto simp: serve_event_def bind_eq_Some_conv)
  obtain r w2 where sn: "upnp_send_all h k fd HTTP_OK w1 = Some (r, w2)"
    using assms(1) by (auto simp: serve_event_def bind_eq_Some_conv rv)
  let ?u2 = "if 0 < n then snd (upnp_parse_eventing (cstr buf) (u\<lparr>u_net := w2\<rparr>)) else u\<lparr>u_net := w2\<rparr>"
  have n2: "u_net ?u2 = w2"
    using parse_eventing_parsed [of "u\<lparr>u_net := w2\<rparr>" "cstr buf"] by (simp add: parsed_def)
  obtain w3 where cl: "ops_close (h_sock h) fd w2 = Some w3" and u': "u_net u' = w3"
    using assms(1,3) n2 by (auto simp: serve_event_def rv sn bind_eq_Some_conv upnp_transport_close_def Let_def)
  note T = timeout_keeps [OF assms(2), of fd 1000]
  have "inv w1 \<and> fds w1 = fds (u_net u)"
  proof -
    obtain p where "ops_recv (h_sock h) fd (EVENT_BUF_SIZE - 1) (upnp_set_timeout h fd 1000 (u_net u)) = Some (p, w1)"
      using rv by (auto simp: upnp_transport_recv_def split: option.splits if_splits)
    from recv_law [OF conjunct1 [OF T] this] T show ?thesis by simp
  qed
  then have "inv w2" "fds w2 = insert fd F" using upnp_send_keeps [OF sn] assms(4) by simp_all
  from closed_again [OF this assms(5) cl] u' show ?thesis by simp
qed

lemma events_loop_keeps:
  "events_loop h k lfd n u = Some u' \<Longrightarrow> inv (u_net u) \<Longrightarrow> inv (u_net u') \<and> fds (u_net u') = fds (u_net u)"
proof (induction n arbitrary: u)
  case 0
  then show ?case by simp
next
  case (Suc n)
  obtain fd w1 where ac: "upnp_transport_accept h lfd 1000 (u_net u) = Some (fd, w1)"
    using Suc.prems(1) by (auto split: option.splits)
  note A = transport_accept_effect [OF ac Suc.prems(2)]
  show ?case
  proof (cases "fd < 0")
    case True
    with Suc.prems(1) ac have "events_loop h k lfd n (u\<lparr>u_net := w1\<rparr>) = Some u'" by simp
    from Suc.IH [OF this] A True show ?thesis by simp
  next
    case False
    then obtain u2 where sv: "serve_event h k fd (u\<lparr>u_net := w1\<rparr>) = Some u2"
      and l: "events_loop h k lfd n u2 = Some u'"
      using Suc.prems(1) ac by (auto split: option.splits)
    have "inv (u_net u2) \<and> fds (u_net u2) = fds (u_net u)"
      by (rule serve_event_keeps [OF sv]) (use A False in simp_all)
    with Suc.IH [OF l] show ?thesis by simp
  qed
qed

lemma listen_for_events_keeps:
  assumes "listen_for_events h k alloc n u = Some u'" and "inv (u_net u)"
  shows "inv (u_net u') \<and> fds (u_net u') = fds (u_net u)"
proof -
  obtain lfd w1 where li: "upnp_transport_listen (Some h) EVENT_PORT (u_net u) = Some (lfd, w1)"
    using assms(1) by (auto simp: listen_for_events_def bind_eq_Some_conv)
  note L = transport_listen_effect [OF li assms(2)]
  show ?thesis
  proof (cases "lfd < 0")
    case True
    with assms(1) li have "u' = u\<lparr>u_net := w1\<rparr>" by (simp add: listen_for_events_def Let_def)
    have "inv w1" "fds w1 = fds (u_net u)" using L True by simp_all
    then show ?thesis unfolding \<open>u' = u\<lparr>u_net := w1\<rparr>\<close> by simp
  next
    case False
    then obtain u2 w3 where ev: "(if alloc then events_loop h k lfd n (u\<lparr>u_net := w1\<rparr>) else Some (u\<lparr>u_net := w1\<rparr>)) = Some u2"
      and cl: "ops_close (h_sock h) lfd (u_net u2) = Some w3" and u': "u' = u2\<lparr>u_net := w3\<rparr>"
      using assms(1) li by (auto simp: listen_for_events_def Let_def bind_eq_Some_conv upnp_transport_close_def split: if_splits)
    have L1: "inv w1" "lfd \<notin> fds (u_net u)" "fds w1 = insert lfd (fds (u_net u))" using L False by simp_all
    have "inv (u_net u2)" "fds (u_net u2) = insert lfd (fds (u_net u))"
    proof -
      have "inv (u_net u2) \<and> fds (u_net u2) = fds w1"
      proof (cases alloc)
        case True
        with ev have "events_loop h k lfd n (u\<lparr>u_net := w1\<rparr>) = Some u2" by simp
        from events_loop_keeps [OF this] L1(1) show ?thesis by simp
      next
        case False
        with ev have "u_net u2 = w1" by auto
        with L1(1) show ?thesis by simp
      qed
      with L1(3) show "inv (u_net u2)" "fds (u_net u2) = insert lfd (fds (u_net u))" by simp_all
    qed
    from closed_again [OF this L1(2) cl] u' show ?thesis by simp
  qed
qed

lemma eventing_keeps:
  assumes "upnp_eventing cfg c aton k alloc u = Some u'" and "inv (u_net u)" and "c_host c = h"
    and ip: "\<And>w. inv w \<Longrightarrow> inv (snd (c_local_ip c w)) \<and> fds (snd (c_local_ip c w)) = fds w"
  shows "inv (u_net u') \<and> fds (u_net u') = fds (u_net u)"
proof (cases "UPNP_EVENT_LISTEN_SEC cfg = 0")
  case True
  with assms(1,2) show ?thesis by (simp add: upnp_eventing_def)
next
  case False
  obtain a w1 where lp: "c_local_ip c (u_net u) = (a, w1)" by (rule prod.exhaust)
  have I1: "inv w1" "fds w1 = fds (u_net u)" using ip [OF assms(2)] lp by simp_all
  note st = assms(1) [unfolded upnp_eventing_def if_not_P [OF False] Let_def lp prod.case assms(3)]
  obtain r u1 where su: "upnp_subscribe (Some h) aton k a EVENT_PORT (u\<lparr>u_net := w1\<rparr>) = Some (r, u1)"
    using st by (auto split: option.splits)
  have S: "inv (u_net u1)" "fds (u_net u1) = fds (u_net u)" using subscribe_keeps [OF su] I1 by simp_all
  show ?thesis
  proof (cases "r = UPNP_OK")
    case True
    with st su have "listen_for_events h k alloc (UPNP_EVENT_LISTEN_SEC cfg) u1 = Some u'" by simp
    from listen_for_events_keeps [OF this S(1)] S(2) show ?thesis by simp
  next
    case False
    with st su S show ?thesis by simp
  qed
qed

lemma mapping_keeps:
  assumes "upnp_mapping cfg c aton k u = Some (r, u')" and "inv (u_net u)" and "c_host c = h"
    and ip: "\<And>w. inv w \<Longrightarrow> inv (snd (c_local_ip c w)) \<and> fds (snd (c_local_ip c w)) = fds w"
  shows "inv (u_net u') \<and> fds (u_net u') = fds (u_net u)"
proof -
  obtain a w1 where lp: "(if UPNP_MAP_INT_IP cfg \<noteq> [] then (UPNP_MAP_INT_IP cfg, u_net u)
      else c_local_ip c (u_net u)) = (a, w1)" by (rule prod.exhaust)
  have I1: "inv w1" "fds w1 = fds (u_net u)"
    using ip [OF assms(2)] assms(2) lp by (cases "UPNP_MAP_INT_IP cfg = []"; simp)+
  note st = assms(1) [unfolded upnp_mapping_def lp Let_def prod.case assms(3)]
  obtain q u1 where ad: "upnp_add_port (Some h) aton k (UPNP_MAP_PROTOCOL cfg) (UPNP_MAP_EXT_PORT cfg) a
      (UPNP_MAP_INT_PORT cfg) (UPNP_MAP_DESCRIPTION cfg) (u\<lparr>u_net := w1\<rparr>) = Some (q, u1)"
    using st by (auto simp: bind_eq_Some_conv)
  have A: "inv (u_net u1)" "fds (u_net u1) = fds (u_net u)"
    using port_action_keeps [OF ad [unfolded upnp_add_port_def]] I1 by simp_all
  show ?thesis
  proof (cases "q = UPNP_OK \<and> UPNP_DELETE_AFTER_ADD cfg")
    case True
    with st ad have "upnp_delete_port (Some h) aton k (UPNP_MAP_PROTOCOL cfg) (UPNP_MAP_EXT_PORT cfg) u1 = Some (r, u')"
      by simp
    from port_action_keeps [OF this [unfolded upnp_delete_port_def]] A show ?thesis by simp
  next
    case False
    with st ad A show ?thesis by auto
  qed
qed

lemma upnp_task_keeps:
  assumes "upnp_client_task cfg c aton k alloc u = Some (r, u')" and "inv (u_net u)" and "c_host c = h"
    and up: "\<And>w. inv w \<Longrightarrow> inv (snd (c_is_up c w)) \<and> fds (snd (c_is_up c w)) = fds w"
    and ip: "\<And>w. inv w \<Longrightarrow> inv (snd (c_local_ip c w)) \<and> fds (snd (c_local_ip c w)) = fds w"
  shows "inv (u_net u') \<and> fds (u_net u') = fds (u_net u)"
proof -
  obtain x w1 where lk: "turns k (iface_turn h (c_is_up c)) (u_net u) = Some (x, w1)"
    using assms(1,3) by (auto simp: upnp_client_task_def bind_eq_Some_conv)
  note K1 = iface_loop_keeps [OF lk assms(2) up]
  obtain q u1 where dl: "discover_loop h aton DISCOVER_ATTEMPTS UPNP_ERR_TIMEOUT (u\<lparr>u_net := w1\<rparr>) = Some (q, u1)"
    using assms(1,3) by (auto simp: upnp_client_task_def lk bind_eq_Some_conv)
  have K2: "inv (u_net u1)" "fds (u_net u1) = fds (u_net u)"
    using discover_loop_keeps [OF dl] K1 by simp_all
  note st = assms(1) [unfolded upnp_client_task_def assms(3) lk Option.bind.bind_lunit prod.case dl]
  show ?thesis
  proof (cases "q = UPNP_OK")
    case False
    with st K2 show ?thesis by simp
  next
    case True
    then obtain q2 u2 where de: "upnp_get_description (Some h) aton k u1 = Some (q2, u2)"
      using st by (auto simp: bind_eq_Some_conv)
    have K3: "inv (u_net u2)" "fds (u_net u2) = fds (u_net u)"
      using description_keeps [OF de K2(1)] K2(2) by simp_all
    show ?thesis
    proof (cases "q2 = UPNP_OK")
      case False
      with st True de K3 show ?thesis by simp
    next
      case ok: True
      obtain u3 where ev: "upnp_eventing cfg c aton k alloc u2 = Some u3"
        and ma: "upnp_mapping cfg c aton k u3 = Some (r, u')"
        using st True de ok by (auto simp: bind_eq_Some_conv)
      have K4: "inv (u_net u3) \<and> fds (u_net u3) = fds (u_net u)"
        using eventing_keeps [OF ev K3(1) assms(3) ip] K3(2) by simp
      with mapping_keeps [OF ma _ assms(3) ip] show ?thesis by simp
    qed
  qed
qed

end

section \<open>Requests\<close>

text \<open>What is left of a text in a buffer with room for \<open>m\<close> bytes and the NUL.\<close>

definition cut :: "nat \<Rightarrow> bytes \<Rightarrow> bytes" where
  "cut m d = take m d"

lemma xml_append_cut: "xml_append (Suc m) s (cut m d) = cut m (d @ s)"
  by (cases "length d < m") (simp_all add: xml_append_def cut_def Let_def min_def)

lemma xml_appends_cut: "xml_appends (Suc m) ps (cut m d) = cut m (d @ concat ps)"
  by (induction ps arbitrary: d) (simp_all add: xml_appends_def xml_append_cut)

lemma xml_appends_Nil: "xml_appends (Suc m) ps [] = cut m (concat ps)"
  using xml_appends_cut [of m ps "[]"] by (simp add: cut_def)

lemma append_host_cut:
  "append_host (Suc m) ip port (cut m d) = cut m (d @ ascii ''Host: '' @ ip @ ascii '':'' @ port)"
  by (simp add: append_host_def xml_appends_cut)

lemma append_uint_cut: "append_uint (Suc m) v (cut m d) = cut m (d @ udec v)"
  by (simp add: append_uint_def xml_append_cut)

lemma cut_id: "length d \<le> m \<Longrightarrow> cut m d = d"
  by (simp add: cut_def)

lemmas builder_cuts = Let_def xml_appends_Nil xml_appends_cut append_host_cut append_uint_cut

text \<open>The header of a control action, in full.\<close>

definition post_text :: "nat \<Rightarrow> upnp_action_t \<Rightarrow> bytes \<Rightarrow> bytes \<Rightarrow> bytes \<Rightarrow> bytes" where
  "post_text n action url ip port =
     ascii ''POST '' @ url @ ascii '' HTTP/1.1'' @ crlf @
     ascii ''Content-Type: text/xml; charset=\"utf-8\"'' @ crlf @
     ascii ''SOAPAction: \"urn:schemas-upnp-org:service:WANIPConnection:1#'' @
     (if action = UPNP_ACTION_ADD_PORT then ascii ''AddPortMapping\"'' else ascii ''DeletePortMapping\"'') @ crlf @
     ascii ''User-Agent: Mozilla/4.0 (compatible; UPnP/1.0; Windows NT/5.1)'' @ crlf @
     ascii ''Host: '' @ ip @ ascii '':'' @ port @ crlf @
     ascii ''Content-Length: '' @ udec n @ crlf @
     ascii ''Connection: close'' @ crlf @ ascii ''Cache-Control: no-cache'' @ crlf @ ascii ''Pragma: no-cache'' @ crlf @ crlf"

lemma post_header_cut: "upnp_xml_post_header (Suc m) n a url ip port = cut m (post_text n a url ip port)"
  by (simp add: upnp_xml_post_header_def post_text_def builder_cuts)

lemma crlf_length [simp]: "length crlf = 2"
  by (simp add: crlf_def)

lemma post_text_length:
  assumes "length url < 64" and "length ip < 16" and "length port < 6" and "n < 2048"
  shows "length (post_text n a url ip port) < 1024"
proof -
  have "length (udec n) \<le> Suc 3" by (rule udec_length) (use assms(4) in simp)
  with assms(1-3) show ?thesis by (simp add: post_text_def)
qed

section \<open>Numbers\<close>

lemma C2D_digit: "d < 10 \<Longrightarrow> C2D (48 + of_nat d) = of_nat d"
proof -
  assume "d < 10"
  then have "d = 0 \<or> d = 1 \<or> d = 2 \<or> d = 3 \<or> d = 4 \<or> d = 5 \<or> d = 6 \<or> d = 7 \<or> d = 8 \<or> d = 9" by presburger
  then show ?thesis by (elim disjE) (simp_all add: C2D_def)
qed

lemma foldl_udec:
  "foldl (\<lambda>num c. num * ucast (10 :: u16) + ucast (C2D c)) (0 :: u32) (udec n) = of_nat n"
proof (induction n rule: less_induct)
  case (less n)
  have d: "ucast (C2D (48 + of_nat (n mod 10))) = (of_nat (n mod 10) :: u32)"
    by (simp add: C2D_digit unsigned_of_nat take_bit_nat_eq_self)
  show ?case
  proof (cases "n < 10")
    case True
    with d show ?thesis by (simp add: udec.simps)
  next
    case False
    have "foldl (\<lambda>num c. num * ucast (10 :: u16) + ucast (C2D c)) (0 :: u32) (udec n) =
        of_nat (n div 10) * 10 + of_nat (n mod 10)"
      using less.IH [of "n div 10"] False d by (subst udec.simps) simp
    also have "\<dots> = of_nat (n div 10 * 10 + n mod 10)" by (simp only: of_nat_add of_nat_mult of_nat_numeral)
    also have "n div 10 * 10 + n mod 10 = n" by presburger
    finally show ?thesis .
  qed
qed

lemma ATOI_udec: "ATOI (udec (unat p)) 10 = p"
  unfolding ATOI_def foldl_udec by (rule bit_eqI) (auto simp: bit_simps dest: bit_imp_le_length)

lemma udec_digits: "b \<in> set (udec n) \<Longrightarrow> 48 \<le> b \<and> b \<le> 57"
proof (induction n arbitrary: b rule: less_induct)
  case (less n)
  have "n mod 10 = 0 \<or> n mod 10 = 1 \<or> n mod 10 = 2 \<or> n mod 10 = 3 \<or> n mod 10 = 4 \<or> n mod 10 = 5 \<or>
      n mod 10 = 6 \<or> n mod 10 = 7 \<or> n mod 10 = 8 \<or> n mod 10 = 9" by presburger
  then have d: "(48 :: u8) \<le> 48 + of_nat (n mod 10) \<and> (48 :: u8) + of_nat (n mod 10) \<le> 57"
    by (elim disjE) simp_all
  from less.prems have "b = 48 + of_nat (n mod 10) \<or> (\<not> n < 10 \<and> b \<in> set (udec (n div 10)))"
    by (subst (asm) udec.simps) (auto split: if_splits)
  with d less.IH [of "n div 10" b] show ?case by auto
qed

section \<open>Replies\<close>

lemma strstr_ext: "strstr pat (p @ pat) = Some pat \<Longrightarrow> strstr pat (p @ pat @ q) = Some (pat @ q)"
proof (induction p)
  case Nil
  then show ?case by (simp add: strstr_here)
next
  case (Cons x p)
  show ?case
  proof (cases "take (length pat) ((x # p) @ pat) = pat")
    case True
    with Cons.prems have "(x # p) @ pat = pat" by simp
    then show ?thesis by (metis append_Cons append_is_Nil_conv append_self_conv2 list.distinct(1))
  next
    case False
    moreover have "take (length pat) ((x # p) @ pat @ q) = take (length pat) ((x # p) @ pat)"
      by (simp flip: append_assoc append_Cons del: append_Cons)
    ultimately have "take (length pat) ((x # p) @ pat @ q) \<noteq> pat" by simp
    moreover from Cons.prems False have "strstr pat (p @ pat) = Some pat" by simp
    ultimately show ?thesis using Cons.IH by simp
  qed
qed

lemma strstr_crlf: "13 \<notin> set p \<Longrightarrow> strstr crlf (p @ crlf @ q) = Some (crlf @ q)"
  by (induction p) (auto simp: crlf_def)

lemma ascii_single: "ascii '':'' = [58]" "ascii ''/'' = [47]"
  by (simp_all add: ascii_def of_char_def)

text \<open>Strings of this length are compared byte by byte.\<close>

lemma no_200_in: "strstr (ascii ''200 OK'') x \<noteq> None \<longleftrightarrow> (\<exists>p q. x = p @ ascii ''200 OK'' @ q)"
  unfolding strstr_None by simp

lemma str_field_here: "length a < cap \<Longrightarrow> length s = skip \<Longrightarrow> str_field (s @ a @ e) skip e cap = Some a"
  by (simp add: str_field_def Let_def)

text \<open>An answer to the search that names an IGD, with any headers around it.\<close>

definition igd_url :: "bytes \<Rightarrow> u16 \<Rightarrow> bytes \<Rightarrow> bytes" where
  "igd_url ip port path = ascii ''http://'' @ ip @ ascii '':'' @ udec (unat port) @ path"

lemma ssdp_location_reply:
  assumes "strstr (ascii ''LOCATION: '') (pre @ ascii ''LOCATION: '') = Some (ascii ''LOCATION: '')"
    and "13 \<notin> set url" and "length url < 64"
  shows "ssdp_location (pre @ ascii ''LOCATION: '' @ url @ crlf @ post) = Some url"
proof -
  let ?L = "ascii ''LOCATION: ''"
  have "13 \<notin> set ?L" by (simp add: ascii_def of_char_def)
  then have "strstr crlf ((?L @ url) @ crlf @ post) = Some (crlf @ post)" using assms(2) by (intro strstr_crlf) simp
  with strstr_ext [OF assms(1), of "url @ crlf @ post"] str_field_here [OF assms(3), of ?L "length ?L" "crlf @ post"]
  show ?thesis by (simp add: ssdp_location_def)
qed

lemma ssdp_ip_url:
  assumes "58 \<notin> set ip" and "length ip < 16"
  shows "ssdp_ip (ascii ''http://'' @ ip @ ascii '':'' @ r) = Some (ip, r)"
proof -
  have "strstr (ascii ''http://'') (ascii ''http://'' @ ip @ ascii '':'' @ r) = Some (ascii ''http://'' @ ip @ ascii '':'' @ r)"
    by (rule strstr_here) simp
  moreover have "strstr (ascii '':'') (ip @ ascii '':'' @ r) = Some (ascii '':'' @ r)"
    using assms(1) by (simp add: ascii_single strstr_single)
  moreover have "str_field (ascii ''http://'' @ ip @ ascii '':'' @ r) 7 (ascii '':'' @ r) 16 = Some ip"
    using assms(2) by (intro str_field_here) simp_all
  moreover have "drop 7 (ascii ''http://'' @ ip @ ascii '':'' @ r) = ip @ ascii '':'' @ r" by simp
  ultimately show ?thesis by (simp add: ssdp_ip_def ascii_single)
qed

lemma ssdp_port_url:
  assumes "path \<noteq> []" and "hd path = 47" and "47 \<notin> set port" and "length port < 6"
  shows "ssdp_port (port @ path) = Some (port, path)"
proof -
  have "strstr (ascii ''/'') (port @ path) = Some path"
    using assms(1-3) by (auto simp: ascii_single strstr_single)
  moreover have "str_field (port @ path) 0 path 6 = Some port"
    using str_field_here [OF assms(4), of "[]" 0 path] by simp
  ultimately show ?thesis by (simp add: ssdp_port_def)
qed

section \<open>The properties\<close>

text \<open>C31. A search that is answered. When the answer has a status line with 200 OK and a header
  LOCATION: http://ip:port/path, with other headers before it and anything behind it, the parser takes
  from it exactly this address, this port, as a number, and this path, and leaves the rest of the state
  alone. Printing the port in decimal and reading it back gives every port.\<close>

theorem upnp_finds_igd:
  assumes "strstr (ascii ''200 OK'') pre \<noteq> None"
    and "strstr (ascii ''LOCATION: '') (pre @ ascii ''LOCATION: '') = Some (ascii ''LOCATION: '')"
    and "58 \<notin> set ip" and "length ip < 16" and "path \<noteq> []" and "hd path = 47"
    and "13 \<notin> set (ip @ path)" and "length (igd_url ip port path) < 64"
  shows "\<exists>u'. parse_ssdp (pre @ ascii ''LOCATION: '' @ igd_url ip port path @ crlf @ post) u = Some (UPNP_OK, u') \<and>
    u' = u\<lparr>descURL := igd_url ip port path, descIP := ip, descPORT := udec (unat port), descLOCATION := path\<rparr> \<and>
    upnp_igd_port u' = port"
proof -
  let ?x = "pre @ ascii ''LOCATION: '' @ igd_url ip port path @ crlf @ post"
  have d: "48 \<le> b \<and> b \<le> 57" if "b \<in> set (udec (unat port))" for b using udec_digits [OF that] .
  have nd: "13 \<notin> set (udec (unat port))" "47 \<notin> set (udec (unat port))" using d by force+
  have "13 \<notin> set (igd_url ip port path)"
    using assms(7) nd(1) by (simp add: igd_url_def ascii_def of_char_def)
  from ssdp_location_reply [OF assms(2) this assms(8)]
  have l: "ssdp_location ?x = Some (igd_url ip port path)" .
  have i: "ssdp_ip (igd_url ip port path) = Some (ip, udec (unat port) @ path)"
    unfolding igd_url_def by (rule ssdp_ip_url [OF assms(3,4)])
  have "unat port < 10 ^ Suc 4" using unsigned_less [of port, where ?'a = nat] by simp
  then have "length (udec (unat port)) < 6" using udec_length [of "unat port" 4] by simp
  from ssdp_port_url [OF assms(5,6) nd(2) this]
  have p: "ssdp_port (udec (unat port) @ path) = Some (udec (unat port), path)" .
  obtain a b where "pre = a @ ascii ''200 OK'' @ b" using assms(1) no_200_in by blast
  then have "strstr (ascii ''200 OK'') ?x \<noteq> None" unfolding no_200_in by (metis append.assoc)
  then have h: "parse_http ?x u = Some (UPNP_OK, u)" by (simp add: parse_http_def)
  have "length path < 64" using assms(8) by (simp add: igd_url_def)
  with h l i p show ?thesis by (simp add: parse_ssdp_def Let_def upnp_igd_port_def ATOI_udec)
qed

theorem upnp_finds_igd_witness:
  "\<exists>u'. parse_ssdp (ascii ''HTTP/1.1 200 OK'' @ crlf @ ascii ''LOCATION: '' @
       igd_url (ascii ''192.168.0.1'') 3121 (ascii ''/gatedesc.xml'') @ crlf @ crlf) (upnp_start ()) = Some (UPNP_OK, u') \<and>
     upnp_igd_port u' = 3121"
proof -
  have 1: "strstr (ascii ''200 OK'') (ascii ''HTTP/1.1 200 OK'' @ crlf) \<noteq> None"
    "strstr (ascii ''LOCATION: '') ((ascii ''HTTP/1.1 200 OK'' @ crlf) @ ascii ''LOCATION: '') = Some (ascii ''LOCATION: '')"
    by code_simp+
  have 2: "58 \<notin> set (ascii ''192.168.0.1'')" "length (ascii ''192.168.0.1'') < 16" "ascii ''/gatedesc.xml'' \<noteq> []"
    "hd (ascii ''/gatedesc.xml'') = 47" "13 \<notin> set (ascii ''192.168.0.1'' @ ascii ''/gatedesc.xml'')"
    by (simp_all add: ascii_def of_char_def)
  have 3: "length (igd_url (ascii ''192.168.0.1'') 3121 (ascii ''/gatedesc.xml'')) < 64"
    by (simp add: igd_url_def udec_code)
  from upnp_finds_igd [OF 1 2 3, of crlf "upnp_start ()"] show ?thesis by auto
qed

lemma crlf_parts: "crlf \<noteq> []" "butlast crlf = [13]"
  by (simp_all add: crlf_def)


text \<open>A vtable over which everything works and one answer comes.\<close>

definition reply_host :: "bytes \<Rightarrow> unit host" where
  "reply_host r = \<lparr>h_sock = \<lparr>ops_socket = (\<lambda>_ _ _ w. (3, w)), ops_bind = (\<lambda>_ _ w. (0, w)),
     ops_listen = (\<lambda>_ _ w. (0, w)), ops_accept = (\<lambda>_ w. Some ((-1, None), w)), ops_connect = (\<lambda>_ _ w. (0, w)),
     ops_recv = (\<lambda>_ _ w. Some ((0, []), w)), ops_send = (\<lambda>_ b w. Some (int (length b), w)),
     ops_recvfrom = (\<lambda>_ _ _ w. Some ((int (length r), r, None), w)), ops_sendto = (\<lambda>_ b _ w. Some (int (length b), w)),
     ops_setsockopt = (\<lambda>_ _ _ _ w. w), ops_close = (\<lambda>_ w. Some w), ops_fcntl = None\<rparr>,
     h_errno = (\<lambda>_. EWOULDBLOCK), h_now_ms = (\<lambda>w. (0, w)), h_delay = (\<lambda>_ w. w)\<rparr>"

lemma reply_host_ssdp:
  "0 < length r \<Longrightarrow> length r < m \<Longrightarrow>
     upnp_transport_ssdp (Some (reply_host r)) aton ip gp lp msg m tmo () = Some ((int (length r), r), ())"
  by (simp add: upnp_transport_ssdp_def reply_host_def Let_def upnp_set_timeout_def)

definition long_line :: bytes where
  "long_line = replicate 2048 65"

lemma long_line: "length long_line = 2048" "set long_line = {65}"
  unfolding long_line_def by (rule length_replicate) (rule set_replicate, simp)

lemma strstr_set: "strstr pat s \<noteq> None \<Longrightarrow> set pat \<subseteq> set s"
  unfolding strstr_None by auto



definition upnp_mapped :: "unit upnp" where
  "upnp_mapped = (upnp_start ())\<lparr>u_step := UPNP_STEP_DESCRIBED, controlURL := ascii ''/ctl'',
     descIP := ascii ''10.0.0.1'', descPORT := ascii ''80'', u_content := ascii ''<a/>''\<rparr>"


text \<open>The sockets of a session over the TOE. From the wait for the link to the deletion of the
  mapping, with or without eventing, and wherever it stops: when the session ends, the descriptors that
  are open are those that were open before it, and the tables are in order.\<close>

theorem upnp_session_balanced:
  assumes "upnp_client_task cfg c aton k alloc u = Some (r, u')"
    and "c_host c = net_eth_host io timer delay fuel off nb" and "errno_inv (u_net u)"
    and "\<And>w. errno_inv w \<Longrightarrow> errno_inv (snd (c_is_up c w)) \<and> errno_fds off (snd (c_is_up c w)) = errno_fds off w"
    and "\<And>w. errno_inv w \<Longrightarrow> errno_inv (snd (c_local_ip c w)) \<and> errno_fds off (snd (c_local_ip c w)) = errno_fds off w"
  shows "errno_inv (u_net u') \<and> errno_fds off (u_net u') = errno_fds off (u_net u)"
  by (rule toe_server.upnp_task_keeps [OF assms(1,3,2,4,5)])

text \<open>The simulated chip, on which no hardware socket opens.\<close>

definition sim_shut_ctx :: "(sim toe \<times> errno) upnp_client_ctx_t" where
  "sim_shut_ctx = \<lparr>c_host = net_eth_host (sim_io\<lparr>io_socket := (\<lambda>_ _ _ _ c. (-1, c))\<rparr>)
       (\<lambda>c. (int (sim_now c), c)) (\<lambda>_ c. c) 1 54 0x4000,
     c_is_up = Pair True, c_local_ip = Pair []\<rparr>"

theorem upnp_session_balanced_witness:
  "\<exists>u'. upnp_client_task upnp_net_config sim_shut_ctx (\<lambda>_. 7) 2 True (upnp_start (toe_boot sim_boot, E_OK)) = Some (-1, u') \<and>
     errno_fds 54 (u_net u') = errno_fds 54 (toe_boot sim_boot, E_OK)"
proof -
  let ?w = "(toe_boot sim_boot, E_OK) :: sim toe \<times> errno"
  have "map_option fst (upnp_client_task upnp_net_config sim_shut_ctx (\<lambda>_. 7) 2 True (upnp_start ?w)) = Some (-1)"
    by code_simp
  then obtain u' where u': "upnp_client_task upnp_net_config sim_shut_ctx (\<lambda>_. 7) 2 True (upnp_start ?w) = Some (-1, u')"
    by auto
  have n: "u_net (upnp_start ?w) = ?w" by (simp add: upnp_start_def)
  have i: "errno_inv (u_net (upnp_start ?w))"
    unfolding n using reach_toe_inv [OF reach_boot] by (simp add: errno_inv_def)
  from upnp_session_balanced [OF u' _ i, of _ _ _ 1 54 "0x4000"] u' show ?thesis
    by (auto simp: sim_shut_ctx_def n)
qed

text \<open>An error code that is a multiple of 65536 reads as success.\<close>

lemma upnp_error_reads_as_ok:
  "fst (parse_error (ascii ''<faultstring>f</faultstring><errorCode>65536</errorCode><errorDescription>d</errorDescription>'')
     (upnp_start ())) = UPNP_OK"
  by code_simp

text \<open>A second search that fails in the middle keeps the step and mixes two devices: here the address is
  the one of the new answer and the port the one of the old.\<close>

lemma upnp_failed_search_mixes:
  "(case parse_ssdp (ascii ''200 OK LOCATION: http://10.0.0.2:123456/d'' @ crlf)
       ((upnp_start ())\<lparr>u_step := UPNP_STEP_DESCRIBED, descIP := ascii ''10.0.0.1'', descPORT := ascii ''80''\<rparr>) of
      Some (r, u) \<Rightarrow> r = UPNP_ERR_PARSE \<and> u_step u = UPNP_STEP_DESCRIBED \<and>
        descIP u = ascii ''10.0.0.2'' \<and> descPORT u = ascii ''80''
    | None \<Rightarrow> False)"
  by code_simp

end
