(* ===== verification/Http.thy ===== *)
theory Http
  imports Net_Server C_Text
begin

text \<open>
  The HTTP server example (\<open>http_server.c\<close>): reading a request, the request line, the answer, and the
  accept loop of the task. A result \<open>None\<close> means that a call did not return within the fuel \<open>k\<close>, or
  that the C code writes outside a buffer. The page (\<open>web_page.h\<close>) is the parameter \<open>index_page\<close>.
\<close>

section \<open>Socket helpers\<close>

definition HTTP_BUF_SIZE :: nat where "HTTP_BUF_SIZE = 2048"
definition HTTP_RECV_TIMEOUT_MS :: u32 where "HTTP_RECV_TIMEOUT_MS = 10 * 1000"

definition http_set_rcvtimeo :: "'w host \<Rightarrow> int \<Rightarrow> u32 \<Rightarrow> 'w \<Rightarrow> 'w" where
  "http_set_rcvtimeo h fd ms w = ops_setsockopt (h_sock h) fd SOL_SOCKET SO_RCVTIMEO (timeval_bytes ms) w"

definition http_send_all :: "'w host \<Rightarrow> nat \<Rightarrow> int \<Rightarrow> bytes \<Rightarrow> 'w \<Rightarrow> (bool \<times> 'w) option" where
  "http_send_all h k fd data w =
     map_option (\<lambda>(r, _, w1). (0 \<le> r, w1)) (turns k (stream_turn h fd data) (0, w))"

section \<open>The request\<close>

text \<open>The bytes read so far are the length and what the buffer holds.\<close>

definition recv_request_turn ::
  "'w host \<Rightarrow> int \<Rightarrow> nat \<Rightarrow> bytes \<times> 'w \<Rightarrow> (int option \<times> bytes \<times> 'w) option" where
  "recv_request_turn h fd cap = (\<lambda>(got, w).
     if cap - 1 \<le> length got then Some (Some (int (length got)), got, w)
     else case ops_recv (h_sock h) fd (cap - 1 - length got) w of None \<Rightarrow> None
          | Some ((n, b), w1) \<Rightarrow>
            if n \<le> 0 then Some (Some (-1), got, w1)
            else if int (cap - 1 - length got) < n then None
            else let got1 = got @ take (nat n) b
              in Some (if strstr (crlf @ crlf) (cstr got1) \<noteq> None then Some (int (length got1)) else None, got1, w1))"

definition recv_request :: "'w host \<Rightarrow> nat \<Rightarrow> int \<Rightarrow> nat \<Rightarrow> 'w \<Rightarrow> ((int \<times> bytes) \<times> 'w) option" where
  "recv_request h k fd cap w =
     map_option (\<lambda>(r, got, w1). ((r, got), w1)) (turns k (recv_request_turn h fd cap) ([], w))"

text \<open>One of the two copying loops: the characters stored, how many were read, and the rest of the
  string from the one that ended the token.\<close>

fun copy_token :: "nat \<Rightarrow> nat \<Rightarrow> bytes \<Rightarrow> bytes \<Rightarrow> bytes \<times> nat \<times> bytes" where
  "copy_token cap i dst [] = (dst, i, [])"
| "copy_token cap i dst (c # r) =
     (if c = 32 \<or> c = 13 \<or> c = 10 then (dst, i, c # r)
      else copy_token cap (Suc i) (if i < cap - 1 then dst @ [c] else dst) r)"

text \<open>The NUL goes after the last character stored.\<close>

definition parse_request_line :: "bytes \<Rightarrow> nat \<Rightarrow> nat \<Rightarrow> bool \<times> bytes \<times> bytes" where
  "parse_request_line req method_cap target_cap =
     (let (m, i, r) = copy_token method_cap 0 [] req;
          method = take (if i < method_cap - 1 then i else method_cap - 1) m
      in case r of [] \<Rightarrow> (False, method, [])
         | c # r1 \<Rightarrow>
           if c \<noteq> 32 then (False, method, [])
           else let (t, j, _) = copy_token target_cap 0 [] r1;
                    target = take (if j < target_cap - 1 then j else target_cap - 1) t
                in (target \<noteq> [], method, target))"

section \<open>The response\<close>

definition response_header :: "bytes \<Rightarrow> bytes \<Rightarrow> nat \<Rightarrow> bytes" where
  "response_header status ctype body_len =
     ascii ''HTTP/1.1 '' @ status @ crlf @ ascii ''Content-Type: '' @ ctype @ crlf @
     ascii ''Content-Length: '' @ udec body_len @ crlf @ ascii ''Connection: close'' @ crlf @ crlf"

definition send_response ::
  "'w host \<Rightarrow> nat \<Rightarrow> int \<Rightarrow> nat \<Rightarrow> bytes \<Rightarrow> bytes \<Rightarrow> bytes option \<Rightarrow> nat \<Rightarrow> 'w \<Rightarrow> 'w option" where
  "send_response h k fd hdr_cap status ctype body body_len w =
     (let hdr = response_header status ctype body_len in
      if hdr_cap \<le> length hdr then Some w
      else case http_send_all h k fd hdr w of None \<Rightarrow> None
           | Some (ok, w1) \<Rightarrow>
             if \<not> ok then Some w1
             else case body of None \<Rightarrow> Some w1
                  | Some b \<Rightarrow>
                    if 0 < body_len then map_option snd (http_send_all h k fd (take body_len b) w1)
                    else Some w1)"

definition target_is_index :: "bytes \<Rightarrow> bool" where
  "target_is_index target =
     (let n = length (takeWhile (\<lambda>c. c \<noteq> 63) target)
      in (n = 1 \<and> target ! 0 = 47) \<or> (n = 11 \<and> take 11 target = ascii ''/index.html''))"

definition ctype_html :: bytes where "ctype_html = ascii ''text/html''"

definition not_found :: bytes where
  "not_found = ascii ''<!DOCTYPE html><html><body><h1>404 Not Found</h1></body></html>''"

definition serve_client :: "'w host \<Rightarrow> bytes \<Rightarrow> nat \<Rightarrow> int \<Rightarrow> nat \<Rightarrow> 'w \<Rightarrow> 'w option" where
  "serve_client h index_page k fd cap w =
     (case recv_request h k fd cap w of None \<Rightarrow> None
      | Some ((len, buf), w1) \<Rightarrow>
        if len < 0 then Some w1
        else
          let (ok, method, target) = parse_request_line (cstr buf) 8 128 in
          if \<not> ok then send_response h k fd cap (ascii ''400 Bad Request'') ctype_html (Some []) 0 w1
          else
            let is_get = (method = ascii ''GET''); is_head = (method = ascii ''HEAD'') in
            if \<not> is_get \<and> \<not> is_head
            then send_response h k fd cap (ascii ''501 Not Implemented'') ctype_html (Some []) 0 w1
            else if \<not> target_is_index target
            then send_response h k fd cap (ascii ''404 Not Found'') ctype_html
                   (if is_head then None else Some not_found) (length not_found) w1
            else send_response h k fd cap (ascii ''200 OK'') ctype_html
                   (if is_head then None else Some index_page) (length index_page) w1)"

section \<open>The server\<close>

text \<open>From socket() to listen(): the listener, or \<open>None\<close> inside where \<open>http_serve()\<close> returns.\<close>

definition http_open :: "'w host \<Rightarrow> u16 \<Rightarrow> 'w \<Rightarrow> (int option \<times> 'w) option" where
  "http_open h port w =
     (let ops = h_sock h; (lsock, w1) = ops_socket ops 2 1 6 w in
      if lsock < 0 then Some (None, w1)
      else
        let w2 = ops_setsockopt ops lsock SOL_SOCKET SO_REUSEADDR (le32_bytes 1) w1;
            w3 = ops_setsockopt ops lsock IPPROTO_TCP TCP_NODELAY (le32_bytes 1) w2;
            w4 = http_set_rcvtimeo h lsock HTTP_RECV_TIMEOUT_MS w3;
            (b, w5) = ops_bind ops lsock \<lparr>sin_family_inet = True, sin_port = lwip_htons port,
                        sin_addr = lwip_htonl 0\<rparr> w4;
            (l, w6) = (if b < 0 then (-1, w5) else ops_listen ops lsock 1 w5)
        in if b < 0 \<or> l < 0 then map_option (\<lambda>w7. (None, w7)) (ops_close ops lsock w6)
           else Some (Some lsock, w6))"

definition http_turn :: "'w host \<Rightarrow> bytes \<Rightarrow> nat \<Rightarrow> nat \<Rightarrow> int \<Rightarrow> 'w \<Rightarrow> 'w option" where
  "http_turn h index_page k cap lsock w =
     (case ops_accept (h_sock h) lsock w of None \<Rightarrow> None
      | Some ((fd, _), w1) \<Rightarrow>
        if fd < 0 then Some w1
        else case serve_client h index_page k fd cap (http_set_rcvtimeo h fd HTTP_RECV_TIMEOUT_MS w1) of
               None \<Rightarrow> None
             | Some w2 \<Rightarrow> ops_close (h_sock h) fd w2)"

text \<open>The loop never ends: these are its first \<open>n\<close> turns.\<close>

fun http_turns :: "'w host \<Rightarrow> bytes \<Rightarrow> nat \<Rightarrow> nat \<Rightarrow> int \<Rightarrow> nat \<Rightarrow> 'w \<Rightarrow> 'w option" where
  "http_turns h index_page k cap lsock 0 w = Some w"
| "http_turns h index_page k cap lsock (Suc n) w =
     (case http_turn h index_page k cap lsock w of None \<Rightarrow> None
      | Some w1 \<Rightarrow> http_turns h index_page k cap lsock n w1)"

definition http_serve :: "'w host \<Rightarrow> bytes \<Rightarrow> u16 \<Rightarrow> nat \<Rightarrow> nat \<Rightarrow> nat \<Rightarrow> 'w \<Rightarrow> (int option \<times> 'w) option" where
  "http_serve h index_page port k cap n w =
     (case http_open h port w of None \<Rightarrow> None
      | Some (None, w1) \<Rightarrow> Some (None, w1)
      | Some (Some lsock, w1) \<Rightarrow> map_option (Pair (Some lsock)) (http_turns h index_page k cap lsock n w1))"

text \<open>\<open>alloc\<close> says whether the buffer could be had.\<close>

definition http_task ::
  "'w host \<Rightarrow> bytes \<Rightarrow> u16 \<Rightarrow> bool \<Rightarrow> ('w \<Rightarrow> bool \<times> 'w) \<Rightarrow> nat \<Rightarrow> nat \<Rightarrow> 'w \<Rightarrow> (int option \<times> 'w) option" where
  "http_task h index_page port alloc up_fn k n w =
     (if \<not> alloc then Some (None, w)
      else case turns k (iface_turn h up_fn) w of None \<Rightarrow> None
           | Some (_, w1) \<Rightarrow> http_serve h index_page port k HTTP_BUF_SIZE n w1)"

end
