(* ===== verification/Http_Props.thy ===== *)
theory Http_Props
  imports Http Sim_Chip
begin

text \<open>
  The properties of the HTTP server: which answer a request gets, that reading a request ends within
  the buffer, and the sockets the server holds.
\<close>

section \<open>The request line\<close>

definition in_token :: "u8 \<Rightarrow> bool" where
  "in_token c \<longleftrightarrow> c \<noteq> 32 \<and> c \<noteq> 13 \<and> c \<noteq> 10"

lemma copy_token_eq:
  "copy_token cap (length s0) (take (cap - 1) s0) s =
     (take (cap - 1) (s0 @ takeWhile in_token s), length s0 + length (takeWhile in_token s), dropWhile in_token s)"
proof (induction s arbitrary: s0)
  case Nil
  then show ?case by simp
next
  case (Cons c s)
  show ?case
  proof (cases "in_token c")
    case False
    then show ?thesis by (auto simp: in_token_def)
  next
    case True
    have "(if length s0 < cap - 1 then take (cap - 1) s0 @ [c] else take (cap - 1) s0) = take (cap - 1) (s0 @ [c])"
      by (cases "cap - 1 - length s0") simp_all
    with Cons.IH [of "s0 @ [c]"] True show ?thesis by (auto simp: in_token_def)
  qed
qed

text \<open>The method and the target of a request line.\<close>

definition request_line :: "bytes \<Rightarrow> (bytes \<times> bytes) option" where
  "request_line req =
     (case dropWhile in_token req of [] \<Rightarrow> None
      | c # r \<Rightarrow> if c = 32 \<and> takeWhile in_token r \<noteq> [] then Some (takeWhile in_token req, takeWhile in_token r)
                else None)"

lemma take_min_self: "take (if n < m then n else m) (take m xs) = (if n < m then take n xs else take m xs)"
  by (simp add: min_def)

lemma parse_request_line_eq:
  assumes "1 < tc"
  shows "case parse_request_line req mc tc of (ok, m, t) \<Rightarrow>
    (case request_line req of None \<Rightarrow> \<not> ok | Some (m0, t0) \<Rightarrow> ok \<and> m = take (mc - 1) m0 \<and> t = take (tc - 1) t0)"
proof -
  have c: "copy_token cap 0 [] s = (take (cap - 1) (takeWhile in_token s), length (takeWhile in_token s), dropWhile in_token s)"
    for cap s using copy_token_eq [of cap "[]" s] by simp
  have t: "take (if length x < cap - 1 then length x else cap - 1) (take (cap - 1) x) = take (cap - 1) x"
    for cap and x :: bytes by simp
  show ?thesis
    unfolding parse_request_line_def c prod.case Let_def t request_line_def
    using assms by (simp split: list.split) (metis dropWhile_eq_Nil_conv list.distinct(1))
qed

section \<open>The answer\<close>

definition http_path :: "bytes \<Rightarrow> bytes" where
  "http_path t = takeWhile (\<lambda>c. c \<noteq> 63) t"

lemma index_html_length: "length (ascii ''/index.html'') = 11"
  by simp

lemma target_is_index_path:
  assumes "t \<noteq> []"
  shows "target_is_index t \<longleftrightarrow> http_path t = [47] \<or> http_path t = ascii ''/index.html''"
proof -
  have p: "http_path t = take (length (http_path t)) t"
    unfolding http_path_def by (rule takeWhile_eq_take)
  have "length (http_path t) = 1 \<and> t ! 0 = 47 \<longleftrightarrow> http_path t = [47]"
  proof
    assume a: "length (http_path t) = 1 \<and> t ! 0 = 47"
    then have "http_path t = take 1 t" using p by simp
    with a assms show "http_path t = [47]" by (cases t) simp_all
  next
    assume a: "http_path t = [47]"
    then have "[47] = take 1 t" using p by simp
    with a assms show "length (http_path t) = 1 \<and> t ! 0 = 47" by (cases t) simp_all
  qed
  moreover have "length (http_path t) = 11 \<and> take 11 t = ascii ''/index.html'' \<longleftrightarrow> http_path t = ascii ''/index.html''"
    using p index_html_length by metis
  ultimately show ?thesis by (simp add: target_is_index_def Let_def http_path_def)
qed

lemma path_take: "http_path (take n t) = take n (http_path t)"
  unfolding http_path_def by (induction t arbitrary: n) (auto simp: take_Cons')

lemma take_eq_short: "length s < n \<Longrightarrow> take n x = s \<longleftrightarrow> x = s"
  by (metis length_take min_def nat_less_le take_all take_all_iff linorder_not_le)

text \<open>The answer to a request, on its whole first line: the status, the body and the length announced.\<close>

definition http_reply :: "bytes \<Rightarrow> bytes \<Rightarrow> bytes \<times> bytes option \<times> nat" where
  "http_reply index_page req =
     (case request_line req of None \<Rightarrow> (ascii ''400 Bad Request'', Some [], 0)
      | Some (m, t) \<Rightarrow>
        if m \<noteq> ascii ''GET'' \<and> m \<noteq> ascii ''HEAD'' then (ascii ''501 Not Implemented'', Some [], 0)
        else let page = (http_path t \<in> {ascii ''/'', ascii ''/index.html''});
                 b = (if page then index_page else not_found)
             in (if page then ascii ''200 OK'' else ascii ''404 Not Found'',
                 if m = ascii ''HEAD'' then None else Some b, length b))"

lemma slash: "ascii ''/'' = [47]"
  by (simp add: ascii_def of_char_def)

text \<open>C33. The answer to a request. Once a request has been read, the client gets exactly the answer that
  its method and its target ask for, however long they are, although only 7 bytes of the method and 127
  of the target are kept: 400 for no request line, 501 for a method other than GET and HEAD, the page
  for / and /index.html with any query string, 404 for the rest, no body for HEAD, and the length of the
  body a GET would have had.\<close>

theorem http_answers:
  assumes "recv_request h k fd cap w = Some ((len, buf), w1)" and "0 \<le> len"
  shows "serve_client h index_page k fd cap w =
    (case http_reply index_page (cstr buf) of (status, body, n) \<Rightarrow>
       send_response h k fd cap status ctype_html body n w1)"
proof -
  obtain ok m t where p: "parse_request_line (cstr buf) 8 128 = (ok, m, t)" by (metis prod_cases3)
  have sc: "serve_client h index_page k fd cap w =
      (if \<not> ok then send_response h k fd cap (ascii ''400 Bad Request'') ctype_html (Some []) 0 w1
       else if m \<noteq> ascii ''GET'' \<and> m \<noteq> ascii ''HEAD''
       then send_response h k fd cap (ascii ''501 Not Implemented'') ctype_html (Some []) 0 w1
       else if \<not> target_is_index t
       then send_response h k fd cap (ascii ''404 Not Found'') ctype_html
              (if m = ascii ''HEAD'' then None else Some not_found) (length not_found) w1
       else send_response h k fd cap (ascii ''200 OK'') ctype_html
              (if m = ascii ''HEAD'' then None else Some index_page) (length index_page) w1)"
    using assms by (simp only: serve_client_def option.case prod.case Let_def p not_less [symmetric] if_not_P if_False)
  have pe: "case request_line (cstr buf) of None \<Rightarrow> \<not> ok | Some (m0, t0) \<Rightarrow> ok \<and> m = take 7 m0 \<and> t = take 127 t0"
    using parse_request_line_eq [where tc = 128 and mc = 8 and req = "cstr buf"]
    unfolding p prod.case by (simp split: option.splits prod.splits)
  show ?thesis
  proof (cases "request_line (cstr buf)")
    case None
    with pe sc show ?thesis by (simp add: http_reply_def)
  next
    case (Some q)
    obtain m0 t0 where q: "q = (m0, t0)" by (rule prod.exhaust)
    have r: "ok" "m = take 7 m0" "t = take 127 t0" using pe Some q by simp_all
    have t0: "t0 \<noteq> []" using Some q by (auto simp: request_line_def split: list.splits if_splits)
    have m: "m = ascii ''GET'' \<longleftrightarrow> m0 = ascii ''GET''" "m = ascii ''HEAD'' \<longleftrightarrow> m0 = ascii ''HEAD''"
      unfolding r(2) by (rule take_eq_short, simp)+
    have "t \<noteq> []" using t0 by (simp add: r(3))
    then have t: "target_is_index t \<longleftrightarrow> http_path t0 = [47] \<or> http_path t0 = ascii ''/index.html''"
      using target_is_index_path [OF \<open>t \<noteq> []\<close>] by (simp add: r(3) path_take take_eq_short)
    show ?thesis
      unfolding sc m t http_reply_def Some q option.case prod.case Let_def slash using r(1) by simp
  qed
qed

text \<open>A connection for the witnesses: what is still to be read, and what was sent. A receive takes at most
  8 bytes.\<close>

definition page_host :: "(bytes \<times> bytes) host" where
  "page_host = \<lparr>h_sock = \<lparr>ops_socket = (\<lambda>_ _ _ w. (3, w)), ops_bind = (\<lambda>_ _ w. (0, w)),
     ops_listen = (\<lambda>_ _ w. (0, w)), ops_accept = (\<lambda>_ w. Some ((4, None), w)), ops_connect = (\<lambda>_ _ w. (0, w)),
     ops_recv = (\<lambda>_ n (i, o1). let b = take (min 8 n) i in
        Some ((if b = [] then -1 else int (length b), b), drop (min 8 n) i, o1)),
     ops_send = (\<lambda>_ b (i, o1). Some (int (length b), i, o1 @ b)),
     ops_recvfrom = (\<lambda>_ _ _ w. Some ((-1, [], None), w)), ops_sendto = (\<lambda>_ _ _ w. Some (-1, w)),
     ops_setsockopt = (\<lambda>_ _ _ _ w. w), ops_close = (\<lambda>_ w. Some w), ops_fcntl = None\<rparr>,
     h_errno = (\<lambda>_. EWOULDBLOCK), h_now_ms = (\<lambda>w. (0, w)), h_delay = (\<lambda>_ w. w)\<rparr>"

definition page_request :: bytes where
  "page_request = ascii ''GET /?a HTTP/1.1'' @ crlf @ crlf"

theorem http_answers_witness:
  "serve_client page_host (ascii ''<p/>'') 8 4 256 (page_request, []) =
     Some ([], response_header (ascii ''200 OK'') (ascii ''text/html'') 4 @ ascii ''<p/>'')"
proof -
  have "recv_request page_host 8 4 256 (page_request, []) = Some ((20, page_request), [], [])" by code_simp
  from http_answers [OF this, of "ascii ''<p/>''"]
  have "serve_client page_host (ascii ''<p/>'') 8 4 256 (page_request, []) =
      (case http_reply (ascii ''<p/>'') (cstr page_request) of (status, body, n) \<Rightarrow>
         send_response page_host 8 4 256 status ctype_html body n ([], []))" by simp
  also have "http_reply (ascii ''<p/>'') (cstr page_request) = (ascii ''200 OK'', Some (ascii ''<p/>''), 4)" by code_simp
  also have "(case (ascii ''200 OK'', Some (ascii ''<p/>''), 4) of (status, body, n) \<Rightarrow>
      send_response page_host 8 4 256 status ctype_html body n ([], [])) =
     Some ([], response_header (ascii ''200 OK'') (ascii ''text/html'') 4 @ ascii ''<p/>'')" by code_simp
  finally show ?thesis .
qed

section \<open>Reading a request\<close>

text \<open>Reading a request ends. As long as each recv() returns, and gives no more than was asked for, the
  loop returns after at most as many turns as the buffer has bytes, without leaving the buffer, and it
  reports a request only where the blank line has come or the buffer is full.\<close>

theorem http_request_read:
  assumes "\<And>n w. 0 < n \<Longrightarrow> \<exists>r b w'. ops_recv (h_sock h) fd n w = Some ((r, b), w') \<and> r \<le> int n \<and> nat r \<le> length b"
    and "cap \<le> k" and "0 < cap"
  shows "\<exists>r got w'. recv_request h k fd cap w = Some ((r, got), w') \<and> length got < cap \<and>
    (if 0 \<le> r then r = int (length got) \<and>
       (strstr (crlf @ crlf) (cstr got) \<noteq> None \<or> length got = cap - 1) else r = -1)"
proof -
  let ?I = "\<lambda>p :: bytes \<times> 'a. length (fst p) < cap"
  have turn: "\<exists>q t'. recv_request_turn h fd cap t = Some (q, t') \<and> ?I t' \<and>
      (q = None \<longrightarrow> cap - length (fst t') < cap - length (fst t)) \<and>
      (\<forall>r. q = Some r \<longrightarrow> (if 0 \<le> r then r = int (length (fst t')) \<and>
         (strstr (crlf @ crlf) (cstr (fst t')) \<noteq> None \<or> length (fst t') = cap - 1) else r = -1))" if I: "?I t" for t
  proof (cases "cap - 1 \<le> length (fst t)")
    case True
    then have "length (fst t) = cap - 1" using I by linarith
    with True I show ?thesis by (auto simp: recv_request_turn_def split_beta)
  next
    case False
    then have "0 < cap - 1 - length (fst t)" by linarith
    then obtain r b w' where rv: "ops_recv (h_sock h) fd (cap - 1 - length (fst t)) (snd t) = Some ((r, b), w')"
      and le: "r \<le> int (cap - 1 - length (fst t))" and lb: "nat r \<le> length b"
      using assms(1) [of "cap - 1 - length (fst t)" "snd t"] by blast
    show ?thesis
    proof (cases "r \<le> 0")
      case True
      with rv False I show ?thesis by (auto simp: recv_request_turn_def split_beta)
    next
      case pos: False
      let ?g = "fst t @ take (nat r) b"
      have l: "length ?g = length (fst t) + nat r" using lb by simp
      have "length ?g < cap" "cap - length ?g < cap - length (fst t)" using l le pos False by linarith+
      then show ?thesis
        using rv le pos False by (auto simp: recv_request_turn_def split_beta Let_def)
    qed
  qed
  have "\<exists>r s. turns k (recv_request_turn h fd cap) ([], w) = Some (r, s)"
  proof (rule turns_total [where I = ?I and mu = "\<lambda>p. cap - 1 - length (fst p)"])
    show "\<exists>q t'. recv_request_turn h fd cap t = Some (q, t') \<and>
        (q = None \<longrightarrow> ?I t' \<and> cap - 1 - length (fst t') < cap - 1 - length (fst t))" if "?I t" for t
      using turn [OF that] by force
  qed (use assms(2,3) in simp_all)
  then obtain r got w' where t: "turns k (recv_request_turn h fd cap) ([], w) = Some (r, got, w')" by auto
  have "(\<lambda>r p. length (fst p) < cap \<and> (if 0 \<le> r then r = int (length (fst p)) \<and>
      (strstr (crlf @ crlf) (cstr (fst p)) \<noteq> None \<or> length (fst p) = cap - 1) else r = -1)) r (got, w')"
    by (rule turns_rule [OF t, where I = ?I]) (use assms(3) turn in \<open>fastforce+\<close>)
  then show ?thesis unfolding recv_request_def t fst_conv by auto
qed

lemma page_recv: "0 < n \<Longrightarrow> \<exists>r b w'. ops_recv (h_sock page_host) fd n w = Some ((r, b), w') \<and> r \<le> int n \<and> nat r \<le> length b"
  by (cases w) (auto simp: page_host_def Let_def)

theorem http_request_read_witness:
  "\<exists>r got w'. recv_request page_host 2048 4 2048 (page_request, []) = Some ((r, got), w') \<and> length got < 2048"
  using http_request_read [of page_host 4 2048 2048 "(page_request, [])", OF page_recv] by auto

section \<open>Sockets\<close>

context server_host
begin

lemma http_timeout_keeps: "inv w \<Longrightarrow> inv (http_set_rcvtimeo h fd ms w) \<and> fds (http_set_rcvtimeo h fd ms w) = fds w"
  unfolding http_set_rcvtimeo_def by (rule setsockopt_law)

lemma http_send_keeps:
  assumes "http_send_all h k fd b w = Some (r, w')" and "inv w"
  shows "inv w' \<and> fds w' = fds w"
proof -
  obtain x n where "turns k (stream_turn h fd b) (0, w) = Some (x, n, w')"
    using assms(1) by (auto simp: http_send_all_def)
  from stream_loop_keeps [OF this assms(2)] show ?thesis .
qed

lemma response_keeps:
  assumes "send_response h k fd cap st ct body n w = Some w'" and "inv w"
  shows "inv w' \<and> fds w' = fds w"
proof (cases "cap \<le> length (response_header st ct n)")
  case True
  with assms show ?thesis by (simp add: send_response_def)
next
  case False
  then obtain ok w1 where s: "http_send_all h k fd (response_header st ct n) w = Some (ok, w1)"
    using assms(1) by (auto simp: send_response_def Let_def split: option.splits)
  with False assms(1) have w': "w' = w1 \<or> (\<exists>b r. http_send_all h k fd b w1 = Some (r, w'))"
    by (auto simp: send_response_def Let_def split: option.splits if_splits)
  note K = http_send_keeps [OF s assms(2)]
  from w' show ?thesis
  proof
    assume "w' = w1"
    with K show ?thesis by simp
  next
    assume "\<exists>b r. http_send_all h k fd b w1 = Some (r, w')"
    then obtain b r where "http_send_all h k fd b w1 = Some (r, w')" by blast
    from http_send_keeps [OF this conjunct1 [OF K]] K show ?thesis by simp
  qed
qed

lemma recv_turn_keeps:
  assumes "recv_request_turn h fd cap s = Some (q, s')" and "inv (snd s)"
  shows "inv (snd s') \<and> fds (snd s') = fds (snd s)"
proof (cases "cap - 1 \<le> length (fst s)")
  case True
  with assms show ?thesis by (simp add: recv_request_turn_def split_beta)
next
  case False
  then obtain p w1 where rv: "ops_recv (h_sock h) fd (cap - 1 - length (fst s)) (snd s) = Some (p, w1)"
    and w1: "snd s' = w1"
    using assms(1) by (auto simp: recv_request_turn_def split_beta Let_def split: option.splits if_splits)
  from recv_law [OF assms(2) rv] w1 show ?thesis by simp
qed

lemma client_keeps:
  assumes "serve_client h page k fd cap w = Some w'" and "inv w"
  shows "inv w' \<and> fds w' = fds w"
proof -
  obtain len buf w1 where rq: "recv_request h k fd cap w = Some ((len, buf), w1)"
    using assms(1) by (auto simp: serve_client_def split: option.splits)
  then obtain x where t: "turns k (recv_request_turn h fd cap) ([], w) = Some (x, buf, w1)"
    by (auto simp: recv_request_def)
  have K: "inv w1" "fds w1 = fds w"
    using turns_kept [OF t, of snd, OF _ recv_turn_keeps] assms(2) by simp_all
  have "w' = w1 \<or> (\<exists>st ct b n. send_response h k fd cap st ct b n w1 = Some w')"
    using assms(1) rq by (auto simp: serve_client_def Let_def split: prod.splits if_splits)
  then show ?thesis
  proof
    assume "w' = w1"
    with K show ?thesis by simp
  next
    assume "\<exists>st ct b n. send_response h k fd cap st ct b n w1 = Some w'"
    then obtain st ct b n where "send_response h k fd cap st ct b n w1 = Some w'" by blast
    from response_keeps [OF this K(1)] K(2) show ?thesis by simp
  qed
qed

lemma http_turn_keeps:
  assumes "http_turn h page k cap lsock w = Some w'" and "inv w"
  shows "inv w' \<and> fds w' = fds w"
proof -
  obtain fd a w1 where ac: "ops_accept (h_sock h) lsock w = Some ((fd, a), w1)"
    using assms(1) by (auto simp: http_turn_def split: option.splits)
  note A = accept_law [OF assms(2) ac]
  show ?thesis
  proof (cases "fd < 0")
    case True
    with assms(1) ac have "w' = w1" by (simp add: http_turn_def)
    with A True show ?thesis by simp
  next
    case False
    then have A1: "inv w1" "fd \<notin> fds w" "fds w1 = insert fd (fds w)" using A by simp_all
    note T = http_timeout_keeps [OF A1(1), of fd HTTP_RECV_TIMEOUT_MS]
    obtain w2 where sv: "serve_client h page k fd cap (http_set_rcvtimeo h fd HTTP_RECV_TIMEOUT_MS w1) = Some w2"
      and cl: "ops_close (h_sock h) fd w2 = Some w'"
      using assms(1) ac False by (auto simp: http_turn_def split: option.splits)
    have K: "inv w2" "fds w2 = insert fd (fds w)" using client_keeps [OF sv conjunct1 [OF T]] T A1(3) by simp_all
    have "inv w' \<and> fds w' = fds w2 - {fd}" by (rule close_law [OF K(1) _ cl]) (simp add: K(2))
    with K(2) A1(2) show ?thesis by simp
  qed
qed

lemma http_turns_keep:
  "http_turns h page k cap lsock n w = Some w' \<Longrightarrow> inv w \<Longrightarrow> inv w' \<and> fds w' = fds w"
proof (induction n arbitrary: w)
  case 0
  then show ?case by simp
next
  case (Suc n)
  then obtain w1 where t: "http_turn h page k cap lsock w = Some w1"
    and l: "http_turns h page k cap lsock n w1 = Some w'" by (auto split: option.splits)
  note T = http_turn_keeps [OF t Suc.prems(2)]
  from Suc.IH [OF l conjunct1 [OF T]] T show ?case by simp
qed

lemma http_open_effect:
  assumes "http_open h port w = Some (r, w')" and "inv w"
  shows "inv w' \<and> (case r of None \<Rightarrow> fds w' = fds w | Some s \<Rightarrow> s \<notin> fds w \<and> fds w' = insert s (fds w))"
proof -
  obtain s w1 where so: "ops_socket (h_sock h) 2 1 6 w = (s, w1)" by (rule prod.exhaust)
  note S = socket_law [OF assms(2) so]
  note st = assms(1) [unfolded http_open_def Let_def so prod.case]
  show ?thesis
  proof (cases "s < 0")
    case True
    with st have "r = None" "w' = w1" by simp_all
    with S True show ?thesis by simp
  next
    case False
    then have S1: "inv w1" "s \<notin> fds w" "fds w1 = insert s (fds w)" using S by simp_all
    let ?w2 = "ops_setsockopt (h_sock h) s SOL_SOCKET SO_REUSEADDR (le32_bytes 1) w1"
    let ?w3 = "ops_setsockopt (h_sock h) s IPPROTO_TCP TCP_NODELAY (le32_bytes 1) ?w2"
    let ?w4 = "http_set_rcvtimeo h s HTTP_RECV_TIMEOUT_MS ?w3"
    note s2 = setsockopt_law [OF S1(1), of s SOL_SOCKET SO_REUSEADDR "le32_bytes 1"]
    note s3 = setsockopt_law [OF conjunct1 [OF s2], of s IPPROTO_TCP TCP_NODELAY "le32_bytes 1"]
    note s4 = http_timeout_keeps [OF conjunct1 [OF s3], of s HTTP_RECV_TIMEOUT_MS]
    have S4: "inv ?w4" "fds ?w4 = insert s (fds w)" using s2 s3 s4 S1(3) by (simp_all only:)
    obtain b w5 where bi: "ops_bind (h_sock h) s \<lparr>sin_family_inet = True, sin_port = lwip_htons port,
        sin_addr = lwip_htonl 0\<rparr> ?w4 = (b, w5)" by (rule prod.exhaust)
    have S5: "inv w5" "fds w5 = insert s (fds w)" using bind_law [OF S4(1) bi] S4(2) by simp_all
    obtain l w6 where li: "(if b < 0 then (-1, w5) else ops_listen (h_sock h) s 1 w5) = (l, w6)" by (rule prod.exhaust)
    have S6: "inv w6" "fds w6 = insert s (fds w)"
    proof -
      have "inv w6 \<and> fds w6 = fds w5"
      proof (cases "b < 0")
        case True
        with li S5(1) show ?thesis by simp
      next
        case False
        with li have "ops_listen (h_sock h) s 1 w5 = (l, w6)" by simp
        from listen_law [OF S5(1) this] show ?thesis .
      qed
      with S5(2) show "inv w6" "fds w6 = insert s (fds w)" by simp_all
    qed
    note st2 = st [unfolded if_not_P [OF False] bi prod.case li]
    show ?thesis
    proof (cases "b < 0 \<or> l < 0")
      case True
      with st2 have r: "r = None" and cl: "ops_close (h_sock h) s w6 = Some w'" by auto
      have "inv w' \<and> fds w' = fds w6 - {s}" by (rule close_law [OF S6(1) _ cl]) (simp add: S6(2))
      with S6(2) S1(2) r show ?thesis by simp
    next
      case bl: False
      with st2 have "r = Some s" "w' = w6" by auto
      with S6 S1(2) show ?thesis by simp
    qed
  qed
qed

lemma http_serve_effect:
  assumes "http_serve h page port k cap n w = Some (r, w')" and "inv w"
  shows "inv w' \<and> (case r of None \<Rightarrow> fds w' = fds w | Some s \<Rightarrow> s \<notin> fds w \<and> fds w' = insert s (fds w))"
proof -
  obtain q w1 where op: "http_open h port w = Some (q, w1)"
    using assms(1) by (auto simp: http_serve_def split: option.splits)
  note O = http_open_effect [OF op assms(2)]
  show ?thesis
  proof (cases q)
    case None
    with assms(1) op O show ?thesis by (auto simp: http_serve_def)
  next
    case (Some s)
    then have r: "r = Some s" and t: "http_turns h page k cap s n w1 = Some w'"
      using assms(1) op by (auto simp: http_serve_def)
    from http_turns_keep [OF t] O Some r show ?thesis by simp
  qed
qed

end

text \<open>C34. The sockets of the server over the TOE. After any number of turns of the accept loop, whether
  clients came, sent requests, went away or stalled, exactly one socket more is open than before the
  task: the listener; and none when the setup failed.\<close>

theorem http_listener_only:
  assumes "toe_reach io s"
    and "http_serve (net_eth_host io timer delay fuel off nb) page port k cap n (s, e) = Some (r, w')"
  shows "case r of None \<Rightarrow> toe_fds off (fst w') = toe_fds off s
    | Some l \<Rightarrow> l \<notin> toe_fds off s \<and> toe_fds off (fst w') = insert l (toe_fds off s)"
proof -
  have "errno_inv (s, e)" using reach_toe_inv [OF assms(1)] by (simp add: errno_inv_def)
  from toe_server.http_serve_effect [OF assms(2) this] show ?thesis
    by (simp add: errno_fds_def split: option.splits)
qed

theorem http_listener_only_witness:
  "\<exists>w'. http_serve (net_eth_host sim_io (\<lambda>c. (int (sim_now c), c)) (\<lambda>_ c. c) 1 54 0x4000) [] 80 1 HTTP_BUF_SIZE 0
       (toe_boot sim_boot, E_OK) = Some (Some 54, w') \<and>
     toe_fds 54 (fst w') = insert 54 (toe_fds 54 (toe_boot sim_boot))"
proof -
  let ?x = "http_serve (net_eth_host sim_io (\<lambda>c. (int (sim_now c), c)) (\<lambda>_ c. c) 1 54 0x4000) [] 80 1 HTTP_BUF_SIZE 0
       (toe_boot sim_boot, E_OK)"
  have "map_option fst ?x = Some (Some 54)" by code_simp
  then obtain w' where w': "?x = Some (Some 54, w')" by auto
  from http_listener_only [OF reach_boot w'] w' show ?thesis by simp
qed

end
