(* ===== verification/Md5.thy ===== *)
theory Md5
  imports Prelude
begin

text \<open>
  The message digest of the PPPoE example, \<open>md5.c\<close>: the context that takes a message in pieces, the
  transformation of one block, and the digest. The reference is the digest of RFC 1321 on the whole
  message, padded and cut into blocks; the lemmas show that the pieces do not matter.
\<close>

section \<open>The transformation\<close>

definition md5_F :: "u32 \<Rightarrow> u32 \<Rightarrow> u32 \<Rightarrow> u32" where "md5_F x y z = (x AND y) OR (NOT x AND z)"
definition md5_G :: "u32 \<Rightarrow> u32 \<Rightarrow> u32 \<Rightarrow> u32" where "md5_G x y z = (x AND z) OR (y AND NOT z)"
definition md5_H :: "u32 \<Rightarrow> u32 \<Rightarrow> u32 \<Rightarrow> u32" where "md5_H x y z = x XOR y XOR z"
definition md5_I :: "u32 \<Rightarrow> u32 \<Rightarrow> u32 \<Rightarrow> u32" where "md5_I x y z = y XOR (x OR NOT z)"

definition ROTATE_LEFT :: "u32 \<Rightarrow> nat \<Rightarrow> u32" where
  "ROTATE_LEFT x n = push_bit n x OR drop_bit (32 - n) x"

type_synonym md5_round = "u32 \<Rightarrow> u32 \<Rightarrow> u32 \<Rightarrow> u32 \<Rightarrow> u32 \<Rightarrow> nat \<Rightarrow> u32 \<Rightarrow> u32"

definition FF :: md5_round where
  "FF a b c d x s ac = ROTATE_LEFT (a + (md5_F b c d + x + ac)) s + b"
definition GG :: md5_round where
  "GG a b c d x s ac = ROTATE_LEFT (a + (md5_G b c d + x + ac)) s + b"
definition HH :: md5_round where
  "HH a b c d x s ac = ROTATE_LEFT (a + (md5_H b c d + x + ac)) s + b"
definition II :: md5_round where
  "II a b c d x s ac = ROTATE_LEFT (a + (md5_I b c d + x + ac)) s + b"

text \<open>A line of the transformation: the word of the block, the rotation and the constant. The four
  variables take their turns as \<open>a\<close>, \<open>d\<close>, \<open>c\<close>, \<open>b\<close>, so a line leaves them rotated by one place.\<close>

type_synonym md5_state = "u32 \<times> u32 \<times> u32 \<times> u32"

definition md5_line :: "md5_round \<Rightarrow> u32 list \<Rightarrow> nat \<times> nat \<times> u32 \<Rightarrow> md5_state \<Rightarrow> md5_state" where
  "md5_line f x l st = (case (l, st) of ((k, s, ac), (a, b, c, d)) \<Rightarrow> (d, f a b c d (x ! k) s ac, b, c))"

definition md5_round1 :: "(nat \<times> nat \<times> u32) list" where
  "md5_round1 =
    [(0, 7, 0xd76aa478), (1, 12, 0xe8c7b756), (2, 17, 0x242070db), (3, 22, 0xc1bdceee),
     (4, 7, 0xf57c0faf), (5, 12, 0x4787c62a), (6, 17, 0xa8304613), (7, 22, 0xfd469501),
     (8, 7, 0x698098d8), (9, 12, 0x8b44f7af), (10, 17, 0xffff5bb1), (11, 22, 0x895cd7be),
     (12, 7, 0x6b901122), (13, 12, 0xfd987193), (14, 17, 0xa679438e), (15, 22, 0x49b40821)]"

definition md5_round2 :: "(nat \<times> nat \<times> u32) list" where
  "md5_round2 =
    [(1, 5, 0xf61e2562), (6, 9, 0xc040b340), (11, 14, 0x265e5a51), (0, 20, 0xe9b6c7aa),
     (5, 5, 0xd62f105d), (10, 9, 0x2441453), (15, 14, 0xd8a1e681), (4, 20, 0xe7d3fbc8),
     (9, 5, 0x21e1cde6), (14, 9, 0xc33707d6), (3, 14, 0xf4d50d87), (8, 20, 0x455a14ed),
     (13, 5, 0xa9e3e905), (2, 9, 0xfcefa3f8), (7, 14, 0x676f02d9), (12, 20, 0x8d2a4c8a)]"

definition md5_round3 :: "(nat \<times> nat \<times> u32) list" where
  "md5_round3 =
    [(5, 4, 0xfffa3942), (8, 11, 0x8771f681), (11, 16, 0x6d9d6122), (14, 23, 0xfde5380c),
     (1, 4, 0xa4beea44), (4, 11, 0x4bdecfa9), (7, 16, 0xf6bb4b60), (10, 23, 0xbebfbc70),
     (13, 4, 0x289b7ec6), (0, 11, 0xeaa127fa), (3, 16, 0xd4ef3085), (6, 23, 0x4881d05),
     (9, 4, 0xd9d4d039), (12, 11, 0xe6db99e5), (15, 16, 0x1fa27cf8), (2, 23, 0xc4ac5665)]"

definition md5_round4 :: "(nat \<times> nat \<times> u32) list" where
  "md5_round4 =
    [(0, 6, 0xf4292244), (7, 10, 0x432aff97), (14, 15, 0xab9423a7), (5, 21, 0xfc93a039),
     (12, 6, 0x655b59c3), (3, 10, 0x8f0ccc92), (10, 15, 0xffeff47d), (1, 21, 0x85845dd1),
     (8, 6, 0x6fa87e4f), (15, 10, 0xfe2ce6e0), (6, 15, 0xa3014314), (13, 21, 0x4e0811a1),
     (4, 6, 0xf7537e82), (11, 10, 0xbd3af235), (2, 15, 0x2ad7d2bb), (9, 21, 0xeb86d391)]"

fun md5_decode :: "bytes \<Rightarrow> u32 list" where
  "md5_decode (p # q # r # s # rest) =
     (ucast p OR push_bit 8 (ucast q) OR push_bit 16 (ucast r) OR push_bit 24 (ucast s)) # md5_decode rest"
| "md5_decode _ = []"

definition md5_encode :: "u32 list \<Rightarrow> bytes" where
  "md5_encode ws = concat (map (\<lambda>w. [ucast w, ucast (drop_bit 8 w), ucast (drop_bit 16 w), ucast (drop_bit 24 w)]) ws)"

definition md5_transform :: "md5_state \<Rightarrow> bytes \<Rightarrow> md5_state" where
  "md5_transform st block =
     (let x = md5_decode block;
          (a, b, c, d) = fold (md5_line II x) md5_round4 (fold (md5_line HH x) md5_round3
                           (fold (md5_line GG x) md5_round2 (fold (md5_line FF x) md5_round1 st)))
      in case st of (a0, b0, c0, d0) \<Rightarrow> (a0 + a, b0 + b, c0 + c, d0 + d))"

section \<open>The context\<close>

record md5_ctx =
  md_state :: md5_state
  md_count0 :: u32
  md_count1 :: u32
  md_buffer :: bytes

text \<open>\<open>md5_init()\<close> leaves the buffer as it is.\<close>

definition md5_init :: "md5_ctx \<Rightarrow> md5_ctx" where
  "md5_init c = c\<lparr>md_count0 := 0, md_count1 := 0,
     md_state := (0x67452301, 0xefcdab89, 0x98badcfe, 0x10325476)\<rparr>"

text \<open>\<open>memcpy(&buffer[i], src, ...)\<close>.\<close>

definition md5_store :: "nat \<Rightarrow> bytes \<Rightarrow> bytes \<Rightarrow> bytes" where
  "md5_store i src buf = take i buf @ src @ drop (i + length src) buf"

text \<open>The loop over the whole blocks of the input, from \<open>i\<close>. The counter is a 32-bit number in the
  source; it does not wrap for an input shorter than 2^32 - 64 bytes.\<close>

function md5_blocks :: "bytes \<Rightarrow> nat \<Rightarrow> md5_state \<Rightarrow> nat \<times> md5_state" where
  "md5_blocks input i st =
     (if i + 63 < length input then md5_blocks input (i + 64) (md5_transform st (take 64 (drop i input)))
      else (i, st))"
  by pat_completeness auto
termination by (relation "measure (\<lambda>(input, i, _). length input - i)") auto

declare md5_blocks.simps [simp del]

definition md5_update :: "md5_ctx \<Rightarrow> bytes \<Rightarrow> md5_ctx" where
  "md5_update c input =
     (let len = (of_nat (length input) :: u32);
          index = unat (drop_bit 3 (md_count0 c) AND 0x3F);
          c0 = md_count0 c + push_bit 3 len;
          c1 = (if c0 < push_bit 3 len then md_count1 c + 1 else md_count1 c) + drop_bit 29 len;
          partLen = 64 - index;
          c' = c\<lparr>md_count0 := c0, md_count1 := c1\<rparr>
      in if partLen \<le> length input then
           (let full = md5_store index (take partLen input) (md_buffer c);
                (i, st) = md5_blocks input partLen (md5_transform (md_state c) full)
            in c'\<lparr>md_state := st, md_buffer := md5_store 0 (drop i input) full\<rparr>)
         else c'\<lparr>md_buffer := md5_store index input (md_buffer c)\<rparr>)"

definition md5_padding :: bytes where "md5_padding = 0x80 # replicate 63 0"

definition md5_ctx_zero :: md5_ctx where
  "md5_ctx_zero = \<lparr>md_state = (0, 0, 0, 0), md_count0 = 0, md_count1 = 0, md_buffer = replicate 64 0\<rparr>"

definition md5_words :: "md5_state \<Rightarrow> u32 list" where
  "md5_words st = (case st of (a, b, c, d) \<Rightarrow> [a, b, c, d])"

definition md5_final :: "md5_ctx \<Rightarrow> bytes \<times> md5_ctx" where
  "md5_final c =
     (let bits = md5_encode [md_count0 c, md_count1 c];
          index = unat (drop_bit 3 (md_count0 c) AND 0x3F);
          padLen = (if index < 56 then 56 - index else 120 - index);
          c1 = md5_update c (take padLen md5_padding);
          c2 = md5_update c1 bits
      in (md5_encode (md5_words (md_state c2)), md5_ctx_zero))"

section \<open>The reference\<close>

text \<open>RFC 1321: a one bit, zeros up to 56 bytes modulo 64, and the length in bits modulo 2^64; then
  block after block.\<close>

function md5_absorb :: "md5_state \<Rightarrow> bytes \<Rightarrow> md5_state" where
  "md5_absorb st m = (if length m < 64 then st else md5_absorb (md5_transform st (take 64 m)) (drop 64 m))"
  by pat_completeness auto
termination by (relation "measure (\<lambda>(_, m). length m)") auto

declare md5_absorb.simps [simp del]

definition md5_iv :: md5_state where "md5_iv = (0x67452301, 0xefcdab89, 0x98badcfe, 0x10325476)"

definition md5_padded :: "bytes \<Rightarrow> bytes" where
  "md5_padded m =
     (let n = length m; z = (119 - n mod 64) mod 64; bits = (of_nat (8 * n) :: 64 word)
      in m @ 0x80 # replicate z 0 @ md5_encode [ucast bits, ucast (drop_bit 32 bits)])"

definition md5 :: "bytes \<Rightarrow> bytes" where
  "md5 m = md5_encode (md5_words (md5_absorb md5_iv (md5_padded m)))"

section \<open>Blocks\<close>

lemma md5_absorb_short: "length m < 64 \<Longrightarrow> md5_absorb st m = st"
  by (simp add: md5_absorb.simps)

lemma md5_absorb_long:
  "64 \<le> length m \<Longrightarrow> md5_absorb st m = md5_absorb (md5_transform st (take 64 m)) (drop 64 m)"
  by (subst md5_absorb.simps) simp

lemma md5_absorb_append:
  "64 dvd length p \<Longrightarrow> md5_absorb st (p @ q) = md5_absorb (md5_absorb st p) q"
proof (induction st p rule: md5_absorb.induct)
  case (1 st p)
  show ?case
  proof (cases "length p < 64")
    case True
    with 1(2) have "p = []" by (auto elim!: dvdE)
    then show ?thesis by (simp add: md5_absorb_short)
  next
    case False
    moreover have "64 dvd length (drop 64 p)" using 1(2) False by (auto simp: dvd_minus_self)
    ultimately show ?thesis using 1(1) by (simp add: md5_absorb_long)
  qed
qed

definition md5_rest :: "bytes \<Rightarrow> bytes" where
  "md5_rest m = drop (64 * (length m div 64)) m"

lemma length_md5_rest [simp]: "length (md5_rest m) = length m mod 64"
  by (simp add: md5_rest_def minus_mult_div_eq_mod)

lemma md5_split: obtains p where "m = p @ md5_rest m" and "length p = 64 * (length m div 64)"
proof
  show "m = take (64 * (length m div 64)) m @ md5_rest m" by (simp add: md5_rest_def)
  have "64 * (length m div 64) \<le> length m" by simp
  then show "length (take (64 * (length m div 64)) m) = 64 * (length m div 64)" by simp
qed

lemma md5_absorb_resume: "md5_absorb st (m @ x) = md5_absorb (md5_absorb st m) (md5_rest m @ x)"
proof -
  obtain p where m: "m = p @ md5_rest m" and p: "length p = 64 * (length m div 64)" by (rule md5_split)
  have a: "md5_absorb st (p @ y) = md5_absorb (md5_absorb st p) y" for y
    by (rule md5_absorb_append) (simp add: p)
  have "md5_absorb st m = md5_absorb (md5_absorb st p) (md5_rest m)" using a [of "md5_rest m"] m by simp
  also have "\<dots> = md5_absorb st p" by (rule md5_absorb_short) simp
  finally have "md5_absorb st m = md5_absorb st p" .
  then show ?thesis using a [of "md5_rest m @ x"] m by (metis append.assoc)
qed

lemma div64_add: "(a + x) div 64 = a div 64 + (a mod 64 + x) div (64 :: nat)"
proof -
  have "a + x = (a mod 64 + x) + a div 64 * 64" by simp
  then show ?thesis by (metis add.commute div_mult_self1 zero_neq_numeral)
qed

lemma md5_rest_append: "md5_rest (m @ x) = md5_rest (md5_rest m @ x)"
proof -
  obtain p where m: "m = p @ md5_rest m" and p: "length p = 64 * (length m div 64)" by (rule md5_split)
  have "length (m @ x) = length p + length (md5_rest m @ x)" using arg_cong [OF m, of length] by simp
  then have d: "64 * (length (m @ x) div 64) = length p + 64 * (length (md5_rest m @ x) div 64)"
    using p div64_add [of "length m" "length x"] by simp
  have "md5_rest (m @ x) = drop (64 * (length (m @ x) div 64)) (p @ (md5_rest m @ x))"
    using m by (metis md5_rest_def append.assoc)
  also have "\<dots> = drop (64 * (length (md5_rest m @ x) div 64)) (md5_rest m @ x)"
    unfolding d by simp
  finally show ?thesis by (simp only: md5_rest_def [of "md5_rest m @ x"])
qed

lemma md5_rest_short: "length m < 64 \<Longrightarrow> md5_rest m = m"
  by (simp add: md5_rest_def)

lemma md5_rest_long: "64 \<le> length m \<Longrightarrow> md5_rest m = md5_rest (drop 64 m)"
  by (simp add: md5_rest_def le_div_geq [of 64] add.commute)

lemma md5_blocks_absorb:
  "i \<le> length x \<Longrightarrow> md5_blocks x i st = (length x - (length x - i) mod 64, md5_absorb st (drop i x))"
proof (induction x i st rule: md5_blocks.induct)
  case (1 x i st)
  show ?case
  proof (cases "i + 63 < length x")
    case True
    then have "(length x - i) mod 64 = (length x - (i + 64)) mod 64"
      using le_mod_geq [of 64 "length x - i"] by (simp add: diff_diff_left)
    then show ?thesis
      using 1 True by (subst md5_blocks.simps) (simp add: md5_absorb_long drop_drop add.commute)
  next
    case False
    with 1(2) show ?thesis by (subst md5_blocks.simps) (simp add: md5_absorb_short)
  qed
qed

lemma md5_rest_drop: "i \<le> length x \<Longrightarrow> drop (length x - (length x - i) mod 64) x = md5_rest (drop i x)"
proof -
  assume i: "i \<le> length x"
  have "length x - (length x - i) mod 64 = i + 64 * ((length x - i) div 64)"
    using i mult_div_mod_eq [of 64 "length x - i"] by linarith
  then show ?thesis by (simp add: md5_rest_def drop_drop add.commute)
qed

section \<open>What a context stands for\<close>

definition md5_reps :: "md5_ctx \<Rightarrow> bytes \<Rightarrow> bool" where
  "md5_reps c m \<longleftrightarrow> md_state c = md5_absorb md5_iv m \<and> length (md_buffer c) = 64 \<and>
     take (length m mod 64) (md_buffer c) = md5_rest m \<and>
     md_count0 c = of_nat (8 * length m) \<and> md_count1 c = of_nat (8 * length m div 2 ^ 32)"

lemma md5_index:
  assumes "md_count0 c = of_nat (8 * n)"
  shows "unat (drop_bit 3 (md_count0 c) AND 0x3F) = n mod 64"
proof -
  have "drop_bit 3 (md_count0 c) AND 0x3F = take_bit 6 (drop_bit 3 (of_nat (8 * n) :: u32))"
    unfolding assms by (simp add: take_bit_eq_mask mask_eq_exp_minus_1)
  also have "unat \<dots> = take_bit 6 (drop_bit 3 (take_bit 32 (push_bit 3 n)))"
    unfolding unsigned_take_bit_eq unsigned_drop_bit_eq unsigned_of_nat
    by (simp add: push_bit_eq_mult mult.commute)
  also have "\<dots> = take_bit 6 n" by (rule bit_eqI) (auto simp: bit_simps)
  finally show ?thesis by (simp add: take_bit_eq_mod)
qed

lemma md5_carry:
  fixes a b :: u32
  shows "a + b < b \<longleftrightarrow> 2 ^ 32 \<le> unat a + unat b"
proof -
  have "unat (a + b) = (unat a + unat b) mod 2 ^ 32" by (simp add: unat_word_ariths)
  moreover have "unat a < 2 ^ 32" "unat b < 2 ^ 32" using unsigned_less [of a] unsigned_less [of b] by simp_all
  ultimately show ?thesis unfolding word_less_nat_alt by (cases "unat a + unat b < 2 ^ 32") (auto simp: le_mod_geq)
qed

lemma div_two: "x < c \<Longrightarrow> y < c \<Longrightarrow> (x + y) div c = (if c \<le> x + y then 1 else 0 :: nat)"
  by (auto simp: le_div_geq)

lemma md5_count:
  assumes "n < 2 ^ 32"
  shows "(if of_nat (8 * m) + push_bit 3 (of_nat n) < (push_bit 3 (of_nat n) :: u32)
      then of_nat (8 * m div 2 ^ 32) + 1 else of_nat (8 * m div 2 ^ 32)) + drop_bit 29 (of_nat n) =
     (of_nat (8 * (m + n) div 2 ^ 32) :: u32)"
proof -
  let ?a = "of_nat (8 * m) :: u32" and ?b = "of_nat (8 * n) :: u32"
  have b: "push_bit 3 (of_nat n :: u32) = ?b" by (simp add: push_bit_eq_mult)
  have d: "drop_bit 29 (of_nat n :: u32) = of_nat (8 * n div 2 ^ 32)"
  proof -
    have "unat (drop_bit 29 (of_nat n :: u32)) = n div 2 ^ 29"
      unfolding unsigned_drop_bit_eq unsigned_of_nat
      using assms by (simp add: take_bit_eq_mod drop_bit_eq_div)
    also have "\<dots> = 8 * n div 2 ^ 32" by simp
    finally have "of_nat (unat (drop_bit 29 (of_nat n :: u32))) = (of_nat (8 * n div 2 ^ 32) :: u32)"
      by (rule arg_cong)
    then show ?thesis by simp
  qed
  have u: "unat ?a = 8 * m mod 2 ^ 32" "unat ?b = 8 * n mod 2 ^ 32"
    by (simp_all add: unsigned_of_nat take_bit_eq_mod del: of_nat_mult)
  have dv: "8 * (m + n) div 2 ^ 32 = 8 * m div 2 ^ 32 + 8 * n div 2 ^ 32 +
      (if (2 :: nat) ^ 32 \<le> 8 * m mod 2 ^ 32 + 8 * n mod 2 ^ 32 then 1 else 0)"
    unfolding distrib_left div_add1_eq [of "8 * m" "8 * n"]
    by (rule arg_cong [of _ _ "(+) _"], rule div_two) simp_all
  show ?thesis
    unfolding b d md5_carry u dv by (simp del: power_numeral)
qed

lemma md5_store_take:
  "length buf = 64 \<Longrightarrow> i + length src \<le> 64 \<Longrightarrow>
     length (md5_store i src buf) = 64 \<and> take (i + length src) (md5_store i src buf) = take i buf @ src"
  by (simp add: md5_store_def)

lemma md5_update_reps:
  assumes c: "md5_reps c m" and l: "length x < 2 ^ 32"
  shows "md5_reps (md5_update c x) (m @ x)"
proof -
  let ?k = "length m mod 64"
  have ix: "unat (drop_bit 3 (md_count0 c) AND 0x3F) = ?k"
    by (rule md5_index) (use c in \<open>unfold md5_reps_def, blast\<close>)
  have cs: "md_count0 c = of_nat (8 * length m)" "md_count1 c = of_nat (8 * length m div 2 ^ 32)"
    using c unfolding md5_reps_def by blast+
  have c0: "md_count0 c + push_bit 3 (of_nat (length x)) = of_nat (8 * length (m @ x))"
    using c by (simp add: md5_reps_def push_bit_eq_mult distrib_left)
  have c1: "(if md_count0 c + push_bit 3 (of_nat (length x)) < push_bit 3 (of_nat (length x))
      then md_count1 c + 1 else md_count1 c) + drop_bit 29 (of_nat (length x)) =
      of_nat (8 * length (m @ x) div 2 ^ 32)"
    using md5_count [OF l, of "length m"] unfolding cs length_append .
  have buf: "length (md_buffer c) = 64" "take ?k (md_buffer c) = md5_rest m" "md_state c = md5_absorb md5_iv m"
    using c by (simp_all add: md5_reps_def)
  show ?thesis
  proof (cases "64 - ?k \<le> length x")
    case True
    let ?p = "64 - ?k"
    let ?full = "md5_store ?k (take ?p x) (md_buffer c)"
    have f: "length ?full = 64" "take 64 ?full = md5_rest m @ take ?p x"
      using md5_store_take [of "md_buffer c" ?k "take ?p x"] buf True by simp_all
    then have full: "?full = md5_rest m @ take ?p x" by simp
    have tk: "take 64 (md5_rest m @ x) = ?full" "drop 64 (md5_rest m @ x) = drop ?p x"
      "64 \<le> length (md5_rest m @ x)"
      using full True by simp_all
    have a: "md5_absorb md5_iv (m @ x) = md5_absorb (md5_transform (md_state c) ?full) (drop ?p x)"
      unfolding md5_absorb_resume [of md5_iv m x] md5_absorb_long [OF tk(3)] tk(1,2) buf(3) ..
    have r: "md5_rest (m @ x) = md5_rest (drop ?p x)"
      unfolding md5_rest_append [of m x] md5_rest_long [OF tk(3)] tk(2) ..
    have u: "md5_update c x = c\<lparr>md_count0 := of_nat (8 * length (m @ x)),
        md_count1 := of_nat (8 * length (m @ x) div 2 ^ 32), md_state := md5_absorb md5_iv (m @ x),
        md_buffer := md5_store 0 (md5_rest (m @ x)) ?full\<rparr>"
      unfolding md5_update_def Let_def ix unfolding c1 unfolding c0 md5_blocks_absorb [OF True] prod.case
        a r md5_rest_drop [OF True]
      using True by (simp only: if_True)
    have "length (md5_rest (m @ x)) \<le> 64" by (simp add: less_imp_le)
    with md5_store_take [OF f(1), of 0 "md5_rest (m @ x)"]
    have "length (md5_store 0 (md5_rest (m @ x)) ?full) = 64"
      "take (length (m @ x) mod 64) (md5_store 0 (md5_rest (m @ x)) ?full) = md5_rest (m @ x)"
      by simp_all
    then show ?thesis unfolding u by (simp add: md5_reps_def)
  next
    case False
    let ?b = "md5_store ?k x (md_buffer c)"
    have s: "length (md5_rest m @ x) < 64" using False by simp
    have b: "length ?b = 64" "take (?k + length x) ?b = md5_rest m @ x"
      using md5_store_take [of "md_buffer c" ?k x] buf False by simp_all
    have r: "md5_rest (m @ x) = md5_rest m @ x"
      unfolding md5_rest_append [of m x] by (rule md5_rest_short [OF s])
    have "md5_absorb md5_iv (m @ x) = md_state c"
      unfolding md5_absorb_resume [of md5_iv m x] md5_absorb_short [OF s] buf(3) ..
    moreover have "length (m @ x) mod 64 = ?k + length x"
      using arg_cong [OF r, of length] by simp
    moreover have "md5_update c x = c\<lparr>md_count0 := of_nat (8 * length (m @ x)),
        md_count1 := of_nat (8 * length (m @ x) div 2 ^ 32), md_buffer := ?b\<rparr>"
      unfolding md5_update_def Let_def ix unfolding c1 unfolding c0 using False by (simp only: if_False)
    ultimately show ?thesis using b r by (simp add: md5_reps_def)
  qed
qed

section \<open>The digest\<close>

lemma md5_init_reps: "length (md_buffer c) = 64 \<Longrightarrow> md5_reps (md5_init c) []"
  by (simp add: md5_reps_def md5_init_def md5_iv_def md5_absorb_short md5_rest_def)

lemma md5_updates_reps:
  "md5_reps c m \<Longrightarrow> \<forall>x \<in> set xs. length x < 2 ^ 32 \<Longrightarrow> md5_reps (fold (\<lambda>x c. md5_update c x) xs c) (m @ concat xs)"
proof (induction xs arbitrary: c m)
  case (Cons x xs)
  have "md5_reps (md5_update c x) (m @ x)" using Cons.prems by (intro md5_update_reps) simp_all
  from Cons.IH [OF this] Cons.prems(2) show ?case by simp
qed simp

lemma length_md5_encode: "length (md5_encode ws) = 4 * length ws"
  by (induction ws) (simp_all add: md5_encode_def)

lemma md5_pad_take:
  assumes "0 < k" and "k \<le> 64"
  shows "take k md5_padding = 0x80 # replicate (k - 1) 0"
  using assms by (simp add: md5_padding_def take_Cons' min_def)

lemma md5_final_reps:
  assumes c: "md5_reps c m"
  shows "md5_final c = (md5 m, md5_ctx_zero)"
proof -
  let ?k = "length m mod 64"
  let ?pad = "if ?k < 56 then 56 - ?k else 120 - ?k"
  let ?bits = "md5_encode [md_count0 c, md_count1 c]"
  let ?b64 = "of_nat (8 * length m) :: 64 word"
  have cs: "md_count0 c = of_nat (8 * length m)" "md_count1 c = of_nat (8 * length m div 2 ^ 32)"
    using c unfolding md5_reps_def by blast+
  have ix: "unat (drop_bit 3 (md_count0 c) AND 0x3F) = ?k" by (rule md5_index [OF cs(1)])
  have pos: "0 < ?pad" "?pad \<le> 64" "?pad - 1 = (119 - ?k) mod 64"
    using mod_less_divisor [of 64 "length m"] by (auto simp: le_mod_geq)
  have bits: "md5_encode [ucast ?b64, ucast (drop_bit 32 ?b64)] = ?bits"
  proof -
    have N: "take_bit 32 (drop_bit 32 (take_bit 64 n)) = take_bit 32 (n div 2 ^ 32)" for n :: nat
      unfolding drop_bit_eq_div [symmetric] by (rule bit_eqI) (auto simp: bit_simps)
    have "(ucast ?b64 :: u32) = of_nat (8 * length m)"
      by (rule word_unat_eq_iff [THEN iffD2]) (simp add: unsigned_of_nat unsigned_ucast_eq del: of_nat_mult)
    moreover have "(ucast (drop_bit 32 ?b64) :: u32) = of_nat (8 * length m div 2 ^ 32)"
      by (rule word_unat_eq_iff [THEN iffD2])
        (use N [of "8 * length m"] in
          \<open>simp add: unsigned_of_nat unsigned_ucast_eq unsigned_drop_bit_eq del: of_nat_mult\<close>)
    ultimately show ?thesis unfolding cs by simp
  qed
  have padded: "md5_padded m = (m @ take ?pad md5_padding) @ ?bits"
    unfolding md5_padded_def Let_def bits md5_pad_take [OF pos(1,2)] pos(3) by simp
  have r1: "md5_reps (md5_update c (take ?pad md5_padding)) (m @ take ?pad md5_padding)"
    by (rule md5_update_reps [OF c]) (simp add: md5_padding_def)
  have "md5_reps (md5_update (md5_update c (take ?pad md5_padding)) ?bits) (md5_padded m)"
    unfolding padded by (rule md5_update_reps [OF r1]) (simp add: length_md5_encode)
  then have "md_state (md5_update (md5_update c (take ?pad md5_padding)) ?bits) = md5_absorb md5_iv (md5_padded m)"
    unfolding md5_reps_def by blast
  then show ?thesis unfolding md5_final_def Let_def ix md5_def by simp
qed



end
