(* ===== verification/Pppoe.thy ===== *)
theory Pppoe
  imports Md5
begin

text \<open>
  The PPPoE client of \<open>examples/pppoe\<close>: \<open>PPPoE.c\<close>, which negotiates a session over a MACRAW socket by
  the chip's own registers, and the task of \<open>pppoe_session.c\<close>. The chip is the record \<open>ppp_lib\<close> of
  ioLibrary calls on a world \<open>'c\<close>; the globals of \<open>PPPoE.c\<close> are one record. An access outside an
  array is \<open>Wild\<close>; a loop that has not ended when its fuel is spent is \<open>Spin\<close>. Logging is left out.
\<close>

section \<open>Outcomes\<close>

datatype 'a run = Done 'a | Wild | Spin

fun and_run :: "'a run \<Rightarrow> ('a \<Rightarrow> 'b run) \<Rightarrow> 'b run" where
  "and_run (Done x) f = f x"
| "and_run Wild f = Wild"
| "and_run Spin f = Spin"

definition inside :: "'a option \<Rightarrow> 'a run" where
  "inside x = (case x of Some y \<Rightarrow> Done y | None \<Rightarrow> Wild)"

lemma and_run_Done: "and_run r f = Done y \<longleftrightarrow> (\<exists>x. r = Done x \<and> f x = Done y)"
  by (cases r) auto

lemma inside_simps [simp]: "inside (Some x) = Done x" "inside None = Wild"
  "inside z = Done x \<longleftrightarrow> z = Some x"
  by (auto simp: inside_def split: option.splits)

section \<open>Constants and messages\<close>

definition PPP_MAX_RETRYSEND_COUNT :: u8 where "PPP_MAX_RETRYSEND_COUNT = 5"
definition PPP_MAX_RETRYRECV_COUNT :: nat where "PPP_MAX_RETRYRECV_COUNT = 32"
definition PPP_MAX_RETRY_COUNT :: u16 where "PPP_MAX_RETRY_COUNT = 5"
definition PPPoE_DISCOVERY :: u16 where "PPPoE_DISCOVERY = 0x8863"
definition PPPoE_SESSION :: u16 where "PPPoE_SESSION = 0x8864"
definition PPPoE_PADI :: u8 where "PPPoE_PADI = 0x09"
definition PPPoE_PADO :: u8 where "PPPoE_PADO = 0x07"
definition PPPoE_PADR :: u8 where "PPPoE_PADR = 0x19"
definition PPPoE_PADS :: u8 where "PPPoE_PADS = 0x65"
definition PPPoED_SERVICE_NAME :: u16 where "PPPoED_SERVICE_NAME = 0x0101"
definition PPPoED_HOST_UNIQ :: u16 where "PPPoED_HOST_UNIQ = 0x0103"
definition PPPoED_AC_COOKIE :: u16 where "PPPoED_AC_COOKIE = 0x0104"
definition PPPoE_LCP :: u16 where "PPPoE_LCP = 0xC021"
definition PPPoE_PAP :: u16 where "PPPoE_PAP = 0xC023"
definition PPPoE_CHAP :: u16 where "PPPoE_CHAP = 0xC223"
definition PPPoE_IPCP :: u16 where "PPPoE_IPCP = 0x8021"
definition PPP_CONFIG_REQ :: u8 where "PPP_CONFIG_REQ = 1"
definition PPP_CONFIG_ACK :: u8 where "PPP_CONFIG_ACK = 2"
definition PPP_CONFIG_NAK :: u8 where "PPP_CONFIG_NAK = 3"
definition PPP_CONFIG_REJ :: u8 where "PPP_CONFIG_REJ = 4"
definition PPP_TERM_REQ :: u8 where "PPP_TERM_REQ = 5"
definition PPP_TERM_ACK :: u8 where "PPP_TERM_ACK = 6"
definition PPP_ECHO_REQ :: u8 where "PPP_ECHO_REQ = 9"
definition LCP_MRU :: u8 where "LCP_MRU = 1"
definition LCP_AUTH :: u8 where "LCP_AUTH = 3"
definition LCP_MAGICNUM :: u8 where "LCP_MAGICNUM = 5"
definition CHAP_MD5 :: u8 where "CHAP_MD5 = 5"
definition FLAG_DISCOVERY_RCV_PADO :: u16 where "FLAG_DISCOVERY_RCV_PADO = 1"
definition FLAG_DISCOVERY_RCV_PADS :: u16 where "FLAG_DISCOVERY_RCV_PADS = 2"
definition FLAG_LCP_CR_RCV :: u16 where "FLAG_LCP_CR_RCV = 4"
definition FLAG_LCP_CR_SNT :: u16 where "FLAG_LCP_CR_SNT = 8"
definition FLAG_PAP_ACK_RCV :: u16 where "FLAG_PAP_ACK_RCV = 0x10"
definition FLAG_CHAP_SUC_RCV :: u16 where "FLAG_CHAP_SUC_RCV = 0x20"
definition FLAG_IPCP_CR_SNT :: u16 where "FLAG_IPCP_CR_SNT = 0x40"
definition FLAG_IPCP_CR_RCV :: u16 where "FLAG_IPCP_CR_RCV = 0x80"
definition FLAG_IPCP_NAK_RCV :: u16 where "FLAG_IPCP_NAK_RCV = 0x100"
definition FLAG_TERMINATION_ACK_RCV :: u16 where "FLAG_TERMINATION_ACK_RCV = 0x200"
definition FLAG_PADO_SERVICENAME :: u16 where "FLAG_PADO_SERVICENAME = 0x400"
definition PPP_SUCCESS :: u8 where "PPP_SUCCESS = 1"
definition OPTMSG_LEN :: nat where "OPTMSG_LEN = 80"
definition CV_HV_LEN :: u8 where "CV_HV_LEN = 16"
definition PPP_FAILED :: u16 where "PPP_FAILED = 0"
definition PPPOE_DATA_BUF_SIZE :: nat where "PPPOE_DATA_BUF_SIZE = 2048"

lemmas ppp_flags = FLAG_DISCOVERY_RCV_PADO_def FLAG_DISCOVERY_RCV_PADS_def FLAG_LCP_CR_RCV_def
  FLAG_LCP_CR_SNT_def FLAG_PAP_ACK_RCV_def FLAG_CHAP_SUC_RCV_def FLAG_IPCP_CR_SNT_def
  FLAG_IPCP_CR_RCV_def FLAG_IPCP_NAK_RCV_def FLAG_TERMINATION_ACK_RCV_def FLAG_PADO_SERVICENAME_def
lemmas ppp_states = PPPoE_DISCOVERY_def PPPoE_LCP_def PPPoE_PAP_def PPPoE_CHAP_def PPPoE_IPCP_def PPP_FAILED_def

text \<open>The 16-bit fields hold the values the code writes: the bytes exchanged, for a machine that
  stores the low byte first.\<close>

record PPPMSG =
  pm_dst_mac :: bytes
  pm_src_mac :: bytes
  pm_ether_type :: u16
  pm_version_type :: u8
  pm_frame_code :: u8
  pm_session_id :: u16
  pm_len :: u16

record PROTOCOL =
  pp_protocol :: u16
  pp_pcode :: u8
  pp_id :: u8
  pp_len :: u16
  pp_opt :: bytes

definition ppp_le16 :: "u16 \<Rightarrow> bytes" where "ppp_le16 w = [lo8 w, hi8 w]"

definition ppp_msg_image :: "PPPMSG \<Rightarrow> bytes" where
  "ppp_msg_image m = pm_dst_mac m @ pm_src_mac m @ ppp_le16 (pm_ether_type m) @
     [pm_version_type m, pm_frame_code m] @ ppp_le16 (pm_session_id m) @ ppp_le16 (pm_len m)"

definition ppp_proto_image :: "PROTOCOL \<Rightarrow> bytes" where
  "ppp_proto_image p = ppp_le16 (pp_protocol p) @ [pp_pcode p, pp_id p] @ ppp_le16 (pp_len p) @ pp_opt p"

section \<open>The chip and the globals\<close>

datatype macraw_sr = SR_CLOSED | SR_MACRAW | SR_OTHER

text \<open>Hardware socket 0 only. \<open>wiz_recv_data\<close> is given the length and yields the bytes.\<close>

record 'c ppp_lib =
  pl_getSn_SR :: "'c \<Rightarrow> macraw_sr \<times> 'c"
  pl_close :: "'c \<Rightarrow> 'c"
  pl_socket_MACRAW :: "u16 \<Rightarrow> u8 \<Rightarrow> 'c \<Rightarrow> 'c"
  pl_getSn_RX_RSR :: "'c \<Rightarrow> u16 \<times> 'c"
  pl_wiz_recv_data :: "u16 \<Rightarrow> 'c \<Rightarrow> bytes \<times> 'c"
  pl_wiz_send_data :: "bytes \<Rightarrow> 'c \<Rightarrow> 'c"
  pl_setSn_CR_SEND :: "'c \<Rightarrow> 'c"
  pl_setSn_CR_RECV :: "'c \<Rightarrow> 'c"
  pl_getSn_CR :: "'c \<Rightarrow> u8 \<times> 'c"
  pl_getSHAR :: "'c \<Rightarrow> bytes \<times> 'c"
  pl_setSHAR :: "bytes \<Rightarrow> 'c \<Rightarrow> 'c"
  pl_setSIPR :: "bytes \<Rightarrow> 'c \<Rightarrow> 'c"
  pl_getMR :: "'c \<Rightarrow> u8 \<times> 'c"
  pl_setMR :: "u8 \<Rightarrow> 'c \<Rightarrow> 'c"
  pl_MR_PPPOE :: u8
  pl_getNETMR2 :: "'c \<Rightarrow> u8 \<times> 'c"
  pl_setNETMR2 :: "u8 \<Rightarrow> 'c \<Rightarrow> 'c"
  pl_NETMR2_PPPoE :: u8
  pl_setPSID :: "u16 \<Rightarrow> 'c \<Rightarrow> 'c"
  pl_setPSIDR :: "u16 \<Rightarrow> 'c \<Rightarrow> 'c"
  pl_PTIMER :: "u8 \<Rightarrow> 'c \<Rightarrow> 'c"
  pl_PTMR :: "u8 \<Rightarrow> 'c \<Rightarrow> 'c"
  pl_sleep_ms :: "nat \<Rightarrow> 'c \<Rightarrow> 'c"
  pl_w6x00 :: bool

record 'c ppp =
  p_chip :: 'c
  p_msg :: PPPMSG
  p_proto :: PROTOCOL
  p_buf :: bytes
  p_NAS_mac :: bytes
  p_NAS_sessionid :: u16
  p_auth_protocol :: u16
  p_chap_algorithm :: u8
  p_context :: md5_ctx
  p_digest :: bytes
  p_protocol_id :: u8
  p_state :: u16
  p_control_flag :: u16
  p_retry_send_count :: u8
  p_retry_count :: u16
  p_recv_count :: u8
  p_ip :: bytes
  p_id :: bytes
  p_pw :: bytes

definition ppp_chip :: "('c \<Rightarrow> 'c) \<Rightarrow> 'c ppp \<Rightarrow> 'c ppp" where
  "ppp_chip f s = s\<lparr>p_chip := f (p_chip s)\<rparr>"

definition ppp_read :: "('c \<Rightarrow> 'a \<times> 'c) \<Rightarrow> 'c ppp \<Rightarrow> 'a \<times> 'c ppp" where
  "ppp_read f s = (let (x, c) = f (p_chip s) in (x, s\<lparr>p_chip := c\<rparr>))"

definition set_flag :: "u16 \<Rightarrow> 'c ppp \<Rightarrow> 'c ppp" where
  "set_flag f s = s\<lparr>p_control_flag := p_control_flag s OR f\<rparr>"

definition flag_set :: "u16 \<Rightarrow> 'c ppp \<Rightarrow> bool" where
  "flag_set f s \<longleftrightarrow> p_control_flag s AND f \<noteq> 0"

text \<open>\<open>while (getSn_CR(sn));\<close>\<close>

definition ppp_latch :: "'c ppp_lib \<Rightarrow> nat \<Rightarrow> 'c ppp \<Rightarrow> 'c ppp run" where
  "ppp_latch lib n s =
     (case poll_loop n (\<lambda>c. let (r, c1) = pl_getSn_CR lib c in (if r \<noteq> 0 then None else Some (), c1)) (p_chip s) of
        None \<Rightarrow> Spin | Some (_, c) \<Rightarrow> Done (s\<lparr>p_chip := c\<rparr>))"

definition set_pppinfo :: "'c ppp_lib \<Rightarrow> bytes \<Rightarrow> bytes \<Rightarrow> u16 \<Rightarrow> 'c ppp \<Rightarrow> 'c ppp" where
  "set_pppinfo lib nas_mac ip sid s =
     (let s1 = (if pl_w6x00 lib
                then (let (r, t) = ppp_read (pl_getNETMR2 lib) s in ppp_chip (pl_setNETMR2 lib (r OR pl_NETMR2_PPPoE lib)) t)
                else (let (r, t) = ppp_read (pl_getMR lib) s in ppp_chip (pl_setMR lib (r OR pl_MR_PPPOE lib)) t));
          s2 = ppp_chip (pl_setSIPR lib ip) (ppp_chip (pl_setSHAR lib nas_mac) s1)
      in if pl_w6x00 lib then ppp_chip (pl_PTMR lib 200) (ppp_chip (pl_setPSIDR lib sid) s2)
         else ppp_chip (pl_PTIMER lib 200) (ppp_chip (pl_setPSID lib sid) s2))"

section \<open>Sending\<close>

text \<open>In the discovery state the payload starts at the options, else at the protocol field. A length
  beyond the structure is an access outside it.\<close>

definition ppp_send :: "'c ppp_lib \<Rightarrow> nat \<Rightarrow> 'c ppp \<Rightarrow> 'c ppp run" where
  "ppp_send lib n s =
     (let src = (if p_state s = PPPoE_DISCOVERY then pp_opt (p_proto s) else ppp_proto_image (p_proto s));
          tmp16 = unat (bswap16 (pm_len (p_msg s)));
          frame = ppp_msg_image (p_msg s) @ take tmp16 src
      in if length src < tmp16 \<or> length (p_buf s) < length frame then Wild
         else ppp_latch lib n (ppp_chip (pl_setSn_CR_SEND lib) (ppp_chip (pl_wiz_send_data lib frame)
                (s\<lparr>p_buf := frame @ drop (length frame) (p_buf s)\<rparr>))))"

text \<open>\<open>memcpy(&PPPPROTO.opt[0], opts, ...)\<close>, with the two length fields.\<close>

definition put_opts :: "bytes \<Rightarrow> 'c ppp \<Rightarrow> 'c ppp" where
  "put_opts opts s = s\<lparr>p_proto := (p_proto s)\<lparr>pp_opt := opts @ drop (length opts) (pp_opt (p_proto s))\<rparr>\<rparr>"

definition put_proto :: "u16 \<Rightarrow> u8 \<Rightarrow> u8 \<Rightarrow> u16 \<Rightarrow> 'c ppp \<Rightarrow> 'c ppp" where
  "put_proto protocol code i len s =
     s\<lparr>p_proto := (p_proto s)\<lparr>pp_protocol := bswap16 protocol, pp_pcode := code, pp_id := i, pp_len := bswap16 (len + 4)\<rparr>,
       p_msg := (p_msg s)\<lparr>pm_len := bswap16 (len + 6)\<rparr>\<rparr>"

definition ppp_reply ::
  "'c ppp_lib \<Rightarrow> nat \<Rightarrow> u16 \<Rightarrow> u8 \<Rightarrow> u8 \<Rightarrow> bytes \<Rightarrow> 'c ppp \<Rightarrow> 'c ppp run" where
  "ppp_reply lib n protocol code i opts s =
     ppp_send lib n (put_opts opts (put_proto protocol code i (of_nat (length opts)) s))"

definition put_session :: "'c ppp \<Rightarrow> 'c ppp" where
  "put_session s = s\<lparr>p_msg := (p_msg s)\<lparr>pm_ether_type := bswap16 PPPoE_SESSION, pm_frame_code := 0,
     pm_session_id := bswap16 (p_NAS_sessionid s)\<rparr>\<rparr>"

text \<open>\<open>PPPPROTO.id = protocol_id++\<close>.\<close>

definition ppp_request :: "'c ppp_lib \<Rightarrow> nat \<Rightarrow> u16 \<Rightarrow> u8 \<Rightarrow> bytes \<Rightarrow> 'c ppp \<Rightarrow> 'c ppp run" where
  "ppp_request lib n protocol code opts s =
     ppp_reply lib n protocol code (p_protocol_id s) opts (s\<lparr>p_protocol_id := p_protocol_id s + 1\<rparr>)"

definition do_discovery :: "'c ppp_lib \<Rightarrow> nat \<Rightarrow> 'c ppp \<Rightarrow> 'c ppp run" where
  "do_discovery lib n s =
     (let (mac, s1) = ppp_read (pl_getSHAR lib) s
      in ppp_send lib n (put_opts ([1, 1, 0, 0, 1, 3, 0, 8, 0, 0] @ mac)
           (s1\<lparr>p_msg := (p_msg s1)\<lparr>pm_dst_mac := replicate 6 0xFF, pm_src_mac := mac,
              pm_ether_type := bswap16 PPPoE_DISCOVERY, pm_version_type := 0x11, pm_frame_code := PPPoE_PADI,
              pm_session_id := 0, pm_len := bswap16 16\<rparr>\<rparr>)))"

definition do_lcp :: "'c ppp_lib \<Rightarrow> nat \<Rightarrow> 'c ppp \<Rightarrow> 'c ppp run" where
  "do_lcp lib n s = ppp_request lib n PPPoE_LCP PPP_CONFIG_REQ [5, 6, 0, 1, 2, 3] (put_session s)"

definition do_lcp_echo :: "'c ppp_lib \<Rightarrow> nat \<Rightarrow> 'c ppp \<Rightarrow> 'c ppp run" where
  "do_lcp_echo lib n s = ppp_request lib n PPPoE_LCP PPP_ECHO_REQ [0, 1, 2, 3] (put_session s)"

definition do_pap :: "'c ppp_lib \<Rightarrow> nat \<Rightarrow> 'c ppp \<Rightarrow> 'c ppp run" where
  "do_pap lib n s =
     (let opts = of_nat (length (p_id s)) # p_id s @ of_nat (length (p_pw s)) # p_pw s
      in if OPTMSG_LEN < length opts then Wild else ppp_request lib n PPPoE_PAP PPP_CONFIG_REQ opts s)"

definition do_ipcp :: "'c ppp_lib \<Rightarrow> nat \<Rightarrow> 'c ppp \<Rightarrow> 'c ppp run" where
  "do_ipcp lib n s = ppp_request lib n PPPoE_IPCP PPP_CONFIG_REQ [3, 6, 0, 0, 0, 0] s"

section \<open>Receiving\<close>

text \<open>The loops over options and tags. \<open>acknak_opt\<close> and \<open>rjt_opt\<close> are what has been stored in them;
  \<open>t_idx\<close> and the remaining length are 16-bit numbers and wrap.\<close>

text \<open>The tags of a PADO: what goes into the PADR, and whether a service name has been taken.\<close>

definition pado_tag :: "bytes \<Rightarrow> u16 \<Rightarrow> nat \<Rightarrow> u16 \<Rightarrow> bytes \<times> bool \<Rightarrow> (bytes \<times> bool) run" where
  "pado_tag buf tagname len t acc =
     (case acc of (ack, named) \<Rightarrow>
      if tagname = PPPoED_SERVICE_NAME then
        (if named then Done acc
         else and_run (inside (rd_n buf (unat t) len)) (\<lambda>b. Done (ack @ b, True)))
      else if tagname = PPPoED_HOST_UNIQ \<or> tagname = PPPoED_AC_COOKIE then
        and_run (inside (rd_n buf (unat t) len)) (\<lambda>b. Done (ack @ b, named))
      else Done acc)"

fun pado_tags :: "nat \<Rightarrow> bytes \<Rightarrow> u16 \<Rightarrow> u16 \<Rightarrow> bytes \<times> bool \<Rightarrow> (bytes \<times> bool) run" where
  "pado_tags 0 buf t taglen acc = Spin"
| "pado_tags (Suc n) buf t taglen acc =
     (if taglen = 0 then Done acc
      else and_run (inside (rd16 buf (unat t))) (\<lambda>tagname.
           and_run (inside (rd16 buf (unat t + 2))) (\<lambda>l.
             if OPTMSG_LEN < length (fst acc) + (unat l + 4) then Done acc
             else and_run (pado_tag buf tagname (unat l + 4) t acc) (\<lambda>acc1.
               pado_tags n buf (t + (l + 4)) (taglen - (l + 4)) acc1))))"

text \<open>The configuration options of LCP and IPCP: \<open>opt\<close> says whether an option is acknowledged or
  rejected, and what else it does to \<open>'a\<close>.\<close>

fun ppp_options ::
  "(bytes \<Rightarrow> u8 \<Rightarrow> nat \<Rightarrow> nat \<Rightarrow> 'a \<Rightarrow> (bool \<times> 'a) run) \<Rightarrow> nat \<Rightarrow> bytes \<Rightarrow> u16 \<Rightarrow> u16 \<Rightarrow> bytes \<Rightarrow> bytes \<Rightarrow> 'a \<Rightarrow>
     (bytes \<times> bytes \<times> 'a) run" where
  "ppp_options opt 0 buf t getlen ack rej a = Spin"
| "ppp_options opt (Suc n) buf t getlen ack rej a =
     (if getlen = 0 then Done (ack, rej, a)
      else and_run (inside (rd buf (unat t))) (\<lambda>code.
           and_run (inside (rd buf (unat t + 1))) (\<lambda>l8.
             let l = unat l8 in
             if OPTMSG_LEN < length ack + l \<or> OPTMSG_LEN < length rej + l then Done (ack, rej, a)
             else and_run (opt buf code (unat t) l a) (\<lambda>(acked, a1).
                  and_run (inside (rd_n buf (unat t) l)) (\<lambda>b.
                    ppp_options opt n buf (t + ucast l8) (getlen - ucast l8)
                      (if acked then ack @ b else ack) (if acked then rej else rej @ b) a1)))))"

text \<open>LCP: the maximum receive unit falls through to the authentication protocol.\<close>

definition lcp_option :: "bytes \<Rightarrow> u8 \<Rightarrow> nat \<Rightarrow> nat \<Rightarrow> u16 \<times> u8 \<Rightarrow> (bool \<times> u16 \<times> u8) run" where
  "lcp_option buf code t l a =
     (if code = LCP_MRU \<or> code = LCP_AUTH then
        and_run (inside (rd16 buf (t + 2))) (\<lambda>auth.
        and_run (inside (rd buf (t + 4))) (\<lambda>alg. Done (True, auth, alg)))
      else if code = LCP_MAGICNUM then Done (True, a)
      else Done (False, a))"

text \<open>IPCP: an address is copied over \<open>pppoe_ip\<close> with the length the option names, less two.\<close>

definition ipcp_option :: "bytes \<Rightarrow> u8 \<Rightarrow> nat \<Rightarrow> nat \<Rightarrow> bytes \<Rightarrow> (bool \<times> bytes) run" where
  "ipcp_option buf code t l ip =
     (if code = 2 then Done (True, ip)
      else if code = 3 then
        (if l < 2 \<or> length ip < l - 2 then Wild
         else and_run (inside (rd_n buf (t + 2) (l - 2))) (\<lambda>b. Done (True, b @ drop (l - 2) ip)))
      else Done (False, ip))"

text \<open>A PADO or a PADS. \<open>k\<close> is the fuel of the loops over the frame.\<close>

definition recv_discovery :: "'c ppp_lib \<Rightarrow> nat \<Rightarrow> nat \<Rightarrow> u8 \<Rightarrow> u16 \<Rightarrow> 'c ppp \<Rightarrow> 'c ppp run" where
  "recv_discovery lib n k pppoecode taglen s =
     (let buf = p_buf s in
      if pppoecode = PPPoE_PADO then
        (let s1 = s\<lparr>p_NAS_mac := take 6 (drop 6 buf)\<rparr>
         in and_run (pado_tags k buf 20 taglen ([], flag_set FLAG_PADO_SERVICENAME s1)) (\<lambda>(ack, named).
              let s2 = (if named then set_flag FLAG_PADO_SERVICENAME s1 else s1);
                  s3 = put_opts ack s2;
                  s4 = s3\<lparr>p_msg := (p_msg s3)\<lparr>pm_dst_mac := p_NAS_mac s3, pm_frame_code := PPPoE_PADR,
                            pm_len := bswap16 (of_nat (length ack))\<rparr>\<rparr>
              in and_run (ppp_send lib n s4) (\<lambda>s5. Done (set_flag FLAG_DISCOVERY_RCV_PADO s5))))
      else if pppoecode = PPPoE_PADS then
        Done ((set_flag FLAG_DISCOVERY_RCV_PADS s)\<lparr>p_NAS_sessionid := be16_of (buf ! 16) (buf ! 17)\<rparr>)
      else Done s)"

definition recv_lcp :: "'c ppp_lib \<Rightarrow> nat \<Rightarrow> nat \<Rightarrow> u8 \<Rightarrow> 'c ppp \<Rightarrow> 'c ppp run" where
  "recv_lcp lib n k code s0 =
     (let s = s0\<lparr>p_proto := (p_proto s0)\<lparr>pp_protocol := bswap16 PPPoE_LCP\<rparr>\<rparr>; buf = p_buf s in
      if code = PPP_CONFIG_REQ then
        and_run (ppp_options lcp_option k buf 26 (be16_of (buf ! 24) (buf ! 25) - 4) [] []
                   (p_auth_protocol s, p_chap_algorithm s)) (\<lambda>(ack, rej, auth, alg).
          let s1 = s\<lparr>p_auth_protocol := auth, p_chap_algorithm := alg\<rparr>
          in if rej \<noteq> [] then ppp_reply lib n PPPoE_LCP PPP_CONFIG_REJ (buf ! 23) rej s1
             else and_run (ppp_reply lib n PPPoE_LCP PPP_CONFIG_ACK (buf ! 23) ack s1) (\<lambda>s2.
                    Done (set_flag FLAG_LCP_CR_RCV s2)))
      else if code = PPP_CONFIG_ACK then Done (set_flag FLAG_LCP_CR_SNT s)
      else if code = PPP_TERM_ACK then Done (set_flag FLAG_TERMINATION_ACK_RCV s)
      else if code = PPP_TERM_REQ then ppp_request lib n PPPoE_LCP PPP_TERM_ACK [0, 1, 2, 3] (put_session s)
      else Done s)"

text \<open>The challenge is copied to a buffer of 80 bytes, then the password, then the identity.\<close>

definition chap_response :: "'c ppp \<Rightarrow> bytes \<Rightarrow> (bytes \<times> 'c ppp) run" where
  "chap_response s cv =
     (let str = cv @ p_pw s @ p_id s;
          (d, ctx) = md5_final (md5_update (md5_init (p_context s)) str);
          opts = CV_HV_LEN # d @ p_id s
      in if OPTMSG_LEN < length str \<or> OPTMSG_LEN < length opts then Wild
         else Done (opts, s\<lparr>p_context := ctx, p_digest := d\<rparr>))"

definition recv_chap :: "'c ppp_lib \<Rightarrow> nat \<Rightarrow> u8 \<Rightarrow> 'c ppp \<Rightarrow> 'c ppp run" where
  "recv_chap lib n code s =
     (let buf = p_buf s in
      if p_chap_algorithm s \<noteq> CHAP_MD5 then Done s
      else if code = 1 then
        and_run (chap_response s (take (unat (buf ! 26)) (drop 27 buf))) (\<lambda>(opts, s1).
          ppp_reply lib n PPPoE_CHAP 2 (buf ! 23) opts s1)
      else if code = 3 then Done (set_flag FLAG_CHAP_SUC_RCV s)
      else Done s)"

definition recv_ipcp :: "'c ppp_lib \<Rightarrow> nat \<Rightarrow> nat \<Rightarrow> u8 \<Rightarrow> 'c ppp \<Rightarrow> 'c ppp run" where
  "recv_ipcp lib n k code s =
     (let buf = p_buf s in
      if code = PPP_CONFIG_REQ \<or> code = PPP_CONFIG_NAK then
        and_run (ppp_options ipcp_option k buf 26 (be16_of (buf ! 24) (buf ! 25) - 4) [] [] (p_ip s))
          (\<lambda>(ack, rej, ip).
          let s1 = s\<lparr>p_ip := ip\<rparr>
          in if rej \<noteq> [] then ppp_reply lib n PPPoE_IPCP PPP_CONFIG_REJ (buf ! 23) rej s1
             else and_run (ppp_reply lib n PPPoE_IPCP (if code = PPP_CONFIG_REQ then 2 else 1) (buf ! 23) ack s1) (\<lambda>s2.
                    Done (set_flag (if code = PPP_CONFIG_REQ then FLAG_IPCP_CR_RCV else FLAG_IPCP_NAK_RCV) s2)))
      else if code = PPP_CONFIG_ACK \<and> flag_set FLAG_IPCP_NAK_RCV s then Done (set_flag FLAG_IPCP_CR_SNT s)
      else Done s)"

text \<open>The frame in \<open>buf\<close>, once it is there. The address check adds up the differences of the bytes.\<close>

definition mac_sum :: "bytes \<Rightarrow> bytes \<Rightarrow> u8" where
  "mac_sum buf mac = buf ! 0 - mac ! 0 + buf ! 1 - mac ! 1 + buf ! 2 - mac ! 2 + buf ! 3 - mac ! 3 +
     buf ! 4 - mac ! 4 + buf ! 5 - mac ! 5"

definition ppp_dispatch :: "'c ppp_lib \<Rightarrow> nat \<Rightarrow> nat \<Rightarrow> bytes \<Rightarrow> 'c ppp \<Rightarrow> 'c ppp run" where
  "ppp_dispatch lib n k mac s =
     (let buf = p_buf s; ethertype = be16_of (buf ! 12) (buf ! 13);
          protocol = be16_of (buf ! 20) (buf ! 21); code = buf ! 22 in
      if mac_sum buf mac \<noteq> 0 then Done s
      else if ethertype = PPPoE_DISCOVERY then
        recv_discovery lib n k (buf ! 15) (be16_of (buf ! 18) (buf ! 19)) s
      else if ethertype = PPPoE_SESSION then
        (if protocol = PPPoE_LCP then recv_lcp lib n k code s
         else if protocol = PPPoE_PAP then
           Done (if code = PPP_CONFIG_ACK then set_flag FLAG_PAP_ACK_RCV s else s)
         else if protocol = PPPoE_CHAP then recv_chap lib n code s
         else if protocol = PPPoE_IPCP then recv_ipcp lib n k code s
         else Done s)
      else Done s)"

definition ppp_recv :: "'c ppp_lib \<Rightarrow> nat \<Rightarrow> nat \<Rightarrow> 'c ppp \<Rightarrow> 'c ppp run" where
  "ppp_recv lib n k s0 =
     (let s = s0\<lparr>p_control_flag := p_control_flag s0 AND NOT FLAG_PADO_SERVICENAME\<rparr>;
          (mac, s1) = ppp_read (pl_getSHAR lib) s;
          (head, s2) = ppp_read (pl_wiz_recv_data lib 2) s1
      in and_run (ppp_latch lib n (ppp_chip (pl_setSn_CR_RECV lib) s2)) (\<lambda>s3.
           let len = be16_of (head ! 0) (head ! 1) - 2;
               (d, s4) = ppp_read (pl_wiz_recv_data lib len) s3
           in if length (p_buf s4) < unat len then Wild
              else and_run (ppp_latch lib n (ppp_chip (pl_setSn_CR_RECV lib)
                     (s4\<lparr>p_buf := d @ drop (unat len) (p_buf s4)\<rparr>))) (\<lambda>s5.
                     ppp_dispatch lib n k mac s5)))"

section \<open>The stages\<close>

text \<open>The waits of every stage: at most 32 turns of 20 ms while the flag is missing; a frame is
  taken when there is one, and \<open>got\<close> runs when the flag has appeared. \<open>ret\<close> goes along.\<close>

fun ppp_wait ::
  "'c ppp_lib \<Rightarrow> nat \<Rightarrow> nat \<Rightarrow> u16 \<Rightarrow> ('c ppp \<times> u8 \<Rightarrow> 'c ppp \<times> u8) \<Rightarrow> nat \<Rightarrow> 'c ppp \<times> u8 \<Rightarrow> ('c ppp \<times> u8) run" where
  "ppp_wait lib n k flag got 0 st = Done st"
| "ppp_wait lib n k flag got (Suc j) st =
     (case st of (s, ret) \<Rightarrow>
      if flag_set flag s then Done st
      else let s1 = (ppp_chip (pl_sleep_ms lib 20) s)\<lparr>p_recv_count := p_recv_count s + 1\<rparr>;
               (len, s2) = ppp_read (pl_getSn_RX_RSR lib) s1
           in if len = 0 then ppp_wait lib n k flag got j (s2, ret)
              else and_run (ppp_recv lib n k s2) (\<lambda>s3.
                     ppp_wait lib n k flag got j (if flag_set flag s3 then got (s3, ret) else (s3, ret))))"

definition wait_for ::
  "'c ppp_lib \<Rightarrow> nat \<Rightarrow> nat \<Rightarrow> u16 \<Rightarrow> ('c ppp \<times> u8 \<Rightarrow> 'c ppp \<times> u8) \<Rightarrow> 'c ppp \<times> u8 \<Rightarrow> ('c ppp \<times> u8) run" where
  "wait_for lib n k flag got st =
     (case st of (s, ret) \<Rightarrow> ppp_wait lib n k flag got PPP_MAX_RETRYRECV_COUNT (s\<lparr>p_recv_count := 0\<rparr>, ret))"

definition count_send :: "'c ppp \<Rightarrow> 'c ppp" where
  "count_send s = s\<lparr>p_retry_send_count := p_retry_send_count s + 1\<rparr>"

definition sent_reset :: "'c ppp \<times> u8 \<Rightarrow> 'c ppp \<times> u8" where
  "sent_reset st = (case st of (s, ret) \<Rightarrow> (s\<lparr>p_retry_send_count := 0\<rparr>, ret))"

definition to_state :: "u16 \<Rightarrow> 'c ppp \<times> u8 \<Rightarrow> 'c ppp \<times> u8" where
  "to_state q st = (case st of (s, ret) \<Rightarrow> (s\<lparr>p_state := q\<rparr>, ret))"

text \<open>Send, count the attempt, wait.\<close>

definition send_then ::
  "('c ppp \<Rightarrow> 'c ppp run) \<Rightarrow> ('c ppp \<times> u8 \<Rightarrow> ('c ppp \<times> u8) run) \<Rightarrow> 'c ppp \<times> u8 \<Rightarrow> ('c ppp \<times> u8) run" where
  "send_then send f st = (case st of (s, ret) \<Rightarrow> and_run (send s) (\<lambda>s1. f (count_send s1, ret)))"

definition stage_discovery :: "'c ppp_lib \<Rightarrow> nat \<Rightarrow> nat \<Rightarrow> 'c ppp \<times> u8 \<Rightarrow> ('c ppp \<times> u8) run" where
  "stage_discovery lib n k st =
     (let w = wait_for lib n k FLAG_DISCOVERY_RCV_PADS (sent_reset \<circ> to_state PPPoE_LCP)
      in if flag_set FLAG_DISCOVERY_RCV_PADO (fst st) then w st else send_then (do_discovery lib n) w st)"

definition lcp_done :: "'c ppp \<times> u8 \<Rightarrow> 'c ppp \<times> u8" where
  "lcp_done st =
     (let auth = p_auth_protocol (fst st) in
      if auth = PPPoE_PAP then sent_reset (to_state PPPoE_PAP st)
      else if auth = PPPoE_CHAP then sent_reset (to_state PPPoE_CHAP st)
      else to_state PPP_FAILED st)"

definition stage_lcp :: "'c ppp_lib \<Rightarrow> nat \<Rightarrow> nat \<Rightarrow> 'c ppp \<times> u8 \<Rightarrow> ('c ppp \<times> u8) run" where
  "stage_lcp lib n k st =
     (let w = wait_for lib n k FLAG_LCP_CR_RCV sent_reset
      in and_run (if flag_set FLAG_LCP_CR_RCV (fst st) then w st else send_then (do_lcp_echo lib n) w st) (\<lambda>st1.
           if flag_set FLAG_LCP_CR_RCV (fst st1)
           then send_then (do_lcp lib n) (wait_for lib n k FLAG_LCP_CR_SNT lcp_done) st1
           else Done st1))"

definition stage_pap :: "'c ppp_lib \<Rightarrow> nat \<Rightarrow> nat \<Rightarrow> 'c ppp \<times> u8 \<Rightarrow> ('c ppp \<times> u8) run" where
  "stage_pap lib n k st =
     (let w = wait_for lib n k FLAG_PAP_ACK_RCV (sent_reset \<circ> to_state PPPoE_IPCP)
      in if flag_set FLAG_PAP_ACK_RCV (fst st) then w st else send_then (do_pap lib n) w st)"

definition stage_chap :: "'c ppp_lib \<Rightarrow> nat \<Rightarrow> nat \<Rightarrow> 'c ppp \<times> u8 \<Rightarrow> ('c ppp \<times> u8) run" where
  "stage_chap lib n k st = wait_for lib n k FLAG_CHAP_SUC_RCV (to_state PPPoE_IPCP) st"

definition ipcp_done :: "'c ppp_lib \<Rightarrow> 'c ppp \<times> u8 \<Rightarrow> 'c ppp \<times> u8" where
  "ipcp_done lib st =
     (let s = fst (sent_reset st) in (set_pppinfo lib (p_NAS_mac s) (p_ip s) (p_NAS_sessionid s) s, PPP_SUCCESS))"

definition stage_ipcp :: "'c ppp_lib \<Rightarrow> nat \<Rightarrow> nat \<Rightarrow> 'c ppp \<times> u8 \<Rightarrow> ('c ppp \<times> u8) run" where
  "stage_ipcp lib n k st =
     and_run (wait_for lib n k FLAG_IPCP_CR_RCV sent_reset st) (\<lambda>st1.
       if flag_set FLAG_IPCP_CR_RCV (fst st1)
       then send_then (do_ipcp lib n) (wait_for lib n k FLAG_IPCP_CR_SNT (ipcp_done lib)) st1
       else Done st1)"

definition stage_failed :: "'c ppp \<times> u8 \<Rightarrow> 'c ppp \<times> u8" where
  "stage_failed st = (case st of (s, ret) \<Rightarrow>
     (s\<lparr>p_retry_count := p_retry_count s + 1, p_control_flag := 0, p_retry_send_count := 0,
        p_state := PPPoE_DISCOVERY\<rparr>, ret))"

definition ppp_stage :: "'c ppp_lib \<Rightarrow> nat \<Rightarrow> nat \<Rightarrow> 'c ppp \<times> u8 \<Rightarrow> ('c ppp \<times> u8) run" where
  "ppp_stage lib n k st =
     (let q = p_state (fst st) in
      if q = PPPoE_DISCOVERY then stage_discovery lib n k st
      else if q = PPPoE_LCP then stage_lcp lib n k st
      else if q = PPPoE_PAP then stage_pap lib n k st
      else if q = PPPoE_CHAP then stage_chap lib n k st
      else if q = PPPoE_IPCP then stage_ipcp lib n k st
      else if q = PPP_FAILED then Done (stage_failed st)
      else Done (to_state PPP_FAILED st))"

text \<open>\<open>ppp_start()\<close>: 1 for success, 2 to be called again.\<close>

definition ppp_start :: "'c ppp_lib \<Rightarrow> nat \<Rightarrow> nat \<Rightarrow> 'c ppp \<Rightarrow> ('c ppp \<times> u8) run" where
  "ppp_start lib n k s0 =
     (let (sr, s) = ppp_read (pl_getSn_SR lib) s0 in
      case sr of
        SR_CLOSED \<Rightarrow> Done (ppp_chip (pl_socket_MACRAW lib 0 0x80) (ppp_chip (pl_close lib) s), 2)
      | SR_MACRAW \<Rightarrow>
          (let s1 = (if PPP_MAX_RETRYSEND_COUNT < p_retry_send_count s then s\<lparr>p_state := PPP_FAILED\<rparr> else s)
           in and_run (ppp_stage lib n k (s1, 2)) (\<lambda>(s2, ret).
                Done (if PPP_MAX_RETRYSEND_COUNT \<le> p_retry_send_count s2 then s2\<lparr>p_state := PPP_FAILED\<rparr> else s2, ret)))
      | SR_OTHER \<Rightarrow> Done (s, 2))"

text \<open>The task: until success or more than five failed rounds. \<open>t\<close> is its fuel.\<close>

fun pppoe_task :: "'c ppp_lib \<Rightarrow> nat \<Rightarrow> nat \<Rightarrow> nat \<Rightarrow> 'c ppp \<Rightarrow> (bool \<times> 'c ppp) run" where
  "pppoe_task lib n k 0 s = Spin"
| "pppoe_task lib n k (Suc t) s =
     and_run (ppp_start lib n k s) (\<lambda>(s1, ret).
       if ret = PPP_SUCCESS \<or> PPP_MAX_RETRY_COUNT < p_retry_count s1 then Done (ret = PPP_SUCCESS, s1)
       else pppoe_task lib n k t (ppp_chip (pl_sleep_ms lib 10) s1))"

section \<open>Termination of a session\<close>

text \<open>The loop inside \<open>do_lcp_terminate()\<close>: until the acknowledgement, or too many attempts.\<close>

fun term_wait :: "'c ppp_lib \<Rightarrow> nat \<Rightarrow> nat \<Rightarrow> nat \<Rightarrow> 'c ppp \<Rightarrow> (u8 option \<times> 'c ppp) run" where
  "term_wait lib n k 0 s = Spin"
| "term_wait lib n k (Suc t) s =
     (if flag_set FLAG_TERMINATION_ACK_RCV s then Done (None, s)
      else let s1 = ppp_chip (pl_sleep_ms lib 10) s in
        if PPP_MAX_RETRY_COUNT < p_retry_count s1 then Done (Some 0, s1)
        else let (len, s2) = ppp_read (pl_getSn_RX_RSR lib) s1 in
          if len = 0 then term_wait lib n k t s2
          else and_run (ppp_recv lib n k s2) (\<lambda>s3.
            if flag_set FLAG_TERMINATION_ACK_RCV s3
            then Done (Some 1, s3\<lparr>p_state := PPPoE_LCP, p_control_flag := 0, p_NAS_sessionid := 0,
                   p_NAS_mac := replicate 6 0, p_ip := replicate 4 0\<rparr>)
            else term_wait lib n k t s3))"

fun term_loop :: "'c ppp_lib \<Rightarrow> nat \<Rightarrow> nat \<Rightarrow> nat \<Rightarrow> nat \<Rightarrow> 'c ppp \<Rightarrow> (u8 \<times> 'c ppp) run" where
  "term_loop lib n k t 0 s = Spin"
| "term_loop lib n k t (Suc u) s =
     and_run (ppp_send lib n s) (\<lambda>s1.
       and_run (term_wait lib n k t (s1\<lparr>p_retry_count := p_retry_count s1 + 1\<rparr>)) (\<lambda>(r, s2).
         case r of Some x \<Rightarrow> Done (x, s2) | None \<Rightarrow> term_loop lib n k t u s2))"

text \<open>The message is built once, before the loop.\<close>

definition do_lcp_terminate :: "'c ppp_lib \<Rightarrow> nat \<Rightarrow> nat \<Rightarrow> nat \<Rightarrow> 'c ppp \<Rightarrow> (u8 \<times> 'c ppp) run" where
  "do_lcp_terminate lib n k t s =
     (let s1 = put_session s
      in term_loop lib n k t t (put_opts [0, 1, 2, 3] (put_proto PPPoE_LCP PPP_TERM_REQ (p_protocol_id s1) 4
           (s1\<lparr>p_protocol_id := p_protocol_id s1 + 1\<rparr>))))"

end
