(* ===== verification/Pppoe_Props.thy ===== *)
theory Pppoe_Props
  imports Pppoe
begin

text \<open>
  Properties of the PPPoE client: what every call keeps, how it answers a configuration request and
  a challenge, when it gives up, and the stages in which it never does.
\<close>

section \<open>What every call keeps\<close>

text \<open>The documented sizes of what the library hands out.\<close>

definition ppp_chip_ok :: "'c ppp_lib \<Rightarrow> bool" where
  "ppp_chip_ok lib \<longleftrightarrow> (\<forall>c. length (fst (pl_getSHAR lib c)) = 6) \<and>
     (\<forall>n c. length (fst (pl_wiz_recv_data lib n c)) = unat n)"

definition ppp_ok :: "'c ppp \<Rightarrow> bool" where
  "ppp_ok s \<longleftrightarrow> length (p_buf s) = PPPOE_DATA_BUF_SIZE \<and> length (pp_opt (p_proto s)) = OPTMSG_LEN \<and>
     length (pm_dst_mac (p_msg s)) = 6 \<and> length (pm_src_mac (p_msg s)) = 6 \<and> length (p_NAS_mac s) = 6 \<and>
     length (p_ip s) = 4 \<and> length (md_buffer (p_context s)) = 64"

definition ctl :: "'c ppp \<Rightarrow> u16 \<times> u8 \<times> u16 \<times> bytes \<times> bytes" where
  "ctl s = (p_state s, p_retry_send_count s, p_retry_count s, p_id s, p_pw s)"

definition keeps :: "'c ppp \<Rightarrow> 'c ppp \<Rightarrow> bool" where
  "keeps s s' \<longleftrightarrow> (ppp_ok s \<longrightarrow> ppp_ok s') \<and> ctl s' = ctl s"

lemma keeps_refl [simp]: "keeps s s" by (simp add: keeps_def)
lemma keeps_trans: "keeps s s1 \<Longrightarrow> keeps s1 s2 \<Longrightarrow> keeps s s2" by (simp add: keeps_def)

lemma ppp_ok_frame [simp]:
  "ppp_ok (s\<lparr>p_chip := c\<rparr>) = ppp_ok s" "ppp_ok (s\<lparr>p_control_flag := f\<rparr>) = ppp_ok s"
  "ppp_ok (s\<lparr>p_NAS_sessionid := i\<rparr>) = ppp_ok s" "ppp_ok (s\<lparr>p_auth_protocol := i, p_chap_algorithm := a\<rparr>) = ppp_ok s"
  "ppp_ok (s\<lparr>p_protocol_id := b\<rparr>) = ppp_ok s" "ppp_ok (s\<lparr>p_recv_count := b\<rparr>) = ppp_ok s"
  "ppp_ok (s\<lparr>p_state := i\<rparr>) = ppp_ok s" "ppp_ok (s\<lparr>p_retry_send_count := b\<rparr>) = ppp_ok s"
  "ppp_ok (s\<lparr>p_retry_count := i\<rparr>) = ppp_ok s" "ppp_ok (set_flag f s) = ppp_ok s"
  "ppp_ok (ppp_chip h s) = ppp_ok s"
  by (simp_all add: ppp_ok_def set_flag_def ppp_chip_def)

lemma ctl_frame [simp]:
  "ctl (s\<lparr>p_chip := c\<rparr>) = ctl s" "ctl (s\<lparr>p_control_flag := f\<rparr>) = ctl s"
  "ctl (s\<lparr>p_NAS_sessionid := i\<rparr>) = ctl s" "ctl (s\<lparr>p_auth_protocol := i, p_chap_algorithm := a\<rparr>) = ctl s"
  "ctl (s\<lparr>p_protocol_id := b\<rparr>) = ctl s" "ctl (s\<lparr>p_recv_count := b\<rparr>) = ctl s"
  "ctl (s\<lparr>p_proto := q\<rparr>) = ctl s" "ctl (s\<lparr>p_msg := m\<rparr>) = ctl s" "ctl (s\<lparr>p_buf := d\<rparr>) = ctl s"
  "ctl (s\<lparr>p_NAS_mac := d\<rparr>) = ctl s" "ctl (s\<lparr>p_ip := d\<rparr>) = ctl s"
  "ctl (s\<lparr>p_context := x, p_digest := d\<rparr>) = ctl s"
  "ctl (set_flag f s) = ctl s" "ctl (ppp_chip h s) = ctl s" "ctl (put_opts d s) = ctl s"
  "ctl (put_proto pr cd j l s) = ctl s" "ctl (put_session s) = ctl s"
  by (simp_all add: ctl_def set_flag_def ppp_chip_def put_opts_def put_proto_def put_session_def)

lemma ppp_ok_put_opts: "length opts \<le> OPTMSG_LEN \<Longrightarrow> ppp_ok s \<Longrightarrow> ppp_ok (put_opts opts s)"
  by (simp add: ppp_ok_def put_opts_def)

lemma ppp_ok_put [simp]:
  "ppp_ok (put_proto pr c j l s) = ppp_ok s" "ppp_ok (put_session s) = ppp_ok s"
  "ppp_ok (s\<lparr>p_proto := (p_proto s)\<lparr>pp_protocol := w\<rparr>\<rparr>) = ppp_ok s"
  by (auto simp: ppp_ok_def put_opts_def put_proto_def put_session_def)

lemma ppp_read_keeps: "ppp_read f s = (x, s') \<Longrightarrow> x = fst (f (p_chip s)) \<and> s' = s\<lparr>p_chip := snd (f (p_chip s))\<rparr>"
  by (auto simp: ppp_read_def split: prod.splits)

lemma latch_keeps: "ppp_latch lib n s = Done s' \<Longrightarrow> \<exists>c. s' = s\<lparr>p_chip := c\<rparr>"
  by (auto simp: ppp_latch_def split: option.splits)

lemma length_ppp_msg_image: "ppp_ok s \<Longrightarrow> length (ppp_msg_image (p_msg s)) = 20"
  by (simp add: ppp_ok_def ppp_msg_image_def ppp_le16_def)

lemma ppp_send_keeps: "ppp_send lib n s = Done s' \<Longrightarrow> keeps s s'"
  by (auto simp: ppp_send_def Let_def keeps_def ppp_ok_def dest!: latch_keeps split: if_splits)
    (auto simp: ppp_chip_def ctl_def)

lemma ppp_reply_keeps: "ppp_reply lib n p c i opts s = Done s' \<Longrightarrow> length opts \<le> OPTMSG_LEN \<Longrightarrow> keeps s s'"
  unfolding ppp_reply_def by (drule ppp_send_keeps) (simp add: keeps_def ppp_ok_put_opts)

lemma ppp_request_keeps: "ppp_request lib n p c opts s = Done s' \<Longrightarrow> length opts \<le> OPTMSG_LEN \<Longrightarrow> keeps s s'"
  unfolding ppp_request_def by (drule (1) ppp_reply_keeps) (simp add: keeps_def)

lemma put_session_flags [simp]: "p_control_flag (put_session s) = p_control_flag s"
  by (simp add: put_session_def)

section \<open>Options\<close>

lemma pado_tags_length:
  "pado_tags n buf t l acc = Done (ack, b) \<Longrightarrow> length (fst acc) \<le> OPTMSG_LEN \<Longrightarrow> length ack \<le> OPTMSG_LEN"
proof (induction n buf t l acc rule: pado_tags.induct)
  case (2 n buf t taglen acc)
  show ?case
  proof (cases "taglen = 0")
    case False
    obtain tg l where tl: "rd16 buf (unat t) = Some tg" "rd16 buf (unat t + 2) = Some l"
      using 2(2) False by (auto simp: and_run_Done)
    show ?thesis
    proof (cases "OPTMSG_LEN < length (fst acc) + (unat l + 4)")
      case True
      with 2(2,3) False tl show ?thesis by auto
    next
      case small: False
      obtain a1 where a1: "pado_tag buf tg (unat l + 4) t acc = Done a1"
        and r: "pado_tags n buf (t + (l + 4)) (taglen - (l + 4)) a1 = Done (ack, b)"
        using 2(2) False small tl by (auto simp: and_run_Done)
      have "length (fst a1) \<le> OPTMSG_LEN"
        using a1 2(3) small by (auto simp: pado_tag_def and_run_Done rd_n_def split: prod.splits if_splits)
      with 2(1) [OF False small r] show ?thesis by simp
    qed
  qed (use 2 in auto)
qed simp

lemma ppp_options_keep:
  assumes "\<And>c t l a q a'. opt buf c t l a = Done (q, a') \<Longrightarrow> P a \<Longrightarrow> P a'"
  shows "ppp_options opt n buf t g ack rej a = Done (ack', rej', a') \<Longrightarrow>
    length ack \<le> OPTMSG_LEN \<Longrightarrow> length rej \<le> OPTMSG_LEN \<Longrightarrow> P a \<Longrightarrow>
    length ack' \<le> OPTMSG_LEN \<and> length rej' \<le> OPTMSG_LEN \<and> P a'"
proof (induction n arbitrary: t g ack rej a)
  case (Suc n)
  show ?case
  proof (cases "g = 0")
    case False
    obtain code l8 where tl: "rd buf (unat t) = Some code" "rd buf (unat t + 1) = Some l8"
      using Suc.prems(1) False by (auto simp: and_run_Done)
    show ?thesis
    proof (cases "OPTMSG_LEN < length ack + unat l8 \<or> OPTMSG_LEN < length rej + unat l8")
      case True
      with Suc.prems False tl show ?thesis by auto
    next
      case small: False
      obtain q a1 b where s: "opt buf code (unat t) (unat l8) a = Done (q, a1)" "rd_n buf (unat t) (unat l8) = Some b"
        and r: "ppp_options opt n buf (t + ucast l8) (g - ucast l8) (if q then ack @ b else ack)
          (if q then rej else rej @ b) a1 = Done (ack', rej', a')"
        using Suc.prems(1) False small tl by (auto simp: and_run_Done Let_def split: prod.splits)
      have "length b = unat l8" using s(2) by (auto simp: rd_n_def split: if_splits)
      with small Suc.prems(2,3) have "length (if q then ack @ b else ack) \<le> OPTMSG_LEN"
        "length (if q then rej else rej @ b) \<le> OPTMSG_LEN" by auto
      from Suc.IH [OF r this assms [OF s(1) Suc.prems(4)]] show ?thesis .
    qed
  qed (use Suc.prems in auto)
qed simp

lemma ipcp_option_length: "ipcp_option buf c t l ip = Done (q, ip') \<Longrightarrow> length ip = 4 \<Longrightarrow> length ip' = 4"
  by (auto simp: ipcp_option_def and_run_Done rd_n_def split: if_splits)


section \<open>Frames\<close>

lemma recv_discovery_keeps:
  assumes "recv_discovery lib n k code taglen s = Done s'"
  shows "keeps s s'"
proof -
  consider (pado) "code = PPPoE_PADO" | (pads) "code \<noteq> PPPoE_PADO" "code = PPPoE_PADS"
    | (other) "code \<noteq> PPPoE_PADO" "code \<noteq> PPPoE_PADS" by blast
  then show ?thesis
  proof cases
    case pado
    define s1 where "s1 = s\<lparr>p_NAS_mac := take 6 (drop 6 (p_buf s))\<rparr>"
    obtain ack named s5 where a: "pado_tags k (p_buf s) 20 taglen ([], flag_set FLAG_PADO_SERVICENAME s1) = Done (ack, named)"
      and b: "ppp_send lib n (let s3 = put_opts ack (if named then set_flag FLAG_PADO_SERVICENAME s1 else s1)
        in s3\<lparr>p_msg := (p_msg s3)\<lparr>pm_dst_mac := p_NAS_mac s3, pm_frame_code := PPPoE_PADR,
                 pm_len := bswap16 (of_nat (length ack))\<rparr>\<rparr>) = Done s5"
      and s': "s' = set_flag FLAG_DISCOVERY_RCV_PADO s5"
      using assms pado by (auto simp: recv_discovery_def Let_def and_run_Done s1_def [symmetric] cong: if_cong)
    have la: "length ack \<le> OPTMSG_LEN" using pado_tags_length [OF a] by simp
    have "keeps s s5"
      by (rule keeps_trans [OF _ ppp_send_keeps [OF b]])
        (use la in \<open>auto simp: Let_def s1_def ppp_ok_def put_opts_def set_flag_def PPPOE_DATA_BUF_SIZE_def ctl_def keeps_def\<close>)
    then show ?thesis unfolding s' by (simp add: keeps_def)
  next
    case pads
    with assms show ?thesis by (auto simp: recv_discovery_def Let_def keeps_def PPPoE_PADO_def PPPoE_PADS_def)
  next
    case other
    with assms show ?thesis by (auto simp: recv_discovery_def)
  qed
qed

lemma recv_lcp_keeps:
  assumes "recv_lcp lib n k code s0 = Done s'"
  shows "keeps s0 s'"
proof -
  define s where "s = s0\<lparr>p_proto := (p_proto s0)\<lparr>pp_protocol := bswap16 PPPoE_LCP\<rparr>\<rparr>"
  have k0: "keeps s0 s" by (simp add: s_def keeps_def)
  have "keeps s s'"
  proof (cases "code = PPP_CONFIG_REQ")
    case True
    obtain ack rej auth alg where a: "ppp_options lcp_option k (p_buf s) 26 (be16_of (p_buf s ! 24) (p_buf s ! 25) - 4)
        [] [] (p_auth_protocol s, p_chap_algorithm s) = Done (ack, rej, auth, alg)"
      and r: "(if rej \<noteq> [] then ppp_reply lib n PPPoE_LCP PPP_CONFIG_REJ (p_buf s ! 23) rej
          (s\<lparr>p_auth_protocol := auth, p_chap_algorithm := alg\<rparr>)
        else and_run (ppp_reply lib n PPPoE_LCP PPP_CONFIG_ACK (p_buf s ! 23) ack
          (s\<lparr>p_auth_protocol := auth, p_chap_algorithm := alg\<rparr>)) (\<lambda>s2. Done (set_flag FLAG_LCP_CR_RCV s2))) = Done s'"
      using assms True by (auto simp: recv_lcp_def Let_def and_run_Done s_def [symmetric] simp del: if_split)
    have l: "length ack \<le> OPTMSG_LEN \<and> length rej \<le> OPTMSG_LEN \<and> True"
      by (rule ppp_options_keep [OF _ a]) simp_all
    from r l show ?thesis
      by (auto simp: and_run_Done keeps_def dest!: ppp_reply_keeps split: if_splits)
  next
    case False
    with assms show ?thesis
      by (auto simp: recv_lcp_def Let_def s_def [symmetric] keeps_def OPTMSG_LEN_def
          dest!: ppp_request_keeps split: if_splits)
  qed
  with k0 show ?thesis by (rule keeps_trans)
qed

lemma chap_response_keeps:
  assumes "chap_response s cv = Done (opts, s')"
  shows "keeps s s'" and "length opts \<le> OPTMSG_LEN"
  using assms
  by (auto simp: chap_response_def Let_def keeps_def ppp_ok_def md5_final_def md5_ctx_zero_def split: if_splits prod.splits)

lemma recv_chap_keeps: "recv_chap lib n code s = Done s' \<Longrightarrow> keeps s s'"
proof -
  assume a: "recv_chap lib n code s = Done s'"
  show ?thesis
  proof (cases "p_chap_algorithm s = CHAP_MD5 \<and> code = 1")
    case True
    with a obtain opts s1 where c: "chap_response s (take (unat (p_buf s ! 26)) (drop 27 (p_buf s))) = Done (opts, s1)"
      and r: "ppp_reply lib n PPPoE_CHAP 2 (p_buf s ! 23) opts s1 = Done s'"
      by (auto simp: recv_chap_def Let_def and_run_Done)
    from chap_response_keeps [OF c] ppp_reply_keeps [OF r] show ?thesis by (blast intro: keeps_trans)
  next
    case False
    with a show ?thesis by (auto simp: recv_chap_def Let_def keeps_def split: if_splits)
  qed
qed

lemma recv_ipcp_keeps:
  assumes "recv_ipcp lib n k code s = Done s'"
  shows "keeps s s'"
proof (cases "code = PPP_CONFIG_REQ \<or> code = PPP_CONFIG_NAK")
  case True
  obtain ack rej ip where a: "ppp_options ipcp_option k (p_buf s) 26 (be16_of (p_buf s ! 24) (p_buf s ! 25) - 4)
      [] [] (p_ip s) = Done (ack, rej, ip)"
    and r: "(if rej \<noteq> [] then ppp_reply lib n PPPoE_IPCP PPP_CONFIG_REJ (p_buf s ! 23) rej (s\<lparr>p_ip := ip\<rparr>)
      else and_run (ppp_reply lib n PPPoE_IPCP (if code = PPP_CONFIG_REQ then 2 else 1) (p_buf s ! 23) ack (s\<lparr>p_ip := ip\<rparr>))
        (\<lambda>s2. Done (set_flag (if code = PPP_CONFIG_REQ then FLAG_IPCP_CR_RCV else FLAG_IPCP_NAK_RCV) s2))) = Done s'"
    using assms True by (auto simp: recv_ipcp_def Let_def and_run_Done simp del: if_split)
  have l: "length ack \<le> OPTMSG_LEN \<and> length rej \<le> OPTMSG_LEN \<and> (length (p_ip s) = 4 \<longrightarrow> length ip = 4)"
    by (rule ppp_options_keep [where P = "\<lambda>x. length (p_ip s) = 4 \<longrightarrow> length x = 4", OF _ a])
      (auto dest: ipcp_option_length)
  then have "keeps s (s\<lparr>p_ip := ip\<rparr>)" by (simp add: keeps_def ppp_ok_def)
  moreover have "keeps (s\<lparr>p_ip := ip\<rparr>) s'"
    using r l by (auto simp: and_run_Done keeps_def dest!: ppp_reply_keeps split: if_split_asm)
  ultimately show ?thesis by (rule keeps_trans)
next
  case False
  with assms show ?thesis by (auto simp: recv_ipcp_def Let_def keeps_def split: if_splits)
qed

lemma ppp_dispatch_keeps: "ppp_dispatch lib n k mac s = Done s' \<Longrightarrow> keeps s s'"
  by (auto simp: ppp_dispatch_def Let_def keeps_def [of s "set_flag f s" for f]
      intro: recv_discovery_keeps recv_lcp_keeps recv_chap_keeps recv_ipcp_keeps split: if_splits)

lemma ppp_recv_keeps:
  assumes lib: "ppp_chip_ok lib" and r: "ppp_recv lib n k s = Done s'"
  shows "keeps s s'"
proof -
  obtain mac s1 where e1: "ppp_read (pl_getSHAR lib) (s\<lparr>p_control_flag := p_control_flag s AND NOT FLAG_PADO_SERVICENAME\<rparr>) = (mac, s1)"
    by fastforce
  obtain head s2 where e2: "ppp_read (pl_wiz_recv_data lib 2) s1 = (head, s2)" by fastforce
  define len where "len = be16_of (head ! 0) (head ! 1) - 2"
  obtain s3 where l1: "ppp_latch lib n (ppp_chip (pl_setSn_CR_RECV lib) s2) = Done s3"
    using r e1 e2 by (auto simp: ppp_recv_def Let_def and_run_Done)
  obtain d s4 where e3: "ppp_read (pl_wiz_recv_data lib len) s3 = (d, s4)" by fastforce
  from r e1 e2 l1 e3 obtain s5 where sz: "unat len \<le> length (p_buf s4)"
    and l2: "ppp_latch lib n (ppp_chip (pl_setSn_CR_RECV lib) (s4\<lparr>p_buf := d @ drop (unat len) (p_buf s4)\<rparr>)) = Done s5"
    and dsp: "ppp_dispatch lib n k mac s5 = Done s'"
    by (auto simp: ppp_recv_def Let_def and_run_Done len_def split: if_splits)
  have d: "length d = unat len" using ppp_read_keeps [OF e3] lib by (simp add: ppp_chip_ok_def)
  have a1: "keeps s s1" "keeps s1 s2" "keeps s3 s4"
    using ppp_read_keeps [OF e1] ppp_read_keeps [OF e2] ppp_read_keeps [OF e3] by (auto simp: keeps_def)
  have a2: "keeps s2 s3" using latch_keeps [OF l1] by (auto simp: keeps_def)
  have a3: "keeps s4 s5"
    using latch_keeps [OF l2] d sz by (auto simp: keeps_def ppp_ok_def ppp_chip_def)
  show ?thesis
    using a1 a2 a3 ppp_dispatch_keeps [OF dsp] by (blast intro: keeps_trans)
qed


section \<open>The state machine\<close>

text \<open>Between two calls: the globals have their sizes, the state is one of the six, and the send count
  is below five unless the round has failed.\<close>

definition ppp_wf :: "'c ppp \<Rightarrow> bool" where
  "ppp_wf s \<longleftrightarrow> ppp_ok s \<and>
     p_state s \<in> {PPPoE_DISCOVERY, PPPoE_LCP, PPPoE_PAP, PPPoE_CHAP, PPPoE_IPCP, PPP_FAILED} \<and>
     (p_retry_send_count s < 5 \<or> p_retry_send_count s = 5 \<and> p_state s = PPP_FAILED)"

text \<open>Within a call, with at most \<open>m\<close> messages counted.\<close>

definition stage_wf :: "nat \<Rightarrow> 'c ppp \<times> u8 \<Rightarrow> bool" where
  "stage_wf m st \<longleftrightarrow> ppp_ok (fst st) \<and> snd st \<in> {PPP_SUCCESS, 2} \<and>
     p_state (fst st) \<in> {PPPoE_DISCOVERY, PPPoE_LCP, PPPoE_PAP, PPPoE_CHAP, PPPoE_IPCP, PPP_FAILED} \<and>
     unat (p_retry_send_count (fst st)) \<le> m"

lemma stage_wf_keeps:
  "stage_wf m (s, ret) \<Longrightarrow> keeps s s' \<Longrightarrow> stage_wf m (s', ret)"
  by (auto simp: stage_wf_def keeps_def ctl_def)

lemma ppp_wait_wf:
  assumes lib: "ppp_chip_ok lib" and got: "\<And>s ret. flag_set flag s \<Longrightarrow> stage_wf m (s, ret) \<Longrightarrow> stage_wf m (got (s, ret))"
    and zero: "\<And>s ret. flag_set flag s \<Longrightarrow> stage_wf m (s, ret) \<Longrightarrow> flag_set flag (fst (got (s, ret))) \<and>
       (z \<longrightarrow> p_retry_send_count (fst (got (s, ret))) = 0)"
  shows "ppp_wait lib n k flag got j st = Done st' \<Longrightarrow> stage_wf m st \<Longrightarrow>
    stage_wf m st' \<and> (z \<longrightarrow> \<not> flag_set flag (fst st) \<longrightarrow> flag_set flag (fst st') \<longrightarrow> p_retry_send_count (fst st') = 0)"
proof (induction j arbitrary: st)
  case (Suc j)
  obtain s ret where st: "st = (s, ret)" by fastforce
  show ?case
  proof (cases "flag_set flag s")
    case True
    with Suc.prems st show ?thesis by simp
  next
    case False
    define s1 where "s1 = (ppp_chip (pl_sleep_ms lib 20) s)\<lparr>p_recv_count := p_recv_count s + 1\<rparr>"
    obtain len s2 where e: "ppp_read (pl_getSn_RX_RSR lib) s1 = (len, s2)" by fastforce
    have k: "keeps s s2" and f2: "\<not> flag_set flag s2"
      using ppp_read_keeps [OF e] False by (auto simp: s1_def keeps_def flag_set_def ppp_chip_def)
    have w2: "stage_wf m (s2, ret)" using stage_wf_keeps [OF _ k] Suc.prems(2) st by simp
    show ?thesis
    proof (cases "len = 0")
      case True
      with Suc.prems(1) st False e have "ppp_wait lib n k flag got j (s2, ret) = Done st'"
        by (simp add: s1_def [symmetric])
      from Suc.IH [OF this w2] f2 show ?thesis by simp
    next
      case ln: False
      with Suc.prems(1) st False e obtain s3 where r: "ppp_recv lib n k s2 = Done s3"
        and w: "ppp_wait lib n k flag got j (if flag_set flag s3 then got (s3, ret) else (s3, ret)) = Done st'"
        by (auto simp: s1_def [symmetric] and_run_Done)
      have w3: "stage_wf m (s3, ret)" by (rule stage_wf_keeps [OF w2 ppp_recv_keeps [OF lib r]])
      show ?thesis
      proof (cases "flag_set flag s3")
        case True
        note g = got [OF True w3] zero [OF True w3]
        then have "st' = got (s3, ret)" using w True by (cases j; cases "got (s3, ret)") auto
        with g show ?thesis by simp
      next
        case f3: False
        from Suc.IH [of "(s3, ret)"] w w3 f3 show ?thesis by simp
      qed
    qed
  qed
qed simp


lemma wait_for_wf:
  assumes "ppp_chip_ok lib" and "\<And>s ret. flag_set flag s \<Longrightarrow> stage_wf m (s, ret) \<Longrightarrow> stage_wf m (got (s, ret))"
    and "\<And>s ret. flag_set flag s \<Longrightarrow> stage_wf m (s, ret) \<Longrightarrow> flag_set flag (fst (got (s, ret))) \<and>
       (z \<longrightarrow> p_retry_send_count (fst (got (s, ret))) = 0)"
    and "wait_for lib n k flag got st = Done st'" and "stage_wf m st"
  shows "stage_wf m st' \<and> (z \<longrightarrow> \<not> flag_set flag (fst st) \<longrightarrow> flag_set flag (fst st') \<longrightarrow> p_retry_send_count (fst st') = 0)"
proof -
  obtain s ret where st: "st = (s, ret)" by fastforce
  have "stage_wf m (s\<lparr>p_recv_count := 0\<rparr>, ret)" "flag_set flag (s\<lparr>p_recv_count := 0\<rparr>) = flag_set flag s"
    using assms(5) st by (simp_all add: stage_wf_def flag_set_def)
  with ppp_wait_wf [where flag = flag and got = got and m = m and z = z, OF assms(1) assms(2) assms(3), of n k PPP_MAX_RETRYRECV_COUNT "(s\<lparr>p_recv_count := 0\<rparr>, ret)" st']
    assms(4) st show ?thesis by (simp add: wait_for_def)
qed

text \<open>What is done when the flag of a stage appears.\<close>

lemma got_wf [simp]:
  "stage_wf m st \<Longrightarrow> stage_wf m (sent_reset st)"
  "q \<in> {PPPoE_DISCOVERY, PPPoE_LCP, PPPoE_PAP, PPPoE_CHAP, PPPoE_IPCP, PPP_FAILED} \<Longrightarrow>
     stage_wf m st \<Longrightarrow> stage_wf m (to_state q st)"
  "p_retry_send_count (fst (sent_reset st)) = 0"
  "flag_set f (fst (sent_reset st)) = flag_set f (fst st)" "flag_set f (fst (to_state q st)) = flag_set f (fst st)"
  by (auto simp: stage_wf_def sent_reset_def to_state_def flag_set_def split: prod.splits)

lemma lcp_done_wf: "stage_wf m st \<Longrightarrow> stage_wf m (lcp_done st) \<and> flag_set f (fst (lcp_done st)) = flag_set f (fst st)"
  by (simp add: lcp_done_def Let_def)

lemma set_pppinfo_chip: "\<exists>c. set_pppinfo lib mac ip sid s = s\<lparr>p_chip := c\<rparr>"
proof -
  have same: "\<exists>c. s = s\<lparr>p_chip := c\<rparr>" by (intro exI [of _ "p_chip s"]) simp
  show ?thesis by (auto simp: set_pppinfo_def ppp_chip_def ppp_read_def Let_def split: prod.splits)
qed

lemma ipcp_done_wf: "stage_wf m st \<Longrightarrow> stage_wf m (ipcp_done lib st) \<and> flag_set f (fst (ipcp_done lib st)) = flag_set f (fst st)"
  using set_pppinfo_chip [of lib "p_NAS_mac (fst (sent_reset st))" "p_ip (fst (sent_reset st))"
      "p_NAS_sessionid (fst (sent_reset st))" "fst (sent_reset st)"]
  by (auto simp: ipcp_done_def Let_def stage_wf_def sent_reset_def flag_set_def split: prod.splits)

definition sends_ok :: "('c ppp \<Rightarrow> 'c ppp run) \<Rightarrow> bool" where
  "sends_ok send \<longleftrightarrow> (\<forall>s s'. send s = Done s' \<longrightarrow> keeps s s' \<and> p_control_flag s' = p_control_flag s)"

lemma ppp_send_flags: "ppp_send lib n s = Done s' \<Longrightarrow> p_control_flag s' = p_control_flag s"
  by (auto simp: ppp_send_def Let_def ppp_chip_def dest!: latch_keeps split: if_splits)

lemma ppp_request_flags: "ppp_request lib n p c opts s = Done s' \<Longrightarrow> p_control_flag s' = p_control_flag s"
  unfolding ppp_request_def ppp_reply_def by (drule ppp_send_flags) (simp add: put_opts_def put_proto_def)

lemma sends_ok_simps:
  "sends_ok (do_lcp lib n)" "sends_ok (do_lcp_echo lib n)" "sends_ok (do_pap lib n)" "sends_ok (do_ipcp lib n)"
proof -
  have "keeps s s' \<and> p_control_flag s' = p_control_flag s"
    if "ppp_request lib n pr cd opts (put_session s) = Done s'" "length opts \<le> OPTMSG_LEN" for pr cd opts s s'
    using ppp_request_keeps [OF that] ppp_request_flags [OF that(1)] by (simp add: keeps_def)
  moreover have "keeps s s' \<and> p_control_flag s' = p_control_flag s"
    if "ppp_request lib n pr cd opts s = Done s'" "length opts \<le> OPTMSG_LEN" for pr cd opts s s'
    using ppp_request_keeps [OF that] ppp_request_flags [OF that(1)] by simp
  ultimately show "sends_ok (do_lcp lib n)" "sends_ok (do_lcp_echo lib n)" "sends_ok (do_pap lib n)" "sends_ok (do_ipcp lib n)"
    by (auto simp: sends_ok_def do_lcp_def do_lcp_echo_def do_pap_def do_ipcp_def Let_def OPTMSG_LEN_def split: if_splits)
qed

definition padi :: "bytes \<Rightarrow> 'c ppp \<Rightarrow> 'c ppp" where
  "padi mac s1 = put_opts ([1, 1, 0, 0, 1, 3, 0, 8, 0, 0] @ mac)
     (s1\<lparr>p_msg := (p_msg s1)\<lparr>pm_dst_mac := replicate 6 0xFF, pm_src_mac := mac,
        pm_ether_type := bswap16 PPPoE_DISCOVERY, pm_version_type := 0x11, pm_frame_code := PPPoE_PADI,
        pm_session_id := 0, pm_len := bswap16 16\<rparr>\<rparr>)"

lemma do_discovery_alt:
  "do_discovery lib n s = (let (mac, s1) = ppp_read (pl_getSHAR lib) s in ppp_send lib n (padi mac s1))"
  by (simp only: do_discovery_def padi_def)

lemma padi_keeps: "length mac = 6 \<Longrightarrow> keeps s (padi mac s) \<and> p_control_flag (padi mac s) = p_control_flag s"
  by (simp add: keeps_def padi_def ctl_def put_opts_def ppp_ok_def OPTMSG_LEN_def)

lemma sends_ok_discovery: "ppp_chip_ok lib \<Longrightarrow> sends_ok (do_discovery lib n)"
  unfolding sends_ok_def
proof (intro allI impI)
  fix s s' :: "'a ppp"
  assume lib: "ppp_chip_ok lib" and d: "do_discovery lib n s = Done s'"
  obtain mac s1 where e: "ppp_read (pl_getSHAR lib) s = (mac, s1)" by fastforce
  then have m: "length mac = 6" "keeps s s1" "p_control_flag s1 = p_control_flag s"
    using lib ppp_read_keeps [OF e] by (auto simp: ppp_chip_ok_def keeps_def)
  have snd: "ppp_send lib n (padi mac s1) = Done s'" using d e by (simp add: do_discovery_alt)
  show "keeps s s' \<and> p_control_flag s' = p_control_flag s"
    using keeps_trans [OF m(2) keeps_trans [OF _ ppp_send_keeps [OF snd]]] padi_keeps [OF m(1), of s1]
      ppp_send_flags [OF snd] m(3) by simp
qed

lemma send_then_wf:
  assumes "sends_ok send" and "send_then send f st = Done st'" and "stage_wf m st"
  obtains s1 ret where "f (s1, ret) = Done st'" and "stage_wf (m + 1) (s1, ret)"
    and "\<And>g. flag_set g s1 = flag_set g (fst st)" and "p_retry_send_count s1 = p_retry_send_count (fst st) + 1"
proof -
  obtain s ret where st: "st = (s, ret)" by fastforce
  from assms(2) st obtain s1 where s1: "send s = Done s1" and f: "f (count_send s1, ret) = Done st'"
    by (auto simp: send_then_def and_run_Done)
  have k: "keeps s s1" "p_control_flag s1 = p_control_flag s" using assms(1) s1 by (auto simp: sends_ok_def)
  have w: "stage_wf m (s1, ret)" using stage_wf_keeps [OF _ k(1)] assms(3) st by simp
  have "unat (p_retry_send_count s1 + 1) \<le> m + 1"
    using w by (auto simp: stage_wf_def unat_word_ariths intro: le_trans [OF mod_less_eq_dividend])
  then have "stage_wf (m + 1) (count_send s1, ret)" using w by (simp add: stage_wf_def count_send_def)
  moreover have "p_retry_send_count (count_send s1) = p_retry_send_count s + 1"
    using k(1) by (simp add: count_send_def keeps_def ctl_def)
  ultimately show thesis using that [OF f] k(2) st by (simp add: flag_set_def count_send_def)
qed


lemma flag_set_wait: "flag_set f s \<Longrightarrow> wait_for lib n k f got (s, ret) = Done (s\<lparr>p_recv_count := 0\<rparr>, ret)"
  by (simp add: wait_for_def PPP_MAX_RETRYRECV_COUNT_def numeral_eq_Suc flag_set_def)

lemma stage_lcp_wf:
  assumes lib: "ppp_chip_ok lib" and r: "stage_lcp lib n k st = Done st'" and w: "stage_wf m st" and m: "m \<le> 4"
  shows "stage_wf 5 st'"
proof -
  obtain s ret where st: "st = (s, ret)" by fastforce
  define wt where "wt = wait_for lib n k FLAG_LCP_CR_RCV sent_reset"
  obtain st1 where a: "(if flag_set FLAG_LCP_CR_RCV s then wt st else send_then (do_lcp_echo lib n) wt st) = Done st1"
    and b: "(if flag_set FLAG_LCP_CR_RCV (fst st1)
       then send_then (do_lcp lib n) (wait_for lib n k FLAG_LCP_CR_SNT lcp_done) st1 else Done st1) = Done st'"
    using r st by (auto simp: stage_lcp_def Let_def wt_def [symmetric] and_run_Done simp del: if_split cong: if_cong)
  have "stage_wf 5 st1 \<and> (flag_set FLAG_LCP_CR_RCV (fst st1) \<longrightarrow> stage_wf 4 st1)"
  proof (cases "flag_set FLAG_LCP_CR_RCV s")
    case True
    with a st have "st1 = (s\<lparr>p_recv_count := 0\<rparr>, ret)" by (simp add: wt_def flag_set_wait)
    with w st m show ?thesis by (auto simp: stage_wf_def)
  next
    case False
    with a have "send_then (do_lcp_echo lib n) wt st = Done st1" by simp
    then obtain s1 ret1 where g: "wt (s1, ret1) = Done st1" "stage_wf (m + 1) (s1, ret1)"
      "flag_set FLAG_LCP_CR_RCV s1 = flag_set FLAG_LCP_CR_RCV s"
      using send_then_wf [OF sends_ok_simps(2) _ w] st by (metis fst_conv)
    have "stage_wf (m + 1) st1 \<and> (True \<longrightarrow> \<not> flag_set FLAG_LCP_CR_RCV (fst (s1, ret1)) \<longrightarrow>
        flag_set FLAG_LCP_CR_RCV (fst st1) \<longrightarrow> p_retry_send_count (fst st1) = 0)"
      by (rule wait_for_wf [OF lib _ _ g(1) [unfolded wt_def] g(2)]) simp_all
    then show ?thesis using g(3) False m by (auto simp: stage_wf_def)
  qed
  note w1 = this
  show ?thesis
  proof (cases "flag_set FLAG_LCP_CR_RCV (fst st1)")
    case True
    with w1 have "stage_wf 4 st1" by simp
    moreover have "send_then (do_lcp lib n) (wait_for lib n k FLAG_LCP_CR_SNT lcp_done) st1 = Done st'"
      using True b by simp
    ultimately obtain s2 ret2 where g: "wait_for lib n k FLAG_LCP_CR_SNT lcp_done (s2, ret2) = Done st'" "stage_wf (4 + 1) (s2, ret2)"
      using send_then_wf [OF sends_ok_simps(1)] by metis
    have "stage_wf (4 + 1) st' \<and> (False \<longrightarrow> \<not> flag_set FLAG_LCP_CR_SNT (fst (s2, ret2)) \<longrightarrow>
        flag_set FLAG_LCP_CR_SNT (fst st') \<longrightarrow> p_retry_send_count (fst st') = 0)"
      by (rule wait_for_wf [OF lib _ _ g]) (simp_all add: lcp_done_wf)
    then show ?thesis by simp
  qed (use w1 b in simp)
qed

lemma stage_ipcp_wf:
  assumes lib: "ppp_chip_ok lib" and r: "stage_ipcp lib n k st = Done st'" and w: "stage_wf m st" and m: "m \<le> 4"
  shows "stage_wf 5 st'"
proof -
  obtain st1 where a: "wait_for lib n k FLAG_IPCP_CR_RCV sent_reset st = Done st1"
    and b: "(if flag_set FLAG_IPCP_CR_RCV (fst st1)
       then send_then (do_ipcp lib n) (wait_for lib n k FLAG_IPCP_CR_SNT (ipcp_done lib)) st1 else Done st1) = Done st'"
    using r by (auto simp: stage_ipcp_def and_run_Done simp del: if_split)
  have "stage_wf m st1 \<and> (False \<longrightarrow> \<not> flag_set FLAG_IPCP_CR_RCV (fst st) \<longrightarrow>
      flag_set FLAG_IPCP_CR_RCV (fst st1) \<longrightarrow> p_retry_send_count (fst st1) = 0)"
    by (rule wait_for_wf [OF lib _ _ a w]) simp_all
  then have w1: "stage_wf 4 st1" using m by (auto simp: stage_wf_def)
  show ?thesis
  proof (cases "flag_set FLAG_IPCP_CR_RCV (fst st1)")
    case True
    with b have "send_then (do_ipcp lib n) (wait_for lib n k FLAG_IPCP_CR_SNT (ipcp_done lib)) st1 = Done st'" by simp
    then obtain s2 ret2 where g: "wait_for lib n k FLAG_IPCP_CR_SNT (ipcp_done lib) (s2, ret2) = Done st'" "stage_wf (4 + 1) (s2, ret2)"
      using send_then_wf [OF sends_ok_simps(4) _ w1] by metis
    have "stage_wf (4 + 1) st' \<and> (False \<longrightarrow> \<not> flag_set FLAG_IPCP_CR_SNT (fst (s2, ret2)) \<longrightarrow>
        flag_set FLAG_IPCP_CR_SNT (fst st') \<longrightarrow> p_retry_send_count (fst st') = 0)"
      by (rule wait_for_wf [OF lib _ _ g]) (simp_all add: ipcp_done_wf)
    then show ?thesis by simp
  qed (use w1 b in \<open>simp add: stage_wf_def\<close>)
qed

text \<open>The three stages that send at most once and wait for one flag.\<close>

lemma stage_simple_wf:
  assumes lib: "ppp_chip_ok lib" and snd: "sends_ok send"
    and r: "(if c then wait_for lib n k flag got st else send_then send (wait_for lib n k flag got) st) = Done st'"
    and w: "stage_wf m st" and m: "m \<le> 4"
    and got: "\<And>st. stage_wf 5 st \<Longrightarrow> stage_wf 5 (got st) \<and> flag_set flag (fst (got st)) = flag_set flag (fst st)"
  shows "stage_wf 5 st'"
proof -
  obtain st1 where a: "wait_for lib n k flag got st1 = Done st'" and w1: "stage_wf 5 st1"
  proof (cases c)
    case True
    with r w m that show thesis by (auto simp: stage_wf_def)
  next
    case False
    with r have "send_then send (wait_for lib n k flag got) st = Done st'" by simp
    then obtain s1 ret where "wait_for lib n k flag got (s1, ret) = Done st'" "stage_wf (m + 1) (s1, ret)"
      using send_then_wf [OF snd _ w] by metis
    with m that show thesis by (auto simp: stage_wf_def)
  qed
  have "stage_wf 5 st' \<and> (False \<longrightarrow> \<not> flag_set flag (fst st1) \<longrightarrow>
        flag_set flag (fst st') \<longrightarrow> p_retry_send_count (fst st') = 0)"
    by (rule wait_for_wf [OF lib _ _ a w1]) (simp_all add: got)
  then show ?thesis by simp
qed

lemma ppp_stage_wf:
  assumes lib: "ppp_chip_ok lib" and r: "ppp_stage lib n k st = Done st'" and w: "stage_wf m st"
    and m: "p_state (fst st) \<noteq> PPP_FAILED \<Longrightarrow> m \<le> 4"
  shows "stage_wf 5 st'"
proof -
  have q: "p_state (fst st) \<in> {PPPoE_DISCOVERY, PPPoE_LCP, PPPoE_PAP, PPPoE_CHAP, PPPoE_IPCP, PPP_FAILED}"
    using w by (simp add: stage_wf_def)
  consider (failed) "p_state (fst st) = PPP_FAILED" | (disc) "p_state (fst st) = PPPoE_DISCOVERY"
    | (lcp) "p_state (fst st) = PPPoE_LCP" | (pap) "p_state (fst st) = PPPoE_PAP"
    | (chap) "p_state (fst st) = PPPoE_CHAP" | (ipcp) "p_state (fst st) = PPPoE_IPCP" using q by auto
  then show ?thesis
  proof cases
    case failed
    with r have "st' = stage_failed st" by (simp add: ppp_stage_def Let_def ppp_states)
    with w show ?thesis by (auto simp: stage_failed_def stage_wf_def ppp_ok_def split: prod.splits)
  next
    case disc
    then have m4: "m \<le> 4" using m by (simp add: ppp_states)
    have "stage_discovery lib n k st = Done st'" using r disc by (simp add: ppp_stage_def Let_def)
    then show ?thesis unfolding stage_discovery_def Let_def
      by (rule stage_simple_wf [OF lib sends_ok_discovery [OF lib] _ w m4]) simp
  next
    case lcp
    then have "m \<le> 4" using m by (simp add: ppp_states)
    moreover have "stage_lcp lib n k st = Done st'" using r lcp by (simp add: ppp_stage_def Let_def ppp_states)
    ultimately show ?thesis using stage_lcp_wf [OF lib _ w] by blast
  next
    case pap
    then have m4: "m \<le> 4" using m by (simp add: ppp_states)
    have "stage_pap lib n k st = Done st'" using r pap by (simp add: ppp_stage_def Let_def ppp_states)
    then show ?thesis unfolding stage_pap_def Let_def
      by (rule stage_simple_wf [OF lib sends_ok_simps(3) _ w m4]) simp
  next
    case chap
    then have m4: "m \<le> 4" using m by (simp add: ppp_states)
    have "(if True then wait_for lib n k FLAG_CHAP_SUC_RCV (to_state PPPoE_IPCP) st
        else send_then (do_lcp lib n) (wait_for lib n k FLAG_CHAP_SUC_RCV (to_state PPPoE_IPCP)) st) = Done st'"
      using r chap by (simp add: ppp_stage_def Let_def ppp_states stage_chap_def)
    then show ?thesis by (rule stage_simple_wf [OF lib sends_ok_simps(1) _ w m4]) simp
  next
    case ipcp
    then have "m \<le> 4" using m by (simp add: ppp_states)
    moreover have "stage_ipcp lib n k st = Done st'" using r ipcp by (simp add: ppp_stage_def Let_def ppp_states)
    ultimately show ?thesis using stage_ipcp_wf [OF lib _ w] by blast
  qed
qed

text \<open>C36. Every call of \<open>ppp_start()\<close> that returns leaves the globals well formed - the arrays with
  their sizes, one of the six states, and no more than five messages counted, the fifth only in the
  failed state - and returns success or asks to be called again, whatever frames arrive.\<close>

theorem pppoe_start_type:
  assumes "ppp_chip_ok lib" and "ppp_wf s" and "ppp_start lib n k s = Done (s', ret)"
  shows "ppp_wf s' \<and> ret \<in> {PPP_SUCCESS, 2}"
proof -
  obtain sr s0 where e: "ppp_read (pl_getSn_SR lib) s = (sr, s0)" by fastforce
  have s0: "\<exists>c. s0 = s\<lparr>p_chip := c\<rparr>" using ppp_read_keeps [OF e] by blast
  have w0: "ppp_wf s0" using assms(2) s0 by (auto simp: ppp_wf_def)
  show ?thesis
  proof (cases sr)
    case SR_MACRAW
    define s1 where "s1 = (if PPP_MAX_RETRYSEND_COUNT < p_retry_send_count s0 then s0\<lparr>p_state := PPP_FAILED\<rparr> else s0)"
    have s1: "s1 = s0" using w0 by (auto simp: s1_def ppp_wf_def PPP_MAX_RETRYSEND_COUNT_def)
    from assms(3) e SR_MACRAW obtain s2 where r: "ppp_stage lib n k (s1, 2) = Done (s2, ret)"
      and s': "s' = (if PPP_MAX_RETRYSEND_COUNT \<le> p_retry_send_count s2 then s2\<lparr>p_state := PPP_FAILED\<rparr> else s2)"
      by (auto simp: ppp_start_def Let_def s1_def [symmetric] and_run_Done)
    have "stage_wf (unat (p_retry_send_count s1)) (s1, 2)" using w0 s1 by (simp add: stage_wf_def ppp_wf_def)
    moreover have "p_state (fst (s1, 2 :: u8)) \<noteq> PPP_FAILED \<Longrightarrow> unat (p_retry_send_count s1) \<le> 4"
      using w0 s1 by (auto simp: ppp_wf_def word_less_nat_alt)
    ultimately have w2: "stage_wf 5 (s2, ret)" using ppp_stage_wf [OF assms(1) r] by blast
    then show ?thesis using s'
      by (auto simp: ppp_wf_def stage_wf_def PPP_MAX_RETRYSEND_COUNT_def word_le_nat_alt word_less_nat_alt
          intro: unsigned_word_eqI)
  qed (use assms(3) e w0 in \<open>auto simp: ppp_start_def ppp_wf_def ppp_chip_def PPP_SUCCESS_def\<close>)
qed


section \<open>A silent network\<close>

text \<open>The socket is open, nothing ever arrives, and the command register clears at once.\<close>

definition ppp_quiet :: "'c ppp_lib \<Rightarrow> bool" where
  "ppp_quiet lib \<longleftrightarrow> ppp_chip_ok lib \<and> (\<forall>c. fst (pl_getSn_SR lib c) = SR_MACRAW) \<and>
     (\<forall>c. fst (pl_getSn_RX_RSR lib c) = 0) \<and> (\<forall>c. fst (pl_getSn_CR lib c) = 0)"

text \<open>Only the chip and the receive count differ.\<close>

definition idle_eq :: "'c ppp \<Rightarrow> 'c ppp \<Rightarrow> bool" where
  "idle_eq s s' \<longleftrightarrow> keeps s s' \<and> p_control_flag s' = p_control_flag s"

lemma idle_eq_trans: "idle_eq s s1 \<Longrightarrow> idle_eq s1 s2 \<Longrightarrow> idle_eq s s2"
  by (auto simp: idle_eq_def intro: keeps_trans)

lemma idle_eq_chip [simp]: "idle_eq s (s\<lparr>p_chip := c\<rparr>)" "idle_eq s (ppp_chip f s)" "idle_eq s (s\<lparr>p_recv_count := b\<rparr>)"
  by (simp_all add: idle_eq_def keeps_def ppp_chip_def)

lemma idle_eq_flag: "idle_eq s s' \<Longrightarrow> flag_set f s' = flag_set f s"
  by (simp add: idle_eq_def flag_set_def)

lemma quiet_latch: "ppp_quiet lib \<Longrightarrow> 0 < n \<Longrightarrow> \<exists>c. ppp_latch lib n s = Done (s\<lparr>p_chip := c\<rparr>)"
proof -
  assume q: "ppp_quiet lib" and n: "0 < n"
  obtain r x where "pl_getSn_CR lib (p_chip s) = (r, x)" by fastforce
  moreover have "r = 0" using q calculation by (metis ppp_quiet_def fst_conv)
  ultimately show ?thesis using n by (cases n) (auto simp: ppp_latch_def)
qed

lemma quiet_send:
  assumes q: "ppp_quiet lib" and n: "0 < n" and ok: "ppp_ok s" and l: "unat (bswap16 (pm_len (p_msg s))) \<le> OPTMSG_LEN"
  shows "\<exists>s'. ppp_send lib n s = Done s'"
proof -
  let ?src = "if p_state s = PPPoE_DISCOVERY then pp_opt (p_proto s) else ppp_proto_image (p_proto s)"
  have src: "OPTMSG_LEN \<le> length ?src" using ok by (simp add: ppp_ok_def ppp_proto_image_def)
  have "length (ppp_msg_image (p_msg s)) = 20" by (rule length_ppp_msg_image [OF ok])
  then have "length (ppp_msg_image (p_msg s) @ take (unat (bswap16 (pm_len (p_msg s)))) ?src) \<le> length (p_buf s)"
    using l ok by (simp add: ppp_ok_def PPPOE_DATA_BUF_SIZE_def OPTMSG_LEN_def)
  with l src have "\<exists>t. ppp_send lib n s = ppp_latch lib n t"
    by (auto simp: ppp_send_def Let_def not_less)
  then show ?thesis using quiet_latch [OF q n] by metis
qed

lemma quiet_discovery_send:
  assumes q: "ppp_quiet lib" and n: "0 < n" and ok: "ppp_ok s"
  shows "\<exists>s'. do_discovery lib n s = Done s' \<and> idle_eq s s'"
proof -
  obtain mac s1 where e: "ppp_read (pl_getSHAR lib) s = (mac, s1)" by fastforce
  have m: "length mac = 6" "ppp_ok s1"
    using q ok ppp_read_keeps [OF e] by (auto simp: ppp_quiet_def ppp_chip_ok_def)
  have "ppp_ok (padi mac s1)" using padi_keeps [OF m(1), of s1] m(2) by (simp add: keeps_def)
  moreover have "unat (bswap16 (pm_len (p_msg (padi mac s1)))) \<le> OPTMSG_LEN"
    by (simp add: padi_def put_opts_def OPTMSG_LEN_def)
  ultimately obtain s' where "do_discovery lib n s = Done s'"
    using quiet_send [OF q n] e by (auto simp: do_discovery_alt)
  with sends_ok_discovery [of lib n] q show ?thesis by (auto simp: ppp_quiet_def sends_ok_def idle_eq_def)
qed

lemma quiet_wait:
  assumes q: "ppp_quiet lib"
  shows "\<exists>s'. ppp_wait lib n k flag got j (s, ret) = Done (s', ret) \<and> idle_eq s s'"
proof (induction j arbitrary: s)
  case 0
  then show ?case by (auto simp: idle_eq_def)
next
  case (Suc j)
  show ?case
  proof (cases "flag_set flag s")
    case True
    then show ?thesis by (auto simp: idle_eq_def)
  next
    case False
    define s1 where "s1 = (ppp_chip (pl_sleep_ms lib 20) s)\<lparr>p_recv_count := p_recv_count s + 1\<rparr>"
    obtain len s2 where e: "ppp_read (pl_getSn_RX_RSR lib) s1 = (len, s2)" by fastforce
    have "len = 0" "idle_eq s s2"
      using q ppp_read_keeps [OF e] idle_eq_trans [OF idle_eq_chip(2) idle_eq_trans [OF idle_eq_chip(3) idle_eq_chip(1)]]
      by (auto simp: ppp_quiet_def s1_def)
    moreover have "ppp_wait lib n k flag got (Suc j) (s, ret) = ppp_wait lib n k flag got j (s2, ret)"
      using False e calculation(1) by (simp add: s1_def [symmetric])
    ultimately show ?thesis using Suc.IH [of s2] idle_eq_trans by metis
  qed
qed

lemma quiet_wait_for:
  assumes "ppp_quiet lib"
  shows "\<exists>s'. wait_for lib n k flag got (s, ret) = Done (s', ret) \<and> idle_eq s s'"
  using quiet_wait [OF assms, of n k flag got PPP_MAX_RETRYRECV_COUNT "s\<lparr>p_recv_count := 0\<rparr>" ret]
    idle_eq_trans [OF idle_eq_chip(3)] by (auto simp: wait_for_def)

text \<open>One call, up to the stage.\<close>

lemma quiet_start:
  assumes q: "ppp_quiet lib" and c: "p_retry_send_count s \<le> 5"
  shows "\<exists>s0. idle_eq s s0 \<and> ppp_start lib n k s = and_run (ppp_stage lib n k (s0, 2)) (\<lambda>(s2, ret).
     Done (if PPP_MAX_RETRYSEND_COUNT \<le> p_retry_send_count s2 then s2\<lparr>p_state := PPP_FAILED\<rparr> else s2, ret))"
proof -
  obtain sr s0 where e: "ppp_read (pl_getSn_SR lib) s = (sr, s0)" by fastforce
  have "sr = SR_MACRAW" "idle_eq s s0" "p_retry_send_count s0 = p_retry_send_count s"
    using q ppp_read_keeps [OF e] by (auto simp: ppp_quiet_def)
  then show ?thesis
    using e c by (intro exI [of _ s0]) (simp add: ppp_start_def PPP_MAX_RETRYSEND_COUNT_def not_less [THEN iffD2])
qed

definition disc_round :: "nat \<Rightarrow> nat \<Rightarrow> 'c ppp \<Rightarrow> bool" where
  "disc_round c r s \<longleftrightarrow> ppp_ok s \<and> p_state s = (if c < 5 then PPPoE_DISCOVERY else PPP_FAILED) \<and>
     p_control_flag s = 0 \<and> p_retry_send_count s = of_nat c \<and> p_retry_count s = of_nat r"

lemma idle_eq_round: "idle_eq s s' \<Longrightarrow> disc_round c r s \<Longrightarrow> disc_round c r s'"
  by (auto simp: disc_round_def idle_eq_def keeps_def ctl_def)

lemma small_count:
  assumes "c < 5"
  shows "(of_nat c :: u8) \<le> 5" and "(of_nat (c + 1) :: u8) = of_nat c + 1"
    and "5 \<le> (of_nat c :: u8) + 1 \<longleftrightarrow> \<not> c + 1 < 5"
proof -
  have u: "unat (of_nat m :: u8) = m" if "m \<le> 5" for m using that by (simp add: unat_of_nat take_bit_nat_eq_self)
  show "(of_nat c :: u8) \<le> 5" using u [of c] assms by (simp add: word_le_nat_alt)
  show s: "(of_nat (c + 1) :: u8) = of_nat c + 1" by simp
  show "5 \<le> (of_nat c :: u8) + 1 \<longleftrightarrow> \<not> c + 1 < 5"
    using u [of "c + 1"] assms unfolding s [symmetric] word_le_nat_alt by auto
qed

lemma quiet_attempt:
  assumes q: "ppp_quiet lib" and n: "0 < n" and d: "disc_round c r s" and c: "c < 5"
  shows "\<exists>s'. ppp_start lib n k s = Done (s', 2) \<and> disc_round (c + 1) r s'"
proof -
  have cw: "(of_nat c :: u8) \<le> 5" "(of_nat (c + 1) :: u8) = of_nat c + 1" "5 \<le> (of_nat c :: u8) + 1 \<longleftrightarrow> \<not> c + 1 < 5"
    by (rule small_count [OF c])+
  obtain s0 where s0: "idle_eq s s0" and st: "ppp_start lib n k s = and_run (ppp_stage lib n k (s0, 2)) (\<lambda>(s2, ret).
     Done (if PPP_MAX_RETRYSEND_COUNT \<le> p_retry_send_count s2 then s2\<lparr>p_state := PPP_FAILED\<rparr> else s2, ret))"
    using quiet_start [OF q, of s] d cw(1) by (auto simp: disc_round_def)
  have d0: "disc_round c r s0" by (rule idle_eq_round [OF s0 d])
  then obtain s1 where s1: "do_discovery lib n s0 = Done s1" "idle_eq s0 s1"
    using quiet_discovery_send [OF q n] by (auto simp: disc_round_def)
  obtain s2 where s2: "wait_for lib n k FLAG_DISCOVERY_RCV_PADS (sent_reset \<circ> to_state PPPoE_LCP) (count_send s1, 2) = Done (s2, 2)"
    "idle_eq (count_send s1) s2" using quiet_wait_for [OF q] by metis
  have "ppp_stage lib n k (s0, 2) = Done (s2, 2)"
    using d0 c s1(1) s2(1) by (simp add: ppp_stage_def Let_def disc_round_def stage_discovery_def send_then_def flag_set_def)
  moreover have "disc_round c r s1" by (rule idle_eq_round [OF s1(2) d0])
  then have "ppp_ok s2 \<and> p_state s2 = PPPoE_DISCOVERY \<and> p_control_flag s2 = 0 \<and>
      p_retry_send_count s2 = of_nat c + 1 \<and> p_retry_count s2 = of_nat r"
    using s2(2) c by (auto simp: disc_round_def idle_eq_def keeps_def ctl_def count_send_def)
  ultimately show ?thesis
    unfolding st using cw(2,3) by (auto simp: disc_round_def PPP_MAX_RETRYSEND_COUNT_def)
qed

lemma quiet_failed:
  assumes q: "ppp_quiet lib" and d: "disc_round 5 r s"
  shows "\<exists>s'. ppp_start lib n k s = Done (s', 2) \<and> disc_round 0 (r + 1) s'"
proof -
  obtain s0 where s0: "idle_eq s s0" and st: "ppp_start lib n k s = and_run (ppp_stage lib n k (s0, 2)) (\<lambda>(s2, ret).
     Done (if PPP_MAX_RETRYSEND_COUNT \<le> p_retry_send_count s2 then s2\<lparr>p_state := PPP_FAILED\<rparr> else s2, ret))"
    using quiet_start [OF q, of s] d by (auto simp: disc_round_def)
  have d0: "disc_round 5 r s0" by (rule idle_eq_round [OF s0 d])
  then have "ppp_stage lib n k (s0, 2) = Done (stage_failed (s0, 2))"
    by (simp add: ppp_stage_def Let_def disc_round_def ppp_states)
  moreover have "\<not> (5 :: u8) \<le> 0" by code_simp
  ultimately show ?thesis
    unfolding st using d0 by (auto simp: stage_failed_def disc_round_def PPP_MAX_RETRYSEND_COUNT_def ppp_ok_def add.commute)
qed

text \<open>The number of calls a task takes to give up.\<close>

definition gives_up_after :: "'c ppp_lib \<Rightarrow> nat \<Rightarrow> nat \<Rightarrow> nat \<Rightarrow> 'c ppp \<Rightarrow> bool" where
  "gives_up_after lib n k m s \<longleftrightarrow> (\<exists>f. \<forall>t. pppoe_task lib n k t s = (if t < m then Spin else Done (False, f)))"

lemma gives_up_later:
  assumes "ppp_start lib n k s = Done (s1, 2)" and "p_retry_count s1 \<le> 5"
    and "gives_up_after lib n k m (ppp_chip (pl_sleep_ms lib 10) s1)"
  shows "gives_up_after lib n k (Suc m) s"
proof -
  obtain f where f: "pppoe_task lib n k t (ppp_chip (pl_sleep_ms lib 10) s1) = (if t < m then Spin else Done (False, f))" for t
    using assms(3) by (auto simp: gives_up_after_def)
  have "pppoe_task lib n k t s = (if t < Suc m then Spin else Done (False, f))" for t
    using assms(1,2) by (cases t) (auto simp: f PPP_SUCCESS_def PPP_MAX_RETRY_COUNT_def)
  then show ?thesis unfolding gives_up_after_def by blast
qed

lemma quiet_calls:
  assumes q: "ppp_quiet lib" and n: "0 < n"
  shows "disc_round c r s \<Longrightarrow> c \<le> 5 \<Longrightarrow> r \<le> 5 \<Longrightarrow> gives_up_after lib n k (6 - c + 6 * (5 - r)) s"
proof (induction "6 - c + 6 * (5 - r)" arbitrary: c r s rule: less_induct)
  case less
  have rw: "(of_nat r :: u16) \<le> 5" using less.prems(3) by (auto simp: word_le_nat_alt unat_of_nat take_bit_nat_eq_self)
  show ?case
  proof (cases "c < 5")
    case True
    obtain s1 where s1: "ppp_start lib n k s = Done (s1, 2)" "disc_round (c + 1) r s1"
      using quiet_attempt [OF q n less.prems(1) True] by blast
    have d: "disc_round (c + 1) r (ppp_chip (pl_sleep_ms lib 10) s1)" by (rule idle_eq_round [OF idle_eq_chip(2) s1(2)])
    have "gives_up_after lib n k (6 - (c + 1) + 6 * (5 - r)) (ppp_chip (pl_sleep_ms lib 10) s1)"
      using True less.prems(3) by (intro less.hyps [OF _ d]) simp_all
    then have g: "gives_up_after lib n k (Suc (6 - (c + 1) + 6 * (5 - r))) s"
      using gives_up_later [OF s1(1)] s1(2) rw by (simp add: disc_round_def)
    have "6 - c + 6 * (5 - r) = Suc (6 - (c + 1) + 6 * (5 - r))" using True by arith
    with g show ?thesis by simp
  next
    case False
    with less.prems have c5: "c = 5" by simp
    obtain s1 where s1: "ppp_start lib n k s = Done (s1, 2)" "disc_round 0 (r + 1) s1"
      using quiet_failed [OF q] less.prems(1) c5 by blast
    show ?thesis
    proof (cases "r < 5")
      case True
      have d: "disc_round 0 (r + 1) (ppp_chip (pl_sleep_ms lib 10) s1)" by (rule idle_eq_round [OF idle_eq_chip(2) s1(2)])
      have g: "gives_up_after lib n k (6 - 0 + 6 * (5 - (r + 1))) (ppp_chip (pl_sleep_ms lib 10) s1)"
        using True c5 by (intro less.hyps [OF _ d]) simp_all
      have "p_retry_count s1 \<le> 5"
        using s1(2) True by (auto simp: disc_round_def word_le_nat_alt unat_of_nat take_bit_nat_eq_self simp flip: of_nat_Suc)
      note g1 = gives_up_later [OF s1(1) this g]
      have "6 - c + 6 * (5 - r) = Suc (6 - 0 + 6 * (5 - (r + 1)))" using True c5 by arith
      with g1 show ?thesis by simp
    next
      case False
      with less.prems have r5: "r = 5" by simp
      have "p_retry_count s1 = 6" using s1(2) r5 by (simp add: disc_round_def)
      then have "pppoe_task lib n k t s = (if t < 1 then Spin else Done (False, s1))" for t
        using s1(1) by (cases t) (simp_all add: PPP_SUCCESS_def PPP_MAX_RETRY_COUNT_def)
      then show ?thesis using c5 r5 unfolding gives_up_after_def by auto
    qed
  qed
qed



text \<open>The stages in which the client only listens: after an offer whose confirmation is lost, during
  CHAP, and before the server's IPCP request.\<close>

definition ppp_listening :: "'c ppp \<Rightarrow> bool" where
  "ppp_listening s \<longleftrightarrow>
     (p_state s = PPPoE_DISCOVERY \<and> flag_set FLAG_DISCOVERY_RCV_PADO s \<and> \<not> flag_set FLAG_DISCOVERY_RCV_PADS s) \<or>
     (p_state s = PPPoE_CHAP \<and> \<not> flag_set FLAG_CHAP_SUC_RCV s) \<or>
     (p_state s = PPPoE_IPCP \<and> \<not> flag_set FLAG_IPCP_CR_RCV s)"

lemma idle_eq_listening: "idle_eq s s' \<Longrightarrow> ppp_listening s \<Longrightarrow> ppp_listening s'"
  by (auto simp: ppp_listening_def idle_eq_def keeps_def ctl_def flag_set_def)

lemma quiet_listening:
  assumes q: "ppp_quiet lib" and l: "ppp_listening s" and c: "p_retry_send_count s < 5"
  shows "\<exists>s'. ppp_start lib n k s = Done (s', 2) \<and> idle_eq s s'"
proof -
  obtain s0 where s0: "idle_eq s s0" and st: "ppp_start lib n k s = and_run (ppp_stage lib n k (s0, 2)) (\<lambda>(s2, ret).
     Done (if PPP_MAX_RETRYSEND_COUNT \<le> p_retry_send_count s2 then s2\<lparr>p_state := PPP_FAILED\<rparr> else s2, ret))"
    using quiet_start [OF q, of s] c by (auto simp: less_imp_le)
  have l0: "ppp_listening s0" by (rule idle_eq_listening [OF s0 l])
  have "\<exists>s2. ppp_stage lib n k (s0, 2) = Done (s2, 2) \<and> idle_eq s0 s2"
  proof -
    consider (disc) "p_state s0 = PPPoE_DISCOVERY" "flag_set FLAG_DISCOVERY_RCV_PADO s0"
      | (chap) "p_state s0 = PPPoE_CHAP" | (ipcp) "p_state s0 = PPPoE_IPCP" "\<not> flag_set FLAG_IPCP_CR_RCV s0"
      using l0 by (auto simp: ppp_listening_def)
    then show ?thesis
    proof cases
      case disc
      then show ?thesis using quiet_wait_for [OF q, of n k FLAG_DISCOVERY_RCV_PADS _ s0 2]
        by (simp add: ppp_stage_def Let_def stage_discovery_def)
    next
      case chap
      then show ?thesis using quiet_wait_for [OF q, of n k FLAG_CHAP_SUC_RCV _ s0 2]
        by (simp add: ppp_stage_def Let_def stage_chap_def ppp_states)
    next
      case ipcp
      obtain s2 where w: "wait_for lib n k FLAG_IPCP_CR_RCV sent_reset (s0, 2) = Done (s2, 2)" "idle_eq s0 s2"
        using quiet_wait_for [OF q] by metis
      then show ?thesis using ipcp idle_eq_flag [OF w(2), of FLAG_IPCP_CR_RCV]
        by (intro exI [of _ s2]) (simp add: ppp_stage_def Let_def stage_ipcp_def ppp_states)
    qed
  qed
  then obtain s2 where s2: "ppp_stage lib n k (s0, 2) = Done (s2, 2)" "idle_eq s0 s2" by blast
  have i: "idle_eq s s2" by (rule idle_eq_trans [OF s0 s2(2)])
  then have "\<not> PPP_MAX_RETRYSEND_COUNT \<le> p_retry_send_count s2"
    using c by (simp add: PPP_MAX_RETRYSEND_COUNT_def idle_eq_def keeps_def ctl_def not_le)
  then show ?thesis using st s2(1) i by simp
qed

text \<open>C38. In the stages where the client only listens nothing is counted, so a server that falls silent
  there keeps the task for ever: no number of calls ends it.\<close>

theorem pppoe_listening_hangs:
  assumes "ppp_quiet lib" and "ppp_listening s" and "p_retry_send_count s < 5" and "p_retry_count s \<le> 5"
  shows "\<forall>t. pppoe_task lib n k t s = Spin"
proof
  fix t
  show "pppoe_task lib n k t s = Spin"
    using assms(2-4)
  proof (induction t arbitrary: s)
    case (Suc t)
    obtain s' where s': "ppp_start lib n k s = Done (s', 2)" "idle_eq s s'"
      using quiet_listening [OF assms(1) Suc.prems(1,2)] by blast
    have i: "idle_eq s (ppp_chip (pl_sleep_ms lib 10) s')" by (rule idle_eq_trans [OF s'(2)]) simp
    have "pppoe_task lib n k t (ppp_chip (pl_sleep_ms lib 10) s') = Spin"
      by (rule Suc.IH) (use idle_eq_listening [OF i Suc.prems(1)] i Suc.prems in
        \<open>auto simp: idle_eq_def keeps_def ctl_def\<close>)
    then show ?case
      using s' Suc.prems(3) by (auto simp: PPP_SUCCESS_def PPP_MAX_RETRY_COUNT_def idle_eq_def keeps_def ctl_def not_less)
  qed simp
qed

text \<open>Ending a session: when no acknowledgement comes the loop neither sends again nor counts.\<close>

lemma term_wait_hangs:
  assumes "ppp_quiet lib" and "\<not> flag_set FLAG_TERMINATION_ACK_RCV s" and "p_retry_count s \<le> 5"
  shows "term_wait lib n k t s = Spin"
  using assms(2,3)
proof (induction t arbitrary: s)
  case (Suc t)
  define s1 where "s1 = ppp_chip (pl_sleep_ms lib 10) s"
  obtain len s2 where e: "ppp_read (pl_getSn_RX_RSR lib) s1 = (len, s2)" by fastforce
  have z: "len = 0" using assms(1) ppp_read_keeps [OF e] by (auto simp: ppp_quiet_def)
  have "idle_eq s s2" using ppp_read_keeps [OF e] idle_eq_trans [OF idle_eq_chip(2) idle_eq_chip(1)]
    by (auto simp: s1_def)
  then have "\<not> flag_set FLAG_TERMINATION_ACK_RCV s2" "p_retry_count s2 \<le> 5" "p_retry_count s1 = p_retry_count s"
    using Suc.prems by (auto simp: idle_eq_def keeps_def ctl_def flag_set_def s1_def ppp_chip_def)
  with Suc.IH [of s2] Suc.prems e z show ?case
    by (simp add: s1_def [symmetric] PPP_MAX_RETRY_COUNT_def not_less)
qed simp

theorem pppoe_terminate_hangs:
  assumes "ppp_quiet lib" and "0 < n" and "ppp_ok s" and "\<not> flag_set FLAG_TERMINATION_ACK_RCV s"
    and "p_retry_count s < 5"
  shows "\<forall>t. do_lcp_terminate lib n k t s = Spin"
proof
  fix t
  define m where "m = put_opts [0, 1, 2, 3] (put_proto PPPoE_LCP PPP_TERM_REQ (p_protocol_id (put_session s)) 4
      ((put_session s)\<lparr>p_protocol_id := p_protocol_id (put_session s) + 1\<rparr>))"
  have m: "keeps s m" "p_control_flag m = p_control_flag s" "unat (bswap16 (pm_len (p_msg m))) \<le> OPTMSG_LEN"
    by (auto simp: m_def keeps_def put_opts_def put_proto_def put_session_def ppp_ok_def ctl_def OPTMSG_LEN_def)
  have "ppp_ok m" using m(1) assms(3) by (simp add: keeps_def)
  then obtain s1 where s1: "ppp_send lib n m = Done s1" using quiet_send [OF assms(1,2) _ m(3)] by blast
  have "keeps s s1" "p_control_flag s1 = p_control_flag s"
    using keeps_trans [OF m(1) ppp_send_keeps [OF s1]] ppp_send_flags [OF s1] m(2) by simp_all
  then have "\<not> flag_set FLAG_TERMINATION_ACK_RCV (s1\<lparr>p_retry_count := p_retry_count s1 + 1\<rparr>)"
    "p_retry_count (s1\<lparr>p_retry_count := p_retry_count s1 + 1\<rparr>) \<le> 5"
    using assms(4,5) inc_le [of "p_retry_count s" 5] by (auto simp: flag_set_def keeps_def ctl_def add.commute)
  from term_wait_hangs [OF assms(1) this, of n k t] s1 show "do_lcp_terminate lib n k t s = Spin"
    by (cases t) (simp_all add: do_lcp_terminate_def Let_def m_def [symmetric])
qed


section \<open>Answers\<close>

lemma length_md5 [simp]: "length (md5 m) = 16"
  by (simp add: md5_def length_md5_encode md5_words_def split: prod.splits)

lemma chap_response_value:
  assumes "length (md_buffer (p_context s)) = 64"
  shows "chap_response s cv =
    (if OPTMSG_LEN < length cv + length (p_pw s) + length (p_id s) \<or> OPTMSG_LEN < 17 + length (p_id s) then Wild
     else Done (CV_HV_LEN # md5 (cv @ p_pw s @ p_id s) @ p_id s,
                s\<lparr>p_context := md5_ctx_zero, p_digest := md5 (cv @ p_pw s @ p_id s)\<rparr>))"
proof (cases "length cv + length (p_pw s) + length (p_id s) \<le> OPTMSG_LEN")
  case True
  then have "md5_final (md5_update (md5_init (p_context s)) (cv @ p_pw s @ p_id s)) = (md5 (cv @ p_pw s @ p_id s), md5_ctx_zero)"
    using md5_final_reps [OF md5_update_reps [OF md5_init_reps [OF assms], of "cv @ p_pw s @ p_id s"]]
    by (simp add: OPTMSG_LEN_def)
  then show ?thesis using True by (simp add: chap_response_def Let_def not_less)
qed (simp add: chap_response_def Let_def split: prod.splits)


text \<open>Options as they are on the wire.\<close>

definition opt_enc :: "u8 \<times> bytes \<Rightarrow> bytes" where
  "opt_enc q = fst q # of_nat (length (snd q) + 2) # snd q"

definition opts_enc :: "(u8 \<times> bytes) list \<Rightarrow> bytes" where
  "opts_enc os = concat (map opt_enc os)"

lemma opts_enc_simps [simp]: "opts_enc [] = []" "opts_enc (q # os) = opt_enc q @ opts_enc os"
  by (simp_all add: opts_enc_def)

lemma length_opt_enc [simp]: "length (opt_enc q) = length (snd q) + 2"
  by (simp add: opt_enc_def)

definition lcp_known :: "u8 \<times> bytes \<Rightarrow> bool" where
  "lcp_known q \<longleftrightarrow> fst q = LCP_MRU \<or> fst q = LCP_AUTH \<or> fst q = LCP_MAGICNUM"

lemma lcp_option_known:
  "t + 5 \<le> length buf \<Longrightarrow> \<exists>a'. lcp_option buf code t l a = Done (lcp_known (code, d), a')"
  by (auto simp: lcp_option_def lcp_known_def LCP_MRU_def LCP_AUTH_def LCP_MAGICNUM_def)

lemma lcp_options_parse:
  "drop (unat t) buf = opts_enc os @ post \<Longrightarrow> unat t + length (opts_enc os) + 5 \<le> length buf \<Longrightarrow>
   length buf < 2 ^ 16 \<Longrightarrow> length ack + length (opts_enc os) \<le> OPTMSG_LEN \<Longrightarrow>
   length rej + length (opts_enc os) \<le> OPTMSG_LEN \<Longrightarrow> length os < n \<Longrightarrow>
   \<exists>a'. ppp_options lcp_option n buf t (of_nat (length (opts_enc os))) ack rej a =
     Done (ack @ opts_enc (filter lcp_known os), rej @ opts_enc (filter (\<lambda>q. \<not> lcp_known q) os), a')"
proof (induction os arbitrary: t ack rej n a)
  case Nil
  then show ?case by (cases n) auto
next
  case (Cons q os)
  obtain n' where n: "n = Suc n'" using Cons.prems(6) by (cases n) auto
  obtain code d where q: "q = (code, d)" by fastforce
  let ?l = "length d + 2"
  have l: "?l \<le> OPTMSG_LEN" using Cons.prems(4) q by simp
  then have l8: "unat (of_nat ?l :: u8) = ?l" by (simp add: OPTMSG_LEN_def unat_of_nat take_bit_nat_eq_self del: of_nat_add of_nat_Suc)
  have tot: "length (opts_enc (q # os)) = ?l + length (opts_enc os)" using q by simp
  have b: "drop (unat t) buf = code # of_nat ?l # d @ opts_enc os @ post"
    using Cons.prems(1) q by (simp add: opt_enc_def)
  have tl: "unat t + ?l + length (opts_enc os) + 5 \<le> length buf" using Cons.prems(2) tot by simp
  have r0: "rd buf (unat t) = Some code" "rd buf (unat t + 1) = Some (of_nat ?l)"
    "rd_n buf (unat t) ?l = Some (opt_enc q)"
  proof -
    have "buf ! unat t = drop (unat t) buf ! 0" "buf ! (unat t + 1) = drop (unat t) buf ! 1" using tl by simp_all
    then show "rd buf (unat t) = Some code" "rd buf (unat t + 1) = Some (of_nat ?l)" using tl b by simp_all
    show "rd_n buf (unat t) ?l = Some (opt_enc q)" using tl b q by (simp add: opt_enc_def)
  qed
  obtain a1 where o: "lcp_option buf code (unat t) ?l a = Done (lcp_known q, a1)"
    using lcp_option_known [of "unat t" buf code ?l a d] tl q by auto
  have t': "unat (t + of_nat ?l) = unat t + ?l"
    using tl Cons.prems(3) l by (simp add: unat_word_ariths unat_of_nat take_bit_nat_eq_self OPTMSG_LEN_def del: of_nat_add of_nat_Suc)
  have u: "(ucast (of_nat ?l :: u8) :: u16) = of_nat ?l"
    by (rule word_unat_eq_iff [THEN iffD2])
      (use l8 l in \<open>simp add: unsigned_ucast_eq unat_of_nat take_bit_nat_eq_self OPTMSG_LEN_def del: of_nat_add of_nat_Suc\<close>)
  have nz: "(of_nat (length (opts_enc (q # os))) :: u16) \<noteq> 0"
    using tot Cons.prems(4) by (simp add: word_unat_eq_iff unat_of_nat take_bit_nat_eq_self OPTMSG_LEN_def del: of_nat_add of_nat_Suc)
  have g: "(of_nat (length (opts_enc (q # os))) :: u16) - of_nat ?l = of_nat (length (opts_enc os))"
    unfolding tot of_nat_add [of ?l] by simp
  let ?ack = "if lcp_known q then ack @ opt_enc q else ack" and ?rej = "if lcp_known q then rej else rej @ opt_enc q"
  have st: "ppp_options lcp_option n buf t (of_nat (length (opts_enc (q # os)))) ack rej a =
      ppp_options lcp_option n' buf (t + of_nat ?l) (of_nat (length (opts_enc os))) ?ack ?rej a1"
    unfolding n ppp_options.simps Let_def r0(1) inside_simps and_run.simps r0(2) l8 r0(3) o u g prod.case
    using nz Cons.prems(4,5) tot by (simp only: not_less if_False) auto
  have "\<exists>a'. ppp_options lcp_option n' buf (t + of_nat ?l) (of_nat (length (opts_enc os))) ?ack ?rej a1 =
      Done (?ack @ opts_enc (filter lcp_known os), ?rej @ opts_enc (filter (\<lambda>q. \<not> lcp_known q) os), a')"
  proof (rule Cons.IH)
    show "drop (unat (t + of_nat ?l)) buf = opts_enc os @ post"
      unfolding t' using b by (metis add.commute drop_drop drop_Suc_Cons append_eq_conv_conj add_2_eq_Suc')
    show "unat (t + of_nat ?l) + length (opts_enc os) + 5 \<le> length buf" unfolding t' using tl by simp
  qed (use Cons.prems tot n q in auto)
  then show ?case unfolding st by auto
qed



text \<open>An option of length zero is met for ever.\<close>

lemma lcp_zero_spins:
  "rd buf (unat t) = Some code \<Longrightarrow> rd buf (unat t + 1) = Some 0 \<Longrightarrow> unat t + 5 \<le> length buf \<Longrightarrow> g \<noteq> 0 \<Longrightarrow>
     length ack \<le> OPTMSG_LEN \<Longrightarrow> length rej \<le> OPTMSG_LEN \<Longrightarrow> ppp_options lcp_option n buf t g ack rej a = Spin"
proof (induction n arbitrary: a)
  case (Suc n)
  obtain a1 where o: "lcp_option buf code (unat t) 0 a = Done (lcp_known (code, []), a1)"
    using lcp_option_known [of "unat t" buf code 0 a "[]"] Suc.prems(3) by blast
  have "rd_n buf (unat t) 0 = Some []" using Suc.prems(3) by simp
  with o Suc.IH [OF Suc.prems, of a1] Suc.prems show ?case by (simp add: Let_def not_less)
qed simp

text \<open>A configuration request with an option of length zero in front keeps \<open>ppp_recv()\<close> in its
  option loop for ever, whatever its code: no fuel lets the handler return.\<close>

theorem pppoe_zero_option_hangs:
  assumes "ppp_ok s" and "p_buf s ! 27 = 0" and "be16_of (p_buf s ! 24) (p_buf s ! 25) \<noteq> 4"
  shows "\<forall>k. recv_lcp lib n k PPP_CONFIG_REQ s = Spin"
proof
  fix k
  have len: "length (p_buf s) = 2048" using assms(1) by (simp add: ppp_ok_def PPPOE_DATA_BUF_SIZE_def)
  have "ppp_options lcp_option k (p_buf s) 26 (be16_of (p_buf s ! 24) (p_buf s ! 25) - 4) [] []
      (p_auth_protocol s, p_chap_algorithm s) = Spin"
    by (rule lcp_zero_spins [where code = "p_buf s ! 26"]) (use len assms in \<open>simp_all add: OPTMSG_LEN_def\<close>)
  then show "recv_lcp lib n k PPP_CONFIG_REQ s = Spin" by (simp add: recv_lcp_def Let_def)
qed

text \<open>The maximum receive unit is stored as the authentication protocol: asked for PAP and then for an
  MRU of 1492, the client takes 1492 for the protocol.\<close>

lemma lcp_mru_overwrites:
  "ppp_options lcp_option 3 (replicate 26 0 @ [3, 4, 0xC0, 0x23, 1, 4, 5, 0xD4, 0]) 26 8 [] [] (0, 0) =
     Done ([3, 4, 0xC0, 0x23, 1, 4, 5, 0xD4], [], 1492, 0)"
  by code_simp

text \<open>The check of the destination adds the differences up: a permuted address passes.\<close>

lemma mac_sum_permuted: "mac_sum [2, 1, 3, 4, 5, 6] [1, 2, 3, 4, 5, 6] = 0"
  by code_simp

section \<open>An instance\<close>

text \<open>A chip on a silent network, whose world is the list of the frames sent, and the globals at
  start-up with the credentials of \<open>net_config.h\<close>.\<close>

definition quiet_lib :: "bytes list ppp_lib" where
  "quiet_lib = \<lparr>pl_getSn_SR = \<lambda>c. (SR_MACRAW, c), pl_close = \<lambda>c. c, pl_socket_MACRAW = \<lambda>_ _ c. c,
     pl_getSn_RX_RSR = \<lambda>c. (0, c), pl_wiz_recv_data = \<lambda>n c. (replicate (unat n) 0, c),
     pl_wiz_send_data = \<lambda>d c. c @ [d], pl_setSn_CR_SEND = \<lambda>c. c, pl_setSn_CR_RECV = \<lambda>c. c,
     pl_getSn_CR = \<lambda>c. (0, c), pl_getSHAR = \<lambda>c. ([0, 8, 0xDC, 0x12, 0x34, 0x56], c), pl_setSHAR = \<lambda>_ c. c,
     pl_setSIPR = \<lambda>_ c. c, pl_getMR = \<lambda>c. (0, c), pl_setMR = \<lambda>_ c. c, pl_MR_PPPOE = 8,
     pl_getNETMR2 = \<lambda>c. (0, c), pl_setNETMR2 = \<lambda>_ c. c, pl_NETMR2_PPPoE = 1, pl_setPSID = \<lambda>_ c. c,
     pl_setPSIDR = \<lambda>_ c. c, pl_PTIMER = \<lambda>_ c. c, pl_PTMR = \<lambda>_ c. c, pl_sleep_ms = \<lambda>_ c. c, pl_w6x00 = False\<rparr>"

definition ppp_boot :: "'c \<Rightarrow> 'c ppp" where
  "ppp_boot c = \<lparr>p_chip = c,
     p_msg = \<lparr>pm_dst_mac = replicate 6 0, pm_src_mac = replicate 6 0, pm_ether_type = 0, pm_version_type = 0,
              pm_frame_code = 0, pm_session_id = 0, pm_len = 0\<rparr>,
     p_proto = \<lparr>pp_protocol = 0, pp_pcode = 0, pp_id = 0, pp_len = 0, pp_opt = replicate OPTMSG_LEN 0\<rparr>,
     p_buf = replicate PPPOE_DATA_BUF_SIZE 0, p_NAS_mac = replicate 6 0, p_NAS_sessionid = 0,
     p_auth_protocol = 0, p_chap_algorithm = 0, p_context = md5_ctx_zero, p_digest = replicate 16 0,
     p_protocol_id = 1, p_state = PPPoE_DISCOVERY, p_control_flag = 0, p_retry_send_count = 0,
     p_retry_count = 0, p_recv_count = 0, p_ip = replicate 4 0,
     p_id = [0x57, 0x35, 0x31, 0x30, 0x30, 0x53], p_pw = [0x57, 0x49, 0x5A, 0x6E, 0x65, 0x74]\<rparr>"

lemma quiet_lib_quiet: "ppp_quiet quiet_lib"
  by (simp add: ppp_quiet_def ppp_chip_ok_def quiet_lib_def)

lemma ppp_boot_ok: "ppp_ok (ppp_boot c)"
  by (simp add: ppp_ok_def ppp_boot_def md5_ctx_zero_def)

theorem pppoe_start_type_witness:
  "\<exists>s'. ppp_start quiet_lib 1 1 (ppp_boot []) = Done (s', 2) \<and> ppp_wf s' \<and> p_retry_send_count s' = 1"
proof -
  have "disc_round 0 0 (ppp_boot ([] :: bytes list))"
    using ppp_boot_ok by (auto simp: disc_round_def ppp_boot_def)
  then obtain s' where s': "ppp_start quiet_lib 1 1 (ppp_boot []) = Done (s', 2)" "disc_round 1 0 s'"
    using quiet_attempt [OF quiet_lib_quiet, of 1 0 0 "ppp_boot []" 1] by auto
  have "ppp_wf (ppp_boot ([] :: bytes list))"
    using ppp_boot_ok by (auto simp: ppp_wf_def ppp_boot_def)
  from pppoe_start_type [OF _ this s'(1)] quiet_lib_quiet s' show ?thesis
    by (auto simp: ppp_quiet_def disc_round_def)
qed


theorem pppoe_listening_hangs_witness:
  "\<forall>t. pppoe_task quiet_lib 1 1 t ((ppp_boot [])\<lparr>p_state := PPPoE_CHAP\<rparr>) = Spin"
  by (rule pppoe_listening_hangs [OF quiet_lib_quiet]) (simp_all add: ppp_boot_def ppp_listening_def flag_set_def)


theorem pppoe_zero_option_hangs_witness:
  "\<forall>k. recv_lcp quiet_lib 1 k PPP_CONFIG_REQ
     ((ppp_boot [])\<lparr>p_buf := replicate 24 0 @ [0, 6, 1, 0] @ replicate 2020 0\<rparr>) = Spin"
  by (rule pppoe_zero_option_hangs)
    (use ppp_boot_ok [of "[] :: bytes list"] in \<open>simp_all add: ppp_ok_def PPPOE_DATA_BUF_SIZE_def nth_append be16_of_def\<close>)


end
