(* ===== verification/Spec2Isabelle.thy ===== *)
theory Spec2Isabelle
  imports Toe_Bounds Dns_Props Net_Host Tftp_Props Phy_Props W6300_New Mqtt_Props Netbios_Props Upnp_Props Http_Props Pppoe_Props
begin

text \<open>
  \<^bold>\<open>What the program is.\<close> The repository is an ESP-IDF component that puts WIZnet Ethernet chips
  (W5500, W6100, W6300) behind the BSD socket calls of an application. It is built for one of two
  backends. In the \<^emph>\<open>TOE\<close> backend the chip runs TCP/IP itself: \<open>wiznet_toe.c\<close> gives each of its eight
  hardware sockets out as descriptors, \<open>wiztoe_wrap.c\<close> is what the linker puts in the place of lwIP's
  socket calls, and \<open>wsm_driver_spi.c\<close> carries the register accesses of the WIZnet ioLibrary over SPI.
  In the \<^emph>\<open>Ethernet\<close> backend the chip is a raw MAC under lwIP: \<open>esp_eth_mac_w5500.c\<close> and
  \<open>esp_eth_mac_w6300.c\<close> move frames, \<open>esp_eth_phy_w5500.c\<close> and \<open>esp_eth_phy_w6300.c\<close> watch the link. The
  protocol engines - DHCP and DNS of \<open>wsm_dhcp.c\<close>, the clients and responders of \<open>examples/tftp\<close>,
  \<open>examples/mqtt\<close> and \<open>examples/netbios\<close> - run on either through the table of socket calls
  \<open>net_sock_ops_t\<close>.

  \<^bold>\<open>The parameters.\<close> Code outside the repository is never given a definition. The ioLibrary is the
  record \<open>iolib\<close> (theory \<open>IoLib\<close>) of functions on an arbitrary world \<open>'c\<close> that holds the chip, the
  network and the clock; the SPI, GPIO, heap and RTOS calls of ESP-IDF are recorded in order with
  replies an arbitrary \<open>platform\<close> decides (theory \<open>Spi\<close>), or are the record \<open>emac_env\<close> of the MAC
  drivers and \<open>phy_env\<close> of the PHY drivers; the socket table is \<open>net_sock_ops\<close>. What a theorem needs
  of them is a named hypothesis (\<open>clock_ok\<close>, \<open>rx_chip\<close>, \<open>handles_ok\<close> and the like), satisfied by a
  concrete instance in the witness beside the theorem.

  \<^bold>\<open>Conventions.\<close> A C struct is a record, with prefixed fields; the globals of a file are one record
  passed through its functions. \<open>uint8_t\<close>, \<open>uint16_t\<close>, \<open>uint32_t\<close> are the words \<open>u8\<close>, \<open>u16\<close>, \<open>u32\<close> and wrap;
  an \<open>int\<close> that cannot overflow is \<open>int\<close>. A buffer is a list of bytes; reading outside it is \<open>None\<close>.
  \<open>ESP_GOTO_ON_ERROR\<close> chains are \<open>and_then\<close> and \<open>with_data\<close>. A loop that waits for the chip has no
  bound of its own: it is \<open>poll_loop\<close> with fuel, \<open>None\<close> when the fuel is spent, and the termination
  properties say which fuel is enough - the locale \<open>wait_loop\<close> of the prelude turns a clock that advances into a
  number of turns. Loops with a counter in the source (the command and reset waits) take exactly that
  counter. Logging is left out.

  \<^bold>\<open>The theories.\<close>

  \<^item> \<open>Prelude\<close>: words and byte order, checked buffer reads, \<open>poll_loop\<close> with its rules, the locale
    of loops that return. \<open>Esp\<close>: the error codes. \<open>IoLib\<close>: the ioLibrary parameter.
  \<^item> \<open>Toe_Desc\<close>, \<open>Toe_Listen\<close>, \<open>Toe_Data\<close> model \<open>wiznet_toe.c\<close>: the tables \<open>g_desc\<close> and
    \<open>g_sn_owner\<close>; listeners, accept and close; connect, send, recv and the options. \<open>Toe_Inv\<close> and
    \<open>Toe_Inv_Listen\<close> prove that every operation preserves the table invariant, \<open>Toe_Reach\<close> makes
    every call a step of one relation on the state with a chip that moves on its own between steps,
    \<open>Toe_Props\<close> states ownership, the abstract allocator that \<open>socket()\<close> refines, and the hand-over
    in \<open>accept()\<close>; \<open>Toe_Recover\<close> the recovery of listeners and the exact effect of \<open>close()\<close>;
    \<open>Toe_Time\<close> and \<open>Toe_Bounds\<close> that the waits return and when. \<open>Sim_Chip\<close> is the instance of the
    ioLibrary on which the witnesses are evaluated.
  \<^item> \<open>Wrap\<close> models \<open>wiztoe_wrap.c\<close>, \<open>Wrap_Props\<close> its \<open>errno\<close> contract, the vector calls and the
    addresses.
  \<^item> \<open>Net_Ops\<close> models \<open>net_sock_ops_t\<close> and its TOE provider; the locale \<open>net_sock\<close> states what a
    client may rely on - which sockets are open - and is interpreted on that provider.
    \<open>Dhcp\<close>, \<open>Dns\<close> model the two halves of \<open>wsm_dhcp.c\<close>; \<open>Dhcp_Props\<close>, \<open>Dns_Props\<close> the safety and
    the meaning of the parsers, the round trips and the client's state machine; \<open>Net_Host\<close> the
    balance of sockets, proved in the interface's locale.
  \<^item> \<open>Tftp\<close> models the client of \<open>examples/tftp\<close> with its transport and task; \<open>Tftp_Props\<close> the
    order of the blocks, a complete transfer, giving up, and the balance of sockets.
  \<^item> \<open>Net_Tcp\<close> adds to the vtable what the tasks use: \<open>errno\<close>, the clock and the stream calls, as the
    locale \<open>tcp_host\<close> over \<open>net_sock\<close>, interpreted on the TOE provider, and loops over calls that may
    not return. \<open>Mqtt\<close> models \<open>examples/mqtt/src/mqtt.c\<close>; \<open>Mqtt_Props\<close> that reading keeps the stream in
    step with its packets, the encodings, and the sockets of the sessions. \<open>Netbios\<close> models
    \<open>examples/netbios\<close>; \<open>Netbios_Props\<close> which datagrams are answered, with what, and its socket,
    through the locale \<open>netbios_host\<close>.
  \<^item> \<open>Spi\<close> models \<open>wsm_driver_spi.c\<close> over the recorded calls; \<open>Spi_Props\<close> accounts for every
    resource taken and given back.
  \<^item> \<open>W5500\<close>, \<open>W5500_New\<close> model \<open>esp_eth_mac_w5500.c\<close>; \<open>W5500_Props\<close> the receive and transmit
    rings with wrapping 16-bit pointers. \<open>Mac_New\<close> holds the construction the two MAC drivers share,
    with the locale \<open>mac_ctor\<close> that both provide; \<open>W5500_New\<close> the construction and its unwinding.
  \<^item> \<open>Phy\<close> models both PHY drivers and the mediator over the W5500; \<open>Phy_Props\<close> the register's bit
    fields and link tracking, through the locale \<open>link_poll\<close> that both drivers provide.
  \<^item> \<open>W6300\<close> models \<open>esp_eth_mac_w6300.c\<close>; \<open>W6300_Props\<close> that every write of the initialisation meets
    an unlocked register, and the receive loop; \<open>W6300_New\<close> the QSPI transport and the construction.

  \<^bold>\<open>Not modelled.\<close> The ioLibrary, lwIP, FreeRTOS and ESP-IDF are not in the repository. The bring-up
  code of the backends, the Wi-Fi station and the examples other than TFTP, MQTT and NetBIOS are sequences of calls
  into them, or demonstrations around the socket calls; \<open>PROJECT.json\<close> lists each with the reason.
\<close>

end
